(* ===== verification/Hcan_Prelude.thy ===== *)
theory Hcan_Prelude
  imports Main "HOL-Library.Word"
begin

text \<open>
  Shared material of the HCAN development: the machine integer types of the AVR firmware,
  the byte packing the protocol handlers use, C's truncating integer division, and generic
  facts on lists (first index satisfying a predicate, bounded scans) that the table-driven
  components share. The collections \<open>hcan_arith\<close>, \<open>hcan_bits\<close> and \<open>board_simps\<close> carry the
  simplification rules of the component theories.
\<close>

unbundle bit_operations_syntax

type_synonym u8 = "8 word"
type_synonym u16 = "16 word"
type_synonym u32 = "32 word"

named_theorems hcan_arith \<open>rules on the arithmetic of counters and positions\<close>
named_theorems hcan_bits \<open>masks of the sources as bit masks\<close>
named_theorems board_simps \<open>what the operations on the board leave unchanged\<close>

section \<open>Bytes and words\<close>

text \<open>High and low byte of a 16 bit value (\<open>w >> 8\<close> and \<open>w\<close> stored into a byte), and
  \<open>(hi << 8) | lo\<close>.\<close>

definition hi8 :: "u16 \<Rightarrow> u8" where
  "hi8 w = ucast (drop_bit 8 w)"

definition lo8 :: "u16 \<Rightarrow> u8" where
  "lo8 w = ucast w"

definition word16 :: "u8 \<Rightarrow> u8 \<Rightarrow> u16" where
  "word16 h l = push_bit 8 (ucast h) OR ucast l"

lemma word16_hi8_lo8 [simp]: "word16 (hi8 w) (lo8 w) = w"
  unfolding word16_def hi8_def lo8_def
  by (rule bit_word_eqI) (auto simp: bit_simps)

lemma hi8_word16 [simp]: "hi8 (word16 h l) = h"
  unfolding word16_def hi8_def
  by (rule bit_word_eqI) (auto simp: bit_simps dest: bit_imp_le_length)

lemma lo8_word16 [simp]: "lo8 (word16 h l) = l"
  unfolding word16_def lo8_def
  by (rule bit_word_eqI) (auto simp: bit_simps)

lemma word16_inj [simp]: "word16 h l = word16 h' l' \<longleftrightarrow> h = h' \<and> l = l'"
  by (metis hi8_word16 lo8_word16)

text \<open>The masks of the sources, as \<open>mask n\<close>, so that \<open>bit_simps\<close> applies.\<close>

lemma mask_literals [hcan_bits]:
  "(0x3ff :: u32) = mask 10" "(0x3ff :: u16) = mask 10"
  "(7 :: u8) = mask 3" "(7 :: u32) = mask 3"
  "(3 :: u8) = mask 2" "(3 :: u32) = mask 2"
  "(0xe0 :: u8) = push_bit 5 (mask 3)" "(0xe0 :: u32) = push_bit 5 (mask 3)"
  by (simp_all add: mask_eq_exp_minus_1 push_bit_eq_mult)

lemma unat_u8_less: "unat (b :: u8) < 256"
proof -
  have "unat b < 2 ^ LENGTH(8)" by (rule unsigned_less)
  then show ?thesis by simp
qed

lemma unat_u16_less: "unat (b :: u16) < 65536"
proof -
  have "unat b < 2 ^ LENGTH(16)" by (rule unsigned_less)
  then show ?thesis by simp
qed

lemma unat_minus_1_u8 [simp]: "unat (- 1 :: u8) = 255"
  by (simp add: unsigned_minus_1_eq_mask mask_eq_exp_minus_1)

lemma unat_ucast_u16 [simp]: "unat (ucast (b :: u8) :: u16) = unat b"
proof -
  have "unat b < 2 ^ 16" using unat_u8_less [of b] by simp
  then show ?thesis by (simp add: unsigned_ucast_eq take_bit_nat_eq_self)
qed

lemma unat_word16: "unat (word16 h l) = unat h * 256 + unat l"
proof -
  have "word16 h l = push_bit 8 (ucast h) + ucast l"
    unfolding word16_def
    by (rule disjunctive_add [symmetric]) (auto simp: bit_simps dest: bit_imp_le_length)
  moreover have "unat (push_bit 8 (ucast h) :: u16) = unat h * 256"
    using unat_u8_less [of h]
    by (simp add: push_bit_eq_mult unat_word_ariths)
  ultimately show ?thesis
    using unat_u8_less [of h] unat_u8_less [of l]
    by (simp add: unat_word_ariths)
qed

text \<open>Equality of 32 bit words, bit by bit with concrete positions.\<close>

lemma u32_eqI:
  assumes "list_all (\<lambda>n. bit a n = bit b n)
      [0, 1, 2, 3, 4, 5, 6, 7, 8, 9, 10, 11, 12, 13, 14, 15,
       16, 17, 18, 19, 20, 21, 22, 23, 24, 25, 26, 27, 28, 29, 30, 31]"
  shows "a = (b :: u32)"
proof (rule bit_word_eqI)
  fix n assume "n < LENGTH(32)"
  then have "n \<in> set [0..<32]" by simp
  then have "n \<in> set [0, 1, 2, 3, 4, 5, 6, 7, 8, 9, 10, 11, 12, 13, 14, 15,
       16, 17, 18, 19, 20, 21, 22, 23, 24, 25, 26, 27, 28, 29, 30, 31]"
    by (simp add: numeral_eq_Suc less_Suc_eq)
  with assms show "bit a n = bit b n" by (simp only: list_all_iff)
qed

text \<open>A decrement of a non-zero counter and an increment that does not reach the top of the
  range are the ones of the natural numbers.\<close>

lemma unat_minus_one_pos: "(w :: 'a::len word) \<noteq> 0 \<Longrightarrow> unat (w - 1) = unat w - 1"
  by (simp add: unat_minus_one)

lemma uint_minus_one_pos: "(w :: 'a::len word) \<noteq> 0 \<Longrightarrow> uint (w - 1) = uint w - 1"
proof -
  assume w: "w \<noteq> 0"
  then have "0 < unat w" by (simp add: unat_gt_0)
  then have "int (unat (w - 1)) = int (unat w) - 1" using unat_minus_one_pos [OF w] by simp
  then show ?thesis by simp
qed

lemma unat_plus_one_lt: "unat (w :: 'a::len word) + 1 < 2 ^ LENGTH('a) \<Longrightarrow> unat (w + 1) = unat w + 1"
  by (simp add: unat_word_ariths)

lemma word_gt_zero_iff: "(0 < (w :: 'a::len word)) = (w \<noteq> 0)"
  by (simp add: word_neq_0_conv)

section \<open>C integer division\<close>

text \<open>C's \<open>/\<close> on signed operands truncates towards zero; a zero divisor is undefined
  behaviour and is the value \<open>None\<close>.\<close>

definition cdiv :: "int \<Rightarrow> int \<Rightarrow> int option" where
  "cdiv a b = (if b = 0 then None else Some (sgn a * sgn b * (\<bar>a\<bar> div \<bar>b\<bar>)))"

lemma cdiv_nonneg [hcan_arith]: "0 \<le> a \<Longrightarrow> 0 < b \<Longrightarrow> cdiv a b = Some (a div b)"
  by (cases "a = 0") (auto simp: cdiv_def sgn_if)

lemma cdiv_neg [hcan_arith]: "a < 0 \<Longrightarrow> 0 < b \<Longrightarrow> cdiv a b = Some (- ((- a) div b))"
  by (auto simp: cdiv_def sgn_if)

lemma cdiv_eq_None [simp]: "cdiv a b = None \<longleftrightarrow> b = 0"
  by (simp add: cdiv_def)

section \<open>Table scans\<close>

text \<open>The firmware keeps its tables in fixed arrays and finds an entry by a loop that
  returns the first matching index.\<close>

fun first_index :: "('a \<Rightarrow> bool) \<Rightarrow> 'a list \<Rightarrow> nat option" where
  "first_index P [] = None"
| "first_index P (x # xs) = (if P x then Some 0 else map_option Suc (first_index P xs))"

lemma first_index_SomeD:
  "first_index P xs = Some i \<Longrightarrow> i < length xs \<and> P (xs ! i) \<and> (\<forall>j < i. \<not> P (xs ! j))"
proof (induction xs arbitrary: i)
  case Nil
  then show ?case by simp
next
  case (Cons x xs)
  show ?case
  proof (cases "P x")
    case True
    with Cons.prems show ?thesis by simp
  next
    case False
    with Cons.prems obtain k where k: "first_index P xs = Some k" "i = Suc k"
      by auto
    from Cons.IH [OF k(1)] False k(2) show ?thesis
      by (auto simp: nth_Cons split: nat.splits)
  qed
qed

lemma first_index_None_iff: "first_index P xs = None \<longleftrightarrow> (\<forall>x \<in> set xs. \<not> P x)"
  by (induction xs) auto

lemma first_index_exists: "x \<in> set xs \<Longrightarrow> P x \<Longrightarrow> \<exists>i. first_index P xs = Some i"
  using first_index_None_iff [of P xs] by (cases "first_index P xs") auto

lemma first_index_less: "first_index P xs = Some i \<Longrightarrow> i < length xs"
  by (simp add: first_index_SomeD)

lemma length_filter_less_iff: "length (filter P xs) < length xs \<longleftrightarrow> (\<exists>x \<in> set xs. \<not> P x)"
proof -
  have "length (filter P xs) = length xs \<longleftrightarrow> (\<forall>x \<in> set xs. P x)"
    by (metis filter_id_conv length_filter_less nat_neq_iff)
  moreover have "length (filter P xs) \<le> length xs" by simp
  ultimately show ?thesis by (metis le_neq_implies_less nat_less_le)
qed

lemma count_update_true:
  "i < length xs \<Longrightarrow> \<not> P (xs ! i) \<Longrightarrow> P y
    \<Longrightarrow> length (filter P (xs[i := y])) = Suc (length (filter P xs))"
  by (induction xs arbitrary: i) (auto simp: nth_Cons split: nat.splits)

lemma count_update_false:
  "i < length xs \<Longrightarrow> P (xs ! i) \<Longrightarrow> \<not> P y
    \<Longrightarrow> Suc (length (filter P (xs[i := y]))) = length (filter P xs)"
  by (induction xs arbitrary: i) (auto simp: nth_Cons split: nat.splits)

end
