(* ===== verification/Hcan_Defs.thy ===== *)
theory Hcan_Defs
  imports Hcan_Prelude
begin

text \<open>
  The constants of the HCAN protocol: protocols, services, multicast addresses and EEPROM
  layout (\<open>include/hcan.h\<close>, \<open>include/hcan_multicast.h\<close>, \<open>include/hcan_eeprom.h\<close>), message ids of
  the services (\<open>include/hcan-def.h\<close>), the EDS block types (\<open>include/eds-structs.h\<close>) and the
  frame limits of \<open>canix/canix.h\<close>. They are input abbreviations, so proofs see the numerals.
\<close>

section \<open>Protocols, services, addresses\<close>

abbreviation (input) HCAN_PROTO_SFP :: u8 where "HCAN_PROTO_SFP \<equiv> 1"
abbreviation (input) HCAN_PROTO_DAAP :: u8 where "HCAN_PROTO_DAAP \<equiv> 2"
abbreviation (input) HCAN_PROTO_SYSLOG :: u8 where "HCAN_PROTO_SYSLOG \<equiv> 3"
abbreviation (input) HCAN_SRV_HMS :: u8 where "HCAN_SRV_HMS \<equiv> 1"
abbreviation (input) HCAN_SRV_SLS :: u8 where "HCAN_SRV_SLS \<equiv> 4"
abbreviation (input) HCAN_SRV_HES :: u8 where "HCAN_SRV_HES \<equiv> 5"
abbreviation (input) HCAN_SRV_RTS :: u8 where "HCAN_SRV_RTS \<equiv> 6"
abbreviation (input) HCAN_SRV_EDS :: u8 where "HCAN_SRV_EDS \<equiv> 7"
abbreviation (input) HCAN_SRV_USVS :: u8 where "HCAN_SRV_USVS \<equiv> 8"
abbreviation (input) HCAN_HMS_DEV_STATE_BOOTING :: u8 where "HCAN_HMS_DEV_STATE_BOOTING \<equiv> 0"
abbreviation (input) HCAN_HMS_DEV_STATE_BOOTLOADER :: u8 where "HCAN_HMS_DEV_STATE_BOOTLOADER \<equiv> 1"
abbreviation (input) HCAN_HMS_DEV_STATE_APPLICATION :: u8 where "HCAN_HMS_DEV_STATE_APPLICATION \<equiv> 2"
abbreviation (input) HCAN_PRIO_LOW :: u8 where "HCAN_PRIO_LOW \<equiv> 3"
abbreviation (input) HCAN_PRIO_HI :: u8 where "HCAN_PRIO_HI \<equiv> 0"
abbreviation (input) SYSLOG_PRIO_CRITICAL :: u8 where "SYSLOG_PRIO_CRITICAL \<equiv> 1"
abbreviation (input) SYSLOG_PRIO_ERROR :: u8 where "SYSLOG_PRIO_ERROR \<equiv> 2"
abbreviation (input) SYSLOG_PRIO_WARNING :: u8 where "SYSLOG_PRIO_WARNING \<equiv> 3"
abbreviation (input) SYSLOG_PRIO_DEBUG :: u8 where "SYSLOG_PRIO_DEBUG \<equiv> 4"
abbreviation (input) HCAN_MULTICAST_PING :: u16 where "HCAN_MULTICAST_PING \<equiv> 31"
abbreviation (input) HCAN_MULTICAST_CONTROL :: u16 where "HCAN_MULTICAST_CONTROL \<equiv> 35"
abbreviation (input) HCAN_MULTICAST_INFO :: u16 where "HCAN_MULTICAST_INFO \<equiv> 36"
abbreviation (input) HCAN_MULTICAST_SYSLOG :: u16 where "HCAN_MULTICAST_SYSLOG \<equiv> 970"
abbreviation (input) EEPR_SELF_ADDR :: nat where "EEPR_SELF_ADDR \<equiv> 2"
abbreviation (input) EEPR_BOARD_TYPE :: nat where "EEPR_BOARD_TYPE \<equiv> 4"
abbreviation (input) EEPR_DEBUG_LEVEL :: nat where "EEPR_DEBUG_LEVEL \<equiv> 5"
abbreviation (input) EEPR_FIRMWARE_CRC16 :: nat where "EEPR_FIRMWARE_CRC16 \<equiv> 16"
abbreviation (input) EEPR_FIRMWARE_SIZE :: nat where "EEPR_FIRMWARE_SIZE \<equiv> 18"
abbreviation (input) MAX_FRAME_CALLBACKS :: nat where "MAX_FRAME_CALLBACKS \<equiv> 16"
abbreviation (input) MAX_IDLE_CALLBACKS :: nat where "MAX_IDLE_CALLBACKS \<equiv> 8"
abbreviation (input) MAX_RTC_CALLBACKS :: nat where "MAX_RTC_CALLBACKS \<equiv> 8"
abbreviation (input) CANIX_QUEUE_SIZE :: nat where "CANIX_QUEUE_SIZE \<equiv> 12"

section \<open>Message ids\<close>

abbreviation (input) HCAN_HMS_PING_REQUEST :: u8 where "HCAN_HMS_PING_REQUEST \<equiv> 1"
abbreviation (input) HCAN_HMS_PING_REPLAY :: u8 where "HCAN_HMS_PING_REPLAY \<equiv> 2"
abbreviation (input) HCAN_HMS_DEVICE_STATE_REQUEST :: u8 where "HCAN_HMS_DEVICE_STATE_REQUEST \<equiv> 3"
abbreviation (input) HCAN_HMS_DEVICE_STATE_REPLAY :: u8 where "HCAN_HMS_DEVICE_STATE_REPLAY \<equiv> 4"
abbreviation (input) HCAN_HMS_DEVICE_RESET :: u8 where "HCAN_HMS_DEVICE_RESET \<equiv> 5"
abbreviation (input) HCAN_HMS_DEVICE_BOOT_STOP :: u8 where "HCAN_HMS_DEVICE_BOOT_STOP \<equiv> 6"
abbreviation (input) HCAN_HMS_DEVICE_BOOT_STOP_ACK :: u8 where "HCAN_HMS_DEVICE_BOOT_STOP_ACK \<equiv> 7"
abbreviation (input) HCAN_HMS_DEVICE_LOAD_APP :: u8 where "HCAN_HMS_DEVICE_LOAD_APP \<equiv> 8"
abbreviation (input) HCAN_HMS_DEVICE_TYPE_REQUEST :: u8 where "HCAN_HMS_DEVICE_TYPE_REQUEST \<equiv> 9"
abbreviation (input) HCAN_HMS_DEVICE_TYPE_REPLAY :: u8 where "HCAN_HMS_DEVICE_TYPE_REPLAY \<equiv> 10"
abbreviation (input) HCAN_HMS_FLASH_BUFFER_FILL :: u8 where "HCAN_HMS_FLASH_BUFFER_FILL \<equiv> 16"
abbreviation (input) HCAN_HMS_FLASH_BUFFER_FILL_ACK :: u8 where "HCAN_HMS_FLASH_BUFFER_FILL_ACK \<equiv> 17"
abbreviation (input) HCAN_HMS_FLASH_BUFFER_WRITE :: u8 where "HCAN_HMS_FLASH_BUFFER_WRITE \<equiv> 18"
abbreviation (input) HCAN_HMS_FLASH_BUFFER_WRITE_ACK :: u8 where "HCAN_HMS_FLASH_BUFFER_WRITE_ACK \<equiv> 19"
abbreviation (input) HCAN_HMS_INTERNAL_EEPROM_WRITE :: u8 where "HCAN_HMS_INTERNAL_EEPROM_WRITE \<equiv> 20"
abbreviation (input) HCAN_HMS_INTERNAL_EEPROM_WRITE_ACK :: u8 where "HCAN_HMS_INTERNAL_EEPROM_WRITE_ACK \<equiv> 21"
abbreviation (input) HCAN_HMS_INTERNAL_EEPROM_READ_REQUEST :: u8 where "HCAN_HMS_INTERNAL_EEPROM_READ_REQUEST \<equiv> 22"
abbreviation (input) HCAN_HMS_INTERNAL_EEPROM_READ_REPLAY :: u8 where "HCAN_HMS_INTERNAL_EEPROM_READ_REPLAY \<equiv> 23"
abbreviation (input) HCAN_HMS_INTERNAL_EEPROM_READ_BULK_REQUEST :: u8 where "HCAN_HMS_INTERNAL_EEPROM_READ_BULK_REQUEST \<equiv> 24"
abbreviation (input) HCAN_HMS_INTERNAL_EEPROM_READ_BULK_REPLAY :: u8 where "HCAN_HMS_INTERNAL_EEPROM_READ_BULK_REPLAY \<equiv> 25"
abbreviation (input) HCAN_HMS_UPTIME_QUERY :: u8 where "HCAN_HMS_UPTIME_QUERY \<equiv> 30"
abbreviation (input) HCAN_HMS_UPTIME_REPLAY :: u8 where "HCAN_HMS_UPTIME_REPLAY \<equiv> 31"
abbreviation (input) HCAN_HMS_SYSLOG_LEVEL_SET :: u8 where "HCAN_HMS_SYSLOG_LEVEL_SET \<equiv> 32"
abbreviation (input) HCAN_HMS_BUILD_VERSION_QUERY :: u8 where "HCAN_HMS_BUILD_VERSION_QUERY \<equiv> 33"
abbreviation (input) HCAN_HMS_BUILD_VERSION_REPLAY :: u8 where "HCAN_HMS_BUILD_VERSION_REPLAY \<equiv> 34"
abbreviation (input) HCAN_HMS_CAN_EC_QUERY :: u8 where "HCAN_HMS_CAN_EC_QUERY \<equiv> 35"
abbreviation (input) HCAN_HMS_CAN_EC_REPLAY :: u8 where "HCAN_HMS_CAN_EC_REPLAY \<equiv> 36"
abbreviation (input) HCAN_HMS_FLASH_CRC16_QUERY :: u8 where "HCAN_HMS_FLASH_CRC16_QUERY \<equiv> 37"
abbreviation (input) HCAN_HMS_FLASH_CRC16_REPLAY :: u8 where "HCAN_HMS_FLASH_CRC16_REPLAY \<equiv> 38"
abbreviation (input) HCAN_HMS_LOOP_THROUGHPUT_QUERY :: u8 where "HCAN_HMS_LOOP_THROUGHPUT_QUERY \<equiv> 39"
abbreviation (input) HCAN_HMS_LOOP_THROUGHPUT_REPLAY :: u8 where "HCAN_HMS_LOOP_THROUGHPUT_REPLAY \<equiv> 40"
abbreviation (input) HCAN_HMS_RX_RECEIVED_QUERY :: u8 where "HCAN_HMS_RX_RECEIVED_QUERY \<equiv> 41"
abbreviation (input) HCAN_HMS_RX_RECEIVED_REPLAY :: u8 where "HCAN_HMS_RX_RECEIVED_REPLAY \<equiv> 42"
abbreviation (input) HCAN_HMS_RX_LOST_QUERY :: u8 where "HCAN_HMS_RX_LOST_QUERY \<equiv> 43"
abbreviation (input) HCAN_HMS_RX_LOST_REPLAY :: u8 where "HCAN_HMS_RX_LOST_REPLAY \<equiv> 44"
abbreviation (input) HCAN_HMS_TX_SENT_QUERY :: u8 where "HCAN_HMS_TX_SENT_QUERY \<equiv> 45"
abbreviation (input) HCAN_HMS_TX_SENT_REPLAY :: u8 where "HCAN_HMS_TX_SENT_REPLAY \<equiv> 46"
abbreviation (input) HCAN_HMS_TX_DROPPED_QUERY :: u8 where "HCAN_HMS_TX_DROPPED_QUERY \<equiv> 47"
abbreviation (input) HCAN_HMS_TX_DROPPED_REPLAY :: u8 where "HCAN_HMS_TX_DROPPED_REPLAY \<equiv> 48"
abbreviation (input) HCAN_HMS_RX_TX_STATS_RESET :: u8 where "HCAN_HMS_RX_TX_STATS_RESET \<equiv> 49"
abbreviation (input) HCAN_SLS_BOOT_RESETFLAG_LOG :: u8 where "HCAN_SLS_BOOT_RESETFLAG_LOG \<equiv> 1"
abbreviation (input) HCAN_SLS_FIRMWARE_CRC16_ERROR :: u8 where "HCAN_SLS_FIRMWARE_CRC16_ERROR \<equiv> 2"
abbreviation (input) HCAN_SLS_FIRMWARE_CONFIG_COMPAT_ERROR :: u8 where "HCAN_SLS_FIRMWARE_CONFIG_COMPAT_ERROR \<equiv> 3"
abbreviation (input) HCAN_SLS_DUMP_DEBUG_INFO :: u8 where "HCAN_SLS_DUMP_DEBUG_INFO \<equiv> 4"
abbreviation (input) HCAN_HES_TASTER_DOWN :: u8 where "HCAN_HES_TASTER_DOWN \<equiv> 1"
abbreviation (input) HCAN_HES_TASTER_UP :: u8 where "HCAN_HES_TASTER_UP \<equiv> 2"
abbreviation (input) HCAN_HES_POWER_GROUP_ON :: u8 where "HCAN_HES_POWER_GROUP_ON \<equiv> 10"
abbreviation (input) HCAN_HES_POWER_GROUP_OFF :: u8 where "HCAN_HES_POWER_GROUP_OFF \<equiv> 11"
abbreviation (input) HCAN_HES_POWER_GROUP_STATE_QUERY :: u8 where "HCAN_HES_POWER_GROUP_STATE_QUERY \<equiv> 12"
abbreviation (input) HCAN_HES_POWER_GROUP_STATE_REPLAY :: u8 where "HCAN_HES_POWER_GROUP_STATE_REPLAY \<equiv> 13"
abbreviation (input) HCAN_HES_POWER_GROUP_TIMER_QUERY :: u8 where "HCAN_HES_POWER_GROUP_TIMER_QUERY \<equiv> 14"
abbreviation (input) HCAN_HES_POWER_GROUP_TIMER_REPLAY :: u8 where "HCAN_HES_POWER_GROUP_TIMER_REPLAY \<equiv> 15"
abbreviation (input) HCAN_HES_POWER_GROUP_SET_TIMER :: u8 where "HCAN_HES_POWER_GROUP_SET_TIMER \<equiv> 16"
abbreviation (input) HCAN_HES_POWER_GROUP_STATE_INFO :: u8 where "HCAN_HES_POWER_GROUP_STATE_INFO \<equiv> 17"
abbreviation (input) HCAN_HES_ROLLADEN_POSITION_SET :: u8 where "HCAN_HES_ROLLADEN_POSITION_SET \<equiv> 20"
abbreviation (input) HCAN_HES_ROLLADEN_POSITION_REQUEST :: u8 where "HCAN_HES_ROLLADEN_POSITION_REQUEST \<equiv> 21"
abbreviation (input) HCAN_HES_ROLLADEN_POSITION_REPLAY :: u8 where "HCAN_HES_ROLLADEN_POSITION_REPLAY \<equiv> 22"
abbreviation (input) HCAN_HES_ROLLADEN_DEFINE_POSITION :: u8 where "HCAN_HES_ROLLADEN_DEFINE_POSITION \<equiv> 23"
abbreviation (input) HCAN_HES_ROLLADEN_POSITION_CHANGED_INFO :: u8 where "HCAN_HES_ROLLADEN_POSITION_CHANGED_INFO \<equiv> 24"
abbreviation (input) HCAN_HES_1WIRE_DISCOVER :: u8 where "HCAN_HES_1WIRE_DISCOVER \<equiv> 30"
abbreviation (input) HCAN_HES_1WIRE_DISCOVERED_PART_1 :: u8 where "HCAN_HES_1WIRE_DISCOVERED_PART_1 \<equiv> 31"
abbreviation (input) HCAN_HES_1WIRE_DISCOVERED_PART_2 :: u8 where "HCAN_HES_1WIRE_DISCOVERED_PART_2 \<equiv> 32"
abbreviation (input) HCAN_HES_1WIRE_ERROR :: u8 where "HCAN_HES_1WIRE_ERROR \<equiv> 33"
abbreviation (input) HCAN_HES_1WIRE_TEMPERATURE :: u8 where "HCAN_HES_1WIRE_TEMPERATURE \<equiv> 34"
abbreviation (input) HCAN_HES_1WIRE_TEMPERATURE_QUERY :: u8 where "HCAN_HES_1WIRE_TEMPERATURE_QUERY \<equiv> 35"
abbreviation (input) HCAN_HES_1WIRE_TEMPERATURE_REPLAY :: u8 where "HCAN_HES_1WIRE_TEMPERATURE_REPLAY \<equiv> 36"
abbreviation (input) HCAN_HES_REEDKONTAKT_OFFEN :: u8 where "HCAN_HES_REEDKONTAKT_OFFEN \<equiv> 40"
abbreviation (input) HCAN_HES_REEDKONTAKT_STATE_QUERY :: u8 where "HCAN_HES_REEDKONTAKT_STATE_QUERY \<equiv> 41"
abbreviation (input) HCAN_HES_REEDKONTAKT_STATE_REPLAY :: u8 where "HCAN_HES_REEDKONTAKT_STATE_REPLAY \<equiv> 42"
abbreviation (input) HCAN_HES_REEDKONTAKT_STATE_CHANGE :: u8 where "HCAN_HES_REEDKONTAKT_STATE_CHANGE \<equiv> 43"
abbreviation (input) HCAN_HES_PVSENSOR_STATE_REQUEST :: u8 where "HCAN_HES_PVSENSOR_STATE_REQUEST \<equiv> 44"
abbreviation (input) HCAN_HES_PVSENSOR_STATE_REPLAY :: u8 where "HCAN_HES_PVSENSOR_STATE_REPLAY \<equiv> 45"
abbreviation (input) HCAN_HES_PVSENSOR_STATE_CHANGE_INFO :: u8 where "HCAN_HES_PVSENSOR_STATE_CHANGE_INFO \<equiv> 46"
abbreviation (input) HCAN_HES_HEIZUNG_DETAILS_REQUEST :: u8 where "HCAN_HES_HEIZUNG_DETAILS_REQUEST \<equiv> 50"
abbreviation (input) HCAN_HES_HEIZUNG_MODE_OFF_DETAILS :: u8 where "HCAN_HES_HEIZUNG_MODE_OFF_DETAILS \<equiv> 51"
abbreviation (input) HCAN_HES_HEIZUNG_SET_MODE_OFF :: u8 where "HCAN_HES_HEIZUNG_SET_MODE_OFF \<equiv> 52"
abbreviation (input) HCAN_HES_HEIZUNG_MODE_MANUAL_DETAILS :: u8 where "HCAN_HES_HEIZUNG_MODE_MANUAL_DETAILS \<equiv> 53"
abbreviation (input) HCAN_HES_HEIZUNG_SET_MODE_MANUAL :: u8 where "HCAN_HES_HEIZUNG_SET_MODE_MANUAL \<equiv> 54"
abbreviation (input) HCAN_HES_HEIZUNG_MODE_THERMOSTAT_DETAILS :: u8 where "HCAN_HES_HEIZUNG_MODE_THERMOSTAT_DETAILS \<equiv> 55"
abbreviation (input) HCAN_HES_HEIZUNG_SET_MODE_THERMOSTAT_DETAILS :: u8 where "HCAN_HES_HEIZUNG_SET_MODE_THERMOSTAT_DETAILS \<equiv> 56"
abbreviation (input) HCAN_HES_HEIZUNG_MODE_AUTOMATIK_DETAILS :: u8 where "HCAN_HES_HEIZUNG_MODE_AUTOMATIK_DETAILS \<equiv> 57"
abbreviation (input) HCAN_HES_HEIZUNG_SET_MODE_AUTOMATIK :: u8 where "HCAN_HES_HEIZUNG_SET_MODE_AUTOMATIK \<equiv> 58"
abbreviation (input) HCAN_HES_HEIZUNG_TIST_REQUEST :: u8 where "HCAN_HES_HEIZUNG_TIST_REQUEST \<equiv> 59"
abbreviation (input) HCAN_HES_HEIZUNG_TIST_REPLAY :: u8 where "HCAN_HES_HEIZUNG_TIST_REPLAY \<equiv> 60"
abbreviation (input) HCAN_HES_HEIZUNG_WAERMEBEDARF_INFO :: u8 where "HCAN_HES_HEIZUNG_WAERMEBEDARF_INFO \<equiv> 61"
abbreviation (input) HCAN_HES_HEIZSTEUERUNG_STATE_REQUEST :: u8 where "HCAN_HES_HEIZSTEUERUNG_STATE_REQUEST \<equiv> 62"
abbreviation (input) HCAN_HES_HEIZSTEUERUNG_STATE_REPLAY :: u8 where "HCAN_HES_HEIZSTEUERUNG_STATE_REPLAY \<equiv> 63"
abbreviation (input) HCAN_HES_HEIZSTEUERUNG_STATE_INFO :: u8 where "HCAN_HES_HEIZSTEUERUNG_STATE_INFO \<equiv> 64"
abbreviation (input) HCAN_HES_HEIZSTEUERUNG_SET_VL :: u8 where "HCAN_HES_HEIZSTEUERUNG_SET_VL \<equiv> 65"
abbreviation (input) HCAN_HES_HEIZUNG_SOLLTEMP_LINE_REQUEST :: u8 where "HCAN_HES_HEIZUNG_SOLLTEMP_LINE_REQUEST \<equiv> 66"
abbreviation (input) HCAN_HES_HEIZUNG_SOLLTEMP_LINE_REPLAY :: u8 where "HCAN_HES_HEIZUNG_SOLLTEMP_LINE_REPLAY \<equiv> 67"
abbreviation (input) HCAN_HES_HEIZUNG_SOLLTEMP_WRITE_LINE :: u8 where "HCAN_HES_HEIZUNG_SOLLTEMP_WRITE_LINE \<equiv> 68"
abbreviation (input) HCAN_HES_HEIZUNG_SOLLTEMP_WRITE_LINE_ACK :: u8 where "HCAN_HES_HEIZUNG_SOLLTEMP_WRITE_LINE_ACK \<equiv> 69"
abbreviation (input) HCAN_HES_WECKER_SET :: u8 where "HCAN_HES_WECKER_SET \<equiv> 72"
abbreviation (input) HCAN_HES_WECKER_DETAILS_REQUEST :: u8 where "HCAN_HES_WECKER_DETAILS_REQUEST \<equiv> 73"
abbreviation (input) HCAN_HES_WECKER_DETAILS :: u8 where "HCAN_HES_WECKER_DETAILS \<equiv> 74"
abbreviation (input) HCAN_HES_HELLIGKEITS_INFO :: u8 where "HCAN_HES_HELLIGKEITS_INFO \<equiv> 71"
abbreviation (input) HCAN_HES_POTI_POS_CHANGED :: u8 where "HCAN_HES_POTI_POS_CHANGED \<equiv> 70"
abbreviation (input) HCAN_HES_CONFIG_RELOAD :: u8 where "HCAN_HES_CONFIG_RELOAD \<equiv> 100"
abbreviation (input) HCAN_HES_CONFIG_RAM_USAGE_REQUEST :: u8 where "HCAN_HES_CONFIG_RAM_USAGE_REQUEST \<equiv> 101"
abbreviation (input) HCAN_HES_CONFIG_RAM_USAGE_REPLAY :: u8 where "HCAN_HES_CONFIG_RAM_USAGE_REPLAY \<equiv> 102"
abbreviation (input) HCAN_HES_ZEITZONE_DETAILS_REQUEST :: u8 where "HCAN_HES_ZEITZONE_DETAILS_REQUEST \<equiv> 110"
abbreviation (input) HCAN_HES_ZEITZONE_DETAILS_REPLAY :: u8 where "HCAN_HES_ZEITZONE_DETAILS_REPLAY \<equiv> 111"
abbreviation (input) HCAN_HES_ZEITZONE_WRITE_DETAILS :: u8 where "HCAN_HES_ZEITZONE_WRITE_DETAILS \<equiv> 112"
abbreviation (input) HCAN_HES_ZEITZONE_WRITE_DETAILS_ACK :: u8 where "HCAN_HES_ZEITZONE_WRITE_DETAILS_ACK \<equiv> 113"
abbreviation (input) HCAN_HES_ZEITZONE_TEST_MATCH_REQUERST :: u8 where "HCAN_HES_ZEITZONE_TEST_MATCH_REQUERST \<equiv> 114"
abbreviation (input) HCAN_HES_ZEITZONE_TEST_MATCH_REPLAY :: u8 where "HCAN_HES_ZEITZONE_TEST_MATCH_REPLAY \<equiv> 115"
abbreviation (input) HCAN_RTS_TIME_INFO :: u8 where "HCAN_RTS_TIME_INFO \<equiv> 1"
abbreviation (input) HCAN_RTS_DATE_INFO :: u8 where "HCAN_RTS_DATE_INFO \<equiv> 2"
abbreviation (input) HCAN_RTS_TIME_REQUEST :: u8 where "HCAN_RTS_TIME_REQUEST \<equiv> 3"
abbreviation (input) HCAN_RTS_DATE_REQUEST :: u8 where "HCAN_RTS_DATE_REQUEST \<equiv> 4"
abbreviation (input) HCAN_EDS_GET_NEXT_BLOCK :: u8 where "HCAN_EDS_GET_NEXT_BLOCK \<equiv> 1"
abbreviation (input) HCAN_EDS_GET_NEXT_BLOCK_REPLAY :: u8 where "HCAN_EDS_GET_NEXT_BLOCK_REPLAY \<equiv> 2"
abbreviation (input) HCAN_EDS_DEFRAGMENT :: u8 where "HCAN_EDS_DEFRAGMENT \<equiv> 3"
abbreviation (input) HCAN_EDS_ALLOCATE_BLOCK :: u8 where "HCAN_EDS_ALLOCATE_BLOCK \<equiv> 4"
abbreviation (input) HCAN_EDS_ALLOCATE_BLOCK_REPLAY :: u8 where "HCAN_EDS_ALLOCATE_BLOCK_REPLAY \<equiv> 5"
abbreviation (input) HCAN_EDS_FREE_BLOCK :: u8 where "HCAN_EDS_FREE_BLOCK \<equiv> 6"
abbreviation (input) HCAN_EDS_FREE_BLOCK_REPLAY :: u8 where "HCAN_EDS_FREE_BLOCK_REPLAY \<equiv> 7"
abbreviation (input) HCAN_EDS_READ_FROM_BLOCK :: u8 where "HCAN_EDS_READ_FROM_BLOCK \<equiv> 8"
abbreviation (input) HCAN_EDS_READ_FROM_BLOCK_REPLAY :: u8 where "HCAN_EDS_READ_FROM_BLOCK_REPLAY \<equiv> 9"
abbreviation (input) HCAN_EDS_WRITE_TO_BLOCK :: u8 where "HCAN_EDS_WRITE_TO_BLOCK \<equiv> 10"
abbreviation (input) HCAN_EDS_WRITE_TO_BLOCK_REPLAY :: u8 where "HCAN_EDS_WRITE_TO_BLOCK_REPLAY \<equiv> 11"
abbreviation (input) HCAN_EDS_FORMAT :: u8 where "HCAN_EDS_FORMAT \<equiv> 12"
abbreviation (input) HCAN_USVS_STATE_REQUEST :: u8 where "HCAN_USVS_STATE_REQUEST \<equiv> 1"
abbreviation (input) HCAN_USVS_STATE_INFO :: u8 where "HCAN_USVS_STATE_INFO \<equiv> 2"
abbreviation (input) HCAN_USVS_VOLTAGE_REQUEST :: u8 where "HCAN_USVS_VOLTAGE_REQUEST \<equiv> 3"
abbreviation (input) HCAN_USVS_VOLTAGE_REPLAY :: u8 where "HCAN_USVS_VOLTAGE_REPLAY \<equiv> 4"
abbreviation (input) HCAN_USVS_VOLTAGE_STATS_REQUEST :: u8 where "HCAN_USVS_VOLTAGE_STATS_REQUEST \<equiv> 5"
abbreviation (input) HCAN_USVS_VOLTAGE_STATS_REPLAY :: u8 where "HCAN_USVS_VOLTAGE_STATS_REPLAY \<equiv> 6"
abbreviation (input) HCAN_USVS_VOLTAGE_STATS_RESET :: u8 where "HCAN_USVS_VOLTAGE_STATS_RESET \<equiv> 7"

section \<open>EDS block types\<close>

abbreviation (input) EDS_taster_BLOCK_ID :: u8 where "EDS_taster_BLOCK_ID \<equiv> 10"
abbreviation (input) EDS_powerport_BLOCK_ID :: u8 where "EDS_powerport_BLOCK_ID \<equiv> 11"
abbreviation (input) EDS_rolladen_BLOCK_ID :: u8 where "EDS_rolladen_BLOCK_ID \<equiv> 12"
abbreviation (input) EDS_heizung_BLOCK_ID :: u8 where "EDS_heizung_BLOCK_ID \<equiv> 13"
abbreviation (input) EDS_tempsensor_BLOCK_ID :: u8 where "EDS_tempsensor_BLOCK_ID \<equiv> 14"
abbreviation (input) EDS_reedkontakt_BLOCK_ID :: u8 where "EDS_reedkontakt_BLOCK_ID \<equiv> 15"
abbreviation (input) EDS_timeservice_BLOCK_ID :: u8 where "EDS_timeservice_BLOCK_ID \<equiv> 16"
abbreviation (input) EDS_lichtzone_BLOCK_ID :: u8 where "EDS_lichtzone_BLOCK_ID \<equiv> 17"
abbreviation (input) EDS_zeitzone_BLOCK_ID :: u8 where "EDS_zeitzone_BLOCK_ID \<equiv> 18"
abbreviation (input) EDS_dunstabzugport_BLOCK_ID :: u8 where "EDS_dunstabzugport_BLOCK_ID \<equiv> 19"
abbreviation (input) EDS_zeitschaltuhr_BLOCK_ID :: u8 where "EDS_zeitschaltuhr_BLOCK_ID \<equiv> 20"
abbreviation (input) EDS_poti_BLOCK_ID :: u8 where "EDS_poti_BLOCK_ID \<equiv> 21"
abbreviation (input) EDS_schalter_BLOCK_ID :: u8 where "EDS_schalter_BLOCK_ID \<equiv> 25"
abbreviation (input) EDS_zentralheizungspumpe_BLOCK_ID :: u8 where "EDS_zentralheizungspumpe_BLOCK_ID \<equiv> 28"
abbreviation (input) EDS_tastdimmer_BLOCK_ID :: u8 where "EDS_tastdimmer_BLOCK_ID \<equiv> 22"
abbreviation (input) EDS_rolladenSchlitzpos_BLOCK_ID :: u8 where "EDS_rolladenSchlitzpos_BLOCK_ID \<equiv> 24"
abbreviation (input) EDS_helligkeitssensor_BLOCK_ID :: u8 where "EDS_helligkeitssensor_BLOCK_ID \<equiv> 26"
abbreviation (input) EDS_rolladenAutomat_BLOCK_ID :: u8 where "EDS_rolladenAutomat_BLOCK_ID \<equiv> 27"
abbreviation (input) EDS_powerportAutomat_BLOCK_ID :: u8 where "EDS_powerportAutomat_BLOCK_ID \<equiv> 29"
abbreviation (input) EDS_multitaster_BLOCK_ID :: u8 where "EDS_multitaster_BLOCK_ID \<equiv> 23"

section \<open>Frames\<close>

text \<open>The frame of \<open>canix/canix.h\<close>; \<open>fr_data\<close> holds the bytes of the data array.\<close>

record canix_frame =
  fr_src :: u16
  fr_dst :: u16
  fr_proto :: u8
  fr_size :: u8
  fr_data :: "u8 list"

end
