(* ===== verification/Mcp2515.thy ===== *)
theory Mcp2515
  imports Hcan_Defs
begin

text \<open>
  The driver of the MCP2515 CAN controller (\<open>canix/mcp2515.c\<close>). The chip is its register
  file; an SPI transaction of the driver (chip select, opcode, address, data) is the register
  access it performs. \<open>canix_tx_sent\<close> and \<open>canix_tx_dropped\<close> are the driver's counters. The
  theory shows that the identifier and the payload the driver loads into a transmit buffer are
  the ones the driver of the receiving board reads from its receive buffer.
\<close>

section \<open>Registers\<close>

abbreviation (input) CANINTF :: u8 where "CANINTF \<equiv> 0x2C"
abbreviation (input) TXB0CTRL :: u8 where "TXB0CTRL \<equiv> 0x30"
abbreviation (input) TXB0SIDH :: u8 where "TXB0SIDH \<equiv> 0x31"
abbreviation (input) TXB0DLC :: u8 where "TXB0DLC \<equiv> 0x35"
abbreviation (input) TXB0D0 :: u8 where "TXB0D0 \<equiv> 0x36"
abbreviation (input) RXB0SIDH :: u8 where "RXB0SIDH \<equiv> 0x61"
abbreviation (input) RXB0DLC :: u8 where "RXB0DLC \<equiv> 0x65"
abbreviation (input) RXB0D0 :: u8 where "RXB0D0 \<equiv> 0x66"
abbreviation (input) MCP_CANCTRL :: u8 where "MCP_CANCTRL \<equiv> 0x0F"
abbreviation (input) MODE_MASK :: u8 where "MODE_MASK \<equiv> 0xE0"
abbreviation (input) MCP2515_OK :: u8 where "MCP2515_OK \<equiv> 0"
abbreviation (input) MCP2515_FAIL :: u8 where "MCP2515_FAIL \<equiv> 1"

record mcp =
  regs :: "u8 \<Rightarrow> u8"
  canix_tx_sent :: u32
  canix_tx_dropped :: u32

definition mcp2515_read_register :: "u8 \<Rightarrow> mcp \<Rightarrow> u8" where
  "mcp2515_read_register adr m = regs m adr"

definition mcp2515_write_register :: "u8 \<Rightarrow> u8 \<Rightarrow> mcp \<Rightarrow> mcp" where
  "mcp2515_write_register adr v m = m\<lparr>regs := (regs m)(adr := v)\<rparr>"

definition mcp2515_bit_modify :: "u8 \<Rightarrow> u8 \<Rightarrow> u8 \<Rightarrow> mcp \<Rightarrow> mcp" where
  "mcp2515_bit_modify adr msk v m =
     m\<lparr>regs := (regs m)(adr := (regs m adr AND NOT msk) OR (v AND msk))\<rparr>"

text \<open>Sequential access: the chip increments the address after each byte.\<close>

fun mcp2515_write_register_p :: "u8 \<Rightarrow> u8 list \<Rightarrow> mcp \<Rightarrow> mcp" where
  "mcp2515_write_register_p adr [] m = m"
| "mcp2515_write_register_p adr (v # vs) m =
     mcp2515_write_register_p (adr + 1) vs (mcp2515_write_register adr v m)"

fun mcp2515_read_register_p :: "u8 \<Rightarrow> nat \<Rightarrow> mcp \<Rightarrow> u8 list" where
  "mcp2515_read_register_p adr 0 m = []"
| "mcp2515_read_register_p adr (Suc n) m =
     mcp2515_read_register adr m # mcp2515_read_register_p (adr + 1) n m"

definition mcp2515_set_mode :: "u8 \<Rightarrow> mcp \<Rightarrow> u8 \<times> mcp" where
  "mcp2515_set_mode mode m =
     (let m1 = mcp2515_bit_modify MCP_CANCTRL MODE_MASK mode m;
          i = mcp2515_read_register MCP_CANCTRL m1 AND MODE_MASK
      in (if i = mode then MCP2515_OK else MCP2515_FAIL, m1))"

section \<open>Transmission\<close>

definition can_sendable :: "u8 \<Rightarrow> mcp \<Rightarrow> bool" where
  "can_sendable tx_index m =
     (\<not> bit (mcp2515_read_register (TXB0CTRL + push_bit 4 tx_index) m) 3)"

definition can_any_sendable :: "mcp \<Rightarrow> bool" where
  "can_any_sendable m = (can_sendable 0 m \<or> can_sendable 1 m \<or> can_sendable 2 m)"

text \<open>The four identifier registers of a 29 bit extended identifier.\<close>

definition id_registers :: "u32 \<Rightarrow> u8 list" where
  "id_registers i =
     [ucast (drop_bit 21 i),
      (ucast (drop_bit 16 i) AND 0x03) OR (ucast (drop_bit 13 i) AND 0xE0) OR push_bit 3 1,
      ucast (drop_bit 8 i),
      ucast i]"

definition load_tx_buffer :: "u8 \<Rightarrow> u32 \<Rightarrow> u8 list \<Rightarrow> u8 \<Rightarrow> mcp \<Rightarrow> mcp" where
  "load_tx_buffer tx_index i data len m =
     (let off = push_bit 4 tx_index;
          m1 = mcp2515_write_register_p (TXB0SIDH + off) (id_registers i) m;
          m2 = mcp2515_write_register (TXB0DLC + off) len m1;
          m3 = mcp2515_write_register_p (TXB0D0 + off) (take (unat len) data) m2
      in mcp2515_bit_modify (TXB0CTRL + off) (push_bit 3 1) (push_bit 3 1) m3)"

definition can_send_message :: "u32 \<Rightarrow> u8 list \<Rightarrow> u8 \<Rightarrow> mcp \<Rightarrow> u8 \<times> mcp" where
  "can_send_message i data len m =
     (let found = (if can_sendable 0 m then Some 0
                   else if can_sendable 1 m then Some 1
                   else if can_sendable 2 m then Some 2 else None)
      in case found of
           None \<Rightarrow> (MCP2515_FAIL, m\<lparr>canix_tx_dropped := canix_tx_dropped m + 1\<rparr>)
         | Some tx_index \<Rightarrow>
             (let m' = load_tx_buffer tx_index i data len m
              in (MCP2515_OK, m'\<lparr>canix_tx_sent := canix_tx_sent m' + 1\<rparr>)))"

section \<open>Reception\<close>

definition mcp2515_message_available :: "mcp \<Rightarrow> bool" where
  "mcp2515_message_available m = bit (mcp2515_read_register CANINTF m) 0"

definition read_id :: "u8 list \<Rightarrow> u32" where
  "read_id r =
     ucast (r ! 3) OR push_bit 8 (ucast (r ! 2)) OR push_bit 16 (ucast (r ! 1) AND 0x03)
       OR push_bit 16 (drop_bit 3 (ucast (r ! 1) AND 0xe0)) OR push_bit 21 (ucast (r ! 0))"

definition mcp2515_read_message :: "mcp \<Rightarrow> (u8 \<times> u32 \<times> u8 list) \<times> mcp" where
  "mcp2515_read_message m =
     (let extended = read_id (mcp2515_read_register_p RXB0SIDH 4 m);
          size = mcp2515_read_register RXB0DLC m AND 0x0F;
          data = mcp2515_read_register_p RXB0D0 (unat size) m
      in ((size, extended, data), mcp2515_bit_modify CANINTF 0x01 0x00 m))"

definition can_error_counters :: "mcp \<Rightarrow> u16" where
  "can_error_counters m = word16 (mcp2515_read_register 0x1D m) (mcp2515_read_register 0x1C m)"

section \<open>Laws of the register accesses\<close>

lemma regs_write_register_p:
  "length vs \<le> 256 \<Longrightarrow> regs (mcp2515_write_register_p adr vs m) a =
     (if unat (a - adr) < length vs then vs ! unat (a - adr) else regs m a)"
proof (induction vs arbitrary: adr m)
  case Nil
  then show ?case by simp
next
  case (Cons v vs)
  have step: "regs (mcp2515_write_register_p adr (v # vs) m) a =
     (if unat (a - (adr + 1)) < length vs then vs ! unat (a - (adr + 1))
      else ((regs m)(adr := v)) a)"
    using Cons by (simp add: mcp2515_write_register_def)
  show ?case
  proof (cases "a = adr")
    case True
    with Cons.prems show ?thesis unfolding step by simp
  next
    case False
    then have "unat (a - adr - 1) = unat (a - adr) - 1"
      by (simp add: unat_minus_one)
    moreover have "0 < unat (a - adr)" using False by (simp add: unat_gt_0)
    ultimately show ?thesis using False unfolding step
      by (auto simp: nth_Cons' diff_diff_eq [symmetric])
  qed
qed

lemma read_register_p_map:
  "mcp2515_read_register_p adr n m = map (\<lambda>i. regs m (adr + of_nat i)) [0..<n]"
proof (induction n arbitrary: adr)
  case 0
  then show ?case by simp
next
  case (Suc n)
  have "[0..<Suc n] = 0 # map Suc [0..<n]" by (simp add: map_Suc_upt upt_conv_Cons)
  with Suc show ?case
    by (simp add: mcp2515_read_register_def ac_simps)
qed

lemma canix_counters_write_register_p [simp]:
  "canix_tx_sent (mcp2515_write_register_p adr vs m) = canix_tx_sent m"
  "canix_tx_dropped (mcp2515_write_register_p adr vs m) = canix_tx_dropped m"
  by (induction vs arbitrary: adr m) (simp_all add: mcp2515_write_register_def)

text \<open>The identifier survives the split into registers: its low 29 bits come back.\<close>

lemma read_id_registers: "read_id (id_registers i) = i AND mask 29"
proof -
  have "read_id (id_registers i) =
      ucast (ucast i :: u8) OR push_bit 8 (ucast (ucast (drop_bit 8 i) :: u8))
        OR push_bit 16 (ucast ((ucast (drop_bit 16 i) AND 3) OR (ucast (drop_bit 13 i) AND 0xE0)
             OR (push_bit 3 1 :: u8)) AND 3)
        OR push_bit 16 (drop_bit 3 (ucast ((ucast (drop_bit 16 i) AND 3)
             OR (ucast (drop_bit 13 i) AND 0xE0) OR (push_bit 3 1 :: u8)) AND 0xE0))
        OR push_bit 21 (ucast (ucast (drop_bit 21 i) :: u8))"
    by (simp only: read_id_def id_registers_def nth_Cons_0 nth_Cons_Suc numeral_3_eq_3
        numeral_2_eq_2 One_nat_def)
  also have "\<dots> = i AND mask 29"
    unfolding mask_literals by (rule u32_eqI) (simp add: bit_simps)
  finally show ?thesis .
qed

section \<open>From transmit buffer to receive buffer\<close>

text \<open>The 13 registers (identifier, length, eight data bytes) of transmit buffer \<open>k\<close> and of the
  receive buffer. A frame that crosses the bus is loaded into the receiver's buffer as it stood
  in the sender's.\<close>

definition tx_image :: "u8 \<Rightarrow> mcp \<Rightarrow> u8 list" where
  "tx_image k m = mcp2515_read_register_p (TXB0SIDH + push_bit 4 k) 13 m"

definition rx_image :: "mcp \<Rightarrow> u8 list" where
  "rx_image m = mcp2515_read_register_p RXB0SIDH 13 m"

lemma set_bit3_byte: "8 OR x AND - 9 = 8 OR (x :: u8)"
proof (rule bit_word_eqI)
  fix n assume n: "n < LENGTH(8)"
  have "bit (8 :: u8) n \<longleftrightarrow> n = 3"
    using bit_push_bit_iff [of 3 "1 :: u8" n] n by (auto simp: bit_1_iff)
  moreover have "(- 9 :: u8) = NOT 8" by simp
  ultimately show "bit (8 OR x AND - 9) n = bit (8 OR x) n"
    using n by (simp only: bit_or_iff bit_and_iff bit_not_iff possible_bit_word) blast
qed

lemma bit3_set_byte: "bit (8 OR (x :: u8)) 3"
  using bit_push_bit_iff [of 3 "1 :: u8" 3] by (simp add: bit_or_iff bit_1_iff)

lemma load_tx_buffer_regs:
  assumes "unat len \<le> 8" and "unat len \<le> length data"
  shows "regs (load_tx_buffer k i data len m) (TXB0CTRL + push_bit 4 k)
      = 8 OR regs m (TXB0CTRL + push_bit 4 k)"
    and "j < 4 \<Longrightarrow> regs (load_tx_buffer k i data len m) (TXB0SIDH + push_bit 4 k + of_nat j)
      = id_registers i ! j"
    and "regs (load_tx_buffer k i data len m) (TXB0DLC + push_bit 4 k) = len"
    and "d < unat len \<Longrightarrow>
      regs (load_tx_buffer k i data len m) (TXB0D0 + push_bit 4 k + of_nat d) = data ! d"
proof -
  have len: "length (take (unat len) data) = unat len" "length (id_registers i) = 4"
    using assms by (simp_all add: id_registers_def)
  note defs = load_tx_buffer_def Let_def mcp2515_bit_modify_def mcp2515_write_register_def
      regs_write_register_p
  show "regs (load_tx_buffer k i data len m) (TXB0CTRL + push_bit 4 k)
      = 8 OR regs m (TXB0CTRL + push_bit 4 k)"
    using len assms
    by (simp add: defs diff_diff_eq [symmetric] set_bit3_byte or.commute)
  show "regs (load_tx_buffer k i data len m) (TXB0DLC + push_bit 4 k) = len"
    using len assms by (simp add: defs diff_diff_eq [symmetric])
  show "regs (load_tx_buffer k i data len m) (TXB0SIDH + push_bit 4 k + of_nat j)
      = id_registers i ! j" if "j < 4"
  proof -
    from that consider "j = 0" | "j = 1" | "j = 2" | "j = 3" by linarith
    then show ?thesis
      using len assms by cases (simp_all add: defs diff_diff_eq [symmetric])
  qed
  show "regs (load_tx_buffer k i data len m) (TXB0D0 + push_bit 4 k + of_nat d) = data ! d"
    if "d < unat len"
  proof -
    from that assms consider "d = 0" | "d = 1" | "d = 2" | "d = 3" | "d = 4" | "d = 5"
      | "d = 6" | "d = 7" by linarith
    then show ?thesis
      using len assms that by cases (simp_all add: defs diff_diff_eq [symmetric])
  qed
qed

lemma read_image_nth:
  assumes "rx_image mb = tx_image k ma" and "j < 13"
  shows "regs mb (RXB0SIDH + of_nat j) = regs ma (TXB0SIDH + push_bit 4 k + of_nat j)"
proof -
  from assms(1) have "rx_image mb ! j = tx_image k ma ! j" by simp
  with assms(2) show ?thesis
    by (simp add: rx_image_def tx_image_def read_register_p_map)
qed

lemma read_message_of_load:
  assumes "unat len \<le> 8" and "unat len \<le> length data"
    and bus: "rx_image mb = tx_image k (load_tx_buffer k i data len m)"
  shows "fst (mcp2515_read_message mb) = (len, i AND mask 29, take (unat len) data)"
proof -
  note load = load_tx_buffer_regs [OF assms(1,2), where k = k and i = i and m = m]
  have "mcp2515_read_register_p RXB0SIDH 4 mb = id_registers i"
  proof (rule nth_equalityI)
    show "length (mcp2515_read_register_p RXB0SIDH 4 mb) = length (id_registers i)"
      by (simp add: read_register_p_map id_registers_def)
    fix j assume "j < length (mcp2515_read_register_p RXB0SIDH 4 mb)"
    then have "j < 4" by (simp add: read_register_p_map)
    then show "mcp2515_read_register_p RXB0SIDH 4 mb ! j = id_registers i ! j"
      using read_image_nth [OF bus, of j] load(2) [of j] by (simp add: read_register_p_map)
  qed
  then have ident: "read_id (mcp2515_read_register_p RXB0SIDH 4 mb) = i AND mask 29"
    by (simp add: read_id_registers)
  have "regs mb RXB0DLC = len"
    using read_image_nth [OF bus, of 4] load(3) by simp
  moreover have "len AND 0x0F = len"
  proof -
    have "take_bit 4 len = len"
      using assms(1) by (simp add: word_unat_eq_iff unsigned_take_bit_eq take_bit_nat_eq_self)
    then show ?thesis by (simp add: take_bit_eq_mask mask_eq_exp_minus_1)
  qed
  ultimately have dlc: "mcp2515_read_register RXB0DLC mb AND 0x0F = len"
    by (simp add: mcp2515_read_register_def)
  have "mcp2515_read_register_p RXB0D0 (unat len) mb = take (unat len) data"
  proof (rule nth_equalityI)
    show "length (mcp2515_read_register_p RXB0D0 (unat len) mb) = length (take (unat len) data)"
      using assms by (simp add: read_register_p_map)
    fix d assume "d < length (mcp2515_read_register_p RXB0D0 (unat len) mb)"
    then have d: "d < unat len" by (simp add: read_register_p_map)
    then have "regs mb (RXB0D0 + of_nat d) = data ! d"
      using read_image_nth [OF bus, of "5 + d"] load(4) [OF d] assms(1)
      by (simp add: add.assoc [symmetric])
    with d show "mcp2515_read_register_p RXB0D0 (unat len) mb ! d = take (unat len) data ! d"
      by (simp add: read_register_p_map)
  qed
  with ident dlc show ?thesis
    by (simp add: mcp2515_read_message_def Let_def)
qed

end
