(* ===== verification/Canix_Rxq.thy ===== *)
theory Canix_Rxq
  imports Mcp2515 "HOL-Library.Multiset"
begin

text \<open>
  The receive queue of \<open>canix/canix.c\<close>: an array of \<open>CANIX_QUEUE_SIZE\<close> entries with a \<open>used\<close>
  flag, filled by the timer interrupt (\<open>TIMER0_OVF_vect\<close>) and emptied by \<open>can_read_message\<close> of
  \<open>canix/mcp2515.c\<close>. The locale \<open>bounded_bag\<close> is what its clients rely on: nothing is lost and
  nothing is invented, up to the capacity. The queue promises no order.
\<close>

section \<open>The interface\<close>

text \<open>A run over a store with operations \<open>put\<close> and \<open>get\<close>: an arrival is stored or, when the
  store is full, lost; a read takes an entry out. The result is the final store, what was read
  and what was lost.\<close>

fun bag_run :: "('q \<Rightarrow> bool) \<Rightarrow> ('a \<Rightarrow> 'q \<Rightarrow> 'q) \<Rightarrow> ('q \<Rightarrow> ('a \<times> 'q) option)
    \<Rightarrow> 'a option list \<Rightarrow> 'q \<Rightarrow> 'q \<times> 'a list \<times> 'a list" where
  "bag_run full put get [] q = (q, [], [])"
| "bag_run full put get (Some x # es) q =
     (let (q', rd, lost) = bag_run full put get es (put x q)
      in (q', rd, if full q then x # lost else lost))"
| "bag_run full put get (None # es) q =
     (case get q of
        None \<Rightarrow> bag_run full put get es q
      | Some (x, q1) \<Rightarrow>
          (let (q', rd, lost) = bag_run full put get es q1 in (q', x # rd, lost)))"

definition arrivals :: "'a option list \<Rightarrow> 'a list" where
  "arrivals es = concat (map (\<lambda>e. case e of Some x \<Rightarrow> [x] | None \<Rightarrow> []) es)"

lemma arrivals_simps [simp]:
  "arrivals [] = []" "arrivals (Some x # es) = x # arrivals es" "arrivals (None # es) = arrivals es"
  by (simp_all add: arrivals_def)

locale bounded_bag =
  fixes invar :: "'q \<Rightarrow> bool"
    and full :: "'q \<Rightarrow> bool"
    and valid :: "'a \<Rightarrow> bool"
    and put :: "'a \<Rightarrow> 'q \<Rightarrow> 'q"
    and get :: "'q \<Rightarrow> ('a \<times> 'q) option"
    and bag :: "'q \<Rightarrow> 'a multiset"
  assumes put_law: "invar q \<Longrightarrow> valid x \<Longrightarrow> \<not> full q \<Longrightarrow> bag (put x q) = add_mset x (bag q)"
    and put_full: "invar q \<Longrightarrow> full q \<Longrightarrow> put x q = q"
    and get_None: "invar q \<Longrightarrow> get q = None \<longleftrightarrow> bag q = {#}"
    and get_Some: "invar q \<Longrightarrow> get q = Some (x, q') \<Longrightarrow> bag q = add_mset x (bag q')"
    and put_invar: "invar q \<Longrightarrow> invar (put x q)"
    and get_invar: "invar q \<Longrightarrow> get q = Some (x, q') \<Longrightarrow> invar q'"
begin

lemma run_conserves:
  "invar q \<Longrightarrow> list_all valid (arrivals es) \<Longrightarrow> bag_run full put get es q = (q', rd, lost)
    \<Longrightarrow> invar q' \<and> bag q + mset (arrivals es) = bag q' + mset rd + mset lost"
proof (induction es arbitrary: q rd lost)
  case Nil
  then show ?case by simp
next
  case (Cons e es)
  show ?case
  proof (cases e)
    case (Some x)
    obtain lost1 where r: "bag_run full put get es (put x q) = (q', rd, lost1)"
      and l: "lost = (if full q then x # lost1 else lost1)"
      using Cons.prems(3) Some by (auto split: prod.splits)
    have "invar q' \<and> bag (put x q) + mset (arrivals es) = bag q' + mset rd + mset lost1"
      using Cons.IH [OF put_invar [OF Cons.prems(1)] _ r] Cons.prems(2) Some by simp
    then show ?thesis using Some l Cons.prems(1,2) by (auto simp: put_law put_full)
  next
    case None
    show ?thesis
    proof (cases "get q")
      case None
      then show ?thesis using Cons \<open>e = None\<close> by simp
    next
      case (Some p)
      then obtain x q1 where p: "get q = Some (x, q1)" by (cases p) auto
      then obtain rd1 where r: "bag_run full put get es q1 = (q', rd1, lost)" and "rd = x # rd1"
        using Cons.prems(3) \<open>e = None\<close> by (auto split: prod.splits)
      then show ?thesis
        using Cons.IH [OF get_invar [OF Cons.prems(1) p] _ r] get_Some [OF Cons.prems(1) p]
          Cons.prems(2) \<open>e = None\<close> by auto
    qed
  qed
qed

text \<open>After enough reads with no arrival in between the store is empty.\<close>

lemma drain:
  "invar q \<Longrightarrow> size (bag q) \<le> n
    \<Longrightarrow> \<exists>q' rd. bag_run full put get (replicate n None) q = (q', rd, []) \<and> bag q' = {#} \<and> mset rd = bag q"
proof (induction n arbitrary: q)
  case 0
  then show ?case by simp
next
  case (Suc n)
  show ?case
  proof (cases "get q")
    case None
    then have "bag q = {#}" using get_None [OF Suc.prems(1)] by simp
    then show ?thesis using Suc.IH [OF Suc.prems(1)] None by auto
  next
    case (Some p)
    then obtain x q1 where p: "get q = Some (x, q1)" by (cases p) auto
    note b = get_Some [OF Suc.prems(1) p]
    from b Suc.prems(2) have "size (bag q1) \<le> n" by simp
    from Suc.IH [OF get_invar [OF Suc.prems(1) p] this] p b show ?thesis by auto
  qed
qed

end

section \<open>The queue\<close>

record rx_entry =
  rx_used :: u8
  rx_extended :: u32
  rx_size :: u8
  rx_data :: "u8 list"

type_synonym rx_queue = "rx_entry list"

abbreviation is_used :: "rx_entry \<Rightarrow> bool" where
  "is_used e \<equiv> rx_used e \<noteq> 0"

definition canix_rxq_size :: "rx_queue \<Rightarrow> nat" where
  "canix_rxq_size q = length (filter is_used q)"

definition canix_rxq_fetch_one :: "rx_queue \<Rightarrow> nat" where
  "canix_rxq_fetch_one q = (case first_index is_used q of Some i \<Rightarrow> i | None \<Rightarrow> 0)"

definition canix_rxq_put_one :: "rx_queue \<Rightarrow> nat" where
  "canix_rxq_put_one q = (case first_index (\<lambda>e. \<not> is_used e) q of Some i \<Rightarrow> i | None \<Rightarrow> 0)"

text \<open>The storing half of the interrupt handler; \<open>msg\<close> is what \<open>mcp2515_read_message\<close>
  delivered. Bytes beyond \<open>size\<close> keep the entry's old contents.\<close>

type_synonym rx_msg = "u8 \<times> u32 \<times> u8 list"

fun isr_store :: "rx_msg \<Rightarrow> rx_queue \<Rightarrow> rx_queue" where
  "isr_store (sz, ext, data) q =
     (if canix_rxq_size q < CANIX_QUEUE_SIZE
      then (let idx = canix_rxq_put_one q; e = q ! idx
            in q[idx := \<lparr>rx_used = 1, rx_extended = ext, rx_size = sz,
                         rx_data = take (unat sz) data @ drop (unat sz) (rx_data e)\<rparr>])
      else q)"

text \<open>The polling part of the interrupt handler. The message is read into an eight byte buffer
  on the stack: a length code above eight overruns it, which is the value \<open>None\<close>.\<close>

record rx_state =
  rxs_queue :: rx_queue
  canix_rx_received :: u32
  canix_rx_lost :: u32

definition isr_poll :: "mcp \<Rightarrow> rx_state \<Rightarrow> (mcp \<times> rx_state) option" where
  "isr_poll m s =
     (if mcp2515_message_available m then
        (let ((sz, ext, data), m') = mcp2515_read_message m
         in if unat sz > 8 then None
            else if canix_rxq_size (rxs_queue s) < CANIX_QUEUE_SIZE
            then Some (m', s\<lparr>rxs_queue := isr_store (sz, ext, data) (rxs_queue s),
                             canix_rx_received := canix_rx_received s + 1\<rparr>)
            else Some (m', s\<lparr>canix_rx_lost := canix_rx_lost s + 1\<rparr>))
      else Some (m, s))"

definition can_message_available :: "rx_queue \<Rightarrow> bool" where
  "can_message_available q = (canix_rxq_size q > 0)"

text \<open>\<open>buf\<close> is the caller's data buffer: bytes beyond the message's size keep its contents. The
  result is \<open>None\<close> where the C function returns size 0 for an empty queue.\<close>

definition can_read_message :: "u8 list \<Rightarrow> rx_queue \<Rightarrow> ((u8 \<times> u32 \<times> u8 list) \<times> rx_queue) option" where
  "can_read_message buf q =
     (if canix_rxq_size q \<noteq> 0
      then (let idx = canix_rxq_fetch_one q; e = q ! idx
            in Some ((rx_size e, rx_extended e,
                      take (unat (rx_size e)) (rx_data e) @ drop (unat (rx_size e)) buf),
                     q[idx := e\<lparr>rx_used := 0\<rparr>]))
      else None)"

section \<open>The queue implements the interface\<close>

text \<open>The message an entry holds: its identifier and the bytes up to its size.\<close>

definition entry_msg :: "rx_entry \<Rightarrow> rx_msg" where
  "entry_msg e = (rx_size e, rx_extended e, take (unat (rx_size e)) (rx_data e))"

definition rxq_bag :: "rx_queue \<Rightarrow> rx_msg multiset" where
  "rxq_bag q = mset (map entry_msg (filter is_used q))"

definition rxq_invar :: "rx_queue \<Rightarrow> bool" where
  "rxq_invar q = (length q = CANIX_QUEUE_SIZE)"

definition rxq_full :: "rx_queue \<Rightarrow> bool" where
  "rxq_full q = (\<not> canix_rxq_size q < CANIX_QUEUE_SIZE)"

fun msg_valid :: "rx_msg \<Rightarrow> bool" where
  "msg_valid (sz, ext, data) = (length data = unat sz)"

lemma mset_filter_update_in:
  assumes "i < length xs" and "\<not> P (xs ! i)" and "P y"
  shows "mset (map f (filter P (xs[i := y]))) = add_mset (f y) (mset (map f (filter P xs)))"
  using assms by (induction xs arbitrary: i) (auto simp: nth_Cons split: nat.splits)

lemma mset_filter_update_out:
  assumes "i < length xs" and "P (xs ! i)" and "\<not> P y"
  shows "mset (map f (filter P xs)) = add_mset (f (xs ! i)) (mset (map f (filter P (xs[i := y]))))"
  using assms by (induction xs arbitrary: i) (auto simp: nth_Cons split: nat.splits)

lemma rxq_not_full:
  assumes "rxq_invar q" and "\<not> rxq_full q"
  shows "canix_rxq_put_one q < length q" and "\<not> is_used (q ! canix_rxq_put_one q)"
proof -
  from assms have "\<exists>e \<in> set q. \<not> is_used e"
    using length_filter_less_iff [of is_used q]
    by (simp add: rxq_invar_def rxq_full_def canix_rxq_size_def)
  then obtain i where i: "first_index (\<lambda>e. \<not> is_used e) q = Some i"
    using first_index_exists by fastforce
  from first_index_SomeD [OF i] i show "canix_rxq_put_one q < length q"
    and "\<not> is_used (q ! canix_rxq_put_one q)"
    by (simp_all add: canix_rxq_put_one_def)
qed

lemma rxq_not_empty:
  assumes "canix_rxq_size q \<noteq> 0"
  shows "canix_rxq_fetch_one q < length q" and "is_used (q ! canix_rxq_fetch_one q)"
proof -
  from assms obtain e where "e \<in> set q" "is_used e"
    by (auto simp: canix_rxq_size_def filter_empty_conv)
  then obtain i where i: "first_index is_used q = Some i"
    using first_index_exists [of e q is_used] by auto
  from first_index_SomeD [OF i] i show "canix_rxq_fetch_one q < length q"
    and "is_used (q ! canix_rxq_fetch_one q)"
    by (simp_all add: canix_rxq_fetch_one_def)
qed

lemma isr_store_bag:
  assumes "rxq_invar q" and "msg_valid x" and "\<not> rxq_full q"
  shows "rxq_bag (isr_store x q) = add_mset x (rxq_bag q)"
proof -
  obtain sz ext data where x: "x = (sz, ext, data)" by (cases x)
  note slot = rxq_not_full [OF assms(1,3)]
  let ?e = "\<lparr>rx_used = 1, rx_extended = ext, rx_size = sz,
      rx_data = take (unat sz) data @ drop (unat sz) (rx_data (q ! canix_rxq_put_one q))\<rparr>"
  have "entry_msg ?e = x" using assms(2) x by (simp add: entry_msg_def)
  then show ?thesis
    using assms(3) x mset_filter_update_in [of _ _ is_used ?e entry_msg, OF slot]
    by (simp add: rxq_bag_def rxq_full_def Let_def)
qed

lemma can_read_message_bag:
  assumes "can_read_message [] q = Some (x, q')"
  shows "rxq_bag q = add_mset x (rxq_bag q')"
proof -
  from assms have ne: "canix_rxq_size q \<noteq> 0" by (auto simp: can_read_message_def split: if_splits)
  note slot = rxq_not_empty [OF ne]
  from assms ne have "x = entry_msg (q ! canix_rxq_fetch_one q)"
    and "q' = q[canix_rxq_fetch_one q := (q ! canix_rxq_fetch_one q)\<lparr>rx_used := 0\<rparr>]"
    by (auto simp: can_read_message_def Let_def entry_msg_def)
  then show ?thesis
    using mset_filter_update_out [of _ _ is_used _ entry_msg, OF slot] by (simp add: rxq_bag_def)
qed

lemma isr_store_length [simp]: "length (isr_store x q) = length q"
  by (cases x) (simp add: Let_def)

lemma can_read_message_length:
  "can_read_message buf q = Some (x, q') \<Longrightarrow> length q' = length q"
  by (auto simp: can_read_message_def Let_def split: if_splits)

interpretation rxq: bounded_bag rxq_invar rxq_full msg_valid isr_store "can_read_message []" rxq_bag
proof (unfold_locales, goal_cases)
  case (1 q x)
  then show ?case by (rule isr_store_bag)
next
  case (2 q x)
  then show ?case by (cases x) (simp add: rxq_full_def)
next
  case (3 q)
  then show ?case
    by (auto simp: can_read_message_def rxq_bag_def canix_rxq_size_def Let_def filter_empty_conv)
next
  case (4 q x q')
  then show ?case by (simp add: can_read_message_bag)
next
  case (5 q x)
  then show ?case by (simp add: rxq_invar_def)
next
  case (6 q x q')
  then show ?case by (simp add: rxq_invar_def can_read_message_length)
qed

section \<open>Properties\<close>

text \<open>C1: Along any interleaving of frames arriving in the timer interrupt (each with as many bytes as its size
  says) and reads by the main loop, starting from an empty queue, every arrived frame is read, still queued or counted
  as lost, and each exactly once: the queue neither drops, duplicates nor invents frames.\<close>

theorem rxq_conserves_frames:
  assumes "length q = CANIX_QUEUE_SIZE" and "\<forall>e \<in> set q. rx_used e = 0"
    and "list_all msg_valid (arrivals es)"
    and "bag_run rxq_full isr_store (can_read_message []) es q = (q', rd, lost)"
  shows "mset (arrivals es) = rxq_bag q' + mset rd + mset lost"
proof -
  from assms(2) have "rxq_bag q = {#}" by (simp add: rxq_bag_def filter_empty_conv)
  then show ?thesis
    using rxq.run_conserves [of q es q' rd lost] assms by (simp add: rxq_invar_def)
qed

definition empty_rxq :: rx_queue where
  "empty_rxq = replicate CANIX_QUEUE_SIZE
     \<lparr>rx_used = 0, rx_extended = 0, rx_size = 0, rx_data = replicate 8 0\<rparr>"

lemma empty_rxq_unroll:
  "empty_rxq = (let e = \<lparr>rx_used = 0, rx_extended = 0, rx_size = 0, rx_data = replicate 8 0\<rparr>
     in [e, e, e, e, e, e, e, e, e, e, e, e])"
  by (simp add: empty_rxq_def numeral_eq_Suc Let_def)

theorem rxq_conserves_frames_witness:
  "\<exists>q' rd lost. bag_run rxq_full isr_store (can_read_message [])
      [Some (1, 7, [42]), None, Some (0, 9, [])] empty_rxq = (q', rd, lost)
    \<and> mset [(1, 7, [42]), (0, 9, [])] = rxq_bag q' + mset rd + mset lost"
proof -
  obtain q' rd lost where r: "bag_run rxq_full isr_store (can_read_message [])
      [Some (1, 7, [42]), None, Some (0, 9, [])] empty_rxq = (q', rd, lost)"
    by (rule prod_cases3)
  have "length empty_rxq = CANIX_QUEUE_SIZE" and "\<forall>e \<in> set empty_rxq. rx_used e = 0"
    and "list_all msg_valid (arrivals [Some (1, 7, [42]), None, Some (0, 9, [])])"
    by (simp_all add: empty_rxq_def)
  from rxq_conserves_frames [OF this r] r show ?thesis by simp
qed

text \<open>The queue is not first in, first out: with frames A and B queued, reading A and then
  receiving C makes the next read return C, so C overtakes B.\<close>

theorem rxq_overtaking:
  "(case bag_run rxq_full isr_store (can_read_message [])
      [Some (0, 100, []), Some (0, 200, []), None, Some (0, 300, []), None, None] empty_rxq
    of (q', rd, lost) \<Rightarrow> rd) = [(0, 100, []), (0, 300, []), (0, 200, [])]"
  by (simp add: empty_rxq_unroll Let_def rxq_full_def canix_rxq_size_def canix_rxq_put_one_def
      canix_rxq_fetch_one_def can_read_message_def)

end
