(* ===== verification/Canix.thy ===== *)
theory Canix
  imports Canix_Rxq "HOL-Library.Multiset"
begin

text \<open>
  The core of \<open>canix/canix.c\<close>: frames and their 29 bit identifier, the callback tables and the
  delivery of frames to callbacks, sending (bus and local delivery) and one pass of the main
  loop. Callbacks are numbered; 0 is the null pointer of an empty table slot.
\<close>

section \<open>Frames\<close>

definition canix_extid :: "canix_frame \<Rightarrow> u8 \<Rightarrow> u32" where
  "canix_extid f prio =
     ucast (fr_src f AND 0x3ff) OR push_bit 10 (ucast (fr_dst f AND 0x3ff))
       OR push_bit 20 (ucast (fr_proto f AND 7)) OR push_bit 24 (ucast prio)"

definition frame_of_message :: "rx_msg \<Rightarrow> canix_frame" where
  "frame_of_message msg = (case msg of (sz, ext, data) \<Rightarrow>
     \<lparr>fr_src = ucast (ext AND 0x3ff), fr_dst = ucast (drop_bit 10 ext AND 0x3ff),
      fr_proto = ucast (drop_bit 20 ext AND 7), fr_size = sz, fr_data = data\<rparr>)"

section \<open>Callback tables\<close>

record frame_cb =
  cb_callback :: nat
  cb_dst :: int
  cb_proto :: u8
  cb_srv :: u8

definition cb_matches :: "canix_frame \<Rightarrow> frame_cb \<Rightarrow> bool" where
  "cb_matches f e =
     (cb_callback e \<noteq> 0 \<and>
      (cb_dst e = -1 \<or> (cb_dst e \<noteq> -1 \<and> cb_dst e = uint (fr_dst f))) \<and>
      (cb_proto e = 0 \<or> cb_proto e = fr_proto f) \<and>
      (cb_srv e = 0 \<or> cb_srv e = fr_data f ! 0))"

text \<open>The callbacks called for a frame, in the order of the calls.\<close>

fun canix_deliver_frame :: "frame_cb list \<Rightarrow> canix_frame \<Rightarrow> nat list" where
  "canix_deliver_frame [] f = []"
| "canix_deliver_frame (e # es) f =
     (if cb_matches f e then cb_callback e # canix_deliver_frame es f
      else canix_deliver_frame es f)"

text \<open>Registration takes the first empty slot; with no empty slot the table is unchanged and the
  failure is logged (\<open>False\<close>).\<close>

definition canix_reg_frame_callback ::
  "nat \<Rightarrow> int \<Rightarrow> u8 \<Rightarrow> u8 \<Rightarrow> frame_cb list \<Rightarrow> frame_cb list \<times> bool" where
  "canix_reg_frame_callback cb dst proto srv t =
     (case first_index (\<lambda>e. cb_callback e = 0) t of
        Some i \<Rightarrow> (t[i := \<lparr>cb_callback = cb, cb_dst = dst, cb_proto = proto, cb_srv = srv\<rparr>], True)
      | None \<Rightarrow> (t, False))"

definition canix_reg_idle_callback :: "nat \<Rightarrow> nat list \<Rightarrow> nat list \<times> bool" where
  "canix_reg_idle_callback cb t =
     (case first_index (\<lambda>c. c = 0) t of Some i \<Rightarrow> (t[i := cb], True) | None \<Rightarrow> (t, False))"

definition canix_reg_rtc_callback :: "nat \<Rightarrow> nat list \<Rightarrow> nat list \<times> bool" where
  "canix_reg_rtc_callback cb t =
     (case first_index (\<lambda>c. c = 0) t of Some i \<Rightarrow> (t[i := cb], True) | None \<Rightarrow> (t, False))"

section \<open>Sending\<close>

text \<open>A frame goes to the controller when one of its transmit buffers is free, and to the local
  callbacks in any case. The result is the controller and the callbacks called.\<close>

definition canix_frame_send_with_prio ::
  "frame_cb list \<Rightarrow> canix_frame \<Rightarrow> u8 \<Rightarrow> mcp \<Rightarrow> mcp \<times> nat list" where
  "canix_frame_send_with_prio t f prio m =
     (if can_any_sendable m
      then snd (can_send_message (canix_extid f prio) (fr_data f) (fr_size f) m) else m,
      canix_deliver_frame t f)"

definition canix_frame_send :: "frame_cb list \<Rightarrow> canix_frame \<Rightarrow> mcp \<Rightarrow> mcp \<times> nat list" where
  "canix_frame_send t f m = canix_frame_send_with_prio t f HCAN_PRIO_LOW m"

section \<open>The main loop\<close>

datatype loop_event = Frame_Event canix_frame "nat list" | Idle_Event nat

text \<open>One pass: per idle slot, a pending frame is delivered instead of the slot's idle callback
  being called. \<open>buf\<close> is the uninitialised data array of the frame on the stack.\<close>

fun process_slots :: "frame_cb list \<Rightarrow> u8 list \<Rightarrow> nat list \<Rightarrow> rx_queue \<Rightarrow> loop_event list \<times> rx_queue" where
  "process_slots t buf [] q = ([], q)"
| "process_slots t buf (cb # cbs) q =
     (case (if can_message_available q then can_read_message buf q else None) of
        Some (msg, q') \<Rightarrow>
          (let f = frame_of_message msg; (evs, q'') = process_slots t buf cbs q'
           in (Frame_Event f (canix_deliver_frame t f) # evs, q''))
      | None \<Rightarrow>
          (let (evs, q'') = process_slots t buf cbs q
           in (if cb \<noteq> 0 then Idle_Event cb # evs else evs, q'')))"

definition canix_process_messages ::
  "frame_cb list \<Rightarrow> u8 list \<Rightarrow> nat list \<Rightarrow> rx_queue \<Rightarrow> loop_event list \<times> rx_queue" where
  "canix_process_messages t buf idle q = process_slots t buf (take MAX_IDLE_CALLBACKS idle) q"

section \<open>Facts on identifiers and tables\<close>

lemma extid_fields:
  "canix_extid f prio AND 0x3ff = ucast (fr_src f) AND 0x3ff"
  "drop_bit 10 (canix_extid f prio) AND 0x3ff = ucast (fr_dst f) AND 0x3ff"
  "drop_bit 20 (canix_extid f prio) AND 7 = ucast (fr_proto f) AND 7"
  unfolding canix_extid_def mask_literals
  by (rule bit_word_eqI, auto simp: bit_simps dest: bit_imp_le_length)+

lemma deliver_filter:
  "canix_deliver_frame t f = map cb_callback (filter (cb_matches f) t)"
  by (induction t) simp_all

lemma ucast_mask_small16: "unat (a :: u16) < 1024 \<Longrightarrow> ucast (ucast a AND (0x3ff :: u32)) = a"
proof -
  assume "unat a < 1024"
  then have "take_bit 10 a = a"
    by (simp add: word_unat_eq_iff unsigned_take_bit_eq take_bit_nat_eq_self)
  moreover have "ucast (ucast a AND (0x3ff :: u32)) = take_bit 10 a"
    unfolding mask_literals by (rule bit_word_eqI) (auto simp: bit_simps)
  ultimately show ?thesis by simp
qed

lemma ucast_mask_small8: "unat (p :: u8) < 8 \<Longrightarrow> ucast (ucast p AND (7 :: u32)) = p"
proof -
  assume "unat p < 8"
  then have "take_bit 3 p = p"
    by (simp add: word_unat_eq_iff unsigned_take_bit_eq take_bit_nat_eq_self)
  moreover have "ucast (ucast p AND (7 :: u32)) = take_bit 3 p"
    unfolding mask_literals by (rule bit_word_eqI) (auto simp: bit_simps)
  ultimately show ?thesis by simp
qed

text \<open>What the identifier loses in the controller, its bits above 28, are not address bits.\<close>

lemma extid_masked_fields:
  "(canix_extid f prio AND mask 29) AND 0x3ff = ucast (fr_src f) AND 0x3ff"
  "drop_bit 10 (canix_extid f prio AND mask 29) AND 0x3ff = ucast (fr_dst f) AND 0x3ff"
  "drop_bit 20 (canix_extid f prio AND mask 29) AND 7 = ucast (fr_proto f) AND 7"
  unfolding canix_extid_def mask_literals
  by (rule bit_word_eqI, auto simp: bit_simps dest: bit_imp_le_length)+

definition frame_wf :: "canix_frame \<Rightarrow> bool" where
  "frame_wf f = (unat (fr_src f) < 1024 \<and> unat (fr_dst f) < 1024 \<and> unat (fr_proto f) < 8 \<and>
     unat (fr_size f) \<le> 8 \<and> unat (fr_size f) \<le> length (fr_data f))"

lemma frame_of_extid:
  assumes "frame_wf f"
  shows "frame_of_message (fr_size f, canix_extid f prio AND mask 29, ds) = f\<lparr>fr_data := ds\<rparr>"
  unfolding frame_of_message_def prod.case extid_masked_fields
  using assms by (simp add: frame_wf_def ucast_mask_small16 ucast_mask_small8)

lemma can_send_message_picks:
  assumes "can_any_sendable m"
  obtains k where "k \<in> {0, 1, 2}" and "can_sendable k m"
    and "can_send_message i data len m =
      (MCP2515_OK, (load_tx_buffer k i data len m)\<lparr>canix_tx_sent := canix_tx_sent m + 1\<rparr>)"
proof -
  have cnt: "canix_tx_sent (load_tx_buffer k i data len m) = canix_tx_sent m" for k
    by (simp add: load_tx_buffer_def Let_def mcp2515_bit_modify_def mcp2515_write_register_def)
  have "\<exists>k \<in> {0, 1, 2}. can_sendable k m \<and> can_send_message i data len m =
      (MCP2515_OK, (load_tx_buffer k i data len m)\<lparr>canix_tx_sent := canix_tx_sent m + 1\<rparr>)"
    using assms by (auto simp: can_any_sendable_def can_send_message_def Let_def cnt)
  then show thesis using that by blast
qed

lemma images_tx_sent [simp]: "tx_image k (m\<lparr>canix_tx_sent := c\<rparr>) = tx_image k m"
  by (simp add: tx_image_def read_register_p_map)

text \<open>A message stored into an empty queue is the one the next read returns.\<close>

lemma read_after_store_empty:
  assumes "length q = CANIX_QUEUE_SIZE" and "\<forall>e \<in> set q. rx_used e = 0"
    and "msg_valid (sz, ext, data)"
  shows "canix_rxq_size (isr_store (sz, ext, data) q) = 1"
    and "\<exists>q'. can_read_message buf (isr_store (sz, ext, data) q)
      = Some ((sz, ext, data @ drop (unat sz) buf), q')"
proof -
  obtain e es where q: "q = e # es" using assms(1) by (cases q) auto
  with assms(2) have "rx_used e = 0" and none: "filter is_used es = []"
    by (auto simp: filter_empty_conv)
  then have st: "isr_store (sz, ext, data) q = \<lparr>rx_used = 1, rx_extended = ext, rx_size = sz,
      rx_data = take (unat sz) data @ drop (unat sz) (rx_data e)\<rparr> # es"
    using q by (simp add: canix_rxq_size_def canix_rxq_put_one_def Let_def)
  show "canix_rxq_size (isr_store (sz, ext, data) q) = 1"
    unfolding st using none by (simp add: canix_rxq_size_def)
  show "\<exists>q'. can_read_message buf (isr_store (sz, ext, data) q)
      = Some ((sz, ext, data @ drop (unat sz) buf), q')"
    unfolding st using none assms(3)
    by (simp add: can_read_message_def canix_rxq_size_def canix_rxq_fetch_one_def Let_def)
qed

section \<open>Properties\<close>

text \<open>C2: A well-formed frame sent by one board while a transmit buffer is free occupies one of the three
  buffers and is counted as sent. When the bus copies that buffer into another board's receive buffer, that board's
  timer interrupt stores it in its receive queue, which was empty, and its main loop delivers the same source,
  destination, protocol, size and payload.\<close>

theorem frame_crosses_bus:
  assumes "frame_wf f" and "can_any_sendable ma"
  shows "\<exists>k \<in> {0, 1, 2}. can_sendable k ma \<and>
    (let ma' = fst (canix_frame_send_with_prio t f prio ma) in
      \<not> can_sendable k ma' \<and> canix_tx_sent ma' = canix_tx_sent ma + 1 \<and>
      (\<forall>mb s t' buf idle. rx_image mb = tx_image k ma' \<longrightarrow> mcp2515_message_available mb \<longrightarrow>
         length (rxs_queue s) = CANIX_QUEUE_SIZE \<longrightarrow> (\<forall>e \<in> set (rxs_queue s). rx_used e = 0) \<longrightarrow>
         idle \<noteq> [] \<longrightarrow>
         (\<exists>mb' s' evs q'. isr_poll mb s = Some (mb', s') \<and>
            canix_process_messages t' buf idle (rxs_queue s') =
              (Frame_Event (f\<lparr>fr_data := take (unat (fr_size f)) (fr_data f)
                                            @ drop (unat (fr_size f)) buf\<rparr>)
                 (canix_deliver_frame t' (f\<lparr>fr_data := take (unat (fr_size f)) (fr_data f)
                                            @ drop (unat (fr_size f)) buf\<rparr>)) # evs, q'))))"
proof -
  from assms(1) have len: "unat (fr_size f) \<le> 8" "unat (fr_size f) \<le> length (fr_data f)"
    by (simp_all add: frame_wf_def)
  let ?i = "canix_extid f prio"
  obtain k where k: "k \<in> {0, 1, 2}" "can_sendable k ma" and send: "can_send_message ?i (fr_data f)
      (fr_size f) ma = (MCP2515_OK, (load_tx_buffer k ?i (fr_data f) (fr_size f) ma)
        \<lparr>canix_tx_sent := canix_tx_sent ma + 1\<rparr>)"
    using can_send_message_picks [OF assms(2)] by blast
  define ma' where "ma' = fst (canix_frame_send_with_prio t f prio ma)"
  have ma': "ma' = (load_tx_buffer k ?i (fr_data f) (fr_size f) ma)
      \<lparr>canix_tx_sent := canix_tx_sent ma + 1\<rparr>"
    using assms(2) send by (simp add: ma'_def canix_frame_send_with_prio_def)
  have busy: "\<not> can_sendable k ma'"
    using load_tx_buffer_regs(1) [OF len] bit3_set_byte
    by (simp add: ma' can_sendable_def mcp2515_read_register_def)
  have recv: "\<exists>mb' s' evs q'. isr_poll mb s = Some (mb', s') \<and>
      canix_process_messages t' buf idle (rxs_queue s') =
        (Frame_Event (f\<lparr>fr_data := take (unat (fr_size f)) (fr_data f)
             @ drop (unat (fr_size f)) buf\<rparr>)
           (canix_deliver_frame t' (f\<lparr>fr_data := take (unat (fr_size f)) (fr_data f)
             @ drop (unat (fr_size f)) buf\<rparr>)) # evs, q')"
    if bus: "rx_image mb = tx_image k ma'" and av: "mcp2515_message_available mb"
      and q: "length (rxs_queue s) = CANIX_QUEUE_SIZE" "\<forall>e \<in> set (rxs_queue s). rx_used e = 0"
      and idle: "idle \<noteq> []" for mb s t' buf idle
  proof -
    let ?msg = "(fr_size f, ?i AND mask 29, take (unat (fr_size f)) (fr_data f))"
    have "rx_image mb = tx_image k (load_tx_buffer k ?i (fr_data f) (fr_size f) ma)"
      using bus by (simp add: ma')
    then have rd: "fst (mcp2515_read_message mb) = ?msg" by (rule read_message_of_load [OF len])
    have free: "canix_rxq_size (rxs_queue s) = 0"
      using q(2) by (simp add: canix_rxq_size_def filter_empty_conv)
    obtain mb' where "mcp2515_read_message mb = (?msg, mb')" using rd by (metis prod.collapse)
    then have poll: "isr_poll mb s = Some (mb', s\<lparr>rxs_queue := isr_store ?msg (rxs_queue s),
        canix_rx_received := canix_rx_received s + 1\<rparr>)"
      using av len(1) free by (simp add: isr_poll_def Let_def)
    have val: "msg_valid ?msg" using len by simp
    note st = read_after_store_empty(1) [OF q val]
    from read_after_store_empty(2) [OF q val, of buf] obtain q' where rq: "can_read_message buf (isr_store ?msg (rxs_queue s)) =
        Some ((fr_size f, ?i AND mask 29, take (unat (fr_size f)) (fr_data f)
          @ drop (unat (fr_size f)) buf), q')" by blast
    obtain cb cbs where i: "take MAX_IDLE_CALLBACKS idle = cb # cbs"
      using idle by (cases idle) simp_all
    then show ?thesis
      using poll rq st
      by (auto simp: canix_process_messages_def can_message_available_def frame_of_extid
          [OF assms(1)] Let_def simp del: isr_store.simps split: prod.splits)
  qed
  from k busy ma' recv show ?thesis unfolding ma'_def [symmetric] Let_def by auto
qed

definition ex_frame :: canix_frame where
  "ex_frame = \<lparr>fr_src = 100, fr_dst = 35, fr_proto = 1, fr_size = 2, fr_data = [5, 1]\<rparr>"

text \<open>A controller with only transmit buffer 0 free, and the receiver after the bus copied it.\<close>

definition ex_mcp :: mcp where
  "ex_mcp = \<lparr>regs = (\<lambda>_. 0)(0x40 := 8, 0x50 := 8), canix_tx_sent = 0, canix_tx_dropped = 0\<rparr>"

definition ex_bus :: "mcp \<Rightarrow> mcp" where
  "ex_bus m = m\<lparr>regs := (\<lambda>a. if a = CANINTF then 1 else regs m (a - 0x30))\<rparr>"

lemma ex_bus_image: "rx_image (ex_bus m) = tx_image 0 m"
proof -
  have "[0..<13] = [0, 1, 2, 3, 4, 5, 6, 7, 8, 9, 10, 11, 12]" by code_simp
  then show ?thesis
    by (simp only: rx_image_def tx_image_def read_register_p_map) (simp add: ex_bus_def)
qed

theorem frame_crosses_bus_witness:
  "\<exists>mb' s' evs q'. isr_poll (ex_bus (fst (canix_frame_send_with_prio [] ex_frame 0 ex_mcp)))
      \<lparr>rxs_queue = empty_rxq, canix_rx_received = 0, canix_rx_lost = 0\<rparr> = Some (mb', s') \<and>
    canix_process_messages [] [0, 0, 0, 0, 0, 0, 0, 0] [0] (rxs_queue s') =
      (Frame_Event (ex_frame\<lparr>fr_data := [5, 1, 0, 0, 0, 0, 0, 0]\<rparr>) [] # evs, q')"
proof -
  have wf: "frame_wf ex_frame" and send: "can_any_sendable ex_mcp"
    by (simp_all add: frame_wf_def ex_frame_def can_any_sendable_def can_sendable_def ex_mcp_def
        mcp2515_read_register_def)
  have av: "mcp2515_message_available (ex_bus m)" for m
    by (simp add: mcp2515_message_available_def ex_bus_def mcp2515_read_register_def)
  have "\<not> can_sendable 1 ex_mcp" "\<not> can_sendable 2 ex_mcp"
    by (simp_all add: can_sendable_def ex_mcp_def mcp2515_read_register_def)
  then have "(\<forall>mb s t' buf idle. rx_image mb =
         tx_image 0 (fst (canix_frame_send_with_prio [] ex_frame 0 ex_mcp)) \<longrightarrow>
         mcp2515_message_available mb \<longrightarrow> length (rxs_queue s) = CANIX_QUEUE_SIZE \<longrightarrow>
         (\<forall>e \<in> set (rxs_queue s). rx_used e = 0) \<longrightarrow> idle \<noteq> [] \<longrightarrow>
         (\<exists>mb' s' evs q'. isr_poll mb s = Some (mb', s') \<and>
            canix_process_messages t' buf idle (rxs_queue s') =
              (Frame_Event (ex_frame\<lparr>fr_data := take (unat (fr_size ex_frame)) (fr_data ex_frame)
                                            @ drop (unat (fr_size ex_frame)) buf\<rparr>)
                 (canix_deliver_frame t' (ex_frame\<lparr>fr_data :=
                     take (unat (fr_size ex_frame)) (fr_data ex_frame)
                                            @ drop (unat (fr_size ex_frame)) buf\<rparr>)) # evs, q')))"
    using frame_crosses_bus [OF wf send, of "[]" 0] by (auto simp: Let_def)
  from this [rule_format, OF ex_bus_image, of
      "\<lparr>rxs_queue = empty_rxq, canix_rx_received = 0, canix_rx_lost = 0\<rparr>" "[0]" "[]" "[0, 0, 0, 0, 0, 0, 0, 0]"]
    av
  show ?thesis by (simp add: empty_rxq_def ex_frame_def)
qed

lemma can_read_message_size:
  assumes "can_read_message buf q = Some (msg, q')"
  shows "Suc (canix_rxq_size q') = canix_rxq_size q"
proof -
  from assms have ne: "canix_rxq_size q \<noteq> 0" by (auto simp: can_read_message_def split: if_splits)
  note slot = rxq_not_empty [OF ne]
  from assms ne have "q' = q[canix_rxq_fetch_one q := (q ! canix_rxq_fetch_one q)\<lparr>rx_used := 0\<rparr>]"
    by (auto simp: can_read_message_def Let_def)
  then show ?thesis
    using count_update_false [of _ _ is_used, OF slot] by (simp add: canix_rxq_size_def)
qed

lemma process_slots_split:
  "canix_rxq_size q \<le> length cbs \<Longrightarrow>
    \<exists>fs q'. process_slots t buf cbs q =
        (map (\<lambda>f. Frame_Event f (canix_deliver_frame t f)) fs
           @ map Idle_Event (filter (\<lambda>c. c \<noteq> 0) (drop (canix_rxq_size q) cbs)), q')
      \<and> length fs = canix_rxq_size q \<and> canix_rxq_size q' = 0"
proof (induction cbs arbitrary: q)
  case Nil
  then show ?case by simp
next
  case (Cons cb cbs)
  show ?case
  proof (cases "canix_rxq_size q = 0")
    case True
    with Cons.IH [of q] show ?thesis by (auto simp: can_message_available_def)
  next
    case False
    then obtain msg q1 where r: "can_read_message buf q = Some (msg, q1)"
      by (auto simp: can_read_message_def Let_def)
    from can_read_message_size [OF r] have sz: "canix_rxq_size q = Suc (canix_rxq_size q1)" by simp
    with Cons.prems have "canix_rxq_size q1 \<le> length cbs" by simp
    from Cons.IH [OF this] obtain fs q' where
      "process_slots t buf cbs q1 = (map (\<lambda>f. Frame_Event f (canix_deliver_frame t f)) fs
           @ map Idle_Event (filter (\<lambda>c. c \<noteq> 0) (drop (canix_rxq_size q1) cbs)), q')"
      and "length fs = canix_rxq_size q1" "canix_rxq_size q' = 0" by blast
    then show ?thesis using r sz False
      by (intro exI [of _ "frame_of_message msg # fs"] exI [of _ q'])
        (simp add: can_message_available_def Let_def)
  qed
qed

text \<open>One pass of the main loop with \<open>n \<le> 8\<close> frames queued delivers all of them and then calls
  the idle callbacks of the remaining slots only: a pending frame takes the place of the idle
  callback of its slot, and the queue is empty afterwards.\<close>

theorem process_messages_pass:
  assumes "length idle = MAX_IDLE_CALLBACKS" and "canix_rxq_size q \<le> MAX_IDLE_CALLBACKS"
  shows "\<exists>fs q'. canix_process_messages t buf idle q =
      (map (\<lambda>f. Frame_Event f (canix_deliver_frame t f)) fs
         @ map Idle_Event (filter (\<lambda>c. c \<noteq> 0) (drop (canix_rxq_size q) idle)), q')
    \<and> length fs = canix_rxq_size q \<and> canix_rxq_size q' = 0"
  using assms process_slots_split [of q idle t buf] by (simp add: canix_process_messages_def)

text \<open>A queue with one frame and one idle callback in slot 1: the frame is delivered, the callback
  still runs; in slot 0 it would have been displaced.\<close>

definition one_rxq :: rx_queue where
  "one_rxq = isr_store (1, 0, [7]) empty_rxq"

theorem process_messages_pass_witness:
  "\<exists>f q'. canix_process_messages [] [] [3, 4, 0, 0, 0, 0, 0, 0] one_rxq =
      ([Frame_Event f [], Idle_Event 4], q') \<and> canix_rxq_size q' = 0"
proof -
  have sz: "canix_rxq_size one_rxq = 1" by code_simp
  obtain fs q' where "canix_process_messages [] [] [3, 4, 0, 0, 0, 0, 0, 0] one_rxq =
      (map (\<lambda>f. Frame_Event f (canix_deliver_frame [] f)) fs
         @ map Idle_Event (filter (\<lambda>c. c \<noteq> 0) (drop (canix_rxq_size one_rxq) [3, 4, 0, 0, 0, 0, 0, 0])), q')"
    and "length fs = canix_rxq_size one_rxq" "canix_rxq_size q' = 0"
    using process_messages_pass [of "[3, 4, 0, 0, 0, 0, 0, 0]" one_rxq "[]" "[]"] sz by auto
  then show ?thesis using sz by (auto simp: length_Suc_conv)
qed

text \<open>Registering a frame callback in a table with a free slot succeeds, keeps the table's size,
  and from then on a frame is delivered to exactly the callbacks it was delivered to before and, if
  the new entry matches it, once to the new one; a full table stays unchanged.\<close>

theorem reg_frame_callback_delivery:
  assumes "cb \<noteq> 0"
  shows "case canix_reg_frame_callback cb dst proto srv t of (t', ok) \<Rightarrow>
    length t' = length t \<and> ok = (\<exists>e \<in> set t. cb_callback e = 0) \<and>
    (ok \<longrightarrow> mset (canix_deliver_frame t' f) = mset (canix_deliver_frame t f) +
       (if cb_matches f \<lparr>cb_callback = cb, cb_dst = dst, cb_proto = proto, cb_srv = srv\<rparr>
        then {#cb#} else {#})) \<and>
    (\<not> ok \<longrightarrow> t' = t)"
proof (cases "first_index (\<lambda>e. cb_callback e = 0) t")
  case None
  then have "\<not> (\<exists>e \<in> set t. cb_callback e = 0)" by (simp only: first_index_None_iff) blast
  with None show ?thesis by (simp add: canix_reg_frame_callback_def)
next
  case (Some i)
  let ?e = "\<lparr>cb_callback = cb, cb_dst = dst, cb_proto = proto, cb_srv = srv\<rparr>"
  from first_index_SomeD [OF Some] have i: "i < length t" "cb_callback (t ! i) = 0" by auto
  then have no: "\<not> cb_matches f (t ! i)" by (simp add: cb_matches_def)
  from i have t: "t = take i t @ t ! i # drop (Suc i) t" by (simp add: id_take_nth_drop)
  from i have t': "t[i := ?e] = take i t @ ?e # drop (Suc i) t" by (simp add: upd_conv_take_nth_drop)
  have "mset (canix_deliver_frame (t[i := ?e]) f) = mset (canix_deliver_frame t f) +
      (if cb_matches f ?e then {#cb#} else {#})"
    unfolding deliver_filter by (subst (2) t) (simp add: t' no)
  then show ?thesis using Some i by (auto simp: canix_reg_frame_callback_def intro: nth_mem)
qed

theorem reg_frame_callback_delivery_witness:
  "case canix_reg_frame_callback 2 35 0 0 [\<lparr>cb_callback = 0, cb_dst = 0, cb_proto = 0, cb_srv = 0\<rparr>] of
     (t', ok) \<Rightarrow> ok \<and> mset (canix_deliver_frame t' ex_frame) = {#2#}"
  using reg_frame_callback_delivery [where cb = 2 and dst = 35 and proto = 0 and srv = 0 and
      t = "[\<lparr>cb_callback = 0, cb_dst = 0, cb_proto = 0, cb_srv = 0\<rparr>]" and f = ex_frame]
  by (simp add: cb_matches_def ex_frame_def split: prod.splits)

text \<open>When no transmit buffer is free, a frame handed to \<open>canix_frame_send\<close> never reaches the bus
  and neither statistics counter notices: the controller state is unchanged, although the local
  callbacks are still called.\<close>

theorem busy_controller_drops_silently:
  assumes "\<not> can_any_sendable m"
  shows "canix_frame_send t f m = (m, canix_deliver_frame t f)"
  using assms by (simp add: canix_frame_send_def canix_frame_send_with_prio_def)

theorem busy_controller_drops_silently_witness:
  "canix_frame_send [] ex_frame \<lparr>regs = \<lambda>_. 8, canix_tx_sent = 0, canix_tx_dropped = 0\<rparr> =
    (\<lparr>regs = \<lambda>_. 8, canix_tx_sent = 0, canix_tx_dropped = 0\<rparr>, [])"
  using busy_controller_drops_silently [of "\<lparr>regs = \<lambda>_. 8, canix_tx_sent = 0, canix_tx_dropped = 0\<rparr>" "[]" ex_frame]
  by (simp add: can_any_sendable_def can_sendable_def mcp2515_read_register_def)

end
