(* ===== verification/Canix_Rtc.thy ===== *)
theory Canix_Rtc
  imports Hcan_Defs
begin

text \<open>
  The real time clock of \<open>canix/canix.c\<close>: the calendar (\<open>canix_update_datetime\<close>), the 100 Hz part
  of the timer interrupt, the freshness of the date, and \<open>time_matches\<close> of \<open>canix/tools.c\<close>. The
  calendar is related to an abstract count of seconds in years of 365 days.
\<close>

section \<open>The clock\<close>

record canix_rtc_clock_t =
  uptime_sec :: u32
  uptime_sec_100th :: u8
  day_of_week :: u8
  hour :: u8
  minute :: u8
  second :: u8
  last_date_update :: u8
  day_of_month :: u8
  month_of_year :: u8
  year :: u8

definition canix_rtc_init :: canix_rtc_clock_t where
  "canix_rtc_init = \<lparr>uptime_sec = 0, uptime_sec_100th = 0, day_of_week = 0, hour = 0, minute = 0,
     second = 0, last_date_update = 255, day_of_month = 0, month_of_year = 0, year = 0\<rparr>"

definition month_days :: "u8 \<Rightarrow> u8" where
  "month_days m =
     (if m = 1 then 31 else if m = 2 then 28 else if m = 3 then 31 else if m = 4 then 30
      else if m = 5 then 31 else if m = 6 then 30 else if m = 7 then 31 else if m = 8 then 31
      else if m = 9 then 30 else if m = 10 then 31 else if m = 11 then 30 else if m = 12 then 31
      else 0)"

text \<open>Midnight: the new day of the week and the new date.\<close>

definition next_date :: "canix_rtc_clock_t \<Rightarrow> canix_rtc_clock_t" where
  "next_date c =
     (let c1 = c\<lparr>hour := 0,
                 day_of_week := (if day_of_week c + 1 = 8 then 1 else day_of_week c + 1),
                 day_of_month := day_of_month c + 1\<rparr>
      in if day_of_month c1 > month_days (month_of_year c1)
         then (let c2 = c1\<lparr>day_of_month := 1, month_of_year := month_of_year c1 + 1\<rparr>
               in if month_of_year c2 > 12
                  then c2\<lparr>month_of_year := 1, year := year c2 + 1\<rparr> else c2)
         else c1)"

definition canix_update_datetime :: "canix_rtc_clock_t \<Rightarrow> canix_rtc_clock_t" where
  "canix_update_datetime c =
     (let c = c\<lparr>second := second c + 1\<rparr>
      in if second c \<noteq> 60 then c
         else (let c = c\<lparr>second := 0, minute := minute c + 1\<rparr>
               in if minute c \<noteq> 60 then c
                  else (let c = c\<lparr>minute := 0,
                                  last_date_update := (if last_date_update c < 255
                                    then last_date_update c + 1 else last_date_update c),
                                  hour := hour c + 1\<rparr>
                        in if hour c \<noteq> 24 then c else next_date c)))"

definition canix_is_date_valid :: "canix_rtc_clock_t \<Rightarrow> bool" where
  "canix_is_date_valid c = (last_date_update c \<noteq> 255)"

section \<open>The timer interrupt\<close>

text \<open>The part of \<open>TIMER0_OVF_vect\<close> after the polling of the controller. The second component of
  the result says whether the RTC callbacks were called.\<close>

record isr_state =
  rtc_clock :: canix_rtc_clock_t
  rtc_clock_counter :: u8
  canix_loop_throughput_counter :: u16
  canix_loop_throughput :: u16
  canix_sleep_ticker :: int

definition isr_rtc :: "isr_state \<Rightarrow> isr_state \<times> bool" where
  "isr_rtc s =
     (if rtc_clock_counter s > 34
      then (let c = rtc_clock s;
                c = c\<lparr>uptime_sec_100th := uptime_sec_100th c + 1\<rparr>;
                s1 = s\<lparr>rtc_clock_counter := 0, rtc_clock := c\<rparr>;
                s2 = (if uptime_sec_100th c = 100
                      then s1\<lparr>rtc_clock := canix_update_datetime
                                  (c\<lparr>uptime_sec_100th := 0, uptime_sec := uptime_sec c + 1\<rparr>),
                              canix_loop_throughput := canix_loop_throughput_counter s1,
                              canix_loop_throughput_counter := 0\<rparr>
                      else s1)
            in (s2\<lparr>canix_sleep_ticker := (if canix_sleep_ticker s2 > 0
                     then canix_sleep_ticker s2 - 1 else canix_sleep_ticker s2)\<rparr>, True))
      else (s\<lparr>rtc_clock_counter := rtc_clock_counter s + 1\<rparr>, False))"

text \<open>\<open>n\<close> interrupts in a row, counting the calls of the RTC callbacks.\<close>

primrec isr_rtc_n :: "nat \<Rightarrow> isr_state \<Rightarrow> isr_state \<times> nat" where
  "isr_rtc_n 0 s = (s, 0)"
| "isr_rtc_n (Suc n) s =
     (let (s1, k) = isr_rtc_n n s; (s2, called) = isr_rtc s1
      in (s2, if called then Suc k else k))"

section \<open>Time windows\<close>

text \<open>\<open>day_pattern & (1 << day_of_week)\<close> on an eight bit pattern: only days up to 7 can match.\<close>

definition time_matches :: "u8 \<Rightarrow> u8 \<Rightarrow> u8 \<Rightarrow> u8 \<Rightarrow> u8 \<Rightarrow> canix_rtc_clock_t \<Rightarrow> bool" where
  "time_matches from_hour from_minute to_hour to_minute day_pattern c =
     (let t1 = ucast from_hour * 60 + ucast from_minute :: u16;
          t2 = ucast to_hour * 60 + ucast to_minute :: u16;
          tnow = ucast (hour c) * 60 + ucast (minute c) :: u16;
          (t2', tnow') = (if t2 < t1 then (t2 + 1440, if tnow < t1 then tnow + 1440 else tnow)
                          else (t2, tnow))
      in bit day_pattern (unat (day_of_week c)) \<and> t1 \<le> tnow' \<and> tnow' \<le> t2')"

section \<open>The abstract calendar\<close>

definition clock_wf :: "canix_rtc_clock_t \<Rightarrow> bool" where
  "clock_wf c = (second c < 60 \<and> minute c < 60 \<and> hour c < 24 \<and>
     1 \<le> day_of_week c \<and> day_of_week c \<le> 7 \<and>
     1 \<le> month_of_year c \<and> month_of_year c \<le> 12 \<and>
     1 \<le> day_of_month c \<and> day_of_month c \<le> month_days (month_of_year c))"

definition days_before :: "nat \<Rightarrow> nat" where
  "days_before m = sum_list (take (m - 1) [31, 28, 31, 30, 31, 30, 31, 31, 30, 31, 30, 31])"

definition secs_of_day :: "canix_rtc_clock_t \<Rightarrow> nat" where
  "secs_of_day c = unat (hour c) * 3600 + unat (minute c) * 60 + unat (second c)"

definition day_number :: "canix_rtc_clock_t \<Rightarrow> nat" where
  "day_number c = unat (year c) * 365 + days_before (unat (month_of_year c))
     + unat (day_of_month c) - 1"

definition abs_seconds :: "canix_rtc_clock_t \<Rightarrow> nat" where
  "abs_seconds c = day_number c * 86400 + secs_of_day c"

lemma unat_Suc_less: "(w :: u8) < v \<Longrightarrow> unat (w + 1) = Suc (unat w)"
proof -
  assume "w < v"
  then have "unat w < unat v" by (simp add: word_less_nat_alt)
  then have "unat w + 1 < 2 ^ LENGTH(8)" using unat_u8_less [of v] by simp
  then show ?thesis by (simp add: unat_plus_one_lt)
qed

lemma u8_Suc_le: "(w :: u8) < v \<Longrightarrow> w + 1 \<le> v"
  by (simp add: word_le_nat_alt unat_Suc_less) (simp add: word_less_nat_alt)

lemma u8_Suc_eq: "(w :: u8) < v \<Longrightarrow> (w + 1 = v) = (Suc (unat w) = unat v)"
  by (simp add: word_unat_eq_iff unat_Suc_less)

lemma month_cases:
  assumes "1 \<le> (m :: u8)" and "m \<le> 12"
  shows "m \<in> {1, 2, 3, 4, 5, 6, 7, 8, 9, 10, 11, 12}"
proof -
  have "unat m \<in> {1, 2, 3, 4, 5, 6, 7, 8, 9, 10, 11, 12}"
    using assms by (simp add: word_le_nat_alt) presburger
  then show ?thesis by (auto simp: word_unat_eq_iff)
qed

lemma month_table:
  assumes "1 \<le> (m :: u8)" and "m \<le> 12"
  shows "28 \<le> month_days m" and "month_days m \<le> 31"
    and "m < 12 \<Longrightarrow> days_before (unat (m + 1)) = days_before (unat m) + unat (month_days m)"
    and "m < 12 \<Longrightarrow> \<not> 12 < m + 1"
    and "days_before 1 = 0" and "days_before (unat (12 :: u8)) = 334"
    and "m < 12 \<Longrightarrow> days_before (unat m) + unat (month_days m) \<le> 334"
  using month_cases [OF assms] by (auto simp: month_days_def days_before_def)

text \<open>The advance at the end of an hour and at midnight.\<close>

lemma next_date_abs:
  assumes "clock_wf c"
  shows "clock_wf (next_date c)"
    and "day_number (next_date c) = (day_number c + 1) mod (256 * 365)"
    and "secs_of_day (next_date c) = unat (minute c) * 60 + unat (second c)"
proof -
  note wf = assms [unfolded clock_wf_def]
  note tab = month_table [of "month_of_year c"]
  have dom: "unat (day_of_month c + 1) = Suc (unat (day_of_month c))"
    using wf tab unat_Suc_less [of "day_of_month c" 32] by (auto simp: word_less_nat_alt word_le_nat_alt)
  have md: "month_days 1 = 31" "month_days 12 = 31" by (simp_all add: month_days_def)
  have dow: "day_of_week c + 1 = 8 \<or> day_of_week c + 1 \<le> 7 \<and> 1 \<le> day_of_week c + 1"
    using wf unat_Suc_less [of "day_of_week c" 8] by (auto simp: word_less_nat_alt word_le_nat_alt word_unat_eq_iff)
  have mon: "month_of_year c = 12 \<or> month_of_year c < 12" using wf by auto
  have mon1: "month_of_year c < 12 \<Longrightarrow> 1 \<le> month_of_year c + 1 \<and> month_of_year c + 1 \<le> 12"
    using unat_Suc_less [of "month_of_year c" 12] by (auto simp: word_less_nat_alt word_le_nat_alt)
  show "clock_wf (next_date c)"
    using wf dow mon mon1 tab dom month_table(1) [of "month_of_year c + 1"]
    by (auto simp: clock_wf_def next_date_def Let_def month_table md word_less_nat_alt word_le_nat_alt
        not_less)
  show "secs_of_day (next_date c) = unat (minute c) * 60 + unat (second c)"
    by (simp add: secs_of_day_def next_date_def Let_def)
  show "day_number (next_date c) = (day_number c + 1) mod (256 * 365)"
  proof -
    let ?D = "unat (day_of_month c)" and ?N = "unat (month_days (month_of_year c))"
    have yr: "unat (year c + 1) = (unat (year c) + 1) mod 256" by (simp add: unat_word_ariths)
    have le: "days_before (unat (month_of_year c)) + ?N \<le> 365"
      using month_cases wf by (fastforce simp: month_days_def days_before_def)
    consider (day) "?D < ?N" | (month) "?D = ?N" "month_of_year c < 12"
      | (new_year) "?D = ?N" "month_of_year c = 12"
    proof -
      have "?D < ?N \<or> ?D = ?N" using wf by (simp add: word_le_nat_alt nat_less_le)
      then show thesis using mon that by blast
    qed
    then show ?thesis
    proof cases
      case day
      then have "next_date c = c\<lparr>hour := 0, day_of_week := (if day_of_week c + 1 = 8 then 1
          else day_of_week c + 1), day_of_month := day_of_month c + 1\<rparr>"
        using dom by (simp add: next_date_def word_less_nat_alt)
      moreover have "day_number c + 1 < 256 * 365"
        using day le unat_u8_less [of "year c"] by (simp add: day_number_def)
      ultimately show ?thesis using dom wf by (simp add: day_number_def word_le_nat_alt)
    next
      case month
      then have "next_date c = c\<lparr>hour := 0, day_of_week := (if day_of_week c + 1 = 8 then 1
          else day_of_week c + 1), day_of_month := 1, month_of_year := month_of_year c + 1\<rparr>"
        using dom tab(4) wf by (simp add: next_date_def word_less_nat_alt)
      moreover have "day_number c + 1 < 256 * 365"
        using month tab(7) wf unat_u8_less [of "year c"] by (simp add: day_number_def)
      ultimately show ?thesis using month tab(3) wf tab(1)
        by (simp add: day_number_def word_le_nat_alt)
    next
      case new_year
      then have "day_number c + 1 = (unat (year c) + 1) * 365"
        using md tab(6) wf by (simp add: day_number_def)
      moreover have "next_date c = c\<lparr>hour := 0, day_of_week := (if day_of_week c + 1 = 8 then 1
          else day_of_week c + 1), day_of_month := 1, month_of_year := 1, year := year c + 1\<rparr>"
        using new_year dom md by (simp add: next_date_def word_less_nat_alt)
      then have "day_number (next_date c) = (unat (year c) + 1) mod 256 * 365"
        using yr tab(5) wf by (simp add: day_number_def)
      ultimately show ?thesis by (simp only: mult_mod_left)
    qed
  qed
qed

lemma day_number_less: "clock_wf c \<Longrightarrow> day_number c < 256 * 365"
proof -
  assume wf: "clock_wf c"
  then have "days_before (unat (month_of_year c)) + unat (month_days (month_of_year c)) \<le> 365"
    using month_cases unfolding clock_wf_def by (fastforce simp: month_days_def days_before_def)
  moreover from wf have "unat (day_of_month c) \<le> unat (month_days (month_of_year c))"
    "1 \<le> unat (day_of_month c)"
    by (simp_all add: clock_wf_def word_le_nat_alt)
  moreover have "unat (year c) \<le> 255" using unat_u8_less [of "year c"] by simp
  ultimately show ?thesis unfolding day_number_def by linarith
qed

lemma clock_fields:
  assumes "clock_wf c"
  shows "unat (second c) < 60" "unat (minute c) < 60" "unat (hour c) < 24"
    "unat (second c + 1) = Suc (unat (second c))" "unat (minute c + 1) = Suc (unat (minute c))"
    "unat (hour c + 1) = Suc (unat (hour c))"
    "(second c + 1 = 60) = (Suc (unat (second c)) = 60)"
    "(minute c + 1 = 60) = (Suc (unat (minute c)) = 60)"
    "(hour c + 1 = 24) = (Suc (unat (hour c)) = 24)"
  using assms unat_Suc_less [of "second c" 60] unat_Suc_less [of "minute c" 60]
    unat_Suc_less [of "hour c" 24] u8_Suc_eq [of "second c" 60] u8_Suc_eq [of "minute c" 60]
    u8_Suc_eq [of "hour c" 24]
  by (simp_all add: clock_wf_def word_less_nat_alt)

text \<open>The fields a step of the clock below midnight leaves alone.\<close>

lemma abs_seconds_within_day:
  assumes "clock_wf c" and "c' = c\<lparr>hour := h, minute := m, second := s, last_date_update := l\<rparr>"
    and "h < 24" "m < 60" "s < 60"
    and "unat h * 3600 + unat m * 60 + unat s = secs_of_day c + 1"
  shows "clock_wf c' \<and> abs_seconds c' = (abs_seconds c + 1) mod (256 * 365 * 86400)"
proof -
  have "clock_wf c'" using assms(1,3-5) by (simp add: assms(2) clock_wf_def)
  moreover have "day_number c' = day_number c" by (simp add: assms(2) day_number_def)
  moreover have "secs_of_day c' = secs_of_day c + 1"
    using assms(6) by (simp add: assms(2) secs_of_day_def)
  moreover have "secs_of_day c' < 86400"
    using clock_fields(1-3) [OF \<open>clock_wf c'\<close>] by (simp add: secs_of_day_def)
  moreover have "day_number c < 256 * 365" using day_number_less [OF assms(1)] .
  ultimately show ?thesis by (simp add: abs_seconds_def)
qed

text \<open>C3: One call of \<open>canix_update_datetime\<close>, made once a second, advances a well-formed clock by
  exactly one second of a calendar with years of 365 days that starts over after 256 years, and
  leaves it well-formed: every carry from seconds to years is right, except that there are no leap
  days.\<close>

theorem update_datetime_calendar:
  assumes "clock_wf c"
  shows "clock_wf (canix_update_datetime c) \<and>
    abs_seconds (canix_update_datetime c) = (abs_seconds c + 1) mod (256 * 365 * 86400)"
proof -
  note f = clock_fields [OF assms]
  let ?l = "if last_date_update c < 255 then last_date_update c + 1 else last_date_update c"
  let ?h = "c\<lparr>second := 0, minute := 0, last_date_update := ?l, hour := hour c + 1\<rparr>"
  consider (second) "Suc (unat (second c)) < 60"
    | (minute) "Suc (unat (second c)) = 60" "Suc (unat (minute c)) < 60"
    | (hour) "Suc (unat (second c)) = 60" "Suc (unat (minute c)) = 60" "Suc (unat (hour c)) < 24"
    | (day) "Suc (unat (second c)) = 60" "Suc (unat (minute c)) = 60" "Suc (unat (hour c)) = 24"
    using f(1-3) by linarith
  then show ?thesis
  proof cases
    case second
    then show ?thesis
      using f assms by (intro abs_seconds_within_day [OF assms, where h = "hour c" and
          m = "minute c" and s = "second c + 1" and l = "last_date_update c"])
        (simp_all add: canix_update_datetime_def word_less_nat_alt secs_of_day_def)
  next
    case minute
    then show ?thesis
      using f assms by (intro abs_seconds_within_day [OF assms, where h = "hour c" and
          m = "minute c + 1" and s = 0 and l = "last_date_update c"])
        (simp_all add: canix_update_datetime_def word_less_nat_alt secs_of_day_def)
  next
    case hour
    then show ?thesis
      using f assms by (intro abs_seconds_within_day [OF assms, where h = "hour c + 1" and
          m = 0 and s = 0 and l = ?l])
        (simp_all add: canix_update_datetime_def Let_def word_less_nat_alt secs_of_day_def)
  next
    case day
    have u: "canix_update_datetime c = next_date (c\<lparr>second := 0, minute := 0, last_date_update := ?l\<rparr>)"
      using day f by (simp add: canix_update_datetime_def Let_def next_date_def)
    let ?c = "c\<lparr>second := 0, minute := 0, last_date_update := ?l\<rparr>"
    have "clock_wf ?c" using assms by (simp add: clock_wf_def)
    note nd = next_date_abs [OF this]
    have "day_number ?c = day_number c" by (simp add: day_number_def)
    then have "abs_seconds (canix_update_datetime c) = (day_number c + 1) mod (256 * 365) * 86400"
      using nd(2,3) by (simp add: u abs_seconds_def)
    moreover have "abs_seconds c + 1 = (day_number c + 1) * 86400"
      using day by (simp add: abs_seconds_def secs_of_day_def)
    ultimately show ?thesis using nd(1) by (simp only: u mult_mod_left)
  qed
qed

definition new_years_eve :: canix_rtc_clock_t where
  "new_years_eve = \<lparr>uptime_sec = 0, uptime_sec_100th = 0, day_of_week = 7, hour = 23, minute = 59,
     second = 59, last_date_update = 3, day_of_month = 31, month_of_year = 12, year = 6\<rparr>"

theorem update_datetime_calendar_witness:
  "abs_seconds (canix_update_datetime new_years_eve) = 7 * 365 * 86400 \<and>
   year (canix_update_datetime new_years_eve) = 7"
proof -
  have "clock_wf new_years_eve" by (simp add: clock_wf_def new_years_eve_def month_days_def)
  from update_datetime_calendar [OF this]
  have "abs_seconds (canix_update_datetime new_years_eve) =
    (abs_seconds new_years_eve + 1) mod (256 * 365 * 86400)" ..
  moreover have "abs_seconds new_years_eve + 1 = 7 * 365 * 86400"
    by (simp add: abs_seconds_def day_number_def secs_of_day_def days_before_def new_years_eve_def)
  moreover have "year (canix_update_datetime new_years_eve) = 7"
    by (simp add: canix_update_datetime_def next_date_def month_days_def new_years_eve_def Let_def)
  ultimately show ?thesis by simp
qed

section \<open>The rate of the RTC callbacks\<close>

definition uptime_100th :: "isr_state \<Rightarrow> nat" where
  "uptime_100th s = unat (uptime_sec (rtc_clock s)) * 100 + unat (uptime_sec_100th (rtc_clock s))"

lemma update_datetime_uptime [simp]:
  "uptime_sec (canix_update_datetime c) = uptime_sec c"
  "uptime_sec_100th (canix_update_datetime c) = uptime_sec_100th c"
  by (simp_all add: canix_update_datetime_def next_date_def Let_def)

lemma isr_rtc_step:
  assumes "uptime_sec_100th (rtc_clock s) < 100" and "rtc_clock_counter s \<le> 35"
    and "isr_rtc s = (s', called)"
  shows "uptime_sec_100th (rtc_clock s') < 100" and "rtc_clock_counter s' \<le> 35"
    and "called = (unat (rtc_clock_counter s) = 35)"
    and "unat (rtc_clock_counter s') = (if called then 0 else unat (rtc_clock_counter s) + 1)"
    and "uptime_100th s' = (uptime_100th s + (if called then 1 else 0)) mod (2 ^ 32 * 100)"
proof -
  note h = unat_Suc_less [OF assms(1)] u8_Suc_eq [OF assms(1)]
  have k: "34 < rtc_clock_counter s \<longleftrightarrow> unat (rtc_clock_counter s) = 35"
    using assms(2) by (auto simp: word_less_nat_alt word_le_nat_alt)
  have k1: "unat (rtc_clock_counter s) < 35 \<Longrightarrow>
      unat (rtc_clock_counter s + 1) = unat (rtc_clock_counter s) + 1"
    using unat_Suc_less [of "rtc_clock_counter s" 35] by (simp add: word_less_nat_alt)
  have u: "unat (uptime_sec (rtc_clock s) + 1) = (unat (uptime_sec (rtc_clock s)) + 1) mod 2 ^ 32"
    by (simp add: unat_word_ariths)
  have u32: "unat (uptime_sec (rtc_clock s)) < 2 ^ LENGTH(32)" by (rule unsigned_less)
  show "called = (unat (rtc_clock_counter s) = 35)"
    and "unat (rtc_clock_counter s') = (if called then 0 else unat (rtc_clock_counter s) + 1)"
    and "rtc_clock_counter s' \<le> 35"
    using assms(2,3) k k1 by (auto simp: isr_rtc_def Let_def word_le_nat_alt split: if_splits)
  show "uptime_sec_100th (rtc_clock s') < 100"
    using assms(1,3) h by (auto simp: isr_rtc_def Let_def word_less_nat_alt split: if_splits)
  show "uptime_100th s' = (uptime_100th s + (if called then 1 else 0)) mod (2 ^ 32 * 100)"
  proof (cases called)
    case False
    then have "rtc_clock s' = rtc_clock s"
      using assms(3) by (auto simp: isr_rtc_def Let_def split: if_splits)
    then show ?thesis
      using False u32 assms(1) by (simp add: uptime_100th_def word_less_nat_alt)
  next
    case True
    let ?n = "unat (uptime_sec (rtc_clock s))" and ?f = "unat (uptime_sec_100th (rtc_clock s))"
    have f: "?f < 100" using assms(1) by (simp add: word_less_nat_alt)
    have "uptime_100th s' = (if Suc ?f = 100 then (?n + 1) mod 2 ^ 32 * 100 else ?n * 100 + Suc ?f)"
      using assms(3) True h u by (auto simp: isr_rtc_def Let_def uptime_100th_def split: if_splits)
    moreover have "\<dots> = (?n * 100 + Suc ?f) mod (2 ^ 32 * 100)"
    proof (cases "Suc ?f = 100")
      case True
      then have "?n * 100 + Suc ?f = (?n + 1) * 100" by simp
      with True show ?thesis by (simp only: mult_mod_left if_True simp_thms)
    next
      case False
      with f u32 show ?thesis by simp
    qed
    ultimately show ?thesis using True by (simp add: uptime_100th_def)
  qed
qed

lemma isr_rtc_n_state:
  assumes "uptime_sec_100th (rtc_clock s) < 100" and "rtc_clock_counter s = 0"
    and "isr_rtc_n n s = (s', k)"
  shows "uptime_sec_100th (rtc_clock s') < 100 \<and> rtc_clock_counter s' \<le> 35 \<and>
    unat (rtc_clock_counter s') = n mod 36 \<and> k = n div 36 \<and>
    uptime_100th s' = (uptime_100th s + k) mod (2 ^ 32 * 100)"
  using assms(3)
proof (induction n arbitrary: s' k)
  case 0
  have "unat (uptime_sec (rtc_clock s)) < 2 ^ LENGTH(32)" by (rule unsigned_less)
  then have "uptime_100th s < 2 ^ 32 * 100"
    using assms(1) by (simp add: uptime_100th_def word_less_nat_alt)
  with 0 assms show ?case by auto
next
  case (Suc n)
  obtain s1 k1 called where r: "isr_rtc_n n s = (s1, k1)" "isr_rtc s1 = (s', called)"
    "k = (if called then Suc k1 else k1)"
    using Suc.prems by (auto simp: Let_def split: prod.splits)
  from Suc.IH [OF r(1)] have IH: "uptime_sec_100th (rtc_clock s1) < 100" "rtc_clock_counter s1 \<le> 35"
    "unat (rtc_clock_counter s1) = n mod 36" "k1 = n div 36"
    "uptime_100th s1 = (uptime_100th s + k1) mod (2 ^ 32 * 100)" by simp_all
  note st = isr_rtc_step [OF IH(1,2) r(2)]
  have "Suc n mod 36 = (if n mod 36 = 35 then 0 else n mod 36 + 1)" by (simp add: mod_Suc)
  moreover have "Suc n div 36 = (if n mod 36 = 35 then n div 36 + 1 else n div 36)"
    using mod_Suc [of n 36] by (simp add: div_Suc split: if_splits)
  ultimately show ?case
    using st IH(3-5) r(3) by (auto simp: mod_simps)
qed

text \<open>Of the timer interrupts, which come at 3600 Hz, every 36th runs the RTC part: after \<open>n\<close>
  interrupts the RTC callbacks have been called exactly \<open>n div 36\<close> times and the uptime has grown
  by that many hundredths of a second (modulo the 32 bit seconds counter).\<close>

theorem rtc_callback_rate:
  assumes "uptime_sec_100th (rtc_clock s) < 100" and "rtc_clock_counter s = 0"
  shows "\<exists>s'. isr_rtc_n n s = (s', n div 36) \<and>
    uptime_100th s' = (uptime_100th s + n div 36) mod (2 ^ 32 * 100)"
proof -
  obtain s' k where "isr_rtc_n n s = (s', k)" by (cases "isr_rtc_n n s")
  with isr_rtc_n_state [OF assms this] show ?thesis by auto
qed

definition boot_isr_state :: isr_state where
  "boot_isr_state = \<lparr>rtc_clock = canix_rtc_init, rtc_clock_counter = 0,
     canix_loop_throughput_counter = 0, canix_loop_throughput = 0, canix_sleep_ticker = 0\<rparr>"

theorem rtc_callback_rate_witness:
  "\<exists>s'. isr_rtc_n 7200 boot_isr_state = (s', 200) \<and> uptime_100th s' = 200"
  using rtc_callback_rate [of boot_isr_state 7200]
  by (simp add: boot_isr_state_def canix_rtc_init_def uptime_100th_def)

section \<open>Time windows, abstractly\<close>

text \<open>Minutes since midnight, and a window that may run over midnight.\<close>

definition in_window :: "nat \<Rightarrow> nat \<Rightarrow> nat \<Rightarrow> bool" where
  "in_window t1 t2 now = (if t1 \<le> t2 then t1 \<le> now \<and> now \<le> t2 else t1 \<le> now \<or> now \<le> t2)"

definition minutes :: "u8 \<Rightarrow> u8 \<Rightarrow> nat" where
  "minutes h m = unat h * 60 + unat m"

lemma unat_minutes: "unat (ucast (h :: u8) * 60 + ucast (m :: u8) :: u16) = minutes h m"
  using unat_u8_less [of h] unat_u8_less [of m] by (simp add: minutes_def unat_word_ariths)

lemma minutes_less: "h < 24 \<Longrightarrow> m < 60 \<Longrightarrow> minutes h m < 1440"
  by (simp add: minutes_def word_less_nat_alt)

lemma unat_plus_day: "unat (w :: u16) < 1440 \<Longrightarrow> unat (w + 1440) = unat w + 1440"
  by (simp add: unat_word_ariths)

text \<open>For valid times, \<open>time_matches\<close> decides membership in the window from \<open>from\<close> to \<open>to\<close>, both
  inclusive and possibly running over midnight, on a day whose bit is set in the pattern; the day
  is always the current one, also after midnight.\<close>

theorem time_matches_window:
  assumes "fh < 24" "fm < 60" "th < 24" "tm < 60" "hour c < 24" "minute c < 60"
  shows "time_matches fh fm th tm pat c \<longleftrightarrow>
    bit pat (unat (day_of_week c)) \<and>
    in_window (minutes fh fm) (minutes th tm) (minutes (hour c) (minute c))"
proof -
  note b = minutes_less [OF assms(1,2)] minutes_less [OF assms(3,4)] minutes_less [OF assms(5,6)]
  show ?thesis
    using b unfolding time_matches_def Let_def
    by (auto simp: in_window_def word_less_nat_alt word_le_nat_alt unat_minutes unat_plus_day)
qed

theorem time_matches_window_witness:
  "time_matches 22 0 6 30 0x80 new_years_eve \<and> \<not> time_matches 22 0 23 30 0x80 new_years_eve"
proof -
  have "hour new_years_eve < 24" "minute new_years_eve < 60" by (simp_all add: new_years_eve_def)
  moreover have "bit (0x80 :: u8) (unat (day_of_week new_years_eve))"
    by (simp add: new_years_eve_def bit_iff_odd)
  ultimately show ?thesis
    using time_matches_window [where fh = 22 and fm = 0 and th = 6 and tm = 30
          and c = new_years_eve and pat = "0x80"]
      time_matches_window [where fh = 22 and fm = 0 and th = 23 and tm = 30
          and c = new_years_eve and pat = "0x80"]
    by (simp add: in_window_def minutes_def new_years_eve_def)
qed

end
