(* ===== verification/Board.thy ===== *)
theory Board
  imports Canix_Rtc
begin

text \<open>
  The controller board as its device drivers see it: the port registers and the 74HC595 output
  chain (\<open>darlingtonoutput.c\<close>, \<open>shiftio.c\<close>), the inputs (\<open>tasterinput.c\<close>), the EEPROM, the clock, and
  what goes to the outside. Frames handed to \<open>canix_frame_send\<close> and
  \<open>canix_frame_send_with_prio\<close> are collected with their priority in the order they are sent; what
  the sending does with each (controller and local delivery) is the subject of \<open>Canix\<close>. Syslog
  messages are collected as priority, format and arguments. \<open>fault\<close> is set once a driver does
  something the C standard leaves undefined (a division by zero). The locale \<open>pin_bank\<close> is the
  interface the relay drivers rely on.
\<close>

section \<open>The board\<close>

record board =
  DDRD :: u8
  PORTD :: u8
  DDRB :: u8
  PORTB :: u8
  DDRA :: u8
  PORTA :: u8
  PINA :: u8
  DDRC :: u8
  PORTC :: u8
  PINC :: u8
  shift_data :: "u8 list"
  shift_in :: "nat \<Rightarrow> bool"
  eeprom :: "nat \<Rightarrow> u8"
  rtc :: canix_rtc_clock_t
  my_address :: u16
  canix_debug_level :: u8
  sent :: "(canix_frame \<times> u8) list"
  syslog :: "(u8 \<times> string \<times> int list) list"
  fault :: bool

definition canix_selfaddr :: "board \<Rightarrow> u16" where
  "canix_selfaddr b =
     (if my_address b \<noteq> 0 then my_address b
      else word16 (eeprom b (EEPR_SELF_ADDR + 1)) (eeprom b EEPR_SELF_ADDR) AND 0x3ff)"

definition send_prio :: "u16 \<Rightarrow> u8 list \<Rightarrow> u8 \<Rightarrow> board \<Rightarrow> board" where
  "send_prio dst data prio b =
     b\<lparr>sent := sent b @ [(\<lparr>fr_src = canix_selfaddr b, fr_dst = dst, fr_proto = HCAN_PROTO_SFP,
         fr_size = of_nat (length data), fr_data = data\<rparr>, prio)]\<rparr>"

text \<open>\<open>canix_frame_send\<close> uses the low priority.\<close>

definition send_frame :: "u16 \<Rightarrow> u8 list \<Rightarrow> board \<Rightarrow> board" where
  "send_frame dst data b = send_prio dst data HCAN_PRIO_LOW b"

definition canix_syslog_P :: "u8 \<Rightarrow> string \<Rightarrow> int list \<Rightarrow> board \<Rightarrow> board" where
  "canix_syslog_P prio fmt args b =
     (if canix_debug_level b \<ge> prio then b\<lparr>syslog := syslog b @ [(prio, fmt, args)]\<rparr> else b)"

definition canix_set_syslog_level :: "u8 \<Rightarrow> board \<Rightarrow> board" where
  "canix_set_syslog_level level b = b\<lparr>canix_debug_level := level\<rparr>"

definition eeprom_read_byte :: "nat \<Rightarrow> board \<Rightarrow> u8" where
  "eeprom_read_byte p b = eeprom b p"

definition eeprom_write_byte :: "nat \<Rightarrow> u8 \<Rightarrow> board \<Rightarrow> board" where
  "eeprom_write_byte p v b = b\<lparr>eeprom := (eeprom b)(p := v)\<rparr>"

definition raise_fault :: "board \<Rightarrow> board" where
  "raise_fault b = b\<lparr>fault := True\<rparr>"

section \<open>The output pins\<close>

abbreviation (input) MAX_NUM_OF_SHIFT_OUT_REGISTER :: nat where
  "MAX_NUM_OF_SHIFT_OUT_REGISTER \<equiv> 4"

text \<open>The loops of \<open>shiftio.c\<close> over the data bytes: \<open>i\<close> is the byte, \<open>n\<close> the pin relative to it.\<close>

fun changeShiftOutPinState :: "nat \<Rightarrow> bool \<Rightarrow> u8 list \<Rightarrow> u8 list" where
  "changeShiftOutPinState n state [] = []"
| "changeShiftOutPinState n state (d # ds) =
     (if n < 8 then (if state then set_bit n d else unset_bit n d) # ds
      else d # changeShiftOutPinState (n - 8) state ds)"

fun getShiftOutPinState :: "nat \<Rightarrow> u8 list \<Rightarrow> bool" where
  "getShiftOutPinState n [] = False"
| "getShiftOutPinState n (d # ds) =
     (if n < 8 then bit d n else getShiftOutPinState (n - 8) ds)"

definition initShiftInOut :: "board \<Rightarrow> board" where
  "initShiftInOut b =
     b\<lparr>DDRC := DDRC b OR 0x1d, PORTC := PORTC b AND NOT 0x01 AND NOT 0x04 AND NOT 0x08
         AND NOT 0x02 AND NOT 0x10\<rparr>"

definition darlingtonoutput_init :: "board \<Rightarrow> board" where
  "darlingtonoutput_init b =
     initShiftInOut (b\<lparr>DDRD := DDRD b OR 0xff, DDRB := DDRB b OR 0x0f, PORTD := 0,
       PORTB := PORTB b AND NOT 0x0f\<rparr>)"

text \<open>\<open>getpin\<close> returns the masked byte; its users only test it against zero.\<close>

definition darlingtonoutput_getpin :: "u8 \<Rightarrow> board \<Rightarrow> bool" where
  "darlingtonoutput_getpin n b =
     (if n < 8 then bit (PORTD b) (unat n)
      else if n < 12 then bit (PORTB b) (unat (n - 8))
      else getShiftOutPinState (unat (n - 12)) (shift_data b))"

definition darlingtonoutput_setpin :: "u8 \<Rightarrow> bool \<Rightarrow> board \<Rightarrow> board" where
  "darlingtonoutput_setpin n state b =
     (if n < 8 then
        b\<lparr>DDRD := set_bit (unat n) (DDRD b),
          PORTD := (if state then set_bit (unat n) (PORTD b) else unset_bit (unat n) (PORTD b))\<rparr>
      else if n < 12 then
        (let n = n - 8
         in b\<lparr>DDRB := set_bit (unat n) (DDRB b),
              PORTB := (if state then set_bit (unat n) (PORTB b) else unset_bit (unat n) (PORTB b))\<rparr>)
      else b\<lparr>shift_data := changeShiftOutPinState (unat (n - 12)) state (shift_data b)\<rparr>)"

section \<open>The shift register chain\<close>

text \<open>\<open>shiftOutByte\<close> clocks a byte out, most significant bit first; \<open>shiftOutDataArray\<close> starts with
  the last byte of the array. The chain is the bits the 74HC595s hold, the one nearest to the
  controller first; \<open>activateNewOutput\<close> copies them to the output pins.\<close>

fun shift_bits :: "nat \<Rightarrow> u8 \<Rightarrow> bool list \<Rightarrow> bool list" where
  "shift_bits 0 d chain = chain"
| "shift_bits (Suc i) d chain = shift_bits i (push_bit 1 d) (bit d 7 # butlast chain)"

definition shiftOutByte :: "u8 \<Rightarrow> bool list \<Rightarrow> bool list" where
  "shiftOutByte d chain = shift_bits 8 d chain"

definition shiftOutDataArray :: "u8 list \<Rightarrow> bool list \<Rightarrow> bool list" where
  "shiftOutDataArray data chain = fold shiftOutByte (rev data) chain"

definition shiftOut_timer_handler :: "board \<Rightarrow> bool list \<Rightarrow> bool list" where
  "shiftOut_timer_handler b chain = shiftOutDataArray (shift_data b) chain"

section \<open>The inputs\<close>

text \<open>The 4021 chain is loaded and clocked \<open>n\<close> times; \<open>shift_in\<close> is the state of its parallel
  inputs in the order they are clocked out. The value is what the callers test against zero.\<close>

definition isBitFromShiftInSet :: "nat \<Rightarrow> board \<Rightarrow> bool" where
  "isBitFromShiftInSet n b = shift_in b n"

definition tasterport_read :: "u8 \<Rightarrow> board \<Rightarrow> bool \<times> board" where
  "tasterport_read n b =
     (if n < 4 then (False, b)
      else if n < 8 then
        (bit (PINC b) (unat n),
         b\<lparr>DDRC := unset_bit (unat n) (DDRC b), PORTC := set_bit (unat n) (PORTC b)\<rparr>)
      else if n < 16 then
        (let n = 7 - (n AND 7)
         in (bit (PINA b) (unat n),
             b\<lparr>DDRA := unset_bit (unat n) (DDRA b), PORTA := set_bit (unat n) (PORTA b)\<rparr>))
      else if n < 244 then (isBitFromShiftInSet (unat (n - 16)) b, b)
      else (False, b))"

section \<open>Logging to the bus (\<open>log.c\<close>)\<close>

definition send_log :: "u8 \<Rightarrow> u8 \<Rightarrow> board \<Rightarrow> board" where
  "send_log data data2 b = send_frame 40 [21, data, data2] b"

definition send_log2 :: "u8 \<Rightarrow> u16 \<Rightarrow> board \<Rightarrow> board" where
  "send_log2 data data2 b = send_frame 40 [21, data, hi8 data2, lo8 data2] b"

section \<open>The interface of the output pins\<close>

locale pin_bank =
  fixes valid :: "'n \<Rightarrow> 's \<Rightarrow> bool"
    and setp :: "'n \<Rightarrow> bool \<Rightarrow> 's \<Rightarrow> 's"
    and getp :: "'n \<Rightarrow> 's \<Rightarrow> bool"
  assumes get_set_same: "valid n s \<Longrightarrow> getp n (setp n v s) = v"
    and get_set_other: "n \<noteq> m \<Longrightarrow> getp m (setp n v s) = getp m s"
    and valid_set: "valid n (setp m v s) = valid n s"
begin

text \<open>What a sequence of writes leaves on a pin: the last write to it.\<close>

definition writes :: "('n \<times> bool) list \<Rightarrow> 's \<Rightarrow> 's" where
  "writes ws s = fold (\<lambda>(n, v). setp n v) ws s"

lemma get_writes:
  "valid n s \<Longrightarrow> getp n (writes ws s) = (case map_of (rev ws) n of Some v \<Rightarrow> v | None \<Rightarrow> getp n s)"
proof (induction ws rule: rev_induct)
  case Nil
  then show ?case by (simp add: writes_def)
next
  case (snoc w ws)
  obtain m v where w: "w = (m, v)" by (cases w)
  have val: "valid n (writes ws s)"
    using snoc.prems by (induction ws rule: rev_induct) (auto simp: writes_def valid_set split: prod.splits)
  show ?case
  proof (cases "m = n")
    case True
    then show ?thesis using get_set_same [OF val] by (simp add: writes_def w)
  next
    case False
    then show ?thesis using snoc get_set_other [of m n] by (simp add: writes_def w)
  qed
qed

end

lemma shift_get_set_same:
  "n < 8 * length ds \<Longrightarrow> getShiftOutPinState n (changeShiftOutPinState n v ds) = v"
  by (induction n v ds rule: changeShiftOutPinState.induct)
    (auto simp: bit_simps)

lemma shift_get_set_other:
  "n \<noteq> m \<Longrightarrow> getShiftOutPinState m (changeShiftOutPinState n v ds) = getShiftOutPinState m ds"
  by (induction n v ds arbitrary: m rule: changeShiftOutPinState.induct) (auto simp: bit_simps)

lemma shift_length [simp]: "length (changeShiftOutPinState n v ds) = length ds"
  by (induction n v ds rule: changeShiftOutPinState.induct) auto

text \<open>A pin the board has: of the two ports or of the shift registers.\<close>

definition pin_valid :: "u8 \<Rightarrow> board \<Rightarrow> bool" where
  "pin_valid n b = (unat n < 12 + 8 * length (shift_data b))"

lemma unat_minus_lit:
  "\<not> n < 8 \<Longrightarrow> unat ((n :: u8) - 8) = unat n - 8" "\<not> n < 12 \<Longrightarrow> unat (n - 12) = unat n - 12"
  by (simp_all add: unat_sub word_le_nat_alt word_less_nat_alt)

lemma setpin_shift_length [simp]:
  "length (shift_data (darlingtonoutput_setpin n v b)) = length (shift_data b)"
  by (simp add: darlingtonoutput_setpin_def Let_def)

interpretation dout: pin_bank pin_valid darlingtonoutput_setpin darlingtonoutput_getpin
proof
  fix n m :: u8 and b v
  show "darlingtonoutput_getpin n (darlingtonoutput_setpin n v b) = v" if "pin_valid n b"
    using that
    by (auto simp: darlingtonoutput_getpin_def darlingtonoutput_setpin_def pin_valid_def Let_def
        unat_minus_lit bit_simps word_less_nat_alt shift_get_set_same)
  show "darlingtonoutput_getpin m (darlingtonoutput_setpin n v b) = darlingtonoutput_getpin m b"
    if "n \<noteq> m"
  proof -
    have u: "unat n \<noteq> unat m" using that by (simp add: word_unat_eq_iff)
    then have "\<not> n < 8 \<Longrightarrow> \<not> m < 8 \<Longrightarrow> unat (n - 8) \<noteq> unat (m - 8)"
      "\<not> n < 12 \<Longrightarrow> \<not> m < 12 \<Longrightarrow> unat (n - 12) \<noteq> unat (m - 12)"
      by (simp_all add: unat_minus_lit word_less_nat_alt)
    with u show ?thesis
      by (auto simp: darlingtonoutput_getpin_def darlingtonoutput_setpin_def Let_def
          bit_simps shift_get_set_other)
  qed
  show "pin_valid n (darlingtonoutput_setpin m v b) = pin_valid n b" by (simp add: pin_valid_def)
qed

section \<open>The interface of a driver\<close>

text \<open>What the devices of a board may rely on when others run between their own handlers: a handler of a
  driver changes no output pin but those its configuration names, adds and removes none, and never
  changes which they are.\<close>

locale output_driver =
  fixes handle :: "'d \<Rightarrow> board \<Rightarrow> 'd \<times> board"
    and ports :: "'d \<Rightarrow> u8 list"
  assumes other_pins:
      "n \<notin> set (ports p) \<Longrightarrow> darlingtonoutput_getpin n (snd (handle p b)) = darlingtonoutput_getpin n b"
    and pins_stay: "pin_valid n (snd (handle p b)) = pin_valid n b"
    and ports_stay: "ports (fst (handle p b)) = ports p"
begin

lemma quiet:
  assumes "handle p b = (p', b')"
  shows "n \<notin> set (ports p) \<Longrightarrow> darlingtonoutput_getpin n b' = darlingtonoutput_getpin n b"
    "pin_valid n b' = pin_valid n b" "ports p' = ports p"
  using other_pins [of n p b] pins_stay [of n p b] ports_stay [of p b] assms by simp_all

end

lemma pins_of_board [simp]:
  "darlingtonoutput_getpin n (send_prio d x pr b) = darlingtonoutput_getpin n b"
  "pin_valid n (send_prio d x pr b) = pin_valid n b"
  "darlingtonoutput_getpin n (send_frame d x b) = darlingtonoutput_getpin n b"
  "pin_valid n (send_frame d x b) = pin_valid n b"
  "darlingtonoutput_getpin n (raise_fault b) = darlingtonoutput_getpin n b"
  "pin_valid n (raise_fault b) = pin_valid n b"
  "darlingtonoutput_getpin n (canix_syslog_P pr fm as b) = darlingtonoutput_getpin n b"
  "pin_valid n (canix_syslog_P pr fm as b) = pin_valid n b"
  "darlingtonoutput_getpin n (eeprom_write_byte a v b) = darlingtonoutput_getpin n b"
  "pin_valid n (eeprom_write_byte a v b) = pin_valid n b"
  by (simp_all add: send_frame_def send_prio_def raise_fault_def canix_syslog_P_def eeprom_write_byte_def
      darlingtonoutput_getpin_def pin_valid_def)

lemma pins_of_read [simp]:
  "darlingtonoutput_getpin n (snd (tasterport_read m b)) = darlingtonoutput_getpin n b"
  "pin_valid n (snd (tasterport_read m b)) = pin_valid n b"
  by (simp_all add: tasterport_read_def darlingtonoutput_getpin_def pin_valid_def Let_def)

lemma pins_of_set [simp]:
  "n \<noteq> m \<Longrightarrow> darlingtonoutput_getpin n (darlingtonoutput_setpin m v b) = darlingtonoutput_getpin n b"
  "pin_valid n (darlingtonoutput_setpin m v b) = pin_valid n b"
  using dout.get_set_other [of m n v b] by (simp_all add: dout.valid_set)

text \<open>A write to an output pin of the board (ports D and B, or the shift registers) is read back,
  and a write to one pin never disturbs another one.\<close>

theorem output_pins_independent:
  assumes "unat n < 12 + 8 * length (shift_data b)"
  shows "darlingtonoutput_getpin m (darlingtonoutput_setpin n v b) =
    (if m = n then v else darlingtonoutput_getpin m b)"
  using dout.get_set_same [of n b v] dout.get_set_other [of n m v b] assms
  by (auto simp: pin_valid_def)

definition ex_board :: board where
  "ex_board = \<lparr>DDRD = 0, PORTD = 0, DDRB = 0, PORTB = 0, DDRA = 0, PORTA = 0, PINA = 0, DDRC = 0,
     PORTC = 0, PINC = 0, shift_data = [0, 0, 0, 0], shift_in = (\<lambda>_. False), eeprom = (\<lambda>_. 0),
     rtc = canix_rtc_init, my_address = 100, canix_debug_level = 0, sent = [], syslog = [],
     fault = False\<rparr>"

theorem output_pins_independent_witness:
  "darlingtonoutput_getpin 20 (darlingtonoutput_setpin 20 True ex_board) \<and>
   \<not> darlingtonoutput_getpin 21 (darlingtonoutput_setpin 20 True ex_board)"
proof -
  have "darlingtonoutput_getpin m (darlingtonoutput_setpin 20 True ex_board) =
      (if m = 20 then True else darlingtonoutput_getpin m ex_board)" for m
    using output_pins_independent [of 20 ex_board m True] by (simp add: ex_board_def)
  moreover have "\<not> darlingtonoutput_getpin 21 ex_board"
    by (simp add: darlingtonoutput_getpin_def ex_board_def)
  ultimately show ?thesis by simp
qed

section \<open>The chain shows the pins\<close>

lemma shift_bits_eq:
  "i \<le> 8 \<Longrightarrow> i \<le> length chain \<Longrightarrow>
    shift_bits i d chain = rev (map (\<lambda>k. bit d (7 - k)) [0..<i]) @ take (length chain - i) chain"
proof (induction i arbitrary: d chain)
  case 0
  then show ?case by simp
next
  case (Suc i)
  let ?c = "bit d 7 # butlast chain"
  have len: "length ?c = length chain" using Suc.prems by (cases chain) auto
  then obtain m where m: "length chain - i = Suc m" using Suc.prems
    by (metis Suc_diff_Suc Suc_le_lessD)
  have "shift_bits (Suc i) d chain =
      rev (map (\<lambda>k. bit (push_bit 1 d) (7 - k)) [0..<i]) @ take (length chain - i) ?c"
    using Suc.IH [of ?c "push_bit 1 d"] Suc.prems len by simp
  also have "map (\<lambda>k. bit (push_bit 1 d) (7 - k)) [0..<i] = map (\<lambda>k. bit d (7 - Suc k)) [0..<i]"
  proof (rule map_cong [OF refl])
    fix k assume "k \<in> set [0..<i]"
    then have "k < 7" using Suc.prems by simp
    then show "bit (push_bit 1 d) (7 - k) = bit d (7 - Suc k)"
      by (simp only: bit_push_bit_iff) (auto dest: bit_imp_le_length)
  qed
  also have "take (length chain - i) ?c = bit d 7 # take (length chain - Suc i) chain"
  proof -
    from m have "length chain - Suc i = m" by simp
    with m show ?thesis by (simp add: take_butlast)
  qed
  finally show ?case
    by (simp add: upt_conv_Cons map_Suc_upt [symmetric] comp_def del: upt_Suc)
qed

lemma shiftOutByte_eq:
  assumes "8 \<le> length chain"
  shows "shiftOutByte d chain = map (bit d) [0..<8] @ take (length chain - 8) chain"
proof -
  have "rev (map (\<lambda>k. bit d (7 - k)) [0..<8]) = map (bit d) [0..<8]"
    by (simp add: upt_rec numeral_eq_Suc)
  then show ?thesis using shift_bits_eq [of 8 chain d] assms by (simp add: shiftOutByte_def)
qed

lemma shiftOutDataArray_eq:
  "8 * length ds \<le> length chain \<Longrightarrow>
    shiftOutDataArray ds chain = concat (map (\<lambda>d. map (bit d) [0..<8]) ds)
      @ take (length chain - 8 * length ds) chain"
proof (induction ds)
  case Nil
  then show ?case by (simp add: shiftOutDataArray_def)
next
  case (Cons d ds)
  let ?c = "concat (map (\<lambda>d. map (bit d) [0..<8]) ds)"
  have lc: "length ?c = 8 * length ds" by (induction ds) auto
  have IH: "shiftOutDataArray ds chain = ?c @ take (length chain - 8 * length ds) chain"
    using Cons by simp
  have "shiftOutDataArray (d # ds) chain = shiftOutByte d (shiftOutDataArray ds chain)"
    by (simp add: shiftOutDataArray_def)
  also have "\<dots> = map (bit d) [0..<8] @
      take (length chain - 8) (?c @ take (length chain - 8 * length ds) chain)"
    unfolding IH using Cons.prems lc by (subst shiftOutByte_eq) auto
  finally show ?case using Cons.prems lc by (simp add: take_append min_def)
qed

lemma getShiftOutPinState_concat:
  "n < 8 * length ds \<Longrightarrow> getShiftOutPinState n ds = concat (map (\<lambda>d. map (bit d) [0..<8]) ds) ! n"
  by (induction n ds rule: getShiftOutPinState.induct) (auto simp: nth_append)

text \<open>C4: Whatever the shift registers held before, after the 10 ms output handler the physical output
  \<open>n\<close> of a chain of as many registers as data bytes shows the logical state of output pin \<open>12 + n\<close>.\<close>

theorem shift_chain_shows_pins:
  assumes "length chain = 8 * length (shift_data b)" and "n < length chain"
    and "length (shift_data b) = MAX_NUM_OF_SHIFT_OUT_REGISTER"
  shows "shiftOut_timer_handler b chain ! n = darlingtonoutput_getpin (of_nat (n + 12)) b"
proof -
  have n: "n + 12 < 256" using assms by simp
  then have u: "unat (of_nat (n + 12) :: u8) = n + 12" 
    by (simp only: unat_of_nat) simp
  then have "\<not> (of_nat (n + 12) :: u8) < 12" "\<not> (of_nat (n + 12) :: u8) < 8"
    by (simp_all only: word_less_nat_alt) simp_all
  then have "darlingtonoutput_getpin (of_nat (n + 12)) b = getShiftOutPinState n (shift_data b)"
    using unat_minus_lit(2) [of "of_nat (n + 12)"] u
    by (simp only: darlingtonoutput_getpin_def if_False) simp
  moreover have "shiftOut_timer_handler b chain = concat (map (\<lambda>d. map (bit d) [0..<8]) (shift_data b))"
    using shiftOutDataArray_eq [of "shift_data b" chain] assms(1) by (simp add: shiftOut_timer_handler_def)
  ultimately show ?thesis using getShiftOutPinState_concat [of n "shift_data b"] assms by simp
qed

theorem shift_chain_shows_pins_witness:
  "shiftOut_timer_handler (ex_board\<lparr>shift_data := [0, 2, 0, 0]\<rparr>) (replicate 32 True) ! 9"
proof -
  have "shiftOut_timer_handler (ex_board\<lparr>shift_data := [0, 2, 0, 0]\<rparr>) (replicate 32 True) ! 9 =
      darlingtonoutput_getpin (of_nat (9 + 12)) (ex_board\<lparr>shift_data := [0, 2, 0, 0]\<rparr>)"
    by (rule shift_chain_shows_pins) simp_all
  then show ?thesis by (simp add: darlingtonoutput_getpin_def bit_simps)
qed

end
