(* ===== verification/Canix_Services.thy ===== *)
theory Canix_Services
  imports Board Canix_Rxq
begin

text \<open>
  The services every CANIX node runs: the management service (\<open>canix/hcan_hms.c\<close>), the clock
  service (\<open>canix/hcan_rts.c\<close>) and the cutting of a syslog message into frames (\<open>canix/syslog.c\<close>).
\<close>

section \<open>Host management service\<close>

text \<open>What the management handler works on: the board, the controller with its transmit counters, the
  receive counters, and whether the watchdog reset was started (the handler does not return then).
  \<open>build\<close> is the number in the generated file \<open>buildver\<close>.\<close>

record node =
  nd_board :: board
  nd_mcp :: mcp
  nd_rx :: rx_state
  nd_reset :: bool

definition u32_bytes :: "u32 \<Rightarrow> u8 list" where
  "u32_bytes w = [ucast (drop_bit 24 w), ucast (drop_bit 16 w), ucast (drop_bit 8 w), ucast w]"

definition hms_answer :: "canix_frame \<Rightarrow> u8 list \<Rightarrow> node \<Rightarrow> node" where
  "hms_answer f data nd = nd\<lparr>nd_board := send_frame (fr_src f) (HCAN_SRV_HMS # data) (nd_board nd)\<rparr>"

definition canix_SFP_HMS_handler :: "u16 \<Rightarrow> canix_frame \<Rightarrow> node \<Rightarrow> node" where
  "canix_SFP_HMS_handler build f nd =
    (let b = nd_board nd; d = fr_data f; cmd = d ! 1;
         adr = unat (word16 (d ! 3) (d ! 2)) in
     if cmd = HCAN_HMS_PING_REQUEST then hms_answer f [HCAN_HMS_PING_REPLAY] nd
     else if cmd = HCAN_HMS_DEVICE_STATE_REQUEST then
       hms_answer f [HCAN_HMS_DEVICE_STATE_REPLAY, HCAN_HMS_DEV_STATE_APPLICATION] nd
     else if cmd = HCAN_HMS_DEVICE_RESET then nd\<lparr>nd_reset := True\<rparr>
     else if cmd = HCAN_HMS_DEVICE_TYPE_REQUEST then
       hms_answer f [HCAN_HMS_DEVICE_TYPE_REPLAY, 2, eeprom_read_byte EEPR_BOARD_TYPE b] nd
     else if cmd = HCAN_HMS_INTERNAL_EEPROM_WRITE then
       hms_answer f [HCAN_HMS_INTERNAL_EEPROM_WRITE_ACK]
         (if eeprom_read_byte adr b \<noteq> d ! 4
          then nd\<lparr>nd_board := eeprom_write_byte adr (d ! 4) b\<rparr> else nd)
     else if cmd = HCAN_HMS_INTERNAL_EEPROM_READ_REQUEST then
       hms_answer f [HCAN_HMS_INTERNAL_EEPROM_READ_REPLAY, eeprom_read_byte adr b] nd
     else if cmd = HCAN_HMS_INTERNAL_EEPROM_READ_BULK_REQUEST then
       hms_answer f (HCAN_HMS_INTERNAL_EEPROM_READ_BULK_REPLAY #
         map (\<lambda>i. eeprom_read_byte ((adr + i) mod 65536) b) [0, 1, 2, 3, 4, 5]) nd
     else if cmd = HCAN_HMS_UPTIME_QUERY then
       hms_answer f (HCAN_HMS_UPTIME_REPLAY # u32_bytes (uptime_sec (rtc b))) nd
     else if cmd = HCAN_HMS_SYSLOG_LEVEL_SET then
       nd\<lparr>nd_board := eeprom_write_byte EEPR_DEBUG_LEVEL (d ! 2) (canix_set_syslog_level (d ! 2) b)\<rparr>
     else if cmd = HCAN_HMS_BUILD_VERSION_QUERY then
       hms_answer f [HCAN_HMS_BUILD_VERSION_REPLAY, hi8 build, lo8 build] nd
     else if cmd = HCAN_HMS_CAN_EC_QUERY then
       (let ec = can_error_counters (nd_mcp nd)
        in hms_answer f [HCAN_HMS_CAN_EC_REPLAY, hi8 ec, lo8 ec] nd)
     else if cmd = HCAN_HMS_RX_RECEIVED_QUERY then
       hms_answer f (HCAN_HMS_RX_RECEIVED_REPLAY # u32_bytes (canix_rx_received (nd_rx nd))) nd
     else if cmd = HCAN_HMS_RX_LOST_QUERY then
       hms_answer f (HCAN_HMS_RX_LOST_REPLAY # u32_bytes (canix_rx_lost (nd_rx nd))) nd
     else if cmd = HCAN_HMS_TX_SENT_QUERY then
       hms_answer f (HCAN_HMS_TX_SENT_REPLAY # u32_bytes (canix_tx_sent (nd_mcp nd))) nd
     else if cmd = HCAN_HMS_TX_DROPPED_QUERY then
       hms_answer f (HCAN_HMS_TX_DROPPED_REPLAY # u32_bytes (canix_tx_dropped (nd_mcp nd))) nd
     else if cmd = HCAN_HMS_RX_TX_STATS_RESET then
       nd\<lparr>nd_rx := (nd_rx nd)\<lparr>canix_rx_received := 0, canix_rx_lost := 0\<rparr>,
          nd_mcp := (nd_mcp nd)\<lparr>canix_tx_sent := 0, canix_tx_dropped := 0\<rparr>\<rparr>
     else nd)"

section \<open>Real time service\<close>

text \<open>The seconds of the day are computed in the 16 bit \<open>int\<close> of the AVR, where \<open>hour * 3600\<close>
  wraps around from ten o'clock on; the difference goes through \<open>abs\<close>, which is 16 bit too.\<close>

definition time_int :: "u8 \<Rightarrow> u8 \<Rightarrow> u8 \<Rightarrow> u16" where
  "time_int h m s = ucast s + ucast m * 60 + ucast h * 3600"

definition abs_int16 :: "u16 \<Rightarrow> int" where
  "abs_int16 w = sint (if sint w < 0 then - w else w)"

definition canix_SFP_RTS_handler :: "canix_frame \<Rightarrow> board \<Rightarrow> board" where
  "canix_SFP_RTS_handler f b =
    (let d = fr_data f; cmd = d ! 1; c = rtc b in
     if cmd = HCAN_RTS_TIME_INFO then
       (let c1 = c\<lparr>last_date_update := 0\<rparr>;
            our_time = time_int (hour c1) (minute c1) (second c1);
            their_time = time_int (d ! 4) (d ! 5) (d ! 6)
        in if abs_int16 (their_time - our_time) > 3
           then b\<lparr>rtc := c1\<lparr>second := d ! 6, minute := d ! 5, hour := d ! 4,
                            day_of_week := d ! 3\<rparr>\<rparr>
           else b\<lparr>rtc := c1\<rparr>)
     else if cmd = HCAN_RTS_DATE_INFO then
       b\<lparr>rtc := c\<lparr>day_of_month := d ! 3, month_of_year := d ! 4, year := d ! 5\<rparr>\<rparr>
     else if cmd = HCAN_RTS_TIME_REQUEST then
       (if fr_dst f = canix_selfaddr b
        then send_frame (fr_src f) [HCAN_SRV_RTS, HCAN_RTS_TIME_INFO, 0xff, day_of_week c, hour c,
               minute c, second c] b
        else b)
     else if cmd = HCAN_RTS_DATE_REQUEST then
       (if fr_dst f = canix_selfaddr b
        then send_frame (fr_src f) [HCAN_SRV_RTS, HCAN_RTS_DATE_INFO, 0xff, day_of_month c,
               month_of_year c, year c] b
        else b)
     else b)"

section \<open>Syslog frames\<close>

text \<open>The two loops of \<open>canix_syslog_P\<close>. \<open>msg\<close> is what \<open>vsnprintf_P\<close> left in the buffer, which is
  at most 125 characters (\<open>sizeof(s) - 2\<close> with the terminator), with the newline appended. The
  first frame starts with the priority, the following ones with text.\<close>

fun chunks8 :: "u8 list \<Rightarrow> u8 list list" where
  "chunks8 [] = []"
| "chunks8 (c # cs) = take 8 (c # cs) # chunks8 (drop 8 (c # cs))"

definition syslog_payloads :: "u8 \<Rightarrow> u8 list \<Rightarrow> u8 list list" where
  "syslog_payloads prio s = (if s = [] then [] else (prio # take 7 s) # chunks8 (drop 7 s))"

definition canix_syslog_frames :: "u8 \<Rightarrow> u8 list \<Rightarrow> u16 \<Rightarrow> canix_frame list" where
  "canix_syslog_frames prio txt src =
     map (\<lambda>d. \<lparr>fr_src = src, fr_dst = HCAN_MULTICAST_SYSLOG, fr_proto = HCAN_PROTO_SYSLOG,
                fr_size = of_nat (length d), fr_data = d\<rparr>)
       (syslog_payloads prio (take 125 txt @ [10]))"

section \<open>Properties\<close>

lemma chunks8_props:
  "concat (chunks8 cs) = cs \<and> (\<forall>d \<in> set (chunks8 cs). d \<noteq> [] \<and> length d \<le> 8)"
  by (induction cs rule: chunks8.induct) auto

text \<open>The frames of a syslog message carry, one after the other, the priority, the text (cut at
  125 characters) and a final newline, and nothing else; no frame is empty or longer than eight
  bytes, and each one's size field is right.\<close>

theorem syslog_frames_reassemble:
  "concat (map fr_data (canix_syslog_frames prio txt src)) = prio # take 125 txt @ [10] \<and>
   list_all (\<lambda>f. fr_data f \<noteq> [] \<and> length (fr_data f) \<le> 8 \<and> unat (fr_size f) = length (fr_data f)
      \<and> fr_dst f = HCAN_MULTICAST_SYSLOG \<and> fr_src f = src) (canix_syslog_frames prio txt src)"
proof -
  let ?s = "take 125 txt @ [10]"
  let ?f = "\<lambda>d. \<lparr>fr_src = src, fr_dst = HCAN_MULTICAST_SYSLOG, fr_proto = HCAN_PROTO_SYSLOG,
                fr_size = of_nat (length d), fr_data = d\<rparr>"
  have "concat (syslog_payloads prio ?s) = prio # take 7 ?s @ drop 7 ?s"
    using chunks8_props [of "drop 7 ?s"] by (simp only: syslog_payloads_def) simp
  then have c: "concat (syslog_payloads prio ?s) = prio # ?s" by (simp only: append_take_drop_id)
  have l: "d \<noteq> [] \<and> length d \<le> 8" if "d \<in> set (syslog_payloads prio ?s)" for d
    using that chunks8_props [of "drop 7 ?s"] by (auto simp: syslog_payloads_def)
  have "unat (of_nat (length d) :: u8) = length d" if "length d \<le> 8" for d :: "u8 list"
    using that by (simp add: unat_of_nat)
  with l c show ?thesis
    by (simp add: canix_syslog_frames_def list_all_iff comp_def del: take_append)
qed

text \<open>Every management request is answered by at most one frame, which goes from the node's own
  address back to the requester with the management service as its first byte and at most eight
  bytes; requests with an unknown command change nothing at all.\<close>

theorem hms_answers:
  "let nd' = canix_SFP_HMS_handler build f nd; cmd = fr_data f ! 1 in
   (sent (nd_board nd') = sent (nd_board nd) \<or>
    (\<exists>data. length data \<le> 8 \<and> data ! 0 = HCAN_SRV_HMS \<and> sent (nd_board nd') = sent (nd_board nd) @
      [(\<lparr>fr_src = canix_selfaddr (nd_board nd'), fr_dst = fr_src f, fr_proto = HCAN_PROTO_SFP,
         fr_size = of_nat (length data), fr_data = data\<rparr>, HCAN_PRIO_LOW)])) \<and>
   (cmd \<notin> set [1, 3, 5, 9, 20, 22, 24, 30, 32, 33, 35, 41, 43, 45, 47, 49] \<longrightarrow> nd' = nd)"
proof -
  have a: "\<exists>data. length data \<le> 8 \<and> data ! 0 = HCAN_SRV_HMS \<and>
      sent (nd_board (hms_answer f ds n)) = sent (nd_board n) @
        [(\<lparr>fr_src = canix_selfaddr (nd_board (hms_answer f ds n)), fr_dst = fr_src f,
           fr_proto = HCAN_PROTO_SFP, fr_size = of_nat (length data), fr_data = data\<rparr>, HCAN_PRIO_LOW)]"
    if "length ds \<le> 7" for ds n
    using that by (intro exI [of _ "HCAN_SRV_HMS # ds"])
      (simp add: hms_answer_def send_frame_def send_prio_def canix_selfaddr_def)
  show ?thesis unfolding canix_SFP_HMS_handler_def Let_def
    using a [of _ nd] a [of "[HCAN_HMS_INTERNAL_EEPROM_WRITE_ACK]"
        "nd\<lparr>nd_board := eeprom_write_byte x v (nd_board nd)\<rparr>" for x v]
    by (auto simp: u32_bytes_def eeprom_write_byte_def canix_set_syslog_level_def)
qed

definition ex_node :: node where
  "ex_node = \<lparr>nd_board = ex_board, nd_mcp = \<lparr>regs = \<lambda>_. 0, canix_tx_sent = 5, canix_tx_dropped = 0\<rparr>,
     nd_rx = \<lparr>rxs_queue = empty_rxq, canix_rx_received = 300, canix_rx_lost = 0\<rparr>, nd_reset = False\<rparr>"

definition hms_request :: "u8 list \<Rightarrow> canix_frame" where
  "hms_request d = \<lparr>fr_src = 9, fr_dst = 100, fr_proto = HCAN_PROTO_SFP,
     fr_size = of_nat (length d) + 1, fr_data = HCAN_SRV_HMS # d\<rparr>"

theorem hms_answers_witness:
  "canix_SFP_HMS_handler 0 (hms_request [2]) ex_node = ex_node"
  using hms_answers [of 0 "hms_request [2]" ex_node]
  unfolding Let_def by (simp add: hms_request_def)

text \<open>A byte written over the bus with an EEPROM write request is what a later read request for
  the same address is answered with, and no other address changes.\<close>

theorem hms_eeprom_roundtrip:
  assumes "fr_data w ! 1 = HCAN_HMS_INTERNAL_EEPROM_WRITE"
    and "fr_data r ! 1 = HCAN_HMS_INTERNAL_EEPROM_READ_REQUEST"
    and "fr_data r ! 2 = fr_data w ! 2" and "fr_data r ! 3 = fr_data w ! 3"
  shows "let nd1 = canix_SFP_HMS_handler build w nd; nd2 = canix_SFP_HMS_handler build r nd1 in
    fr_data (fst (last (sent (nd_board nd2)))) =
      [HCAN_SRV_HMS, HCAN_HMS_INTERNAL_EEPROM_READ_REPLAY, fr_data w ! 4] \<and>
    eeprom (nd_board nd2) = (eeprom (nd_board nd))
      (unat (word16 (fr_data w ! 3) (fr_data w ! 2)) := fr_data w ! 4)"
  using assms
  by (simp add: canix_SFP_HMS_handler_def Let_def hms_answer_def send_frame_def send_prio_def
      eeprom_read_byte_def eeprom_write_byte_def fun_upd_idem)

theorem hms_eeprom_roundtrip_witness:
  "eeprom (nd_board (canix_SFP_HMS_handler 0 (hms_request [22, 2, 0])
     (canix_SFP_HMS_handler 0 (hms_request [20, 2, 0, 7]) ex_node))) 2 = 7"
proof -
  let ?w = "hms_request [20, 2, 0, 7]" and ?r = "hms_request [22, 2, 0]"
  have h: "fr_data ?w ! 1 = HCAN_HMS_INTERNAL_EEPROM_WRITE"
    "fr_data ?r ! 1 = HCAN_HMS_INTERNAL_EEPROM_READ_REQUEST"
    "fr_data ?r ! 2 = fr_data ?w ! 2" "fr_data ?r ! 3 = fr_data ?w ! 3"
    by (simp_all add: hms_request_def)
  have "fr_data ?w ! 3 = 0" "fr_data ?w ! 2 = 2" "fr_data ?w ! 4 = 7" by (simp_all add: hms_request_def)
  then show ?thesis
    using hms_eeprom_roundtrip [OF h, of 0 ex_node] unat_word16 [of 0 2]
    by (simp only: Let_def) simp
qed

section \<open>Synchronising the clock\<close>

text \<open>The seconds of the day a time frame announces.\<close>

definition frame_secs :: "canix_frame \<Rightarrow> nat" where
  "frame_secs f = unat (fr_data f ! 4) * 3600 + unat (fr_data f ! 5) * 60 + unat (fr_data f ! 6)"

lemma time_int_of_int:
  "time_int h m s = word_of_int (int (unat h * 3600 + unat m * 60 + unat s))"
  by (simp add: time_int_def)

text \<open>The 16 bit residue of a difference, in the signed range.\<close>

definition wrap16 :: "int \<Rightarrow> int" where
  "wrap16 x = (x + 32768) mod 65536 - 32768"

lemma abs_int16_wrap:
  "abs_int16 (word_of_int x) > 3 \<longleftrightarrow> \<bar>wrap16 x\<bar> > 3 \<and> wrap16 x \<noteq> -32768"
proof -
  have s: "sint (word_of_int y :: u16) = wrap16 y" for y
    using int_word_sint [of y, where 'a = 16] by (simp add: wrap16_def)
  have n: "- (word_of_int x :: u16) = word_of_int (- x)" by simp
  define q where "q = (x + 32768) div 65536"
  define v where "v = wrap16 x"
  have r: "-32768 \<le> v" "v < 32768" by (simp_all add: v_def wrap16_def)
  have x: "x = v + 65536 * q"
    using mult_div_mod_eq [of 65536 "x + 32768"] unfolding v_def wrap16_def q_def by linarith
  have neg: "wrap16 (- x) = (if v = -32768 then -32768 else - v)"
  proof -
    have "- x + 32768 = (32768 - v) + (- q) * 65536" using x by simp
    then have "(- x + 32768) mod 65536 = (32768 - v) mod 65536"
      by (metis mod_mult_self1)
    also have "\<dots> = (if v = -32768 then 0 else 32768 - v)" using r by simp
    finally show ?thesis by (simp add: wrap16_def)
  qed
  show ?thesis
    unfolding abs_int16_def using neg r by (simp only: n if_distrib [of sint] s) (auto simp: v_def)
qed

lemma wrap16_small:
  assumes "\<bar>x\<bar> < 86400"
  shows "\<bar>wrap16 x\<bar> \<le> 3 \<or> wrap16 x = -32768 \<longleftrightarrow>
    \<bar>x\<bar> \<le> 3 \<or> \<bar>x\<bar> = 32768 \<or> 65533 \<le> \<bar>x\<bar> \<and> \<bar>x\<bar> \<le> 65539"
proof -
  consider "x < -32768" | "-32768 \<le> x" "x < 32768" | "32768 \<le> x" by linarith
  then show ?thesis
  proof cases
    case 1
    then have "(x + 32768) mod 65536 = x + 32768 + 65536"
      using assms by (intro int_mod_pos_eq [of _ _ "-1"]) auto
    then show ?thesis using 1 assms by (simp add: wrap16_def) linarith
  next
    case 2
    then have "(x + 32768) mod 65536 = x + 32768" by simp
    then show ?thesis using 2 by (simp add: wrap16_def) linarith
  next
    case 3
    then have "(x + 32768) mod 65536 = x + 32768 - 65536"
      using assms by (intro int_mod_pos_eq [of _ _ 1]) auto
    then show ?thesis using 3 assms by (simp add: wrap16_def) linarith
  qed
qed

text \<open>A time frame makes the date fresh and sets the clock exactly when its time differs from the
  clock's by more than three seconds, except for the differences that the 16 bit arithmetic does
  not tell from small ones: 32768 seconds and 65536 seconds plus or minus three.\<close>

theorem rts_time_info:
  assumes "fr_data f ! 1 = HCAN_RTS_TIME_INFO" and "frame_secs f < 86400"
    and "secs_of_day (rtc b) < 86400"
  shows "let D = \<bar>int (frame_secs f) - int (secs_of_day (rtc b))\<bar> in
    canix_SFP_RTS_handler f b =
      (if D \<le> 3 \<or> D = 32768 \<or> 65533 \<le> D \<and> D \<le> 65539
       then b\<lparr>rtc := (rtc b)\<lparr>last_date_update := 0\<rparr>\<rparr>
       else b\<lparr>rtc := (rtc b)\<lparr>last_date_update := 0, second := fr_data f ! 6, minute := fr_data f ! 5,
               hour := fr_data f ! 4, day_of_week := fr_data f ! 3\<rparr>\<rparr>)"
proof -
  let ?x = "int (frame_secs f) - int (secs_of_day (rtc b))"
  have "time_int (fr_data f ! 4) (fr_data f ! 5) (fr_data f ! 6)
      - time_int (hour (rtc b)) (minute (rtc b)) (second (rtc b)) = word_of_int ?x"
    by (simp add: time_int_of_int frame_secs_def secs_of_day_def)
  moreover have "abs_int16 (word_of_int ?x) > 3 \<longleftrightarrow>
      \<not> (\<bar>?x\<bar> \<le> 3 \<or> \<bar>?x\<bar> = 32768 \<or> 65533 \<le> \<bar>?x\<bar> \<and> \<bar>?x\<bar> \<le> 65539)"
  proof -
    have "\<bar>?x\<bar> < 86400" using assms(2,3) by linarith
    from wrap16_small [OF this] show ?thesis unfolding abs_int16_wrap by (meson not_le)
  qed
  ultimately show ?thesis
    using assms(1) by (simp add: canix_SFP_RTS_handler_def Let_def)
qed

definition time_frame :: "u8 \<Rightarrow> u8 \<Rightarrow> u8 \<Rightarrow> u8 \<Rightarrow> canix_frame" where
  "time_frame dow h m s = \<lparr>fr_src = 9, fr_dst = HCAN_MULTICAST_INFO, fr_proto = HCAN_PROTO_SFP,
     fr_size = 7, fr_data = [HCAN_SRV_RTS, HCAN_RTS_TIME_INFO, 0, dow, h, m, s]\<rparr>"

text \<open>At 00:00:00 the clock ignores a frame that says 18:12:16.\<close>

theorem rts_time_info_witness:
  "hour (rtc (canix_SFP_RTS_handler (time_frame 1 18 12 16) ex_board)) = 0 \<and>
   hour (rtc (canix_SFP_RTS_handler (time_frame 1 18 12 0) ex_board)) = 18"
proof -
  have r: "secs_of_day (rtc ex_board) = 0" "hour (rtc ex_board) = 0"
    by (simp_all add: ex_board_def canix_rtc_init_def secs_of_day_def)
  have f: "fr_data (time_frame 1 18 12 x) ! 1 = HCAN_RTS_TIME_INFO"
    "frame_secs (time_frame 1 18 12 x) = 65520 + unat x" "fr_data (time_frame 1 18 12 x) ! 4 = 18" for x
    by (simp_all add: time_frame_def frame_secs_def)
  show ?thesis
    using rts_time_info [of "time_frame 1 18 12 16" ex_board]
      rts_time_info [of "time_frame 1 18 12 0" ex_board]
    by (simp add: f [simplified] r Let_def)
qed

end
