(* ===== verification/Eds.thy ===== *)
theory Eds
  imports Board
begin

text \<open>
  The EEPROM data space of \<open>canix/eds.c\<close>: a heap of typed blocks in the EEPROM, each with a type
  byte (0 = free), a size byte and its data, chained by their sizes from \<open>EDS_DATA_START\<close> to
  \<open>EDS_END\<close>. Pointers are natural numbers; pointer arithmetic is modulo \<open>2 ^ 16\<close>. The chain is related
  to a list of blocks, on which the first fit allocation and the merging of free blocks are
  specified; the locale \<open>block_store\<close> is what the users of the space rely on.
\<close>

abbreviation (input) EDS_START :: nat where "EDS_START \<equiv> 32"
abbreviation (input) EDS_DATA_START :: nat where "EDS_DATA_START \<equiv> 34"
abbreviation (input) EDS_END :: nat where "EDS_END \<equiv> 2047"
abbreviation (input) EDS_MAGIC1 :: u8 where "EDS_MAGIC1 \<equiv> 0xe4"
abbreviation (input) EDS_MAGIC2 :: u8 where "EDS_MAGIC2 \<equiv> 0x7d"
abbreviation (input) EDS_OK :: u8 where "EDS_OK \<equiv> 0"
abbreviation (input) EDS_NOT_FORMATED :: u8 where "EDS_NOT_FORMATED \<equiv> 1"
abbreviation (input) EDS_INVALID_POINTER :: u8 where "EDS_INVALID_POINTER \<equiv> 2"

section \<open>The operations\<close>

definition EDS_BLOCK_TYPE :: "nat \<Rightarrow> board \<Rightarrow> u8" where
  "EDS_BLOCK_TYPE p b = eeprom_read_byte p b"

definition EDS_BLOCK_SIZE :: "nat \<Rightarrow> board \<Rightarrow> u8" where
  "EDS_BLOCK_SIZE p b = eeprom_read_byte ((p + 1) mod 65536) b"

definition EDS_SET_BLOCK_TYPE :: "nat \<Rightarrow> u8 \<Rightarrow> board \<Rightarrow> board" where
  "EDS_SET_BLOCK_TYPE p t b = eeprom_write_byte p t b"

definition EDS_SET_BLOCK_SIZE :: "nat \<Rightarrow> u8 \<Rightarrow> board \<Rightarrow> board" where
  "EDS_SET_BLOCK_SIZE p s b = eeprom_write_byte ((p + 1) mod 65536) s b"

definition eds_next_block :: "nat \<Rightarrow> board \<Rightarrow> nat" where
  "eds_next_block p b = (p + 2 + unat (EDS_BLOCK_SIZE p b)) mod 65536"

lemma eds_next_block_less:
  assumes "p < EDS_END"
  shows "eds_next_block p b = p + 2 + unat (eeprom b (p + 1))" "p < eds_next_block p b"
  using assms unat_u8_less [of "eeprom b (p + 1)"]
  by (simp_all add: eds_next_block_def EDS_BLOCK_SIZE_def eeprom_read_byte_def)

text \<open>The loop of \<open>eds_format\<close>. The size is computed while the pointer stands on the size byte.\<close>

function eds_format_loop :: "nat \<Rightarrow> board \<Rightarrow> board" where
  "eds_format_loop p b =
     (if p < EDS_END - 2
      then (let b1 = eeprom_write_byte p 0 b;
                size = (if EDS_END - (p + 1) > 128 then 128 else EDS_END - (p + 1));
                b2 = eeprom_write_byte (p + 1) (of_nat size) b1;
                b3 = canix_syslog_P SYSLOG_PRIO_DEBUG ''EDS: format: p = %d, size=%d''
                       [int p, int size] b2
            in eds_format_loop (p + 2 + size) b3)
      else b)"
  by pat_completeness auto
termination by (relation "measure (\<lambda>(p, b). EDS_END - p)") auto

definition eds_format :: "board \<Rightarrow> board" where
  "eds_format b = eds_format_loop (EDS_START + 2)
     (eeprom_write_byte (EDS_START + 1) EDS_MAGIC2 (eeprom_write_byte EDS_START EDS_MAGIC1 b))"

definition eds_init :: "board \<Rightarrow> u8 \<times> board" where
  "eds_init b =
     (if eeprom_read_byte EDS_START b = EDS_MAGIC1 \<and> eeprom_read_byte (EDS_START + 1) b = EDS_MAGIC2
      then (EDS_OK, canix_syslog_P SYSLOG_PRIO_DEBUG ''EDS: data space is formated.'' [] b)
      else (EDS_NOT_FORMATED,
            canix_syslog_P SYSLOG_PRIO_ERROR ''EDS: done.'' []
              (eds_format
                (canix_syslog_P SYSLOG_PRIO_ERROR ''EDS: formating...'' []
                  (canix_syslog_P SYSLOG_PRIO_ERROR ''EDS: data space not formated'' [] b)))))"

text \<open>\<open>eds_alloc\<close> returns the block, or 0 when none fits.\<close>

function eds_alloc_from :: "nat \<Rightarrow> u8 \<Rightarrow> board \<Rightarrow> nat \<times> board" where
  "eds_alloc_from p sz b =
     (if p < EDS_END then
        (if EDS_BLOCK_TYPE p b = 0 \<and> EDS_BLOCK_SIZE p b \<ge> sz \<and> EDS_BLOCK_SIZE p b = sz
         then (p, b)
         else if EDS_BLOCK_TYPE p b = 0 \<and> EDS_BLOCK_SIZE p b \<ge> sz \<and>
                 unat (EDS_BLOCK_SIZE p b) \<ge> unat sz + 2
         then (let b1 = eeprom_write_byte (p + 2 + unat sz) 0 b;
                   b2 = eeprom_write_byte (p + 2 + unat sz + 1) (EDS_BLOCK_SIZE p b1 - sz - 2) b1;
                   b3 = eeprom_write_byte (p + 1) sz b2
               in (p, b3))
         else eds_alloc_from (eds_next_block p b) sz b)
      else (0, b))"
  by pat_completeness auto
termination
  using eds_next_block_less by (relation "measure (\<lambda>(p, n, b). EDS_END - p)") (auto intro: diff_less_mono2)

definition eds_alloc :: "u8 \<Rightarrow> board \<Rightarrow> nat \<times> board" where
  "eds_alloc sz b = eds_alloc_from EDS_DATA_START sz b"

function eds_free_from :: "nat \<Rightarrow> nat \<Rightarrow> board \<Rightarrow> u8 \<times> board" where
  "eds_free_from p block b =
     (if p < EDS_END then
        (if p = block then (EDS_OK, EDS_SET_BLOCK_TYPE p 0 b)
         else eds_free_from (eds_next_block p b) block b)
      else (EDS_INVALID_POINTER, b))"
  by pat_completeness auto
termination
  using eds_next_block_less by (relation "measure (\<lambda>(p, n, b). EDS_END - p)") (auto intro: diff_less_mono2)

definition eds_free :: "nat \<Rightarrow> board \<Rightarrow> u8 \<times> board" where
  "eds_free block b = eds_free_from EDS_DATA_START block b"

text \<open>The body of the loop of \<open>eds_defragment\<close>: a free block after a free block is merged into it
  when the sum fits the size byte. The result is the pointer the loop goes on from, the new
  \<open>last_free\<close> and the memory.\<close>

definition defrag_step :: "nat \<Rightarrow> nat \<Rightarrow> board \<Rightarrow> nat \<times> nat \<times> board" where
  "defrag_step p last_free b =
     (let merge = last_free \<noteq> 0 \<and> EDS_BLOCK_TYPE p b = 0 \<and>
            unat (EDS_BLOCK_SIZE last_free b) + 2 + unat (EDS_BLOCK_SIZE p b) \<le> 255;
          b1 = (if merge then EDS_SET_BLOCK_SIZE last_free
                  (EDS_BLOCK_SIZE last_free b + 2 + EDS_BLOCK_SIZE p b) b else b);
          p1 = (if merge then last_free else p)
      in (p1, if EDS_BLOCK_TYPE p1 b1 = 0 then p1 else 0, b1))"

text \<open>A loop whose termination depends on \<open>last_free\<close>: not returning would be \<open>None\<close>.\<close>

partial_function (option) eds_defragment_loop :: "nat \<Rightarrow> nat \<Rightarrow> board \<Rightarrow> board option" where
  "eds_defragment_loop p last_free b =
     (if p < EDS_END
      then (case defrag_step p last_free b of
              (p1, last_free1, b1) \<Rightarrow> eds_defragment_loop (eds_next_block p1 b1) last_free1 b1)
      else Some b)"

definition eds_defragment :: "board \<Rightarrow> board option" where
  "eds_defragment b = eds_defragment_loop EDS_DATA_START 0 b"

text \<open>The bytes \<open>eds_read_string\<close> stores into \<open>s\<close>, with the terminator. For \<open>len = 0\<close> the loop
  condition \<open>i < len - 1\<close> compares with -1, so only the terminator is stored.\<close>

definition eds_read_string :: "nat \<Rightarrow> u8 \<Rightarrow> board \<Rightarrow> u8 list" where
  "eds_read_string block len b =
     map (\<lambda>i. eeprom_read_byte ((block + i) mod 65536) b) [0..<unat len - 1] @ [0]"

text \<open>The searches: the pointer moves first and the type is read after, also at the end.\<close>

function eds_find_from :: "(u8 \<Rightarrow> bool) \<Rightarrow> nat \<Rightarrow> board \<Rightarrow> nat" where
  "eds_find_from P p b =
     (if p < EDS_END
      then (let p' = eds_next_block p b
            in if P (EDS_BLOCK_TYPE p' b) then p' else eds_find_from P p' b)
      else 0)"
  by pat_completeness auto
termination
  using eds_next_block_less by (relation "measure (\<lambda>(P, p, b). EDS_END - p)") (auto intro: diff_less_mono2)

definition eds_find_next_block :: "nat \<Rightarrow> u8 \<Rightarrow> board \<Rightarrow> nat" where
  "eds_find_next_block p type b =
     (if p = 0
      then (if EDS_BLOCK_TYPE EDS_DATA_START b = type then EDS_DATA_START
            else eds_find_from (\<lambda>t. t = type) EDS_DATA_START b)
      else eds_find_from (\<lambda>t. t = type) p b)"

definition eds_find_next_block_between :: "nat \<Rightarrow> u8 \<Rightarrow> u8 \<Rightarrow> board \<Rightarrow> nat" where
  "eds_find_next_block_between p type1 type2 b =
     (if p = 0
      then (if EDS_BLOCK_TYPE EDS_DATA_START b \<ge> type1 \<and> EDS_BLOCK_TYPE EDS_DATA_START b \<le> type2
            then EDS_DATA_START
            else eds_find_from (\<lambda>t. t \<ge> type1 \<and> t \<le> type2) EDS_DATA_START b)
      else eds_find_from (\<lambda>t. t \<ge> type1 \<and> t \<le> type2) p b)"

section \<open>The service\<close>

definition eds_answer :: "canix_frame \<Rightarrow> u8 list \<Rightarrow> board \<Rightarrow> board" where
  "eds_answer f data b = send_frame (fr_src f) (HCAN_SRV_EDS # data) b"

definition ptr_bytes :: "nat \<Rightarrow> u8 list" where
  "ptr_bytes p = [hi8 (of_nat p), lo8 (of_nat p)]"

definition eds_can_callback :: "canix_frame \<Rightarrow> board \<Rightarrow> board option" where
  "eds_can_callback f b =
    (let d = fr_data f; cmd = d ! 1; h1 = unat (word16 (d ! 2) (d ! 3)); index = unat (d ! 4) in
     if cmd = HCAN_EDS_GET_NEXT_BLOCK then
       (let h2 = (if h1 = 0 then EDS_DATA_START else eds_next_block h1 b);
            h2 = (if h2 \<ge> EDS_END then 0 else h2)
        in Some (eds_answer f ([HCAN_EDS_GET_NEXT_BLOCK_REPLAY] @ ptr_bytes h2 @
             [EDS_BLOCK_TYPE h2 b, EDS_BLOCK_SIZE h2 b]) b))
     else if cmd = HCAN_EDS_ALLOCATE_BLOCK then
       (let (h2, b1) = eds_alloc (d ! 3) b;
            b2 = EDS_SET_BLOCK_TYPE h2 (d ! 2) b1
        in Some (eds_answer f ([HCAN_EDS_ALLOCATE_BLOCK_REPLAY] @ ptr_bytes h2) b2))
     else if cmd = HCAN_EDS_FREE_BLOCK then
       (let (res, b1) = eds_free h1 b
        in Some (eds_answer f [HCAN_EDS_FREE_BLOCK_REPLAY, res] b1))
     else if cmd = HCAN_EDS_DEFRAGMENT then eds_defragment b
     else if cmd = HCAN_EDS_READ_FROM_BLOCK then
       Some (eds_answer f (HCAN_EDS_READ_FROM_BLOCK_REPLAY #
         map (\<lambda>i. eeprom_read_byte ((h1 + index + i) mod 65536) b) [0, 1, 2, 3]) b)
     else if cmd = HCAN_EDS_WRITE_TO_BLOCK then
       Some (eds_answer f [HCAN_EDS_WRITE_TO_BLOCK_REPLAY]
         (eeprom_write_byte ((h1 + index) mod 65536) (d ! 5) b))
     else if cmd = HCAN_EDS_FORMAT then Some (eds_format b)
     else Some b)"

section \<open>The chain as a list of blocks\<close>

text \<open>A block is its address, its type and its size.\<close>

type_synonym eds_block = "nat \<times> u8 \<times> u8"

function eds_blocks :: "nat \<Rightarrow> board \<Rightarrow> eds_block list" where
  "eds_blocks p b =
     (if p < EDS_END then (p, EDS_BLOCK_TYPE p b, EDS_BLOCK_SIZE p b) # eds_blocks (eds_next_block p b) b
      else [])"
  by pat_completeness auto
termination
  using eds_next_block_less by (relation "measure (\<lambda>(p, b). EDS_END - p)") (auto intro: diff_less_mono2)

text \<open>The chain from \<open>p\<close> is \<open>bs\<close> and ends with the memory.\<close>

primrec layout :: "eds_block list \<Rightarrow> nat \<Rightarrow> board \<Rightarrow> bool" where
  "layout [] p b = (p = EDS_END + 1)"
| "layout (blk # bs) p b = (case blk of (q, t, s) \<Rightarrow>
     q = p \<and> p < EDS_END \<and> eeprom b p = t \<and> eeprom b (p + 1) = s \<and> layout bs (p + 2 + unat s) b)"

definition eds_wf :: "board \<Rightarrow> bool" where
  "eds_wf b = layout (eds_blocks EDS_DATA_START b) EDS_DATA_START b"

text \<open>First fit on the list, and freeing a block of it.\<close>

fun alloc_list :: "u8 \<Rightarrow> eds_block list \<Rightarrow> nat \<times> eds_block list" where
  "alloc_list n [] = (0, [])"
| "alloc_list n ((p, t, s) # bs) =
     (if t = 0 \<and> s = n then (p, (p, t, s) # bs)
      else if t = 0 \<and> unat s \<ge> unat n + 2 then (p, (p, 0, n) # (p + 2 + unat n, 0, s - n - 2) # bs)
      else (let (r, bs') = alloc_list n bs in (r, (p, t, s) # bs')))"

definition set_type :: "nat \<Rightarrow> u8 \<Rightarrow> eds_block list \<Rightarrow> eds_block list" where
  "set_type q t bs = map (\<lambda>(p, t', s). (p, if p = q then t else t', s)) bs"

text \<open>Merging neighbouring free blocks from the front.\<close>

function defrag_list :: "eds_block list \<Rightarrow> eds_block list" where
  "defrag_list [] = []"
| "defrag_list [x] = [x]"
| "defrag_list ((p, t, s) # (q, u, v) # bs) =
     (if t = 0 \<and> u = 0 \<and> unat s + 2 + unat v \<le> 255 then defrag_list ((p, 0, s + 2 + v) # bs)
      else (p, t, s) # defrag_list ((q, u, v) # bs))"
  by pat_completeness auto
termination by (relation "measure length") auto

section \<open>Facts on the chain\<close>

lemma eds_read [simp]:
  "EDS_BLOCK_TYPE p b = eeprom b p"
  "p < EDS_END \<Longrightarrow> EDS_BLOCK_SIZE p b = eeprom b (p + 1)"
  by (simp_all add: EDS_BLOCK_TYPE_def EDS_BLOCK_SIZE_def eeprom_read_byte_def)

lemma eds_write [simp]:
  "eeprom (eeprom_write_byte p v b) = (eeprom b)(p := v)"
  "eeprom (EDS_SET_BLOCK_TYPE p v b) = (eeprom b)(p := v)"
  "p < EDS_END \<Longrightarrow> eeprom (EDS_SET_BLOCK_SIZE p v b) = (eeprom b)(p + 1 := v)"
  "eeprom (canix_syslog_P pr f as b) = eeprom b"
  by (simp_all add: eeprom_write_byte_def EDS_SET_BLOCK_TYPE_def EDS_SET_BLOCK_SIZE_def
      canix_syslog_P_def)

declare eds_blocks.simps [simp del] eds_alloc_from.simps [simp del] eds_free_from.simps [simp del]
  eds_find_from.simps [simp del] eds_format_loop.simps [simp del]

lemma blocks_of_layout: "layout bs p b \<Longrightarrow> eds_blocks p b = bs"
proof (induction bs arbitrary: p)
  case Nil
  then show ?case by (simp add: eds_blocks.simps)
next
  case (Cons blk bs)
  then show ?case
    by (cases blk) (subst eds_blocks.simps, simp add: eds_next_block_less)
qed

lemma eds_wfI: "layout bs EDS_DATA_START b \<Longrightarrow> eds_wf b"
  by (simp add: eds_wf_def blocks_of_layout)

lemma eds_wfE:
  assumes "eds_wf b"
  obtains bs where "layout bs EDS_DATA_START b" and "eds_blocks EDS_DATA_START b = bs"
  using assms by (auto simp: eds_wf_def)

lemma layout_frame:
  "layout bs p b \<Longrightarrow> (\<And>a. p \<le> a \<Longrightarrow> eeprom b' a = eeprom b a) \<Longrightarrow> layout bs p b'"
proof (induction bs arbitrary: p)
  case Nil
  then show ?case by simp
next
  case (Cons blk bs)
  obtain q t s where blk: "blk = (q, t, s)" by (cases blk)
  have "layout bs (p + 2 + unat s) b'"
    using Cons.IH [of "p + 2 + unat s"] Cons.prems by (simp add: blk)
  then show ?case using Cons.prems by (simp add: blk)
qed

lemma layout_range:
  "layout bs p b \<Longrightarrow> (q, t, s) \<in> set bs \<Longrightarrow> p \<le> q \<and> q < EDS_END \<and> q + 2 + unat s \<le> EDS_END + 1"
proof (induction bs arbitrary: p)
  case Nil
  then show ?case by simp
next
  case (Cons blk bs)
  obtain q' t' s' where blk: "blk = (q', t', s')" by (cases blk)
  have end_le: "layout cs p' b \<Longrightarrow> p' \<le> EDS_END + 1" for cs p'
    by (cases cs) (auto split: prod.splits)
  show ?case
  proof (cases "(q, t, s) = blk")
    case True
    then show ?thesis using Cons.prems end_le [of bs "p + 2 + unat s"] by (auto simp: blk)
  next
    case False
    then show ?thesis using Cons.IH [of "p + 2 + unat s'"] Cons.prems by (auto simp: blk)
  qed
qed

text \<open>The bytes of the used blocks of a chain, headers included.\<close>

definition same_used :: "eds_block list \<Rightarrow> board \<Rightarrow> board \<Rightarrow> bool" where
  "same_used bs b b' = (\<forall>(q, t, s) \<in> set bs. t \<noteq> 0 \<longrightarrow>
     (\<forall>a. q \<le> a \<and> a < q + 2 + unat s \<longrightarrow> eeprom b' a = eeprom b a))"

lemma alloc_from_refines:
  "layout bs p b \<Longrightarrow> eds_alloc_from p n b = (r, b') \<Longrightarrow>
    r = fst (alloc_list n bs) \<and> layout (snd (alloc_list n bs)) p b' \<and> same_used bs b b' \<and>
    (\<forall>a. a < p \<longrightarrow> eeprom b' a = eeprom b a) \<and> (r = 0 \<longrightarrow> 0 < p \<longrightarrow> b' = b)"
proof (induction bs arbitrary: p)
  case Nil
  then show ?case by (simp add: eds_alloc_from.simps same_used_def)
next
  case (Cons blk bs)
  obtain q t s where blk: "blk = (q, t, s)" by (cases blk)
  have h: "q = p" "p < EDS_END" "eeprom b p = t" "eeprom b (p + 1) = s" "layout bs (p + 2 + unat s) b"
    using Cons.prems(1) by (simp_all add: blk)
  have rng: "\<And>q t s'. (q, t, s') \<in> set bs \<Longrightarrow> p + 2 + unat s \<le> q" using layout_range [OF h(5)] by blast
  consider (exact) "t = 0" "s = n" | (split) "t = 0" "s \<noteq> n" "unat s \<ge> unat n + 2"
    | (skip) "\<not> (t = 0 \<and> s = n)" "\<not> (t = 0 \<and> unat s \<ge> unat n + 2)" by blast
  then show ?case
  proof cases
    case exact
    then show ?thesis
      using Cons.prems h by (simp add: eds_alloc_from.simps blk same_used_def)
  next
    case split
    have u: "unat (s - n - 2) = unat s - unat n - 2"
      using split(3) by (simp add: unat_sub word_le_nat_alt)
    let ?q = "p + 2 + unat n"
    have step: "r = p" "b' = eeprom_write_byte (p + 1) n
        (eeprom_write_byte (?q + 1) (s - n - 2) (eeprom_write_byte ?q 0 b))"
      using Cons.prems(2) split h by (auto simp: eds_alloc_from.simps word_le_nat_alt Let_def)
    have tail: "layout bs (p + 2 + unat s) b'"
      using h(5) split(3) by (rule_tac layout_frame) (auto simp: step)
    have le: "p + 2 + unat s \<le> EDS_END + 1"
      using layout_range [OF Cons.prems(1), of p t s] by (simp add: blk h(1))
    have "layout ((p, 0, n) # (?q, 0, s - n - 2) # bs) p b'"
    proof -
      have "?q + 2 + unat (s - n - 2) = p + 2 + unat s" using split(3) u by simp
      with tail have "layout bs (?q + 2 + unat (s - n - 2)) b'" by (simp only:)
      moreover have "?q < EDS_END" using le split(3) by simp
      ultimately show ?thesis using h split(1) by (simp add: step)
    qed
    moreover have "same_used (blk # bs) b b'"
      using rng split by (fastforce simp: same_used_def blk step)
    ultimately show ?thesis using split h step by (simp add: blk)
  next
    case skip
    have "eds_alloc_from p n b = eds_alloc_from (p + 2 + unat s) n b"
      using skip h by (subst eds_alloc_from.simps) (auto simp: eds_next_block_less)
    with Cons.prems have "eds_alloc_from (p + 2 + unat s) n b = (r, b')" by simp
    note IH = Cons.IH [OF h(5) this]
    have keep: "\<forall>a < p + 2 + unat s. eeprom b' a = eeprom b a" using IH by simp
    have "alloc_list n (blk # bs) = (fst (alloc_list n bs), blk # snd (alloc_list n bs))"
      using skip by (auto simp: blk split: prod.splits)
    then show ?thesis
      using IH keep h by (simp add: blk same_used_def)
  qed
qed

lemma layout_set_type:
  assumes "layout bs p b" and "(q, t0, s0) \<in> set bs" and "eeprom b' = (eeprom b)(q := t)"
  shows "layout (set_type q t bs) p b'"
  using assms(1,2)
proof (induction bs arbitrary: p)
  case Nil
  then show ?case by simp
next
  case (Cons blk bs)
  obtain q' t' s' where blk: "blk = (q', t', s')" by (cases blk)
  have h: "q' = p" "p < EDS_END" "eeprom b p = t'" "eeprom b (p + 1) = s'"
    and lay: "layout bs (p + 2 + unat s') b" using Cons.prems(1) by (simp_all add: blk)
  have rng: "\<And>x y z. (x, y, z) \<in> set bs \<Longrightarrow> p + 2 + unat s' \<le> x" using layout_range [OF lay] by blast
  show ?case
  proof (cases "q = p")
    case True
    have "set_type q t bs = bs"
      using rng True by (fastforce simp: set_type_def intro!: map_idI)
    moreover have "layout bs (p + 2 + unat s') b'"
      using lay by (rule layout_frame) (simp add: assms(3) True)
    ultimately show ?thesis using h True assms(3) by (simp add: blk set_type_def)
  next
    case False
    then have q: "(q, t0, s0) \<in> set bs" using Cons.prems(2) h by (auto simp: blk)
    from Cons.IH [OF lay this] False h rng [OF q] assms(3) show ?thesis
      by (auto simp: blk set_type_def)
  qed
qed

lemma layout_write_outside:
  "layout bs p b \<Longrightarrow> eeprom b' = (eeprom b)(q := t) \<Longrightarrow> q < p \<Longrightarrow> layout bs p b'"
  by (erule layout_frame) simp

lemma free_from_refines:
  "layout bs p b \<Longrightarrow> eds_free_from p q b =
    (if \<exists>t s. (q, t, s) \<in> set bs then (EDS_OK, EDS_SET_BLOCK_TYPE q 0 b) else (EDS_INVALID_POINTER, b))"
proof (induction bs arbitrary: p)
  case Nil
  then show ?case by (simp add: eds_free_from.simps)
next
  case (Cons blk bs)
  obtain q' t' s' where blk: "blk = (q', t', s')" by (cases blk)
  have h: "q' = p" "p < EDS_END" "eeprom b (p + 1) = s'" "layout bs (p + 2 + unat s') b"
    using Cons.prems by (simp_all add: blk)
  show ?case
    using Cons.IH [OF h(4)] h by (subst eds_free_from.simps) (auto simp: blk eds_next_block_less)
qed

subsection \<open>Merging\<close>

lemma defrag_used: "t \<noteq> 0 \<Longrightarrow> defrag_list ((p, t, s) # bs) = (p, t, s) # defrag_list bs"
  by (cases bs) auto

lemma same_used_trans: "same_used bs b b1 \<Longrightarrow> same_used bs b1 b2 \<Longrightarrow> same_used bs b b2"
  by (fastforce simp: same_used_def)

declare eds_defragment_loop.simps [simp del]

text \<open>One step of the loop, at a block after a used one (or none) and after a free one.\<close>

lemma defrag_step_used:
  "p < EDS_END \<Longrightarrow> 0 < p \<Longrightarrow> defrag_step p 0 b = (p, if eeprom b p = 0 then p else 0, b)"
  by (simp add: defrag_step_def Let_def)

lemma defrag_step_free:
  assumes "p < EDS_END" "l < EDS_END" "0 < l" "eeprom b l = 0"
  shows "defrag_step p l b =
    (if eeprom b p = 0 \<and> unat (eeprom b (l + 1)) + 2 + unat (eeprom b (p + 1)) \<le> 255
     then (l, l, EDS_SET_BLOCK_SIZE l (eeprom b (l + 1) + 2 + eeprom b (p + 1)) b)
     else (p, if eeprom b p = 0 then p else 0, b))"
  using assms by (simp add: defrag_step_def Let_def)

definition merged :: "eds_block list \<Rightarrow> nat \<Rightarrow> board \<Rightarrow> board option \<Rightarrow> bool" where
  "merged bs p b res = (\<exists>b'. res = Some b' \<and> layout (defrag_list bs) p b' \<and> same_used bs b b' \<and>
     (\<forall>a < p. eeprom b' a = eeprom b a))"

lemma merged_cons:
  assumes "merged bs (p + 2 + unat s) b res" and "p < EDS_END" "eeprom b p = t" "eeprom b (p + 1) = s"
    and "defrag_list ((p, t, s) # bs) = (p, t, s) # defrag_list bs"
  shows "merged ((p, t, s) # bs) p b res"
  using assms by (auto simp: merged_def same_used_def)

lemma defragment_loop_refines:
  "(layout bs p b \<longrightarrow> 0 < p \<longrightarrow> merged bs p b (eds_defragment_loop p 0 b)) \<and>
   (\<forall>l s. layout ((l, 0, s) # bs) l b \<longrightarrow> 0 < l \<longrightarrow> p = l + 2 + unat s \<longrightarrow>
      merged ((l, 0, s) # bs) l b (eds_defragment_loop p l b))"
proof (induction bs arbitrary: p b)
  case Nil
  then show ?case
    by (subst (1 2) eds_defragment_loop.simps) (auto simp: merged_def same_used_def)
next
  case (Cons blk bs)
  obtain q u v where blk: "blk = (q, u, v)" by (cases blk)
  have after: "merged (blk # bs) p b (eds_defragment_loop (eds_next_block p b) (if eeprom b p = 0 then p else 0) b)"
    if "layout (blk # bs) p b" "0 < p"
  proof -
    have h: "q = p" "p < EDS_END" "eeprom b p = u" "eeprom b (p + 1) = v" "layout bs (p + 2 + unat v) b"
      using that by (simp_all add: blk)
    have n: "eds_next_block p b = p + 2 + unat v" using h by (simp add: eds_next_block_less)
    show ?thesis
    proof (cases "u = 0")
      case True
      then show ?thesis
        using conjunct2 [OF Cons.IH [of "p + 2 + unat v" b], rule_format, of p v] that h n by (simp add: blk)
    next
      case False
      then show ?thesis
        using merged_cons [of bs p v b _ u] conjunct1 [OF Cons.IH [of "p + 2 + unat v" b]] that h n
        by (simp add: blk defrag_used)
    qed
  qed
  show ?case
  proof (intro conjI impI allI)
    assume lay: "layout (blk # bs) p b" and p: "0 < p"
    then have "p < EDS_END" by (simp add: blk)
    then show "merged (blk # bs) p b (eds_defragment_loop p 0 b)"
      using after [OF lay p] p by (subst eds_defragment_loop.simps) (simp add: defrag_step_used)
  next
    fix l s assume lay: "layout ((l, 0, s) # blk # bs) l b" and l: "0 < l" and p: "p = l + 2 + unat s"
    have h: "l < EDS_END" "eeprom b l = 0" "eeprom b (l + 1) = s" "layout (blk # bs) p b"
      "p < EDS_END" "q = p" "eeprom b p = u" "eeprom b (p + 1) = v" "layout bs (p + 2 + unat v) b"
      using lay by (simp_all add: p blk)
    show "merged ((l, 0, s) # blk # bs) l b (eds_defragment_loop p l b)"
    proof (cases "u = 0 \<and> unat s + 2 + unat v \<le> 255")
      case True
      let ?s = "s + 2 + v" and ?b = "EDS_SET_BLOCK_SIZE l (s + 2 + v) b"
      have u: "unat ?s = unat s + 2 + unat v" using True by (simp add: unat_word_ariths)
      have e: "eeprom ?b = (eeprom b)(l + 1 := ?s)" using h(1) by simp
      have step: "eds_defragment_loop p l b = eds_defragment_loop (p + 2 + unat v) l ?b"
        using True h l p u by (subst eds_defragment_loop.simps)
          (simp add: defrag_step_free eds_next_block_less add.assoc)
      have "layout bs (p + 2 + unat v) ?b" using h(9) by (rule layout_frame) (simp add: e p)
      then have "layout ((l, 0, ?s) # bs) l ?b" using h u p by (simp add: e algebra_simps)
      then have m: "merged ((l, 0, ?s) # bs) l ?b (eds_defragment_loop (p + 2 + unat v) l ?b)"
        using conjunct2 [OF Cons.IH [of "p + 2 + unat v" ?b], rule_format, of l ?s] l u p h(2) e by simp
      have "\<And>x y z. (x, y, z) \<in> set bs \<Longrightarrow> p + 2 + unat v \<le> x" using layout_range [OF h(9)] by blast
      then have "same_used ((l, 0, s) # blk # bs) b ?b"
        using True p by (fastforce simp: same_used_def blk e)
      moreover from m obtain b' where b': "eds_defragment_loop p l b = Some b'"
        "layout (defrag_list ((l, 0, ?s) # bs)) l b'" "same_used ((l, 0, ?s) # bs) ?b b'"
        "\<forall>a < l. eeprom b' a = eeprom b a"
        by (auto simp: merged_def step e)
      moreover have "same_used ((l, 0, s) # blk # bs) ?b b'"
        using b'(3) True by (simp add: same_used_def blk)
      ultimately have "same_used ((l, 0, s) # blk # bs) b b'" by (blast intro: same_used_trans)
      with b' True show ?thesis by (simp add: merged_def blk)
    next
      case False
      then have "eds_defragment_loop p l b =
          eds_defragment_loop (eds_next_block p b) (if eeprom b p = 0 then p else 0) b"
        using h l by (subst eds_defragment_loop.simps) (simp add: defrag_step_free)
      moreover have "merged (blk # bs) p b \<dots>" using after [OF h(4)] p by simp
      moreover have "defrag_list ((l, 0, s) # blk # bs) = (l, 0, s) # defrag_list (blk # bs)"
        using False by (auto simp: blk)
      ultimately show ?thesis using merged_cons [of "blk # bs" l s b _ 0] h p by simp
    qed
  qed
qed

text \<open>The merged list has the same used blocks, and no two free neighbours that could be merged.\<close>

fun unmergeable :: "eds_block list \<Rightarrow> bool" where
  "unmergeable ((p, t, s) # (q, u, v) # bs) =
     (\<not> (t = 0 \<and> u = 0 \<and> unat s + 2 + unat v \<le> 255) \<and> unmergeable ((q, u, v) # bs))"
| "unmergeable bs = True"

lemma defrag_list_head:
  "\<exists>s' cs. defrag_list ((p, t, s) # bs) = (p, t, s') # cs \<and> unat s \<le> unat s'"
proof (induction "(p, t, s) # bs" arbitrary: p t s bs rule: defrag_list.induct)
  case (3 p t s q u v bs)
  show ?case
  proof (cases "t = 0 \<and> u = 0 \<and> unat s + 2 + unat v \<le> 255")
    case True
    then have "unat s \<le> unat (s + 2 + v)" by (simp add: unat_word_ariths)
    with True 3(1) show ?thesis by fastforce
  next
    case False
    then show ?thesis by auto
  qed
qed simp

lemma defrag_list_props:
  "filter (\<lambda>(p, t, s). t \<noteq> 0) (defrag_list bs) = filter (\<lambda>(p, t, s). t \<noteq> 0) bs \<and>
   unmergeable (defrag_list bs)"
proof (induction bs rule: defrag_list.induct)
  case (3 p t s q u v bs)
  show ?case
  proof (cases "t = 0 \<and> u = 0 \<and> unat s + 2 + unat v \<le> 255")
    case True
    then show ?thesis using 3(1) by simp
  next
    case False
    obtain v' cs where d: "defrag_list ((q, u, v) # bs) = (q, u, v') # cs" "unat v \<le> unat v'"
      using defrag_list_head by blast
    then show ?thesis using 3(2) False by auto
  qed
qed auto

lemma defragment_refines:
  assumes "layout bs EDS_DATA_START b"
  shows "\<exists>b'. eds_defragment b = Some b' \<and> layout (defrag_list bs) EDS_DATA_START b' \<and> same_used bs b b'"
  using defragment_loop_refines [of bs EDS_DATA_START b] assms by (auto simp: eds_defragment_def merged_def)

text \<open>C6: Defragmenting a well-formed data space returns, leaves it well-formed with exactly the used
  blocks it had, byte for byte, and with no two neighbouring free blocks that still fit into one.\<close>

theorem eds_defragment_correct:
  assumes "eds_wf b"
  shows "\<exists>b'. eds_defragment b = Some b' \<and> eds_wf b' \<and>
    (let bs = eds_blocks EDS_DATA_START b; bs' = eds_blocks EDS_DATA_START b' in
     filter (\<lambda>(p, t, s). t \<noteq> 0) bs' = filter (\<lambda>(p, t, s). t \<noteq> 0) bs \<and> unmergeable bs' \<and>
     same_used bs b b')"
proof -
  from assms obtain bs where bs: "layout bs EDS_DATA_START b" "eds_blocks EDS_DATA_START b = bs"
    by (rule eds_wfE)
  show ?thesis
    using defragment_refines [OF bs(1)] bs(2) blocks_of_layout defrag_list_props [of bs]
    by (auto simp: Let_def intro: eds_wfI)
qed

section \<open>Formatting\<close>

lemma format_loop_layout:
  "p mod 130 = 34 \<Longrightarrow> p \<le> 1984 \<Longrightarrow>
    \<exists>bs. layout bs p (eds_format_loop p b) \<and> (\<forall>(q, t, s) \<in> set bs. t = 0 \<and> unat s \<le> 128) \<and>
      (\<forall>a < p. eeprom (eds_format_loop p b) a = eeprom b a)"
proof (induction p b rule: eds_format_loop.induct)
  case (1 p b)
  let ?size = "if EDS_END - (p + 1) > 128 then 128 else EDS_END - (p + 1)"
  let ?b = "canix_syslog_P SYSLOG_PRIO_DEBUG ''EDS: format: p = %d, size=%d'' [int p, int ?size]
    (eeprom_write_byte (p + 1) (of_nat ?size) (eeprom_write_byte p 0 b))"
  let ?r = "eds_format_loop (p + 2 + ?size) ?b"
  have r: "eds_format_loop p b = ?r" using 1(3) by (subst eds_format_loop.simps) (simp add: Let_def)
  have sz: "unat (of_nat ?size :: u8) = ?size" by (simp add: unat_of_nat)
  have "\<exists>bs. layout bs (p + 2 + ?size) ?r \<and> (\<forall>(q, t, s) \<in> set bs. t = 0 \<and> unat s \<le> 128) \<and>
      (\<forall>a < p + 2 + ?size. eeprom ?r a = eeprom ?b a)"
  proof (cases "p = 1984")
    case True
    then have "?r = ?b" "p + 2 + ?size = EDS_END + 1" by (simp_all add: eds_format_loop.simps)
    then show ?thesis by (intro exI [of _ "[]"]) simp
  next
    case False
    obtain k where k: "p = 34 + 130 * k" using 1(2) by (metis add.commute mult.commute mod_div_mult_eq)
    then have "p + 130 \<le> 1984" using 1(3) False by presburger
    then have "?size = 128" "(p + 2 + ?size) mod 130 = 34" "p + 2 + ?size \<le> 1984" using k by simp_all
    moreover have "p < EDS_END - 2" using 1(3) by simp
    ultimately show ?thesis using 1(1) [OF _ refl refl refl refl] by (simp only: simp_thms)
  qed
  then obtain bs where bs: "layout bs (p + 2 + ?size) ?r" "\<forall>(q, t, s) \<in> set bs. t = 0 \<and> unat s \<le> 128"
    "\<forall>a < p + 2 + ?size. eeprom ?r a = eeprom ?b a" by blast
  have "layout ((p, 0, of_nat ?size) # bs) p ?r"
    using bs(1,3) sz 1(3) by (simp only: layout.simps prod.case) simp
  then show ?case
    unfolding r using bs(2,3) sz by (intro exI [of _ "(p, 0, of_nat ?size) # bs"]) (auto split: if_splits)
qed

text \<open>Initialising the data space always leaves it marked as formatted; where it was not, it ends up
  well-formed with free blocks only, so that a second initialisation finds it formatted.\<close>

theorem eds_init_formats:
  "let (res, b1) = eds_init b; (res2, b2) = eds_init b1 in
   res2 = EDS_OK \<and> eeprom b2 = eeprom b1 \<and>
   (if res = EDS_OK then eeprom b1 = eeprom b
    else eds_wf b1 \<and> list_all (\<lambda>(p, t, s). t = 0) (eds_blocks EDS_DATA_START b1))"
proof -
  have f: "\<exists>bs. layout bs EDS_DATA_START (eds_format x) \<and> (\<forall>(q, t, s) \<in> set bs. t = 0) \<and>
      eeprom (eds_format x) EDS_START = EDS_MAGIC1 \<and> eeprom (eds_format x) (EDS_START + 1) = EDS_MAGIC2" for x
    using format_loop_layout [of EDS_DATA_START "eeprom_write_byte (EDS_START + 1) EDS_MAGIC2
        (eeprom_write_byte EDS_START EDS_MAGIC1 x)"]
    by (auto simp: eds_format_def)
  show ?thesis
  proof (cases "eeprom b EDS_START = EDS_MAGIC1 \<and> eeprom b (EDS_START + 1) = EDS_MAGIC2")
    case True
    then show ?thesis by (simp add: eds_init_def eeprom_read_byte_def)
  next
    case False
    define x where "x = canix_syslog_P SYSLOG_PRIO_ERROR ''EDS: formating...'' []
      (canix_syslog_P SYSLOG_PRIO_ERROR ''EDS: data space not formated'' [] b)"
    define y where "y = canix_syslog_P SYSLOG_PRIO_ERROR ''EDS: done.'' [] (eds_format x)"
    have e: "eeprom y = eeprom (eds_format x)" by (simp add: y_def)
    have i: "eds_init b = (EDS_NOT_FORMATED, y)"
      using False by (auto simp: eds_init_def eeprom_read_byte_def x_def y_def)
    obtain bs where bs: "layout bs EDS_DATA_START (eds_format x)" "\<forall>(q, t, s) \<in> set bs. t = 0"
      "eeprom y EDS_START = EDS_MAGIC1" "eeprom y (EDS_START + 1) = EDS_MAGIC2"
      using f [of x] e by auto
    have "layout bs EDS_DATA_START y" using bs(1) by (rule layout_frame) (simp add: e)
    then have "eds_wf y" "eds_blocks EDS_DATA_START y = bs"
      by (auto intro: eds_wfI blocks_of_layout)
    moreover have "eds_init y = (EDS_OK, canix_syslog_P SYSLOG_PRIO_DEBUG ''EDS: data space is formated.'' [] y)"
      using bs(3,4) by (simp add: eds_init_def eeprom_read_byte_def)
    ultimately show ?thesis using bs(2) by (simp add: i list_all_iff)
  qed
qed

section \<open>The interface of the data space\<close>

datatype store_op = Op_Alloc u8 u8 | Op_Free nat | Op_Compact

primrec store_run :: "(u8 \<Rightarrow> u8 \<Rightarrow> 's \<Rightarrow> nat \<times> 's) \<Rightarrow> (nat \<Rightarrow> 's \<Rightarrow> 's) \<Rightarrow> ('s \<Rightarrow> 's) \<Rightarrow> store_op list \<Rightarrow> 's \<Rightarrow> 's" where
  "store_run alloc free compact [] s = s"
| "store_run alloc free compact (x # xs) s = store_run alloc free compact xs
     (case x of Op_Alloc t n \<Rightarrow> snd (alloc t n s) | Op_Free q \<Rightarrow> free q s | Op_Compact \<Rightarrow> compact s)"

locale block_store =
  fixes wf :: "'s \<Rightarrow> bool"
    and used :: "'s \<Rightarrow> (nat \<times> u8 \<times> u8) set"
    and mem :: "'s \<Rightarrow> nat \<Rightarrow> u8"
    and alloc :: "u8 \<Rightarrow> u8 \<Rightarrow> 's \<Rightarrow> nat \<times> 's"
    and free :: "nat \<Rightarrow> 's \<Rightarrow> 's"
    and compact :: "'s \<Rightarrow> 's"
  assumes alloc_wf: "wf s \<Longrightarrow> wf (snd (alloc t n s))"
    and free_wf: "wf s \<Longrightarrow> wf (free q s)"
    and compact_wf: "wf s \<Longrightarrow> wf (compact s)"
    and alloc_used: "wf s \<Longrightarrow> t \<noteq> 0 \<Longrightarrow> used (snd (alloc t n s)) =
          (if fst (alloc t n s) = 0 then used s else insert (fst (alloc t n s), t, n) (used s))"
    and alloc_free_type: "wf s \<Longrightarrow> used (snd (alloc 0 n s)) = used s"
    and alloc_fresh: "wf s \<Longrightarrow> (fst (alloc t n s), t', n') \<notin> used s"
    and free_used: "wf s \<Longrightarrow> used (free q s) = {(p, t, n) \<in> used s. p \<noteq> q}"
    and compact_used: "wf s \<Longrightarrow> used (compact s) = used s"
    and alloc_mem: "wf s \<Longrightarrow> (p, t', n') \<in> used s \<Longrightarrow> p + 2 \<le> a \<Longrightarrow> a < p + 2 + unat n' \<Longrightarrow>
          mem (snd (alloc t n s)) a = mem s a"
    and free_mem: "wf s \<Longrightarrow> (p, t', n') \<in> used s \<Longrightarrow> p + 2 \<le> a \<Longrightarrow> a < p + 2 + unat n' \<Longrightarrow>
          mem (free q s) a = mem s a"
    and compact_mem: "wf s \<Longrightarrow> (p, t', n') \<in> used s \<Longrightarrow> p + 2 \<le> a \<Longrightarrow> a < p + 2 + unat n' \<Longrightarrow>
          mem (compact s) a = mem s a"
begin

lemma run_keeps:
  "wf s \<Longrightarrow> (p, t, n) \<in> used s \<Longrightarrow> Op_Free p \<notin> set ops \<Longrightarrow>
    wf (store_run alloc free compact ops s) \<and> (p, t, n) \<in> used (store_run alloc free compact ops s) \<and>
    (\<forall>a. p + 2 \<le> a \<and> a < p + 2 + unat n \<longrightarrow> mem (store_run alloc free compact ops s) a = mem s a)"
proof (induction ops arbitrary: s)
  case Nil
  then show ?case by simp
next
  case (Cons x xs)
  define s1 where "s1 = (case x of Op_Alloc t n \<Rightarrow> snd (alloc t n s) | Op_Free q \<Rightarrow> free q s | Op_Compact \<Rightarrow> compact s)"
  have "wf s1 \<and> (p, t, n) \<in> used s1 \<and> (\<forall>a. p + 2 \<le> a \<and> a < p + 2 + unat n \<longrightarrow> mem s1 a = mem s a)"
  proof (cases x)
    case (Op_Alloc t1 n1)
    then show ?thesis
      using Cons.prems alloc_wf alloc_used [of s t1 n1] alloc_free_type [of s n1] alloc_mem
      by (cases "t1 = 0") (auto simp: s1_def)
  next
    case (Op_Free q)
    then show ?thesis using Cons.prems free_wf free_used [of s q] free_mem by (auto simp: s1_def)
  next
    case Op_Compact
    then show ?thesis using Cons.prems compact_wf compact_used compact_mem by (auto simp: s1_def)
  qed
  with Cons.IH [of s1] Cons.prems(3) show ?case by (simp add: s1_def [symmetric])
qed

end

text \<open>The operations as the service performs them.\<close>

definition eds_allocate :: "u8 \<Rightarrow> u8 \<Rightarrow> board \<Rightarrow> nat \<times> board" where
  "eds_allocate t n b = (let (h2, b1) = eds_alloc n b in (h2, EDS_SET_BLOCK_TYPE h2 t b1))"

definition eds_used :: "board \<Rightarrow> eds_block set" where
  "eds_used b = {(p, t, s) \<in> set (eds_blocks EDS_DATA_START b). t \<noteq> 0}"

lemma layout_header:
  "layout bs p b \<Longrightarrow> (q, t, s) \<in> set bs \<Longrightarrow> eeprom b q = t \<and> eeprom b (q + 1) = s"
  by (induction bs arbitrary: p) (auto split: prod.splits)

lemma layout_disjoint:
  "layout bs p b \<Longrightarrow> (q, t, s) \<in> set bs \<Longrightarrow> (q', t', s') \<in> set bs \<Longrightarrow>
    q = q' \<and> t = t' \<and> s = s' \<or> q + 2 + unat s \<le> q' \<or> q' + 2 + unat s' \<le> q"
proof (induction bs arbitrary: p)
  case Nil
  then show ?case by simp
next
  case (Cons blk bs)
  obtain x y z where blk: "blk = (x, y, z)" by (cases blk)
  have "layout bs (p + 2 + unat z) b" "x = p" using Cons.prems by (simp_all add: blk)
  with Cons show ?case using layout_range [of bs "p + 2 + unat z" b] by (fastforce simp: blk)
qed

lemma set_type_mem:
  assumes "layout bs p b" and "(q, t0, s0) \<in> set bs"
  shows "(x, y, z) \<in> set (set_type q t1 bs) \<longleftrightarrow>
    x \<noteq> q \<and> (x, y, z) \<in> set bs \<or> x = q \<and> y = t1 \<and> z = s0"
proof -
  have "t = t0 \<and> s = s0" if "(q, t, s) \<in> set bs" for t s
    using layout_disjoint [OF assms(1) that assms(2)] by auto
  then have "(x, y, z) \<in> set (set_type q t1 bs) \<Longrightarrow>
      x \<noteq> q \<and> (x, y, z) \<in> set bs \<or> x = q \<and> y = t1 \<and> z = s0"
    by (cases "x = q") (auto simp: set_type_def)
  moreover have "(x, y', z) \<in> set bs \<Longrightarrow> (x, if x = q then t1 else y', z) \<in> set (set_type q t1 bs)" for y'
    by (force simp: set_type_def)
  moreover have "(q, t1, s0) \<in> set (set_type q t1 bs)" using assms(2) by (force simp: set_type_def)
  ultimately show ?thesis by fastforce
qed

definition no_fit :: "u8 \<Rightarrow> eds_block list \<Rightarrow> bool" where
  "no_fit n bs = list_all (\<lambda>(q, t, s). t = 0 \<longrightarrow> s \<noteq> n \<and> unat s < unat n + 2) bs"

lemma alloc_list_result:
  "alloc_list n bs = (r, bs') \<Longrightarrow> list_all (\<lambda>blk. 0 < fst blk) bs \<Longrightarrow>
    {(p, t, s) \<in> set bs'. t \<noteq> 0} = {(p, t, s) \<in> set bs. t \<noteq> 0} \<and>
    (r = 0 \<longrightarrow> bs' = bs \<and> no_fit n bs) \<and>
    (r \<noteq> 0 \<longrightarrow> (r, 0, n) \<in> set bs' \<and> (\<exists>s. (r, 0, s) \<in> set bs))"
proof (induction bs arbitrary: r bs')
  case Nil
  then show ?case by (simp add: no_fit_def)
next
  case (Cons blk bs)
  obtain p t s where blk: "blk = (p, t, s)" by (cases blk)
  consider (exact) "t = 0" "s = n" | (split) "t = 0" "s \<noteq> n" "unat s \<ge> unat n + 2"
    | (skip) "\<not> (t = 0 \<and> s = n)" "\<not> (t = 0 \<and> unat s \<ge> unat n + 2)" by blast
  then show ?case
  proof cases
    case exact
    then show ?thesis using Cons.prems by (auto simp: blk)
  next
    case split
    then show ?thesis using Cons.prems by (auto simp: blk)
  next
    case skip
    obtain bs1 where rec: "alloc_list n bs = (r, bs1)" and bs': "bs' = blk # bs1"
      using Cons.prems(1) skip by (auto simp: blk split: prod.splits if_splits)
    note IH = Cons.IH [OF rec]
    have "list_all (\<lambda>blk. 0 < fst blk) bs" using Cons.prems(2) by simp
    note IH = IH [OF this]
    have "{(p, t, s) \<in> set (blk # xs). t \<noteq> 0} =
        (if t = 0 then {} else {blk}) \<union> {(p, t, s) \<in> set xs. t \<noteq> 0}" for xs
      by (auto simp: blk)
    then have "{(p, t, s) \<in> set bs'. t \<noteq> 0} = {(p, t, s) \<in> set (blk # bs). t \<noteq> 0}"
      using IH by (simp only: bs')
    moreover have "no_fit n bs \<Longrightarrow> no_fit n (blk # bs)" using skip by (auto simp: no_fit_def blk)
    ultimately show ?thesis using IH by (auto simp: bs')
  qed
qed

lemma eds_alloc_refines:
  assumes "layout bs EDS_DATA_START b" and "eds_alloc n b = (r, b')"
  shows "\<exists>bs'. layout bs' EDS_DATA_START b' \<and> same_used bs b b' \<and>
    {(p, t, s) \<in> set bs'. t \<noteq> 0} = {(p, t, s) \<in> set bs. t \<noteq> 0} \<and>
    (r = 0 \<longrightarrow> b' = b \<and> bs' = bs \<and> no_fit n bs) \<and>
    (r \<noteq> 0 \<longrightarrow> (r, 0, n) \<in> set bs' \<and> (\<exists>s. (r, 0, s) \<in> set bs))"
proof -
  obtain r1 bs' where a: "alloc_list n bs = (r1, bs')" by (cases "alloc_list n bs")
  have "eds_alloc_from EDS_DATA_START n b = (r, b')" using assms(2) by (simp add: eds_alloc_def)
  from alloc_from_refines [OF assms(1) this] a
  have f: "r1 = r" "layout bs' EDS_DATA_START b'" "same_used bs b b'" "r = 0 \<Longrightarrow> b' = b" by auto
  have "list_all (\<lambda>blk. 0 < fst blk) bs" using layout_range [OF assms(1)] by (fastforce simp: list_all_iff)
  note res = alloc_list_result [OF a this]
  show ?thesis using res f by (intro exI [of _ bs']) simp
qed

text \<open>The block that first fit takes: the first free block of the wanted size, or with room for it and a further header.\<close>

definition room_for :: "u8 \<Rightarrow> eds_block \<Rightarrow> bool" where
  "room_for n blk = (case blk of (p, t, s) \<Rightarrow> t = 0 \<and> (s = n \<or> unat s \<ge> unat n + 2))"

definition first_fit :: "u8 \<Rightarrow> eds_block list \<Rightarrow> nat" where
  "first_fit n bs = (case find (room_for n) bs of None \<Rightarrow> 0 | Some (p, t, s) \<Rightarrow> p)"

lemma alloc_list_first_fit: "fst (alloc_list n bs) = first_fit n bs"
  by (induction bs) (auto simp: first_fit_def room_for_def split: prod.splits)

lemma eds_alloc_first_fit:
  assumes "layout bs EDS_DATA_START b" "eds_alloc n b = (r, b')"
  shows "r = first_fit n bs"
proof -
  obtain r1 bs' where a: "alloc_list n bs = (r1, bs')" by (cases "alloc_list n bs")
  have "eds_alloc_from EDS_DATA_START n b = (r, b')" using assms(2) by (simp add: eds_alloc_def)
  from alloc_from_refines [OF assms(1) this] a have "r1 = r" by auto
  then show ?thesis using a alloc_list_first_fit [of n bs] by simp
qed

text \<open>C5: On a well-formed data space \<open>eds_alloc\<close> is first fit: it returns the first block of the chain that is free and
  has the wanted size, or room for it and a further header, and this block has exactly the wanted size afterwards;
  when there is none it returns 0 and leaves the memory as it was. The space stays well-formed and every used block
  keeps its place, type, size and contents.\<close>

theorem eds_alloc_correct:
  assumes "eds_wf b" and "eds_alloc n b = (r, b')"
  shows "r = first_fit n (eds_blocks EDS_DATA_START b) \<and>
    eds_wf b' \<and> eds_used b' = eds_used b \<and> same_used (eds_blocks EDS_DATA_START b) b b' \<and>
    (r = 0 \<longrightarrow> b' = b \<and> no_fit n (eds_blocks EDS_DATA_START b)) \<and>
    (r \<noteq> 0 \<longrightarrow> (r, 0, n) \<in> set (eds_blocks EDS_DATA_START b') \<and>
       (\<exists>s. (r, 0, s) \<in> set (eds_blocks EDS_DATA_START b)))"
proof -
  from assms(1) obtain bs where bs: "layout bs EDS_DATA_START b" "eds_blocks EDS_DATA_START b = bs"
    by (rule eds_wfE)
  from eds_alloc_refines [OF bs(1) assms(2)] obtain bs' where bs': "layout bs' EDS_DATA_START b'"
    and rest: "same_used bs b b'" "{(p, t, s) \<in> set bs'. t \<noteq> 0} = {(p, t, s) \<in> set bs. t \<noteq> 0}"
    "r = 0 \<longrightarrow> b' = b \<and> bs' = bs \<and> no_fit n bs"
    "r \<noteq> 0 \<longrightarrow> (r, 0, n) \<in> set bs' \<and> (\<exists>s. (r, 0, s) \<in> set bs)"
    by (elim exE conjE)
  show ?thesis
    unfolding eds_used_def bs(2) blocks_of_layout [OF bs'] using rest eds_wfI [OF bs'] eds_alloc_first_fit [OF bs(1) assms(2)] by simp
qed

subsection \<open>The service's operations provide it\<close>

lemma eds_used_layout: "layout bs EDS_DATA_START b \<Longrightarrow> eds_used b = {(p, t, s) \<in> set bs. t \<noteq> 0}"
  by (simp add: eds_used_def blocks_of_layout)

lemma eds_used_mem: "layout bs EDS_DATA_START b \<Longrightarrow> (p, t, s) \<in> eds_used b \<longleftrightarrow> (p, t, s) \<in> set bs \<and> t \<noteq> 0"
  by (simp add: eds_used_layout)

lemma same_usedD:
  "same_used bs b b' \<Longrightarrow> (q, t, s) \<in> set bs \<Longrightarrow> t \<noteq> 0 \<Longrightarrow> q \<le> a \<Longrightarrow> a < q + 2 + unat s
    \<Longrightarrow> eeprom b' a = eeprom b a"
  by (fastforce simp: same_used_def)

text \<open>A type byte lies in no other block's data.\<close>

lemma type_byte_apart:
  assumes "layout bs EDS_DATA_START b" "(q, t, s) \<in> set bs \<or> q = 0" "(p, t', n) \<in> set bs"
    "p + 2 \<le> a" "a < p + 2 + unat n"
  shows "a \<noteq> q"
  using layout_disjoint [OF assms(1) _ assms(3), of q t s] assms(2,4,5) by auto

lemma eds_allocate_laws:
  assumes "eds_wf b" and "eds_allocate t n b = (r, b2)"
  shows "eds_wf b2"
    and "eds_used b2 = (if r = 0 \<or> t = 0 then eds_used b else insert (r, t, n) (eds_used b))"
    and "(r, t', n') \<notin> eds_used b"
    and "(p, t', n') \<in> eds_used b \<Longrightarrow> p + 2 \<le> a \<Longrightarrow> a < p + 2 + unat n' \<Longrightarrow> eeprom b2 a = eeprom b a"
proof -
  from assms(1) obtain bs where bs: "layout bs EDS_DATA_START b" by (rule eds_wfE)
  obtain b1 where al: "eds_alloc n b = (r, b1)" and b2: "b2 = EDS_SET_BLOCK_TYPE r t b1"
    using assms(2) by (auto simp: eds_allocate_def split: prod.splits)
  from eds_alloc_refines [OF bs al] obtain bs' where bs': "layout bs' EDS_DATA_START b1"
    and su: "same_used bs b b1" and eq: "{(p, t, s) \<in> set bs'. t \<noteq> 0} = {(p, t, s) \<in> set bs. t \<noteq> 0}"
    and r0: "r = 0 \<longrightarrow> b1 = b \<and> bs' = bs \<and> no_fit n bs"
    and r1: "r \<noteq> 0 \<longrightarrow> (r, 0, n) \<in> set bs' \<and> (\<exists>s. (r, 0, s) \<in> set bs)"
    by (elim exE conjE)
  have e: "eeprom b2 = (eeprom b1)(r := t)" by (simp add: b2)
  have lay: "layout (if r = 0 then bs else set_type r t bs') EDS_DATA_START b2"
  proof (cases "r = 0")
    case True
    then have "layout bs EDS_DATA_START b2"
      using layout_write_outside [OF bs'] e r0 by simp
    with True show ?thesis by simp
  next
    case False
    then show ?thesis using layout_set_type [OF bs' _ e, of 0 n] r1 by simp
  qed
  show "eds_wf b2" using lay by (rule eds_wfI)
  have pos: "0 < q" if "(q, t, s) \<in> set bs" for q t s using layout_range [OF bs that] by simp
  show fresh: "(r, t', n') \<notin> eds_used b" for t' n'
  proof
    assume "(r, t', n') \<in> eds_used b"
    then have m: "(r, t', n') \<in> set bs" "t' \<noteq> 0" using eds_used_mem [OF bs] by auto
    with pos r1 obtain s where "(r, 0, s) \<in> set bs" by fastforce
    with layout_disjoint [OF bs m(1) this] m(2) show False by simp
  qed
  show "eeprom b2 a = eeprom b a"
    if u: "(p, t', n') \<in> eds_used b" and a: "p + 2 \<le> a" "a < p + 2 + unat n'" for p t' n' a
  proof -
    have m: "(p, t', n') \<in> set bs" "t' \<noteq> 0" using u eds_used_mem [OF bs] by auto
    have "\<exists>s. (r, 0, s) \<in> set bs \<or> r = 0" using r1 by blast
    then have "a \<noteq> r" using type_byte_apart [OF bs _ m(1) a] by blast
    then show ?thesis using same_usedD [OF su m] a by (simp add: e)
  qed
  show "eds_used b2 = (if r = 0 \<or> t = 0 then eds_used b else insert (r, t, n) (eds_used b))"
  proof (cases "r = 0")
    case True
    then show ?thesis using eds_used_layout lay bs by simp
  next
    case False
    then have m: "(r, 0, n) \<in> set bs'" using r1 by simp
    have "(x, y, z) \<in> eds_used b2 \<longleftrightarrow>
        (x, y, z) \<in> eds_used b \<or> t \<noteq> 0 \<and> x = r \<and> y = t \<and> z = n" for x y z
    proof -
      have "(x, y, z) \<in> eds_used b2 \<longleftrightarrow> (x \<noteq> r \<and> (x, y, z) \<in> set bs' \<or> x = r \<and> y = t \<and> z = n) \<and> y \<noteq> 0"
        using eds_used_mem [OF lay] False set_type_mem [OF bs' m] by simp
      moreover have "(x, y, z) \<in> set bs' \<and> y \<noteq> 0 \<longleftrightarrow> (x, y, z) \<in> eds_used b"
      proof -
        have "(x, y, z) \<in> {(p, t, s) \<in> set bs'. t \<noteq> 0} \<longleftrightarrow> (x, y, z) \<in> eds_used b"
          by (simp only: eq eds_used_layout [OF bs])
        then show ?thesis by simp
      qed
      ultimately show ?thesis using fresh [of y z] by blast
    qed
    then show ?thesis using False by (auto simp: set_eq_iff)
  qed
qed

definition eds_free_block :: "nat \<Rightarrow> board \<Rightarrow> board" where
  "eds_free_block q b = snd (eds_free q b)"

definition eds_compact :: "board \<Rightarrow> board" where
  "eds_compact b = (case eds_defragment b of Some b' \<Rightarrow> b' | None \<Rightarrow> b)"

lemma eds_free_laws:
  assumes "eds_wf b"
  shows "eds_wf (eds_free_block q b)"
    and "eds_used (eds_free_block q b) = {(p, t, n) \<in> eds_used b. p \<noteq> q}"
    and "(p, t', n') \<in> eds_used b \<Longrightarrow> p + 2 \<le> a \<Longrightarrow> a < p + 2 + unat n' \<Longrightarrow>
      eeprom (eds_free_block q b) a = eeprom b a"
proof -
  from assms obtain bs where bs: "layout bs EDS_DATA_START b" by (rule eds_wfE)
  have f: "eds_free_block q b = (if \<exists>t s. (q, t, s) \<in> set bs then EDS_SET_BLOCK_TYPE q 0 b else b)"
    using free_from_refines [OF bs, of q] by (simp add: eds_free_block_def eds_free_def)
  have "eds_wf (eds_free_block q b) \<and> eds_used (eds_free_block q b) = {(p, t, n) \<in> eds_used b. p \<noteq> q} \<and>
    (\<forall>p t' n' a. (p, t', n') \<in> eds_used b \<longrightarrow> p + 2 \<le> a \<longrightarrow> a < p + 2 + unat n' \<longrightarrow>
      eeprom (eds_free_block q b) a = eeprom b a)"
  proof (cases "\<exists>t s. (q, t, s) \<in> set bs")
    case True
    then obtain t s where m: "(q, t, s) \<in> set bs" by blast
    have fb: "eds_free_block q b = EDS_SET_BLOCK_TYPE q 0 b" using f True by (simp only: if_True)
    have lay: "layout (set_type q 0 bs) EDS_DATA_START (EDS_SET_BLOCK_TYPE q 0 b)"
      using layout_set_type [OF bs m] by simp
    have "(x, y, z) \<in> eds_used (eds_free_block q b) \<longleftrightarrow> (x, y, z) \<in> eds_used b \<and> x \<noteq> q" for x y z
      unfolding fb eds_used_mem [OF lay] eds_used_mem [OF bs] set_type_mem [OF bs m] by blast
    moreover have "a \<noteq> q" if "(p, t', n') \<in> eds_used b" "p + 2 \<le> a" "a < p + 2 + unat n'" for p t' n' a
      using type_byte_apart [OF bs _ _ that(2,3)] m that(1) eds_used_mem [OF bs] by blast
    ultimately show ?thesis using eds_wfI [OF lay] by (auto simp: fb)
  next
    case False
    have fb: "eds_free_block q b = b" using f False by (simp only: if_False)
    have "p \<noteq> q" if "(p, t, n) \<in> eds_used b" for p t n
      using that False eds_used_mem [OF bs] by blast
    then show ?thesis using assms by (auto simp: fb)
  qed
  then show "eds_wf (eds_free_block q b)"
    and "eds_used (eds_free_block q b) = {(p, t, n) \<in> eds_used b. p \<noteq> q}"
    and "(p, t', n') \<in> eds_used b \<Longrightarrow> p + 2 \<le> a \<Longrightarrow> a < p + 2 + unat n' \<Longrightarrow>
      eeprom (eds_free_block q b) a = eeprom b a"
    by simp_all
qed

lemma eds_compact_laws:
  assumes "eds_wf b"
  shows "eds_wf (eds_compact b)" and "eds_used (eds_compact b) = eds_used b"
    and "(p, t', n') \<in> eds_used b \<Longrightarrow> p + 2 \<le> a \<Longrightarrow> a < p + 2 + unat n' \<Longrightarrow>
      eeprom (eds_compact b) a = eeprom b a"
proof -
  from assms obtain bs where bs: "layout bs EDS_DATA_START b" by (rule eds_wfE)
  from defragment_refines [OF bs] obtain b' where b': "eds_compact b = b'"
    "layout (defrag_list bs) EDS_DATA_START b'" "same_used bs b b'"
    by (auto simp: eds_compact_def)
  have f: "{(p, t, s) \<in> set xs. t \<noteq> 0} = set (filter (\<lambda>(p, t, s). t \<noteq> 0) xs)"
    for xs :: "eds_block list" by auto
  have "set (filter (\<lambda>(p, t, s). t \<noteq> 0) (defrag_list bs)) = set (filter (\<lambda>(p, t, s). t \<noteq> 0) bs)"
    using defrag_list_props [of bs] by simp
  then show "eds_wf (eds_compact b)" "eds_used (eds_compact b) = eds_used b"
    using b' bs eds_wfI by (simp_all add: eds_used_layout f)
  show "(p, t', n') \<in> eds_used b \<Longrightarrow> p + 2 \<le> a \<Longrightarrow> a < p + 2 + unat n' \<Longrightarrow>
      eeprom (eds_compact b) a = eeprom b a"
    using b'(1) same_usedD [OF b'(3)] eds_used_mem [OF bs] by auto
qed

interpretation eds: block_store eds_wf eds_used eeprom eds_allocate eds_free_block eds_compact
proof
  fix b t n p q t' n' a
  assume wf: "eds_wf b"
  note al = eds_allocate_laws [OF wf surjective_pairing]
  show "eds_wf (snd (eds_allocate t n b))" by (rule al(1))
  show "eds_used (snd (eds_allocate 0 n b)) = eds_used b" using al(2) [of 0 n] by simp
  show "(fst (eds_allocate t n b), t', n') \<notin> eds_used b" by (rule al(3))
  show "t \<noteq> 0 \<Longrightarrow> eds_used (snd (eds_allocate t n b)) = (if fst (eds_allocate t n b) = 0
      then eds_used b else insert (fst (eds_allocate t n b), t, n) (eds_used b))"
    using al(2) [of t n] by simp
  show "eds_wf (eds_free_block q b)" "eds_wf (eds_compact b)"
    "eds_used (eds_free_block q b) = {(p, t, n) \<in> eds_used b. p \<noteq> q}"
    "eds_used (eds_compact b) = eds_used b"
    by (rule eds_free_laws(1) eds_free_laws(2) eds_compact_laws(1) eds_compact_laws(2), rule wf)+
  assume u: "(p, t', n') \<in> eds_used b" "p + 2 \<le> a" "a < p + 2 + unat n'"
  show "eeprom (snd (eds_allocate t n b)) a = eeprom b a" by (rule al(4) [OF u])
  show "eeprom (eds_free_block q b) a = eeprom b a" by (rule eds_free_laws(3) [OF wf u])
  show "eeprom (eds_compact b) a = eeprom b a" by (rule eds_compact_laws(3) [OF wf u])
qed

text \<open>C7: A used block of a well-formed data space, once written, survives any sequence of allocations,
  frees of other blocks and defragmentations done over the bus: it stays where it is with its type
  and size, and every byte of its data is unchanged.\<close>

theorem eds_block_survives:
  assumes "eds_wf b" and "(p, t, n) \<in> eds_used b" and "Op_Free p \<notin> set ops"
  shows "let b' = store_run eds_allocate eds_free_block eds_compact ops b in
    eds_wf b' \<and> (p, t, n) \<in> eds_used b' \<and>
    (\<forall>a. p + 2 \<le> a \<and> a < p + 2 + unat n \<longrightarrow> eeprom b' a = eeprom b a)"
  using eds.run_keeps [OF assms] by (simp add: Let_def)

subsection \<open>A data space to try it on\<close>

lemma eds_format_wf: "eds_wf (eds_format b)"
  using format_loop_layout [of EDS_DATA_START "eeprom_write_byte (EDS_START + 1) EDS_MAGIC2
      (eeprom_write_byte EDS_START EDS_MAGIC1 b)"]
  by (auto simp: eds_format_def intro: eds_wfI)

lemma eds_format_first:
  "eeprom (eds_format b) EDS_DATA_START = 0" "eeprom (eds_format b) (EDS_DATA_START + 1) = 128"
proof -
  define b0 where "b0 = eeprom_write_byte (EDS_START + 1) EDS_MAGIC2 (eeprom_write_byte EDS_START EDS_MAGIC1 b)"
  define b1 where "b1 = canix_syslog_P SYSLOG_PRIO_DEBUG ''EDS: format: p = %d, size=%d'' [34, 128]
    (eeprom_write_byte 35 128 (eeprom_write_byte 34 0 b0))"
  have "eds_format b = eds_format_loop 164 b1"
    unfolding eds_format_def b0_def [symmetric]
    by (subst eds_format_loop.simps) (simp add: b1_def Let_def)
  then show "eeprom (eds_format b) EDS_DATA_START = 0" "eeprom (eds_format b) (EDS_DATA_START + 1) = 128"
    using format_loop_layout [of 164 b1] by (auto simp: b1_def)
qed

definition ex_eds :: board where
  "ex_eds = snd (eds_allocate 11 6 (eds_format ex_board))"

lemma ex_eds_facts: "eds_wf ex_eds" "(EDS_DATA_START, 11, 6) \<in> eds_used ex_eds"
proof -
  have r: "fst (eds_allocate 11 6 (eds_format ex_board)) = EDS_DATA_START"
    using eds_format_first [of ex_board]
    by (simp add: eds_allocate_def eds_alloc_def eds_alloc_from.simps split: prod.splits)
  show "eds_wf ex_eds" unfolding ex_eds_def by (rule eds.alloc_wf [OF eds_format_wf])
  show "(EDS_DATA_START, 11, 6) \<in> eds_used ex_eds"
    using eds.alloc_used [OF eds_format_wf, of 11 6 ex_board] r by (simp add: ex_eds_def)
qed

theorem eds_alloc_correct_witness:
  "case eds_alloc 20 ex_eds of (r, b') \<Rightarrow> eds_wf b' \<and> (EDS_DATA_START, 11, 6) \<in> eds_used b'"
proof -
  obtain r b' where a: "eds_alloc 20 ex_eds = (r, b')" by (cases "eds_alloc 20 ex_eds")
  from eds_alloc_correct [OF ex_eds_facts(1) a] show ?thesis using a ex_eds_facts(2) by simp
qed

theorem eds_defragment_correct_witness:
  "\<exists>b'. eds_defragment ex_eds = Some b' \<and> eds_wf b' \<and> unmergeable (eds_blocks EDS_DATA_START b')"
  using eds_defragment_correct [OF ex_eds_facts(1)] by (auto simp: Let_def)

theorem eds_block_survives_witness:
  "(EDS_DATA_START, 11, 6) \<in> eds_used (store_run eds_allocate eds_free_block eds_compact
     [Op_Alloc 12 30, Op_Free 42, Op_Compact] ex_eds)"
  using eds_block_survives [OF ex_eds_facts, of "[Op_Alloc 12 30, Op_Free 42, Op_Compact]"]
  by (simp add: Let_def)

text \<open>A failed allocation over the bus still writes the type byte: when no block fits, the request
  overwrites EEPROM byte 0 with the requested type and is answered with the null pointer.\<close>

theorem eds_failed_allocation_writes_zero:
  assumes "eds_wf b" and "no_fit (fr_data f ! 3) (eds_blocks EDS_DATA_START b)"
    and "fr_data f ! 1 = HCAN_EDS_ALLOCATE_BLOCK"
  shows "\<exists>b'. eds_can_callback f b = Some b' \<and> eeprom b' = (eeprom b)(0 := fr_data f ! 2) \<and>
    fr_data (fst (last (sent b'))) = [HCAN_SRV_EDS, HCAN_EDS_ALLOCATE_BLOCK_REPLAY, 0, 0]"
proof -
  from assms(1) obtain bs where bs: "layout bs EDS_DATA_START b" "eds_blocks EDS_DATA_START b = bs"
    by (rule eds_wfE)
  obtain r b1 where al: "eds_alloc (fr_data f ! 3) b = (r, b1)" by (cases "eds_alloc (fr_data f ! 3) b")
  have "fst (alloc_list n xs) = 0" if "no_fit n xs" for n xs
    using that by (induction xs) (auto simp: no_fit_def split: prod.splits)
  then have "r = 0"
    using alloc_from_refines [OF bs(1) al [unfolded eds_alloc_def]] assms(2) bs(2) by simp
  moreover from this have "b1 = b" using eds_alloc_refines [OF bs(1) al] by auto
  ultimately show ?thesis using al assms(3)
    by (simp add: eds_can_callback_def Let_def eds_answer_def send_frame_def send_prio_def
        ptr_bytes_def EDS_SET_BLOCK_TYPE_def eeprom_write_byte_def hi8_def lo8_def)
qed

theorem eds_failed_allocation_writes_zero_witness:
  "\<exists>b'. eds_can_callback \<lparr>fr_src = 9, fr_dst = 100, fr_proto = HCAN_PROTO_SFP, fr_size = 4,
       fr_data = [HCAN_SRV_EDS, HCAN_EDS_ALLOCATE_BLOCK, 77, 200]\<rparr> (eds_format ex_board) = Some b' \<and>
     eeprom b' 0 = 77"
proof -
  let ?f = "\<lparr>fr_src = 9, fr_dst = 100, fr_proto = HCAN_PROTO_SFP, fr_size = 4,
       fr_data = [HCAN_SRV_EDS, HCAN_EDS_ALLOCATE_BLOCK, 77, 200]\<rparr>"
  obtain bs where bs: "layout bs EDS_DATA_START (eds_format ex_board)"
    "\<forall>(q, t, s) \<in> set bs. t = 0 \<and> unat s \<le> 128"
    using format_loop_layout [of EDS_DATA_START "eeprom_write_byte (EDS_START + 1) EDS_MAGIC2
        (eeprom_write_byte EDS_START EDS_MAGIC1 ex_board)"] by (auto simp: eds_format_def)
  then have "no_fit 200 (eds_blocks EDS_DATA_START (eds_format ex_board))"
    by (auto simp: blocks_of_layout no_fit_def list_all_iff)
  then have n: "no_fit (fr_data ?f ! 3) (eds_blocks EDS_DATA_START (eds_format ex_board))" by simp
  have "\<exists>b'. eds_can_callback ?f (eds_format ex_board) = Some b' \<and>
      eeprom b' = (eeprom (eds_format ex_board))(0 := fr_data ?f ! 2) \<and>
      fr_data (fst (last (sent b'))) = [HCAN_SRV_EDS, HCAN_EDS_ALLOCATE_BLOCK_REPLAY, 0, 0]"
    by (rule eds_failed_allocation_writes_zero [OF eds_format_wf n]) simp
  then show ?thesis by auto
qed

end
