(* ===== verification/Rolladen.thy ===== *)
theory Rolladen
  imports Board
begin

text \<open>
  The shutter driver (\<open>firmwares/controllerboard-1612-v01/rolladen.c\<close>). A power relay and a direction
  relay drive the motor; the low level state machine runs every 100 ms and keeps the waiting times
  between relay operations, the position is dead reckoning in tenths of a second. Positions and
  targets are the 32 bit \<open>int32_t\<close> of the code, as integers; their range is one of the properties.
\<close>

section \<open>Data\<close>

record eds_rolladen_block_t =
  port_power :: u8
  port_dir :: u8
  rc_taster :: u8
  rc_dummy :: u8
  rc_feature :: u8
  rc_laufzeit :: u16
  max_rekalib :: u16
  rc_gruppen :: "u8 list"

datatype ro_state =
    ST_STOP | ST_AUF_WAIT | ST_AUF | ST_STOP_WAIT_1 | ST_AB_WAIT_1 | ST_AB_WAIT_2 | ST_AB
  | ST_STOP_WAIT_2 | ST_STOP_WAIT_3 | ST_DIR_CHANGE_WAIT_1 | ST_DIR_CHANGE_WAIT_2 | ST_DIR_CHANGE_WAIT_3

datatype ro_command = READY | COMMAND_STOP | COMMAND_AUF | COMMAND_AB | COMMAND_DIR_CHANGE

datatype ro_dir = DIR_AUF | DIR_AB

record device_data_rolladen =
  ro_config :: eds_rolladen_block_t
  summe_laufzeit :: u32
  laufzeit :: int
  soll_laufzeit :: int
  cmdsrc :: u16
  lowlevel_last_dir :: ro_dir
  lowlevel_state :: ro_state
  lowlevel_command :: ro_command
  lowlevel_wait_counter :: u8
  hilevel_up_event_counter :: int

abbreviation cfg_laufzeit :: "device_data_rolladen \<Rightarrow> int" where
  "cfg_laufzeit p \<equiv> uint (rc_laufzeit (ro_config p))"

section \<open>Operations\<close>

definition rolladen_init :: "device_data_rolladen \<Rightarrow> device_data_rolladen" where
  "rolladen_init p = p\<lparr>summe_laufzeit := 0, laufzeit := cfg_laufzeit p, soll_laufzeit := -1, cmdsrc := 0,
     lowlevel_command := READY, lowlevel_state := ST_STOP, lowlevel_wait_counter := 6,
     lowlevel_last_dir := DIR_AB, hilevel_up_event_counter := -1\<rparr>"

definition rolladen_laufzeit_align :: "device_data_rolladen \<Rightarrow> device_data_rolladen" where
  "rolladen_laufzeit_align p =
     (let p1 = (if laufzeit p < 0 then p\<lparr>laufzeit := 0\<rparr> else p)
      in if laufzeit p1 > cfg_laufzeit p1 then p1\<lparr>laufzeit := cfg_laufzeit p1\<rparr> else p1)"

definition rolladen_is_in_group :: "device_data_rolladen \<Rightarrow> u8 \<Rightarrow> bool" where
  "rolladen_is_in_group p gr =
     (rc_taster (ro_config p) = gr \<or> gr \<in> set (take 4 (rc_gruppen (ro_config p))))"

text \<open>The divisions by constants, and the product of non-negative factors.\<close>

definition rolladen_min_laufzeit :: "device_data_rolladen \<Rightarrow> int" where
  "rolladen_min_laufzeit p = - (cfg_laufzeit p * 5 div 10)"

definition rolladen_max_laufzeit :: "device_data_rolladen \<Rightarrow> int" where
  "rolladen_max_laufzeit p = cfg_laufzeit p * 15 div 10"

definition rolladen_set_soll_laufzeit :: "u8 \<Rightarrow> device_data_rolladen \<Rightarrow> device_data_rolladen" where
  "rolladen_set_soll_laufzeit percent p =
     p\<lparr>soll_laufzeit := (if percent = 0 then rolladen_min_laufzeit p
        else if percent = 100 then rolladen_max_laufzeit p
        else cfg_laufzeit p * uint percent div 100)\<rparr>"

text \<open>\<open>None\<close> is the division by zero of a shutter configured without a running time.\<close>

definition rolladen_lowlevel_get_position :: "device_data_rolladen \<Rightarrow> u8 option" where
  "rolladen_lowlevel_get_position p =
     (case cdiv (100 * laufzeit p) (cfg_laufzeit p) of
        None \<Rightarrow> None
      | Some q \<Rightarrow> (let pos = q + 1; pos = (if pos < 0 then 0 else pos)
                   in Some (of_int (if pos > 100 then 100 else pos))))"

definition rolladen_lowlevel_define_position :: "u8 \<Rightarrow> device_data_rolladen \<Rightarrow> device_data_rolladen" where
  "rolladen_lowlevel_define_position pos p =
     (let p1 = p\<lparr>laufzeit := (uint pos + 1) * cfg_laufzeit p div 100\<rparr>
      in if laufzeit p1 > cfg_laufzeit p1 then p1\<lparr>laufzeit := cfg_laufzeit p1\<rparr> else p1)"

definition rolladen_lowlevel_get_state :: "device_data_rolladen \<Rightarrow> ro_state" where
  "rolladen_lowlevel_get_state p = lowlevel_state p"

definition rolladen_send_changed_info :: "device_data_rolladen \<Rightarrow> board \<Rightarrow> board" where
  "rolladen_send_changed_info p b =
     (case rolladen_lowlevel_get_position p of
        None \<Rightarrow> raise_fault b
      | Some pos \<Rightarrow> send_prio HCAN_MULTICAST_INFO
          [HCAN_SRV_HES, HCAN_HES_ROLLADEN_POSITION_CHANGED_INFO, rc_gruppen (ro_config p) ! 0, pos,
           hi8 (cmdsrc p), lo8 (cmdsrc p)] HCAN_PRIO_HI b)"

section \<open>The handler of frames\<close>

definition taster_down :: "device_data_rolladen \<Rightarrow> device_data_rolladen" where
  "taster_down p =
     (let p1 = (case lowlevel_state p of
          ST_STOP \<Rightarrow> p\<lparr>lowlevel_command := (case lowlevel_last_dir p of DIR_AUF \<Rightarrow> COMMAND_AB
                          | DIR_AB \<Rightarrow> COMMAND_AUF), soll_laufzeit := -1, cmdsrc := 0\<rparr>
        | ST_AUF \<Rightarrow> p\<lparr>lowlevel_command := COMMAND_STOP, soll_laufzeit := -1, cmdsrc := 0\<rparr>
        | ST_AB \<Rightarrow> p\<lparr>lowlevel_command := COMMAND_STOP, soll_laufzeit := -1, cmdsrc := 0\<rparr>
        | _ \<Rightarrow> p)
      in p1\<lparr>hilevel_up_event_counter := 7\<rparr>)"

definition position_set :: "u8 \<Rightarrow> device_data_rolladen \<Rightarrow> board \<Rightarrow> device_data_rolladen \<times> board" where
  "position_set v p b =
     (case lowlevel_state p of
        ST_STOP \<Rightarrow>
          (let sollPos = (if v = 200 then 0 else if v = 201 then 100 else v)
           in case rolladen_lowlevel_get_position p of
                None \<Rightarrow> (p, raise_fault b)
              | Some pos \<Rightarrow>
                  (if unat pos < unat sollPos
                   then ((rolladen_set_soll_laufzeit sollPos p)\<lparr>lowlevel_command := COMMAND_AUF\<rparr>, b)
                   else if unat pos > unat sollPos + 1
                   then ((rolladen_set_soll_laufzeit sollPos p)\<lparr>lowlevel_command := COMMAND_AB\<rparr>, b)
                   else (p\<lparr>soll_laufzeit := -1\<rparr>, b)))
      | ST_AUF \<Rightarrow> (if v < 200 then p else p\<lparr>lowlevel_command := COMMAND_STOP, soll_laufzeit := -1\<rparr>, b)
      | ST_AB \<Rightarrow> (if v < 200 then p else p\<lparr>lowlevel_command := COMMAND_STOP, soll_laufzeit := -1\<rparr>, b)
      | _ \<Rightarrow> (p, b))"

definition rolladen_can_callback ::
  "canix_frame \<Rightarrow> device_data_rolladen \<Rightarrow> board \<Rightarrow> device_data_rolladen \<times> board" where
  "rolladen_can_callback f p b =
    (let d = fr_data f; cmd = d ! 1 in
     if cmd = HCAN_HES_TASTER_DOWN then
       (if rc_taster (ro_config p) = d ! 2 then (taster_down p, b) else (p, b))
     else if cmd = HCAN_HES_TASTER_UP then
       (if rc_taster (ro_config p) = d ! 2 then (p\<lparr>hilevel_up_event_counter := -1\<rparr>, b) else (p, b))
     else if cmd = HCAN_HES_ROLLADEN_POSITION_SET then
       (if rolladen_is_in_group p (d ! 2) \<or> rc_taster (ro_config p) = d ! 2 \<and> d ! 3 \<ge> 200
        then position_set (d ! 3) p b else (p, b))
     else if cmd = HCAN_HES_ROLLADEN_DEFINE_POSITION then
       (if rolladen_is_in_group p (d ! 2) then (rolladen_lowlevel_define_position (d ! 3) p, b)
        else (p, b))
     else if cmd = HCAN_HES_ROLLADEN_POSITION_REQUEST then
       (if rolladen_is_in_group p (d ! 2)
        then (case rolladen_lowlevel_get_position p of
                None \<Rightarrow> (p, raise_fault b)
              | Some pos \<Rightarrow> (p, send_prio (fr_src f)
                  [HCAN_SRV_HES, HCAN_HES_ROLLADEN_POSITION_REPLAY, d ! 2, pos] HCAN_PRIO_HI b))
        else (p, b))
     else (p, b))"

section \<open>The low level timer handler\<close>

definition set_power :: "bool \<Rightarrow> device_data_rolladen \<Rightarrow> board \<Rightarrow> board" where
  "set_power v p b = darlingtonoutput_setpin (port_power (ro_config p)) v b"

definition set_dir :: "bool \<Rightarrow> device_data_rolladen \<Rightarrow> board \<Rightarrow> board" where
  "set_dir v p b = darlingtonoutput_setpin (port_dir (ro_config p)) v b"

text \<open>The \<open>switch\<close> over the state.\<close>

definition lowlevel_switch :: "device_data_rolladen \<Rightarrow> board \<Rightarrow> device_data_rolladen \<times> board" where
  "lowlevel_switch p b =
    (let done = (lowlevel_wait_counter p = 0) in
     case lowlevel_state p of
       ST_STOP \<Rightarrow>
         (if lowlevel_command p = COMMAND_AUF
          then (p\<lparr>lowlevel_command := READY, lowlevel_wait_counter := 3, lowlevel_state := ST_AUF_WAIT\<rparr>,
                set_power True p b)
          else if lowlevel_command p = COMMAND_AB
          then (p\<lparr>lowlevel_command := READY, lowlevel_wait_counter := 2, lowlevel_state := ST_AB_WAIT_1\<rparr>,
                set_dir True p b)
          else if lowlevel_command p = COMMAND_DIR_CHANGE
          then (p\<lparr>lowlevel_command := (case lowlevel_last_dir p of DIR_AB \<Rightarrow> COMMAND_AUF
                   | DIR_AUF \<Rightarrow> COMMAND_AB)\<rparr>, b)
          else (p, b))
     | ST_AUF_WAIT \<Rightarrow>
         (if done then (p\<lparr>lowlevel_state := ST_AUF, lowlevel_last_dir := DIR_AUF\<rparr>, b) else (p, b))
     | ST_AUF \<Rightarrow>
         (if lowlevel_command p = COMMAND_STOP
          then (p\<lparr>lowlevel_command := READY, lowlevel_wait_counter := 3, lowlevel_state := ST_STOP_WAIT_1\<rparr>,
                set_power False p b)
          else if lowlevel_command p = COMMAND_DIR_CHANGE
          then (p\<lparr>lowlevel_command := READY, lowlevel_wait_counter := 6, lowlevel_state := ST_DIR_CHANGE_WAIT_1\<rparr>,
                set_power False p b)
          else (p, b))
     | ST_STOP_WAIT_1 \<Rightarrow>
         (if done then (rolladen_laufzeit_align (p\<lparr>lowlevel_state := ST_STOP\<rparr>),
                        rolladen_send_changed_info (p\<lparr>lowlevel_state := ST_STOP\<rparr>) b) else (p, b))
     | ST_AB_WAIT_1 \<Rightarrow>
         (if done then (p\<lparr>lowlevel_wait_counter := 3, lowlevel_state := ST_AB_WAIT_2\<rparr>, set_power True p b)
          else (p, b))
     | ST_AB_WAIT_2 \<Rightarrow>
         (if done then (p\<lparr>lowlevel_state := ST_AB, lowlevel_last_dir := DIR_AB\<rparr>, b) else (p, b))
     | ST_AB \<Rightarrow>
         (if lowlevel_command p = COMMAND_STOP
          then (p\<lparr>lowlevel_command := READY, lowlevel_wait_counter := 6, lowlevel_state := ST_STOP_WAIT_2\<rparr>,
                set_power False p b)
          else if lowlevel_command p = COMMAND_DIR_CHANGE
          then (p\<lparr>lowlevel_command := READY, lowlevel_wait_counter := 6, lowlevel_state := ST_DIR_CHANGE_WAIT_2\<rparr>,
                set_power False p b)
          else (p, b))
     | ST_STOP_WAIT_2 \<Rightarrow>
         (if done then (p\<lparr>lowlevel_wait_counter := 3, lowlevel_state := ST_STOP_WAIT_3\<rparr>, set_dir False p b)
          else (p, b))
     | ST_STOP_WAIT_3 \<Rightarrow>
         (if done then (rolladen_laufzeit_align (p\<lparr>lowlevel_state := ST_STOP\<rparr>),
                        rolladen_send_changed_info (p\<lparr>lowlevel_state := ST_STOP\<rparr>) b) else (p, b))
     | ST_DIR_CHANGE_WAIT_1 \<Rightarrow>
         (if done then (p\<lparr>lowlevel_wait_counter := 3, lowlevel_state := ST_AB_WAIT_1\<rparr>, set_dir True p b)
          else (p, b))
     | ST_DIR_CHANGE_WAIT_2 \<Rightarrow>
         (if done then (p\<lparr>lowlevel_wait_counter := 3, lowlevel_state := ST_DIR_CHANGE_WAIT_3\<rparr>, set_dir False p b)
          else (p, b))
     | ST_DIR_CHANGE_WAIT_3 \<Rightarrow>
         (if done then (p\<lparr>lowlevel_wait_counter := 3, lowlevel_state := ST_AUF_WAIT\<rparr>, set_power True p b)
          else (p, b)))"

text \<open>Counting the way. The second component says that the C function returns here.\<close>

definition count_auf :: "device_data_rolladen \<Rightarrow> device_data_rolladen \<times> bool" where
  "count_auf p =
     (let p1 = p\<lparr>summe_laufzeit := summe_laufzeit p + 1, laufzeit := laufzeit p + 1\<rparr>;
          p2 = (if soll_laufzeit p1 \<noteq> -1 \<and> laufzeit p1 \<ge> soll_laufzeit p1
                then p1\<lparr>soll_laufzeit := -1, lowlevel_command := COMMAND_STOP\<rparr> else p1)
      in if summe_laufzeit p2 < ucast (max_rekalib (ro_config p2))
         then (if laufzeit p2 \<ge> cfg_laufzeit p2 then (p2\<lparr>lowlevel_command := COMMAND_STOP\<rparr>, True)
               else (p2, False))
         else (if laufzeit p2 > rolladen_max_laufzeit p2
               then (p2\<lparr>laufzeit := cfg_laufzeit p2, summe_laufzeit := 0,
                        lowlevel_command := COMMAND_STOP\<rparr>, True)
               else (p2, False)))"

definition count_ab :: "device_data_rolladen \<Rightarrow> device_data_rolladen \<times> bool" where
  "count_ab p =
     (let p1 = p\<lparr>summe_laufzeit := summe_laufzeit p + 1, laufzeit := laufzeit p - 1\<rparr>;
          p2 = (if soll_laufzeit p1 \<noteq> -1 \<and> laufzeit p1 \<le> soll_laufzeit p1
                then p1\<lparr>soll_laufzeit := -1, lowlevel_command := COMMAND_STOP\<rparr> else p1)
      in if summe_laufzeit p2 < ucast (max_rekalib (ro_config p2))
         then (if laufzeit p2 \<le> 0 then (p2\<lparr>lowlevel_command := COMMAND_STOP\<rparr>, True) else (p2, False))
         else (if laufzeit p2 < rolladen_min_laufzeit p2
               then (p2\<lparr>laufzeit := 0, summe_laufzeit := 0, lowlevel_command := COMMAND_STOP\<rparr>, True)
               else (p2, False)))"

definition hilevel_tick :: "device_data_rolladen \<Rightarrow> device_data_rolladen" where
  "hilevel_tick p =
     (if hilevel_up_event_counter p > 0
      then (let p1 = p\<lparr>hilevel_up_event_counter := hilevel_up_event_counter p - 1\<rparr>
            in if hilevel_up_event_counter p1 = 0
               then p1\<lparr>lowlevel_command := COMMAND_DIR_CHANGE\<rparr> else p1)
      else p)"

definition is_auf :: "ro_state \<Rightarrow> bool" where
  "is_auf s = (s = ST_AUF_WAIT \<or> s = ST_AUF)"

definition is_ab :: "ro_state \<Rightarrow> bool" where
  "is_ab s = (s = ST_AB_WAIT_1 \<or> s = ST_AB_WAIT_2 \<or> s = ST_AB)"

definition lowlevel_count :: "device_data_rolladen \<Rightarrow> device_data_rolladen" where
  "lowlevel_count p =
     (let (p1, ret) = (if is_auf (lowlevel_state p) then count_auf p else (p, False))
      in if ret then p1
         else (let (p2, ret2) = (if is_ab (lowlevel_state p1) then count_ab p1 else (p1, False))
               in if ret2 then p2 else hilevel_tick p2))"

definition rolladen_lowlevel_timer_handler ::
  "device_data_rolladen \<Rightarrow> board \<Rightarrow> device_data_rolladen \<times> board" where
  "rolladen_lowlevel_timer_handler p b =
     (let p1 = (if lowlevel_wait_counter p \<noteq> 0
                then p\<lparr>lowlevel_wait_counter := lowlevel_wait_counter p - 1\<rparr> else p);
          (p2, b2) = lowlevel_switch p1 b
      in (lowlevel_count p2, b2))"

definition rolladen_timer_handler ::
  "device_data_rolladen \<Rightarrow> board \<Rightarrow> device_data_rolladen \<times> board" where
  "rolladen_timer_handler p b = rolladen_lowlevel_timer_handler p b"

section \<open>A shutter in operation\<close>

text \<open>A shutter and its board under any sequence of ticks and frames, watched by two stop watches:
  \<open>off\<close> counts the ticks since the power relay was last seen on before a tick, \<open>still\<close> the ticks since
  the direction relay last changed. At the start both relays have been at rest for a while. Between its
  handlers other devices may change anything on the board but the two relays.\<close>

definition power_on :: "device_data_rolladen \<Rightarrow> board \<Rightarrow> bool" where
  "power_on p b = darlingtonoutput_getpin (port_power (ro_config p)) b"

definition dir_on :: "device_data_rolladen \<Rightarrow> board \<Rightarrow> bool" where
  "dir_on p b = darlingtonoutput_getpin (port_dir (ro_config p)) b"

definition ro_wired :: "device_data_rolladen \<Rightarrow> board \<Rightarrow> bool" where
  "ro_wired p b = (port_power (ro_config p) \<noteq> port_dir (ro_config p) \<and>
     pin_valid (port_power (ro_config p)) b \<and> pin_valid (port_dir (ro_config p)) b)"

inductive ro_reach :: "nat \<Rightarrow> nat \<Rightarrow> device_data_rolladen \<Rightarrow> board \<Rightarrow> bool" where
  start: "p = rolladen_init q \<Longrightarrow> ro_wired p b \<Longrightarrow> \<not> power_on p b \<Longrightarrow> \<not> dir_on p b \<Longrightarrow>
    3 \<le> off \<Longrightarrow> 1 \<le> still \<Longrightarrow> ro_reach off still p b"
| tick: "ro_reach off still p b \<Longrightarrow> rolladen_timer_handler p b = (p', b') \<Longrightarrow>
    ro_reach (if power_on p b then 0 else off + 1)
      (if dir_on p' b' = dir_on p b then still + 1 else 0) p' b'"
| frame: "ro_reach off still p b \<Longrightarrow> rolladen_can_callback f p b = (p', b') \<Longrightarrow>
    ro_reach off still p' b'"
| others: "ro_reach off still p b \<Longrightarrow> power_on p b' = power_on p b \<Longrightarrow> dir_on p b' = dir_on p b \<Longrightarrow>
    ro_wired p b' \<Longrightarrow> ro_reach off still p b'"

text \<open>What holds in each state of the machine.\<close>

definition ro_relays :: "nat \<Rightarrow> nat \<Rightarrow> ro_state \<Rightarrow> nat \<Rightarrow> bool \<Rightarrow> bool \<Rightarrow> bool" where
  "ro_relays off still st w pw dr =
    (case st of
       ST_STOP \<Rightarrow> \<not> pw \<and> \<not> dr \<and> off \<ge> 3 \<and> still \<ge> 1
     | ST_AUF_WAIT \<Rightarrow> pw \<and> \<not> dr \<and> still \<ge> 1
     | ST_AUF \<Rightarrow> pw \<and> \<not> dr \<and> still \<ge> 1
     | ST_STOP_WAIT_1 \<Rightarrow> \<not> pw \<and> \<not> dr \<and> still \<ge> 1 \<and> off + w \<ge> 3 \<and> w > 0
     | ST_AB_WAIT_1 \<Rightarrow> \<not> pw \<and> dr \<and> still + w \<ge> 2 \<and> w > 0
     | ST_AB_WAIT_2 \<Rightarrow> pw \<and> dr
     | ST_AB \<Rightarrow> pw \<and> dr
     | ST_STOP_WAIT_2 \<Rightarrow> \<not> pw \<and> dr \<and> off + w \<ge> 6 \<and> w > 0
     | ST_STOP_WAIT_3 \<Rightarrow> \<not> pw \<and> \<not> dr \<and> off \<ge> 3 \<and> still + w \<ge> 3 \<and> w > 0
     | ST_DIR_CHANGE_WAIT_1 \<Rightarrow> \<not> pw \<and> \<not> dr \<and> off + w \<ge> 6 \<and> w > 0
     | ST_DIR_CHANGE_WAIT_2 \<Rightarrow> \<not> pw \<and> dr \<and> off + w \<ge> 6 \<and> w > 0
     | ST_DIR_CHANGE_WAIT_3 \<Rightarrow> \<not> pw \<and> \<not> dr \<and> still + w \<ge> 3 \<and> w > 0)"

definition ro_inv :: "nat \<Rightarrow> nat \<Rightarrow> device_data_rolladen \<Rightarrow> board \<Rightarrow> bool" where
  "ro_inv off still p b = (ro_wired p b \<and>
     ro_relays off still (lowlevel_state p) (unat (lowlevel_wait_counter p)) (power_on p b) (dir_on p b))"

text \<open>What counting leaves alone.\<close>

lemma count_keeps:
  "lowlevel_state (fst (count_auf p)) = lowlevel_state p"
  "lowlevel_wait_counter (fst (count_auf p)) = lowlevel_wait_counter p"
  "ro_config (fst (count_auf p)) = ro_config p"
  "lowlevel_state (fst (count_ab p)) = lowlevel_state p"
  "lowlevel_wait_counter (fst (count_ab p)) = lowlevel_wait_counter p"
  "ro_config (fst (count_ab p)) = ro_config p"
  "lowlevel_state (hilevel_tick p) = lowlevel_state p"
  "lowlevel_wait_counter (hilevel_tick p) = lowlevel_wait_counter p"
  "ro_config (hilevel_tick p) = ro_config p"
  by (simp_all add: count_auf_def count_ab_def hilevel_tick_def Let_def)

lemma lowlevel_count_unfold:
  "lowlevel_count p =
     (if is_auf (lowlevel_state p)
      then (if snd (count_auf p) then fst (count_auf p) else hilevel_tick (fst (count_auf p)))
      else if is_ab (lowlevel_state p)
      then (if snd (count_ab p) then fst (count_ab p) else hilevel_tick (fst (count_ab p)))
      else hilevel_tick p)"
proof -
  have "is_auf s \<Longrightarrow> \<not> is_ab s" for s by (auto simp: is_auf_def is_ab_def)
  then show ?thesis by (simp add: lowlevel_count_def count_keeps split: prod.splits) (metis count_keeps(1) fst_conv)
qed

lemma lowlevel_count_keeps [simp]:
  "lowlevel_state (lowlevel_count p) = lowlevel_state p"
  "lowlevel_wait_counter (lowlevel_count p) = lowlevel_wait_counter p"
  "ro_config (lowlevel_count p) = ro_config p"
  unfolding lowlevel_count_unfold by (simp_all add: count_keeps)

lemma rolladen_laufzeit_align_keeps [simp]:
  "lowlevel_state (rolladen_laufzeit_align p) = lowlevel_state p"
  "lowlevel_wait_counter (rolladen_laufzeit_align p) = lowlevel_wait_counter p"
  "ro_config (rolladen_laufzeit_align p) = ro_config p"
  by (simp_all add: rolladen_laufzeit_align_def Let_def)

lemma pins_of_effects [simp]:
  "darlingtonoutput_getpin n (rolladen_send_changed_info p b) = darlingtonoutput_getpin n b"
  "pin_valid n (rolladen_send_changed_info p b) = pin_valid n b"
  by (simp_all add: rolladen_send_changed_info_def split: option.splits)

lemma frame_keeps:
  assumes "rolladen_can_callback f p b = (p', b')"
  shows "lowlevel_state p' = lowlevel_state p" "lowlevel_wait_counter p' = lowlevel_wait_counter p"
    "ro_config p' = ro_config p" "darlingtonoutput_getpin n b' = darlingtonoutput_getpin n b"
    "pin_valid n b' = pin_valid n b"
  using assms
  by (auto simp: rolladen_can_callback_def taster_down_def position_set_def Let_def
      rolladen_set_soll_laufzeit_def rolladen_lowlevel_define_position_def
      split: if_splits option.splits ro_state.splits)

lemma set_relays:
  assumes "ro_wired p b"
  shows "power_on p (set_power v p b) = v" "dir_on p (set_power v p b) = dir_on p b"
    "dir_on p (set_dir v p b) = v" "power_on p (set_dir v p b) = power_on p b"
    "ro_wired p (set_power v p b)" "ro_wired p (set_dir v p b)"
  using assms dout.get_set_same dout.get_set_other dout.valid_set
  by (auto simp: ro_wired_def power_on_def dir_on_def set_power_def set_dir_def)

lemma relays_config:
  assumes "ro_config p' = ro_config p"
  shows "power_on p' b = power_on p b" "dir_on p' b = dir_on p b" "ro_wired p' b = ro_wired p b"
    "set_power v p' b = set_power v p b" "set_dir v p' b = set_dir v p b"
  using assms by (simp_all add: power_on_def dir_on_def ro_wired_def set_power_def set_dir_def)

lemma relays_send [simp]:
  "power_on p (rolladen_send_changed_info q b) = power_on p b"
  "dir_on p (rolladen_send_changed_info q b) = dir_on p b"
  "ro_wired p (rolladen_send_changed_info q b) = ro_wired p b"
  by (simp_all add: power_on_def dir_on_def ro_wired_def)

text \<open>One tick, on what the invariant sees: the state, the counter and the relays.\<close>

definition tick_safe :: "nat \<Rightarrow> nat \<Rightarrow> device_data_rolladen \<Rightarrow> board \<Rightarrow> device_data_rolladen \<Rightarrow> board \<Rightarrow> bool" where
  "tick_safe off still p b p' b' =
    ((dir_on p' b' \<noteq> dir_on p b \<longrightarrow> \<not> power_on p b \<and> \<not> power_on p' b' \<and>
       off + 1 \<ge> (if lowlevel_state p = ST_STOP then 4 else 6)) \<and>
     (\<not> power_on p b \<and> power_on p' b' \<longrightarrow> dir_on p' b' = dir_on p b \<and> still + 1 \<ge> 2))"

lemma switch_config:
  "lowlevel_switch p b = (p', b') \<Longrightarrow> ro_config p' = ro_config p"
  by (auto simp: lowlevel_switch_def Let_def split: ro_state.splits if_splits)

lemma switch_inv:
  assumes "ro_wired p b"
    and "ro_relays off still (lowlevel_state p) (Suc (unat (lowlevel_wait_counter p))) (power_on p b) (dir_on p b)
      \<or> lowlevel_state p \<in> {ST_STOP, ST_AUF_WAIT, ST_AUF, ST_AB_WAIT_2, ST_AB} \<and>
        ro_relays off still (lowlevel_state p) 0 (power_on p b) (dir_on p b)"
    and "lowlevel_switch p b = (p', b')"
  shows "ro_wired p' b' \<and> tick_safe off still p b p' b' \<and>
    ro_relays (if power_on p b then 0 else off + 1) (if dir_on p' b' = dir_on p b then still + 1 else 0)
      (lowlevel_state p') (unat (lowlevel_wait_counter p')) (power_on p' b') (dir_on p' b')"
proof -
  note cfg = switch_config [OF assms(3)]
  note rel = set_relays [OF assms(1)]
  have w: "lowlevel_wait_counter p \<noteq> 0 \<longleftrightarrow> 0 < unat (lowlevel_wait_counter p)"
    by (simp add: unat_gt_0)
  show ?thesis
    unfolding relays_config [OF cfg] tick_safe_def using assms w
    by (cases "lowlevel_state p")
      (auto simp: lowlevel_switch_def Let_def ro_relays_def rel split: if_splits)
qed

lemma tick_inv:
  assumes "ro_inv off still p b" and "rolladen_timer_handler p b = (p', b')"
  shows "tick_safe off still p b p' b' \<and>
    ro_inv (if power_on p b then 0 else off + 1) (if dir_on p' b' = dir_on p b then still + 1 else 0) p' b'"
proof -
  define p1 where "p1 = (if lowlevel_wait_counter p \<noteq> 0
    then p\<lparr>lowlevel_wait_counter := lowlevel_wait_counter p - 1\<rparr> else p)"
  obtain p2 where p2: "lowlevel_switch p1 b = (p2, b')" and p': "p' = lowlevel_count p2"
    using assms(2) by (auto simp: rolladen_timer_handler_def rolladen_lowlevel_timer_handler_def
        p1_def Let_def split: prod.splits)
  have c: "ro_config p1 = ro_config p" "lowlevel_state p1 = lowlevel_state p" by (simp_all add: p1_def)
  have w: "unat (lowlevel_wait_counter p1) = unat (lowlevel_wait_counter p) - 1"
    by (simp add: p1_def unat_minus_one_pos)
  have pre: "ro_wired p1 b" using assms(1) by (simp add: ro_inv_def relays_config [OF c(1)])
  have "ro_relays off still (lowlevel_state p1) (Suc (unat (lowlevel_wait_counter p1))) (power_on p1 b) (dir_on p1 b)
      \<or> lowlevel_state p1 \<in> {ST_STOP, ST_AUF_WAIT, ST_AUF, ST_AB_WAIT_2, ST_AB} \<and>
        ro_relays off still (lowlevel_state p1) 0 (power_on p1 b) (dir_on p1 b)"
    using assms(1) unfolding relays_config [OF c(1)] c(2) w
    by (cases "lowlevel_state p") (auto simp: ro_inv_def ro_relays_def)
  note sw = switch_inv [OF pre this p2]
  show ?thesis
    using sw
    unfolding ro_inv_def tick_safe_def relays_config [OF c(1)] c(2) p' lowlevel_count_keeps
      relays_config [OF lowlevel_count_keeps(3)]
    by blast
qed

lemma reach_inv: "ro_reach off still p b \<Longrightarrow> ro_inv off still p b"
proof (induction rule: ro_reach.induct)
  case (start p q b off still)
  then show ?case by (simp add: ro_inv_def ro_relays_def rolladen_init_def)
next
  case (tick off still p b p' b')
  then show ?case using tick_inv by blast
next
  case (frame off still p b f p' b')
  note k = frame_keeps [OF frame.hyps(2)]
  from frame.IH show ?case
    by (simp add: ro_inv_def k power_on_def dir_on_def ro_wired_def)
next
  case (others off still p b b')
  then show ?case by (simp add: ro_inv_def)
qed

text \<open>C11: The relays of a shutter whose two outputs are its own are never operated against each other, from a
  start at which both have been off for three ticks. However buttons, position commands and timer ticks are
  interleaved, the direction relay changes only while the power relay is off before and after the tick, and has been
  off for at least six ticks (600 ms) in every change of direction on the way, but only for at least four (400 ms)
  when a stopped shutter is sent down; the driver's description asks for 500 ms, which
  \<open>rolladen_direction_after_400ms\<close> shows to be missed. The power relay is switched on only when the
  direction relay has been at rest for at least two ticks (200 ms, as described). Stopped, both relays are off.\<close>

theorem rolladen_relay_safety:
  assumes "ro_reach off still p b" and "rolladen_timer_handler p b = (p', b')"
  shows "(dir_on p' b' \<noteq> dir_on p b \<longrightarrow> \<not> power_on p b \<and> \<not> power_on p' b' \<and>
       off + 1 \<ge> (if lowlevel_state p = ST_STOP then 4 else 6)) \<and>
     (\<not> power_on p b \<and> power_on p' b' \<longrightarrow> dir_on p' b' = dir_on p b \<and> still + 1 \<ge> 2) \<and>
     (lowlevel_state p' = ST_STOP \<longrightarrow> \<not> power_on p' b' \<and> \<not> dir_on p' b')"
proof -
  have "tick_safe off still p b p' b'" and "ro_inv (if power_on p b then 0 else off + 1)
      (if dir_on p' b' = dir_on p b then still + 1 else 0) p' b'"
    using tick_inv [OF reach_inv [OF assms(1)] assms(2)] by blast+
  moreover from this(2) have "lowlevel_state p' = ST_STOP \<longrightarrow> \<not> power_on p' b' \<and> \<not> dir_on p' b'"
    by (intro impI) (simp add: ro_inv_def ro_relays_def)
  ultimately show ?thesis unfolding tick_safe_def by blast
qed

text \<open>A shutter of 20 seconds on outputs 0 (power) and 1 (direction), button group 5, groups 7 to 10.\<close>

definition ex_rolladen :: device_data_rolladen where
  "ex_rolladen = rolladen_init \<lparr>ro_config = \<lparr>port_power = 0, port_dir = 1, rc_taster = 5, rc_dummy = 0, rc_feature = 0,
      rc_laufzeit = 200, max_rekalib = 1000, rc_gruppen = [7, 8, 9, 10]\<rparr>, summe_laufzeit = 0,
      laufzeit = 0, soll_laufzeit = 0, cmdsrc = 0, lowlevel_last_dir = DIR_AUF,
      lowlevel_state = ST_STOP, lowlevel_command = READY, lowlevel_wait_counter = 0,
      hilevel_up_event_counter = 0\<rparr>"

definition hes_frame :: "u8 list \<Rightarrow> canix_frame" where
  "hes_frame d = \<lparr>fr_src = 9, fr_dst = HCAN_MULTICAST_CONTROL, fr_proto = HCAN_PROTO_SFP,
     fr_size = of_nat (length d) + 1, fr_data = HCAN_SRV_HES # d\<rparr>"

lemma ex_rolladen_reach: "ro_reach 3 1 ex_rolladen ex_board"
  by (rule ro_reach.start [where q = ex_rolladen])
    (simp_all add: ex_rolladen_def rolladen_init_def ro_wired_def pin_valid_def power_on_def
      dir_on_def darlingtonoutput_getpin_def ex_board_def)

theorem rolladen_relay_safety_witness:
  "case rolladen_timer_handler (taster_down ex_rolladen) ex_board of (p', b') \<Rightarrow>
     power_on p' b' \<and> dir_on p' b' = dir_on ex_rolladen ex_board"
proof -
  have c: "rolladen_can_callback (hes_frame [HCAN_HES_TASTER_DOWN, 5]) ex_rolladen ex_board
      = (taster_down ex_rolladen, ex_board)"
    by (simp add: rolladen_can_callback_def hes_frame_def ex_rolladen_def rolladen_init_def)
  have r: "ro_reach 3 1 (taster_down ex_rolladen) ex_board"
    by (rule ro_reach.frame [OF ex_rolladen_reach c])
  obtain p' b' where t: "rolladen_timer_handler (taster_down ex_rolladen) ex_board = (p', b')"
    by (cases "rolladen_timer_handler (taster_down ex_rolladen) ex_board")
  have "darlingtonoutput_getpin 0 b'" "ro_config p' = ro_config ex_rolladen"
    using t by (auto simp: rolladen_timer_handler_def rolladen_lowlevel_timer_handler_def taster_down_def
        ex_rolladen_def rolladen_init_def lowlevel_switch_def set_power_def dout.get_set_same
        pin_valid_def ex_board_def)
  then have on: "power_on p' b'" by (simp add: power_on_def ex_rolladen_def rolladen_init_def)
  have "\<not> power_on (taster_down ex_rolladen) ex_board"
    "dir_on (taster_down ex_rolladen) ex_board = dir_on ex_rolladen ex_board"
    by (simp_all add: power_on_def dir_on_def taster_down_def ex_rolladen_def rolladen_init_def
        darlingtonoutput_getpin_def ex_board_def)
  with rolladen_relay_safety [OF r t] on t show ?thesis by simp
qed

section \<open>The range of the position\<close>

text \<open>The position, per state: \<open>z\<close> is the running time, \<open>L\<close> the configured one with its limits
  \<open>lo\<close> and \<open>hi\<close>, \<open>w\<close> the counter.\<close>

definition pos_range :: "int \<Rightarrow> int \<Rightarrow> int \<Rightarrow> ro_state \<Rightarrow> ro_command \<Rightarrow> int \<Rightarrow> int \<Rightarrow> bool" where
  "pos_range lo hi L st cmd w z =
    (case st of
       ST_STOP \<Rightarrow> 0 \<le> z \<and> z \<le> L
     | ST_AUF_WAIT \<Rightarrow> lo \<le> z \<and> z \<le> hi + 4 - w \<and> 0 < w \<and> w \<le> 3
     | ST_AUF \<Rightarrow> lo \<le> z \<and> z \<le> hi + 4 \<and> (cmd \<noteq> COMMAND_STOP \<longrightarrow> z \<le> hi)
     | ST_STOP_WAIT_1 \<Rightarrow> lo \<le> z \<and> z \<le> hi + 4
     | ST_AB_WAIT_1 \<Rightarrow> lo - 4 + w \<le> z \<and> z \<le> hi \<and> 0 < w \<and> w \<le> 3
     | ST_AB_WAIT_2 \<Rightarrow> lo - 7 + w \<le> z \<and> z \<le> hi \<and> 0 < w \<and> w \<le> 3
     | ST_AB \<Rightarrow> lo - 7 \<le> z \<and> z \<le> hi \<and> (cmd \<noteq> COMMAND_STOP \<longrightarrow> lo \<le> z)
     | ST_STOP_WAIT_2 \<Rightarrow> lo - 7 \<le> z \<and> z \<le> hi
     | ST_STOP_WAIT_3 \<Rightarrow> lo - 7 \<le> z \<and> z \<le> hi
     | ST_DIR_CHANGE_WAIT_1 \<Rightarrow> lo \<le> z \<and> z \<le> hi
     | ST_DIR_CHANGE_WAIT_2 \<Rightarrow> lo \<le> z \<and> z \<le> hi
     | ST_DIR_CHANGE_WAIT_3 \<Rightarrow> lo \<le> z \<and> z \<le> hi)"

definition ro_pos_inv :: "device_data_rolladen \<Rightarrow> bool" where
  "ro_pos_inv p = pos_range (rolladen_min_laufzeit p) (rolladen_max_laufzeit p) (cfg_laufzeit p)
     (lowlevel_state p) (lowlevel_command p)
     (uint (lowlevel_wait_counter p)) (laufzeit p)"

lemma limits:
  "0 \<le> cfg_laufzeit p" "cfg_laufzeit p \<le> rolladen_max_laufzeit p" "rolladen_min_laufzeit p \<le> 0"
  "cfg_laufzeit p < 65536" "rolladen_max_laufzeit p < 100000" "-40000 < rolladen_min_laufzeit p"
  "rolladen_min_laufzeit p \<le> cfg_laufzeit p" "0 \<le> rolladen_max_laufzeit p"
proof -
  let ?L = "cfg_laufzeit p"
  have L: "0 \<le> ?L" "?L < 65536" using uint_bounded [of "rc_laufzeit (ro_config p)"] by simp_all
  have "?L \<le> ?L * 15 div 10" using zdiv_mono1 [of "?L * 10" "?L * 15" 10] L by simp
  moreover have "?L * 15 div 10 < 100000" using zdiv_mono1 [of "?L * 15" 983025 10] L by simp
  moreover have "0 \<le> ?L * 5 div 10" using zdiv_mono1 [of 0 "?L * 5" 10] L by simp
  moreover have "?L * 5 div 10 < 40000" using zdiv_mono1 [of "?L * 5" 327675 10] L by simp
  ultimately show "0 \<le> cfg_laufzeit p" "cfg_laufzeit p \<le> rolladen_max_laufzeit p" "rolladen_min_laufzeit p \<le> 0"
    "cfg_laufzeit p < 65536" "rolladen_max_laufzeit p < 100000" "-40000 < rolladen_min_laufzeit p"
    "rolladen_min_laufzeit p \<le> cfg_laufzeit p" "0 \<le> rolladen_max_laufzeit p"
    unfolding rolladen_max_laufzeit_def rolladen_min_laufzeit_def using L by simp_all
qed

lemma limits_config:
  "ro_config p' = ro_config p \<Longrightarrow> rolladen_max_laufzeit p' = rolladen_max_laufzeit p"
  "ro_config p' = ro_config p \<Longrightarrow> rolladen_min_laufzeit p' = rolladen_min_laufzeit p"
  by (simp_all add: rolladen_max_laufzeit_def rolladen_min_laufzeit_def)

lemma limits_update [simp]:
  "rolladen_max_laufzeit (p\<lparr>summe_laufzeit := a, laufzeit := c\<rparr>) = rolladen_max_laufzeit p"
  "rolladen_min_laufzeit (p\<lparr>summe_laufzeit := a, laufzeit := c\<rparr>) = rolladen_min_laufzeit p"
  "rolladen_max_laufzeit (p\<lparr>summe_laufzeit := a, laufzeit := c, soll_laufzeit := d, lowlevel_command := e\<rparr>)
    = rolladen_max_laufzeit p"
  "rolladen_min_laufzeit (p\<lparr>summe_laufzeit := a, laufzeit := c, soll_laufzeit := d, lowlevel_command := e\<rparr>)
    = rolladen_min_laufzeit p"
  by (rule limits_config; simp)+

text \<open>Counting one tick up or down, for the position and the command only.\<close>

lemma hilevel_pos [simp]:
  "laufzeit (hilevel_tick p) = laufzeit p"
  by (simp add: hilevel_tick_def Let_def)

lemma count_auf_pos:
  assumes "\<not> snd (count_auf p)"
  shows "laufzeit (fst (count_auf p)) = laufzeit p + 1 \<and> laufzeit p + 1 \<le> rolladen_max_laufzeit p"
  using assms limits [of p]
  by (auto simp: count_auf_def Let_def split: if_splits)

lemma count_auf_stop:
  assumes "snd (count_auf p)"
  shows "lowlevel_command (fst (count_auf p)) = COMMAND_STOP \<and>
    (laufzeit (fst (count_auf p)) = laufzeit p + 1 \<or> laufzeit (fst (count_auf p)) = cfg_laufzeit p)"
  using assms by (auto simp: count_auf_def Let_def split: if_splits)

lemma count_ab_pos:
  assumes "\<not> snd (count_ab p)"
  shows "laufzeit (fst (count_ab p)) = laufzeit p - 1 \<and> rolladen_min_laufzeit p \<le> laufzeit p - 1"
  using assms limits [of p]
  by (auto simp: count_ab_def Let_def split: if_splits)

lemma count_ab_stop:
  assumes "snd (count_ab p)"
  shows "lowlevel_command (fst (count_ab p)) = COMMAND_STOP \<and>
    (laufzeit (fst (count_ab p)) = laufzeit p - 1 \<or> laufzeit (fst (count_ab p)) = 0)"
  using assms by (auto simp: count_ab_def Let_def split: if_splits)

text \<open>The position a tick starts counting from, after the switch.\<close>

definition pre_range :: "int \<Rightarrow> int \<Rightarrow> int \<Rightarrow> ro_state \<Rightarrow> int \<Rightarrow> int \<Rightarrow> bool" where
  "pre_range lo hi L st w z =
    (if st = ST_AUF_WAIT then lo \<le> z \<and> z \<le> hi + 3 - w \<and> 0 < w \<and> w \<le> 3
     else if st = ST_AUF then lo \<le> z \<and> z \<le> hi + 3
     else if st = ST_AB_WAIT_1 then lo - 3 + w \<le> z \<and> z \<le> hi \<and> 0 < w \<and> w \<le> 3
     else if st = ST_AB_WAIT_2 then lo - 6 + w \<le> z \<and> z \<le> hi \<and> 0 < w \<and> w \<le> 3
     else if st = ST_AB then lo - 6 \<le> z \<and> z \<le> hi
     else pos_range lo hi L st READY w z)"

lemma count_range:
  assumes "pre_range (rolladen_min_laufzeit p) (rolladen_max_laufzeit p) (cfg_laufzeit p)
    (lowlevel_state p) (uint (lowlevel_wait_counter p)) (laufzeit p)"
  shows "ro_pos_inv (lowlevel_count p)"
proof -
  note L = limits [of p] and d = lowlevel_count_unfold pos_range_def
  note pre = assms [unfolded pre_range_def pos_range_def]
  have "pos_range (rolladen_min_laufzeit p) (rolladen_max_laufzeit p) (cfg_laufzeit p) (lowlevel_state p)
      (lowlevel_command (lowlevel_count p)) (uint (lowlevel_wait_counter p)) (laufzeit (lowlevel_count p))"
  proof (cases "lowlevel_state p")
    case ST_AUF_WAIT
    then show ?thesis using pre L count_auf_stop [of p] count_auf_pos [of p]
      by (cases "snd (count_auf p)") (auto simp: d is_auf_def)
  next
    case ST_AUF
    then show ?thesis using pre L count_auf_stop [of p] count_auf_pos [of p]
      by (cases "snd (count_auf p)") (auto simp: d is_auf_def)
  next
    case ST_AB_WAIT_1
    then show ?thesis using pre L count_ab_stop [of p] count_ab_pos [of p]
      by (cases "snd (count_ab p)") (auto simp: d is_auf_def is_ab_def)
  next
    case ST_AB_WAIT_2
    then show ?thesis using pre L count_ab_stop [of p] count_ab_pos [of p]
      by (cases "snd (count_ab p)") (auto simp: d is_auf_def is_ab_def)
  next
    case ST_AB
    then show ?thesis using pre L count_ab_stop [of p] count_ab_pos [of p]
      by (cases "snd (count_ab p)") (auto simp: d is_auf_def is_ab_def)
  next
    case ST_STOP
    then show ?thesis using pre by (simp add: d is_auf_def is_ab_def)
  next
    case ST_STOP_WAIT_1
    then show ?thesis using pre by (simp add: d is_auf_def is_ab_def)
  next
    case ST_STOP_WAIT_2
    then show ?thesis using pre by (simp add: d is_auf_def is_ab_def)
  next
    case ST_STOP_WAIT_3
    then show ?thesis using pre by (simp add: d is_auf_def is_ab_def)
  next
    case ST_DIR_CHANGE_WAIT_1
    then show ?thesis using pre by (simp add: d is_auf_def is_ab_def)
  next
    case ST_DIR_CHANGE_WAIT_2
    then show ?thesis using pre by (simp add: d is_auf_def is_ab_def)
  next
    case ST_DIR_CHANGE_WAIT_3
    then show ?thesis using pre by (simp add: d is_auf_def is_ab_def)
  qed
  then show ?thesis
    unfolding ro_pos_inv_def limits_config [OF lowlevel_count_keeps(3)] lowlevel_count_keeps .
qed

lemma align_range: "0 \<le> laufzeit (rolladen_laufzeit_align p) \<and> laufzeit (rolladen_laufzeit_align p) \<le> cfg_laufzeit p"
  by (auto simp: rolladen_laufzeit_align_def Let_def)

lemma switch_range:
  assumes "ro_pos_inv p" and "ro_config p1 = ro_config p" "lowlevel_state p1 = lowlevel_state p"
    "lowlevel_command p1 = lowlevel_command p" "laufzeit p1 = laufzeit p"
    "uint (lowlevel_wait_counter p1) = (if lowlevel_wait_counter p = 0 then 0 else uint (lowlevel_wait_counter p) - 1)"
    and "lowlevel_switch p1 b = (p2, b2)"
  shows "pre_range (rolladen_min_laufzeit p2) (rolladen_max_laufzeit p2) (cfg_laufzeit p2) (lowlevel_state p2) (uint (lowlevel_wait_counter p2)) (laufzeit p2)"
proof -
  note L = limits [of p]
  have w: "lowlevel_wait_counter x = 0 \<longleftrightarrow> uint (lowlevel_wait_counter x) = 0" for x :: device_data_rolladen
    by (simp add: uint_0_iff)
  have c: "ro_config p2 = ro_config p" using switch_config [OF assms(7)] assms(2) by simp
  define w0 where "w0 = uint (lowlevel_wait_counter p)"
  have w0: "0 \<le> w0" by (simp add: w0_def)
  have r: "pos_range (rolladen_min_laufzeit p) (rolladen_max_laufzeit p) (cfg_laufzeit p)
      (lowlevel_state p) (lowlevel_command p1) w0 (laufzeit p1)"
    using assms(1,4,5) by (simp add: ro_pos_inv_def w0_def)
  have w1: "uint (lowlevel_wait_counter p1) = (if w0 = 0 then 0 else w0 - 1)"
    using assms(6) w [of p] by (simp add: w0_def)
  have al: "0 \<le> laufzeit (rolladen_laufzeit_align (p1\<lparr>lowlevel_state := ST_STOP\<rparr>))"
    "laufzeit (rolladen_laufzeit_align (p1\<lparr>lowlevel_state := ST_STOP\<rparr>)) \<le> cfg_laufzeit p"
    using align_range [of "p1\<lparr>lowlevel_state := ST_STOP\<rparr>"] assms(2) by simp_all
  note facts = assms(7) [unfolded lowlevel_switch_def Let_def assms(3) w [of p1] w1] r L w0 w1 al assms(3)
  have "pre_range (rolladen_min_laufzeit p) (rolladen_max_laufzeit p) (cfg_laufzeit p) (lowlevel_state p2)
      (uint (lowlevel_wait_counter p2)) (laufzeit p2)"
  proof (cases "lowlevel_state p")
    case ST_STOP
    then show ?thesis using facts by (auto simp: pos_range_def pre_range_def split: if_splits)
  next
    case ST_AUF_WAIT
    then show ?thesis using facts by (auto simp: pos_range_def pre_range_def split: if_splits)
  next
    case ST_AUF
    then show ?thesis using facts by (auto simp: pos_range_def pre_range_def split: if_splits)
  next
    case ST_STOP_WAIT_1
    then show ?thesis using facts by (auto simp: pos_range_def pre_range_def split: if_splits)
  next
    case ST_AB_WAIT_1
    then show ?thesis using facts by (auto simp: pos_range_def pre_range_def split: if_splits)
  next
    case ST_AB_WAIT_2
    then show ?thesis using facts by (auto simp: pos_range_def pre_range_def split: if_splits)
  next
    case ST_AB
    then show ?thesis using facts by (auto simp: pos_range_def pre_range_def split: if_splits)
  next
    case ST_STOP_WAIT_2
    then show ?thesis using facts by (auto simp: pos_range_def pre_range_def split: if_splits)
  next
    case ST_STOP_WAIT_3
    then show ?thesis using facts by (auto simp: pos_range_def pre_range_def split: if_splits)
  next
    case ST_DIR_CHANGE_WAIT_1
    then show ?thesis using facts by (auto simp: pos_range_def pre_range_def split: if_splits)
  next
    case ST_DIR_CHANGE_WAIT_2
    then show ?thesis using facts by (auto simp: pos_range_def pre_range_def split: if_splits)
  next
    case ST_DIR_CHANGE_WAIT_3
    then show ?thesis using facts by (auto simp: pos_range_def pre_range_def split: if_splits)
  qed
  then show ?thesis unfolding limits_config [OF c] c .
qed

lemma frame_range:
  assumes "ro_pos_inv p" and "rolladen_can_callback f p b = (p', b')"
  shows "ro_pos_inv p'"
proof -
  note L = limits [of p]
  have pos: "0 \<le> (uint v + 1) * cfg_laufzeit p div 100" for v :: u8 by (simp add: pos_imp_zdiv_nonneg_iff)
  note k = frame_keeps [OF assms(2)]
  have "laufzeit p' = laufzeit p \<or> 0 \<le> laufzeit p' \<and> laufzeit p' \<le> cfg_laufzeit p"
    using assms(2) pos
    by (auto simp: rolladen_can_callback_def taster_down_def position_set_def Let_def
        rolladen_set_soll_laufzeit_def rolladen_lowlevel_define_position_def
        split: if_splits option.splits ro_state.splits)
  moreover have "lowlevel_state p \<noteq> ST_STOP \<Longrightarrow>
      lowlevel_command p' = lowlevel_command p \<or> lowlevel_command p' = COMMAND_STOP"
    using assms(2)
    by (auto simp: rolladen_can_callback_def taster_down_def position_set_def Let_def
        rolladen_lowlevel_define_position_def split: if_splits option.splits ro_state.splits)
  ultimately show ?thesis
    using assms(1) L unfolding ro_pos_inv_def limits_config [OF k(3)] k(1-3) pos_range_def
    by (cases "lowlevel_state p") auto
qed

lemma tick_range:
  assumes "ro_pos_inv p" and "rolladen_timer_handler p b = (p', b')"
  shows "ro_pos_inv p'"
proof -
  define p1 where "p1 = (if lowlevel_wait_counter p \<noteq> 0
    then p\<lparr>lowlevel_wait_counter := lowlevel_wait_counter p - 1\<rparr> else p)"
  obtain p2 where p2: "lowlevel_switch p1 b = (p2, b')" and p': "p' = lowlevel_count p2"
    using assms(2) by (auto simp: rolladen_timer_handler_def rolladen_lowlevel_timer_handler_def
        p1_def Let_def split: prod.splits)
  have "uint (lowlevel_wait_counter p1) =
      (if lowlevel_wait_counter p = 0 then 0 else uint (lowlevel_wait_counter p) - 1)"
    by (simp add: p1_def uint_minus_one_pos)
  then have "pre_range (rolladen_min_laufzeit p2) (rolladen_max_laufzeit p2) (cfg_laufzeit p2) (lowlevel_state p2) (uint (lowlevel_wait_counter p2)) (laufzeit p2)"
    by (intro switch_range [OF assms(1) _ _ _ _ _ p2]) (simp_all add: p1_def)
  from count_range [OF this] show ?thesis by (simp add: p')
qed

text \<open>C12: Whatever is commanded to a shutter that starts at rest, with two outputs of its own, its position
  counter is between 0 and the running time whenever it is stopped. While it moves the counter can leave this range:
  it stays between minus half of the running time less seven ticks and one and a half times the running time and four
  ticks more, so that the 32 bit arithmetic on it never overflows.\<close>

theorem rolladen_position_range:
  assumes "ro_reach off still p b"
  shows "rolladen_min_laufzeit p - 7 \<le> laufzeit p \<and> laufzeit p \<le> rolladen_max_laufzeit p + 4 \<and>
    \<bar>100 * laufzeit p\<bar> < 2 ^ 31 \<and>
    (lowlevel_state p = ST_STOP \<longrightarrow> 0 \<le> laufzeit p \<and> laufzeit p \<le> cfg_laufzeit p)"
proof -
  from assms have inv: "ro_pos_inv p"
  proof (induction rule: ro_reach.induct)
    case (start p q b off still)
    then show ?case by (simp add: ro_pos_inv_def pos_range_def rolladen_init_def)
  next
    case (tick off still p b p' b')
    then show ?case using tick_range by blast
  next
    case (frame off still p b f p' b')
    then show ?case using frame_range by blast
  next
    case (others off still p b b')
    then show ?case by simp
  qed
  note L = limits [of p]
  have r: "rolladen_min_laufzeit p - 7 \<le> laufzeit p" "laufzeit p \<le> rolladen_max_laufzeit p + 4"
    using inv L unfolding ro_pos_inv_def pos_range_def by (auto split: ro_state.splits)
  moreover have "\<bar>100 * laufzeit p\<bar> < 2 ^ 31" using r L(5,6) by simp
  moreover have "lowlevel_state p = ST_STOP \<Longrightarrow> 0 \<le> laufzeit p \<and> laufzeit p \<le> cfg_laufzeit p"
    using inv by (simp add: ro_pos_inv_def pos_range_def)
  ultimately show ?thesis by blast
qed

theorem rolladen_position_range_witness:
  "\<bar>100 * laufzeit ex_rolladen\<bar> < 2 ^ 31 \<and> 0 \<le> laufzeit ex_rolladen"
  using rolladen_position_range [OF ex_rolladen_reach]
  by (simp add: ex_rolladen_def rolladen_init_def)

section \<open>Waiting times and reported positions\<close>

datatype ro_event = Ev_Tick | Ev_Frame canix_frame

text \<open>Power and direction relay after each tick of a sequence of events.\<close>

fun ro_trace :: "ro_event list \<Rightarrow> device_data_rolladen \<Rightarrow> board \<Rightarrow> (bool \<times> bool) list" where
  "ro_trace [] p b = []"
| "ro_trace (Ev_Tick # es) p b =
     (let (p', b') = rolladen_timer_handler p b in (power_on p' b', dir_on p' b') # ro_trace es p' b')"
| "ro_trace (Ev_Frame f # es) p b = (let (p', b') = rolladen_can_callback f p b in ro_trace es p' b')"

text \<open>The direction relay can change 400 ms after the motor was switched off, which is less than the
  500 ms the driver's description demands: a shutter going up is stopped and at once sent down with
  its button.\<close>

theorem rolladen_direction_after_400ms:
  "let press = [Ev_Frame (hes_frame [HCAN_HES_TASTER_DOWN, 5]), Ev_Frame (hes_frame [HCAN_HES_TASTER_UP, 5])] in
   ro_trace (press @ replicate 4 Ev_Tick @ press @ replicate 4 Ev_Tick @ press @ [Ev_Tick])
     ex_rolladen ex_board =
   replicate 4 (True, False) @ replicate 4 (False, False) @ [(False, True)]"
  by code_simp

text \<open>A position defined over the bus is not the one reported back: for a running time of at least
  ten seconds, after \<open>DEFINE_POSITION pos\<close> a request reports \<open>pos + 1\<close> or \<open>pos + 2\<close>.\<close>

theorem rolladen_define_position_report:
  assumes "100 \<le> cfg_laufzeit p" and "pos \<le> 98"
  shows "\<exists>q. rolladen_lowlevel_get_position (rolladen_lowlevel_define_position pos p) = Some q \<and>
    (unat q = unat pos + 1 \<or> unat q = unat pos + 2)"
proof -
  define L where "L = cfg_laufzeit p"
  define P where "P = uint pos + 1"
  have P: "1 \<le> P" "P \<le> 99" using assms(2) by (simp_all add: P_def word_le_def)
  have L: "100 \<le> L" using assms(1) by (simp add: L_def)
  define z where "z = P * L div 100"
  have z: "100 * z \<le> P * L" "P * L < 100 * z + 100"
    using mult_div_mod_eq [of 100 "P * L"] pos_mod_bound [of 100 "P * L"] pos_mod_sign [of 100 "P * L"]
    unfolding z_def by linarith+
  have "P * L \<le> 99 * L" using P L by (simp add: mult_right_mono)
  moreover have "0 \<le> P * L" using P L by simp
  ultimately have zL: "z \<le> L" "0 \<le> z" using z L by linarith+
  have def: "rolladen_lowlevel_define_position pos p = p\<lparr>laufzeit := z\<rparr>"
    using zL(1) by (simp add: rolladen_lowlevel_define_position_def Let_def z_def P_def L_def)
  define q where "q = 100 * z div L"
  have q: "L * q \<le> 100 * z" "100 * z < L * q + L"
    using mult_div_mod_eq [of L "100 * z"] pos_mod_bound [of L "100 * z"] pos_mod_sign [of L "100 * z"] L
    unfolding q_def by linarith+
  have "L * q \<le> L * P" using q(1) z(1) by (simp add: mult.commute)
  then have up: "q \<le> P" using L by simp
  have "L * P < L * (q + 2)" using q(2) z(2) L by (simp add: algebra_simps)
  then have lo: "P - 1 \<le> q" using L by (simp add: mult_less_cancel_left)
  have cd: "cdiv (100 * z) L = Some q" using zL L by (simp add: cdiv_nonneg q_def)
  have "rolladen_lowlevel_get_position (p\<lparr>laufzeit := z\<rparr>) = Some (of_int (q + 1))"
    using cd up lo P by (simp add: rolladen_lowlevel_get_position_def L_def)
  moreover have "uint (of_int (q + 1) :: u8) = q + 1" using up lo P by (simp only: uint_word_of_int) simp
  then have "int (unat (of_int (q + 1) :: u8)) = q + 1" by simp
  moreover have "int (unat pos) = P - 1" by (simp add: P_def)
  ultimately show ?thesis using up lo unfolding def by (intro exI [of _ "of_int (q + 1)"]) linarith
qed

theorem rolladen_define_position_report_witness:
  "\<exists>q. rolladen_lowlevel_get_position (rolladen_lowlevel_define_position 50 ex_rolladen) = Some q \<and>
    (unat q = 51 \<or> unat q = 52)"
  using rolladen_define_position_report [of ex_rolladen 50]
  by (simp add: ex_rolladen_def rolladen_init_def)

section \<open>The contract of the driver\<close>

interpretation rolladen_frame: output_driver "rolladen_can_callback f"
    "\<lambda>p. [port_power (ro_config p), port_dir (ro_config p)]" for f
proof unfold_locales
  fix n p b
  note k = frame_keeps [of f p b, OF prod.collapse [symmetric]]
  show "darlingtonoutput_getpin n (snd (rolladen_can_callback f p b)) = darlingtonoutput_getpin n b"
    "pin_valid n (snd (rolladen_can_callback f p b)) = pin_valid n b"
    "[port_power (ro_config (fst (rolladen_can_callback f p b))), port_dir (ro_config (fst (rolladen_can_callback f p b)))]
      = [port_power (ro_config p), port_dir (ro_config p)]"
    by (simp_all only: k)
qed

lemma switch_pins:
  "n \<noteq> port_power (ro_config p) \<Longrightarrow> n \<noteq> port_dir (ro_config p) \<Longrightarrow>
    darlingtonoutput_getpin n (snd (lowlevel_switch p b)) = darlingtonoutput_getpin n b"
  "pin_valid n (snd (lowlevel_switch p b)) = pin_valid n b"
  "ro_config (fst (lowlevel_switch p b)) = ro_config p"
  by (simp_all add: lowlevel_switch_def set_power_def set_dir_def Let_def split: ro_state.splits)

interpretation rolladen_tick: output_driver rolladen_timer_handler
    "\<lambda>p. [port_power (ro_config p), port_dir (ro_config p)]"
  by unfold_locales
    (simp_all add: rolladen_timer_handler_def rolladen_lowlevel_timer_handler_def switch_pins Let_def case_prod_unfold)

end
