(* ===== verification/Zeitzone.thy ===== *)
theory Zeitzone
  imports Eds
begin

text \<open>
  Time zones (\<open>zeitzone.c\<close>): named weekly windows that heating and time switches refer to. Their
  configuration lives in the EEPROM data space and is copied to RAM when the devices are loaded;
  the write request changes both.
\<close>

section \<open>Data\<close>

record eds_zeitzone_block_t =
  zz_gruppe :: u8
  day_pattern :: u8
  from_hour :: u8
  from_minute :: u8
  to_hour :: u8
  to_minute :: u8

record device_data_zeitzone =
  zz_config :: eds_zeitzone_block_t
  zz_it :: nat

text \<open>The copy of the block's data into the configuration (\<open>eeprom_read_block(p + 1, it + 2, ..)\<close>).\<close>

definition zeitzone_config_at :: "nat \<Rightarrow> board \<Rightarrow> eds_zeitzone_block_t" where
  "zeitzone_config_at it b = (let e = (\<lambda>i. eeprom_read_byte (it + 2 + i) b) in
     \<lparr>zz_gruppe = e 0, day_pattern = e 1, from_hour = e 2, from_minute = e 3, to_hour = e 4,
      to_minute = e 5\<rparr>)"

definition zeitzone_init :: "nat \<Rightarrow> device_data_zeitzone \<Rightarrow> device_data_zeitzone" where
  "zeitzone_init it p = p\<lparr>zz_it := it\<rparr>"

section \<open>Operations\<close>

text \<open>The loop over the devices; \<open>zs\<close> are the time zones among them, in the order of the table.\<close>

fun zeitzone_matches :: "device_data_zeitzone list \<Rightarrow> u8 \<Rightarrow> canix_rtc_clock_t \<Rightarrow> bool" where
  "zeitzone_matches [] zid c = False"
| "zeitzone_matches (p # zs) zid c =
     (if zz_gruppe (zz_config p) = zid
      then time_matches (from_hour (zz_config p)) (from_minute (zz_config p)) (to_hour (zz_config p))
             (to_minute (zz_config p)) (day_pattern (zz_config p)) c
      else zeitzone_matches zs zid c)"

definition zeitzone_write :: "u8 list \<Rightarrow> device_data_zeitzone \<Rightarrow> board \<Rightarrow> device_data_zeitzone \<times> board" where
  "zeitzone_write d p b =
     (p\<lparr>zz_config := (zz_config p)\<lparr>day_pattern := d ! 3, from_hour := d ! 4, from_minute := d ! 5,
        to_hour := d ! 6, to_minute := d ! 7\<rparr>\<rparr>,
      eeprom_write_byte (zz_it p + 7) (d ! 7) (eeprom_write_byte (zz_it p + 6) (d ! 6)
        (eeprom_write_byte (zz_it p + 5) (d ! 5) (eeprom_write_byte (zz_it p + 4) (d ! 4)
          (eeprom_write_byte (zz_it p + 3) (d ! 3) b)))))"

definition zeitzone_can_callback ::
  "device_data_zeitzone list \<Rightarrow> canix_frame \<Rightarrow> device_data_zeitzone \<Rightarrow> board \<Rightarrow> device_data_zeitzone \<times> board" where
  "zeitzone_can_callback zs f p b =
    (let d = fr_data f; cmd = d ! 1; c = zz_config p in
     if cmd = HCAN_HES_ZEITZONE_DETAILS_REQUEST then
       (if d ! 2 = zz_gruppe c
        then (p, send_prio (fr_src f) [HCAN_SRV_HES, HCAN_HES_ZEITZONE_DETAILS_REPLAY, zz_gruppe c,
                day_pattern c, from_hour c, from_minute c, to_hour c, to_minute c] HCAN_PRIO_LOW b)
        else (p, b))
     else if cmd = HCAN_HES_ZEITZONE_WRITE_DETAILS then
       (if d ! 2 = zz_gruppe c \<and> zz_it p \<noteq> 0 \<and> EDS_BLOCK_TYPE (zz_it p) b = EDS_zeitzone_BLOCK_ID
        then (let (p', b') = zeitzone_write d p b
              in (p', send_prio (fr_src f) [HCAN_SRV_HES, HCAN_HES_ZEITZONE_WRITE_DETAILS_ACK,
                    zz_gruppe c] HCAN_PRIO_LOW b'))
        else (p, b))
     else if cmd = HCAN_HES_ZEITZONE_TEST_MATCH_REQUERST then
       (if d ! 2 = zz_gruppe c
        then (p, send_prio (fr_src f) [HCAN_SRV_HES, HCAN_HES_ZEITZONE_TEST_MATCH_REPLAY, zz_gruppe c,
                if zeitzone_matches zs (zz_gruppe c) (rtc b) then 1 else 0] HCAN_PRIO_LOW b)
        else (p, b))
     else (p, b))"

section \<open>Configuration in RAM and EEPROM\<close>

lemma send_prio_simps [simp]:
  "eeprom (send_prio d x pr b) = eeprom b" "rtc (send_prio d x pr b) = rtc b"
  "syslog (send_prio d x pr b) = syslog b" "fault (send_prio d x pr b) = fault b"
  "darlingtonoutput_getpin n (send_prio d x pr b) = darlingtonoutput_getpin n b"
  by (simp_all add: send_prio_def darlingtonoutput_getpin_def)

text \<open>The configuration of a time zone in RAM is the one in its EEPROM block, whatever requests it
  handles: a write over the bus changes both alike, and nothing outside the block's own data.\<close>

theorem zeitzone_config_coherent:
  assumes "zz_config p = zeitzone_config_at (zz_it p) b" and "zeitzone_can_callback zs f p b = (p', b')"
  shows "zz_config p' = zeitzone_config_at (zz_it p') b' \<and> zz_it p' = zz_it p \<and>
    (\<forall>a. a < zz_it p + 3 \<or> zz_it p + 8 \<le> a \<longrightarrow> eeprom b' a = eeprom b a)"
proof -
  let ?d = "fr_data f"
  have "p' = p \<and> eeprom b' = eeprom b \<or>
      p' = fst (zeitzone_write ?d p b) \<and> eeprom b' = eeprom (snd (zeitzone_write ?d p b))"
    using assms(2) by (auto simp: zeitzone_can_callback_def Let_def split: if_splits prod.splits)
  then show ?thesis
  proof
    assume "p' = p \<and> eeprom b' = eeprom b"
    then show ?thesis
      using assms(1) by (simp add: zeitzone_config_at_def eeprom_read_byte_def)
  next
    assume w: "p' = fst (zeitzone_write ?d p b) \<and> eeprom b' = eeprom (snd (zeitzone_write ?d p b))"
    have "zz_gruppe (zz_config p) = eeprom b (zz_it p + 2)"
      using assms(1) by (simp add: zeitzone_config_at_def eeprom_read_byte_def)
    with w show ?thesis
      by (simp add: zeitzone_write_def zeitzone_config_at_def eeprom_read_byte_def)
  qed
qed

definition ex_zeitzone :: device_data_zeitzone where
  "ex_zeitzone = \<lparr>zz_config = zeitzone_config_at 34 ex_board, zz_it = 34\<rparr>"

theorem zeitzone_config_coherent_witness:
  "case zeitzone_can_callback [] \<lparr>fr_src = 9, fr_dst = 36, fr_proto = 1, fr_size = 8,
      fr_data = [5, HCAN_HES_ZEITZONE_WRITE_DETAILS, 0, 0x3e, 6, 0, 22, 30]\<rparr> ex_zeitzone
      (ex_board\<lparr>eeprom := (\<lambda>_. 0)(34 := EDS_zeitzone_BLOCK_ID)\<rparr>) of
    (p', b') \<Rightarrow> zz_config p' = zeitzone_config_at 34 b'"
proof -
  let ?b = "ex_board\<lparr>eeprom := (\<lambda>_. 0)(34 := EDS_zeitzone_BLOCK_ID)\<rparr>"
  have c: "zz_config ex_zeitzone = zeitzone_config_at (zz_it ex_zeitzone) ?b"
    by (simp add: ex_zeitzone_def zeitzone_config_at_def eeprom_read_byte_def ex_board_def)
  show ?thesis
    using zeitzone_config_coherent [OF c] by (auto simp: ex_zeitzone_def split: prod.splits)
qed

section \<open>The contract of the driver\<close>

interpretation zeitzone_frame: output_driver "zeitzone_can_callback zs f" "\<lambda>p. []" for zs f
  by unfold_locales (auto simp: zeitzone_can_callback_def zeitzone_write_def Let_def)

end
