(* ===== verification/Heizung.thy ===== *)
theory Heizung
  imports Zeitzone
begin

text \<open>
  Heating circuits (\<open>heizung.c\<close>): a valve driven by pulse width modulation with a tick of one second,
  the modes off, manual, thermostat and automatic (set temperatures per time zone, two point control
  with hysteresis), the heating stop while a window is open, and the weekly exercise of the valve.
  Temperatures are the 16 bit \<open>int16_t\<close>; they are words read with \<open>sint\<close>. \<open>zm\<close> is
  \<open>zeitzone_matches\<close> at the current time.
\<close>

section \<open>Data\<close>

record eds_heizung_block_t =
  hz_id :: u8
  hz_port :: u8
  pwm_periode :: u8
  sensor_id :: u8
  solltemp_lines :: "(u8 \<times> u16) list"
  hz_feature :: u8
  hysterese :: u8
  reeds :: "u8 list"

datatype hz_mode = MODE_OFF | MODE_MANUAL | MODE_THERMOSTAT | MODE_AUTOMATIK

record device_data_heizung =
  hz_config :: eds_heizung_block_t
  hz_it :: nat
  mode :: hz_mode
  manual_rate :: u8
  timer_counter :: u8
  pwm_counter :: u16
  pwm_width :: u16
  pwm_end :: u16
  waermebedarf_counter :: u8
  received_interval_counter :: u8
  measure_value :: u16
  duration_counter :: u16
  thermostat_temp :: u16
  reed_heiz_stop_counter :: u8
  ventilpflege_counter :: u16

section \<open>Operations\<close>

definition heizung_init :: "nat \<Rightarrow> device_data_heizung \<Rightarrow> board \<Rightarrow> device_data_heizung \<times> board" where
  "heizung_init it p b =
     (p\<lparr>hz_it := it, mode := MODE_OFF, manual_rate := 0, pwm_counter := 0, pwm_width := 0, pwm_end := 0,
        waermebedarf_counter := hz_id (hz_config p) AND 0x3f, received_interval_counter := 255,
        measure_value := 0, duration_counter := 0, thermostat_temp := 0,
        reed_heiz_stop_counter := 0, ventilpflege_counter := 0\<rparr>,
      canix_syslog_P SYSLOG_PRIO_DEBUG ''heizung_init: %d'' [uint (hz_id (hz_config p))] b)"

definition heizung_update_heizstop :: "device_data_heizung \<Rightarrow> board \<Rightarrow> device_data_heizung \<times> board" where
  "heizung_update_heizstop p b =
     (if reed_heiz_stop_counter p \<noteq> 0
      then (p\<lparr>pwm_end := ucast (pwm_periode (hz_config p)), pwm_width := 0\<rparr>,
            canix_syslog_P SYSLOG_PRIO_DEBUG ''Heizstop aktiv (id=%d)'' [uint (hz_id (hz_config p))] b)
      else (p, b))"

definition heizung_set_pwm :: "u8 \<Rightarrow> device_data_heizung \<Rightarrow> board \<Rightarrow> device_data_heizung \<times> board" where
  "heizung_set_pwm rate p b =
     (if reed_heiz_stop_counter p \<noteq> 0 then heizung_update_heizstop p b
      else (let e = ucast (pwm_periode (hz_config p))
            in (p\<lparr>pwm_end := e, pwm_width := of_int (uint e * uint rate div 100)\<rparr>, b)))"

text \<open>\<open>None\<close> is a division by zero, before the first setting of the pulse width.\<close>

definition heizung_get_pwm :: "device_data_heizung \<Rightarrow> u8 option" where
  "heizung_get_pwm p =
     (if mode p \<noteq> MODE_OFF
      then (if pwm_end p = 0 then None else Some (ucast (ucast (pwm_width p) * 100 div (ucast (pwm_end p) :: u32))))
      else Some 0)"

definition heizung_handle_pwm :: "device_data_heizung \<Rightarrow> board \<Rightarrow> device_data_heizung \<times> board" where
  "heizung_handle_pwm p b =
     (let p1 = p\<lparr>pwm_counter := pwm_counter p + 1\<rparr>;
          (p2, b2) = (if pwm_counter p1 \<ge> pwm_end p1
                      then (p1\<lparr>pwm_counter := 0\<rparr>, darlingtonoutput_setpin (hz_port (hz_config p)) True b)
                      else (p1, b));
          b3 = (if pwm_counter p2 \<ge> pwm_width p2
                then darlingtonoutput_setpin (hz_port (hz_config p)) False b2 else b2)
      in (p2, b3))"

definition heizung_get_matching_zeitzone_index :: "(u8 \<Rightarrow> bool) \<Rightarrow> device_data_heizung \<Rightarrow> nat option" where
  "heizung_get_matching_zeitzone_index zm p =
     first_index (\<lambda>(zid, temp). zm zid) (take 8 (solltemp_lines (hz_config p)))"

definition heizung_get_matching_zeitzone_id :: "(u8 \<Rightarrow> bool) \<Rightarrow> device_data_heizung \<Rightarrow> u8" where
  "heizung_get_matching_zeitzone_id zm p =
     (case heizung_get_matching_zeitzone_index zm p of
        Some i \<Rightarrow> fst (solltemp_lines (hz_config p) ! i) | None \<Rightarrow> -1)"

definition heizung_set_pwm_by_temp ::
  "u16 \<Rightarrow> u16 \<Rightarrow> device_data_heizung \<Rightarrow> board \<Rightarrow> device_data_heizung \<times> board" where
  "heizung_set_pwm_by_temp soll ist p b =
     (let hyst = ucast (hysterese (hz_config p)) in
      case heizung_get_pwm p of
        None \<Rightarrow> (p, raise_fault b)
      | Some rate \<Rightarrow>
          (if rate > 0 \<and> sint ist > sint (soll + hyst) then heizung_set_pwm 0 p b
           else if rate = 0 \<and> sint ist < sint (soll - hyst)
           then (let (p1, b1) = heizung_set_pwm 100 p b in (p1\<lparr>waermebedarf_counter := 210\<rparr>, b1))
           else (p, b)))"

definition heizung_check_ventilpflege :: "device_data_heizung \<Rightarrow> board \<Rightarrow> device_data_heizung \<times> board" where
  "heizung_check_ventilpflege p b =
     (if mode p = MODE_OFF \<and> ventilpflege_counter p = 0
      then (let time = uint (hour (rtc b)) * 60 + uint (minute (rtc b))
            in if day_of_week (rtc b) = 7 \<and> time = uint (hz_id (hz_config p)) * 3 + 12 * 60
               then (p\<lparr>ventilpflege_counter := 600\<rparr>,
                     canix_syslog_P SYSLOG_PRIO_DEBUG ''heizung %d: ventilpflege'' [uint (hz_id (hz_config p))] b)
               else (p, b))
      else (p, b))"

section \<open>The timer handler, called every second\<close>

text \<open>Everything before the regulation, which comes every sixth call.\<close>

definition heizung_counters :: "device_data_heizung \<Rightarrow> board \<Rightarrow> device_data_heizung \<times> board" where
  "heizung_counters p b =
    (let p = (if ventilpflege_counter p > 0 then p\<lparr>ventilpflege_counter := ventilpflege_counter p - 1\<rparr> else p);
         (p, b) = heizung_check_ventilpflege p b;
         p = (if received_interval_counter p \<noteq> 0xff
              then p\<lparr>received_interval_counter := received_interval_counter p + 1\<rparr> else p);
         (p, b) = heizung_handle_pwm p b;
         p = (if duration_counter p > 0
              then (let p = p\<lparr>duration_counter := duration_counter p - 1\<rparr>
                    in if duration_counter p = 0 then p\<lparr>mode := MODE_AUTOMATIK\<rparr> else p)
              else p);
         (p, b) = (if reed_heiz_stop_counter p > 0
              then (let p = p\<lparr>reed_heiz_stop_counter := reed_heiz_stop_counter p - 1\<rparr>
                    in if reed_heiz_stop_counter p = 0
                       then (p, canix_syslog_P SYSLOG_PRIO_DEBUG ''heiz-stop ende (heizung %d)''
                                  [uint (hz_id (hz_config p))] b)
                       else (p, b))
              else (p, b))
     in heizung_update_heizstop p b)"

text \<open>The regulation; the third component says that the C function returns in it.\<close>

definition heizung_regulate ::
  "(u8 \<Rightarrow> bool) \<Rightarrow> device_data_heizung \<Rightarrow> board \<Rightarrow> device_data_heizung \<times> board \<times> bool" where
  "heizung_regulate zm p b =
    (case mode p of
       MODE_OFF \<Rightarrow>
         (if ventilpflege_counter p \<noteq> 0
          then (let (p, b) = heizung_set_pwm 100 (p\<lparr>manual_rate := 0\<rparr>) b;
                    b = darlingtonoutput_setpin (hz_port (hz_config p)) True b
                in (p, canix_syslog_P SYSLOG_PRIO_DEBUG ''ventilpflege: 1'' [] b, True))
          else (let (p, b) = heizung_set_pwm 0 (p\<lparr>manual_rate := 0\<rparr>) b
                in (p, if darlingtonoutput_getpin (hz_port (hz_config p)) b
                       then darlingtonoutput_setpin (hz_port (hz_config p)) False b else b, True)))
     | MODE_MANUAL \<Rightarrow> (let (p, b) = heizung_set_pwm (manual_rate p) p b in (p, b, False))
     | MODE_AUTOMATIK \<Rightarrow>
         (if received_interval_counter p < 255
          then (let (p, b) = (case heizung_get_matching_zeitzone_index zm p of
                       Some i \<Rightarrow> heizung_set_pwm_by_temp (snd (solltemp_lines (hz_config p) ! i)) (measure_value p) p b
                     | None \<Rightarrow> heizung_set_pwm 0 p b)
                in (p, b, False))
          else (p, canix_syslog_P SYSLOG_PRIO_ERROR ''keine Sensor-Messwerte vorhanden!'' [] b, False))
     | MODE_THERMOSTAT \<Rightarrow>
         (if received_interval_counter p < 255
          then (let (p, b) = heizung_set_pwm_by_temp (thermostat_temp p) (measure_value p) p b in (p, b, False))
          else (p, canix_syslog_P SYSLOG_PRIO_ERROR ''keine Sensor-Messwerte vorhanden!'' [] b, False)))"

definition heizung_waermebedarf :: "device_data_heizung \<Rightarrow> board \<Rightarrow> device_data_heizung \<times> board" where
  "heizung_waermebedarf p b =
     (if waermebedarf_counter p = 0
      then (let p = p\<lparr>waermebedarf_counter := 60\<rparr> in
            case heizung_get_pwm p of
              None \<Rightarrow> (p, raise_fault b)
            | Some rate \<Rightarrow>
                (let rate = (if bit (hz_feature (hz_config p)) 0 then push_bit 1 rate else rate)
                 in (p, send_prio HCAN_MULTICAST_INFO [HCAN_SRV_HES, HCAN_HES_HEIZUNG_WAERMEBEDARF_INFO,
                       hz_id (hz_config p), rate] HCAN_PRIO_LOW b)))
      else (p\<lparr>waermebedarf_counter := waermebedarf_counter p - 1\<rparr>, b))"

definition heizung_timer_handler ::
  "(u8 \<Rightarrow> bool) \<Rightarrow> device_data_heizung \<Rightarrow> board \<Rightarrow> device_data_heizung \<times> board" where
  "heizung_timer_handler zm p b =
    (let (p1, b1) = heizung_counters p b
     in if timer_counter p1 \<ge> 5
        then (let (p2, b2, ret) = heizung_regulate zm (p1\<lparr>timer_counter := 0\<rparr>) b1
              in if ret then (p2, b2) else heizung_waermebedarf p2 b2)
        else heizung_waermebedarf (p1\<lparr>timer_counter := timer_counter p1 + 1\<rparr>) b1)"

section \<open>The handler of frames\<close>

definition hz_reply :: "canix_frame \<Rightarrow> u8 list \<Rightarrow> u8 \<Rightarrow> board \<Rightarrow> board" where
  "hz_reply f data prio b = send_prio (fr_src f) (HCAN_SRV_HES # data) prio b"

definition heizung_details :: "(u8 \<Rightarrow> bool) \<Rightarrow> canix_frame \<Rightarrow> device_data_heizung \<Rightarrow> board \<Rightarrow> board" where
  "heizung_details zm f p b =
    (let hid = hz_id (hz_config p) in
     case mode p of
       MODE_OFF \<Rightarrow> hz_reply f [HCAN_HES_HEIZUNG_MODE_OFF_DETAILS, hid] HCAN_PRIO_HI b
     | MODE_MANUAL \<Rightarrow> hz_reply f [HCAN_HES_HEIZUNG_MODE_MANUAL_DETAILS, hid, manual_rate p,
         hi8 (duration_counter p), lo8 (duration_counter p)] HCAN_PRIO_HI b
     | MODE_THERMOSTAT \<Rightarrow> hz_reply f [HCAN_HES_HEIZUNG_MODE_THERMOSTAT_DETAILS, hid,
         hi8 (thermostat_temp p), lo8 (thermostat_temp p), hi8 (duration_counter p),
         lo8 (duration_counter p)] HCAN_PRIO_HI b
     | MODE_AUTOMATIK \<Rightarrow>
         (case heizung_get_matching_zeitzone_index zm p of
            Some i \<Rightarrow> (let v = snd (solltemp_lines (hz_config p) ! i)
              in hz_reply f [HCAN_HES_HEIZUNG_MODE_AUTOMATIK_DETAILS, fr_data f ! 2, hi8 v, lo8 v,
                   heizung_get_matching_zeitzone_id zm p] HCAN_PRIO_HI b)
          | None \<Rightarrow> hz_reply f [HCAN_HES_HEIZUNG_MODE_AUTOMATIK_DETAILS, fr_data f ! 2, 0, 0, 0] HCAN_PRIO_HI
              (canix_syslog_P SYSLOG_PRIO_ERROR ''zeitzone: no match!'' [] b)))"

text \<open>\<open>eeprom_write_word\<close> stores the low byte first.\<close>

definition eeprom_write_word :: "nat \<Rightarrow> u16 \<Rightarrow> board \<Rightarrow> board" where
  "eeprom_write_word a v b = eeprom_write_byte (a + 1) (hi8 v) (eeprom_write_byte a (lo8 v) b)"

definition heizung_write_line :: "canix_frame \<Rightarrow> device_data_heizung \<Rightarrow> board \<Rightarrow> device_data_heizung \<times> board" where
  "heizung_write_line f p b =
    (let d = fr_data f; idx = unat (d ! 3); lines = solltemp_lines (hz_config p);
         v = word16 (d ! 4) (d ! 5)
     in (p\<lparr>hz_config := (hz_config p)\<lparr>solltemp_lines := lines[idx := (fst (lines ! idx), v)]\<rparr>\<rparr>,
         hz_reply f [HCAN_HES_HEIZUNG_SOLLTEMP_WRITE_LINE_ACK, hz_id (hz_config p), d ! 3] HCAN_PRIO_LOW
           (eeprom_write_word (hz_it p + 6 + idx * 3 + 1) v b)))"

definition heizung_can_callback ::
  "(u8 \<Rightarrow> bool) \<Rightarrow> canix_frame \<Rightarrow> device_data_heizung \<Rightarrow> board \<Rightarrow> device_data_heizung \<times> board" where
  "heizung_can_callback zm f p b =
    (let d = fr_data f; cmd = d ! 1; c = hz_config p in
     if cmd = HCAN_HES_1WIRE_TEMPERATURE then
       (if d ! 2 = sensor_id c
        then (p\<lparr>measure_value := word16 (d ! 3) (d ! 4), received_interval_counter := 0\<rparr>, b) else (p, b))
     else if cmd = HCAN_HES_HEIZUNG_SET_MODE_OFF then
       (if hz_id c = d ! 2 then (p\<lparr>mode := MODE_OFF\<rparr>, b) else (p, b))
     else if cmd = HCAN_HES_HEIZUNG_SET_MODE_MANUAL then
       (if hz_id c = d ! 2
        then (p\<lparr>mode := MODE_MANUAL, manual_rate := d ! 3, duration_counter := word16 (d ! 4) (d ! 5)\<rparr>, b)
        else (p, b))
     else if cmd = HCAN_HES_HEIZUNG_SET_MODE_THERMOSTAT_DETAILS then
       (if hz_id c = d ! 2
        then (p\<lparr>mode := MODE_THERMOSTAT, thermostat_temp := word16 (d ! 3) (d ! 4),
                duration_counter := word16 (d ! 5) (d ! 6)\<rparr>, b)
        else (p, b))
     else if cmd = HCAN_HES_HEIZUNG_SET_MODE_AUTOMATIK then
       (if hz_id c = d ! 2 then (p\<lparr>mode := MODE_AUTOMATIK\<rparr>, b) else (p, b))
     else if cmd = HCAN_HES_HEIZUNG_DETAILS_REQUEST then
       (if hz_id c = d ! 2 then (p, heizung_details zm f p b) else (p, b))
     else if cmd = HCAN_HES_HEIZUNG_TIST_REQUEST then
       (if d ! 2 = hz_id c
        then (p, hz_reply f [HCAN_HES_HEIZUNG_TIST_REPLAY, hz_id c, hi8 (measure_value p),
                lo8 (measure_value p)] HCAN_PRIO_HI b)
        else (p, b))
     else if cmd = HCAN_HES_HEIZUNG_SOLLTEMP_LINE_REQUEST then
       (if d ! 2 = hz_id c \<and> d ! 3 \<le> 7
        then (let l = solltemp_lines c ! unat (d ! 3)
              in (p, hz_reply f [HCAN_HES_HEIZUNG_SOLLTEMP_LINE_REPLAY, hz_id c, d ! 3,
                    hi8 (snd l), lo8 (snd l), fst l] HCAN_PRIO_LOW b))
        else (p, b))
     else if cmd = HCAN_HES_HEIZUNG_SOLLTEMP_WRITE_LINE then
       (if d ! 2 = hz_id c \<and> d ! 3 \<le> 7 \<and> hz_it p \<noteq> 0 \<and> EDS_BLOCK_TYPE (hz_it p) b = EDS_heizung_BLOCK_ID
        then heizung_write_line f p b else (p, b))
     else if cmd = HCAN_HES_REEDKONTAKT_OFFEN then
       (if d ! 2 \<in> set (take 8 (reeds c))
        then (p\<lparr>reed_heiz_stop_counter := 60\<rparr>,
              if reed_heiz_stop_counter p = 0
              then canix_syslog_P SYSLOG_PRIO_DEBUG ''heiz-stop begin (heizung %d, reed %d)''
                     [uint (hz_id c), uint (d ! 2)] b
              else b)
        else (p, b))
     else (p, b))"

section \<open>The pulse width\<close>

primrec pwm_ticks :: "nat \<Rightarrow> device_data_heizung \<Rightarrow> board \<Rightarrow> device_data_heizung \<times> board" where
  "pwm_ticks 0 p b = (p, b)"
| "pwm_ticks (Suc n) p b = (let (p1, b1) = pwm_ticks n p b in heizung_handle_pwm p1 b1)"

abbreviation valve :: "device_data_heizung \<Rightarrow> board \<Rightarrow> bool" where
  "valve p b \<equiv> darlingtonoutput_getpin (hz_port (hz_config p)) b"

lemma handle_pwm_step:
  assumes "pin_valid (hz_port (hz_config p)) b" and "pwm_counter p < pwm_end p" "pwm_width p \<le> pwm_end p"
    and "valve p b = (pwm_counter p < pwm_width p)" and "heizung_handle_pwm p b = (p', b')"
  shows "p' = p\<lparr>pwm_counter := pwm_counter p'\<rparr>" "pin_valid (hz_port (hz_config p')) b'"
    "unat (pwm_counter p') = Suc (unat (pwm_counter p)) mod unat (pwm_end p)"
    "valve p' b' = (pwm_counter p' < pwm_width p')"
proof -
  have lt: "unat (pwm_counter p) < unat (pwm_end p)" using assms(2) by (simp add: word_less_nat_alt)
  have "unat (pwm_counter p) + 1 < 2 ^ LENGTH(16)" using lt unat_u16_less [of "pwm_end p"] by simp
  then have inc: "unat (pwm_counter p + 1) = Suc (unat (pwm_counter p))" by (simp add: unat_plus_one_lt)
  show "p' = p\<lparr>pwm_counter := pwm_counter p'\<rparr>" "pin_valid (hz_port (hz_config p')) b'"
    using assms(1,5) by (auto simp: heizung_handle_pwm_def Let_def dout.valid_set split: if_splits)
  show "unat (pwm_counter p') = Suc (unat (pwm_counter p)) mod unat (pwm_end p)"
    using assms(5) lt inc
    by (auto simp: heizung_handle_pwm_def Let_def word_le_nat_alt mod_Suc split: if_splits)
  show "valve p' b' = (pwm_counter p' < pwm_width p')"
    using assms inc
    by (auto simp: heizung_handle_pwm_def Let_def dout.get_set_same dout.valid_set word_le_nat_alt
        word_less_nat_alt split: if_splits)
qed

text \<open>C13: The pulse width modulation is exact. With a period of \<open>e\<close> and a width of \<open>w \<le>
  e\<close> seconds, from a phase \<open>c\<close> of the period in which the valve output agrees with it, after
  \<open>n\<close> ticks the valve output is on just when the phase \<open>(c + n) mod e\<close> is below
  \<open>w\<close>, so it is on for \<open>w\<close> of every \<open>e\<close> seconds.\<close>

theorem heizung_pwm_duty:
  assumes "pin_valid (hz_port (hz_config p)) b" and "pwm_counter p < pwm_end p" "pwm_width p \<le> pwm_end p"
    and "valve p b = (pwm_counter p < pwm_width p)"
  shows "case pwm_ticks n p b of (p', b') \<Rightarrow>
    valve p' b' = ((unat (pwm_counter p) + n) mod unat (pwm_end p) < unat (pwm_width p))"
proof -
  have "case pwm_ticks n p b of (p', b') \<Rightarrow> p' = p\<lparr>pwm_counter := pwm_counter p'\<rparr> \<and>
      pin_valid (hz_port (hz_config p')) b' \<and>
      unat (pwm_counter p') = (unat (pwm_counter p) + n) mod unat (pwm_end p) \<and>
      valve p' b' = (pwm_counter p' < pwm_width p')"
  proof (induction n)
    case 0
    then show ?case using assms by (simp add: word_less_nat_alt)
  next
    case (Suc n)
    obtain p1 b1 where r: "pwm_ticks n p b = (p1, b1)" by (cases "pwm_ticks n p b")
    obtain p2 b2 where h: "heizung_handle_pwm p1 b1 = (p2, b2)" by (cases "heizung_handle_pwm p1 b1")
    from Suc r have IH: "p1 = p\<lparr>pwm_counter := pwm_counter p1\<rparr>" "pin_valid (hz_port (hz_config p1)) b1"
      "unat (pwm_counter p1) = (unat (pwm_counter p) + n) mod unat (pwm_end p)"
      "valve p1 b1 = (pwm_counter p1 < pwm_width p1)" by simp_all
    have eq: "pwm_end p1 = pwm_end p" "pwm_width p1 = pwm_width p" by (subst IH(1), simp)+
    have "pwm_counter p1 < pwm_end p1"
      using IH(3) assms(2) eq by (simp add: word_less_nat_alt)
    moreover have "pwm_width p1 \<le> pwm_end p1" using assms(3) eq by simp
    ultimately have st: "p2 = p1\<lparr>pwm_counter := pwm_counter p2\<rparr>" "pin_valid (hz_port (hz_config p2)) b2"
      "unat (pwm_counter p2) = Suc (unat (pwm_counter p1)) mod unat (pwm_end p1)"
      "valve p2 b2 = (pwm_counter p2 < pwm_width p2)"
      using handle_pwm_step [OF IH(2) _ _ IH(4) h] by blast+
    have "p2 = p\<lparr>pwm_counter := pwm_counter p2\<rparr>" by (subst st(1), subst IH(1), simp)
    then show ?case using st(2-4) IH(3) eq r h by (simp add: mod_Suc_eq)
  qed
  moreover obtain p' b' where "pwm_ticks n p b = (p', b')" by (cases "pwm_ticks n p b")
  moreover have "pwm_width p' = pwm_width p" if "p' = p\<lparr>pwm_counter := pwm_counter p'\<rparr>"
    by (subst that) simp
  ultimately show ?thesis by (auto simp: word_less_nat_alt)
qed

definition ex_heizung :: device_data_heizung where
  "ex_heizung = \<lparr>hz_config = \<lparr>hz_id = 67, hz_port = 3, pwm_periode = 30, sensor_id = 40,
      solltemp_lines = replicate 8 (1, 320), hz_feature = 0, hysterese = 8, reeds = [50, 51, 0, 0, 0, 0, 0, 0]\<rparr>,
    hz_it = 34, mode = MODE_THERMOSTAT, manual_rate = 0, timer_counter = 0, pwm_counter = 20, pwm_width = 0,
    pwm_end = 30, waermebedarf_counter = 7, received_interval_counter = 0, measure_value = 300,
    duration_counter = 0, thermostat_temp = 320, reed_heiz_stop_counter = 0, ventilpflege_counter = 0\<rparr>"

theorem heizung_pwm_duty_witness:
  "case pwm_ticks 15 (ex_heizung\<lparr>pwm_width := 10\<rparr>) ex_board of (p', b') \<Rightarrow> valve p' b'"
proof -
  let ?p = "ex_heizung\<lparr>pwm_width := 10\<rparr>"
  have "pin_valid (hz_port (hz_config ?p)) ex_board" "pwm_counter ?p < pwm_end ?p" "pwm_width ?p \<le> pwm_end ?p"
    "valve ?p ex_board = (pwm_counter ?p < pwm_width ?p)"
    by (simp_all add: ex_heizung_def pin_valid_def ex_board_def darlingtonoutput_getpin_def)
  from heizung_pwm_duty [OF this, of 15] show ?thesis by (simp add: ex_heizung_def)
qed

section \<open>The heating stop\<close>

lemma pins_of_log [simp]:
  "darlingtonoutput_getpin n (canix_syslog_P pr f as b) = darlingtonoutput_getpin n b"
  "pin_valid n (canix_syslog_P pr f as b) = pin_valid n b"
  "darlingtonoutput_getpin n (raise_fault b) = darlingtonoutput_getpin n b"
  "pin_valid n (raise_fault b) = pin_valid n b"
  "pin_valid n (send_prio d x q b) = pin_valid n b"
  by (simp_all add: canix_syslog_P_def raise_fault_def send_prio_def pin_valid_def
      darlingtonoutput_getpin_def)

text \<open>What a stopped circuit looks like: \<open>r\<close> is the stop counter.\<close>

definition stopped :: "u8 \<Rightarrow> u8 \<Rightarrow> device_data_heizung \<Rightarrow> board \<Rightarrow> bool" where
  "stopped port r p b = (hz_port (hz_config p) = port \<and> pin_valid port b \<and> mode p \<noteq> MODE_OFF \<and>
     reed_heiz_stop_counter p = r)"

lemma ventilpflege_not_off: "mode p \<noteq> MODE_OFF \<Longrightarrow> heizung_check_ventilpflege p b = (p, b)"
  by (simp add: heizung_check_ventilpflege_def)

lemma handle_pwm_facts:
  assumes "heizung_handle_pwm p b = (p', b')"
  shows "hz_config p' = hz_config p" "mode p' = mode p" "reed_heiz_stop_counter p' = reed_heiz_stop_counter p"
    "pwm_width p' = pwm_width p" "pin_valid n b' = pin_valid n b" "timer_counter p' = timer_counter p"
    "duration_counter p' = duration_counter p"
    "pwm_width p = 0 \<Longrightarrow> pin_valid (hz_port (hz_config p)) b \<Longrightarrow> \<not> darlingtonoutput_getpin (hz_port (hz_config p)) b'"
  using assms by (auto simp: heizung_handle_pwm_def Let_def dout.valid_set dout.get_set_same split: if_splits)

lemma counters_stopped:
  assumes "stopped port r p b" and "1 < r" and "heizung_counters p b = (p', b')"
  shows "stopped port (r - 1) p' b' \<and> pwm_width p' = 0 \<and>
    (pwm_width p = 0 \<longrightarrow> \<not> darlingtonoutput_getpin port b')"
proof -
  define p1 where "p1 = (if ventilpflege_counter p > 0
    then p\<lparr>ventilpflege_counter := ventilpflege_counter p - 1\<rparr> else p)"
  define p2 where "p2 = (if received_interval_counter p1 \<noteq> 0xff
    then p1\<lparr>received_interval_counter := received_interval_counter p1 + 1\<rparr> else p1)"
  have p2: "hz_config p2 = hz_config p" "mode p2 = mode p" "reed_heiz_stop_counter p2 = r"
    "pwm_width p2 = pwm_width p" "mode p1 = mode p"
    using assms(1) by (simp_all add: p1_def p2_def stopped_def)
  obtain p3 b3 where h: "heizung_handle_pwm p2 b = (p3, b3)" by (cases "heizung_handle_pwm p2 b")
  note f = handle_pwm_facts [OF h]
  have "unat r \<noteq> 1" "unat r \<noteq> 0" using assms(2) by (auto simp: word_less_nat_alt)
  then have r: "r \<noteq> 0" "r - 1 \<noteq> 0" "0 < r" by (auto simp: word_gt_zero_iff)
  define p4 where "p4 = (if duration_counter p3 > 0
    then (let p = p3\<lparr>duration_counter := duration_counter p3 - 1\<rparr>
          in if duration_counter p = 0 then p\<lparr>mode := MODE_AUTOMATIK\<rparr> else p) else p3)"
  have p4: "hz_config p4 = hz_config p" "mode p4 \<noteq> MODE_OFF" "reed_heiz_stop_counter p4 = r"
    using f p2 assms(1) by (simp_all add: p4_def Let_def stopped_def)
  have "heizung_counters p b = heizung_update_heizstop (p4\<lparr>reed_heiz_stop_counter := r - 1\<rparr>) b3"
    unfolding heizung_counters_def
    using assms(1) p2(5) h p4(3) r
    by (simp add: Let_def p1_def [symmetric] ventilpflege_not_off stopped_def p2_def [symmetric] p4_def [symmetric])
  then have "p' = p4\<lparr>reed_heiz_stop_counter := r - 1, pwm_end := ucast (pwm_periode (hz_config p)), pwm_width := 0\<rparr>"
    "\<forall>n. darlingtonoutput_getpin n b' = darlingtonoutput_getpin n b3" "pin_valid port b' = pin_valid port b3"
    using assms(3) r p4 by (auto simp: heizung_update_heizstop_def)
  then show ?thesis
    using assms(1) f(5,8) p2 p4 by (auto simp: stopped_def)
qed

lemma set_pwm_stopped:
  assumes "reed_heiz_stop_counter p \<noteq> 0"
  shows "heizung_set_pwm rate p b =
    (p\<lparr>pwm_end := ucast (pwm_periode (hz_config p)), pwm_width := 0\<rparr>,
     canix_syslog_P SYSLOG_PRIO_DEBUG ''Heizstop aktiv (id=%d)'' [uint (hz_id (hz_config p))] b)"
  using assms by (simp add: heizung_set_pwm_def heizung_update_heizstop_def)

lemma by_temp_stopped:
  assumes "reed_heiz_stop_counter p \<noteq> 0" and "pwm_width p = 0"
    and "heizung_set_pwm_by_temp soll ist p b = (p', b')"
  shows "hz_config p' = hz_config p \<and> mode p' = mode p \<and>
    reed_heiz_stop_counter p' = reed_heiz_stop_counter p \<and> pwm_width p' = 0 \<and>
    darlingtonoutput_getpin n b' = darlingtonoutput_getpin n b \<and> pin_valid n b' = pin_valid n b"
  using assms
  by (auto simp: heizung_set_pwm_by_temp_def set_pwm_stopped Let_def split: option.splits if_splits)

lemma regulate_stopped:
  assumes "stopped port r p b" and "r \<noteq> 0" "pwm_width p = 0" and "heizung_regulate zm p b = (p', b', ret)"
  shows "\<not> ret \<and> stopped port r p' b' \<and> pwm_width p' = 0 \<and>
    darlingtonoutput_getpin port b' = darlingtonoutput_getpin port b"
proof -
  have r: "reed_heiz_stop_counter p \<noteq> 0" using assms(1,2) by (simp add: stopped_def)
  show ?thesis
    using assms by_temp_stopped [OF r assms(3)]
    by (cases "mode p") (auto simp: heizung_regulate_def stopped_def set_pwm_stopped Let_def
        split: option.splits if_splits prod.splits)
qed

lemma waermebedarf_facts:
  assumes "heizung_waermebedarf p b = (p', b')"
  shows "hz_config p' = hz_config p \<and> mode p' = mode p \<and>
    reed_heiz_stop_counter p' = reed_heiz_stop_counter p \<and> pwm_width p' = pwm_width p \<and>
    darlingtonoutput_getpin n b' = darlingtonoutput_getpin n b \<and> pin_valid n b' = pin_valid n b"
  using assms by (auto simp: heizung_waermebedarf_def Let_def split: option.splits if_splits)

lemma timer_stopped:
  assumes "stopped port r p b" and "1 < r" and "heizung_timer_handler zm p b = (p', b')"
  shows "stopped port (r - 1) p' b' \<and> pwm_width p' = 0 \<and>
    (pwm_width p = 0 \<longrightarrow> \<not> darlingtonoutput_getpin port b')"
proof -
  obtain p1 b1 where c: "heizung_counters p b = (p1, b1)" by (cases "heizung_counters p b")
  note cs = counters_stopped [OF assms(1,2) c]
  have r: "r - 1 \<noteq> 0" using assms(2) by (auto simp: word_less_nat_alt)
  have reg: "\<And>p2 b2 ret. heizung_regulate zm (p1\<lparr>timer_counter := 0\<rparr>) b1 = (p2, b2, ret) \<Longrightarrow>
      \<not> ret \<and> stopped port (r - 1) p2 b2 \<and> pwm_width p2 = 0 \<and>
      darlingtonoutput_getpin port b2 = darlingtonoutput_getpin port b1"
    using cs r by (intro regulate_stopped [where p = "p1\<lparr>timer_counter := 0\<rparr>"]) (auto simp: stopped_def)
  have wb: "\<And>q x q' x'. heizung_waermebedarf q x = (q', x') \<Longrightarrow> stopped port (r - 1) q x \<Longrightarrow> pwm_width q = 0 \<Longrightarrow>
      stopped port (r - 1) q' x' \<and> pwm_width q' = 0 \<and>
      darlingtonoutput_getpin port x' = darlingtonoutput_getpin port x"
    using waermebedarf_facts by (simp add: stopped_def)
  have inc: "stopped port (r - 1) (p1\<lparr>timer_counter := t\<rparr>) b1" for t using cs by (simp add: stopped_def)
  show ?thesis
  proof (cases "timer_counter p1 \<ge> 5")
    case True
    obtain p2 b2 ret where rg: "heizung_regulate zm (p1\<lparr>timer_counter := 0\<rparr>) b1 = (p2, b2, ret)"
      by (rule prod_cases3)
    with True assms(3) c reg [OF rg] have "heizung_waermebedarf p2 b2 = (p', b')"
      by (simp add: heizung_timer_handler_def)
    from wb [OF this] reg [OF rg] cs show ?thesis by simp
  next
    case False
    with assms(3) c have "heizung_waermebedarf (p1\<lparr>timer_counter := timer_counter p1 + 1\<rparr>) b1 = (p', b')"
      by (simp add: heizung_timer_handler_def)
    from wb [OF this inc] cs show ?thesis by simp
  qed
qed

primrec heizung_ticks :: "(u8 \<Rightarrow> bool) \<Rightarrow> nat \<Rightarrow> device_data_heizung \<Rightarrow> board \<Rightarrow> device_data_heizung \<times> board" where
  "heizung_ticks zm 0 p b = (p, b)"
| "heizung_ticks zm (Suc n) p b = (let (p1, b1) = heizung_ticks zm n p b in heizung_timer_handler zm p1 b1)"

text \<open>C14: While a window is open the heating is off: after the window message has set the stop counter (60
  seconds), a circuit in any mode except \<open>MODE_OFF\<close> has its valve closed after every tick from the second
  one on, whatever the temperature, until the stop counter has run out. In \<open>MODE_OFF\<close> the weekly care of
  the valve may open it, and the first tick may still open it.\<close>

theorem heizung_window_stop:
  assumes "pin_valid (hz_port (hz_config p)) b" and "mode p \<noteq> MODE_OFF"
    and "2 \<le> n" and "n < unat (reed_heiz_stop_counter p)"
  shows "case heizung_ticks zm n p b of (p', b') \<Rightarrow> \<not> darlingtonoutput_getpin (hz_port (hz_config p)) b'"
proof -
  let ?r = "reed_heiz_stop_counter p" and ?port = "hz_port (hz_config p)"
  have "m < unat ?r \<Longrightarrow> (case heizung_ticks zm m p b of (p', b') \<Rightarrow> stopped ?port (?r - of_nat m) p' b' \<and>
      (1 \<le> m \<longrightarrow> pwm_width p' = 0) \<and> (2 \<le> m \<longrightarrow> \<not> darlingtonoutput_getpin ?port b'))" for m
  proof (induction m)
    case 0
    then show ?case using assms(1,2) by (simp add: stopped_def)
  next
    case (Suc m)
    obtain p1 b1 where r: "heizung_ticks zm m p b = (p1, b1)" by (cases "heizung_ticks zm m p b")
    obtain p2 b2 where h: "heizung_timer_handler zm p1 b1 = (p2, b2)" by (cases "heizung_timer_handler zm p1 b1")
    from Suc r have IH: "stopped ?port (?r - of_nat m) p1 b1" "1 \<le> m \<longrightarrow> pwm_width p1 = 0" by simp_all
    have "unat (?r - of_nat m) = unat ?r - m"
      using Suc.prems unat_u8_less [of ?r] by (simp add: unat_sub word_le_nat_alt unat_of_nat)
    then have "1 < ?r - of_nat m" using Suc.prems by (simp add: word_less_nat_alt)
    from timer_stopped [OF IH(1) this h] IH(2) r h show ?case by (simp add: algebra_simps)
  qed
  from this [OF assms(4)] assms(3) show ?thesis by (simp split: prod.splits)
qed

theorem heizung_window_stop_witness:
  "case heizung_ticks (\<lambda>_. True) 10 (fst (heizung_can_callback (\<lambda>_. True)
      \<lparr>fr_src = 9, fr_dst = 36, fr_proto = 1, fr_size = 3, fr_data = [5, HCAN_HES_REEDKONTAKT_OFFEN, 51]\<rparr>
      ex_heizung ex_board)) ex_board of (p', b') \<Rightarrow> \<not> darlingtonoutput_getpin 3 b'"
proof -
  let ?p = "ex_heizung\<lparr>reed_heiz_stop_counter := 60\<rparr>"
  have "fst (heizung_can_callback (\<lambda>_. True) \<lparr>fr_src = 9, fr_dst = 36, fr_proto = 1, fr_size = 3,
      fr_data = [5, HCAN_HES_REEDKONTAKT_OFFEN, 51]\<rparr> ex_heizung ex_board) = ?p"
    by (simp add: heizung_can_callback_def ex_heizung_def)
  moreover have "case heizung_ticks (\<lambda>_. True) 10 ?p ex_board of (p', b') \<Rightarrow>
      \<not> darlingtonoutput_getpin (hz_port (hz_config ?p)) b'"
    by (rule heizung_window_stop) (simp_all add: ex_heizung_def pin_valid_def ex_board_def)
  ultimately show ?thesis by (simp add: ex_heizung_def)
qed

section \<open>The contract of the driver\<close>

definition hz_quiet :: "device_data_heizung \<Rightarrow> board \<Rightarrow> device_data_heizung \<times> board \<Rightarrow> bool" where
  "hz_quiet p b r = (hz_config (fst r) = hz_config p \<and> (\<forall>n. pin_valid n (snd r) = pin_valid n b) \<and>
     (\<forall>n. n \<noteq> hz_port (hz_config p) \<longrightarrow> darlingtonoutput_getpin n (snd r) = darlingtonoutput_getpin n b))"

lemma heizstop_quiet: "hz_quiet p b (heizung_update_heizstop p b)"
  by (simp add: hz_quiet_def heizung_update_heizstop_def)

lemma set_pwm_quiet: "hz_quiet p b (heizung_set_pwm r p b)"
  using heizstop_quiet [of p b] by (simp add: heizung_set_pwm_def Let_def) (simp add: hz_quiet_def)

lemmas hz_quiet_parts = set_pwm_quiet [unfolded hz_quiet_def] heizstop_quiet [unfolded hz_quiet_def]

lemma by_temp_quiet: "hz_quiet p b (heizung_set_pwm_by_temp so ist p b)"
  by (simp add: hz_quiet_def heizung_set_pwm_by_temp_def hz_quiet_parts Let_def case_prod_unfold split: option.splits)

lemma quiet_let:
  "hz_config v = hz_config p \<Longrightarrow> (\<And>v'. hz_config v' = hz_config p \<Longrightarrow> hz_quiet v' b (f v')) \<Longrightarrow>
    hz_quiet p b (let x = v in f x)"
  by (simp add: hz_quiet_def)

lemma quiet_bind:
  "hz_quiet p b x \<Longrightarrow> (\<And>p' b'. hz_quiet p' b' (f p' b')) \<Longrightarrow> hz_quiet p b (let (p', b') = x in f p' b')"
  by (cases x) (simp add: hz_quiet_def)

lemma ventilpflege_quiet: "hz_quiet p b (heizung_check_ventilpflege p b)"
  by (simp add: hz_quiet_def heizung_check_ventilpflege_def Let_def)

lemma handle_pwm_quiet: "hz_quiet p b (heizung_handle_pwm p b)"
  by (simp add: hz_quiet_def heizung_handle_pwm_def Let_def)

lemma counters_quiet: "hz_quiet p b (heizung_counters p b)"
  unfolding heizung_counters_def
  by (rule quiet_let quiet_bind ventilpflege_quiet handle_pwm_quiet heizstop_quiet | simp add: hz_quiet_def Let_def)+

lemma regulate_quiet:
  "hz_quiet p b (let (p', b', _) = heizung_regulate zm p b in (p', b'))"
  by (simp add: hz_quiet_def heizung_regulate_def hz_quiet_parts by_temp_quiet [unfolded hz_quiet_def] Let_def
     case_prod_unfold split: hz_mode.splits option.splits)

lemma waermebedarf_quiet: "hz_quiet p b (heizung_waermebedarf p b)"
  by (simp add: hz_quiet_def heizung_waermebedarf_def Let_def split: option.splits)

interpretation heizung_tick: output_driver "heizung_timer_handler zm" "\<lambda>p. [hz_port (hz_config p)]" for zm
  using counters_quiet regulate_quiet waermebedarf_quiet
  by unfold_locales
   (simp_all add: hz_quiet_def heizung_timer_handler_def Let_def case_prod_unfold)

lemma details_pins [simp]:
  "darlingtonoutput_getpin n (heizung_details zm f p b) = darlingtonoutput_getpin n b"
  "pin_valid n (heizung_details zm f p b) = pin_valid n b"
  by (simp_all add: heizung_details_def hz_reply_def Let_def split: hz_mode.splits option.splits)

interpretation heizung_frame: output_driver "heizung_can_callback zm f" "\<lambda>p. [hz_port (hz_config p)]" for zm f
  by unfold_locales
   (simp_all add: heizung_can_callback_def heizung_write_line_def hz_reply_def eeprom_write_word_def Let_def)

end
