(* ===== verification/Powerport.thy ===== *)
theory Powerport
  imports Zeitzone
begin

text \<open>
  Switched outlets (\<open>powerport.c\<close>): an output that groups of push buttons and group commands switch,
  with the timer features delayed on, automatic off and run-on, the alarm timer that user panels
  set, and bistable relays, which are switched by a pulse. \<open>canix_sleep_100th\<close> in the pulse runs the main loop; here the pulse is
  one step, in which the pin goes on and off again.
\<close>

section \<open>Data\<close>

record eds_powerport_block_t =
  pp_port :: u8
  pp_feature :: u8
  pp_gruppen :: "u8 list"

record device_data_powerport =
  pp_config :: eds_powerport_block_t
  countDownTimer :: u16
  bistableRelaisState :: u8

abbreviation (input) POWERPORT_FEATURE_BISTABLE_RELAIS :: nat where "POWERPORT_FEATURE_BISTABLE_RELAIS \<equiv> 0"
abbreviation (input) POWERPORT_FEATURE_VERZOEGERT_EIN :: nat where "POWERPORT_FEATURE_VERZOEGERT_EIN \<equiv> 1"
abbreviation (input) POWERPORT_FEATURE_AUTO_AUS :: nat where "POWERPORT_FEATURE_AUTO_AUS \<equiv> 2"
abbreviation (input) POWERPORT_FEATURE_NACHLAUF :: nat where "POWERPORT_FEATURE_NACHLAUF \<equiv> 3"
abbreviation (input) POWERPORT_FEATURE_WECK_VERZOEGERT_EIN :: nat where "POWERPORT_FEATURE_WECK_VERZOEGERT_EIN \<equiv> 4"
abbreviation (input) POWERPORT_FEATURE_WECK_AUTO_AUS :: nat where "POWERPORT_FEATURE_WECK_AUTO_AUS \<equiv> 5"

datatype flanke = FALLENDE_FLANKE | STEIGENDE_FLANKE

definition pp_has :: "nat \<Rightarrow> device_data_powerport \<Rightarrow> bool" where
  "pp_has n p = bit (pp_feature (pp_config p)) n"

text \<open>\<open>gruppe0\<close> and \<open>gruppe3\<close> of the configuration; the latter is the delay of the timer.\<close>

definition pp_gruppe :: "nat \<Rightarrow> device_data_powerport \<Rightarrow> u8" where
  "pp_gruppe i p = pp_gruppen (pp_config p) ! i"

section \<open>Operations\<close>

text \<open>A delay byte: seconds if the top bit is set, minutes otherwise (shared with \<open>lichtzone.c\<close>).\<close>

definition timer_delay_seconds :: "u8 \<Rightarrow> u16" where
  "timer_delay_seconds d = (if bit d 7 then ucast (d AND 0x7f) else ucast d * 60)"

definition powerport_setup_timer :: "device_data_powerport \<Rightarrow> device_data_powerport" where
  "powerport_setup_timer p = p\<lparr>countDownTimer := timer_delay_seconds (pp_gruppe 3 p)\<rparr>"

definition powerport_get :: "device_data_powerport \<Rightarrow> board \<Rightarrow> bool" where
  "powerport_get p b =
     (if pp_has POWERPORT_FEATURE_BISTABLE_RELAIS p then bistableRelaisState p \<noteq> 0
      else darlingtonoutput_getpin (pp_port (pp_config p)) b)"

definition powerport_send_state_info :: "device_data_powerport \<Rightarrow> board \<Rightarrow> board" where
  "powerport_send_state_info p b =
     send_prio HCAN_MULTICAST_INFO [HCAN_SRV_HES, HCAN_HES_POWER_GROUP_STATE_INFO, pp_gruppe 0 p,
       if powerport_get p b then 1 else 0] HCAN_PRIO_LOW b"

definition relais_on :: "device_data_powerport \<Rightarrow> board \<Rightarrow> device_data_powerport \<times> board" where
  "relais_on p b =
    (let port = pp_port (pp_config p);
         (p1, b1) = (if pp_has POWERPORT_FEATURE_BISTABLE_RELAIS p
            then (p\<lparr>bistableRelaisState := bistableRelaisState p XOR 1\<rparr>,
                  darlingtonoutput_setpin port False (darlingtonoutput_setpin port True b))
            else (p, darlingtonoutput_setpin port True b))
     in (p1, powerport_send_state_info p1 b1))"

definition relais_off :: "device_data_powerport \<Rightarrow> board \<Rightarrow> board" where
  "relais_off p b = powerport_send_state_info p (darlingtonoutput_setpin (pp_port (pp_config p)) False b)"

definition set_powerport_or_timer ::
  "device_data_powerport \<Rightarrow> flanke \<Rightarrow> board \<Rightarrow> device_data_powerport \<times> board" where
  "set_powerport_or_timer p fl b =
    (case fl of
       STEIGENDE_FLANKE \<Rightarrow>
         (if pp_has POWERPORT_FEATURE_AUTO_AUS p
          then (let (p, b) = relais_on p b in (powerport_setup_timer p, b))
          else if pp_has POWERPORT_FEATURE_VERZOEGERT_EIN p then (powerport_setup_timer p, b)
          else (let (p, b) = relais_on p b in (p\<lparr>countDownTimer := 0\<rparr>, b)))
     | FALLENDE_FLANKE \<Rightarrow>
         (if pp_has POWERPORT_FEATURE_NACHLAUF p then (powerport_setup_timer p, b)
          else (p\<lparr>countDownTimer := 0\<rparr>, relais_off p b)))"

definition powerport_toggle :: "device_data_powerport \<Rightarrow> board \<Rightarrow> device_data_powerport \<times> board" where
  "powerport_toggle p b =
    (if darlingtonoutput_getpin (pp_port (pp_config p)) b
     then set_powerport_or_timer p FALLENDE_FLANKE b
     else set_powerport_or_timer p STEIGENDE_FLANKE b)"

definition powerport_init :: "device_data_powerport \<Rightarrow> device_data_powerport" where
  "powerport_init p = p\<lparr>countDownTimer := 0\<rparr>"

definition clear_feature :: "nat \<Rightarrow> device_data_powerport \<Rightarrow> device_data_powerport" where
  "clear_feature n p = p\<lparr>pp_config := (pp_config p)\<lparr>pp_feature := unset_bit n (pp_feature (pp_config p))\<rparr>\<rparr>"

text \<open>What happens when the timer runs out.\<close>

definition timer_abgelaufen :: "device_data_powerport \<Rightarrow> board \<Rightarrow> device_data_powerport \<times> board" where
  "timer_abgelaufen p b =
    (if pp_has POWERPORT_FEATURE_WECK_VERZOEGERT_EIN p
     then (let (p, b) = relais_on p b
           in (powerport_setup_timer (clear_feature POWERPORT_FEATURE_WECK_VERZOEGERT_EIN p), b))
     else if pp_has POWERPORT_FEATURE_WECK_AUTO_AUS p
     then (clear_feature POWERPORT_FEATURE_WECK_AUTO_AUS p, relais_off p b)
     else if pp_has POWERPORT_FEATURE_VERZOEGERT_EIN p then relais_on p b
     else if pp_has POWERPORT_FEATURE_AUTO_AUS p \<or> pp_has POWERPORT_FEATURE_NACHLAUF p
     then (p, relais_off p b)
     else (p, b))"

definition powerport_timer_handler :: "device_data_powerport \<Rightarrow> board \<Rightarrow> device_data_powerport \<times> board" where
  "powerport_timer_handler p b =
    (if countDownTimer p > 0
     then (let (p, b) = (if countDownTimer p = 1 then timer_abgelaufen p b else (p, b))
           in (p\<lparr>countDownTimer := countDownTimer p - 1\<rparr>, b))
     else (p, b))"

definition powerport_set :: "device_data_powerport \<Rightarrow> u8 \<Rightarrow> board \<Rightarrow> board" where
  "powerport_set p state b = darlingtonoutput_setpin (pp_port (pp_config p)) (state \<noteq> 0) b"

definition powerport_is_in_group :: "device_data_powerport \<Rightarrow> u8 \<Rightarrow> bool" where
  "powerport_is_in_group p gr =
     (gr \<noteq> 255 \<and>
      gr \<in> set (take (if pp_has POWERPORT_FEATURE_AUTO_AUS p then 3 else 4) (pp_gruppen (pp_config p))))"

text \<open>\<open>feature |= 1 << n\<close>: the shifted constant is an \<open>int\<close> of 16 bits and is cut to a byte; a shift
  of 16 or more is undefined.\<close>

definition wecker_set :: "u8 list \<Rightarrow> device_data_powerport \<Rightarrow> board \<Rightarrow> device_data_powerport \<times> board" where
  "wecker_set d p b =
    (if 16 \<le> d ! 3 then (p, raise_fault b)
     else (let c = pp_config p;
               p1 = p\<lparr>pp_config := c\<lparr>pp_feature := pp_feature c OR ucast (push_bit (unat (d ! 3)) (1 :: u16))\<rparr>,
                      countDownTimer := word16 (d ! 4) (d ! 5)\<rparr>
           in if pp_has POWERPORT_FEATURE_WECK_AUTO_AUS p1 then relais_on p1 b else (p1, b)))"

definition powerport_can_callback ::
  "canix_frame \<Rightarrow> device_data_powerport \<Rightarrow> board \<Rightarrow> device_data_powerport \<times> board" where
  "powerport_can_callback f p b =
    (let d = fr_data f; cmd = d ! 1 in
     if \<not> powerport_is_in_group p (d ! 2) then (p, b)
     else if cmd = HCAN_HES_TASTER_DOWN then powerport_toggle p b
     else if cmd = HCAN_HES_POWER_GROUP_ON then set_powerport_or_timer p STEIGENDE_FLANKE b
     else if cmd = HCAN_HES_POWER_GROUP_OFF then set_powerport_or_timer p FALLENDE_FLANKE b
     else if cmd = HCAN_HES_POWER_GROUP_STATE_QUERY
     then (p, send_prio (fr_src f) [HCAN_SRV_HES, HCAN_HES_POWER_GROUP_STATE_REPLAY, d ! 2,
             if powerport_get p b then 1 else 0] HCAN_PRIO_HI b)
     else if cmd = HCAN_HES_WECKER_SET
     then (if pp_gruppe 0 p = d ! 2 then wecker_set d p b else (p, b))
     else if cmd = HCAN_HES_WECKER_DETAILS_REQUEST
     then (if pp_gruppe 0 p = d ! 2
           then (p, send_prio (fr_src f) [HCAN_SRV_HES, HCAN_HES_WECKER_DETAILS, pp_gruppe 0 p,
                   hi8 (countDownTimer p), lo8 (countDownTimer p)] HCAN_PRIO_HI b)
           else (p, b))
     else (p, b))"

section \<open>The timer features\<close>

lemma pp_send_simps [simp]:
  "darlingtonoutput_getpin n (powerport_send_state_info p b) = darlingtonoutput_getpin n b"
  "pin_valid n (powerport_send_state_info p b) = pin_valid n b"
  by (simp_all add: powerport_send_state_info_def)

text \<open>A port with a plain relay and no alarm pending.\<close>

definition pp_plain :: "device_data_powerport \<Rightarrow> board \<Rightarrow> bool" where
  "pp_plain p b = (pin_valid (pp_port (pp_config p)) b \<and> \<not> pp_has POWERPORT_FEATURE_BISTABLE_RELAIS p \<and>
     \<not> pp_has POWERPORT_FEATURE_WECK_VERZOEGERT_EIN p \<and> \<not> pp_has POWERPORT_FEATURE_WECK_AUTO_AUS p)"

lemma relais_on_plain:
  assumes "pp_plain p b" and "relais_on p b = (p', b')"
  shows "p' = p" "pp_plain p b'" "powerport_get p b'"
  using assms by (auto simp: relais_on_def pp_plain_def powerport_get_def dout.valid_set dout.get_set_same)

lemma relais_off_plain:
  assumes "pp_plain p b"
  shows "pp_plain p (relais_off p b)" "\<not> powerport_get p (relais_off p b)"
  using assms by (auto simp: relais_off_def pp_plain_def powerport_get_def dout.valid_set dout.get_set_same)

text \<open>The output after the timer has run out.\<close>

definition expired :: "device_data_powerport \<Rightarrow> bool \<Rightarrow> bool" where
  "expired p v = (if pp_has POWERPORT_FEATURE_VERZOEGERT_EIN p then True
     else if pp_has POWERPORT_FEATURE_AUTO_AUS p \<or> pp_has POWERPORT_FEATURE_NACHLAUF p then False else v)"

lemma abgelaufen_plain:
  assumes "pp_plain p b" and "timer_abgelaufen p b = (p', b')"
  shows "p' = p \<and> pp_plain p b' \<and> powerport_get p b' = expired p (powerport_get p b)"
  using assms relais_on_plain [OF assms(1)] relais_off_plain [OF assms(1)]
  by (auto simp: timer_abgelaufen_def expired_def pp_plain_def split: if_splits)

primrec pp_ticks :: "nat \<Rightarrow> device_data_powerport \<Rightarrow> board \<Rightarrow> device_data_powerport \<times> board" where
  "pp_ticks 0 p b = (p, b)"
| "pp_ticks (Suc n) p b = (let (p1, b1) = pp_ticks n p b in powerport_timer_handler p1 b1)"

lemma pp_timer_irrelevant [simp]:
  "pp_plain (p\<lparr>countDownTimer := t\<rparr>) b = pp_plain p b"
  "powerport_get (p\<lparr>countDownTimer := t\<rparr>) b = powerport_get p b"
  "expired (p\<lparr>countDownTimer := t\<rparr>) v = expired p v"
  by (simp_all add: pp_plain_def pp_has_def powerport_get_def expired_def)

lemma pp_ticks_plain:
  assumes "pp_plain p b"
  shows "\<exists>b'. pp_ticks n p b = (p\<lparr>countDownTimer := countDownTimer p - of_nat (min n (unat (countDownTimer p)))\<rparr>, b') \<and>
    pp_plain p b' \<and> powerport_get p b' =
      (if 0 < unat (countDownTimer p) \<and> unat (countDownTimer p) \<le> n then expired p (powerport_get p b)
       else powerport_get p b)"
proof (induction n)
  case 0
  then show ?case using assms by auto
next
  case (Suc n)
  let ?t = "countDownTimer p"
  let ?q = "p\<lparr>countDownTimer := ?t - of_nat (min n (unat ?t))\<rparr>"
  obtain b1 where b1: "pp_ticks n p b = (?q, b1)" "pp_plain p b1"
    "powerport_get p b1 = (if 0 < unat ?t \<and> unat ?t \<le> n then expired p (powerport_get p b) else powerport_get p b)"
    using Suc by blast
  have u: "unat (countDownTimer ?q) = unat ?t - min n (unat ?t)"
    by (simp add: unat_sub word_le_nat_alt unat_of_nat min.strict_coboundedI2 unat_u16_less take_bit_nat_eq_self)
  show ?case
  proof (cases "unat ?t \<le> n")
    case True
    then have "countDownTimer ?q = 0" by simp
    then show ?thesis using b1 True by (simp add: powerport_timer_handler_def min_def le_Suc_eq)
  next
    case False
    then have gt: "0 < countDownTimer ?q" using u by (simp add: word_less_nat_alt)
    have one: "(countDownTimer ?q = 1) = (unat ?t = Suc n)" using u False by (simp add: word_unat_eq_iff) arith
    have dec: "countDownTimer ?q - 1 = ?t - of_nat (min (Suc n) (unat ?t))" using False by (simp add: min_def algebra_simps)
    obtain p2 b2 where h: "timer_abgelaufen ?q b1 = (p2, b2)" by (cases "timer_abgelaufen ?q b1")
    have a: "p2 = ?q" "pp_plain p b2" "powerport_get p b2 = expired p (powerport_get p b1)"
      using abgelaufen_plain [of ?q b1, OF _ h] b1(2) by simp_all
    show ?thesis
    proof (cases "unat ?t = Suc n")
      case True
      then have "pp_ticks (Suc n) p b = (?q\<lparr>countDownTimer := countDownTimer ?q - 1\<rparr>, b2)"
        using b1(1) gt one h a(1) by (simp add: powerport_timer_handler_def)
      then show ?thesis using a b1(3) dec True by simp
    next
      case no: False
      then have "pp_ticks (Suc n) p b = (?q\<lparr>countDownTimer := countDownTimer ?q - 1\<rparr>, b1)"
        using b1(1) gt one by (simp add: powerport_timer_handler_def)
      then show ?thesis using b1 dec no False by simp
    qed
  qed
qed

text \<open>What the code does: the state of the output \<open>n\<close> seconds after a switching edge,
  from its state \<open>v\<close> before, its delay \<open>T\<close> and its features. A delay of zero never runs out.\<close>

definition powerport_spec :: "flanke \<Rightarrow> bool \<Rightarrow> bool \<Rightarrow> bool \<Rightarrow> nat \<Rightarrow> bool \<Rightarrow> nat \<Rightarrow> bool" where
  "powerport_spec fl verzoegert_ein auto_aus nachlauf T v n =
    (let over = 0 < T \<and> T \<le> n in
     case fl of
       STEIGENDE_FLANKE \<Rightarrow>
         (if auto_aus then verzoegert_ein \<or> \<not> over
          else if verzoegert_ein then v \<or> over
          else True)
     | FALLENDE_FLANKE \<Rightarrow>
         (if nachlauf then (if verzoegert_ein then v \<or> over else v \<and> \<not> over)
          else False))"

text \<open>With all combinations of features: a port with both delayed on and run-on goes on after an off command.\<close>

lemma powerport_timer_spec:
  assumes "pp_plain p b" and "set_powerport_or_timer p fl b = (p1, b1)" and "pp_ticks n p1 b1 = (p2, b2)"
  shows "powerport_get p2 b2 =
    powerport_spec fl (pp_has POWERPORT_FEATURE_VERZOEGERT_EIN p) (pp_has POWERPORT_FEATURE_AUTO_AUS p)
      (pp_has POWERPORT_FEATURE_NACHLAUF p) (unat (timer_delay_seconds (pp_gruppe 3 p)))
      (powerport_get p b) n"
proof -
  obtain q c where on: "relais_on p b = (q, c)" by (cases "relais_on p b")
  note on' = relais_on_plain [OF assms(1) on]
  note off = relais_off_plain [OF assms(1)]
  from assms(2) on on'(1) have "p1 \<in> {powerport_setup_timer p, p\<lparr>countDownTimer := 0\<rparr>}" "b1 \<in> {b, c, relais_off p b}"
    by (simp_all add: set_powerport_or_timer_def split: flanke.splits if_splits)
  then obtain t where p1: "p1 = p\<lparr>countDownTimer := t\<rparr>" and b1: "pp_plain p b1"
    using on'(2) off(1) assms(1) by (auto simp: powerport_setup_timer_def)
  then have pl: "pp_plain p1 b1" and ex: "expired p1 v = expired p v" "powerport_get p1 x = powerport_get p x" for v x
    by simp_all
  have get: "powerport_get p2 b2 = (if 0 < unat (countDownTimer p1) \<and> unat (countDownTimer p1) \<le> n
      then expired p (powerport_get p b1) else powerport_get p b1)"
    using pp_ticks_plain [OF pl, of n] assms(3) ex by auto
  then show ?thesis
  proof (cases fl)
    case STEIGENDE_FLANKE
    with assms(2) on on' have "b1 = (if pp_has POWERPORT_FEATURE_AUTO_AUS p \<or> \<not> pp_has POWERPORT_FEATURE_VERZOEGERT_EIN p
        then c else b)" "countDownTimer p1 = (if pp_has POWERPORT_FEATURE_AUTO_AUS p \<or> pp_has POWERPORT_FEATURE_VERZOEGERT_EIN p
        then timer_delay_seconds (pp_gruppe 3 p) else 0)"
      by (auto simp: set_powerport_or_timer_def powerport_setup_timer_def split: if_splits)
    with get STEIGENDE_FLANKE on'(3) show ?thesis by (simp add: powerport_spec_def expired_def)
  next
    case FALLENDE_FLANKE
    with assms(2) have "b1 = (if pp_has POWERPORT_FEATURE_NACHLAUF p then b else relais_off p b)"
      "countDownTimer p1 = (if pp_has POWERPORT_FEATURE_NACHLAUF p then timer_delay_seconds (pp_gruppe 3 p) else 0)"
      by (auto simp: set_powerport_or_timer_def powerport_setup_timer_def split: if_splits)
    with get FALLENDE_FLANKE off(2) show ?thesis by (simp add: powerport_spec_def expired_def)
  qed
qed

text \<open>The table of the timer features in \<open>powerport.h\<close>: the state of the port a feature applies to, the reaction to the
  trigger (\<open>None\<close>: none) and the reaction to the end of the timer.\<close>

datatype timer_feature = Verzoegert_ein | Auto_aus | Nachlauf

fun feature_table :: "timer_feature \<Rightarrow> bool \<times> bool option \<times> bool" where
  "feature_table Verzoegert_ein = (False, None, True)"
| "feature_table Auto_aus = (False, Some True, False)"
| "feature_table Nachlauf = (True, None, False)"

text \<open>What the table demands of the output, \<open>n\<close> seconds after a trigger in the state \<open>v\<close>, of a port with these features and
  the delay \<open>T\<close>: the feature that applies, or the plain switch when none does.\<close>

definition table_output :: "timer_feature list \<Rightarrow> nat \<Rightarrow> bool \<Rightarrow> nat \<Rightarrow> bool" where
  "table_output fs T v n =
    (case filter (\<lambda>f. fst (feature_table f) = v) fs of
       [] \<Rightarrow> \<not> v
     | f # _ \<Rightarrow> (case feature_table f of (_, r, x) \<Rightarrow> if T \<le> n then x else (case r of None \<Rightarrow> v | Some y \<Rightarrow> y)))"

definition timer_features :: "device_data_powerport \<Rightarrow> timer_feature list" where
  "timer_features p =
    (if pp_has POWERPORT_FEATURE_VERZOEGERT_EIN p then [Verzoegert_ein] else []) @
    (if pp_has POWERPORT_FEATURE_AUTO_AUS p then [Auto_aus] else []) @
    (if pp_has POWERPORT_FEATURE_NACHLAUF p then [Nachlauf] else [])"

text \<open>A trigger: the button, or the command that changes the state.\<close>

definition timer_trigger :: "canix_frame \<Rightarrow> device_data_powerport \<Rightarrow> board \<Rightarrow> bool" where
  "timer_trigger f p b \<longleftrightarrow> powerport_is_in_group p (fr_data f ! 2) \<and>
     (fr_data f ! 1 = HCAN_HES_TASTER_DOWN \<or>
      fr_data f ! 1 = (if powerport_get p b then HCAN_HES_POWER_GROUP_OFF else HCAN_HES_POWER_GROUP_ON))"

text \<open>C15: A port with a plain relay and a delay other than zero does what the table of the timer features in
  \<open>powerport.h\<close> says, at every second after a trigger: delayed on goes on when the delay is over, automatic off goes on
  at once and off when it is over, run-on goes off when it is over, and without a feature for its state the port
  switches at once and stays so. Left out are alarms and ports that combine delayed on with another feature: with
  automatic off the table gives two answers, and with run-on the code does not follow it.\<close>

theorem powerport_follows_table:
  assumes "pp_plain p b" "timer_trigger f p b"
    and "pp_has POWERPORT_FEATURE_VERZOEGERT_EIN p \<longrightarrow> \<not> pp_has POWERPORT_FEATURE_AUTO_AUS p \<and> \<not> pp_has POWERPORT_FEATURE_NACHLAUF p"
    and "T = unat (timer_delay_seconds (pp_gruppe 3 p))" "0 < T"
    and "powerport_can_callback f p b = (p1, b1)" "pp_ticks n p1 b1 = (p2, b2)"
  shows "powerport_get p2 b2 = table_output (timer_features p) T (powerport_get p b) n"
proof -
  let ?fl = "if powerport_get p b then FALLENDE_FLANKE else STEIGENDE_FLANKE"
  have "set_powerport_or_timer p ?fl b = (p1, b1)"
    using assms(1,2,6) by (auto simp: powerport_can_callback_def timer_trigger_def powerport_toggle_def pp_plain_def powerport_get_def split: if_splits)
  from powerport_timer_spec [OF assms(1) this assms(7)] show ?thesis
    using assms(3,5) unfolding assms(4) [symmetric]
    by (auto simp: powerport_spec_def table_output_def timer_features_def Let_def)
qed

definition ex_powerport :: device_data_powerport where
  "ex_powerport = \<lparr>pp_config = \<lparr>pp_port = 4, pp_feature = 4, pp_gruppen = [20, 21, 22, 0x85]\<rparr>,
     countDownTimer = 0, bistableRelaisState = 0\<rparr>"

definition ex_press_20 :: canix_frame where
  "ex_press_20 = \<lparr>fr_src = 9, fr_dst = HCAN_MULTICAST_CONTROL, fr_proto = HCAN_PROTO_SFP, fr_size = 3,
     fr_data = [HCAN_SRV_HES, HCAN_HES_TASTER_DOWN, 20]\<rparr>"

theorem powerport_follows_table_witness:
  "(case powerport_can_callback ex_press_20 ex_powerport ex_board of (p1, b1) \<Rightarrow>
     (case pp_ticks 4 p1 b1 of (p2, b2) \<Rightarrow> powerport_get p2 b2) \<and>
     (case pp_ticks 5 p1 b1 of (p2, b2) \<Rightarrow> \<not> powerport_get p2 b2))"
proof -
  have pl: "pp_plain ex_powerport ex_board"
    by (simp add: pp_plain_def ex_powerport_def pin_valid_def ex_board_def pp_has_def bit_numeral_rec)
  have T: "timer_delay_seconds (pp_gruppe 3 ex_powerport) = 5"
    by (simp add: timer_delay_seconds_def pp_gruppe_def ex_powerport_def bit_numeral_rec)
  have f: "pp_has POWERPORT_FEATURE_AUTO_AUS ex_powerport" "\<not> pp_has POWERPORT_FEATURE_VERZOEGERT_EIN ex_powerport"
      "\<not> pp_has POWERPORT_FEATURE_NACHLAUF ex_powerport" "\<not> pp_has POWERPORT_FEATURE_BISTABLE_RELAIS ex_powerport"
    by (simp_all add: pp_has_def ex_powerport_def bit_numeral_rec)
  have off: "\<not> powerport_get ex_powerport ex_board"
    using f by (simp add: powerport_get_def darlingtonoutput_getpin_def ex_powerport_def ex_board_def)
  have tr: "timer_trigger ex_press_20 ex_powerport ex_board"
    by (simp add: timer_trigger_def ex_press_20_def powerport_is_in_group_def ex_powerport_def)
  obtain p1 b1 where s: "powerport_can_callback ex_press_20 ex_powerport ex_board = (p1, b1)" by fastforce
  from powerport_follows_table [OF pl tr _ _ _ s, of 5] T f off show ?thesis
    by (auto simp: s table_output_def timer_features_def split: prod.splits)
qed

text \<open>The alarm timer wraps around: when a delayed-on alarm of a port with a zero delay expires,
  the freshly loaded counter is decremented below zero and the port counts down 65535 seconds.\<close>

theorem powerport_alarm_timer_wraps:
  assumes "countDownTimer p = 1" and "pp_has POWERPORT_FEATURE_WECK_VERZOEGERT_EIN p"
    and "timer_delay_seconds (pp_gruppe 3 p) = 0"
  shows "unat (countDownTimer (fst (powerport_timer_handler p b))) = 65535"
proof -
  obtain q c where on: "relais_on p b = (q, c)" by (cases "relais_on p b")
  then have "pp_gruppe 3 q = pp_gruppe 3 p"
    by (auto simp: relais_on_def pp_gruppe_def Let_def split: if_splits)
  then have "countDownTimer (fst (powerport_timer_handler p b)) = - 1"
    using assms on by (simp add: powerport_timer_handler_def timer_abgelaufen_def powerport_setup_timer_def
        clear_feature_def pp_gruppe_def)
  then show ?thesis by (simp add: unsigned_minus_1_eq_mask mask_eq_exp_minus_1)
qed

theorem powerport_alarm_timer_wraps_witness:
  "let p = fst (powerport_can_callback \<lparr>fr_src = 9, fr_dst = 36, fr_proto = 1, fr_size = 6,
       fr_data = [5, HCAN_HES_WECKER_SET, 20, 4, 0, 1]\<rparr>
       (ex_powerport\<lparr>pp_config := \<lparr>pp_port = 4, pp_feature = 0, pp_gruppen = [20, 21, 22, 0]\<rparr>\<rparr>) ex_board)
   in unat (countDownTimer (fst (powerport_timer_handler p ex_board))) = 65535"
proof -
  let ?p = "\<lparr>pp_config = \<lparr>pp_port = 4, pp_feature = 16, pp_gruppen = [20, 21, 22, 0]\<rparr>,
     countDownTimer = 1, bistableRelaisState = 0\<rparr>"
  have "fst (powerport_can_callback \<lparr>fr_src = 9, fr_dst = 36, fr_proto = 1, fr_size = 6,
       fr_data = [5, HCAN_HES_WECKER_SET, 20, 4, 0, 1]\<rparr>
       (ex_powerport\<lparr>pp_config := \<lparr>pp_port = 4, pp_feature = 0, pp_gruppen = [20, 21, 22, 0]\<rparr>\<rparr>) ex_board) = ?p"
    by code_simp
  moreover have "unat (countDownTimer (fst (powerport_timer_handler ?p ex_board))) = 65535"
    by (rule powerport_alarm_timer_wraps)
      (simp_all add: pp_has_def pp_gruppe_def timer_delay_seconds_def bit_numeral_rec)
  ultimately show ?thesis by simp
qed

section \<open>The contract of the driver\<close>

lemma relais_pins:
  "n \<noteq> pp_port (pp_config p) \<Longrightarrow> darlingtonoutput_getpin n (snd (relais_on p b)) = darlingtonoutput_getpin n b"
  "pin_valid n (snd (relais_on p b)) = pin_valid n b"
  "pp_port (pp_config (fst (relais_on p b))) = pp_port (pp_config p)"
  "n \<noteq> pp_port (pp_config p) \<Longrightarrow> darlingtonoutput_getpin n (relais_off p b) = darlingtonoutput_getpin n b"
  "pin_valid n (relais_off p b) = pin_valid n b"
  by (simp_all add: relais_on_def relais_off_def Let_def)

lemmas pp_defs = set_powerport_or_timer_def powerport_toggle_def powerport_setup_timer_def clear_feature_def
  timer_abgelaufen_def wecker_set_def

interpretation powerport_tick: output_driver powerport_timer_handler "\<lambda>p. [pp_port (pp_config p)]"
  by unfold_locales
    (simp_all add: powerport_timer_handler_def pp_defs relais_pins Let_def case_prod_unfold)

interpretation powerport_frame: output_driver "powerport_can_callback f" "\<lambda>p. [pp_port (pp_config p)]" for f
  by unfold_locales
    (simp_all add: powerport_can_callback_def pp_defs relais_pins Let_def case_prod_unfold split: flanke.splits)

end
