(* ===== verification/Lichtzone.thy ===== *)
theory Lichtzone
  imports Powerport
begin

text \<open>
  Light zones (\<open>lichtzone.c\<close>): a zone is switched by toggle, on and off buttons and switches its action
  groups; a timer turns it off again, and three quick presses hold it for four hours. The theory has
  the handlers, the limit on how long a timed zone stays on along any run, and the counting of
  presses.
\<close>

section \<open>Data\<close>

record eds_lichtzone_block_t =
  toggle_gruppen :: "u8 list"
  off_gruppen :: "u8 list"
  on_gruppen :: "u8 list"
  timer_delay :: u8
  action_gruppen :: "u8 list"

datatype lz_state = LICHTZONE_STATE_OFF | LICHTZONE_STATE_ON | LICHTZONE_STATE_ON_EXT

record device_data_lichtzone =
  lz_config :: eds_lichtzone_block_t
  lz_state :: lz_state
  lz_timer_counter :: u16
  exton_taster_down_counter :: u8
  exton_sec_counter :: u8

abbreviation (input) LICHTZONE_EXT_TIMERINIT :: u16 where "LICHTZONE_EXT_TIMERINIT \<equiv> 14400"
abbreviation (input) LICHTZONE_EXT_SEC_COUNTER_MAX :: u8 where "LICHTZONE_EXT_SEC_COUNTER_MAX \<equiv> 3"

section \<open>Operations\<close>

text \<open>The loops run over the groups of the configuration in their order.\<close>

fun inform_groups :: "u8 \<Rightarrow> u8 list \<Rightarrow> board \<Rightarrow> board" where
  "inform_groups cmd [] b = b"
| "inform_groups cmd (g # gs) b =
     inform_groups cmd gs
       (if g \<noteq> 255 then send_prio HCAN_MULTICAST_CONTROL [HCAN_SRV_HES, cmd, g] HCAN_PRIO_HI b else b)"

definition inform_action_groups :: "device_data_lichtzone \<Rightarrow> board \<Rightarrow> board" where
  "inform_action_groups p b =
     inform_groups (if lz_state p \<noteq> LICHTZONE_STATE_OFF then HCAN_HES_POWER_GROUP_ON else HCAN_HES_POWER_GROUP_OFF)
       (action_gruppen (lz_config p)) b"

definition lichtzone_setup_timer :: "device_data_lichtzone \<Rightarrow> device_data_lichtzone" where
  "lichtzone_setup_timer p = p\<lparr>lz_timer_counter := timer_delay_seconds (timer_delay (lz_config p))\<rparr>"

text \<open>The body of the toggle loop in normal mode.\<close>

definition lz_toggle :: "device_data_lichtzone \<Rightarrow> board \<Rightarrow> device_data_lichtzone \<times> board" where
  "lz_toggle p b =
    (if timer_delay (lz_config p) \<noteq> 0
     then (case lz_state p of
             LICHTZONE_STATE_OFF \<Rightarrow>
               (let p = (lichtzone_setup_timer p)\<lparr>lz_state := LICHTZONE_STATE_ON\<rparr> in (p, inform_action_groups p b))
           | LICHTZONE_STATE_ON \<Rightarrow> (lichtzone_setup_timer p, b)
           | LICHTZONE_STATE_ON_EXT \<Rightarrow>
               (let p = p\<lparr>lz_state := LICHTZONE_STATE_OFF, exton_sec_counter := 0, exton_taster_down_counter := 0,
                          lz_timer_counter := 0\<rparr>
                in (p, inform_action_groups p b)))
     else (let p = p\<lparr>lz_state := (case lz_state p of LICHTZONE_STATE_OFF \<Rightarrow> LICHTZONE_STATE_ON
                                 | _ \<Rightarrow> LICHTZONE_STATE_OFF)\<rparr>
           in (p, inform_action_groups p b)))"

text \<open>The toggle loop; the third component says that the handler returns from within it.\<close>

fun toggle_loop :: "u8 \<Rightarrow> u8 list \<Rightarrow> device_data_lichtzone \<Rightarrow> board \<Rightarrow> device_data_lichtzone \<times> board \<times> bool" where
  "toggle_loop gr [] p b = (p, b, False)"
| "toggle_loop gr (g # gs) p b =
     (if gr = g
      then (if exton_taster_down_counter p \<ge> 3 \<and> exton_sec_counter p > 0 \<and>
               exton_sec_counter p < LICHTZONE_EXT_SEC_COUNTER_MAX
            then (let p = p\<lparr>exton_sec_counter := 0, exton_taster_down_counter := 0,
                            lz_state := LICHTZONE_STATE_ON_EXT, lz_timer_counter := LICHTZONE_EXT_TIMERINIT\<rparr>
                  in (p, inform_action_groups p b, True))
            else (let (p, b) = lz_toggle p b in toggle_loop gr gs p b))
      else toggle_loop gr gs p b)"

fun off_loop :: "u8 \<Rightarrow> u8 list \<Rightarrow> device_data_lichtzone \<Rightarrow> board \<Rightarrow> device_data_lichtzone \<times> board" where
  "off_loop gr [] p b = (p, b)"
| "off_loop gr (g # gs) p b =
     (if gr = g
      then (let p = p\<lparr>lz_state := LICHTZONE_STATE_OFF, lz_timer_counter := 0\<rparr>
            in off_loop gr gs p (inform_action_groups p b))
      else off_loop gr gs p b)"

fun on_loop :: "u8 \<Rightarrow> u8 list \<Rightarrow> device_data_lichtzone \<Rightarrow> board \<Rightarrow> device_data_lichtzone \<times> board" where
  "on_loop gr [] p b = (p, b)"
| "on_loop gr (g # gs) p b =
     (if gr = g
      then (let p = p\<lparr>lz_state := LICHTZONE_STATE_ON\<rparr>;
                p = (if timer_delay (lz_config p) \<noteq> 0 then lichtzone_setup_timer p else p)
            in on_loop gr gs p (inform_action_groups p b))
      else on_loop gr gs p b)"

text \<open>The counting of presses for the extended mode.\<close>

definition count_press :: "device_data_lichtzone \<Rightarrow> device_data_lichtzone" where
  "count_press p =
    (let p = (if exton_sec_counter p = 0 then p\<lparr>exton_sec_counter := 1\<rparr> else p)
     in p\<lparr>exton_taster_down_counter := exton_taster_down_counter p + 1\<rparr>)"

definition lz_taster_down :: "u8 \<Rightarrow> device_data_lichtzone \<Rightarrow> board \<Rightarrow> device_data_lichtzone \<times> board" where
  "lz_taster_down gr p b =
    (let c = lz_config p;
         (p, b, ret) = toggle_loop gr (toggle_gruppen c) (count_press p) b
     in if ret then (p, b)
        else (let (p, b) = off_loop gr (off_gruppen c) p b in on_loop gr (on_gruppen c) p b))"

text \<open>A group command to one of the zone's action groups updates the zone.\<close>

fun power_on_loop :: "u8 \<Rightarrow> u8 list \<Rightarrow> device_data_lichtzone \<Rightarrow> device_data_lichtzone" where
  "power_on_loop gr [] p = p"
| "power_on_loop gr (g # gs) p =
     (if g \<noteq> 255 \<and> g = gr
      then power_on_loop gr gs
             (case lz_state p of
                LICHTZONE_STATE_ON_EXT \<Rightarrow> p
              | _ \<Rightarrow> (let p = p\<lparr>lz_state := LICHTZONE_STATE_ON\<rparr>
                      in if timer_delay (lz_config p) \<noteq> 0 then lichtzone_setup_timer p else p))
      else power_on_loop gr gs p)"

definition lichtzone_can_callback ::
  "canix_frame \<Rightarrow> device_data_lichtzone \<Rightarrow> board \<Rightarrow> device_data_lichtzone \<times> board" where
  "lichtzone_can_callback f p b =
    (let d = fr_data f; cmd = d ! 1; acts = action_gruppen (lz_config p) in
     if cmd = HCAN_HES_TASTER_DOWN then lz_taster_down (d ! 2) p b
     else if cmd = HCAN_HES_POWER_GROUP_ON then (power_on_loop (d ! 2) acts p, b)
     else if cmd = HCAN_HES_POWER_GROUP_OFF
     then (if d ! 2 \<noteq> 255 \<and> d ! 2 \<in> set acts
           then (p\<lparr>lz_state := LICHTZONE_STATE_OFF, lz_timer_counter := 0\<rparr>, b) else (p, b))
     else if cmd = HCAN_HES_POWER_GROUP_TIMER_QUERY
     then (if d ! 2 \<in> set acts
           then (p, send_prio (fr_src f) [HCAN_SRV_HES, HCAN_HES_POWER_GROUP_TIMER_REPLAY, d ! 2,
                   hi8 (lz_timer_counter p), lo8 (lz_timer_counter p)] HCAN_PRIO_HI b)
           else (p, b))
     else if cmd = HCAN_HES_POWER_GROUP_SET_TIMER
     then (if d ! 2 \<in> set acts then (p\<lparr>lz_timer_counter := word16 (d ! 3) (d ! 4)\<rparr>, b) else (p, b))
     else (p, b))"

definition lichtzone_timer_handler :: "device_data_lichtzone \<Rightarrow> board \<Rightarrow> device_data_lichtzone \<times> board" where
  "lichtzone_timer_handler p b =
    (let (p, b) = (if timer_delay (lz_config p) \<noteq> 0 \<and> lz_timer_counter p > 0
           then (let p = p\<lparr>lz_timer_counter := lz_timer_counter p - 1\<rparr>
                 in if lz_timer_counter p = 0
                    then (let p = p\<lparr>lz_state := LICHTZONE_STATE_OFF\<rparr> in (p, inform_action_groups p b))
                    else (p, b))
           else (p, b));
         p = (if exton_sec_counter p \<ge> 1 then p\<lparr>exton_sec_counter := exton_sec_counter p + 1\<rparr> else p);
         p = (if exton_sec_counter p \<ge> LICHTZONE_EXT_SEC_COUNTER_MAX
              then p\<lparr>exton_sec_counter := 0, exton_taster_down_counter := 0\<rparr> else p)
     in (p, b))"

section \<open>How long a zone stays on\<close>

text \<open>The states of a zone, which starts dark and then handles ticks and frames; \<open>vs\<close> are the values that frames
  setting the timer directly have given it.\<close>

definition timer_values :: "canix_frame \<Rightarrow> device_data_lichtzone \<Rightarrow> u16 set" where
  "timer_values f p =
    (if fr_data f ! 1 = HCAN_HES_POWER_GROUP_SET_TIMER \<and> fr_data f ! 2 \<in> set (action_gruppen (lz_config p))
     then {word16 (fr_data f ! 3) (fr_data f ! 4)} else {})"

inductive lz_reach :: "u16 set \<Rightarrow> device_data_lichtzone \<Rightarrow> board \<Rightarrow> bool" where
  start: "lz_state p = LICHTZONE_STATE_OFF \<Longrightarrow> lz_timer_counter p = 0 \<Longrightarrow> lz_reach {} p b"
| tick: "lz_reach vs p b \<Longrightarrow> lichtzone_timer_handler p b = (p', b') \<Longrightarrow> lz_reach vs p' b'"
| frame: "lz_reach vs p b \<Longrightarrow> lichtzone_can_callback f p b = (p', b') \<Longrightarrow> lz_reach (vs \<union> timer_values f p) p' b'"
| other: "lz_reach vs p b \<Longrightarrow> lz_reach vs p b'"

text \<open>The timer never exceeds four hours and the values set; a lit zone with a timer has it running, unless it was set to 0.\<close>

definition lz_inv :: "u16 set \<Rightarrow> device_data_lichtzone \<Rightarrow> bool" where
  "lz_inv vs p = ((lz_timer_counter p \<le> LICHTZONE_EXT_TIMERINIT \<or> (\<exists>v \<in> vs. lz_timer_counter p \<le> v)) \<and>
     (timer_delay_seconds (timer_delay (lz_config p)) \<noteq> 0 \<and> lz_state p \<noteq> LICHTZONE_STATE_OFF \<longrightarrow>
        0 < lz_timer_counter p \<or> 0 \<in> vs))"

lemma lz_inv_mono: "lz_inv vs p \<Longrightarrow> lz_inv (vs \<union> ws) p"
  by (auto simp: lz_inv_def)

lemma lz_inv_set: "lz_inv (vs \<union> {v}) (p\<lparr>lz_timer_counter := v\<rparr>)"
  by (auto simp: lz_inv_def word_gt_zero_iff)

lemma delay_bound: "timer_delay_seconds d \<le> LICHTZONE_EXT_TIMERINIT"
proof (cases "bit d 7")
  case True
  have "unat (d AND 0x7f) \<le> 127" using word_and_le1 [of d "0x7f"] by (simp add: word_le_nat_alt)
  then show ?thesis using True by (simp add: timer_delay_seconds_def word_le_nat_alt)
next
  case False
  have "d AND mask 7 = d"
  proof (rule bit_word_eqI)
    fix n assume "n < LENGTH(8)"
    then show "bit (d AND mask 7) n = bit d n" using False by (cases "n = 7") (auto simp: bit_simps)
  qed
  then have "unat d < 2 ^ 7" using and_mask_less_size [of 7 d] by (simp add: word_less_nat_alt word_size)
  then have "unat d * 60 \<le> 14400" by simp
  then show ?thesis using False by (simp add: timer_delay_seconds_def word_le_nat_alt unat_word_ariths)
qed

lemma lz_inv_setup [simp]:
  "lz_inv vs (lichtzone_setup_timer p)" "lz_inv vs ((lichtzone_setup_timer p)\<lparr>lz_state := st\<rparr>)"
  using delay_bound [of "timer_delay (lz_config p)"]
  by (auto simp: lz_inv_def lichtzone_setup_timer_def word_gt_zero_iff)

lemma lz_config_ops [simp]:
  "lz_config (lichtzone_setup_timer p) = lz_config p"
  by (simp add: lichtzone_setup_timer_def)

lemma lz_inv_exton [simp]:
  "lz_inv vs (p\<lparr>exton_sec_counter := x\<rparr>) = lz_inv vs p" "lz_inv vs (p\<lparr>exton_taster_down_counter := x\<rparr>) = lz_inv vs p"
  by (simp_all add: lz_inv_def)

lemma lz_inv_off [simp]: "lz_inv vs (p\<lparr>lz_state := LICHTZONE_STATE_OFF, lz_timer_counter := 0\<rparr>)"
  by (simp add: lz_inv_def)

lemma lz_inv_untimed:
  "timer_delay (lz_config p) = 0 \<Longrightarrow> lz_inv vs (p\<lparr>lz_state := st\<rparr>) =
    (lz_timer_counter p \<le> LICHTZONE_EXT_TIMERINIT \<or> (\<exists>v \<in> vs. lz_timer_counter p \<le> v))"
  by (simp add: lz_inv_def timer_delay_seconds_def)

lemma toggle_keeps_inv: "lz_inv vs p \<Longrightarrow> lz_toggle p b = (p', b') \<Longrightarrow> lz_inv vs p'"
  by (auto simp: lz_toggle_def Let_def lz_inv_untimed split: if_splits lz_state.splits)
    (auto simp: lz_inv_def)

lemma toggle_loop_inv: "lz_inv vs p \<Longrightarrow> toggle_loop gr gs p b = (p', b', r) \<Longrightarrow> lz_inv vs p'"
proof (induction gr gs p b rule: toggle_loop.induct)
  case (1 gr p b)
  then show ?case by simp
next
  case (2 gr g gs p b)
  obtain p1 b1 where t: "lz_toggle p b = (p1, b1)" by (cases "lz_toggle p b")
  have ext: "lz_inv vs (p\<lparr>exton_sec_counter := 0, exton_taster_down_counter := 0,
      lz_state := LICHTZONE_STATE_ON_EXT, lz_timer_counter := LICHTZONE_EXT_TIMERINIT\<rparr>)"
    by (simp add: lz_inv_def)
  from 2 t toggle_keeps_inv [OF 2(3) t] ext show ?case by (auto simp: Let_def split: if_splits)
qed

lemma off_loop_inv: "lz_inv vs p \<Longrightarrow> off_loop gr gs p b = (p', b') \<Longrightarrow> lz_inv vs p'"
  by (induction gr gs p b rule: off_loop.induct) (auto simp: Let_def split: if_splits)

lemma on_loop_inv: "lz_inv vs p \<Longrightarrow> on_loop gr gs p b = (p', b') \<Longrightarrow> lz_inv vs p'"
proof (induction gr gs p b rule: on_loop.induct)
  case (1 gr p b)
  then show ?case by simp
next
  case (2 gr g gs p b)
  let ?p = "p\<lparr>lz_state := LICHTZONE_STATE_ON\<rparr>"
  have "lz_inv vs (if timer_delay (lz_config ?p) \<noteq> 0 then lichtzone_setup_timer ?p else ?p)"
    using 2(3) by (auto simp: lz_inv_untimed lz_inv_def [of vs p])
  with 2 show ?case by (auto simp: Let_def split: if_splits)
qed

lemma power_on_loop_inv: "lz_inv vs p \<Longrightarrow> lz_inv vs (power_on_loop gr gs p)"
proof (induction gr gs p rule: power_on_loop.induct)
  case (1 gr p)
  then show ?case by simp
next
  case (2 gr g gs p)
  let ?p = "p\<lparr>lz_state := LICHTZONE_STATE_ON\<rparr>"
  have "lz_inv vs (if timer_delay (lz_config ?p) \<noteq> 0 then lichtzone_setup_timer ?p else ?p)"
    using 2(3) by (auto simp: lz_inv_untimed lz_inv_def [of vs p])
  with 2 show ?case by (auto simp: Let_def split: lz_state.splits)
qed

lemma taster_down_inv: "lz_inv vs p \<Longrightarrow> lz_taster_down gr p b = (p', b') \<Longrightarrow> lz_inv vs p'"
proof -
  assume inv: "lz_inv vs p" and h: "lz_taster_down gr p b = (p', b')"
  define q where "q = count_press p"
  have q: "lz_inv vs q" using inv by (simp add: q_def count_press_def Let_def)
  obtain p1 b1 r where t: "toggle_loop gr (toggle_gruppen (lz_config p)) q b = (p1, b1, r)" by (rule prod_cases3)
  note i1 = toggle_loop_inv [OF q t]
  obtain p2 b2 where o: "off_loop gr (off_gruppen (lz_config p)) p1 b1 = (p2, b2)"
    by (cases "off_loop gr (off_gruppen (lz_config p)) p1 b1")
  from h t o i1 on_loop_inv [OF off_loop_inv [OF i1 o]] show ?thesis
    by (auto simp: lz_taster_down_def q_def [symmetric] Let_def split: if_splits)
qed

lemma tick_inv_lz: "lz_inv vs p \<Longrightarrow> lichtzone_timer_handler p b = (p', b') \<Longrightarrow> lz_inv vs p'"
proof -
  assume inv: "lz_inv vs p" and h: "lichtzone_timer_handler p b = (p', b')"
  have "lz_inv vs (p\<lparr>lz_timer_counter := lz_timer_counter p - 1\<rparr>)"
    if "0 < lz_timer_counter p" "lz_timer_counter p - 1 \<noteq> 0"
  proof -
    have "lz_timer_counter p - 1 \<le> lz_timer_counter p"
      using that by (simp add: word_le_nat_alt word_gt_zero_iff unat_minus_one_pos)
    then show ?thesis using that inv by (auto simp: lz_inv_def word_gt_zero_iff intro: order_trans)
  qed
  moreover have "lz_inv vs (p\<lparr>lz_timer_counter := 0, lz_state := LICHTZONE_STATE_OFF\<rparr>)" by (simp add: lz_inv_def)
  ultimately show ?thesis using inv h
    by (auto simp: lichtzone_timer_handler_def Let_def split: if_splits)
qed

lemma lz_reach_inv: "lz_reach vs p b \<Longrightarrow> lz_inv vs p"
proof (induction rule: lz_reach.induct)
  case (start p b)
  then show ?case by (simp add: lz_inv_def)
next
  case (tick vs p b p' b')
  then show ?case using tick_inv_lz by blast
next
  case (frame vs p b f p' b')
  note mono = lz_inv_mono [where ws = "timer_values f p"]
  show ?case
    using frame.hyps(2) mono [OF taster_down_inv [OF frame.IH]] mono [OF power_on_loop_inv [OF frame.IH]] mono [OF lz_inv_off]
      mono [OF frame.IH] lz_inv_set [of vs "word16 (fr_data f ! 3) (fr_data f ! 4)" p]
    by (auto simp: lichtzone_can_callback_def Let_def timer_values_def split: if_splits)
qed

primrec lz_ticks :: "nat \<Rightarrow> device_data_lichtzone \<Rightarrow> board \<Rightarrow> device_data_lichtzone \<times> board" where
  "lz_ticks 0 p b = (p, b)"
| "lz_ticks (Suc n) p b = (let (p1, b1) = lz_ticks n p b in lichtzone_timer_handler p1 b1)"

lemma lz_tick_run:
  assumes "timer_delay (lz_config p) \<noteq> 0" and "0 < lz_timer_counter p"
  shows "case lz_ticks n p b of (p', b') \<Rightarrow> lz_config p' = lz_config p \<and>
    unat (lz_timer_counter p') = unat (lz_timer_counter p) - n \<and>
    (lz_state p', b') = (if unat (lz_timer_counter p) \<le> n
       then (LICHTZONE_STATE_OFF, inform_groups HCAN_HES_POWER_GROUP_OFF (action_gruppen (lz_config p)) b)
       else (lz_state p, b))"
proof (induction n)
  case 0
  then show ?case using assms by (simp add: word_less_nat_alt)
next
  case (Suc n)
  let ?t = "unat (lz_timer_counter p)"
  obtain p1 b1 where r: "lz_ticks n p b = (p1, b1)" by (cases "lz_ticks n p b")
  with Suc have IH: "lz_config p1 = lz_config p" "unat (lz_timer_counter p1) = ?t - n"
    "(lz_state p1, b1) = (if ?t \<le> n
       then (LICHTZONE_STATE_OFF, inform_groups HCAN_HES_POWER_GROUP_OFF (action_gruppen (lz_config p)) b)
       else (lz_state p, b))" by simp_all
  show ?case
  proof (cases "?t \<le> n")
    case True
    then have "lz_timer_counter p1 = 0" using IH(2) by (simp add: unat_eq_0)
    then show ?thesis using r IH True by (simp add: lichtzone_timer_handler_def Let_def)
  next
    case False
    then have pos: "lz_timer_counter p1 \<noteq> 0" using IH(2) by (auto simp: unat_eq_0)
    then have dec: "unat (lz_timer_counter p1 - 1) = ?t - Suc n" using IH(2) by (simp add: unat_minus_one_pos)
    then have z: "(lz_timer_counter p1 - 1 = 0) = (?t \<le> Suc n)" using False by (simp only: unat_eq_0 [symmetric]) arith
    show ?thesis using r IH pos dec z False assms(1)
      by (simp add: lichtzone_timer_handler_def Let_def word_gt_zero_iff inform_action_groups_def)
  qed
qed

text \<open>C16: A lit zone with a timer delay goes dark. From a dark start, however it was lit and whatever frames it
  received, its counter \<open>T\<close> is at most four hours or a value that a frame has set; without further frames
  it stays lit for \<open>T - 1\<close> seconds, and with the \<open>T\<close>-th it switches off and commands its
  action groups off, once. Only a frame that sets the timer to 0 makes \<open>T\<close> zero, and then the zone stays
  lit.\<close>

theorem lichtzone_goes_off:
  assumes "lz_reach vs p b" and "lz_state p \<noteq> LICHTZONE_STATE_OFF"
    and "timer_delay_seconds (timer_delay (lz_config p)) \<noteq> 0"
  shows "let T = unat (lz_timer_counter p); (p', b') = lz_ticks n p b in
    (T \<le> 14400 \<or> (\<exists>v \<in> vs. T \<le> unat v)) \<and> (T = 0 \<longrightarrow> 0 \<in> vs) \<and>
    (lz_state p', b') = (if 0 < T \<and> T \<le> n
       then (LICHTZONE_STATE_OFF, inform_groups HCAN_HES_POWER_GROUP_OFF (action_gruppen (lz_config p)) b)
       else (lz_state p, b))"
proof -
  have inv: "lz_inv vs p" using assms(1) by (rule lz_reach_inv)
  have d: "timer_delay (lz_config p) \<noteq> 0" using assms(3) by (auto simp: timer_delay_seconds_def)
  have bounds: "(unat (lz_timer_counter p) \<le> 14400 \<or> (\<exists>v \<in> vs. unat (lz_timer_counter p) \<le> unat v)) \<and>
      (unat (lz_timer_counter p) = 0 \<longrightarrow> 0 \<in> vs)"
    using inv assms(2,3) by (auto simp: lz_inv_def word_le_nat_alt unat_eq_0)
  have idle: "case lz_ticks n p b of (p', b') \<Rightarrow> lz_timer_counter p' = 0 \<and> lz_state p' = lz_state p \<and> b' = b" if "lz_timer_counter p = 0"
    using that by (induction n) (auto simp: lichtzone_timer_handler_def Let_def split: prod.splits)
  show ?thesis
  proof (cases "lz_timer_counter p = 0")
    case True
    then show ?thesis using bounds idle by (auto simp: Let_def split: prod.splits)
  next
    case False
    then have "0 < lz_timer_counter p" "0 < unat (lz_timer_counter p)" by (simp_all add: word_gt_zero_iff unat_gt_0)
    then show ?thesis using lz_tick_run [OF d, of n b] bounds by (auto simp: Let_def split: prod.splits)
  qed
qed

definition ex_lichtzone :: device_data_lichtzone where
  "ex_lichtzone = \<lparr>lz_config = \<lparr>toggle_gruppen = [30, 255, 255, 255], off_gruppen = [31, 255],
      on_gruppen = [32, 255], timer_delay = 5, action_gruppen = [60, 255]\<rparr>, lz_state = LICHTZONE_STATE_OFF,
    lz_timer_counter = 0, exton_taster_down_counter = 0, exton_sec_counter = 0\<rparr>"

theorem lichtzone_goes_off_witness:
  "case lichtzone_can_callback \<lparr>fr_src = 9, fr_dst = 36, fr_proto = 1, fr_size = 3,
      fr_data = [5, HCAN_HES_TASTER_DOWN, 30]\<rparr> ex_lichtzone ex_board of (p, b) \<Rightarrow>
    lz_state p = LICHTZONE_STATE_ON \<and> lz_state (fst (lz_ticks 299 p b)) = LICHTZONE_STATE_ON \<and>
    lz_state (fst (lz_ticks 300 p b)) = LICHTZONE_STATE_OFF"
proof -
  let ?f = "\<lparr>fr_src = 9, fr_dst = 36, fr_proto = 1, fr_size = 3, fr_data = [5, HCAN_HES_TASTER_DOWN, 30]\<rparr>"
  obtain p b where h: "lichtzone_can_callback ?f ex_lichtzone ex_board = (p, b)"
    by (cases "lichtzone_can_callback ?f ex_lichtzone ex_board")
  have "lz_reach {} ex_lichtzone ex_board" by (rule lz_reach.start) (simp_all add: ex_lichtzone_def)
  from lz_reach.frame [OF this h] have r: "lz_reach {} p b" by (simp add: timer_values_def)
  have "lz_state (fst (lichtzone_can_callback ?f ex_lichtzone ex_board)) = LICHTZONE_STATE_ON \<and>
      lz_timer_counter (fst (lichtzone_can_callback ?f ex_lichtzone ex_board)) = 300 \<and>
      timer_delay (lz_config (fst (lichtzone_can_callback ?f ex_lichtzone ex_board))) = 5"
    by code_simp
  then have v: "lz_state p = LICHTZONE_STATE_ON" "lz_timer_counter p = 300" "timer_delay (lz_config p) = 5"
    using h by simp_all
  then have d: "timer_delay_seconds (timer_delay (lz_config p)) \<noteq> 0"
    by (simp add: timer_delay_seconds_def bit_numeral_rec)
  from lichtzone_goes_off [OF r _ d, of 299] lichtzone_goes_off [OF r _ d, of 300] v h
  show ?thesis by (auto simp: Let_def split: prod.splits)
qed

section \<open>The triple press\<close>

lemma toggle_loop_counters:
  assumes "lz_state p \<noteq> LICHTZONE_STATE_ON_EXT" and "exton_taster_down_counter p < 3"
    and "toggle_loop gr gs p b = (p', b', r)"
  shows "lz_state p' \<noteq> LICHTZONE_STATE_ON_EXT \<and> exton_taster_down_counter p' = exton_taster_down_counter p \<and>
    exton_sec_counter p' = exton_sec_counter p \<and> lz_config p' = lz_config p"
  using assms
proof (induction gr gs p b rule: toggle_loop.induct)
  case (1 gr p b)
  then show ?case by simp
next
  case (2 gr g gs p b)
  obtain p1 b1 where t: "lz_toggle p b = (p1, b1)" by (cases "lz_toggle p b")
  have "lz_state p1 \<noteq> LICHTZONE_STATE_ON_EXT \<and> exton_taster_down_counter p1 = exton_taster_down_counter p \<and>
      exton_sec_counter p1 = exton_sec_counter p \<and> lz_config p1 = lz_config p"
    using t 2(3) by (cases "lz_state p") (auto simp: lz_toggle_def lichtzone_setup_timer_def Let_def split: if_splits)
  with 2 t show ?case by (auto simp: not_le [symmetric] split: if_splits)
qed

lemma off_loop_counters:
  "off_loop gr gs p b = (p', b') \<Longrightarrow> lz_state p \<noteq> LICHTZONE_STATE_ON_EXT \<Longrightarrow>
    lz_state p' \<noteq> LICHTZONE_STATE_ON_EXT \<and> exton_taster_down_counter p' = exton_taster_down_counter p \<and>
    exton_sec_counter p' = exton_sec_counter p \<and> lz_config p' = lz_config p"
  by (induction gr gs p b rule: off_loop.induct) (auto simp: Let_def split: if_splits)

lemma on_loop_counters:
  "on_loop gr gs p b = (p', b') \<Longrightarrow> lz_state p \<noteq> LICHTZONE_STATE_ON_EXT \<Longrightarrow>
    lz_state p' \<noteq> LICHTZONE_STATE_ON_EXT \<and> exton_taster_down_counter p' = exton_taster_down_counter p \<and>
    exton_sec_counter p' = exton_sec_counter p \<and> lz_config p' = lz_config p"
  by (induction gr gs p b rule: on_loop.induct)
    (auto simp: Let_def lichtzone_setup_timer_def split: if_splits)

lemma taster_down_counters:
  assumes "lz_state p \<noteq> LICHTZONE_STATE_ON_EXT" and "unat (exton_taster_down_counter p) < 2"
    and "lz_taster_down gr p b = (p', b')"
  shows "lz_state p' \<noteq> LICHTZONE_STATE_ON_EXT \<and> exton_taster_down_counter p' = exton_taster_down_counter p + 1 \<and>
    exton_sec_counter p' = (if exton_sec_counter p = 0 then 1 else exton_sec_counter p) \<and> lz_config p' = lz_config p"
proof -
  define q where "q = count_press p"
  have q: "lz_state q \<noteq> LICHTZONE_STATE_ON_EXT" "exton_taster_down_counter q = exton_taster_down_counter p + 1"
    "exton_sec_counter q = (if exton_sec_counter p = 0 then 1 else exton_sec_counter p)" "lz_config q = lz_config p"
    using assms(1) by (simp_all add: q_def count_press_def Let_def)
  have "exton_taster_down_counter q < 3"
    using assms(2) by (simp add: q(2) word_less_nat_alt unat_word_ariths)
  note tl = toggle_loop_counters [OF q(1) this]
  obtain p1 b1 r where t: "toggle_loop gr (toggle_gruppen (lz_config p)) q b = (p1, b1, r)" by (rule prod_cases3)
  obtain p2 b2 where o: "off_loop gr (off_gruppen (lz_config p)) p1 b1 = (p2, b2)"
    by (cases "off_loop gr (off_gruppen (lz_config p)) p1 b1")
  obtain p3 b3 where n: "on_loop gr (on_gruppen (lz_config p)) p2 b2 = (p3, b3)"
    by (cases "on_loop gr (on_gruppen (lz_config p)) p2 b2")
  have "p' = p1 \<or> p' = p3" using assms(3) t o n
    by (auto simp: lz_taster_down_def q_def [symmetric] Let_def split: if_splits)
  then show ?thesis using tl [OF t] off_loop_counters [OF o] on_loop_counters [OF n] q by auto
qed

lemma toggle_loop_ext:
  assumes "gr \<in> set gs" and "exton_taster_down_counter p \<ge> 3" "exton_sec_counter p > 0"
    "exton_sec_counter p < LICHTZONE_EXT_SEC_COUNTER_MAX"
  shows "case toggle_loop gr gs p b of (p', b', r) \<Rightarrow>
    r \<and> lz_state p' = LICHTZONE_STATE_ON_EXT \<and> lz_timer_counter p' = LICHTZONE_EXT_TIMERINIT"
  using assms by (induction gs) (auto simp: Let_def split: prod.splits)

text \<open>Three presses without a second passing hold the zone for four hours. Only the last one has to be
  of a button of the zone: the first two, \<open>g1\<close> and \<open>g2\<close>, may be of any buttons in the house.\<close>

theorem lichtzone_triple_press:
  assumes "lz_state p \<noteq> LICHTZONE_STATE_ON_EXT" and "exton_taster_down_counter p = 0" "exton_sec_counter p = 0"
    and "g3 \<in> set (toggle_gruppen (lz_config p))"
  shows "let (p1, b1) = lz_taster_down g1 p b; (p2, b2) = lz_taster_down g2 p1 b1; (p3, b3) = lz_taster_down g3 p2 b2
    in lz_state p3 = LICHTZONE_STATE_ON_EXT \<and> lz_timer_counter p3 = 14400"
proof -
  obtain p1 b1 where h1: "lz_taster_down g1 p b = (p1, b1)" by (cases "lz_taster_down g1 p b")
  obtain p2 b2 where h2: "lz_taster_down g2 p1 b1 = (p2, b2)" by (cases "lz_taster_down g2 p1 b1")
  have c1: "lz_state p1 \<noteq> LICHTZONE_STATE_ON_EXT" "exton_taster_down_counter p1 = 1" "exton_sec_counter p1 = 1"
    "lz_config p1 = lz_config p"
    using taster_down_counters [OF assms(1) _ h1] assms(2,3) by simp_all
  have c2: "exton_taster_down_counter p2 = 2" "exton_sec_counter p2 = 1" "lz_config p2 = lz_config p"
    using taster_down_counters [OF c1(1) _ h2] c1 by simp_all
  let ?q = "p2\<lparr>exton_taster_down_counter := 3\<rparr>"
  obtain p3 b3 r where t: "toggle_loop g3 (toggle_gruppen (lz_config p)) ?q b2 = (p3, b3, r)" by (rule prod_cases3)
  have "r \<and> lz_state p3 = LICHTZONE_STATE_ON_EXT \<and> lz_timer_counter p3 = LICHTZONE_EXT_TIMERINIT"
    using toggle_loop_ext [OF assms(4), of ?q b2] c2 t by simp
  then show ?thesis using h1 h2 c2 t by (simp add: lz_taster_down_def count_press_def)
qed

theorem lichtzone_triple_press_witness:
  "let (p1, b1) = lz_taster_down 77 ex_lichtzone ex_board; (p2, b2) = lz_taster_down 88 p1 b1;
       (p3, b3) = lz_taster_down 30 p2 b2
   in lz_state p3 = LICHTZONE_STATE_ON_EXT \<and> lz_timer_counter p3 = 14400"
  by (rule lichtzone_triple_press) (simp_all add: ex_lichtzone_def)

section \<open>The contract of the driver\<close>

lemma inform_pins [simp]:
  "darlingtonoutput_getpin n (inform_groups c gs b) = darlingtonoutput_getpin n b"
  "pin_valid n (inform_groups c gs b) = pin_valid n b"
  by (induction c gs b rule: inform_groups.induct) simp_all

lemma inform_action_pins [simp]:
  "darlingtonoutput_getpin n (inform_action_groups p b) = darlingtonoutput_getpin n b"
  "pin_valid n (inform_action_groups p b) = pin_valid n b"
  by (simp_all add: inform_action_groups_def)

lemma lz_toggle_pins:
  "darlingtonoutput_getpin n (snd (lz_toggle p b)) = darlingtonoutput_getpin n b"
  "pin_valid n (snd (lz_toggle p b)) = pin_valid n b"
  by (simp_all add: lz_toggle_def Let_def split: lz_state.splits)

lemma toggle_loop_pins:
  "darlingtonoutput_getpin n (fst (snd (toggle_loop g gs p b))) = darlingtonoutput_getpin n b \<and>
   pin_valid n (fst (snd (toggle_loop g gs p b))) = pin_valid n b"
  by (induction g gs p b rule: toggle_loop.induct) (simp_all add: Let_def case_prod_unfold lz_toggle_pins)

lemma onoff_loop_pins:
  "darlingtonoutput_getpin n (snd (off_loop g gs p b)) = darlingtonoutput_getpin n b \<and>
   pin_valid n (snd (off_loop g gs p b)) = pin_valid n b"
  "darlingtonoutput_getpin n (snd (on_loop g gs p b)) = darlingtonoutput_getpin n b \<and>
   pin_valid n (snd (on_loop g gs p b)) = pin_valid n b"
  by (induction gs arbitrary: p b) (auto simp: Let_def)

interpretation lichtzone_tick: output_driver lichtzone_timer_handler "\<lambda>p. []"
  by unfold_locales (simp_all add: lichtzone_timer_handler_def Let_def case_prod_unfold)

interpretation lichtzone_frame: output_driver "lichtzone_can_callback f" "\<lambda>p. []" for f
  by unfold_locales
    (simp_all add: lichtzone_can_callback_def lz_taster_down_def toggle_loop_pins onoff_loop_pins Let_def case_prod_unfold)

end
