(* ===== verification/Inputs.thy ===== *)
theory Inputs
  imports Zeitzone
begin

text \<open>
  The inputs of the controller board: push buttons (\<open>taster.c\<close>), switches (\<open>schalter.c\<close>) and reed
  contacts (\<open>reedkontakt.c\<close>). Their timer handlers sample the pin, debounce it and send frames.
  A handler is one step: the pins do not change during it.
\<close>

section \<open>Push buttons\<close>

record eds_taster_block_t =
  ta_port :: u8
  ta_feature :: u8
  ta_gruppe :: u8

record device_data_taster =
  ta_config :: eds_taster_block_t
  pressed :: u8

abbreviation (input) FEATURE_TASTER_ENTPRELL_1S :: nat where "FEATURE_TASTER_ENTPRELL_1S \<equiv> 0"
abbreviation (input) FEATURE_TASTER_ROLLADEN_AUF :: nat where "FEATURE_TASTER_ROLLADEN_AUF \<equiv> 1"
abbreviation (input) FEATURE_TASTER_ROLLADEN_ZU :: nat where "FEATURE_TASTER_ROLLADEN_ZU \<equiv> 2"

definition ta_has :: "nat \<Rightarrow> device_data_taster \<Rightarrow> bool" where
  "ta_has n p = bit (ta_feature (ta_config p)) n"

definition taster_send :: "u8 \<Rightarrow> u8 \<Rightarrow> device_data_taster \<Rightarrow> board \<Rightarrow> board" where
  "taster_send cmd x p b =
     send_prio HCAN_MULTICAST_CONTROL [HCAN_SRV_HES, cmd, ta_gruppe (ta_config p), x] HCAN_PRIO_HI b"

text \<open>The number of samples after which a press counts.\<close>

definition taster_time :: "device_data_taster \<Rightarrow> u8" where
  "taster_time p = (if ta_has FEATURE_TASTER_ENTPRELL_1S p then 100 else 3)"

definition taster_timer_handler :: "device_data_taster \<Rightarrow> board \<Rightarrow> device_data_taster \<times> board" where
  "taster_timer_handler p b =
    (let (v, b) = tasterport_read (ta_port (ta_config p)) b;
         (p, b) =
           (if \<not> v then (if pressed p < 255 then p\<lparr>pressed := pressed p + 1\<rparr> else p, b)
            else (p\<lparr>pressed := 0\<rparr>,
                  if pressed p > 3 \<and> \<not> (ta_has FEATURE_TASTER_ROLLADEN_ZU p \<or> ta_has FEATURE_TASTER_ROLLADEN_AUF p)
                  then taster_send HCAN_HES_TASTER_UP (ta_port (ta_config p)) p b else b))
     in if pressed p = taster_time p
        then (p, if ta_has FEATURE_TASTER_ROLLADEN_ZU p then taster_send HCAN_HES_ROLLADEN_POSITION_SET 200 p b
                 else if ta_has FEATURE_TASTER_ROLLADEN_AUF p then taster_send HCAN_HES_ROLLADEN_POSITION_SET 201 p b
                 else taster_send HCAN_HES_TASTER_DOWN (ta_port (ta_config p)) p b)
        else (p, b))"

section \<open>Switches\<close>

record eds_schalter_block_t =
  sc_port :: u8
  sc_feature :: u8
  sc_gruppe :: u8

datatype edge = FALLING | RISING

record device_data_schalter =
  sc_config :: eds_schalter_block_t
  newState :: u8
  lastEdge :: edge

definition sendMessage :: "bool \<Rightarrow> device_data_schalter \<Rightarrow> board \<Rightarrow> device_data_schalter \<times> board" where
  "sendMessage active p b =
    (let on = (if bit (sc_feature (sc_config p)) 0 then \<not> active else active)
     in (p\<lparr>lastEdge := if active then RISING else FALLING\<rparr>,
         send_prio HCAN_MULTICAST_CONTROL [HCAN_SRV_HES,
           if on then HCAN_HES_POWER_GROUP_ON else HCAN_HES_POWER_GROUP_OFF, sc_gruppe (sc_config p)] HCAN_PRIO_HI b))"

definition schalter_init :: "device_data_schalter \<Rightarrow> board \<Rightarrow> device_data_schalter \<times> board" where
  "schalter_init p b = (let (v, b) = tasterport_read (sc_port (sc_config p)) b in sendMessage (\<not> v) p b)"

definition schalter_timer_handler :: "device_data_schalter \<Rightarrow> board \<Rightarrow> device_data_schalter \<times> board" where
  "schalter_timer_handler p b =
    (let (v, b) = tasterport_read (sc_port (sc_config p)) b;
         active = (\<not> v);
         p = (if (active \<and> lastEdge p = FALLING \<or> \<not> active \<and> lastEdge p = RISING) \<and> newState p < 255
              then p\<lparr>newState := newState p + 1\<rparr> else p)
     in if newState p = 3
        then (let (p, b) = sendMessage active p b in (p\<lparr>newState := 0\<rparr>, b))
        else (p, b))"

section \<open>Reed contacts\<close>

record eds_reedkontakt_block_t =
  rk_port :: u8
  rk_gruppe :: u8
  rk_modus :: u8
  rk_feature :: u8

record device_data_reedkontakt =
  rk_config :: eds_reedkontakt_block_t
  rk_timer_counter :: u8
  last_state :: bool

definition reedkontakt_init :: "device_data_reedkontakt \<Rightarrow> board \<Rightarrow> device_data_reedkontakt \<times> board" where
  "reedkontakt_init p b =
    (let (v, b) = tasterport_read (rk_port (rk_config p)) b
     in (p\<lparr>rk_timer_counter := rk_gruppe (rk_config p) AND 7, last_state := v\<rparr>, b))"

definition reedkontakt_timer_handler :: "device_data_reedkontakt \<Rightarrow> board \<Rightarrow> device_data_reedkontakt \<times> board" where
  "reedkontakt_timer_handler p b =
    (let gr = rk_gruppe (rk_config p);
         (v, b) = tasterport_read (rk_port (rk_config p)) b;
         (p, b) = (if v \<noteq> last_state p
            then (let (v1, b) = tasterport_read (rk_port (rk_config p)) b;
                      (v2, b) = tasterport_read (rk_port (rk_config p)) b
                  in (p\<lparr>last_state := v1\<rparr>,
                      send_prio HCAN_MULTICAST_INFO [HCAN_SRV_HES, HCAN_HES_REEDKONTAKT_STATE_CHANGE, gr,
                        if v2 then 1 else 0] HCAN_PRIO_HI b))
            else (p, b));
         (v, b) = (if rk_modus (rk_config p) \<noteq> 0 then tasterport_read (rk_port (rk_config p)) b else (False, b))
     in if v
        then (let (p, b) = (if rk_timer_counter p = 0
                then (p\<lparr>rk_timer_counter := 5\<rparr>,
                      send_prio HCAN_MULTICAST_INFO [HCAN_SRV_HES, HCAN_HES_REEDKONTAKT_OFFEN, gr] HCAN_PRIO_LOW b)
                else (p, b))
              in (p\<lparr>rk_timer_counter := rk_timer_counter p - 1\<rparr>, b))
        else (p\<lparr>rk_timer_counter := 0\<rparr>, b))"

definition reedkontakt_can_callback ::
  "canix_frame \<Rightarrow> device_data_reedkontakt \<Rightarrow> board \<Rightarrow> device_data_reedkontakt \<times> board" where
  "reedkontakt_can_callback f p b =
    (if rk_gruppe (rk_config p) = fr_data f ! 2 \<and> fr_data f ! 1 = HCAN_HES_REEDKONTAKT_STATE_QUERY
     then (let (v, b) = tasterport_read (rk_port (rk_config p)) b
           in (p, send_prio (fr_src f) [HCAN_SRV_HES, HCAN_HES_REEDKONTAKT_STATE_REPLAY, fr_data f ! 2,
                    if v then 1 else 0] HCAN_PRIO_HI b))
     else (p, b))"

section \<open>Reading a pin\<close>

text \<open>The level of a pin, and what reading it leaves alone.\<close>

definition pin_level :: "u8 \<Rightarrow> board \<Rightarrow> bool" where
  "pin_level n b = fst (tasterport_read n b)"

lemma tasterport_readE:
  assumes "tasterport_read n b = (v, b')"
  shows "v = pin_level n b" "sent b' = sent b" "canix_selfaddr b' = canix_selfaddr b"
    "pin_level m b' = pin_level m b"
  using assms
  by (auto simp: pin_level_def tasterport_read_def canix_selfaddr_def isBitFromShiftInSet_def Let_def split: if_splits)

lemma pin_level_send [simp]: "pin_level n (send_prio d x q b) = pin_level n b"
  by (auto simp: pin_level_def send_prio_def tasterport_read_def isBitFromShiftInSet_def Let_def)

lemma selfaddr_send [simp]: "canix_selfaddr (send_prio d x q b) = canix_selfaddr b"
  by (simp add: send_prio_def canix_selfaddr_def)

section \<open>What a press sends\<close>

text \<open>One sample with the pin at a given level: the environment sets the level before the handler runs.
  \<open>press k\<close> is the handler called \<open>k\<close> times.\<close>

primrec taster_samples :: "nat \<Rightarrow> device_data_taster \<Rightarrow> board \<Rightarrow> device_data_taster \<times> board" where
  "taster_samples 0 p b = (p, b)"
| "taster_samples (Suc k) p b = (let (p1, b1) = taster_samples k p b in taster_timer_handler p1 b1)"

definition payloads :: "board \<Rightarrow> u8 list list" where
  "payloads b = map (fr_data \<circ> fst) (sent b)"

lemma payloads_send [simp]: "payloads (send_prio d x q b) = payloads b @ [x]"
  by (simp add: payloads_def send_prio_def)

lemma payloads_read: "tasterport_read n b = (v, b') \<Longrightarrow> payloads b' = payloads b"
  using tasterport_readE(2) by (simp add: payloads_def)

text \<open>The command a press sends.\<close>

definition press_cmd :: "device_data_taster \<Rightarrow> u8 list" where
  "press_cmd p = (let c = ta_config p in
     if ta_has FEATURE_TASTER_ROLLADEN_ZU p then [HCAN_SRV_HES, HCAN_HES_ROLLADEN_POSITION_SET, ta_gruppe c, 200]
     else if ta_has FEATURE_TASTER_ROLLADEN_AUF p then [HCAN_SRV_HES, HCAN_HES_ROLLADEN_POSITION_SET, ta_gruppe c, 201]
     else [HCAN_SRV_HES, HCAN_HES_TASTER_DOWN, ta_gruppe c, ta_port c])"

lemma ta_has_pressed [simp]: "ta_has n (p\<lparr>pressed := x\<rparr>) = ta_has n p"
  by (simp add: ta_has_def)

lemma taster_time_pressed [simp]: "taster_time (p\<lparr>pressed := x\<rparr>) = taster_time p"
  by (simp add: taster_time_def)

lemma handler_down:
  assumes "\<not> pin_level (ta_port (ta_config p)) b" and "taster_timer_handler p b = (p', b')"
  shows "p' = p\<lparr>pressed := if pressed p < 255 then pressed p + 1 else pressed p\<rparr> \<and>
    pin_level n b' = pin_level n b \<and>
    payloads b' = payloads b @ (if pressed p' = taster_time p then [press_cmd p] else [])"
proof -
  obtain v b1 where r: "tasterport_read (ta_port (ta_config p)) b = (v, b1)"
    by (cases "tasterport_read (ta_port (ta_config p)) b")
  note e = tasterport_readE [OF r] payloads_read [OF r]
  let ?q = "p\<lparr>pressed := if pressed p < 255 then pressed p + 1 else pressed p\<rparr>"
  let ?s = "\<lambda>b. send_prio HCAN_MULTICAST_CONTROL (press_cmd p) HCAN_PRIO_HI b"
  have eq: "taster_timer_handler p b = (?q, if pressed ?q = taster_time p then ?s b1 else b1)"
    unfolding taster_timer_handler_def r e(1)
    using assms(1) by (simp add: taster_send_def press_cmd_def Let_def)
  note pair = trans [OF assms(2) [symmetric] eq, unfolded prod.inject]
  have p': "p' = ?q" using pair by (rule conjunct1)
  have b': "b' = (if pressed ?q = taster_time p then ?s b1 else b1)" using pair by (rule conjunct2)
  have "pin_level n b' = pin_level n b" unfolding b' using e(4) by simp
  moreover have "payloads b' = payloads b @ (if pressed p' = taster_time p then [press_cmd p] else [])"
    unfolding b' p' using e(5) by simp
  ultimately show ?thesis using p' by blast
qed

lemma handler_up:
  assumes "pin_level (ta_port (ta_config p)) b" and "taster_timer_handler p b = (p', b')"
  shows "p' = p\<lparr>pressed := 0\<rparr> \<and>
    payloads b' = payloads b @
      (if pressed p > 3 \<and> \<not> (ta_has FEATURE_TASTER_ROLLADEN_ZU p \<or> ta_has FEATURE_TASTER_ROLLADEN_AUF p)
       then [[HCAN_SRV_HES, HCAN_HES_TASTER_UP, ta_gruppe (ta_config p), ta_port (ta_config p)]] else [])"
proof -
  obtain v b1 where r: "tasterport_read (ta_port (ta_config p)) b = (v, b1)"
    by (cases "tasterport_read (ta_port (ta_config p)) b")
  note e = tasterport_readE [OF r] payloads_read [OF r]
  have "taster_time p \<noteq> 0" by (simp add: taster_time_def)
  then show ?thesis using assms r e
    by (auto simp: taster_timer_handler_def taster_send_def Let_def split: if_splits)
qed

lemma samples_down:
  assumes "\<not> pin_level (ta_port (ta_config p)) b" and "pressed p = 0"
  shows "case taster_samples k p b of (p', b') \<Rightarrow> p' = p\<lparr>pressed := of_nat (min k 255)\<rparr> \<and>
    \<not> pin_level (ta_port (ta_config p)) b' \<and>
    payloads b' = payloads b @ (if unat (taster_time p) \<le> k then [press_cmd p] else [])"
proof (induction k)
  case 0
  then show ?case using assms by (auto simp: taster_time_def)
next
  case (Suc k)
  obtain p1 b1 where r: "taster_samples k p b = (p1, b1)" by (cases "taster_samples k p b")
  with Suc have IH: "p1 = p\<lparr>pressed := of_nat (min k 255)\<rparr>" "\<not> pin_level (ta_port (ta_config p)) b1"
    "payloads b1 = payloads b @ (if unat (taster_time p) \<le> k then [press_cmd p] else [])" by simp_all
  obtain p2 b2 where h: "taster_timer_handler p1 b1 = (p2, b2)" by (cases "taster_timer_handler p1 b1")
  have dn: "p2 = p1\<lparr>pressed := if pressed p1 < 255 then pressed p1 + 1 else pressed p1\<rparr>"
    "pin_level (ta_port (ta_config p)) b2 = pin_level (ta_port (ta_config p)) b1"
    "payloads b2 = payloads b1 @ (if pressed p2 = taster_time p1 then [press_cmd p1] else [])"
    using handler_down [OF _ h] IH(1,2) by simp_all
  have pr: "pressed p1 = of_nat (min k 255)" using IH(1) by simp
  have u: "unat (of_nat (min m 255) :: u8) = min m 255" for m
    by (simp add: unat_of_nat min_def)
  have p2: "pressed p2 = of_nat (min (Suc k) 255)"
  proof (cases "k < 255")
    case True
    then have "pressed p1 < 255" using u [of k] pr by (simp add: word_less_nat_alt min_def)
    with dn(1) pr True show ?thesis by (simp add: min_def add.commute)
  next
    case False
    then have "\<not> pressed p1 < 255" using pr by (simp add: min_def)
    with dn(1) pr False show ?thesis by (simp add: min_def)
  qed
  have T: "unat (taster_time p) < 255" by (simp add: taster_time_def)
  have "(pressed p2 = taster_time p) = (Suc k = unat (taster_time p))"
    using T u [of "Suc k"] by (simp only: p2 word_unat_eq_iff) (auto simp: min_def)
  moreover have "press_cmd p1 = press_cmd p" "taster_time p1 = taster_time p"
    unfolding IH(1) by (auto simp: press_cmd_def Let_def)
  ultimately show ?case using r h dn p2 IH by (auto simp: le_Suc_eq)
qed

text \<open>C30: A press of \<open>k\<close> samples of a button that was up before, followed by the release, sends:
  the command of the button once, if the press lasted for the debounce time (3 samples, or 100), however long it is
  held; then the release, for a button that is not a shutter button, if the press lasted for more than 3 samples. So a
  press of exactly 3 samples sends a DOWN without an UP, and a button with the one second debounce time sends an UP
  without a DOWN for presses of 4 to 99 samples.\<close>

theorem taster_press_frames:
  assumes "pressed p = 0" and "\<not> pin_level (ta_port (ta_config p)) b"
    and "taster_samples k p b = (p1, b1)" and "payloads b2 = payloads b1" "pin_level (ta_port (ta_config p)) b2"
    and "taster_timer_handler p1 b2 = (p3, b3)"
  shows "pressed p3 = 0 \<and> payloads b3 = payloads b @
    (if unat (taster_time p) \<le> k then [press_cmd p] else []) @
    (if 3 < k \<and> \<not> ta_has FEATURE_TASTER_ROLLADEN_ZU p \<and> \<not> ta_has FEATURE_TASTER_ROLLADEN_AUF p
     then [[HCAN_SRV_HES, HCAN_HES_TASTER_UP, ta_gruppe (ta_config p), ta_port (ta_config p)]] else [])"
proof -
  have s: "p1 = p\<lparr>pressed := of_nat (min k 255)\<rparr>"
    "payloads b1 = payloads b @ (if unat (taster_time p) \<le> k then [press_cmd p] else [])"
    using samples_down [OF assms(2,1), of k] assms(3) by simp_all
  have "unat (pressed p1) = min k 255" using s(1) by (simp add: unat_of_nat min_def)
  then have "(pressed p1 > 3) = (3 < k)" by (simp add: word_less_nat_alt)
  then show ?thesis using handler_up [OF _ assms(6)] assms(4,5) s by simp
qed

definition ex_taster :: device_data_taster where
  "ex_taster = \<lparr>ta_config = \<lparr>ta_port = 9, ta_feature = 0, ta_gruppe = 30\<rparr>, pressed = 0\<rparr>"

theorem taster_press_frames_witness:
  "case taster_samples 3 ex_taster ex_board of (p1, b1) \<Rightarrow>
     payloads (snd (taster_timer_handler p1 (b1\<lparr>PINA := 255\<rparr>))) = [[5, HCAN_HES_TASTER_DOWN, 30, 9]]"
proof -
  obtain p1 b1 where s: "taster_samples 3 ex_taster ex_board = (p1, b1)" by (cases "taster_samples 3 ex_taster ex_board")
  obtain p3 b3 where h: "taster_timer_handler p1 (b1\<lparr>PINA := 255\<rparr>) = (p3, b3)"
    by (cases "taster_timer_handler p1 (b1\<lparr>PINA := 255\<rparr>)")
  have "pressed ex_taster = 0" "\<not> pin_level (ta_port (ta_config ex_taster)) ex_board"
    by (simp_all add: ex_taster_def pin_level_def tasterport_read_def ex_board_def)
  from taster_press_frames [OF this s _ _ h] have "payloads b3 = [[5, HCAN_HES_TASTER_DOWN, 30, 9]]"
    by (simp add: ex_taster_def pin_level_def tasterport_read_def payloads_def ta_has_def taster_time_def
        press_cmd_def ex_board_def bit_minus_1_iff)
  then show ?thesis by (simp add: s h)
qed

section \<open>The contract of the driver\<close>

interpretation taster_tick: output_driver taster_timer_handler "\<lambda>p. []"
  by unfold_locales (simp_all add: taster_timer_handler_def taster_send_def Let_def case_prod_unfold)

interpretation schalter_tick: output_driver schalter_timer_handler "\<lambda>p. []"
  by unfold_locales (simp_all add: schalter_timer_handler_def sendMessage_def Let_def case_prod_unfold)

interpretation reed_tick: output_driver reedkontakt_timer_handler "\<lambda>p. []"
  by unfold_locales (simp_all add: reedkontakt_timer_handler_def Let_def case_prod_unfold)

interpretation reed_frame: output_driver "reedkontakt_can_callback f" "\<lambda>p. []" for f
  by unfold_locales (simp_all add: reedkontakt_can_callback_def Let_def case_prod_unfold)

end
