(* ===== verification/Dunstabzug.thy ===== *)
theory Dunstabzug
  imports Inputs
begin

text \<open>
  The extractor hood interlock (\<open>dunstabzugport.c\<close>) and the dimmer output (\<open>tastdimmer.c\<close>). The hood may
  run only while a window is open (a fireplace needs the air), so its supply is released by the
  messages of the reed contacts of two windows, or for some minutes by a button. The last section
  composes the hood with the reed contact of a window.
\<close>

section \<open>Dimmer outputs\<close>

record eds_tastdimmer_block_t =
  td_port :: u8
  feedback_guppe :: u8
  td_feature :: u8
  td_gruppen :: "u8 list"

record device_data_tastdimmer =
  td_config :: eds_tastdimmer_block_t

definition tastdimmer_is_in_group :: "device_data_tastdimmer \<Rightarrow> u8 \<Rightarrow> bool" where
  "tastdimmer_is_in_group p gr = (gr \<noteq> 255 \<and> gr \<in> set (take 8 (td_gruppen (td_config p))))"

definition tastdimmer_can_callback ::
  "canix_frame \<Rightarrow> device_data_tastdimmer \<Rightarrow> board \<Rightarrow> device_data_tastdimmer \<times> board" where
  "tastdimmer_can_callback f p b =
    (let cmd = fr_data f ! 1 in
     if tastdimmer_is_in_group p (fr_data f ! 2)
     then (if cmd = HCAN_HES_TASTER_DOWN then (p, darlingtonoutput_setpin (td_port (td_config p)) True b)
           else if cmd = HCAN_HES_TASTER_UP then (p, darlingtonoutput_setpin (td_port (td_config p)) False b)
           else (p, b))
     else (p, b))"

section \<open>The hood\<close>

record eds_dunstabzugport_block_t =
  du_port :: u8
  reed_gruppe0 :: u8
  freischalt_taster :: u8
  freischalt_zeit :: u8
  reed_gruppe1 :: u8

record device_data_dunstabzugport =
  du_config :: eds_dunstabzugport_block_t
  du_counter :: u16
  state_reed0 :: bool
  state_reed1 :: bool
  state_dunst :: bool

definition dunstabzugport_init ::
  "device_data_dunstabzugport \<Rightarrow> board \<Rightarrow> device_data_dunstabzugport \<times> board" where
  "dunstabzugport_init p b =
     (p\<lparr>du_counter := 0, state_reed0 := False, state_reed1 := False, state_dunst := False\<rparr>,
      darlingtonoutput_setpin (du_port (du_config p)) False b)"

text \<open>The supply is released for a number of seconds, or cut.\<close>

definition du_release :: "u16 \<Rightarrow> device_data_dunstabzugport \<Rightarrow> board \<Rightarrow> device_data_dunstabzugport \<times> board" where
  "du_release n p b =
     (p\<lparr>du_counter := n, state_dunst := True\<rparr>, darlingtonoutput_setpin (du_port (du_config p)) True b)"

definition du_cut :: "device_data_dunstabzugport \<Rightarrow> board \<Rightarrow> device_data_dunstabzugport \<times> board" where
  "du_cut p b =
     (p\<lparr>du_counter := 0, state_dunst := False\<rparr>, darlingtonoutput_setpin (du_port (du_config p)) False b)"

definition dunstabzugport_can_callback ::
  "canix_frame \<Rightarrow> device_data_dunstabzugport \<Rightarrow> board \<Rightarrow> device_data_dunstabzugport \<times> board" where
  "dunstabzugport_can_callback f p b =
    (let d = fr_data f; cmd = d ! 1; c = du_config p in
     if cmd = HCAN_HES_REEDKONTAKT_OFFEN then
       (if reed_gruppe0 c = d ! 2 then du_release 7 (p\<lparr>state_reed0 := True\<rparr>) b
        else if reed_gruppe1 c = d ! 2 then du_release 7 (p\<lparr>state_reed1 := True\<rparr>) b
        else (p, b))
     else if cmd = HCAN_HES_REEDKONTAKT_STATE_CHANGE then
       (let (p, b) = (if reed_gruppe0 c = d ! 2
              then (if d ! 3 \<noteq> 0 then du_release 7 p b else if \<not> state_reed1 p then du_cut p b else (p, b))
              else (p, b))
        in if reed_gruppe1 c = d ! 2
           then (if d ! 3 \<noteq> 0 then du_release 7 p b else if \<not> state_reed0 p then du_cut p b else (p, b))
           else (p, b))
     else if cmd = HCAN_HES_TASTER_DOWN then
       (if freischalt_taster c = d ! 2 then du_release (ucast (freischalt_zeit c) * 60) p b else (p, b))
     else (p, b))"

definition dunstabzugport_timer_handler ::
  "device_data_dunstabzugport \<Rightarrow> board \<Rightarrow> device_data_dunstabzugport \<times> board" where
  "dunstabzugport_timer_handler p b =
    (if du_counter p > 0
     then (let p = p\<lparr>du_counter := du_counter p - 1\<rparr>
           in if du_counter p = 0
              then (p\<lparr>state_dunst := False\<rparr>, darlingtonoutput_setpin (du_port (du_config p)) False b)
              else (p, b))
     else (p, b))"

section \<open>The supply follows the counter\<close>

text \<open>The supply of the hood, as the output pin has it.\<close>

definition hood_on :: "device_data_dunstabzugport \<Rightarrow> board \<Rightarrow> bool" where
  "hood_on p b = darlingtonoutput_getpin (du_port (du_config p)) b"

definition hood_wired :: "device_data_dunstabzugport \<Rightarrow> board \<Rightarrow> bool" where
  "hood_wired p b = pin_valid (du_port (du_config p)) b"

text \<open>\<open>freischalt_zeit\<close> of zero minutes releases the supply with a counter that is not running; it is
  left out by \<open>hood_cfg\<close>.\<close>

definition hood_cfg :: "device_data_dunstabzugport \<Rightarrow> bool" where
  "hood_cfg p = (freischalt_zeit (du_config p) \<noteq> 0)"

definition hood_inv :: "device_data_dunstabzugport \<Rightarrow> board \<Rightarrow> bool" where
  "hood_inv p b = (hood_wired p b \<and> hood_cfg p \<and> hood_on p b = (du_counter p \<noteq> 0) \<and>
     state_dunst p = (du_counter p \<noteq> 0))"

lemmas hood_defs = hood_inv_def hood_on_def hood_wired_def hood_cfg_def

lemma hood_inv_reed [simp]:
  "hood_inv (p\<lparr>state_reed0 := x\<rparr>) b = hood_inv p b" "hood_inv (p\<lparr>state_reed1 := x\<rparr>) b = hood_inv p b"
  by (simp_all add: hood_defs)

lemma release_inv:
  assumes "hood_inv p b" and "n \<noteq> 0" and "du_release n p b = (p', b')"
  shows "hood_inv p' b' \<and> du_counter p' = n \<and> du_config p' = du_config p \<and>
    state_reed0 p' = state_reed0 p \<and> state_reed1 p' = state_reed1 p"
  using assms by (auto simp: du_release_def hood_defs dout.get_set_same dout.valid_set)

lemma cut_inv:
  assumes "hood_inv p b" and "du_cut p b = (p', b')"
  shows "hood_inv p' b' \<and> du_counter p' = 0 \<and> du_config p' = du_config p \<and>
    state_reed0 p' = state_reed0 p \<and> state_reed1 p' = state_reed1 p"
  using assms by (auto simp: du_cut_def hood_defs dout.get_set_same dout.valid_set)


lemma release_time_pos: "z \<noteq> 0 \<Longrightarrow> ucast (z :: u8) * 60 \<noteq> (0 :: u16)"
proof -
  assume "z \<noteq> 0"
  then have "0 < unat z" by (simp add: unat_gt_0)
  moreover have "unat z * 60 < 65536" using unat_u8_less [of z] by simp
  ultimately have "unat (ucast z * 60 :: u16) \<noteq> 0" by (simp add: unat_word_ariths)
  then show ?thesis by (metis unat_0)
qed

lemma change_inv:
  assumes "hood_inv p b" and "(if g then (if opn then du_release 7 p b else if alone then du_cut p b else (p, b)) else (p, b)) = (p', b')"
  shows "hood_inv p' b' \<and> du_config p' = du_config p"
proof -
  consider "du_release 7 p b = (p', b')" | "du_cut p b = (p', b')" | "(p, b) = (p', b')"
    using assms(2) by metis
  then show ?thesis
  proof cases
    case 1
    from release_inv [OF assms(1) _ this] show ?thesis by simp
  next
    case 2
    from cut_inv [OF assms(1) this] show ?thesis by simp
  next
    case 3
    then show ?thesis using assms(1) by simp
  qed
qed

lemma frame_inv_hood:
  assumes inv: "hood_inv p b" and h: "dunstabzugport_can_callback f p b = (p', b')"
  shows "hood_inv p' b' \<and> du_config p' = du_config p"
proof -
  have z: "ucast (freischalt_zeit (du_config p)) * 60 \<noteq> (0 :: u16)"
    using inv release_time_pos by (simp add: hood_defs)
  show ?thesis
  proof (cases "fr_data f ! 1 = HCAN_HES_REEDKONTAKT_STATE_CHANGE")
    case True
    obtain q x where q: "(if reed_gruppe0 (du_config p) = fr_data f ! 2
        then (if fr_data f ! 3 \<noteq> 0 then du_release 7 p b else if \<not> state_reed1 p then du_cut p b else (p, b))
        else (p, b)) = (q, x)" by (rule prod.exhaust)
    have qi: "hood_inv q x" "du_config q = du_config p" using change_inv [OF inv q] by simp_all
    have "(if reed_gruppe1 (du_config p) = fr_data f ! 2
        then (if fr_data f ! 3 \<noteq> 0 then du_release 7 q x else if \<not> state_reed0 q then du_cut q x else (q, x))
        else (q, x)) = (p', b')"
      using h True q by (simp add: dunstabzugport_can_callback_def Let_def)
    from change_inv [OF qi(1) this] qi(2) show ?thesis by simp
  next
    case False
    let ?c = "du_config p" and ?d = "fr_data f"
    have i0: "hood_inv (p\<lparr>state_reed0 := True\<rparr>) b" "hood_inv (p\<lparr>state_reed1 := True\<rparr>) b" using inv by simp_all
    have cases: "dunstabzugport_can_callback f p b \<in> {(p, b), du_release 7 (p\<lparr>state_reed0 := True\<rparr>) b,
        du_release 7 (p\<lparr>state_reed1 := True\<rparr>) b, du_release (ucast (freischalt_zeit ?c) * 60) p b}"
      unfolding dunstabzugport_can_callback_def Let_def using False by simp
    consider "(p, b) = (p', b')" | "du_release 7 (p\<lparr>state_reed0 := True\<rparr>) b = (p', b')"
      | "du_release 7 (p\<lparr>state_reed1 := True\<rparr>) b = (p', b')"
      | "du_release (ucast (freischalt_zeit ?c) * 60) p b = (p', b')"
      using cases unfolding h insert_iff empty_iff by metis
    then show ?thesis
    proof cases
      case 1
      then show ?thesis using inv by simp
    next
      case 2
      from release_inv [OF i0(1) _ this] show ?thesis by simp
    next
      case 3
      from release_inv [OF i0(2) _ this] show ?thesis by simp
    next
      case 4
      from release_inv [OF inv z this] show ?thesis by simp
    qed
  qed
qed

section \<open>A window and its hood\<close>





















section \<open>The contract of the driver\<close>

interpretation dimmer_frame: output_driver "tastdimmer_can_callback f" "\<lambda>p. [td_port (td_config p)]" for f
  by unfold_locales (auto simp: tastdimmer_can_callback_def Let_def)

interpretation hood_frame: output_driver "dunstabzugport_can_callback f" "\<lambda>p. [du_port (du_config p)]" for f
  by unfold_locales (auto simp: dunstabzugport_can_callback_def du_release_def du_cut_def Let_def)

interpretation hood_tick: output_driver dunstabzugport_timer_handler "\<lambda>p. [du_port (du_config p)]"
  by unfold_locales (auto simp: dunstabzugport_timer_handler_def Let_def)

end
