(* ===== verification/Automatic.thy ===== *)
theory Automatic
  imports Inputs
begin

text \<open>
  Devices that act on their own: the time switch (\<open>zeitschaltuhr.c\<close>), the automatic control of shutters
  (\<open>rolladenAutomat.c\<close>) and outlets (\<open>powerportAutomat.c\<close>), the slit position of a shutter behind an open
  window (\<open>rolladenSchlitzpos.c\<close>) and the circulation pump of the central heating
  (\<open>zentralheizungspumpe.c\<close>). \<open>zm\<close> is \<open>zeitzone_matches\<close> at the current time.
\<close>

section \<open>Time switch\<close>

record eds_zeitschaltuhr_block_t =
  power_gruppe :: u8
  zs_automatikEin_schalter_gruppe :: u8
  zs_zeitzonen :: "u8 list"

record device_data_zeitschaltuhr =
  zs_config :: eds_zeitschaltuhr_block_t
  zs_state :: bool
  update_counter :: u16
  zs_automatikEin :: bool

abbreviation (input) ZEITSCHALTUHR_UPDATE_INTERVAL :: u16 where "ZEITSCHALTUHR_UPDATE_INTERVAL \<equiv> 173"

definition zs_sendMessage :: "u8 \<Rightarrow> device_data_zeitschaltuhr \<Rightarrow> board \<Rightarrow> board" where
  "zs_sendMessage cmd p b =
     send_frame HCAN_MULTICAST_CONTROL [HCAN_SRV_HES, cmd, power_gruppe (zs_config p)] b"

definition zeitschaltuhr_init :: "device_data_zeitschaltuhr \<Rightarrow> device_data_zeitschaltuhr" where
  "zeitschaltuhr_init p =
     p\<lparr>zs_state := False, update_counter := 1 + ucast (power_gruppe (zs_config p) AND 0x0f), zs_automatikEin := True\<rparr>"

definition zs_any :: "(u8 \<Rightarrow> bool) \<Rightarrow> device_data_zeitschaltuhr \<Rightarrow> bool" where
  "zs_any zm p = list_ex zm (take 8 (zs_zeitzonen (zs_config p)))"

definition zeitschaltuhr_timer_handler ::
  "(u8 \<Rightarrow> bool) \<Rightarrow> device_data_zeitschaltuhr \<Rightarrow> board \<Rightarrow> device_data_zeitschaltuhr \<times> board" where
  "zeitschaltuhr_timer_handler zm p b =
    (if \<not> zs_automatikEin p then (p, zs_sendMessage HCAN_HES_POWER_GROUP_OFF p b)
     else if \<not> zs_state p \<and> zs_any zm p
     then (p\<lparr>zs_state := True\<rparr>, zs_sendMessage HCAN_HES_POWER_GROUP_ON p b)
     else if zs_state p \<and> \<not> zs_any zm p
     then (p\<lparr>zs_state := False\<rparr>, zs_sendMessage HCAN_HES_POWER_GROUP_OFF p b)
     else (let (p, b) = (if update_counter p = 0
             then (p\<lparr>update_counter := ZEITSCHALTUHR_UPDATE_INTERVAL\<rparr>,
                   zs_sendMessage (if zs_state p then HCAN_HES_POWER_GROUP_ON else HCAN_HES_POWER_GROUP_OFF) p b)
             else (p, b))
           in (p\<lparr>update_counter := update_counter p - 1\<rparr>, b)))"

definition zeitschaltuhr_can_callback :: "canix_frame \<Rightarrow> device_data_zeitschaltuhr \<Rightarrow> device_data_zeitschaltuhr" where
  "zeitschaltuhr_can_callback f p =
    (if fr_data f ! 2 = zs_automatikEin_schalter_gruppe (zs_config p)
     then (if fr_data f ! 1 = HCAN_HES_POWER_GROUP_ON then p\<lparr>zs_automatikEin := True\<rparr>
           else if fr_data f ! 1 = HCAN_HES_POWER_GROUP_OFF then p\<lparr>zs_automatikEin := False\<rparr> else p)
     else p)"

section \<open>Automatic shutter\<close>

record eds_rolladenAutomat_block_t =
  rolladen_gruppe :: u8
  rolladen_soll_position :: u8
  ra_automatikEin_schalter_gruppe :: u8
  ra_feature :: u8
  ra_zeitzonen :: "u8 list"
  ra_helligkeits_gruppe :: u8
  ra_helligkeitsschwelle :: u16
  helligkeitswertueberschreitung :: u8

record device_data_rolladenAutomat =
  ra_config :: eds_rolladenAutomat_block_t
  ra_brightness :: u16
  msgIstVersendet :: bool
  ra_automatikEin :: bool

definition rolladenAutomat_init :: "device_data_rolladenAutomat \<Rightarrow> device_data_rolladenAutomat" where
  "rolladenAutomat_init p = p\<lparr>ra_brightness := -1, msgIstVersendet := False, ra_automatikEin := True\<rparr>"

definition ra_sendMessage ::
  "device_data_rolladenAutomat \<Rightarrow> board \<Rightarrow> device_data_rolladenAutomat \<times> board" where
  "ra_sendMessage p b =
    (if msgIstVersendet p then (p, b)
     else (p\<lparr>msgIstVersendet := True\<rparr>,
           send_frame HCAN_MULTICAST_CONTROL [HCAN_SRV_HES, HCAN_HES_ROLLADEN_POSITION_SET,
             rolladen_gruppe (ra_config p), rolladen_soll_position (ra_config p)] b))"

text \<open>The decision taken inside a matching time zone.\<close>

definition ra_wants :: "device_data_rolladenAutomat \<Rightarrow> bool" where
  "ra_wants p = (let c = ra_config p in
     if ra_helligkeits_gruppe c = 255 then True
     else ra_brightness p \<noteq> -1 \<and>
       (if helligkeitswertueberschreitung c \<noteq> 0 then ra_brightness p > ra_helligkeitsschwelle c
        else ra_brightness p < ra_helligkeitsschwelle c))"

definition rolladenAutomat_timer_handler ::
  "(u8 \<Rightarrow> bool) \<Rightarrow> device_data_rolladenAutomat \<Rightarrow> board \<Rightarrow> device_data_rolladenAutomat \<times> board" where
  "rolladenAutomat_timer_handler zm p b =
    (if \<not> ra_automatikEin p then (p, b)
     else if list_ex zm (take 2 (ra_zeitzonen (ra_config p)))
     then (if ra_wants p then ra_sendMessage p b else (p, b))
     else (p\<lparr>msgIstVersendet := False\<rparr>, b))"

definition rolladenAutomat_can_callback :: "canix_frame \<Rightarrow> device_data_rolladenAutomat \<Rightarrow> device_data_rolladenAutomat" where
  "rolladenAutomat_can_callback f p =
    (let d = fr_data f; cmd = d ! 1; c = ra_config p in
     if cmd = HCAN_HES_POWER_GROUP_ON
     then (if d ! 2 = ra_automatikEin_schalter_gruppe c then p\<lparr>ra_automatikEin := True\<rparr> else p)
     else if cmd = HCAN_HES_POWER_GROUP_OFF
     then (if d ! 2 = ra_automatikEin_schalter_gruppe c then p\<lparr>ra_automatikEin := False\<rparr> else p)
     else if cmd = HCAN_HES_HELLIGKEITS_INFO
     then (if ra_helligkeits_gruppe c \<noteq> 255 \<and> d ! 2 = ra_helligkeits_gruppe c
           then p\<lparr>ra_brightness := word16 (d ! 3) (d ! 4)\<rparr> else p)
     else p)"

section \<open>Automatic outlet\<close>

record eds_powerportAutomat_block_t =
  powerport_gruppe :: u8
  steller_gruppe :: u8
  pa_automatikEin_schalter_gruppe :: u8
  pa_feature :: u8
  pa_helligkeits_gruppe :: u8
  pa_helligkeitsschwelle :: u16
  pa_helligkeitswertueberschreitung :: u8

record device_data_powerportAutomat =
  pa_config :: eds_powerportAutomat_block_t
  pa_brightness :: u16
  pa_msgIstVersendet :: bool
  pa_automatikEin :: bool

definition powerportAutomat_init :: "device_data_powerportAutomat \<Rightarrow> device_data_powerportAutomat" where
  "powerportAutomat_init p =
    (let p = p\<lparr>pa_brightness := -1, pa_msgIstVersendet := False\<rparr>
     in if pa_automatikEin_schalter_gruppe (pa_config p) = 255 then p\<lparr>pa_automatikEin := True\<rparr> else p)"

definition pa_sendMessage :: "u8 \<Rightarrow> device_data_powerportAutomat \<Rightarrow> board \<Rightarrow> board" where
  "pa_sendMessage active p b =
    (if pa_automatikEin p \<and> active = HCAN_HES_POWER_GROUP_ON \<and> pa_brightness p \<noteq> -1 \<and>
        pa_brightness p > pa_helligkeitsschwelle (pa_config p)
     then b
     else send_prio HCAN_MULTICAST_CONTROL [HCAN_SRV_HES, active, powerport_gruppe (pa_config p)] HCAN_PRIO_HI b)"

definition powerportAutomat_can_callback ::
  "canix_frame \<Rightarrow> device_data_powerportAutomat \<Rightarrow> board \<Rightarrow> device_data_powerportAutomat \<times> board" where
  "powerportAutomat_can_callback f p b =
    (let d = fr_data f; cmd = d ! 1; c = pa_config p in
     if cmd = HCAN_HES_POWER_GROUP_ON \<or> cmd = HCAN_HES_POWER_GROUP_OFF
     then (if d ! 2 = pa_automatikEin_schalter_gruppe c then (p\<lparr>pa_automatikEin := cmd = HCAN_HES_POWER_GROUP_ON\<rparr>, b)
           else if d ! 2 = steller_gruppe c then (p, pa_sendMessage cmd p b)
           else (p, b))
     else if cmd = HCAN_HES_HELLIGKEITS_INFO \<and> pa_helligkeits_gruppe c \<noteq> 255 \<and> d ! 2 = pa_helligkeits_gruppe c
     then (p\<lparr>pa_brightness := word16 (d ! 3) (d ! 4)\<rparr>, b)
     else (p, b))"

section \<open>Slit position\<close>

record eds_rolladenSchlitzpos_block_t =
  sp_reed0 :: u8
  sp_reed1 :: u8
  sp_rolladen :: u8

record device_data_rolladenSchlitzpos =
  sp_config :: eds_rolladenSchlitzpos_block_t
  rolladenSchlitzJob :: u8
  rolladenIstposition :: u8
  state1stReedkontakt :: u8

abbreviation (input) SCHLITZ_POS :: u8 where "SCHLITZ_POS \<equiv> 17"
abbreviation (input) SCHLITZ_JOB_ABGEMELDET :: u8 where "SCHLITZ_JOB_ABGEMELDET \<equiv> 255"
abbreviation (input) SCHLITZ_JOB_TIMER_LOAD :: u8 where "SCHLITZ_JOB_TIMER_LOAD \<equiv> 20"

definition rolladenSchlitzpos_init :: "device_data_rolladenSchlitzpos \<Rightarrow> device_data_rolladenSchlitzpos" where
  "rolladenSchlitzpos_init p = p\<lparr>rolladenSchlitzJob := SCHLITZ_JOB_ABGEMELDET, state1stReedkontakt := 255\<rparr>"

definition send_rolladen_position_set :: "u8 \<Rightarrow> device_data_rolladenSchlitzpos \<Rightarrow> board \<Rightarrow> board" where
  "send_rolladen_position_set pos p b =
     send_prio HCAN_MULTICAST_CONTROL [HCAN_SRV_HES, HCAN_HES_ROLLADEN_POSITION_SET, sp_rolladen (sp_config p), pos]
       HCAN_PRIO_LOW b"

definition rolladenSchlitzpos_timer_handler ::
  "device_data_rolladenSchlitzpos \<Rightarrow> board \<Rightarrow> device_data_rolladenSchlitzpos \<times> board" where
  "rolladenSchlitzpos_timer_handler p b =
    (if rolladenSchlitzJob p < SCHLITZ_JOB_ABGEMELDET
     then (let p = p\<lparr>rolladenSchlitzJob := rolladenSchlitzJob p - 1\<rparr>; c = sp_config p
           in if rolladenSchlitzJob p = 0
              then (let b = send_prio HCAN_MULTICAST_CONTROL
                              [HCAN_SRV_HES, HCAN_HES_ROLLADEN_POSITION_REQUEST, sp_rolladen c] HCAN_PRIO_HI b;
                        b = send_prio HCAN_MULTICAST_CONTROL
                              [HCAN_SRV_HES, HCAN_HES_REEDKONTAKT_STATE_QUERY, sp_reed0 c] HCAN_PRIO_LOW b
                    in (p\<lparr>rolladenSchlitzJob := SCHLITZ_JOB_ABGEMELDET\<rparr>,
                        if sp_reed1 c \<noteq> 255
                        then send_prio HCAN_MULTICAST_CONTROL
                               [HCAN_SRV_HES, HCAN_HES_REEDKONTAKT_STATE_QUERY, sp_reed1 c] HCAN_PRIO_LOW b
                        else b))
              else (p, b))
     else (p, b))"

text \<open>The reaction to the state of the window, open or closed.\<close>

definition schlitz_react :: "bool \<Rightarrow> device_data_rolladenSchlitzpos \<Rightarrow> board \<Rightarrow> board" where
  "schlitz_react offen p b =
    (if offen
     then (if rolladenIstposition p < SCHLITZ_POS - 5 then send_rolladen_position_set SCHLITZ_POS p b else b)
     else (if SCHLITZ_POS - 2 \<le> rolladenIstposition p \<and> rolladenIstposition p \<le> SCHLITZ_POS + 2
           then send_rolladen_position_set 0 p b else b))"

definition rolladenSchlitzpos_can_callback ::
  "canix_frame \<Rightarrow> device_data_rolladenSchlitzpos \<Rightarrow> board \<Rightarrow> device_data_rolladenSchlitzpos \<times> board" where
  "rolladenSchlitzpos_can_callback f p b =
    (let d = fr_data f; cmd = d ! 1; c = sp_config p; ours = sp_reed0 c = d ! 2 \<or> sp_reed1 c = d ! 2 in
     if cmd = HCAN_HES_REEDKONTAKT_STATE_CHANGE
     then (if ours then (p\<lparr>rolladenSchlitzJob := SCHLITZ_JOB_TIMER_LOAD\<rparr>, b) else (p, b))
     else if cmd = HCAN_HES_ROLLADEN_POSITION_REPLAY
     then (if sp_rolladen c = d ! 2 then (p\<lparr>rolladenIstposition := d ! 3\<rparr>, b) else (p, b))
     else if cmd = HCAN_HES_REEDKONTAKT_STATE_REPLAY \<and> ours
     then (if sp_reed1 c = 255 then (p, schlitz_react (d ! 3 \<noteq> 0) p b)
           else if state1stReedkontakt p = 255 then (p\<lparr>state1stReedkontakt := d ! 3\<rparr>, b)
           else (p\<lparr>state1stReedkontakt := 255\<rparr>, schlitz_react (d ! 3 \<noteq> 0 \<or> state1stReedkontakt p \<noteq> 0) p b))
     else (p, b))"

section \<open>Circulation pump\<close>

record eds_zentralheizungspumpe_block_t =
  zp_port :: u8
  zp_feature :: u8
  zp_gruppe :: u8

record heizung_entry =
  he_id :: u8
  waermebedarf :: u8

record device_data_zentralheizungspumpe =
  zp_config :: eds_zentralheizungspumpe_block_t
  zp_heizung :: "heizung_entry list"

abbreviation (input) EINSCHALT_SCHWELLE :: u8 where "EINSCHALT_SCHWELLE \<equiv> 10"
abbreviation (input) AUSSCHALT_SCHWELLE :: u8 where "AUSSCHALT_SCHWELLE \<equiv> 5"
abbreviation (input) MAX_ANZ_HEIZUNGEN :: nat where "MAX_ANZ_HEIZUNGEN \<equiv> 15"

definition zentralheizungspumpe_init :: "device_data_zentralheizungspumpe \<Rightarrow> device_data_zentralheizungspumpe" where
  "zentralheizungspumpe_init p = p\<lparr>zp_heizung := replicate MAX_ANZ_HEIZUNGEN \<lparr>he_id = 255, waermebedarf = 0\<rparr>\<rparr>"

definition waermebedarfSpeichern :: "u8 \<Rightarrow> u8 \<Rightarrow> device_data_zentralheizungspumpe \<Rightarrow> device_data_zentralheizungspumpe" where
  "waermebedarfSpeichern hid wb p =
    (case first_index (\<lambda>e. he_id e = hid) (zp_heizung p) of
       Some n \<Rightarrow> p\<lparr>zp_heizung := (zp_heizung p)[n := (zp_heizung p ! n)\<lparr>waermebedarf := wb\<rparr>]\<rparr>
     | None \<Rightarrow> (case first_index (\<lambda>e. he_id e = 255) (zp_heizung p) of
         Some n \<Rightarrow> p\<lparr>zp_heizung := (zp_heizung p)[n := \<lparr>he_id = hid, waermebedarf = wb\<rparr>]\<rparr>
       | None \<Rightarrow> p))"

text \<open>The sum and the number of the circuits with demand. In the C code the cast binds to the sum,
  which is cut to eight bits before the division.\<close>

definition gesamt :: "heizung_entry list \<Rightarrow> nat" where
  "gesamt hs = sum_list (map (unat \<circ> waermebedarf) hs)"

definition anzahl :: "heizung_entry list \<Rightarrow> nat" where
  "anzahl hs = length (filter (\<lambda>e. waermebedarf e > 0) hs)"

definition getMittlererWaermebedarf :: "device_data_zentralheizungspumpe \<Rightarrow> board \<Rightarrow> u8 \<times> board" where
  "getMittlererWaermebedarf p b =
    (let g = gesamt (zp_heizung p); i = anzahl (zp_heizung p)
     in if g = 0 then (0, b)
        else (of_nat (g mod 256 div i),
              canix_syslog_P SYSLOG_PRIO_DEBUG ''WB=%d, i=%d'' [int (g div i mod 256), int i] b))"

definition zp_sendMessage :: "bool \<Rightarrow> device_data_zentralheizungspumpe \<Rightarrow> board \<Rightarrow> board" where
  "zp_sendMessage active p b =
     send_prio HCAN_MULTICAST_CONTROL [HCAN_SRV_HES,
       if active then HCAN_HES_POWER_GROUP_ON else HCAN_HES_POWER_GROUP_OFF, zp_gruppe (zp_config p)] HCAN_PRIO_HI b"

definition zentralheizungspumpe_can_callback ::
  "canix_frame \<Rightarrow> device_data_zentralheizungspumpe \<Rightarrow> board \<Rightarrow> device_data_zentralheizungspumpe \<times> board" where
  "zentralheizungspumpe_can_callback f p b =
    (if fr_data f ! 1 = HCAN_HES_HEIZUNG_WAERMEBEDARF_INFO
     then (let p = waermebedarfSpeichern (fr_data f ! 2) (fr_data f ! 3) p;
               (m, b) = getMittlererWaermebedarf p b
           in (p, if m \<ge> EINSCHALT_SCHWELLE then zp_sendMessage True p b
                  else if m \<le> AUSSCHALT_SCHWELLE then zp_sendMessage False p b else b))
     else (p, b))"

section \<open>The time switch over time\<close>

lemma payloads_frame [simp]: "payloads (send_frame d x b) = payloads b @ [x]"
  by (simp add: send_frame_def)

text \<open>A run of the handler, one entry per second saying which time zones match.\<close>

primrec zs_run :: "(u8 \<Rightarrow> bool) list \<Rightarrow> device_data_zeitschaltuhr \<Rightarrow> board \<Rightarrow> device_data_zeitschaltuhr \<times> board" where
  "zs_run [] p b = (p, b)"
| "zs_run (zm # zms) p b = (let (p1, b1) = zeitschaltuhr_timer_handler zm p b in zs_run zms p1 b1)"

definition zs_announce :: "device_data_zeitschaltuhr \<Rightarrow> u8 list" where
  "zs_announce p = [HCAN_SRV_HES, if zs_state p then HCAN_HES_POWER_GROUP_ON else HCAN_HES_POWER_GROUP_OFF,
     power_gruppe (zs_config p)]"

lemma zs_step:
  assumes "zs_automatikEin p" and "zeitschaltuhr_timer_handler zm p b = (p', b')"
  shows "zs_automatikEin p' \<and> zs_config p' = zs_config p \<and> zs_state p' = zs_any zm p \<and>
    (payloads b' = payloads b @ [zs_announce p'] \<or>
     payloads b' = payloads b \<and> zs_state p' = zs_state p \<and> 0 < unat (update_counter p) \<and>
     unat (update_counter p') = unat (update_counter p) - 1)"
  using assms unat_minus_one_pos [of "update_counter p"]
  by (auto simp: zeitschaltuhr_timer_handler_def zs_sendMessage_def zs_announce_def unat_gt_0 split: if_splits)

lemma zs_any_config: "zs_config q = zs_config p \<Longrightarrow> zs_any zm q = zs_any zm p"
  by (simp add: zs_any_def)

lemma zs_run_facts:
  assumes "zs_automatikEin p"
  shows "case zs_run zms p b of (p', b') \<Rightarrow> zs_config p' = zs_config p \<and> zs_automatikEin p' \<and>
    zs_state p' = (if zms = [] then zs_state p else zs_any (last zms) p) \<and>
    (\<exists>ws. payloads b' = payloads b @ ws \<and>
      (if ws = [] then zs_state p' = zs_state p \<and> length zms \<le> unat (update_counter p) else last ws = zs_announce p'))"
  using assms
proof (induction zms arbitrary: p b)
  case Nil
  then show ?case by simp
next
  case (Cons zm zms)
  obtain p1 b1 where h: "zeitschaltuhr_timer_handler zm p b = (p1, b1)" by (cases "zeitschaltuhr_timer_handler zm p b")
  note st = zs_step [OF Cons.prems h]
  obtain p2 b2 where r: "zs_run zms p1 b1 = (p2, b2)" by (cases "zs_run zms p1 b1")
  have c1: "zs_automatikEin p1" "zs_config p1 = zs_config p" "zs_any z p1 = zs_any z p" for z
    using st zs_any_config [of p1 p] by simp_all
  obtain ws where IH: "zs_config p2 = zs_config p" "zs_automatikEin p2"
    "zs_state p2 = (if zms = [] then zs_state p1 else zs_any (last zms) p)" "payloads b2 = payloads b1 @ ws"
    "if ws = [] then zs_state p2 = zs_state p1 \<and> length zms \<le> unat (update_counter p1) else last ws = zs_announce p2"
    using Cons.IH [OF c1(1), of b1] unfolding r prod.case c1 by blast
  have same: "zs_announce p1 = zs_announce p2" if "ws = []"
    using IH(1,5) st that by (simp add: zs_announce_def)
  from st have "\<exists>us. payloads b2 = payloads b @ us \<and>
      (if us = [] then zs_state p2 = zs_state p \<and> length (zm # zms) \<le> unat (update_counter p) else last us = zs_announce p2)"
  proof (elim conjE disjE)
    assume "payloads b1 = payloads b @ [zs_announce p1]"
    then show ?thesis using IH(4,5) same by (intro exI [of _ "zs_announce p1 # ws"]) auto
  next
    assume "payloads b1 = payloads b" "zs_state p1 = zs_state p" "0 < unat (update_counter p)"
      "unat (update_counter p1) = unat (update_counter p) - 1"
    then show ?thesis using IH(4,5) by (intro exI [of _ ws]) auto
  qed
  then show ?case using h r IH(1-3) st by simp
qed

text \<open>The time switch follows its time zones and keeps its group informed. In automatic mode its state is
  always that of the time zones in the last second; whatever it sent last announces that state; and it is
  never silent for more than its update counter, which is at most 173 seconds.\<close>

theorem zeitschaltuhr_follows_zones:
  assumes "zs_automatikEin p" and "zms \<noteq> []" and "zs_run zms p b = (p', b')"
  shows "zs_state p' = zs_any (last zms) p \<and>
    (\<exists>ws. payloads b' = payloads b @ ws \<and> (ws \<noteq> [] \<longrightarrow> last ws = zs_announce p') \<and>
      (unat (update_counter p) < length zms \<longrightarrow> ws \<noteq> []))"
proof -
  obtain ws where "zs_state p' = zs_any (last zms) p" "payloads b' = payloads b @ ws"
    "if ws = [] then zs_state p' = zs_state p \<and> length zms \<le> unat (update_counter p) else last ws = zs_announce p'"
    using zs_run_facts [OF assms(1), of zms b] assms(2,3) by auto
  then show ?thesis by (intro conjI exI [of _ ws]) (auto split: if_splits)
qed

definition ex_zeitschaltuhr :: device_data_zeitschaltuhr where
  "ex_zeitschaltuhr = zeitschaltuhr_init \<lparr>zs_config = \<lparr>power_gruppe = 20, zs_automatikEin_schalter_gruppe = 255,
      zs_zeitzonen = [1, 2, 255, 255, 255, 255, 255, 255]\<rparr>, zs_state = False, update_counter = 0, zs_automatikEin = False\<rparr>"

theorem zeitschaltuhr_follows_zones_witness:
  "case zs_run (replicate 10 (\<lambda>z. z = 2)) ex_zeitschaltuhr ex_board of (p', b') \<Rightarrow>
     zs_state p' \<and> last (payloads b') = [5, HCAN_HES_POWER_GROUP_ON, 20]"
proof -
  obtain p' b' where r: "zs_run (replicate 10 (\<lambda>z. z = 2)) ex_zeitschaltuhr ex_board = (p', b')"
    by (cases "zs_run (replicate 10 (\<lambda>z. z = 2)) ex_zeitschaltuhr ex_board")
  have u: "unat (update_counter ex_zeitschaltuhr) < 10" by code_simp
  have c: "zs_config p' = zs_config ex_zeitschaltuhr"
    using zs_run_facts [of ex_zeitschaltuhr "replicate 10 (\<lambda>z. z = 2)" ex_board] r
    by (simp add: ex_zeitschaltuhr_def zeitschaltuhr_init_def)
  have "zs_automatikEin ex_zeitschaltuhr" by (simp add: ex_zeitschaltuhr_def zeitschaltuhr_init_def)
  from zeitschaltuhr_follows_zones [OF this _ r] u obtain ws where st: "zs_state p' = zs_any (\<lambda>z. z = 2) ex_zeitschaltuhr"
    and ws: "payloads b' = payloads ex_board @ ws" "ws \<noteq> []" "last ws = zs_announce p'" by auto
  have "zs_any (\<lambda>z. z = 2) ex_zeitschaltuhr" by (simp add: zs_any_def ex_zeitschaltuhr_def zeitschaltuhr_init_def)
  then show ?thesis using r st ws c
    by (simp add: zs_announce_def ex_zeitschaltuhr_def zeitschaltuhr_init_def)
qed

section \<open>The automatic shutter moves once per time zone\<close>

datatype ra_event = Ra_Tick "u8 \<Rightarrow> bool" | Ra_Frame canix_frame

fun ra_step :: "ra_event \<Rightarrow> device_data_rolladenAutomat \<times> board \<Rightarrow> device_data_rolladenAutomat \<times> board" where
  "ra_step (Ra_Tick zm) (p, b) = rolladenAutomat_timer_handler zm p b"
| "ra_step (Ra_Frame f) (p, b) = (rolladenAutomat_can_callback f p, b)"

fun in_zone :: "u8 list \<Rightarrow> ra_event \<Rightarrow> bool" where
  "in_zone zs (Ra_Tick zm) = list_ex zm (take 2 zs)"
| "in_zone zs (Ra_Frame f) = True"

lemma ra_step_in_zone:
  assumes "in_zone (ra_zeitzonen (ra_config p)) e" and "ra_step e (p, b) = (p', b')"
  shows "ra_config p' = ra_config p \<and> (\<exists>ws. payloads b' = payloads b @ ws \<and>
    length ws = of_bool (msgIstVersendet p' \<and> \<not> msgIstVersendet p) \<and> (msgIstVersendet p \<longrightarrow> msgIstVersendet p'))"
proof (cases e)
  case (Ra_Tick zm)
  then show ?thesis using assms
    by (auto simp: rolladenAutomat_timer_handler_def ra_sendMessage_def split: if_splits)
next
  case (Ra_Frame f)
  have "ra_config (rolladenAutomat_can_callback f p) = ra_config p"
    "msgIstVersendet (rolladenAutomat_can_callback f p) = msgIstVersendet p"
    by (simp_all add: rolladenAutomat_can_callback_def Let_def)
  then show ?thesis using Ra_Frame assms(2) by auto
qed

text \<open>While a time zone lasts the automatic shutter control sends at most one position command, however the
  brightness changes and however often it is switched off and on: so a shutter moved by hand in the
  meantime is not moved again.\<close>

theorem rolladenAutomat_once_per_zone:
  assumes "list_all (in_zone (ra_zeitzonen (ra_config p))) es" and "fold ra_step es (p, b) = (p', b')"
  shows "\<exists>ws. payloads b' = payloads b @ ws \<and> length ws = of_bool (msgIstVersendet p' \<and> \<not> msgIstVersendet p) \<and>
    (msgIstVersendet p \<longrightarrow> msgIstVersendet p')"
  using assms
proof (induction es arbitrary: p b)
  case Nil
  then show ?case by auto
next
  case (Cons e es)
  obtain p1 b1 where h: "ra_step e (p, b) = (p1, b1)" by (cases "ra_step e (p, b)")
  have "in_zone (ra_zeitzonen (ra_config p)) e" using Cons.prems(1) by simp
  from ra_step_in_zone [OF this h] obtain us where c: "ra_config p1 = ra_config p"
    and us: "payloads b1 = payloads b @ us" "length us = of_bool (msgIstVersendet p1 \<and> \<not> msgIstVersendet p)"
      "msgIstVersendet p \<longrightarrow> msgIstVersendet p1" by blast
  have "list_all (in_zone (ra_zeitzonen (ra_config p1))) es" "fold ra_step es (p1, b1) = (p', b')"
    using Cons.prems c h by simp_all
  from Cons.IH [OF this] obtain ws where ws: "payloads b' = payloads b1 @ ws"
      "length ws = of_bool (msgIstVersendet p' \<and> \<not> msgIstVersendet p1)" "msgIstVersendet p1 \<longrightarrow> msgIstVersendet p'" by blast
  have "payloads b' = payloads b @ us @ ws" using ws(1) us(1) by simp
  moreover have "length (us @ ws) = of_bool (msgIstVersendet p' \<and> \<not> msgIstVersendet p)"
    using us(2,3) ws(2,3) by (cases "msgIstVersendet p"; cases "msgIstVersendet p1"; simp)
  ultimately show ?case using us(3) ws(3) by blast
qed

definition ex_rolladenAutomat :: device_data_rolladenAutomat where
  "ex_rolladenAutomat = rolladenAutomat_init \<lparr>ra_config = \<lparr>rolladen_gruppe = 7, rolladen_soll_position = 200,
      ra_automatikEin_schalter_gruppe = 255, ra_feature = 0, ra_zeitzonen = [1, 2], ra_helligkeits_gruppe = 80,
      ra_helligkeitsschwelle = 300, helligkeitswertueberschreitung = 0\<rparr>, ra_brightness = 0,
      msgIstVersendet = False, ra_automatikEin = False\<rparr>"

theorem rolladenAutomat_once_per_zone_witness:
  "let es = [Ra_Frame \<lparr>fr_src = 9, fr_dst = 36, fr_proto = 1, fr_size = 5,
        fr_data = [5, HCAN_HES_HELLIGKEITS_INFO, 80, 0, 200]\<rparr>, Ra_Tick (\<lambda>z. z = 1), Ra_Tick (\<lambda>z. z = 2)]
   in length (payloads (snd (fold ra_step es (ex_rolladenAutomat, ex_board)))) \<le> 1"
proof -
  let ?es = "[Ra_Frame \<lparr>fr_src = 9, fr_dst = 36, fr_proto = 1, fr_size = 5,
        fr_data = [5, HCAN_HES_HELLIGKEITS_INFO, 80, 0, 200]\<rparr>, Ra_Tick (\<lambda>z. z = 1), Ra_Tick (\<lambda>z. z = 2)]"
  obtain p' b' where f: "fold ra_step ?es (ex_rolladenAutomat, ex_board) = (p', b')" by (rule prod.exhaust)
  have "list_all (in_zone (ra_zeitzonen (ra_config ex_rolladenAutomat))) ?es"
    by (simp add: ex_rolladenAutomat_def rolladenAutomat_init_def)
  from rolladenAutomat_once_per_zone [OF this f] obtain ws where "payloads b' = payloads ex_board @ ws" "length ws \<le> 1"
    by (auto simp: of_bool_def split: if_splits)
  then show ?thesis unfolding Let_def f by (simp add: payloads_def ex_board_def)
qed

section \<open>The mean demand\<close>

text \<open>As long as the sum of the demands fits a byte the pump is switched by their mean.\<close>

lemma mittlerer_small:
  assumes "gesamt (zp_heizung p) < 256"
  shows "fst (getMittlererWaermebedarf p b) = of_nat (gesamt (zp_heizung p) div anzahl (zp_heizung p))"
  using assms by (auto simp: getMittlererWaermebedarf_def Let_def)

text \<open>The circulation pump is switched off under full demand: when two heating circuits at 100 percent are
  joined by one at 56 percent, the sum 256 is cut to zero before the division, and the pump is sent an off
  command although the mean demand is 85.\<close>

theorem pump_off_under_demand:
  "let p = waermebedarfSpeichern 2 100 (waermebedarfSpeichern 1 100 (zentralheizungspumpe_init
        \<lparr>zp_config = \<lparr>zp_port = 0, zp_feature = 0, zp_gruppe = 90\<rparr>, zp_heizung = []\<rparr>));
       (p', b') = zentralheizungspumpe_can_callback \<lparr>fr_src = 9, fr_dst = 36, fr_proto = 1, fr_size = 4,
        fr_data = [5, HCAN_HES_HEIZUNG_WAERMEBEDARF_INFO, 3, 56]\<rparr> p ex_board
   in gesamt (zp_heizung p') div anzahl (zp_heizung p') = 85 \<and> payloads b' = [[5, HCAN_HES_POWER_GROUP_OFF, 90]]"
  by code_simp

section \<open>The contract of the driver\<close>

interpretation zeitschaltuhr_tick: output_driver "zeitschaltuhr_timer_handler zm" "\<lambda>p. []" for zm
  by unfold_locales (auto simp: zeitschaltuhr_timer_handler_def zs_sendMessage_def Let_def)

interpretation rolladenAutomat_tick: output_driver "rolladenAutomat_timer_handler zm" "\<lambda>p. []" for zm
  by unfold_locales (auto simp: rolladenAutomat_timer_handler_def ra_sendMessage_def Let_def)

interpretation powerportAutomat_frame: output_driver "powerportAutomat_can_callback f" "\<lambda>p. []" for f
  by unfold_locales (auto simp: powerportAutomat_can_callback_def pa_sendMessage_def Let_def)

interpretation schlitz_tick: output_driver "rolladenSchlitzpos_timer_handler" "\<lambda>p. []"
  by unfold_locales (auto simp: rolladenSchlitzpos_timer_handler_def Let_def)

interpretation schlitz_frame: output_driver "rolladenSchlitzpos_can_callback f" "\<lambda>p. []" for f
  by unfold_locales (auto simp: rolladenSchlitzpos_can_callback_def schlitz_react_def send_rolladen_position_set_def Let_def)

interpretation pumpe_frame: output_driver "zentralheizungspumpe_can_callback f" "\<lambda>p. []" for f
  by unfold_locales (auto simp: zentralheizungspumpe_can_callback_def getMittlererWaermebedarf_def zp_sendMessage_def Let_def)

end
