(* ===== verification/Timeservice.thy ===== *)
theory Timeservice
  imports Inputs
begin

text \<open>
  The time service (\<open>timeservice.c\<close>): a node becomes the master that broadcasts the time when it has not
  heard a master of a lower level for its takeover time. The last section composes two nodes.
\<close>

section \<open>Data and handlers\<close>

record eds_timeservice_block_t =
  ts_level :: u8
  takeover_time :: u8
  ts_interval :: u8

record device_data_timeservice =
  ts_config :: eds_timeservice_block_t
  last_time_frame_received :: u8
  last_time_frame_sent :: u8

definition send_time :: "device_data_timeservice \<Rightarrow> board \<Rightarrow> board" where
  "send_time p b =
    (let c = rtc b; l = ts_level (ts_config p);
         b = send_frame HCAN_MULTICAST_INFO [HCAN_SRV_RTS, HCAN_RTS_TIME_INFO, l, day_of_week c, hour c, minute c, second c] b
     in send_frame HCAN_MULTICAST_INFO [HCAN_SRV_RTS, HCAN_RTS_DATE_INFO, l, day_of_month c, month_of_year c, year c] b)"

definition timeservice_timer_handler :: "device_data_timeservice \<Rightarrow> board \<Rightarrow> device_data_timeservice \<times> board" where
  "timeservice_timer_handler p b =
    (let p = (if last_time_frame_received p < 255 then p\<lparr>last_time_frame_received := last_time_frame_received p + 1\<rparr> else p)
     in if last_time_frame_received p \<ge> takeover_time (ts_config p)
        then (if last_time_frame_sent p = ts_interval (ts_config p)
              then (p\<lparr>last_time_frame_sent := 0\<rparr>, send_time p b)
              else (p\<lparr>last_time_frame_sent := last_time_frame_sent p + 1\<rparr>, b))
        else (p, b))"

text \<open>The frame handler runs over the time services among the devices of the node.\<close>

definition ts_receive :: "canix_frame \<Rightarrow> device_data_timeservice \<Rightarrow> device_data_timeservice" where
  "ts_receive f p = (if fr_data f ! 2 < ts_level (ts_config p) then p\<lparr>last_time_frame_received := 0\<rparr> else p)"

definition timeservice_can_callback :: "canix_frame \<Rightarrow> device_data_timeservice list \<Rightarrow> device_data_timeservice list" where
  "timeservice_can_callback f ps = (if fr_data f ! 1 = HCAN_RTS_TIME_INFO then map (ts_receive f) ps else ps)"

section \<open>Two nodes on the bus\<close>

text \<open>A second of two nodes: each runs its handler, and the frames it sends reach the other one. Which of
  the two comes first differs from second to second.\<close>

record two_nodes =
  node_a :: device_data_timeservice
  board_a :: board
  node_b :: device_data_timeservice
  board_b :: board

definition tick_a :: "two_nodes \<Rightarrow> two_nodes" where
  "tick_a s =
    (let (p, b) = timeservice_timer_handler (node_a s) (board_a s);
         new = map fst (drop (length (sent (board_a s))) (sent b))
     in s\<lparr>node_a := p, board_a := b, node_b := hd (fold timeservice_can_callback new [node_b s])\<rparr>)"

definition tick_b :: "two_nodes \<Rightarrow> two_nodes" where
  "tick_b s =
    (let (p, b) = timeservice_timer_handler (node_b s) (board_b s);
         new = map fst (drop (length (sent (board_b s))) (sent b))
     in s\<lparr>node_b := p, board_b := b, node_a := hd (fold timeservice_can_callback new [node_a s])\<rparr>)"

definition ts_second :: "bool \<Rightarrow> two_nodes \<Rightarrow> two_nodes" where
  "ts_second a_first s = (if a_first then tick_b (tick_a s) else tick_a (tick_b s))"

text \<open>What a tick of a node does, by its counters: whether it sends, and the next counters.\<close>

definition ts_rec :: "device_data_timeservice \<Rightarrow> nat" where
  "ts_rec p = min 255 (unat (last_time_frame_received p) + 1)"

lemma ts_rec_word:
  "unat (if last_time_frame_received p < 255 then last_time_frame_received p + 1 else last_time_frame_received p) = ts_rec p"
proof (cases "last_time_frame_received p < 255")
  case True
  then have "unat (last_time_frame_received p) + 1 < 256" by (simp add: word_less_nat_alt)
  then show ?thesis using True unat_plus_one_lt [of "last_time_frame_received p"] by (simp add: ts_rec_def)
next
  case False
  then show ?thesis using unat_u8_less [of "last_time_frame_received p"] by (simp add: ts_rec_def word_less_nat_alt)
qed

lemma tick_silent:
  assumes "ts_rec p < unat (takeover_time (ts_config p))"
  shows "\<exists>r. timeservice_timer_handler p b = (p\<lparr>last_time_frame_received := r\<rparr>, b) \<and> unat r = ts_rec p"
  using assms ts_rec_word [of p]
  by (intro exI [of _ "if last_time_frame_received p < 255 then last_time_frame_received p + 1 else last_time_frame_received p"])
    (auto simp: timeservice_timer_handler_def Let_def word_le_nat_alt)

lemma tick_master:
  assumes "unat (takeover_time (ts_config p)) \<le> ts_rec p"
  shows "\<exists>r. unat r = ts_rec p \<and> timeservice_timer_handler p b =
    (let q = p\<lparr>last_time_frame_received := r\<rparr>
     in if last_time_frame_sent p = ts_interval (ts_config p) then (q\<lparr>last_time_frame_sent := 0\<rparr>, send_time q b)
        else (q\<lparr>last_time_frame_sent := last_time_frame_sent p + 1\<rparr>, b))"
  using assms ts_rec_word [of p]
  by (intro exI [of _ "if last_time_frame_received p < 255 then last_time_frame_received p + 1 else last_time_frame_received p"])
    (auto simp: timeservice_timer_handler_def Let_def word_le_nat_alt)

lemma sent_time:
  "\<exists>f g. sent (send_time p b) = sent b @ [(f, HCAN_PRIO_LOW), (g, HCAN_PRIO_LOW)] \<and> fr_data f ! 1 = HCAN_RTS_TIME_INFO \<and>
    fr_data f ! 2 = ts_level (ts_config p) \<and> fr_data g ! 1 \<noteq> HCAN_RTS_TIME_INFO"
  by (simp add: send_time_def send_frame_def send_prio_def Let_def)

text \<open>The state of the two nodes after \<open>n\<close> seconds, with node A the only master.\<close>

definition ticks_master :: "nat \<Rightarrow> nat \<Rightarrow> nat" where
  "ticks_master TA n = n + 1 - max TA 1"

definition a_state :: "nat \<Rightarrow> eds_timeservice_block_t \<Rightarrow> nat \<Rightarrow> device_data_timeservice \<Rightarrow> nat \<Rightarrow> bool" where
  "a_state c0 c n p k =
    (let m = ticks_master (unat (takeover_time c)) n; I = unat (ts_interval c) in
     ts_config p = c \<and> unat (last_time_frame_received p) = min 255 n \<and>
     unat (last_time_frame_sent p) = m mod (I + 1) \<and> k = c0 + 2 * (m div (I + 1)))"

definition to_send :: "eds_timeservice_block_t \<Rightarrow> nat \<Rightarrow> nat" where
  "to_send c n = (let TA = max (unat (takeover_time c)) 1; I = unat (ts_interval c) in
     (TA - 1 - n) + (I + 1 - ticks_master (unat (takeover_time c)) n mod (I + 1)))"

lemma a_tick:
  assumes "a_state c0 c n p (length (sent b))" and "timeservice_timer_handler p b = (p', b')"
  shows "a_state c0 c (Suc n) p' (length (sent b')) \<and>
    (if to_send c n = 1 then (\<exists>f g. sent b' = sent b @ [(f, HCAN_PRIO_LOW), (g, HCAN_PRIO_LOW)] \<and> fr_data f ! 1 = HCAN_RTS_TIME_INFO \<and>
       fr_data f ! 2 = ts_level c \<and> fr_data g ! 1 \<noteq> HCAN_RTS_TIME_INFO) \<and> to_send c (Suc n) = unat (ts_interval c) + 1
     else b' = b \<and> to_send c n = Suc (to_send c (Suc n)))"
proof -
  let ?T = "unat (takeover_time c)" and ?I = "unat (ts_interval c)" and ?m = "ticks_master (unat (takeover_time c)) n"
  have st: "ts_config p = c" "unat (last_time_frame_received p) = min 255 n" "unat (last_time_frame_sent p) = ?m mod (?I + 1)"
    "length (sent b) = c0 + 2 * (?m div (?I + 1))"
    using assms(1) by (simp_all add: a_state_def Let_def)
  have rec: "ts_rec p = min 255 (Suc n)" using st(2) by (simp add: ts_rec_def)
  have T: "?T < 256" using unat_u8_less .
  show ?thesis
  proof (cases "?T \<le> Suc n")
    case False
    then have m: "?m = 0" "ticks_master ?T (Suc n) = 0" by (simp_all add: ticks_master_def)
    have "ts_rec p < ?T" using rec False T by simp
    then obtain r where r: "p' = p\<lparr>last_time_frame_received := r\<rparr>" "b' = b" "unat r = min 255 (Suc n)"
      using tick_silent [of p b] assms(2) st(1) rec by auto
    have "to_send c n = Suc (to_send c (Suc n))" "to_send c n \<noteq> 1"
      using False m by (simp_all add: to_send_def Let_def)
    then show ?thesis using r st m by (simp add: a_state_def Let_def)
  next
    case True
    then have m: "ticks_master ?T (Suc n) = Suc ?m" by (simp add: ticks_master_def)
    have "?T \<le> ts_rec p" using rec True T by simp
    then obtain r where r: "unat r = min 255 (Suc n)" and h: "(p', b') =
        (let q = p\<lparr>last_time_frame_received := r\<rparr>
         in if last_time_frame_sent p = ts_interval c then (q\<lparr>last_time_frame_sent := 0\<rparr>, send_time q b)
            else (q\<lparr>last_time_frame_sent := last_time_frame_sent p + 1\<rparr>, b))"
      using tick_master [of p b] assms(2) st(1) rec by auto
    have due: "to_send c n = ?I + 1 - ?m mod (?I + 1)" using True by (simp add: to_send_def Let_def)
    have nxt: "to_send c (Suc n) = ?I + 1 - Suc ?m mod (?I + 1)" using True m by (simp add: to_send_def Let_def)
    have lt: "?m mod (?I + 1) < ?I + 1" by simp
    show ?thesis
    proof (cases "?m mod (?I + 1) = ?I")
      case send: True
      then have "last_time_frame_sent p = ts_interval c" using st(3) by (simp add: word_unat_eq_iff)
      with h have p': "p' = p\<lparr>last_time_frame_received := r, last_time_frame_sent := 0\<rparr>"
        and b': "b' = send_time (p\<lparr>last_time_frame_received := r\<rparr>) b" by (simp_all add: Let_def)
      have mm: "Suc ?m mod (?I + 1) = 0" "Suc ?m div (?I + 1) = Suc (?m div (?I + 1))"
        using send by (simp_all add: mod_Suc div_Suc)
      have "to_send c n = 1" using due send by simp
      moreover have "length (sent b') = length (sent b) + 2"
        using sent_time [of "p\<lparr>last_time_frame_received := r\<rparr>" b] by (auto simp: b')
      moreover have "a_state c0 c (Suc n) p' (length (sent b) + 2)"
        using p' r st m mm by (simp add: a_state_def Let_def)
      ultimately show ?thesis using nxt mm sent_time [of "p\<lparr>last_time_frame_received := r\<rparr>" b] st(1)
        by (simp add: b')
    next
      case wait: False
      then have "last_time_frame_sent p \<noteq> ts_interval c" using st(3) by auto
      with h have p': "p' = p\<lparr>last_time_frame_received := r, last_time_frame_sent := last_time_frame_sent p + 1\<rparr>"
        and b': "b' = b" by (simp_all add: Let_def)
      have mm: "Suc ?m mod (?I + 1) = Suc (?m mod (?I + 1))" "Suc ?m div (?I + 1) = ?m div (?I + 1)"
        using wait by (simp_all add: mod_Suc div_Suc)
      have "unat (last_time_frame_sent p) + 1 < 2 ^ LENGTH(8)"
      proof -
        have "?m mod (?I + 1) < ?I" using lt wait by linarith
        then show ?thesis using st(3) unat_u8_less [of "ts_interval c"] by simp
      qed
      then have "unat (last_time_frame_sent p + 1) = Suc ?m mod (?I + 1)"
        using unat_plus_one_lt [of "last_time_frame_sent p"] st(3) mm by simp
      then have "a_state c0 c (Suc n) p' (length (sent b'))"
        using p' b' r st m mm by (simp add: a_state_def Let_def)
      moreover have "to_send c n = Suc (to_send c (Suc n))" "to_send c n \<noteq> 1"
        using due nxt mm(1) wait lt by linarith+
      ultimately show ?thesis using b' by simp
    qed
  qed
qed

text \<open>Node B after \<open>n\<close> seconds: it never reaches its takeover time, because the next frame of node A comes
  first.\<close>

definition b_quiet :: "eds_timeservice_block_t \<Rightarrow> eds_timeservice_block_t \<Rightarrow> nat \<Rightarrow> device_data_timeservice \<Rightarrow> bool" where
  "b_quiet ca cb n p = (ts_config p = cb \<and>
     unat (last_time_frame_received p) + to_send ca n < unat (takeover_time cb))"

definition nodes_inv ::
  "nat \<Rightarrow> eds_timeservice_block_t \<Rightarrow> board \<Rightarrow> eds_timeservice_block_t \<Rightarrow> nat \<Rightarrow> two_nodes \<Rightarrow> bool" where
  "nodes_inv c0 ca b0 cb n s = (a_state c0 ca n (node_a s) (length (sent (board_a s))) \<and>
     b_quiet ca cb n (node_b s) \<and> board_b s = b0)"

lemma tick_b_quiet:
  assumes "ts_config (node_b s) = cb" and "unat (last_time_frame_received (node_b s)) + 1 < unat (takeover_time cb)"
  shows "\<exists>r. tick_b s = s\<lparr>node_b := (node_b s)\<lparr>last_time_frame_received := r\<rparr>\<rparr> \<and>
    unat r = unat (last_time_frame_received (node_b s)) + 1"
proof -
  have "ts_rec (node_b s) = unat (last_time_frame_received (node_b s)) + 1"
    using assms(2) unat_u8_less [of "takeover_time cb"] by (simp add: ts_rec_def)
  then show ?thesis using tick_silent [of "node_b s" "board_b s"] assms by (auto simp: tick_b_def)
qed

text \<open>A tick of A in a second in which B is at \<open>r\<close> (before or after its own tick).\<close>

lemma tick_a_step:
  assumes "a_state c0 ca n (node_a s) (length (sent (board_a s)))" and "ts_config (node_b s) = cb"
    and "ts_level ca < ts_level cb"
  shows "\<exists>p' b'. a_state c0 ca (Suc n) p' (length (sent b')) \<and>
    tick_a s = s\<lparr>node_a := p', board_a := b', node_b := (if to_send ca n = 1
      then (node_b s)\<lparr>last_time_frame_received := 0\<rparr> else node_b s)\<rparr>"
proof -
  obtain p' b' where h: "timeservice_timer_handler (node_a s) (board_a s) = (p', b')"
    by (cases "timeservice_timer_handler (node_a s) (board_a s)")
  note at = a_tick [OF assms(1) h]
  show ?thesis
  proof (cases "to_send ca n = 1")
    case True
    with at obtain f g where "sent b' = sent (board_a s) @ [(f, HCAN_PRIO_LOW), (g, HCAN_PRIO_LOW)]"
      "fr_data f ! 1 = HCAN_RTS_TIME_INFO" "fr_data f ! 2 = ts_level ca" "fr_data g ! 1 \<noteq> HCAN_RTS_TIME_INFO" by auto
    then have "tick_a s = s\<lparr>node_a := p', board_a := b', node_b := (node_b s)\<lparr>last_time_frame_received := 0\<rparr>\<rparr>"
      using h assms(2,3) by (simp add: tick_a_def timeservice_can_callback_def ts_receive_def)
    then show ?thesis using at True by auto
  next
    case False
    with at have "b' = board_a s" by simp
    with h False have "tick_a s = s\<lparr>node_a := p', board_a := b', node_b := (if to_send ca n = 1
      then (node_b s)\<lparr>last_time_frame_received := 0\<rparr> else node_b s)\<rparr>" by (simp add: tick_a_def)
    then show ?thesis using at by blast
  qed
qed

lemma to_send_pos: "0 < to_send c n"
proof -
  have "ticks_master (unat (takeover_time c)) n mod (unat (ts_interval c) + 1) < unat (ts_interval c) + 1" by simp
  then show ?thesis unfolding to_send_def Let_def by linarith
qed

lemma to_send_next:
  "to_send c (Suc n) = (if to_send c n = 1 then unat (ts_interval c) + 1 else to_send c n - 1)"
proof -
  let ?T = "unat (takeover_time c)" and ?I = "unat (ts_interval c)" and ?m = "ticks_master (unat (takeover_time c)) n"
  show ?thesis
  proof (cases "?T \<le> Suc n")
    case True
    then have "ticks_master ?T (Suc n) = Suc ?m" by (simp add: ticks_master_def)
    moreover have "?m mod (?I + 1) < ?I + 1" by simp
    ultimately show ?thesis using True by (cases "?m mod (?I + 1) = ?I") (auto simp: to_send_def Let_def mod_Suc)
  next
    case False
    then show ?thesis by (simp add: to_send_def Let_def ticks_master_def)
  qed
qed

lemma second_inv:
  assumes "nodes_inv c0 ca b0 cb n s" and "ts_level ca < ts_level cb"
    and "unat (ts_interval ca) + 2 < unat (takeover_time cb)"
  shows "nodes_inv c0 ca b0 cb (Suc n) (ts_second o1 s)"
proof -
  let ?r = "unat (last_time_frame_received (node_b s))"
  have a: "a_state c0 ca n (node_a s) (length (sent (board_a s)))" and cb: "ts_config (node_b s) = cb"
    and q: "?r + to_send ca n < unat (takeover_time cb)" and b0: "board_b s = b0"
    using assms(1) by (simp_all add: nodes_inv_def b_quiet_def)
  note nx = to_send_next [of ca n]
  show ?thesis
  proof (cases o1)
    case True
    obtain p' b' where ta: "a_state c0 ca (Suc n) p' (length (sent b'))"
      "tick_a s = s\<lparr>node_a := p', board_a := b', node_b := (if to_send ca n = 1
        then (node_b s)\<lparr>last_time_frame_received := 0\<rparr> else node_b s)\<rparr>"
      using tick_a_step [OF a cb assms(2)] by blast
    have c1: "ts_config (node_b (tick_a s)) = cb" "unat (last_time_frame_received (node_b (tick_a s))) =
        (if to_send ca n = 1 then 0 else ?r)"
      using ta(2) cb by simp_all
    have lt: "unat (last_time_frame_received (node_b (tick_a s))) + 1 < unat (takeover_time cb)"
      using c1(2) q assms(3) to_send_pos [of ca n] by (auto split: if_splits)
    obtain r where r: "tick_b (tick_a s) = (tick_a s)\<lparr>node_b := (node_b (tick_a s))\<lparr>last_time_frame_received := r\<rparr>\<rparr>"
      "unat r = unat (last_time_frame_received (node_b (tick_a s))) + 1"
      using tick_b_quiet [OF c1(1) lt] by blast
    have "unat r + to_send ca (Suc n) < unat (takeover_time cb)"
      using r(2) c1(2) nx q assms(3) to_send_pos [of ca n] by (auto split: if_splits)
    then show ?thesis using True r(1) ta c1(1) b0 by (simp add: ts_second_def nodes_inv_def b_quiet_def)
  next
    case False
    have "?r + 1 < unat (takeover_time cb)" using q to_send_pos [of ca n] by simp
    then obtain r where r: "tick_b s = s\<lparr>node_b := (node_b s)\<lparr>last_time_frame_received := r\<rparr>\<rparr>" "unat r = ?r + 1"
      using tick_b_quiet [OF cb] by blast
    then have "a_state c0 ca n (node_a (tick_b s)) (length (sent (board_a (tick_b s))))" "ts_config (node_b (tick_b s)) = cb"
      using a cb by simp_all
    from tick_a_step [OF this assms(2)] obtain p' b' where ta: "a_state c0 ca (Suc n) p' (length (sent b'))"
      "tick_a (tick_b s) = (tick_b s)\<lparr>node_a := p', board_a := b', node_b := (if to_send ca n = 1
        then (node_b (tick_b s))\<lparr>last_time_frame_received := 0\<rparr> else node_b (tick_b s))\<rparr>" by blast
    have "(if to_send ca n = 1 then 0 else unat r) + to_send ca (Suc n) < unat (takeover_time cb)"
      using r(2) nx q assms(3) to_send_pos [of ca n] by (auto split: if_splits)
    then show ?thesis using False r(1) ta cb b0 by (auto simp: ts_second_def nodes_inv_def b_quiet_def)
  qed
qed

text \<open>C33: There is one master of time. Of two nodes started together, neither of which has seen or sent a time
  frame yet, the one with the lower level sends the time every \<open>interval + 1\<close> seconds from its takeover
  time on, two frames each time, and the other one never sends, in whatever order the two run their handlers within
  each second. The condition is that the takeover time of the second node is longer than that of the first (or two
  seconds) together with the interval of the first. Without it both can send.\<close>

theorem timeservice_single_master:
  assumes "ts_level (ts_config (node_a s)) < ts_level (ts_config (node_b s))"
    and "max (unat (takeover_time (ts_config (node_a s)))) 2 + unat (ts_interval (ts_config (node_a s)))
      < unat (takeover_time (ts_config (node_b s)))"
    and "last_time_frame_received (node_a s) = 0" "last_time_frame_sent (node_a s) = 0"
    and "last_time_frame_received (node_b s) = 0"
  shows "let s' = fold ts_second orders s; ca = ts_config (node_a s);
             m = length orders + 1 - max (unat (takeover_time ca)) 1 in
    board_b s' = board_b s \<and>
    length (sent (board_a s')) = length (sent (board_a s)) + 2 * (m div (unat (ts_interval ca) + 1))"
proof -
  let ?ca = "ts_config (node_a s)" and ?cb = "ts_config (node_b s)" and ?c0 = "length (sent (board_a s))"
  have I: "unat (ts_interval ?ca) + 2 < unat (takeover_time ?cb)" using assms(2) by simp
  have m0: "ticks_master (unat (takeover_time ?ca)) 0 = 0" by (simp add: ticks_master_def)
  have "nodes_inv ?c0 ?ca (board_b s) ?cb (length orders) (fold ts_second orders s)"
  proof (induction orders rule: rev_induct)
    case Nil
    have "to_send ?ca 0 < unat (takeover_time ?cb)"
      using assms(2) m0 by (simp add: to_send_def Let_def)
    then show ?case using assms(3-5) m0 by (simp add: nodes_inv_def a_state_def b_quiet_def Let_def)
  next
    case (snoc x xs)
    then show ?case using second_inv [OF _ assms(1) I] by simp
  qed
  then show ?thesis by (simp add: nodes_inv_def a_state_def Let_def ticks_master_def)
qed

definition ex_timeservice :: "u8 \<Rightarrow> u8 \<Rightarrow> u8 \<Rightarrow> device_data_timeservice" where
  "ex_timeservice l t i = \<lparr>ts_config = \<lparr>ts_level = l, takeover_time = t, ts_interval = i\<rparr>,
     last_time_frame_received = 0, last_time_frame_sent = 0\<rparr>"

theorem timeservice_single_master_witness:
  "let s = fold ts_second (replicate 200 True) \<lparr>node_a = ex_timeservice 1 10 29, board_a = ex_board,
       node_b = ex_timeservice 2 120 29, board_b = ex_board\<rparr>
   in length (sent (board_a s)) = 12 \<and> sent (board_b s) = []"
  using timeservice_single_master [of "\<lparr>node_a = ex_timeservice 1 10 29, board_a = ex_board,
       node_b = ex_timeservice 2 120 29, board_b = ex_board\<rparr>" "replicate 200 True"]
  by (simp add: ex_timeservice_def ex_board_def Let_def)

section \<open>The contract of the driver\<close>

interpretation timeservice_tick: output_driver timeservice_timer_handler "\<lambda>p. []"
  by unfold_locales (auto simp: timeservice_timer_handler_def send_time_def Let_def)

end
