(* ===== verification/Onewire.thy ===== *)
theory Onewire
  imports Inputs
begin

text \<open>
  The 1-wire bus (\<open>onewire.c\<close>): bits, bytes, commands, and the search that finds the addresses of all
  sensors on the line. The line is a parameter: \<open>line bit s\<close> is the level the master samples when it
  writes \<open>bit\<close>, \<open>rst s\<close> the two samples of a reset; timing is not modelled. The search is verified on
  the line of a set of devices that answer the search command.
\<close>

section \<open>The driver\<close>

abbreviation (input) MATCH_ROM :: u8 where "MATCH_ROM \<equiv> 0x55"
abbreviation (input) SKIP_ROM :: u8 where "SKIP_ROM \<equiv> 0xCC"
abbreviation (input) SEARCH_ROM :: u8 where "SEARCH_ROM \<equiv> 0xF0"
abbreviation (input) SEARCH_FIRST :: nat where "SEARCH_FIRST \<equiv> 0xFF"
abbreviation (input) LAST_DEVICE :: nat where "LAST_DEVICE \<equiv> 0"

type_synonym 's ow_line = "bool \<Rightarrow> 's \<Rightarrow> bool \<times> 's"
type_synonym 's ow_rst = "'s \<Rightarrow> (bool \<times> bool) \<times> 's"

datatype ow_error = PRESENCE_ERR | DATA_ERR

definition ow_setpin :: "u8 \<Rightarrow> u8" where
  "ow_setpin pin = 15 - pin"

definition ow_getpin :: "u8 \<Rightarrow> u8" where
  "ow_getpin ow_pin = 15 - ow_pin"

text \<open>The error flag of a reset: no presence pulse in the first sample, or the line still low in the
  second.\<close>

definition ow_reset :: "'s ow_rst \<Rightarrow> 's \<Rightarrow> bool \<times> 's" where
  "ow_reset rst s = (let ((s1, s2), s) = rst s in (s1 \<or> \<not> s2, s))"

definition ow_bit_io :: "'s ow_line \<Rightarrow> bool \<Rightarrow> 's \<Rightarrow> bool \<times> 's" where
  "ow_bit_io line x s = (let (level, s) = line x s in (x \<and> level, s))"

text \<open>\<open>b >>= 1; if (j) b |= 0x80\<close>\<close>

definition shift_in :: "bool \<Rightarrow> u8 \<Rightarrow> u8" where
  "shift_in j b = drop_bit 1 b OR (if j then 0x80 else 0)"

fun ow_write_loop :: "'s ow_line \<Rightarrow> nat \<Rightarrow> u8 \<Rightarrow> 's \<Rightarrow> u8 \<times> 's" where
  "ow_write_loop line 0 b s = (b, s)"
| "ow_write_loop line (Suc i) b s =
     (let (j, s) = ow_bit_io line (bit b 0) s in ow_write_loop line i (shift_in j b) s)"

definition ow_write_byte :: "'s ow_line \<Rightarrow> u8 \<Rightarrow> 's \<Rightarrow> u8 \<times> 's" where
  "ow_write_byte line b s = ow_write_loop line 8 b s"

definition ow_read_byte :: "'s ow_line \<Rightarrow> 's \<Rightarrow> u8 \<times> 's" where
  "ow_read_byte line s = ow_write_byte line 0xff s"

text \<open>One bit of the search: \<open>x\<close> is the bit of the previous address, \<open>i\<close> counts from 64 down. The line is
  read twice, for the bit and its complement, and the bit chosen is written.\<close>

definition ow_search_step :: "'s ow_line \<Rightarrow> nat \<Rightarrow> bool \<Rightarrow> nat \<Rightarrow> 's \<Rightarrow> nat \<Rightarrow> (bool \<times> 's \<times> nat) option" where
  "ow_search_step line diff x i s next_diff =
    (let (b, s) = ow_bit_io line True s;
         (c, s) = ow_bit_io line True s
     in if c \<and> b then None
        else let (b, next_diff) = (if \<not> c \<and> \<not> b \<and> (diff > i \<or> x \<and> diff \<noteq> i) then (True, i) else (b, next_diff));
                 (_, s) = ow_bit_io line b s
             in Some (b, s, next_diff))"

fun ow_search_bits ::
  "'s ow_line \<Rightarrow> nat \<Rightarrow> nat \<Rightarrow> u8 \<Rightarrow> nat \<Rightarrow> 's \<Rightarrow> nat \<Rightarrow> (u8 \<times> 's \<times> nat) option" where
  "ow_search_bits line 0 diff y i s next_diff = Some (y, s, next_diff)"
| "ow_search_bits line (Suc j) diff y i s next_diff =
     (case ow_search_step line diff (bit y 0) i s next_diff of
        None \<Rightarrow> None
      | Some (b, s, next_diff) \<Rightarrow> ow_search_bits line j diff (shift_in b y) (i - 1) s next_diff)"

fun ow_search_bytes ::
  "'s ow_line \<Rightarrow> nat \<Rightarrow> u8 list \<Rightarrow> nat \<Rightarrow> 's \<Rightarrow> nat \<Rightarrow> (u8 list \<times> 's \<times> nat) option" where
  "ow_search_bytes line diff [] i s next_diff = Some ([], s, next_diff)"
| "ow_search_bytes line diff (y # ys) i s next_diff =
     (case ow_search_bits line 8 diff y i s next_diff of
        None \<Rightarrow> None
      | Some (y', s, next_diff) \<Rightarrow>
          (case ow_search_bytes line diff ys (i - 8) s next_diff of
             None \<Rightarrow> None
           | Some (ys', s, next_diff) \<Rightarrow> Some (y' # ys', s, next_diff)))"

definition ow_rom_search ::
  "'s ow_line \<Rightarrow> 's ow_rst \<Rightarrow> nat \<Rightarrow> u8 list \<Rightarrow> 's \<Rightarrow> (ow_error + nat \<times> u8 list) \<times> 's" where
  "ow_rom_search line rst diff id8 s =
    (let (err, s) = ow_reset rst s
     in if err then (Inl PRESENCE_ERR, s)
        else (let (_, s) = ow_write_byte line SEARCH_ROM s
              in case ow_search_bytes line diff id8 64 s LAST_DEVICE of
                   None \<Rightarrow> (Inl DATA_ERR, s)
                 | Some (id8, s, next_diff) \<Rightarrow> (Inr (next_diff, id8), s)))"

text \<open>A command to one device or, with no address, to all.\<close>

definition ow_command :: "'s ow_line \<Rightarrow> 's ow_rst \<Rightarrow> u8 \<Rightarrow> u8 list option \<Rightarrow> 's \<Rightarrow> 's" where
  "ow_command line rst cmd id8 s =
    (let (_, s) = ow_reset rst s;
         bs = (case id8 of Some bs \<Rightarrow> MATCH_ROM # take 8 bs | None \<Rightarrow> [SKIP_ROM]) @ [cmd]
     in fold (\<lambda>b s. snd (ow_write_byte line b s)) bs s)"

text \<open>The discovery: the loop ends with the last device or an error; not ending would be \<open>None\<close>.
  \<open>id8\<close> is the address buffer, uninitialised at first. The pauses between the frames are left out.\<close>

definition ow_found :: "canix_frame \<Rightarrow> u8 list \<Rightarrow> board \<Rightarrow> board" where
  "ow_found f id8 b =
    (let b = send_prio (fr_src f) [HCAN_SRV_HES, HCAN_HES_1WIRE_DISCOVERED_PART_1, id8 ! 0, id8 ! 1, id8 ! 2, id8 ! 3] HCAN_PRIO_HI b
     in send_prio (fr_src f) [HCAN_SRV_HES, HCAN_HES_1WIRE_DISCOVERED_PART_2, id8 ! 4, id8 ! 5, id8 ! 6, id8 ! 7] HCAN_PRIO_HI b)"

definition ow_failed :: "canix_frame \<Rightarrow> ow_error \<Rightarrow> board \<Rightarrow> board" where
  "ow_failed f e b =
     send_prio (fr_src f) [HCAN_SRV_HES, HCAN_HES_1WIRE_ERROR, case e of PRESENCE_ERR \<Rightarrow> 3 | DATA_ERR \<Rightarrow> 4] HCAN_PRIO_HI b"

partial_function (option) ow_discover_loop ::
  "'s ow_line \<Rightarrow> 's ow_rst \<Rightarrow> canix_frame \<Rightarrow> nat \<Rightarrow> u8 list \<Rightarrow> 's \<Rightarrow> board \<Rightarrow> ('s \<times> board) option" where
  "ow_discover_loop line rst f diff id8 s b =
    (if diff = LAST_DEVICE then Some (s, b)
     else (case ow_rom_search line rst diff id8 s of
             (Inl e, s) \<Rightarrow> Some (s, ow_failed f e b)
           | (Inr (diff, id8), s) \<Rightarrow> ow_discover_loop line rst f diff id8 s (ow_found f id8 b)))"

definition ow_discover :: "'s ow_line \<Rightarrow> 's ow_rst \<Rightarrow> canix_frame \<Rightarrow> u8 list \<Rightarrow> 's \<Rightarrow> board \<Rightarrow> ('s \<times> board) option" where
  "ow_discover line rst f id8 s b = ow_discover_loop line rst f SEARCH_FIRST id8 s b"

section \<open>Bytes bit by bit\<close>

lemma bit_shift_in: "bit (shift_in j y) k = (if k = 7 then j else k < 7 \<and> bit y (Suc k))"
proof -
  have m: "bit (0x80 :: u8) k = (k = 7)"
  proof -
    have "bit (push_bit 7 1 :: u8) k = (k = 7)" by (simp only: bit_push_bit_iff bit_1_iff) auto
    then show ?thesis by simp
  qed
  have "bit y (Suc k) \<Longrightarrow> k < 7" using bit_imp_le_length [of y "Suc k"] by simp
  moreover have "bit (shift_in j y) k = (bit y (Suc k) \<or> j \<and> k = 7)"
    unfolding shift_in_def bit_or_iff bit_drop_bit_eq by (cases j) (simp_all only: m if_True if_False, simp_all)
  ultimately show ?thesis by auto
qed

definition byte_bits :: "u8 \<Rightarrow> bool list" where
  "byte_bits y = map (bit y) [0..<8]"

lemma byte_bits_length [simp]: "length (byte_bits y) = 8"
  by (simp add: byte_bits_def)

lemma byte_bits_inj: "byte_bits x = byte_bits y \<Longrightarrow> x = y"
proof (rule bit_word_eqI)
  fix n assume eq: "byte_bits x = byte_bits y" and n: "n < LENGTH(8)"
  then have "byte_bits x ! n = byte_bits y ! n" by simp
  then show "bit x n = bit y n" using n by (simp add: byte_bits_def)
qed

lemma bits_shifted: "n \<le> 7 \<Longrightarrow> map (bit y) [0..<Suc n] = bit y 0 # map (bit (shift_in j y)) [0..<n]"
  by (simp add: upt_conv_Cons map_Suc_upt [symmetric] bit_shift_in del: upt_Suc)

lemma fold_shift_in:
  "length zs \<le> 8 \<Longrightarrow> k < 8 \<Longrightarrow>
    bit (fold shift_in zs y) k = (if k < 8 - length zs then bit y (k + length zs) else zs ! (k - (8 - length zs)))"
proof (induction zs arbitrary: y)
  case Nil
  then show ?case by simp
next
  case (Cons z zs)
  have "bit (fold shift_in (z # zs) y) k =
      (if k < 8 - length zs then bit (shift_in z y) (k + length zs) else zs ! (k - (8 - length zs)))"
    using Cons by simp
  also have "\<dots> = (if k < 8 - length (z # zs) then bit y (k + length (z # zs)) else (z # zs) ! (k - (8 - length (z # zs))))"
    using Cons.prems by (auto simp: bit_shift_in nth_Cons' Suc_diff_le)
  finally show ?case .
qed

lemma byte_bits_fold: "length zs = 8 \<Longrightarrow> byte_bits (fold shift_in zs y) = zs"
  by (rule nth_equalityI) (simp_all add: byte_bits_def fold_shift_in)

text \<open>The search over the bits of an address; \<open>bits_of\<close> an address, first byte first, low bit first.\<close>

fun bits_search :: "'s ow_line \<Rightarrow> nat \<Rightarrow> bool list \<Rightarrow> nat \<Rightarrow> 's \<Rightarrow> nat \<Rightarrow> (bool list \<times> 's \<times> nat) option" where
  "bits_search line diff [] i s nd = Some ([], s, nd)"
| "bits_search line diff (x # xs) i s nd =
     (case ow_search_step line diff x i s nd of
        None \<Rightarrow> None
      | Some (b, s, nd) \<Rightarrow>
          (case bits_search line diff xs (i - 1) s nd of None \<Rightarrow> None | Some (zs, r) \<Rightarrow> Some (b # zs, r)))"

lemma bits_search_length: "bits_search line diff xs i s nd = Some (zs, r) \<Longrightarrow> length zs = length xs"
  by (induction xs arbitrary: i s nd zs r) (auto split: option.splits)

lemma search_bits_eq:
  "n \<le> 8 \<Longrightarrow> ow_search_bits line n diff y i s nd =
    (case bits_search line diff (map (bit y) [0..<n]) i s nd of
       None \<Rightarrow> None | Some (zs, r) \<Rightarrow> Some (fold shift_in zs y, r))"
proof (induction n arbitrary: y i s nd)
  case 0
  then show ?case by simp
next
  case (Suc n)
  have sh: "map (bit y) [0..<Suc n] = bit y 0 # map (bit (shift_in b y)) [0..<n]" for b
    using Suc.prems by (intro bits_shifted) simp
  show ?case
  proof (cases "ow_search_step line diff (bit y 0) i s nd")
    case None
    then show ?thesis unfolding sh [of True] by simp
  next
    case (Some r)
    obtain b s' nd' where r: "r = (b, s', nd')" by (cases r)
    then show ?thesis using Suc.IH [of "shift_in b y" "i - 1" s' nd'] Suc.prems Some unfolding sh [of b]
      by (auto split: option.splits)
  qed
qed

lemma bits_search_append:
  "bits_search line diff (xs @ ys) i s nd =
    (case bits_search line diff xs i s nd of
       None \<Rightarrow> None
     | Some (zs, s, nd) \<Rightarrow> (case bits_search line diff ys (i - length xs) s nd of
         None \<Rightarrow> None | Some (zs', r) \<Rightarrow> Some (zs @ zs', r)))"
  by (induction xs arbitrary: i s nd) (auto split: option.splits)

definition bits_of :: "u8 list \<Rightarrow> bool list" where
  "bits_of ys = concat (map byte_bits ys)"

lemma bits_of_Cons [simp]: "bits_of (y # ys) = byte_bits y @ bits_of ys"
  by (simp add: bits_of_def)

lemma bits_of_Nil [simp]: "bits_of [] = []"
  by (simp add: bits_of_def)

lemma bits_of_length [simp]: "length (bits_of ys) = 8 * length ys"
  by (induction ys) auto

lemma bits_of_inj: "length xs = length ys \<Longrightarrow> bits_of xs = bits_of ys \<Longrightarrow> xs = ys"
  by (induction xs ys rule: list_induct2) (auto dest: byte_bits_inj)

lemma search_bytes_eq:
  "case bits_search line diff (bits_of ys) i s nd of
     None \<Rightarrow> ow_search_bytes line diff ys i s nd = None
   | Some (zs, r) \<Rightarrow> \<exists>ys'. length ys' = length ys \<and> bits_of ys' = zs \<and> ow_search_bytes line diff ys i s nd = Some (ys', r)"
proof (induction ys arbitrary: i s nd)
  case Nil
  then show ?case by simp
next
  case (Cons y ys)
  show ?case
  proof (cases "bits_search line diff (byte_bits y) i s nd")
    case None
    then show ?thesis using search_bits_eq [of 8 line diff y i s nd]
      by (simp add: bits_search_append byte_bits_def [symmetric])
  next
    case (Some r)
    obtain zs s' nd' where r: "r = (zs, s', nd')" by (cases r)
    have len: "length zs = 8" using bits_search_length [OF Some [unfolded r]] by simp
    have sb: "ow_search_bits line 8 diff y i s nd = Some (fold shift_in zs y, s', nd')"
      using search_bits_eq [of 8 line diff y i s nd] Some r by (simp add: byte_bits_def [symmetric])
    show ?thesis
    proof (cases "bits_search line diff (bits_of ys) (i - 8) s' nd'")
      case none: None
      then show ?thesis using Cons.IH [of "i - 8" s' nd'] Some r sb by (simp add: bits_search_append)
    next
      case some: (Some q)
      obtain zs' r' where q: "q = (zs', r')" by (cases q)
      from Cons.IH [of "i - 8" s' nd'] some q obtain ys' where "length ys' = length ys" "bits_of ys' = zs'"
        "ow_search_bytes line diff ys (i - 8) s' nd' = Some (ys', r')" by auto
      then show ?thesis using Some r sb some q byte_bits_fold [OF len, of y]
        by (auto simp: bits_search_append intro: exI [of _ "fold shift_in zs y # ys'"])
    qed
  qed
qed

section \<open>The line of a set of devices\<close>

text \<open>The devices on the line, as the data sheet of the sensors describes them: after a reset they collect
  the bits of a command; in a search every device that still takes part sends its next address bit and
  then its complement, a low level winning, and drops out when the master writes the other bit.\<close>

datatype ow_phase = Send_Bit | Send_Complement | Take_Bit

datatype ow_mode = Ow_Cmd "bool list" | Ow_Search ow_phase "bool list list" | Ow_Other

type_synonym ow_bus = "bool list list \<times> ow_mode"

definition bus_rst :: "ow_bus ow_rst" where
  "bus_rst s = ((fst s = [], True), (fst s, Ow_Cmd []))"

definition part :: "bool \<Rightarrow> bool list list \<Rightarrow> bool list list" where
  "part b P = map tl (filter (\<lambda>d. hd d = b) P)"

definition take_cmd :: "bool list list \<Rightarrow> bool list \<Rightarrow> ow_mode" where
  "take_cmd D bs = (if length bs < 8 then Ow_Cmd bs
     else if bs = byte_bits SEARCH_ROM then Ow_Search Send_Bit D else Ow_Other)"

fun bus_line :: "ow_bus ow_line" where
  "bus_line x (D, Ow_Cmd bs) = (True, (D, take_cmd D (bs @ [x])))"
| "bus_line x (D, Ow_Search Send_Bit P) = (list_all hd P, (D, Ow_Search Send_Complement P))"
| "bus_line x (D, Ow_Search Send_Complement P) = (list_all (\<lambda>d. \<not> hd d) P, (D, Ow_Search Take_Bit P))"
| "bus_line x (D, Ow_Search Take_Bit P) = (True, (D, Ow_Search Send_Bit (part x P)))"
| "bus_line x (D, Ow_Other) = (True, (D, Ow_Other))"

lemma write_cmd:
  "length bs + n = 8 \<Longrightarrow> 0 < n \<Longrightarrow>
    snd (ow_write_loop bus_line n y (D, Ow_Cmd bs)) = (D, take_cmd D (bs @ map (bit y) [0..<n]))"
proof (induction n arbitrary: bs y)
  case 0
  then show ?case by simp
next
  case (Suc n)
  have sh: "map (bit y) [0..<Suc n] = bit y 0 # map (bit (shift_in (bit y 0) y)) [0..<n]"
    using Suc.prems by (intro bits_shifted) simp
  show ?case
  proof (cases "n = 0")
    case True
    then show ?thesis by (simp add: ow_bit_io_def)
  next
    case False
    then have "take_cmd D (bs @ [bit y 0]) = Ow_Cmd (bs @ [bit y 0])" using Suc.prems by (simp add: take_cmd_def)
    then show ?thesis using Suc.IH [of "bs @ [bit y 0]" "shift_in (bit y 0) y"] Suc.prems False
      unfolding sh by (simp add: ow_bit_io_def)
  qed
qed

lemma write_search: "snd (ow_write_byte bus_line SEARCH_ROM (D, Ow_Cmd [])) = (D, Ow_Search Send_Bit D)"
  using write_cmd [of "[]" 8 SEARCH_ROM D]
  by (simp add: ow_write_byte_def take_cmd_def byte_bits_def [symmetric])

definition pick_bit :: "nat \<Rightarrow> bool \<Rightarrow> nat \<Rightarrow> bool list list \<Rightarrow> nat \<Rightarrow> bool \<times> nat" where
  "pick_bit diff x i P nd =
    (if part True P \<noteq> [] \<and> part False P \<noteq> [] \<and> (diff > i \<or> x \<and> diff \<noteq> i) then (True, i) else (part False P = [], nd))"

lemma part_empty: "part b P = [] \<longleftrightarrow> (\<forall>d \<in> set P. hd d \<noteq> b)"
  by (auto simp: part_def filter_empty_conv)

lemma search_step_bus:
  assumes "P \<noteq> []"
  shows "ow_search_step bus_line diff x i (D, Ow_Search Send_Bit P) nd =
    (let (b, nd') = pick_bit diff x i P nd in Some (b, (D, Ow_Search Send_Bit (part b P)), nd'))"
proof -
  have a: "list_all hd P = (part False P = [])" "list_all (\<lambda>d. \<not> hd d) P = (part True P = [])"
    by (auto simp: part_empty list_all_iff)
  have "\<not> (part False P = [] \<and> part True P = [])" using assms by (auto simp: part_empty) (metis list.set_intros(1) neq_Nil_conv)
  then show ?thesis by (auto simp: ow_search_step_def ow_bit_io_def a pick_bit_def)
qed

text \<open>The search on the line, over the bits alone.\<close>

fun rom_walk :: "nat \<Rightarrow> bool list \<Rightarrow> bool list list \<Rightarrow> nat \<Rightarrow> bool list \<times> nat" where
  "rom_walk diff [] P nd = ([], nd)"
| "rom_walk diff (x # xs) P nd =
     (let (b, nd) = pick_bit diff x (Suc (length xs)) P nd; (zs, nd) = rom_walk diff xs (part b P) nd in (b # zs, nd))"

definition all_len :: "nat \<Rightarrow> bool list list \<Rightarrow> bool" where
  "all_len n P = list_all (\<lambda>d. length d = n) P"

lemma all_len_part: "all_len (Suc n) P \<Longrightarrow> all_len n (part b P)"
  by (auto simp: all_len_def part_def list_all_iff)

lemma pick_bit_part: "P \<noteq> [] \<Longrightarrow> pick_bit diff x i P nd = (b, nd') \<Longrightarrow> part b P \<noteq> []"
  by (auto simp: pick_bit_def part_empty neq_Nil_conv split: if_splits)

lemma bits_search_bus:
  "P \<noteq> [] \<Longrightarrow> \<exists>s. bits_search bus_line diff xs (length xs) (D, Ow_Search Send_Bit P) nd =
    Some (fst (rom_walk diff xs P nd), (D, s), snd (rom_walk diff xs P nd))"
proof (induction xs arbitrary: P nd)
  case Nil
  then show ?case by simp
next
  case (Cons x xs)
  obtain b nd' where c: "pick_bit diff x (Suc (length xs)) P nd = (b, nd')" by (cases "pick_bit diff x (Suc (length xs)) P nd")
  from pick_bit_part [OF Cons.prems c] Cons.IH [of "part b P" nd'] search_step_bus [OF Cons.prems] c
  show ?case by (auto split: prod.splits)
qed

section \<open>The walk visits every device once\<close>

text \<open>The devices in the order of the search: ones before zeros.\<close>

fun enum :: "nat \<Rightarrow> bool list list \<Rightarrow> bool list list" where
  "enum 0 P = (if P = [] then [] else [[]])"
| "enum (Suc n) P = (if P = [] then [] else map ((#) True) (enum n (part True P)) @ map ((#) False) (enum n (part False P)))"

text \<open>The last position of an address at which the search took a one and zeros were left; 0 if there is
  none. Positions count from the length down to 1.\<close>

fun dpos :: "bool list \<Rightarrow> bool list list \<Rightarrow> nat" where
  "dpos [] P = 0"
| "dpos (x # xs) P =
     (let r = dpos xs (part x P) in if r \<noteq> 0 then r else if x \<and> part False P \<noteq> [] then Suc (length xs) else 0)"

lemma dpos_le: "dpos xs P \<le> length xs"
  by (induction xs P rule: dpos.induct) (auto simp: Let_def)

lemma enum_empty [simp]: "enum n [] = []"
  by (cases n) auto

lemma enum_empty_iff: "enum n P = [] \<longleftrightarrow> P = []"
proof (induction n arbitrary: P)
  case 0
  then show ?case by simp
next
  case (Suc n)
  have "P \<noteq> [] \<Longrightarrow> part True P \<noteq> [] \<or> part False P \<noteq> []"
    by (auto simp: part_empty neq_Nil_conv)
  then show ?case using Suc by auto
qed

lemma enum_set: "all_len n P \<Longrightarrow> set (enum n P) = set P"
proof (induction n arbitrary: P)
  case 0
  then show ?case by (cases P) (auto simp: all_len_def list_all_iff)
next
  case (Suc n)
  have "set P = (#) True ` set (part True P) \<union> (#) False ` set (part False P)"
  proof (rule set_eqI)
    fix d
    have ne: "[] \<notin> set P" using Suc.prems by (auto simp: all_len_def list_all_iff)
    have iff: "(b # e \<in> set P) = (e \<in> set (part b P))" for b e
    proof -
      have "b # e \<in> set P" if "e \<in> set (part b P)"
      proof -
        from that obtain x where x: "x \<in> set P" "hd x = b" "e = tl x" by (auto simp: part_def)
        then have "x \<noteq> []" using Suc.prems by (auto simp: all_len_def list_all_iff)
        then show ?thesis using x list.collapse [of x] by simp
      qed
      moreover have "b # e \<in> set P \<Longrightarrow> e \<in> set (part b P)" by (force simp: part_def)
      ultimately show ?thesis by blast
    qed
    show "(d \<in> set P) = (d \<in> (#) True ` set (part True P) \<union> (#) False ` set (part False P))"
    proof (cases d)
      case Nil
      then show ?thesis using ne by auto
    next
      case (Cons b e)
      then show ?thesis unfolding Cons iff by (cases b) auto
    qed
  qed
  then show ?case using Suc.IH [OF all_len_part [OF Suc.prems]] by auto
qed

lemma enum_distinct: "distinct (enum n P)"
  by (induction n arbitrary: P) (auto simp: distinct_map)

lemma enum_length: "all_len n P \<Longrightarrow> d \<in> set (enum n P) \<Longrightarrow> length d = n"
  by (simp add: enum_set all_len_def list_all_iff)

text \<open>A fresh search finds the first device; the second component is where it last had a choice.\<close>

definition walk_end :: "bool list \<Rightarrow> bool list list \<Rightarrow> nat \<Rightarrow> nat" where
  "walk_end y P nd = (if dpos y P \<noteq> 0 then dpos y P else nd)"

lemma walk_end_Cons:
  "walk_end (b # y) P nd = walk_end y (part b P) (if b \<and> part False P \<noteq> [] then Suc (length y) else nd)"
  by (simp add: walk_end_def Let_def)

lemma hd_enum:
  assumes "P \<noteq> []"
  shows "hd (enum (Suc n) P) = (if part True P \<noteq> [] then True # hd (enum n (part True P)) else False # hd (enum n (part False P)))"
proof -
  have "part True P = [] \<Longrightarrow> part False P \<noteq> []" using assms by (auto simp: part_empty neq_Nil_conv)
  then show ?thesis using assms by (auto simp: hd_append hd_map enum_empty_iff)
qed

lemma walk_first:
  "P \<noteq> [] \<Longrightarrow> all_len (length xs) P \<Longrightarrow> length xs < diff \<Longrightarrow>
    rom_walk diff xs P nd = (hd (enum (length xs) P), walk_end (hd (enum (length xs) P)) P nd)"
proof (induction xs arbitrary: P nd)
  case Nil
  then show ?case by (simp add: walk_end_def)
next
  case (Cons x xs)
  let ?n = "length xs"
  define b where "b = (part True P \<noteq> [])"
  define y where "y = hd (enum ?n (part b P))"
  have pf: "part True P = [] \<Longrightarrow> part False P \<noteq> []" using Cons.prems(1) by (auto simp: part_empty neq_Nil_conv)
  then have pb: "part b P \<noteq> []" by (cases "part True P = []") (simp_all add: b_def)
  have c: "pick_bit diff x (Suc ?n) P nd = (b, if b \<and> part False P \<noteq> [] then Suc ?n else nd)"
    using Cons.prems(3) pf by (auto simp: pick_bit_def b_def)
  have al: "all_len ?n (part b P)" using Cons.prems(2) by (simp add: all_len_part)
  have hd: "hd (enum (Suc ?n) P) = b # y" unfolding hd_enum [OF Cons.prems(1)] y_def by (simp add: b_def)
  have "length y = ?n"
    using enum_length [OF al, of y] pb by (simp add: y_def enum_empty_iff)
  then have we: "walk_end (b # y) P nd = walk_end y (part b P) (if b \<and> part False P \<noteq> [] then Suc ?n else nd)"
    by (simp add: walk_end_Cons)
  have "rom_walk diff xs (part b P) nd' = (y, walk_end y (part b P) nd')" for nd'
    using Cons.IH [OF pb al] Cons.prems(3) by (simp add: y_def)
  then show ?case unfolding list.size(4) hd [simplified] add_Suc_right add_0_right hd we by (simp add: c)
qed

declare enum.simps(2) [simp del]

text \<open>A search continued from a device finds the next one.\<close>

lemma walk_next:
  assumes "all_len n P" and "k < length (enum n P)"
  shows "(dpos (enum n P ! k) P = 0) = (Suc k = length (enum n P)) \<and>
    (Suc k < length (enum n P) \<longrightarrow>
      rom_walk (dpos (enum n P ! k) P) (enum n P ! k) P nd = (enum n P ! Suc k, walk_end (enum n P ! Suc k) P nd))"
  using assms
proof (induction n arbitrary: P k nd)
  case 0
  then show ?case by (auto split: if_splits)
next
  case (Suc n)
  let ?T = "part True P" and ?F = "part False P"
  let ?eT = "enum n ?T" and ?eF = "enum n ?F"
  have P: "P \<noteq> []" using Suc.prems(2) by auto
  have e: "enum (Suc n) P = map ((#) True) ?eT @ map ((#) False) ?eF" using P by (simp add: enum.simps(2))
  have al: "all_len n ?T" "all_len n ?F" using Suc.prems(1) by (simp_all add: all_len_part)
  have len: "j < length ?eT \<Longrightarrow> length (?eT ! j) = n" "j < length ?eF \<Longrightarrow> length (?eF ! j) = n" for j
    using enum_length al by auto
  show ?case
  proof (cases "k < length ?eT")
    case True
    let ?x = "?eT ! k"
    have xk: "enum (Suc n) P ! k = True # ?x" using True by (simp add: e nth_append)
    have T: "?T \<noteq> []" using True by auto
    note IH = Suc.IH [OF al(1) True]
    show ?thesis
    proof (cases "Suc k < length ?eT")
      case more: True
      then have nz: "dpos ?x ?T \<noteq> 0" using IH by simp
      have yk: "enum (Suc n) P ! Suc k = True # (?eT ! Suc k)" using more by (simp add: e nth_append)
      have "dpos ?x ?T \<noteq> Suc n" using dpos_le [of ?x ?T] len(1) [OF True] by simp
      then have c: "pick_bit (dpos ?x ?T) True (Suc n) P nd = (True, if ?F \<noteq> [] then Suc n else nd)"
        using T by (simp add: pick_bit_def)
      have "rom_walk (dpos ?x ?T) ?x ?T (if ?F \<noteq> [] then Suc n else nd) =
          (?eT ! Suc k, walk_end (?eT ! Suc k) ?T (if ?F \<noteq> [] then Suc n else nd))" using IH more by simp
      then show ?thesis using nz c more len(1) [OF True] len(1) [OF more]
        unfolding xk yk by (auto simp: Let_def walk_end_Cons e)
    next
      case last: False
      then have k: "Suc k = length ?eT" and z: "dpos ?x ?T = 0" using True IH by auto
      show ?thesis
      proof (cases "?F = []")
        case Fe: True
        then show ?thesis using k z unfolding xk by (simp add: e Let_def)
      next
        case Fn: False
        then have F0: "0 < length ?eF" by (simp add: enum_empty_iff)
        have yk: "enum (Suc n) P ! Suc k = False # (?eF ! 0)" using k F0 by (simp add: e nth_append)
        have d: "dpos (True # ?x) P = Suc n" using z Fn len(1) [OF True] by simp
        have c: "pick_bit (Suc n) True (Suc n) P nd = (False, nd)" using Fn by (simp add: pick_bit_def)
        have "rom_walk (Suc n) ?x ?F nd = (?eF ! 0, walk_end (?eF ! 0) ?F nd)"
          using walk_first [of ?F ?x "Suc n" nd] Fn al(2) len(1) [OF True] F0 by (simp add: hd_conv_nth enum_empty_iff)
        then show ?thesis using d c k F0 len(1) [OF True] unfolding xk yk by (simp add: walk_end_Cons e)
      qed
    qed
  next
    case False
    define j where "j = k - length ?eT"
    have j: "j < length ?eF" "k = length ?eT + j" using False Suc.prems(2) by (auto simp: j_def e)
    let ?x = "?eF ! j"
    have xk: "enum (Suc n) P ! k = False # ?x" using j by (simp add: e nth_append)
    have F: "?F \<noteq> []" using j(1) by auto
    note IH = Suc.IH [OF al(2) j(1)]
    have "dpos ?x ?F < Suc n" using dpos_le [of ?x ?F] len(2) [OF j(1)] by simp
    then have c: "pick_bit (dpos ?x ?F) False (Suc n) P nd = (False, nd)" using F by (simp add: pick_bit_def)
    have yk: "Suc j < length ?eF \<Longrightarrow> enum (Suc n) P ! Suc k = False # (?eF ! Suc j)" using j by (simp add: e nth_append)
    show ?thesis
    proof (cases "Suc j < length ?eF")
      case True
      then show ?thesis using IH c j len(2) [OF j(1)] yk [OF True] unfolding xk by (auto simp: Let_def walk_end_Cons e)
    next
      case last: False
      then show ?thesis using IH j unfolding xk by (auto simp: Let_def e)
    qed
  qed
qed

section \<open>Discovery\<close>

lemma rom_search_bus:
  assumes "D \<noteq> []" and "length id8 = 8"
  shows "\<exists>id8' m'. ow_rom_search bus_line bus_rst diff id8 (D, m) =
      (Inr (snd (rom_walk diff (bits_of id8) D 0), id8'), (D, m')) \<and>
    length id8' = 8 \<and> bits_of id8' = fst (rom_walk diff (bits_of id8) D 0)"
proof -
  obtain m' where "bits_search bus_line diff (bits_of id8) 64 (D, Ow_Search Send_Bit D) 0 =
      Some (fst (rom_walk diff (bits_of id8) D 0), (D, m'), snd (rom_walk diff (bits_of id8) D 0))"
    using bits_search_bus [OF assms(1), of diff "bits_of id8" D 0] assms(2) by auto
  with search_bytes_eq [of bus_line diff id8 64 "(D, Ow_Search Send_Bit D)" 0]
  obtain id8' where i: "length id8' = length id8" "bits_of id8' = fst (rom_walk diff (bits_of id8) D 0)"
    "ow_search_bytes bus_line diff id8 64 (D, Ow_Search Send_Bit D) 0 =
      Some (id8', (D, m'), snd (rom_walk diff (bits_of id8) D 0))" by auto
  have "ow_write_byte bus_line SEARCH_ROM (D, Ow_Cmd []) = (v, s') \<Longrightarrow> s' = (D, Ow_Search Send_Bit D)" for v s'
    using write_search [of D] by simp
  then show ?thesis using i assms
    by (auto simp: ow_rom_search_def ow_reset_def bus_rst_def split: prod.splits)
qed

lemma rom_search_none: "ow_rom_search bus_line bus_rst diff id8 ([], m) = (Inl PRESENCE_ERR, ([], Ow_Cmd []))"
  by (simp add: ow_rom_search_def ow_reset_def bus_rst_def)

lemma discover_rest:
  assumes "all_len 64 D" and "k < length (enum 64 D)" and "length id8 = 8" "bits_of id8 = enum 64 D ! k"
  shows "\<exists>ids m'. ow_discover_loop bus_line bus_rst f (dpos (enum 64 D ! k) D) id8 (D, m) b =
      Some ((D, m'), fold (ow_found f) ids b) \<and>
    map bits_of ids = drop (Suc k) (enum 64 D) \<and> list_all (\<lambda>i. length i = 8) ids"
  using assms(2-4)
proof (induction "length (enum 64 D) - Suc k" arbitrary: k id8 m b)
  case 0
  then have "Suc k = length (enum 64 D)" by simp
  moreover from this have "dpos (enum 64 D ! k) D = 0" using walk_next [OF assms(1) 0(2)] by simp
  ultimately show ?case by (subst ow_discover_loop.simps) (auto intro: exI [of _ "[]"])
next
  case (Suc l)
  let ?e = "enum 64 D"
  have k: "Suc k < length ?e" using Suc.hyps(2) by simp
  have D: "D \<noteq> []" using Suc.prems(1) by auto
  have w: "dpos (?e ! k) D \<noteq> 0" "rom_walk (dpos (?e ! k) D) (?e ! k) D 0 = (?e ! Suc k, dpos (?e ! Suc k) D)"
    using walk_next [OF assms(1) Suc.prems(1), of 0] k by (auto simp: walk_end_def)
  from rom_search_bus [OF D Suc.prems(2), of "dpos (?e ! k) D" m] obtain id' m' where
    r: "ow_rom_search bus_line bus_rst (dpos (?e ! k) D) id8 (D, m) = (Inr (dpos (?e ! Suc k) D, id'), (D, m'))"
    and id': "length id' = 8" "bits_of id' = ?e ! Suc k"
    unfolding Suc.prems(3) w(2) by auto
  have "l = length ?e - Suc (Suc k)" using Suc.hyps(2) by simp
  from Suc.hyps(1) [OF this k id', of m' "ow_found f id' b"] obtain ids m'' where
    ids: "ow_discover_loop bus_line bus_rst f (dpos (?e ! Suc k) D) id' (D, m') (ow_found f id' b) =
      Some ((D, m''), fold (ow_found f) ids (ow_found f id' b))" "map bits_of ids = drop (Suc (Suc k)) ?e"
      "list_all (\<lambda>i. length i = 8) ids" by blast
  have "map bits_of (id' # ids) = drop (Suc k) ?e" using ids(2) id'(2) k by (simp add: Cons_nth_drop_Suc)
  moreover have "ow_discover_loop bus_line bus_rst f (dpos (?e ! k) D) id8 (D, m) b =
      Some ((D, m''), fold (ow_found f) (id' # ids) b)"
    by (subst ow_discover_loop.simps) (simp add: w(1) r ids(1))
  ultimately show ?case using ids(3) id'(1) by (intro exI [of _ "id' # ids"]) auto
qed

text \<open>C31: The discovery of 1-wire sensors ends and reports every sensor on the line exactly once, by its full
  address of eight bytes, whatever the address buffer held before; on an empty line it reports the error once. The
  line is one on which every sensor works and whose bits are the conjunction of what the sensors send.\<close>

theorem ow_discover_complete:
  assumes "list_all (\<lambda>r. length r = 8) roms" and "length id8 = 8"
  shows "\<exists>s ids. ow_discover bus_line bus_rst f id8 (map bits_of roms, m) b =
      Some (s, if roms = [] then ow_failed f PRESENCE_ERR b else fold (ow_found f) ids b) \<and>
    distinct ids \<and> set ids = set roms"
proof (cases "roms = []")
  case True
  have "ow_discover bus_line bus_rst f id8 (map bits_of roms, m) b = Some (([], Ow_Cmd []), ow_failed f PRESENCE_ERR b)"
    unfolding ow_discover_def True by (subst ow_discover_loop.simps) (simp add: rom_search_none)
  then show ?thesis using True by (auto intro: exI [of _ "[]"])
next
  case False
  let ?D = "map bits_of roms" and ?e = "enum 64 (map bits_of roms)"
  have al: "all_len 64 ?D" using assms(1) by (auto simp: all_len_def list_all_iff)
  have D: "?D \<noteq> []" using False by simp
  then have e: "0 < length ?e" by (simp add: enum_empty_iff)
  have w: "rom_walk SEARCH_FIRST (bits_of id8) ?D 0 = (?e ! 0, dpos (?e ! 0) ?D)"
    using walk_first [OF D, of "bits_of id8" SEARCH_FIRST 0] al assms(2) e by (simp add: walk_end_def hd_conv_nth)
  from rom_search_bus [OF D assms(2), of SEARCH_FIRST m] obtain id' m' where
    r: "ow_rom_search bus_line bus_rst SEARCH_FIRST id8 (?D, m) = (Inr (dpos (?e ! 0) ?D, id'), (?D, m'))"
    and id': "length id' = 8" "bits_of id' = ?e ! 0" unfolding w by auto
  from discover_rest [OF al e id', of f m' "ow_found f id' b"] obtain ids m'' where
    ids: "ow_discover_loop bus_line bus_rst f (dpos (?e ! 0) ?D) id' (?D, m') (ow_found f id' b) =
      Some ((?D, m''), fold (ow_found f) ids (ow_found f id' b))" "map bits_of ids = drop (Suc 0) ?e"
      "list_all (\<lambda>i. length i = 8) ids" by blast
  have m: "map bits_of (id' # ids) = ?e" using ids(2) id'(2) e by (cases ?e) simp_all
  have "ow_discover bus_line bus_rst f id8 (?D, m) b = Some ((?D, m''), fold (ow_found f) (id' # ids) b)"
    unfolding ow_discover_def by (subst ow_discover_loop.simps) (simp add: r ids(1))
  moreover have "distinct (id' # ids)" using enum_distinct [of 64 ?D] unfolding m [symmetric] distinct_map by (rule conjunct1)
  moreover have "set (id' # ids) = set roms"
  proof -
    have "bits_of ` set (id' # ids) = bits_of ` set roms"
      using enum_set [OF al] unfolding m [symmetric] by simp
    moreover have "inj_on bits_of (set (id' # ids) \<union> set roms)"
      using ids(3) id'(1) assms(1) by (auto simp: inj_on_def list_all_iff intro: bits_of_inj)
    ultimately show ?thesis by (metis Un_upper1 Un_upper2 inj_on_image_eq_iff)
  qed
  ultimately show ?thesis using False by (intro exI [of _ "(?D, m'')"] exI [of _ "id' # ids"]) simp
qed

theorem ow_discover_complete_witness:
  "\<exists>s ids. ow_discover bus_line bus_rst \<lparr>fr_src = 9, fr_dst = 36, fr_proto = 1, fr_size = 3, fr_data = [5, 30, 9]\<rparr>
      (replicate 8 0) (map bits_of [[0x10, 1, 2, 3, 4, 5, 6, 7], [0x10, 9, 2, 3, 4, 5, 6, 7]], Ow_Other) ex_board =
      Some (s, fold (ow_found \<lparr>fr_src = 9, fr_dst = 36, fr_proto = 1, fr_size = 3, fr_data = [5, 30, 9]\<rparr>) ids ex_board) \<and>
    distinct ids \<and> set ids = {[0x10, 1, 2, 3, 4, 5, 6, 7], [0x10, 9, 2, 3, 4, 5, 6, 7]}"
  using ow_discover_complete [of "[[0x10, 1, 2, 3, 4, 5, 6, 7], [0x10, 9, 2, 3, 4, 5, 6, 7]]" "replicate 8 0"
      "\<lparr>fr_src = 9, fr_dst = 36, fr_proto = 1, fr_size = 3, fr_data = [5, 30, 9]\<rparr>" Ow_Other ex_board]
  by simp

end
