(* ===== verification/Sensors.thy ===== *)
theory Sensors
  imports Onewire
begin

text \<open>
  The analogue inputs and sensors: the moving average (\<open>floatingAverage.c\<close>), brightness sensors
  (\<open>helligkeitssensor.c\<close>), potentiometers (\<open>poti.c\<close>), the button with a selector (\<open>multitaster.c\<close>) and the
  temperature sensors on the 1-wire bus (\<open>tempsensor.c\<close>). \<open>adc mux\<close> is the list of the conversions the
  converter delivers on a channel; \<open>mux\<close> is the register \<open>ADMUX\<close>.
\<close>

section \<open>Moving average\<close>

abbreviation (input) SIZE_OF_AVG :: nat where "SIZE_OF_AVG \<equiv> 8"

record tFloatAvgFilter =
  aData :: "u16 list"
  indexNextValue :: u8

definition initFloatAvg :: "u16 \<Rightarrow> tFloatAvgFilter" where
  "initFloatAvg v = \<lparr>aData = replicate SIZE_OF_AVG v, indexNextValue = 0\<rparr>"

definition addToFloatAvg :: "u16 \<Rightarrow> tFloatAvgFilter \<Rightarrow> tFloatAvgFilter" where
  "addToFloatAvg v f =
     f\<lparr>aData := (aData f)[unat (indexNextValue f) := v], indexNextValue := (indexNextValue f + 1) mod 8\<rparr>"

definition getOutputValue :: "tFloatAvgFilter \<Rightarrow> u16" where
  "getOutputValue f = ucast (sum_list (map ucast (take SIZE_OF_AVG (aData f))) div (8 :: u32))"

section \<open>The converter\<close>

definition setADMUX :: "string \<Rightarrow> u8 \<Rightarrow> u8 \<Rightarrow> board \<Rightarrow> u8 \<times> board" where
  "setADMUX msg port mux b =
     (if 8 \<le> port \<and> port \<le> 15 then (0x40 OR (15 - port), b)
      else (mux, canix_syslog_P SYSLOG_PRIO_ERROR msg [uint port] b))"

text \<open>The first conversion is thrown away, the next four are averaged.\<close>

definition getADCvalue :: "(u8 \<Rightarrow> u16 list) \<Rightarrow> u8 \<Rightarrow> u16" where
  "getADCvalue adc mux = drop_bit 2 (sum_list (take 4 (drop 1 (adc mux))))"

definition getADCvalue_inverted :: "(u8 \<Rightarrow> u16 list) \<Rightarrow> u8 \<Rightarrow> u16" where
  "getADCvalue_inverted adc mux = 1023 - drop_bit 2 (sum_list (take 4 (drop 1 (adc mux))))"

section \<open>Brightness sensors\<close>

record eds_helligkeitssensor_block_t =
  hs_port :: u8
  hs_gruppe :: u8
  hs_feature :: u8
  sendCycleMins :: u8

record device_data_helligkeitssensor =
  hs_config :: eds_helligkeitssensor_block_t
  secsUntilNextSend :: u16
  filterBrightness :: tFloatAvgFilter

definition helligkeitssensor_init :: "device_data_helligkeitssensor \<Rightarrow> device_data_helligkeitssensor" where
  "helligkeitssensor_init p =
     p\<lparr>secsUntilNextSend := 60 * ucast (sendCycleMins (hs_config p)), filterBrightness := initFloatAvg 511\<rparr>"

definition hs_mux :: "device_data_helligkeitssensor \<Rightarrow> u8 \<Rightarrow> board \<Rightarrow> u8 \<times> board" where
  "hs_mux p mux b = setADMUX ''helligkeitssensor-port=%d. Richtig waere IN8 bis IN15.'' (hs_port (hs_config p)) mux b"

definition helligkeitssensor_timer_handler ::
  "(u8 \<Rightarrow> u16 list) \<Rightarrow> device_data_helligkeitssensor \<Rightarrow> u8 \<Rightarrow> board \<Rightarrow> device_data_helligkeitssensor \<times> u8 \<times> board" where
  "helligkeitssensor_timer_handler adc p mux b =
    (if secsUntilNextSend p \<noteq> 0
     then (let p = p\<lparr>secsUntilNextSend := secsUntilNextSend p - 1\<rparr>
           in if secsUntilNextSend p \<le> 8
              then (let (mux, b) = hs_mux p mux b
                    in (p\<lparr>filterBrightness := addToFloatAvg (getADCvalue_inverted adc mux) (filterBrightness p)\<rparr>, mux, b))
              else (p, mux, b))
     else (let v = getOutputValue (filterBrightness p)
           in (p\<lparr>secsUntilNextSend := 60 * ucast (sendCycleMins (hs_config p))\<rparr>, mux,
               send_prio HCAN_MULTICAST_CONTROL [HCAN_SRV_HES, HCAN_HES_HELLIGKEITS_INFO, hs_gruppe (hs_config p),
                 hi8 v, lo8 v] HCAN_PRIO_LOW b)))"

section \<open>Potentiometers\<close>

record eds_poti_block_t =
  po_port :: u8
  po_gruppe :: u8
  po_feature :: u8

record device_data_poti =
  po_config :: eds_poti_block_t
  lastPotiValue :: u16
  potiTelegramCountdown :: u8

abbreviation (input) POTI_VALUE_TOLERANCE :: int where "POTI_VALUE_TOLERANCE \<equiv> 30"
abbreviation (input) POTI_TELEGRAM_COUNTDOWN_INIT :: u8 where "POTI_TELEGRAM_COUNTDOWN_INIT \<equiv> 4"

definition poti_mux :: "device_data_poti \<Rightarrow> u8 \<Rightarrow> board \<Rightarrow> u8 \<times> board" where
  "poti_mux p mux b = setADMUX ''poti-port=%d. Richtig waere IN8 bis IN15.'' (po_port (po_config p)) mux b"

definition poti_init :: "(u8 \<Rightarrow> u16 list) \<Rightarrow> device_data_poti \<Rightarrow> u8 \<Rightarrow> board \<Rightarrow> device_data_poti \<times> u8 \<times> board" where
  "poti_init adc p mux b =
    (let (mux, b) = poti_mux p mux b
     in (p\<lparr>lastPotiValue := getADCvalue adc mux, potiTelegramCountdown := 0\<rparr>, mux, b))"

definition poti_timer_handler ::
  "(u8 \<Rightarrow> u16 list) \<Rightarrow> device_data_poti \<Rightarrow> u8 \<Rightarrow> board \<Rightarrow> device_data_poti \<times> u8 \<times> board" where
  "poti_timer_handler adc p mux b =
    (let (mux, b) = poti_mux p mux b; v = getADCvalue adc mux
     in if potiTelegramCountdown p \<noteq> 0
        then (if sint v > sint (lastPotiValue p) + POTI_VALUE_TOLERANCE \<or> sint v < sint (lastPotiValue p) - POTI_VALUE_TOLERANCE
              then (p\<lparr>potiTelegramCountdown := potiTelegramCountdown p - 1\<rparr>, mux, b)
              else (p\<lparr>potiTelegramCountdown := POTI_TELEGRAM_COUNTDOWN_INIT\<rparr>, mux, b))
        else (p\<lparr>lastPotiValue := v, potiTelegramCountdown := POTI_TELEGRAM_COUNTDOWN_INIT\<rparr>, mux,
              send_prio HCAN_MULTICAST_CONTROL [HCAN_SRV_HES, HCAN_HES_POTI_POS_CHANGED, po_gruppe (po_config p),
                hi8 v, lo8 v] HCAN_PRIO_LOW b))"

section \<open>Buttons with a selector\<close>

record eds_multitaster_block_t =
  poti_gruppe :: u8
  mt_taster_port :: u8
  mt_feature :: u8
  mt_gruppen :: "u8 list"

record device_data_multitaster =
  mt_config :: eds_multitaster_block_t
  mt_pressed :: u8
  lastPotiPos :: u8
  oneScale :: u16

text \<open>\<open>None\<close> is the division by zero when no group is configured.\<close>

definition detectAndSetOneScale :: "device_data_multitaster \<Rightarrow> device_data_multitaster option" where
  "detectAndSetOneScale p =
    (let n = length (takeWhile (\<lambda>g. g \<noteq> 255) (take 10 (mt_gruppen (mt_config p))))
     in if n = 0 then None else Some (p\<lparr>oneScale := of_nat (1023 div n)\<rparr>))"

definition multitaster_init :: "device_data_multitaster \<Rightarrow> device_data_multitaster option" where
  "multitaster_init p = map_option (\<lambda>p. p\<lparr>lastPotiPos := 0\<rparr>) (detectAndSetOneScale p)"

definition getGroup :: "device_data_multitaster \<Rightarrow> board \<Rightarrow> u8 \<times> board" where
  "getGroup p b =
    (if lastPotiPos p < 10 then (mt_gruppen (mt_config p) ! unat (lastPotiPos p), b)
     else (255, canix_syslog_P SYSLOG_PRIO_ERROR ''Err:lastPotiPos='' [uint (lastPotiPos p)] b))"

definition mt_has :: "nat \<Rightarrow> device_data_multitaster \<Rightarrow> bool" where
  "mt_has n p = bit (mt_feature (mt_config p)) n"

definition multitaster_timer_handler :: "device_data_multitaster \<Rightarrow> board \<Rightarrow> device_data_multitaster \<times> board" where
  "multitaster_timer_handler p b =
    (let port = mt_taster_port (mt_config p);
         (v, b) = tasterport_read port b;
         (gr, b) = getGroup p b;
         snd_msg = (\<lambda>cmd x b. send_prio HCAN_MULTICAST_CONTROL [HCAN_SRV_HES, cmd, gr, x] HCAN_PRIO_HI b);
         (p, b) =
           (if \<not> v then (if mt_pressed p < 255 then p\<lparr>mt_pressed := mt_pressed p + 1\<rparr> else p, b)
            else (p\<lparr>mt_pressed := 0\<rparr>,
                  if mt_pressed p > 3 \<and> \<not> (mt_has 2 p \<or> mt_has 1 p) then snd_msg HCAN_HES_TASTER_UP port b else b))
     in if mt_pressed p = (if mt_has 0 p then 100 else 3)
        then (p, if mt_has 2 p then snd_msg HCAN_HES_ROLLADEN_POSITION_SET 200 b
                 else if mt_has 1 p then snd_msg HCAN_HES_ROLLADEN_POSITION_SET 201 b
                 else snd_msg HCAN_HES_TASTER_DOWN port b)
        else (p, b))"

text \<open>The first section whose end is not below the value, minus one; \<open>i * oneScale\<close> is a 16 bit product.\<close>

definition multitaster_can_callback :: "canix_frame \<Rightarrow> device_data_multitaster \<Rightarrow> device_data_multitaster" where
  "multitaster_can_callback f p =
    (let d = fr_data f in
     if d ! 1 = HCAN_HES_POTI_POS_CHANGED \<and> d ! 2 = poti_gruppe (mt_config p)
     then (case first_index (\<lambda>i. word16 (d ! 3) (d ! 4) \<le> of_nat i * oneScale p) [0..<10] of
             Some i \<Rightarrow> p\<lparr>lastPotiPos := of_nat i - 1\<rparr> | None \<Rightarrow> p)
     else p)"

section \<open>Temperature sensors\<close>

record eds_tempsensor_block_t =
  te_io_pin :: u8
  te_gruppe :: u8
  te_modus :: u8
  te_interval :: u8
  ow_id :: "u8 list"

record device_data_tempsensor =
  te_config :: eds_tempsensor_block_t
  te_timer_counter :: u8
  convert_sent :: bool
  temperature :: u16

abbreviation (input) CONVERT_T :: u8 where "CONVERT_T \<equiv> 0x44"
abbreviation (input) READ :: u8 where "READ \<equiv> 0xBE"

text \<open>A hexadecimal digit into one half of \<open>v\<close>; other characters leave \<open>v\<close> as it is. \<open>hi\<close> sets the upper
  half and clears the lower, \<open>lo\<close> adds the lower.\<close>

definition hex_hi :: "u8 \<Rightarrow> u8 \<Rightarrow> u8" where
  "hex_hi c v = (if 0x61 \<le> c \<and> c \<le> 0x66 then push_bit 4 (c - 0x61 + 10)
     else if 0x30 \<le> c \<and> c \<le> 0x39 then push_bit 4 (c - 0x30) else v)"

definition hex_lo :: "u8 \<Rightarrow> u8 \<Rightarrow> u8" where
  "hex_lo c v = (if 0x61 \<le> c \<and> c \<le> 0x66 then v OR (c - 0x61 + 10)
     else if 0x30 \<le> c \<and> c \<le> 0x39 then v OR (c - 0x30) else v)"

text \<open>\<open>None\<close> is the result 1 of the C function; the string is read in pairs of characters.\<close>

fun str2id_loop :: "nat \<Rightarrow> u8 list \<Rightarrow> u8 \<Rightarrow> u8 list option" where
  "str2id_loop 0 str v = Some []"
| "str2id_loop (Suc n) str v =
     (if str ! 0 = 0 \<or> str ! 1 = 0 then None
      else (let v = hex_lo (str ! 1) (hex_hi (str ! 0) v)
            in map_option ((#) v) (str2id_loop n (drop 2 str) v)))"

definition tempsensor_str2id :: "u8 list \<Rightarrow> u8 list option" where
  "tempsensor_str2id str = str2id_loop 8 str 0"

definition tempsensor_init :: "'s ow_rst \<Rightarrow> device_data_tempsensor \<Rightarrow> 's \<Rightarrow> device_data_tempsensor \<times> 's" where
  "tempsensor_init rst p s =
    (p\<lparr>convert_sent := False, te_timer_counter := push_bit 2 (te_gruppe (te_config p)) AND 0x3f, temperature := 0\<rparr>,
     snd (ow_reset rst s))"

text \<open>The handler works on the line of the sensor's pin; \<open>pin\<close> is the pin the driver is set to, which an
  early return leaves at the sensor's.\<close>

definition tempsensor_timer_handler ::
  "'s ow_line \<Rightarrow> 's ow_rst \<Rightarrow> device_data_tempsensor \<Rightarrow> u8 \<Rightarrow> 's \<Rightarrow> board \<Rightarrow> device_data_tempsensor \<times> u8 \<times> 's \<times> board" where
  "tempsensor_timer_handler line rst p pin s b =
    (let old = ow_getpin pin; c = te_config p; own = ow_setpin (te_io_pin c);
         sid = tempsensor_str2id (ow_id c);
         bad = canix_syslog_P SYSLOG_PRIO_ERROR ''tempsensor: invalid sensor id'' [] b
     in if te_timer_counter p = 2 \<and> te_modus c \<noteq> 0 \<and> sid = None then (p, own, s, bad)
        else
          (let (p, s) = (if te_timer_counter p = 2 \<and> te_modus c \<noteq> 0
                 then (p\<lparr>convert_sent := True\<rparr>, ow_command line rst CONVERT_T sid s) else (p, s))
           in if te_timer_counter p = 0 \<and> convert_sent p \<and> sid = None
              then (p\<lparr>convert_sent := False\<rparr>, own, s, bad)
              else
                (let (p, s, b) = (if te_timer_counter p = 0 \<and> convert_sent p
                       then (let s = ow_command line rst READ sid s;
                                 (l, s) = ow_read_byte line s;
                                 (h, s) = ow_read_byte line s
                             in (p\<lparr>convert_sent := False, temperature := word16 h l, te_timer_counter := te_interval c\<rparr>, s,
                                 send_frame HCAN_MULTICAST_INFO
                                   [HCAN_SRV_HES, HCAN_HES_1WIRE_TEMPERATURE, te_gruppe c, h, l] b))
                       else (p, s, b))
                 in (p\<lparr>te_timer_counter := te_timer_counter p - 1\<rparr>, ow_setpin old, s, b))))"

definition tempsensor_can_callback :: "canix_frame \<Rightarrow> device_data_tempsensor \<Rightarrow> board \<Rightarrow> board" where
  "tempsensor_can_callback f p b =
    (if fr_data f ! 1 = HCAN_HES_1WIRE_TEMPERATURE_QUERY \<and> fr_data f ! 2 = te_gruppe (te_config p)
     then send_frame (fr_src f) [HCAN_SRV_HES, HCAN_HES_1WIRE_TEMPERATURE_REPLAY, te_gruppe (te_config p),
            hi8 (temperature p), lo8 (temperature p)] b
     else b)"

section \<open>The average is over the last values\<close>

text \<open>The ring buffer holds the last eight values: read from the next index on, in the order they came.\<close>

definition ring_of :: "u16 list \<Rightarrow> tFloatAvgFilter \<Rightarrow> bool" where
  "ring_of ws f = (let i = unat (indexNextValue f) in
     i < SIZE_OF_AVG \<and> length (aData f) = SIZE_OF_AVG \<and> rotate i (aData f) = ws)"

lemma ring_add:
  assumes "ring_of (w # ws) f"
  shows "ring_of (ws @ [v]) (addToFloatAvg v f)"
proof -
  let ?i = "unat (indexNextValue f)" and ?d = "aData f"
  have i: "?i < 8" "length ?d = 8" "rotate ?i ?d = w # ws" using assms by (simp_all add: ring_of_def Let_def)
  have n: "unat ((indexNextValue f + 1) mod 8) = Suc ?i mod 8"
    using i(1) by (simp add: unat_mod unat_word_ariths mod_simps)
  have d: "?d = take ?i ?d @ ?d ! ?i # drop (Suc ?i) ?d" using i by (simp add: id_take_nth_drop)
  have rot: "rotate ?i ?d = drop ?i ?d @ take ?i ?d" using i by (simp add: rotate_drop_take)
  then have ws: "ws = drop (Suc ?i) ?d @ take ?i ?d"
    using i by (simp add: Cons_nth_drop_Suc [symmetric])
  have "rotate (Suc ?i mod 8) (?d[?i := v]) = rotate (Suc ?i) (?d[?i := v])"
    using i(2) rotate_conv_mod [of "Suc ?i" "?d[?i := v]"] by simp
  also have "\<dots> = drop (Suc ?i) (?d[?i := v]) @ take (Suc ?i) (?d[?i := v])"
  proof (cases "Suc ?i = 8")
    case True
    then show ?thesis using i by (simp add: rotate_drop_take)
  next
    case False
    then show ?thesis using i by (simp add: rotate_drop_take)
  qed
  also have "\<dots> = ws @ [v]" using i ws by (simp add: take_Suc_conv_app_nth)
  finally show ?thesis using i n by (simp add: ring_of_def addToFloatAvg_def Let_def)
qed

lemma ring_run:
  "ring_of ws f \<Longrightarrow> length ws = 8 \<Longrightarrow>
    ring_of (drop (length vs) (ws @ vs)) (fold addToFloatAvg vs f)"
proof (induction vs arbitrary: ws f)
  case Nil
  then show ?case by simp
next
  case (Cons v vs)
  obtain w ws' where ws: "ws = w # ws'" using Cons.prems(2) by (cases ws) auto
  have "ring_of (ws' @ [v]) (addToFloatAvg v f)" using ring_add Cons.prems(1) ws by simp
  from Cons.IH [OF this] Cons.prems(2) ws show ?case by simp
qed

lemma ring_output:
  assumes "ring_of ws f"
  shows "unat (getOutputValue f) = sum_list (map unat ws) div 8"
proof -
  have i: "length (aData f) = 8" "rotate (unat (indexNextValue f)) (aData f) = ws"
    using assms by (simp_all add: ring_of_def Let_def)
  have "ws = drop (unat (indexNextValue f) mod 8) (aData f) @ take (unat (indexNextValue f) mod 8) (aData f)"
    unfolding i(2) [symmetric] using i(1) by (simp add: rotate_drop_take)
  then have "sum_list (map unat ws) = sum_list (map unat (take (unat (indexNextValue f) mod 8) (aData f)))
      + sum_list (map unat (drop (unat (indexNextValue f) mod 8) (aData f)))" by simp
  also have "\<dots> = sum_list (map unat (aData f))"
    unfolding sum_list_append [symmetric] map_append [symmetric] append_take_drop_id ..
  finally have sum: "sum_list (map unat ws) = sum_list (map unat (aData f))" .
  have gen: "length xs \<le> 8 \<Longrightarrow> unat (sum_list (map ucast xs) :: u32) = sum_list (map unat xs) \<and>
      sum_list (map unat xs) \<le> length xs * 65535" for xs :: "u16 list"
  proof (induction xs)
    case Nil
    then show ?case by simp
  next
    case (Cons x xs)
    have x: "unat x \<le> 65535" using unat_u16_less [of x] by simp
    have ux: "unat (ucast x :: u32) = unat x" by (simp add: unsigned_ucast_eq take_bit_nat_eq_self unat_u16_less [THEN less_trans])
    have "unat x + sum_list (map unat xs) \<le> Suc (length xs) * 65535" using Cons x by simp
    moreover have "Suc (length xs) * 65535 \<le> 8 * 65535" using Cons.prems by (intro mult_right_mono) simp_all
    ultimately have "unat x + sum_list (map unat xs) < 2 ^ 32" by simp
    then show ?case using Cons x ux by (simp add: unat_word_ariths)
  qed
  have s8: "unat (sum_list (map ucast (aData f)) :: u32) = sum_list (map unat (aData f))"
    "sum_list (map unat (aData f)) \<le> 8 * 65535" using gen [of "aData f"] i(1) by simp_all
  have "unat (sum_list (map ucast (aData f)) div 8 :: u32) = sum_list (map unat (aData f)) div 8"
    using s8(1) by (simp add: unat_div)
  moreover have "sum_list (map unat (aData f)) div 8 < 2 ^ 16" using s8(2) by simp
  ultimately have "unat (ucast (sum_list (map ucast (aData f)) div 8 :: u32) :: u16) = sum_list (map unat (aData f)) div 8"
    by (simp add: unsigned_ucast_eq take_bit_nat_eq_self)
  then show ?thesis using i(1) sum by (simp add: getOutputValue_def)
qed

text \<open>The moving average is the average of the last eight values, with the initial value for those before
  the first: the ring buffer, its wrapping index and the 32 bit sum implement the list of values.\<close>

theorem float_avg_last_eight:
  "unat (getOutputValue (fold addToFloatAvg vs (initFloatAvg v0))) =
    sum_list (map unat (drop (length vs) (replicate 8 v0 @ vs))) div 8"
proof -
  have "ring_of (replicate 8 v0) (initFloatAvg v0)"
    by (simp add: ring_of_def initFloatAvg_def)
  from ring_output [OF ring_run [OF this]] show ?thesis by simp
qed

section \<open>The contract of the driver\<close>

lemma admux_pins [simp]:
  "darlingtonoutput_getpin n (snd (setADMUX msg port mux b)) = darlingtonoutput_getpin n b"
  "pin_valid n (snd (setADMUX msg port mux b)) = pin_valid n b"
  by (simp_all add: setADMUX_def)

definition keep_mux :: "('d \<Rightarrow> u8 \<Rightarrow> board \<Rightarrow> 'd \<times> u8 \<times> board) \<Rightarrow> u8 \<Rightarrow> 'd \<Rightarrow> board \<Rightarrow> 'd \<times> board" where
  "keep_mux h mux p b = (let (p', _, b') = h p mux b in (p', b'))"

interpretation hs_tick: output_driver "keep_mux (helligkeitssensor_timer_handler adc) mux" "\<lambda>p. []" for adc mux
  by unfold_locales
    (simp_all add: keep_mux_def helligkeitssensor_timer_handler_def hs_mux_def Let_def case_prod_unfold)

interpretation poti_tick: output_driver "keep_mux (poti_timer_handler adc) mux" "\<lambda>p. []" for adc mux
  by unfold_locales
    (simp_all add: keep_mux_def poti_timer_handler_def poti_mux_def Let_def case_prod_unfold)

lemma getGroup_pins [simp]:
  "darlingtonoutput_getpin n (snd (getGroup p b)) = darlingtonoutput_getpin n b"
  "pin_valid n (snd (getGroup p b)) = pin_valid n b"
  by (simp_all add: getGroup_def)

interpretation multitaster_tick: output_driver multitaster_timer_handler "\<lambda>p. []"
  by unfold_locales (simp_all add: multitaster_timer_handler_def Let_def case_prod_unfold)

interpretation tempsensor_tick: output_driver
    "\<lambda>p b. let (p', _, _, b') = tempsensor_timer_handler line rst p pin s b in (p', b')" "\<lambda>p. []" for line rst pin s
  by unfold_locales (simp_all add: tempsensor_timer_handler_def Let_def case_prod_unfold)

interpretation tempsensor_frame: output_driver "\<lambda>p b. (p, tempsensor_can_callback f p b)" "\<lambda>p. []" for f
  by unfold_locales (simp_all add: tempsensor_can_callback_def)

end
