(* ===== verification/Devices.thy ===== *)
theory Devices
  imports Rolladen Zeitzone Heizung Powerport Lichtzone Inputs Dunstabzug Automatic Timeservice Sensors
begin

text \<open>
  The device table of a controller board (\<open>devices.c\<close>): at the start, and on request, the typed blocks of
  the EEPROM data space are copied into RAM and become the devices of the node, each with its own
  driver. A block whose size is not that of the driver's configuration means that firmware and
  configuration do not fit; then no device is loaded and an error frame is sent. RAM is the list of
  the devices; the byte array they live in is represented by its size only, and writing beyond it
  sets \<open>fault\<close>.
\<close>

section \<open>Devices\<close>

datatype device =
    D_dunstabzugport device_data_dunstabzugport
  | D_heizung device_data_heizung
  | D_lichtzone device_data_lichtzone
  | D_helligkeitssensor device_data_helligkeitssensor
  | D_poti device_data_poti
  | D_multitaster device_data_multitaster
  | D_powerport device_data_powerport
  | D_reedkontakt device_data_reedkontakt
  | D_rolladen device_data_rolladen
  | D_rolladenSchlitzpos device_data_rolladenSchlitzpos
  | D_rolladenAutomat device_data_rolladenAutomat
  | D_powerportAutomat device_data_powerportAutomat
  | D_schalter device_data_schalter
  | D_zentralheizungspumpe device_data_zentralheizungspumpe
  | D_tastdimmer device_data_tastdimmer
  | D_taster device_data_taster
  | D_tempsensor device_data_tempsensor
  | D_timeservice device_data_timeservice
  | D_zeitschaltuhr device_data_zeitschaltuhr
  | D_zeitzone device_data_zeitzone

text \<open>What the drivers see of the hardware: conversions of the AD converter per channel, the 1-wire lines
  per pin, the stack bytes that become the address buffer of a discovery, and the RAM from the end of
  the program's data to the end of the memory.\<close>

record 's hw =
  hw_adc :: "u8 \<Rightarrow> u16 list"
  hw_line :: "u8 \<Rightarrow> 's ow_line"
  hw_rst :: "u8 \<Rightarrow> 's ow_rst"
  hw_stack :: "u8 list"
  hw_ram :: "u8 list"

record 's controller =
  ct_board :: board
  pdevice_data :: "device list"
  device_data_ram_usage :: u16
  ct_admux :: u8
  ct_owpin :: u8
  ct_bus :: 's
  ct_chain :: "bool list"
  timer_counter_100th :: u8
  timer_counter_10th :: u8
  timer_counter_1 :: u8
  timer_event_100th :: bool
  timer_event_10th :: bool
  timer_event_1 :: bool

abbreviation (input) MAX_PDEVICE_DATA :: nat where "MAX_PDEVICE_DATA \<equiv> 128"
abbreviation (input) MAX_DEVICE_DATA :: nat where "MAX_DEVICE_DATA \<equiv> 1536"
abbreviation (input) MAX_MEM_CRITICAL_SIZE :: u16 where "MAX_MEM_CRITICAL_SIZE \<equiv> 512"

section \<open>Reading a configuration\<close>

text \<open>\<open>eeprom_read_block(p + 1, it + 2, config_size)\<close> copies the bytes of the block over the packed
  structure of the driver's configuration; words have their low byte first.\<close>

definition cfg_byte :: "nat \<Rightarrow> board \<Rightarrow> nat \<Rightarrow> u8" where
  "cfg_byte it b i = eeprom_read_byte (it + 2 + i) b"

definition cfg_word :: "nat \<Rightarrow> board \<Rightarrow> nat \<Rightarrow> u16" where
  "cfg_word it b i = word16 (cfg_byte it b (i + 1)) (cfg_byte it b i)"

definition cfg_bytes :: "nat \<Rightarrow> board \<Rightarrow> nat \<Rightarrow> nat \<Rightarrow> u8 list" where
  "cfg_bytes it b i k = map (cfg_byte it b) [i..<i + k]"

definition dunstabzugport_config :: "nat \<Rightarrow> board \<Rightarrow> eds_dunstabzugport_block_t" where
  "dunstabzugport_config it b = (let e = cfg_byte it b in
     \<lparr>du_port = e 0, reed_gruppe0 = e 1, freischalt_taster = e 2, freischalt_zeit = e 3, reed_gruppe1 = e 4\<rparr>)"

definition heizung_config :: "nat \<Rightarrow> board \<Rightarrow> eds_heizung_block_t" where
  "heizung_config it b = (let e = cfg_byte it b in
     \<lparr>hz_id = e 0, hz_port = e 1, pwm_periode = e 2, sensor_id = e 3,
      solltemp_lines = map (\<lambda>k. (e (4 + 3 * k), cfg_word it b (5 + 3 * k))) [0..<8],
      hz_feature = e 28, hysterese = e 29, reeds = cfg_bytes it b 30 8\<rparr>)"

definition lichtzone_config :: "nat \<Rightarrow> board \<Rightarrow> eds_lichtzone_block_t" where
  "lichtzone_config it b =
     \<lparr>toggle_gruppen = cfg_bytes it b 0 4, off_gruppen = cfg_bytes it b 4 2, on_gruppen = cfg_bytes it b 6 2,
      timer_delay = cfg_byte it b 8, action_gruppen = cfg_bytes it b 9 2\<rparr>"

definition helligkeitssensor_config :: "nat \<Rightarrow> board \<Rightarrow> eds_helligkeitssensor_block_t" where
  "helligkeitssensor_config it b = (let e = cfg_byte it b in
     \<lparr>hs_port = e 0, hs_gruppe = e 1, hs_feature = e 2, sendCycleMins = e 3\<rparr>)"

definition poti_config :: "nat \<Rightarrow> board \<Rightarrow> eds_poti_block_t" where
  "poti_config it b = (let e = cfg_byte it b in \<lparr>po_port = e 0, po_gruppe = e 1, po_feature = e 2\<rparr>)"

definition multitaster_config :: "nat \<Rightarrow> board \<Rightarrow> eds_multitaster_block_t" where
  "multitaster_config it b = (let e = cfg_byte it b in
     \<lparr>poti_gruppe = e 0, mt_taster_port = e 1, mt_feature = e 2, mt_gruppen = cfg_bytes it b 3 10\<rparr>)"

definition powerport_config :: "nat \<Rightarrow> board \<Rightarrow> eds_powerport_block_t" where
  "powerport_config it b = (let e = cfg_byte it b in
     \<lparr>pp_port = e 0, pp_feature = e 1, pp_gruppen = cfg_bytes it b 2 4\<rparr>)"

definition reedkontakt_config :: "nat \<Rightarrow> board \<Rightarrow> eds_reedkontakt_block_t" where
  "reedkontakt_config it b = (let e = cfg_byte it b in
     \<lparr>rk_port = e 0, rk_gruppe = e 1, rk_modus = e 2, rk_feature = e 3\<rparr>)"

definition rolladen_config :: "nat \<Rightarrow> board \<Rightarrow> eds_rolladen_block_t" where
  "rolladen_config it b = (let e = cfg_byte it b in
     \<lparr>port_power = e 0, port_dir = e 1, rc_taster = e 2, rc_dummy = e 3, rc_feature = e 4, rc_laufzeit = cfg_word it b 5,
      max_rekalib = cfg_word it b 7, rc_gruppen = cfg_bytes it b 9 4\<rparr>)"

definition rolladenSchlitzpos_config :: "nat \<Rightarrow> board \<Rightarrow> eds_rolladenSchlitzpos_block_t" where
  "rolladenSchlitzpos_config it b = (let e = cfg_byte it b in
     \<lparr>sp_reed0 = e 0, sp_reed1 = e 1, sp_rolladen = e 2\<rparr>)"

definition rolladenAutomat_config :: "nat \<Rightarrow> board \<Rightarrow> eds_rolladenAutomat_block_t" where
  "rolladenAutomat_config it b = (let e = cfg_byte it b in
     \<lparr>rolladen_gruppe = e 0, rolladen_soll_position = e 1, ra_automatikEin_schalter_gruppe = e 2, ra_feature = e 3,
      ra_zeitzonen = cfg_bytes it b 4 2, ra_helligkeits_gruppe = e 6, ra_helligkeitsschwelle = cfg_word it b 7,
      helligkeitswertueberschreitung = e 9\<rparr>)"

definition powerportAutomat_config :: "nat \<Rightarrow> board \<Rightarrow> eds_powerportAutomat_block_t" where
  "powerportAutomat_config it b = (let e = cfg_byte it b in
     \<lparr>powerport_gruppe = e 0, steller_gruppe = e 1, pa_automatikEin_schalter_gruppe = e 2, pa_feature = e 3,
      pa_helligkeits_gruppe = e 4, pa_helligkeitsschwelle = cfg_word it b 5,
      pa_helligkeitswertueberschreitung = e 7\<rparr>)"

definition schalter_config :: "nat \<Rightarrow> board \<Rightarrow> eds_schalter_block_t" where
  "schalter_config it b = (let e = cfg_byte it b in \<lparr>sc_port = e 0, sc_feature = e 1, sc_gruppe = e 2\<rparr>)"

definition zentralheizungspumpe_config :: "nat \<Rightarrow> board \<Rightarrow> eds_zentralheizungspumpe_block_t" where
  "zentralheizungspumpe_config it b = (let e = cfg_byte it b in
     \<lparr>zp_port = e 0, zp_feature = e 1, zp_gruppe = e 2\<rparr>)"

definition tastdimmer_config :: "nat \<Rightarrow> board \<Rightarrow> eds_tastdimmer_block_t" where
  "tastdimmer_config it b = (let e = cfg_byte it b in
     \<lparr>td_port = e 0, feedback_guppe = e 1, td_feature = e 2, td_gruppen = cfg_bytes it b 3 8\<rparr>)"

definition taster_config :: "nat \<Rightarrow> board \<Rightarrow> eds_taster_block_t" where
  "taster_config it b = (let e = cfg_byte it b in \<lparr>ta_port = e 0, ta_feature = e 1, ta_gruppe = e 2\<rparr>)"

definition tempsensor_config :: "nat \<Rightarrow> board \<Rightarrow> eds_tempsensor_block_t" where
  "tempsensor_config it b = (let e = cfg_byte it b in
     \<lparr>te_io_pin = e 0, te_gruppe = e 1, te_modus = e 2, te_interval = e 3, ow_id = cfg_bytes it b 4 17\<rparr>)"

definition timeservice_config :: "nat \<Rightarrow> board \<Rightarrow> eds_timeservice_block_t" where
  "timeservice_config it b = (let e = cfg_byte it b in
     \<lparr>ts_level = e 0, takeover_time = e 1, ts_interval = e 2\<rparr>)"

definition zeitschaltuhr_config :: "nat \<Rightarrow> board \<Rightarrow> eds_zeitschaltuhr_block_t" where
  "zeitschaltuhr_config it b = (let e = cfg_byte it b in
     \<lparr>power_gruppe = e 0, zs_automatikEin_schalter_gruppe = e 1, zs_zeitzonen = cfg_bytes it b 2 8\<rparr>)"

section \<open>Loading the configuration\<close>

text \<open>The first switch: size of the configuration and of the device in RAM, without padding and with two
  byte pointers; \<open>None\<close> for a type without driver.\<close>

definition device_sizes :: "u8 \<Rightarrow> (u8 \<times> u8) option" where
  "device_sizes t =
    (if t = EDS_dunstabzugport_BLOCK_ID then Some (5, 11)
     else if t = EDS_heizung_BLOCK_ID then Some (38, 61)
     else if t = EDS_lichtzone_BLOCK_ID then Some (11, 17)
     else if t = EDS_helligkeitssensor_BLOCK_ID then Some (4, 24)
     else if t = EDS_poti_BLOCK_ID then Some (3, 7)
     else if t = EDS_multitaster_BLOCK_ID then Some (13, 18)
     else if t = EDS_powerport_BLOCK_ID then Some (6, 10)
     else if t = EDS_reedkontakt_BLOCK_ID then Some (4, 7)
     else if t = EDS_rolladen_BLOCK_ID then Some (13, 33)
     else if t = EDS_rolladenSchlitzpos_BLOCK_ID then Some (3, 7)
     else if t = EDS_rolladenAutomat_BLOCK_ID then Some (10, 15)
     else if t = EDS_powerportAutomat_BLOCK_ID then Some (8, 13)
     else if t = EDS_schalter_BLOCK_ID then Some (3, 6)
     else if t = EDS_zentralheizungspumpe_BLOCK_ID then Some (3, 35)
     else if t = EDS_tastdimmer_BLOCK_ID then Some (11, 12)
     else if t = EDS_taster_BLOCK_ID then Some (3, 5)
     else if t = EDS_tempsensor_BLOCK_ID then Some (21, 26)
     else if t = EDS_timeservice_BLOCK_ID then Some (3, 6)
     else if t = EDS_zeitschaltuhr_BLOCK_ID then Some (10, 15)
     else if t = EDS_zeitzone_BLOCK_ID then Some (6, 9)
     else None)"

text \<open>A handler that needs the board only.\<close>

definition on_board :: "('d \<Rightarrow> device) \<Rightarrow> 'd \<times> board \<Rightarrow> 's controller \<Rightarrow> device \<times> 's controller" where
  "on_board C r n = (C (fst r), n\<lparr>ct_board := snd r\<rparr>)"

text \<open>The second switch, on a device in cleared RAM with its configuration copied; drivers without an
  \<open>init\<close> start from the cleared RAM.\<close>

definition init_device :: "'s hw \<Rightarrow> nat \<Rightarrow> 's controller \<Rightarrow> device \<times> 's controller" where
  "init_device h it n =
    (let b = ct_board n; t = EDS_BLOCK_TYPE it b in
     if t = EDS_dunstabzugport_BLOCK_ID then
       on_board D_dunstabzugport (dunstabzugport_init \<lparr>du_config = dunstabzugport_config it b, du_counter = 0,
         state_reed0 = False, state_reed1 = False, state_dunst = False\<rparr> b) n
     else if t = EDS_heizung_BLOCK_ID then
       on_board D_heizung (heizung_init it \<lparr>hz_config = heizung_config it b, hz_it = 0, mode = MODE_OFF,
         manual_rate = 0, timer_counter = 0, pwm_counter = 0, pwm_width = 0, pwm_end = 0, waermebedarf_counter = 0,
         received_interval_counter = 0, measure_value = 0, duration_counter = 0, thermostat_temp = 0,
         reed_heiz_stop_counter = 0, ventilpflege_counter = 0\<rparr> b) n
     else if t = EDS_lichtzone_BLOCK_ID then
       (D_lichtzone \<lparr>lz_config = lichtzone_config it b, lz_state = LICHTZONE_STATE_OFF, lz_timer_counter = 0,
         exton_taster_down_counter = 0, exton_sec_counter = 0\<rparr>, n)
     else if t = EDS_helligkeitssensor_BLOCK_ID then
       (D_helligkeitssensor (helligkeitssensor_init \<lparr>hs_config = helligkeitssensor_config it b,
         secsUntilNextSend = 0, filterBrightness = initFloatAvg 0\<rparr>), n)
     else if t = EDS_poti_BLOCK_ID then
       (let (p, mux, b) = poti_init (hw_adc h) \<lparr>po_config = poti_config it b, lastPotiValue = 0,
               potiTelegramCountdown = 0\<rparr> (ct_admux n) b
        in (D_poti p, n\<lparr>ct_board := b, ct_admux := mux\<rparr>))
     else if t = EDS_multitaster_BLOCK_ID then
       (let p = \<lparr>mt_config = multitaster_config it b, mt_pressed = 0, lastPotiPos = 0, oneScale = 0\<rparr>
        in case multitaster_init p of
             Some p \<Rightarrow> (D_multitaster p, n) | None \<Rightarrow> (D_multitaster p, n\<lparr>ct_board := raise_fault b\<rparr>))
     else if t = EDS_powerport_BLOCK_ID then
       (D_powerport \<lparr>pp_config = powerport_config it b, countDownTimer = 0, bistableRelaisState = 0\<rparr>, n)
     else if t = EDS_reedkontakt_BLOCK_ID then
       on_board D_reedkontakt (reedkontakt_init \<lparr>rk_config = reedkontakt_config it b, rk_timer_counter = 0,
         last_state = False\<rparr> b) n
     else if t = EDS_rolladen_BLOCK_ID then
       (D_rolladen (rolladen_init \<lparr>ro_config = rolladen_config it b, summe_laufzeit = 0, laufzeit = 0,
         soll_laufzeit = 0, cmdsrc = 0, lowlevel_last_dir = DIR_AUF, lowlevel_state = ST_STOP,
         lowlevel_command = READY, lowlevel_wait_counter = 0, hilevel_up_event_counter = 0\<rparr>), n)
     else if t = EDS_rolladenSchlitzpos_BLOCK_ID then
       (D_rolladenSchlitzpos (rolladenSchlitzpos_init \<lparr>sp_config = rolladenSchlitzpos_config it b,
         rolladenSchlitzJob = 0, rolladenIstposition = 0, state1stReedkontakt = 0\<rparr>), n)
     else if t = EDS_rolladenAutomat_BLOCK_ID then
       (D_rolladenAutomat (rolladenAutomat_init \<lparr>ra_config = rolladenAutomat_config it b, ra_brightness = 0,
         msgIstVersendet = False, ra_automatikEin = False\<rparr>), n)
     else if t = EDS_powerportAutomat_BLOCK_ID then
       (D_powerportAutomat (powerportAutomat_init \<lparr>pa_config = powerportAutomat_config it b, pa_brightness = 0,
         pa_msgIstVersendet = False, pa_automatikEin = False\<rparr>), n)
     else if t = EDS_schalter_BLOCK_ID then
       on_board D_schalter (schalter_init \<lparr>sc_config = schalter_config it b, newState = 0, lastEdge = FALLING\<rparr> b) n
     else if t = EDS_zentralheizungspumpe_BLOCK_ID then
       (D_zentralheizungspumpe (zentralheizungspumpe_init \<lparr>zp_config = zentralheizungspumpe_config it b,
         zp_heizung = []\<rparr>), n)
     else if t = EDS_tastdimmer_BLOCK_ID then (D_tastdimmer \<lparr>td_config = tastdimmer_config it b\<rparr>, n)
     else if t = EDS_taster_BLOCK_ID then (D_taster \<lparr>ta_config = taster_config it b, pressed = 0\<rparr>, n)
     else if t = EDS_tempsensor_BLOCK_ID then
       (let (p, s) = tempsensor_init (hw_rst h (ct_owpin n)) \<lparr>te_config = tempsensor_config it b,
               te_timer_counter = 0, convert_sent = False, temperature = 0\<rparr> (ct_bus n)
        in (D_tempsensor p, n\<lparr>ct_bus := s\<rparr>))
     else if t = EDS_timeservice_BLOCK_ID then
       (D_timeservice \<lparr>ts_config = timeservice_config it b, last_time_frame_received = 0,
         last_time_frame_sent = 0\<rparr>, n)
     else if t = EDS_zeitschaltuhr_BLOCK_ID then
       (D_zeitschaltuhr (zeitschaltuhr_init \<lparr>zs_config = zeitschaltuhr_config it b, zs_state = False,
         update_counter = 0, zs_automatikEin = False\<rparr>), n)
     else (D_zeitzone (zeitzone_init it \<lparr>zz_config = zeitzone_config_at it b, zz_it = 0\<rparr>), n))"

definition devices_init :: "'s controller \<Rightarrow> 's controller" where
  "devices_init n = n\<lparr>pdevice_data := []\<rparr>"

definition compat_error :: "nat \<Rightarrow> u8 \<Rightarrow> board \<Rightarrow> board" where
  "compat_error it config_size b =
    canix_syslog_P SYSLOG_PRIO_CRITICAL ''EDS config/firmware compat error'' []
      (send_prio HCAN_MULTICAST_SYSLOG [HCAN_SRV_SLS, HCAN_SLS_FIRMWARE_CONFIG_COMPAT_ERROR, EDS_BLOCK_TYPE it b,
         hi8 (of_nat it), lo8 (of_nat it), EDS_BLOCK_SIZE it b, config_size] HCAN_PRIO_HI b)"

text \<open>The body of the loop: \<open>alloc\<close> is the RAM in use; the last component says whether the loop goes on.
  The number of devices is compared with the size of the RAM in bytes.\<close>

definition load_block :: "'s hw \<Rightarrow> nat \<Rightarrow> nat \<Rightarrow> 's controller \<Rightarrow> 's controller \<times> nat \<times> bool" where
  "load_block h it alloc n =
    (case device_sizes (EDS_BLOCK_TYPE it (ct_board n)) of
       None \<Rightarrow> (n, alloc, True)
     | Some (config_size, data_size) \<Rightarrow>
         (if config_size \<noteq> EDS_BLOCK_SIZE it (ct_board n)
          then ((devices_init (n\<lparr>ct_board := compat_error it config_size (ct_board n)\<rparr>))\<lparr>device_data_ram_usage := 0\<rparr>,
                alloc, False)
          else (let count = length (pdevice_data n) + 1; alloc = alloc + unat data_size;
                    n = (if count > MAX_PDEVICE_DATA \<or> alloc > MAX_DEVICE_DATA
                         then n\<lparr>ct_board := raise_fault (ct_board n)\<rparr> else n)
                in if count > MAX_DEVICE_DATA
                   then (n\<lparr>ct_board := canix_syslog_P SYSLOG_PRIO_CRITICAL ''EDS config RAM overflow'' [] (ct_board n)\<rparr>,
                         alloc, False)
                   else (let (d, n) = init_device h it n
                         in (n\<lparr>pdevice_data := pdevice_data n @ [d]\<rparr>, alloc, True)))))"

text \<open>\<open>EDS_foreach_block_between(it, 1, 255)\<close>: the search always goes forward, so the loop ends.\<close>

lemma eds_find_from_greater: "eds_find_from P p b = 0 \<or> p < eds_find_from P p b \<and> p < EDS_END"
proof (induction P p b rule: eds_find_from.induct)
  case (1 P p b)
  show ?case
  proof (cases "p < EDS_END")
    case True
    then have "p < eds_next_block p b" by (rule eds_next_block_less(2))
    then show ?thesis using 1 True by (subst (1 2) eds_find_from.simps) (auto simp: Let_def)
  next
    case False
    then show ?thesis by (subst eds_find_from.simps) simp
  qed
qed

lemma eds_find_next_between_greater:
  assumes "p \<noteq> 0"
  shows "eds_find_next_block_between p t u b = 0 \<or> p < eds_find_next_block_between p t u b \<and> p < EDS_END"
  using eds_find_from_greater assms by (simp add: eds_find_next_block_between_def)

function load_loop :: "'s hw \<Rightarrow> nat \<Rightarrow> nat \<Rightarrow> 's controller \<Rightarrow> 's controller" where
  "load_loop h it alloc n =
    (if it = 0 then n\<lparr>device_data_ram_usage := of_nat alloc\<rparr>
     else (case load_block h it alloc n of
             (n', alloc', go) \<Rightarrow>
               if go then load_loop h (eds_find_next_block_between it 1 255 (ct_board n')) alloc' n' else n'))"
  by pat_completeness auto
termination
proof (relation "measure (\<lambda>(h, it, alloc, n). if it = 0 then 0 else Suc (EDS_END - it))", goal_cases)
  case (2 h it alloc n n')
  then show ?case using eds_find_next_between_greater [of it 1 255 "ct_board n'"] by auto
qed simp

declare load_loop.simps [simp del]

definition devices_load_config :: "'s hw \<Rightarrow> 's controller \<Rightarrow> 's controller" where
  "devices_load_config h n =
    (let n = devices_init n in load_loop h (eds_find_next_block_between 0 1 255 (ct_board n)) 0 n)"

section \<open>The block of a device\<close>

text \<open>The type and the packed bytes of a device's configuration, as the data space stores them.\<close>

definition word_bytes :: "u16 \<Rightarrow> u8 list" where
  "word_bytes w = [lo8 w, hi8 w]"

fun device_block :: "device \<Rightarrow> u8 \<times> u8 list" where
  "device_block (D_dunstabzugport p) = (let c = du_config p in (EDS_dunstabzugport_BLOCK_ID,
     [du_port c, reed_gruppe0 c, freischalt_taster c, freischalt_zeit c, reed_gruppe1 c]))"
| "device_block (D_heizung p) = (let c = hz_config p in (EDS_heizung_BLOCK_ID,
     [hz_id c, hz_port c, pwm_periode c, sensor_id c] @ concat (map (\<lambda>(z, t). z # word_bytes t) (solltemp_lines c))
     @ [hz_feature c, hysterese c] @ reeds c))"
| "device_block (D_lichtzone p) = (let c = lz_config p in (EDS_lichtzone_BLOCK_ID,
     toggle_gruppen c @ off_gruppen c @ on_gruppen c @ [timer_delay c] @ action_gruppen c))"
| "device_block (D_helligkeitssensor p) = (let c = hs_config p in (EDS_helligkeitssensor_BLOCK_ID,
     [hs_port c, hs_gruppe c, hs_feature c, sendCycleMins c]))"
| "device_block (D_poti p) = (let c = po_config p in (EDS_poti_BLOCK_ID, [po_port c, po_gruppe c, po_feature c]))"
| "device_block (D_multitaster p) = (let c = mt_config p in (EDS_multitaster_BLOCK_ID,
     [poti_gruppe c, mt_taster_port c, mt_feature c] @ mt_gruppen c))"
| "device_block (D_powerport p) = (let c = pp_config p in (EDS_powerport_BLOCK_ID,
     [pp_port c, pp_feature c] @ pp_gruppen c))"
| "device_block (D_reedkontakt p) = (let c = rk_config p in (EDS_reedkontakt_BLOCK_ID,
     [rk_port c, rk_gruppe c, rk_modus c, rk_feature c]))"
| "device_block (D_rolladen p) = (let c = ro_config p in (EDS_rolladen_BLOCK_ID,
     [port_power c, port_dir c, rc_taster c, rc_dummy c, rc_feature c] @ word_bytes (rc_laufzeit c)
     @ word_bytes (max_rekalib c) @ rc_gruppen c))"
| "device_block (D_rolladenSchlitzpos p) = (let c = sp_config p in (EDS_rolladenSchlitzpos_BLOCK_ID,
     [sp_reed0 c, sp_reed1 c, sp_rolladen c]))"
| "device_block (D_rolladenAutomat p) = (let c = ra_config p in (EDS_rolladenAutomat_BLOCK_ID,
     [rolladen_gruppe c, rolladen_soll_position c, ra_automatikEin_schalter_gruppe c, ra_feature c] @ ra_zeitzonen c
     @ [ra_helligkeits_gruppe c] @ word_bytes (ra_helligkeitsschwelle c) @ [helligkeitswertueberschreitung c]))"
| "device_block (D_powerportAutomat p) = (let c = pa_config p in (EDS_powerportAutomat_BLOCK_ID,
     [powerport_gruppe c, steller_gruppe c, pa_automatikEin_schalter_gruppe c, pa_feature c, pa_helligkeits_gruppe c]
     @ word_bytes (pa_helligkeitsschwelle c) @ [pa_helligkeitswertueberschreitung c]))"
| "device_block (D_schalter p) = (let c = sc_config p in (EDS_schalter_BLOCK_ID,
     [sc_port c, sc_feature c, sc_gruppe c]))"
| "device_block (D_zentralheizungspumpe p) = (let c = zp_config p in (EDS_zentralheizungspumpe_BLOCK_ID,
     [zp_port c, zp_feature c, zp_gruppe c]))"
| "device_block (D_tastdimmer p) = (let c = td_config p in (EDS_tastdimmer_BLOCK_ID,
     [td_port c, feedback_guppe c, td_feature c] @ td_gruppen c))"
| "device_block (D_taster p) = (let c = ta_config p in (EDS_taster_BLOCK_ID, [ta_port c, ta_feature c, ta_gruppe c]))"
| "device_block (D_tempsensor p) = (let c = te_config p in (EDS_tempsensor_BLOCK_ID,
     [te_io_pin c, te_gruppe c, te_modus c, te_interval c] @ ow_id c))"
| "device_block (D_timeservice p) = (let c = ts_config p in (EDS_timeservice_BLOCK_ID,
     [ts_level c, takeover_time c, ts_interval c]))"
| "device_block (D_zeitschaltuhr p) = (let c = zs_config p in (EDS_zeitschaltuhr_BLOCK_ID,
     [power_gruppe c, zs_automatikEin_schalter_gruppe c] @ zs_zeitzonen c))"
| "device_block (D_zeitzone p) = (let c = zz_config p in (EDS_zeitzone_BLOCK_ID,
     [zz_gruppe c, day_pattern c, from_hour c, from_minute c, to_hour c, to_minute c]))"

text \<open>The type and the data of the block at \<open>it\<close>.\<close>

definition stored_block :: "nat \<Rightarrow> board \<Rightarrow> u8 \<times> u8 list" where
  "stored_block it b = (eeprom b it, map (\<lambda>i. eeprom b (it + 2 + i)) [0..<unat (eeprom b (it + 1))])"

lemma word_bytes_word16 [simp]: "word_bytes (word16 h l) = [l, h]"
  by (simp add: word_bytes_def)

section \<open>Loading reproduces the data space\<close>

lemma device_sizes_cases:
  assumes "device_sizes t = Some (s, d)"
  shows "t = 19 \<and> s = 5 \<or> t = 13 \<and> s = 38 \<or> t = 17 \<and> s = 11 \<or> t = 26 \<and> s = 4 \<or> t = 21 \<and> s = 3 \<or> t = 23 \<and> s = 13
    \<or> t = 11 \<and> s = 6 \<or> t = 15 \<and> s = 4 \<or> t = 12 \<and> s = 13 \<or> t = 24 \<and> s = 3 \<or> t = 27 \<and> s = 10 \<or> t = 29 \<and> s = 8
    \<or> t = 25 \<and> s = 3 \<or> t = 28 \<and> s = 3 \<or> t = 22 \<and> s = 11 \<or> t = 10 \<and> s = 3 \<or> t = 14 \<and> s = 21 \<or> t = 16 \<and> s = 3
    \<or> t = 20 \<and> s = 10 \<or> t = 18 \<and> s = 6"
  using assms by (simp add: device_sizes_def split: if_splits)

lemma zeitzone_config_cfg:
  "zeitzone_config_at it b = (let e = cfg_byte it b in
     \<lparr>zz_gruppe = e 0, day_pattern = e 1, from_hour = e 2, from_minute = e 3, to_hour = e 4, to_minute = e 5\<rparr>)"
  by (simp add: zeitzone_config_at_def cfg_byte_def)

lemma stored_block_cfg: "stored_block it b = (eeprom b it, map (cfg_byte it b) [0..<unat (eeprom b (it + 1))])"
  by (simp add: stored_block_def cfg_byte_def eeprom_read_byte_def)

lemmas cfg_defs = cfg_bytes_def cfg_word_def
  dunstabzugport_config_def heizung_config_def lichtzone_config_def helligkeitssensor_config_def poti_config_def
  multitaster_config_def powerport_config_def reedkontakt_config_def rolladen_config_def
  rolladenSchlitzpos_config_def rolladenAutomat_config_def powerportAutomat_config_def schalter_config_def
  zentralheizungspumpe_config_def tastdimmer_config_def taster_config_def tempsensor_config_def
  timeservice_config_def zeitschaltuhr_config_def zeitzone_config_cfg

lemmas init_defs = dunstabzugport_init_def heizung_init_def helligkeitssensor_init_def poti_init_def
  multitaster_init_def detectAndSetOneScale_def reedkontakt_init_def rolladen_init_def rolladenSchlitzpos_init_def
  rolladenAutomat_init_def powerportAutomat_init_def schalter_init_def sendMessage_def zentralheizungspumpe_init_def
  tempsensor_init_def zeitschaltuhr_init_def zeitzone_init_def

lemma upt_numeral: "1 < (numeral k :: nat) \<Longrightarrow> [0..<numeral k] = 0 # 1 # [2..<numeral k]"
  by (simp add: upt_conv_Cons numeral_2_eq_2)

lemma init_device_block:
  assumes "device_sizes (eeprom b it) = Some (eeprom b (it + 1), d)" and "ct_board n = b"
  shows "device_block (fst (init_device h it n)) = stored_block it b"
  using device_sizes_cases [OF assms(1)]
  unfolding assms(2) stored_block_cfg init_device_def on_board_def
  by (elim disjE conjE)
    (simp_all add: assms(2) Let_def case_prod_unfold init_defs cfg_defs upt_numeral split: option.splits)

lemma memory_kept [simp]:
  "eeprom (darlingtonoutput_setpin m v b) = eeprom b" "fault (darlingtonoutput_setpin m v b) = fault b"
  "eeprom (snd (tasterport_read m b)) = eeprom b" "fault (snd (tasterport_read m b)) = fault b"
  "eeprom (snd (setADMUX msg po mux b)) = eeprom b" "fault (snd (setADMUX msg po mux b)) = fault b"
  "eeprom (canix_syslog_P pr fm as b) = eeprom b" "fault (canix_syslog_P pr fm as b) = fault b"
  "eeprom (send_prio d x pr b) = eeprom b" "fault (send_prio d x pr b) = fault b"
  "eeprom (raise_fault b) = eeprom b" "fault (raise_fault b)"
  by (simp_all add: darlingtonoutput_setpin_def tasterport_read_def setADMUX_def canix_syslog_P_def send_prio_def
      raise_fault_def Let_def)

lemma init_device_keeps:
  "pdevice_data (snd (init_device h it n)) = pdevice_data n"
  "eeprom (ct_board (snd (init_device h it n))) = eeprom (ct_board n)"
  "fault (ct_board n) \<Longrightarrow> fault (ct_board (snd (init_device h it n)))"
  unfolding init_device_def on_board_def
  by (simp_all add: Let_def case_prod_unfold init_defs poti_mux_def split: option.splits)

text \<open>The loop over the blocks as a recursion over their addresses.\<close>

fun load_list :: "'s hw \<Rightarrow> nat list \<Rightarrow> nat \<Rightarrow> 's controller \<Rightarrow> 's controller" where
  "load_list h [] alloc n = n\<lparr>device_data_ram_usage := of_nat alloc\<rparr>"
| "load_list h (it # its) alloc n =
    (case load_block h it alloc n of (n', alloc', go) \<Rightarrow> if go then load_list h its alloc' n' else n')"

lemma load_block_eeprom: "eeprom (ct_board (fst (load_block h it alloc n))) = eeprom (ct_board n)"
  by (simp add: load_block_def Let_def case_prod_unfold init_device_keeps devices_init_def compat_error_def
      split: option.splits)

text \<open>The addresses of the blocks in use, and where the search goes on from the block \<open>p\<close>.\<close>

definition used_addrs :: "eds_block list \<Rightarrow> nat list" where
  "used_addrs bs = map fst (filter (\<lambda>(q, t, s). t \<noteq> 0) bs)"

lemma in_use_range [simp]: "(1 \<le> t \<and> t \<le> 255) = (t \<noteq> (0 :: u8))"
  using unat_u8_less [of t] by (auto simp: word_le_nat_alt word_unat_eq_iff)

lemma find_from_layout:
  assumes "layout ((p, t, s) # bs) p b"
  shows "eds_find_from (\<lambda>t. 1 \<le> t \<and> t \<le> 255) p b =
    (case used_addrs bs of q # _ \<Rightarrow> q | [] \<Rightarrow> if eeprom b (EDS_END + 1) \<noteq> 0 then EDS_END + 1 else 0)"
  using assms
proof (induction bs arbitrary: p t s)
  case Nil
  then have p: "p < EDS_END" "eds_next_block p b = EDS_END + 1" by (simp_all add: eds_next_block_less)
  then show ?case by (subst eds_find_from.simps) (simp add: used_addrs_def eds_find_from.simps [of _ 2048])
next
  case (Cons blk bs)
  obtain q u v where blk: "blk = (q, u, v)" by (cases blk)
  have p: "p < EDS_END" "eds_next_block p b = q" "eeprom b q = u" using Cons.prems by (auto simp: blk eds_next_block_less)
  have "layout ((q, u, v) # bs) q b" using Cons.prems by (simp add: blk)
  note IH = Cons.IH [OF this]
  show ?case using p IH by (subst eds_find_from.simps) (simp add: used_addrs_def blk Let_def)
qed

lemma layout_cong: "eeprom b' = eeprom b \<Longrightarrow> layout bs p b' = layout bs p b"
  by (induction bs arbitrary: p) auto

abbreviation (input) next_used :: "nat \<Rightarrow> board \<Rightarrow> nat" where
  "next_used \<equiv> eds_find_from (\<lambda>t. 1 \<le> t \<and> t \<le> 255)"

lemma load_loop_at:
  assumes rest: "\<And>n alloc. layout ((q, u, v) # bs) q (ct_board n) \<Longrightarrow>
      device_sizes (eeprom (ct_board n) (EDS_END + 1)) = None \<Longrightarrow>
      load_loop h (next_used q (ct_board n)) alloc n = load_list h (used_addrs bs) alloc n"
    and lay: "layout ((q, u, v) # bs) q (ct_board n)" "q \<noteq> 0"
    and none: "device_sizes (eeprom (ct_board n) (EDS_END + 1)) = None"
  shows "load_loop h q alloc n = load_list h (q # used_addrs bs) alloc n"
proof -
  obtain n' alloc' go where lb: "load_block h q alloc n = (n', alloc', go)" by (cases "load_block h q alloc n")
  have e: "eeprom (ct_board n') = eeprom (ct_board n)" using load_block_eeprom [of h q alloc n] by (simp add: lb)
  have "layout ((q, u, v) # bs) q (ct_board n')" using lay(1) layout_cong [OF e] by blast
  note r = rest [OF this, unfolded e, OF none]
  have "eds_find_next_block_between q 1 255 (ct_board n') = next_used q (ct_board n')"
    using lay(2) by (simp add: eds_find_next_block_between_def)
  then show ?thesis using r lay(2) by (subst load_loop.simps) (simp add: lb)
qed

lemma load_loop_list:
  assumes "layout ((p, t, s) # bs) p (ct_board n)" and "device_sizes (eeprom (ct_board n) (EDS_END + 1)) = None"
  shows "load_loop h (next_used p (ct_board n)) alloc n = load_list h (used_addrs bs) alloc n"
  using assms
proof (induction bs arbitrary: p t s n alloc)
  case Nil
  have "load_block h 2048 alloc n = (n, alloc, True)" using Nil.prems(2) by (simp add: load_block_def)
  then have "load_loop h 2048 alloc n = load_loop h 0 alloc n"
    by (subst load_loop.simps) (simp add: eds_find_next_block_between_def eds_find_from.simps [of _ 2048])
  then show ?case using find_from_layout [OF Nil.prems(1)]
    by (simp add: used_addrs_def load_loop.simps [of _ 0])
next
  case (Cons blk bs)
  obtain q u v where blk: "blk = (q, u, v)" by (cases blk)
  have q: "layout ((q, u, v) # bs) q (ct_board n)" "q \<noteq> 0" using Cons.prems by (auto simp: blk)
  show ?case
  proof (cases "u = 0")
    case True
    then have "used_addrs (blk # bs) = used_addrs bs" by (simp add: used_addrs_def blk)
    then show ?thesis
      using Cons.IH [OF q(1) Cons.prems(2)] find_from_layout [OF Cons.prems(1)] find_from_layout [OF q(1)] by simp
  next
    case False
    then have "used_addrs (blk # bs) = q # used_addrs bs" by (simp add: used_addrs_def blk)
    moreover have "load_loop h q alloc n = load_list h (q # used_addrs bs) alloc n"
      by (rule load_loop_at [OF _ q Cons.prems(2)]) (rule Cons.IH)
    ultimately show ?thesis using find_from_layout [OF Cons.prems(1)] by simp
  qed
qed

lemma devices_load_config_list:
  assumes "eds_wf (ct_board n)" and "device_sizes (eeprom (ct_board n) (EDS_END + 1)) = None"
  shows "devices_load_config h n = load_list h (used_addrs (eds_blocks EDS_DATA_START (ct_board n))) 0 (devices_init n)"
proof -
  let ?n = "devices_init n"
  have b: "ct_board ?n = ct_board n" by (simp add: devices_init_def)
  obtain t s bs where bl: "eds_blocks EDS_DATA_START (ct_board n) = (EDS_DATA_START, t, s) # bs"
    using eds_blocks.simps [of EDS_DATA_START "ct_board n"] by simp
  have lay: "layout ((EDS_DATA_START, t, s) # bs) EDS_DATA_START (ct_board ?n)"
    using assms(1) by (simp add: eds_wf_def bl b)
  have t: "eeprom (ct_board n) EDS_DATA_START = t" using lay by (simp add: b)
  show ?thesis
  proof (cases "t = 0")
    case True
    then show ?thesis using load_loop_list [OF lay] assms(2) t
      by (simp add: devices_load_config_def b bl eds_find_next_block_between_def used_addrs_def)
  next
    case False
    have "load_loop h EDS_DATA_START 0 ?n = load_list h (EDS_DATA_START # used_addrs bs) 0 ?n"
      by (rule load_loop_at [OF _ lay]) (erule (1) load_loop_list, use assms(2) in \<open>simp_all add: b\<close>)
    then show ?thesis using False t
      by (simp add: devices_load_config_def b bl eds_find_next_block_between_def used_addrs_def)
  qed
qed

text \<open>Blocks without a driver, and blocks that fit.\<close>

definition fits :: "board \<Rightarrow> nat \<Rightarrow> bool" where
  "fits b it = (case device_sizes (eeprom b it) of None \<Rightarrow> True | Some (c, d) \<Rightarrow> c = eeprom b (it + 1))"

definition known :: "board \<Rightarrow> nat \<Rightarrow> bool" where
  "known b it = (device_sizes (eeprom b it) \<noteq> None)"

definition ram_need :: "board \<Rightarrow> nat list \<Rightarrow> nat" where
  "ram_need b its = sum_list (map (\<lambda>it. case device_sizes (eeprom b it) of None \<Rightarrow> 0 | Some (c, d) \<Rightarrow> unat d) its)"

lemma blocks_cong:
  assumes "eeprom b' = eeprom b"
  shows "fits b' = fits b" "known b' = known b" "ram_need b' = ram_need b" "stored_block it b' = stored_block it b"
  unfolding fits_def [abs_def] known_def [abs_def] ram_need_def [abs_def] stored_block_def assms by (rule refl)+

lemma load_list_fits:
  assumes "\<forall>it \<in> set its. it < EDS_END \<and> fits (ct_board n) it"
    and "length (pdevice_data n) + length its \<le> MAX_DEVICE_DATA"
  shows "\<exists>n'. load_list h (its @ post) alloc n = load_list h post (alloc + ram_need (ct_board n) its) n' \<and>
    eeprom (ct_board n') = eeprom (ct_board n) \<and>
    map device_block (pdevice_data n') = map device_block (pdevice_data n) @
      map (\<lambda>it. stored_block it (ct_board n)) (filter (known (ct_board n)) its) \<and>
    (fault (ct_board n) \<longrightarrow> fault (ct_board n')) \<and>
    (length (pdevice_data n) \<le> MAX_PDEVICE_DATA \<and> alloc \<le> MAX_DEVICE_DATA \<and>
      (length (pdevice_data n') > MAX_PDEVICE_DATA \<or> alloc + ram_need (ct_board n) its > MAX_DEVICE_DATA) \<longrightarrow> fault (ct_board n'))"
  using assms
proof (induction its arbitrary: alloc n)
  case Nil
  show ?case by (rule exI [of _ n]) (auto simp: ram_need_def)
next
  case (Cons it its)
  let ?b = "ct_board n"
  show ?case
  proof (cases "device_sizes (eeprom ?b it)")
    case None
    then have "load_block h it alloc n = (n, alloc, True)" by (simp add: load_block_def)
    with None Cons.IH [of n alloc] Cons.prems show ?thesis by (simp add: ram_need_def known_def)
  next
    case (Some sz)
    obtain d where sz: "device_sizes (eeprom ?b it) = Some (eeprom ?b (it + 1), d)"
      using Some Cons.prems(1) by (cases sz) (simp add: fits_def)
    let ?over = "length (pdevice_data n) + 1 > MAX_PDEVICE_DATA \<or> alloc + unat d > MAX_DEVICE_DATA"
    define n1 where "n1 = (if ?over then n\<lparr>ct_board := raise_fault ?b\<rparr> else n)"
    obtain dv n2 where i: "init_device h it n1 = (dv, n2)" by (cases "init_device h it n1")
    have n1: "pdevice_data n1 = pdevice_data n" "eeprom (ct_board n1) = eeprom ?b"
        "fault (ct_board n1) = (fault ?b \<or> ?over)"
      by (simp_all add: n1_def)
    have n2: "pdevice_data n2 = pdevice_data n" "eeprom (ct_board n2) = eeprom ?b" "fault (ct_board n1) \<longrightarrow> fault (ct_board n2)"
      using init_device_keeps [where h = h and it = it and n = n1] n1 by (auto simp: i)
    have dv: "device_block dv = stored_block it ?b"
      using init_device_block [of "ct_board n1" it d n1 h] sz by (simp add: i n1 stored_block_def)
    define n3 where "n3 = n2\<lparr>pdevice_data := pdevice_data n2 @ [dv]\<rparr>"
    have lb: "load_block h it alloc n = (n3, alloc + unat d, True)"
      using Cons.prems sz i by (simp add: load_block_def Let_def n3_def n1_def split: if_splits)
    have e: "eeprom (ct_board n3) = eeprom ?b" by (simp add: n3_def n2)
    have "\<forall>it \<in> set its. it < EDS_END \<and> fits (ct_board n3) it"
      and "length (pdevice_data n3) + length its \<le> MAX_DEVICE_DATA"
      using Cons.prems by (simp_all add: blocks_cong [OF e]) (simp add: n3_def n2)
    from Cons.IH [OF this, of "alloc + unat d"] obtain n'
      where ll: "load_list h (its @ post) (alloc + unat d) n3 = load_list h post (alloc + unat d + ram_need ?b its) n'"
        and r: "eeprom (ct_board n') = eeprom ?b"
          "map device_block (pdevice_data n') = map device_block (pdevice_data n3) @
            map (\<lambda>it. stored_block it ?b) (filter (known ?b) its)"
          "fault (ct_board n3) \<longrightarrow> fault (ct_board n')"
          "length (pdevice_data n3) \<le> MAX_PDEVICE_DATA \<and> alloc + unat d \<le> MAX_DEVICE_DATA \<and>
            (length (pdevice_data n') > MAX_PDEVICE_DATA \<or> alloc + unat d + ram_need ?b its > MAX_DEVICE_DATA)
            \<longrightarrow> fault (ct_board n')"
      unfolding blocks_cong [OF e] e by blast
    have need: "ram_need ?b (it # its) = unat d + ram_need ?b its" by (simp add: ram_need_def sz)
    have k: "known ?b it" by (simp add: known_def sz)
    have f3: "fault ?b \<or> ?over \<longrightarrow> fault (ct_board n3)" using n1 n2 by (auto simp: n3_def)
    have l3: "length (pdevice_data n3) = length (pdevice_data n) + 1" by (simp add: n3_def n2)
    show ?thesis
    proof (intro exI [of _ n'] conjI)
      show "load_list h ((it # its) @ post) alloc n = load_list h post (alloc + ram_need ?b (it # its)) n'"
        using ll by (simp add: lb need add.assoc)
      show "map device_block (pdevice_data n') = map device_block (pdevice_data n) @
          map (\<lambda>it. stored_block it ?b) (filter (known ?b) (it # its))"
        using r(2) k dv by (simp add: n3_def n2)
      show "length (pdevice_data n) \<le> MAX_PDEVICE_DATA \<and> alloc \<le> MAX_DEVICE_DATA \<and>
          (length (pdevice_data n') > MAX_PDEVICE_DATA \<or> alloc + ram_need ?b (it # its) > MAX_DEVICE_DATA)
          \<longrightarrow> fault (ct_board n')"
        using r(3,4) f3 l3 need by linarith
    qed (use r f3 in simp_all)
  qed
qed

text \<open>The blocks in use of a data space; in a well-formed one they lie in the memory and are few enough for
  the comparison in the loop never to stop it.\<close>

definition config_blocks :: "board \<Rightarrow> nat list" where
  "config_blocks b = used_addrs (eds_blocks EDS_DATA_START b)"

lemma layout_bounds: "layout bs p b \<Longrightarrow> p + 2 * length bs \<le> EDS_END + 1 \<and> (\<forall>(q, t, s) \<in> set bs. q < EDS_END)"
proof (induction bs arbitrary: p)
  case (Cons blk bs)
  obtain q t s where "blk = (q, t, s)" by (cases blk)
  then show ?case using Cons.prems Cons.IH [of "p + 2 + unat s"] by auto
qed simp

lemma config_blocks_bounds:
  assumes "eds_wf b"
  shows "length (config_blocks b) \<le> MAX_DEVICE_DATA" "\<forall>it \<in> set (config_blocks b). it < EDS_END"
proof -
  let ?bs = "eds_blocks EDS_DATA_START b"
  have l: "EDS_DATA_START + 2 * length ?bs \<le> EDS_END + 1" "\<forall>(q, t, s) \<in> set ?bs. q < EDS_END"
    using layout_bounds assms by (auto simp: eds_wf_def)
  have "length (config_blocks b) \<le> length ?bs" by (simp add: config_blocks_def used_addrs_def)
  then show "length (config_blocks b) \<le> MAX_DEVICE_DATA" using l(1) by linarith
  show "\<forall>it \<in> set (config_blocks b). it < EDS_END" using l(2) by (auto simp: config_blocks_def used_addrs_def)
qed

text \<open>What every loading starts from.\<close>

definition loadable :: "'s controller \<Rightarrow> bool" where
  "loadable n = (eds_wf (ct_board n) \<and> device_sizes (eeprom (ct_board n) (EDS_END + 1)) = None)"

lemma load_prefix:
  assumes "loadable n" and "config_blocks (ct_board n) = pre @ post" and "\<forall>it \<in> set pre. fits (ct_board n) it"
  shows "\<exists>n'. devices_load_config h n = load_list h post (ram_need (ct_board n) pre) n' \<and>
    eeprom (ct_board n') = eeprom (ct_board n) \<and>
    map device_block (pdevice_data n') = map (\<lambda>it. stored_block it (ct_board n)) (filter (known (ct_board n)) pre) \<and>
    (length (pdevice_data n') > MAX_PDEVICE_DATA \<or> ram_need (ct_board n) pre > MAX_DEVICE_DATA \<longrightarrow> fault (ct_board n'))"
proof -
  let ?n = "devices_init n"
  have n: "ct_board ?n = ct_board n" "pdevice_data ?n = []" by (simp_all add: devices_init_def)
  have wf: "eds_wf (ct_board n)" using assms(1) by (simp add: loadable_def)
  have "\<forall>it \<in> set pre. it < EDS_END \<and> fits (ct_board ?n) it" "length (pdevice_data ?n) + length pre \<le> MAX_DEVICE_DATA"
    using config_blocks_bounds [OF wf] assms(2,3) by (simp_all add: n)
  from load_list_fits [OF this, of h post 0] show ?thesis
    using devices_load_config_list [of n h] assms(1,2) by (auto simp: n loadable_def config_blocks_def)
qed


text \<open>A node whose data space holds a single push button, at input 20 and of group 7.\<close>

definition ex_hw :: "unit hw" where
  "ex_hw = \<lparr>hw_adc = (\<lambda>_. []), hw_line = (\<lambda>_ x s. (x, s)), hw_rst = (\<lambda>_ s. ((True, True), s)), hw_stack = [], hw_ram = []\<rparr>"

definition controller_of :: "board \<Rightarrow> device list \<Rightarrow> unit controller" where
  "controller_of b ds = \<lparr>ct_board = b, pdevice_data = ds, device_data_ram_usage = 0, ct_admux = 0, ct_owpin = 0, ct_bus = (),
     ct_chain = replicate 32 False, timer_counter_100th = 0, timer_counter_10th = 0, timer_counter_1 = 0,
     timer_event_100th = False, timer_event_10th = False, timer_event_1 = False\<rparr>"




text \<open>The check against too many devices compares their number with the size of the RAM in bytes and
  never fires: a configuration of more than 128 devices, or of more RAM than the array has, is loaded
  completely, beyond the end of the arrays.\<close>

theorem devices_load_config_overflow:
  assumes "loadable n" and "\<forall>it \<in> set (config_blocks (ct_board n)). fits (ct_board n) it"
    and "length (filter (known (ct_board n)) (config_blocks (ct_board n))) > MAX_PDEVICE_DATA \<or>
      ram_need (ct_board n) (config_blocks (ct_board n)) > MAX_DEVICE_DATA"
  shows "fault (ct_board (devices_load_config h n)) \<and>
    length (pdevice_data (devices_load_config h n)) = length (filter (known (ct_board n)) (config_blocks (ct_board n)))"
proof -
  obtain n' where n': "devices_load_config h n = load_list h [] (ram_need (ct_board n) (config_blocks (ct_board n))) n'"
      "map device_block (pdevice_data n') =
        map (\<lambda>it. stored_block it (ct_board n)) (filter (known (ct_board n)) (config_blocks (ct_board n)))"
      "length (pdevice_data n') > MAX_PDEVICE_DATA \<or> ram_need (ct_board n) (config_blocks (ct_board n)) > MAX_DEVICE_DATA
        \<longrightarrow> fault (ct_board n')"
    using load_prefix [OF assms(1), of "config_blocks (ct_board n)" "[]" h] assms(2) by auto
  from arg_cong [OF n'(2), of length] have "length (pdevice_data n') =
      length (filter (known (ct_board n)) (config_blocks (ct_board n)))" by simp
  then show ?thesis using n' assms(3) by auto
qed

text \<open>26 heating circuits fit into the EEPROM but not into the RAM.\<close>

definition ex_full_eeprom :: "nat \<Rightarrow> u8" where
  "ex_full_eeprom a =
    (if a < 34 then 0
     else if a < 1074 then (if (a - 34) mod 40 = 0 then EDS_heizung_BLOCK_ID else if (a - 34) mod 40 = 1 then 38 else 0)
     else if a \<in> {1075, 1332, 1589} then 255 else if a = 1846 then 201 else 0)"

lemma ex_full_blocks:
  "eds_blocks EDS_DATA_START (ex_board\<lparr>eeprom := ex_full_eeprom\<rparr>) =
    map (\<lambda>k. (34 + 40 * k, 13, 38)) [0..<26] @ [(1074, 0, 255), (1331, 0, 255), (1588, 0, 255), (1845, 0, 201)]"
  by (simp add: eds_blocks.simps eds_next_block_def EDS_BLOCK_SIZE_def eeprom_read_byte_def ex_full_eeprom_def upt_rec)

theorem devices_load_config_overflow_witness:
  "fault (ct_board (devices_load_config ex_hw (controller_of (ex_board\<lparr>eeprom := ex_full_eeprom\<rparr>) []))) \<and>
   length (pdevice_data (devices_load_config ex_hw (controller_of (ex_board\<lparr>eeprom := ex_full_eeprom\<rparr>) []))) = 26"
proof -
  let ?b = "ex_board\<lparr>eeprom := ex_full_eeprom\<rparr>"
  let ?n = "controller_of ?b []"
  let ?its = "map (\<lambda>k. 34 + 40 * k) [0..<26]"
  have b: "ct_board ?n = ?b" by (simp add: controller_of_def)
  have c: "config_blocks ?b = ?its" by (simp add: config_blocks_def ex_full_blocks used_addrs_def upt_rec)
  have e: "eeprom ?b (34 + 40 * k) = 13 \<and> eeprom ?b (34 + 40 * k + 1) = 38" if "k < 26" for k
    using that by (simp add: ex_full_eeprom_def)
  have "loadable ?n"
    by (simp add: loadable_def b eds_wf_def ex_full_blocks ex_full_eeprom_def device_sizes_def upt_rec)
  moreover have "\<forall>it \<in> set ?its. fits ?b it" using e by (auto simp: fits_def device_sizes_def)
  moreover have "filter (known ?b) ?its = ?its" using e by (auto simp: known_def device_sizes_def filter_id_conv)
  moreover have "ram_need ?b ?its = 1586"
  proof -
    have "map (\<lambda>it. case device_sizes (eeprom ?b it) of None \<Rightarrow> 0 | Some (c, d) \<Rightarrow> unat d) ?its = replicate 26 61"
      using e by (intro nth_equalityI) (simp_all add: device_sizes_def)
    then show ?thesis unfolding ram_need_def by (simp only: sum_list_replicate) simp
  qed
  ultimately show ?thesis
    using devices_load_config_overflow [of ?n ex_hw] c by (simp add: b)
qed
end
