(* ===== verification/Controller.thy ===== *)
theory Controller
  imports Devices Canix Canix_Services
begin

text \<open>
  The firmware of the controller board as a whole (\<open>main.c\<close>, \<open>timer.c\<close>): the ticks of the clock interrupt,
  the idle handler that runs the timer handlers of all devices, the handler of frames that hands a
  frame to every device of the table, and what \<open>main\<close> sets up. A run of the station is a sequence of
  events: clock interrupts, calls of the idle handler and deliveries of frames. A frame a device sends
  is delivered to the node's own callbacks too; in a run this is an event of its own after the handler
  that sends it.
\<close>

section \<open>Timers\<close>

definition timer_handler :: "'s controller \<Rightarrow> 's controller" where
  "timer_handler c =
    (let c = c\<lparr>timer_counter_100th := timer_counter_100th c + 1, timer_event_100th := True\<rparr>;
         c = (if timer_counter_100th c = 10
              then c\<lparr>timer_counter_10th := timer_counter_10th c + 1, timer_counter_100th := 0, timer_event_10th := True\<rparr>
              else c)
     in if timer_counter_10th c = 10
        then c\<lparr>timer_counter_1 := timer_counter_1 c + 1, timer_counter_10th := 0, timer_event_1 := True\<rparr>
        else c)"

text \<open>The time zones of the table, and whether the one with an id matches now.\<close>

fun zone_of :: "device \<Rightarrow> device_data_zeitzone option" where
  "zone_of (D_zeitzone z) = Some z"
| "zone_of _ = None"

definition zones :: "'s controller \<Rightarrow> device_data_zeitzone list" where
  "zones c = List.map_filter zone_of (pdevice_data c)"

definition zone_matches :: "'s controller \<Rightarrow> u8 \<Rightarrow> bool" where
  "zone_matches c zid = zeitzone_matches (zones c) zid (rtc (ct_board c))"

text \<open>The three switches of the idle handler.\<close>

fun tick_100th :: "device \<Rightarrow> 's controller \<Rightarrow> device \<times> 's controller" where
  "tick_100th (D_multitaster p) c = on_board D_multitaster (multitaster_timer_handler p (ct_board c)) c"
| "tick_100th (D_taster p) c = on_board D_taster (taster_timer_handler p (ct_board c)) c"
| "tick_100th d c = (d, c)"

fun tick_10th :: "'s hw \<Rightarrow> device \<Rightarrow> 's controller \<Rightarrow> device \<times> 's controller" where
  "tick_10th h (D_multitaster p) c = on_board D_multitaster (multitaster_timer_handler p (ct_board c)) c"
| "tick_10th h (D_poti p) c =
    (let (p, mux, b) = poti_timer_handler (hw_adc h) p (ct_admux c) (ct_board c)
     in (D_poti p, c\<lparr>ct_board := b, ct_admux := mux\<rparr>))"
| "tick_10th h (D_rolladen p) c = on_board D_rolladen (rolladen_timer_handler p (ct_board c)) c"
| "tick_10th h (D_rolladenSchlitzpos p) c =
    on_board D_rolladenSchlitzpos (rolladenSchlitzpos_timer_handler p (ct_board c)) c"
| "tick_10th h (D_schalter p) c = on_board D_schalter (schalter_timer_handler p (ct_board c)) c"
| "tick_10th h d c = (d, c)"

fun tick_1 :: "'s hw \<Rightarrow> device \<Rightarrow> 's controller \<Rightarrow> device \<times> 's controller" where
  "tick_1 h (D_dunstabzugport p) c = on_board D_dunstabzugport (dunstabzugport_timer_handler p (ct_board c)) c"
| "tick_1 h (D_helligkeitssensor p) c =
    (let (p, mux, b) = helligkeitssensor_timer_handler (hw_adc h) p (ct_admux c) (ct_board c)
     in (D_helligkeitssensor p, c\<lparr>ct_board := b, ct_admux := mux\<rparr>))"
| "tick_1 h (D_heizung p) c = on_board D_heizung (heizung_timer_handler (zone_matches c) p (ct_board c)) c"
| "tick_1 h (D_lichtzone p) c = on_board D_lichtzone (lichtzone_timer_handler p (ct_board c)) c"
| "tick_1 h (D_reedkontakt p) c = on_board D_reedkontakt (reedkontakt_timer_handler p (ct_board c)) c"
| "tick_1 h (D_rolladenAutomat p) c =
    on_board D_rolladenAutomat (rolladenAutomat_timer_handler (zone_matches c) p (ct_board c)) c"
| "tick_1 h (D_tempsensor p) c =
    (let pin = ow_setpin (te_io_pin (te_config p));
         (p, pin, s, b) = tempsensor_timer_handler (hw_line h pin) (hw_rst h pin) p (ct_owpin c) (ct_bus c) (ct_board c)
     in (D_tempsensor p, c\<lparr>ct_board := b, ct_owpin := pin, ct_bus := s\<rparr>))"
| "tick_1 h (D_timeservice p) c = on_board D_timeservice (timeservice_timer_handler p (ct_board c)) c"
| "tick_1 h (D_zeitschaltuhr p) c =
    on_board D_zeitschaltuhr (zeitschaltuhr_timer_handler (zone_matches c) p (ct_board c)) c"
| "tick_1 h (D_powerport p) c = on_board D_powerport (powerport_timer_handler p (ct_board c)) c"
| "tick_1 h d c = (d, c)"

text \<open>The loop over the table: the handler of each device in turn.\<close>

definition visit :: "(device \<Rightarrow> 's controller \<Rightarrow> device \<times> 's controller) \<Rightarrow> nat \<Rightarrow> 's controller \<Rightarrow> 's controller" where
  "visit H i c = (let (d, c') = H (pdevice_data c ! i) c in c'\<lparr>pdevice_data := (pdevice_data c')[i := d]\<rparr>)"

definition for_devices :: "(device \<Rightarrow> 's controller \<Rightarrow> device \<times> 's controller) \<Rightarrow> 's controller \<Rightarrow> 's controller" where
  "for_devices H c = fold (visit H) [0..<length (pdevice_data c)] c"

text \<open>The bytes from the end of the program's data that still hold the pattern of the start-up.\<close>

definition get_mem_unused :: "u8 list \<Rightarrow> u16" where
  "get_mem_unused ram = of_nat (length (takeWhile (\<lambda>x. x = 0xaa) ram))"

definition idle_100th :: "'s controller \<Rightarrow> 's controller" where
  "idle_100th c = (if timer_event_100th c then for_devices tick_100th (c\<lparr>timer_event_100th := False\<rparr>) else c)"

definition idle_10th :: "'s hw \<Rightarrow> 's controller \<Rightarrow> 's controller" where
  "idle_10th h c = (if timer_event_10th c then for_devices (tick_10th h) (c\<lparr>timer_event_10th := False\<rparr>) else c)"

definition mem_check :: "'s hw \<Rightarrow> 's controller \<Rightarrow> 's controller" where
  "mem_check h c =
    (let unusedSRAM = get_mem_unused (hw_ram h)
     in if unusedSRAM < MAX_MEM_CRITICAL_SIZE
        then c\<lparr>ct_board := canix_syslog_P SYSLOG_PRIO_CRITICAL ''mem_free: %d bytes'' [sint unusedSRAM] (ct_board c)\<rparr>
        else c)"

definition idle_1 :: "'s hw \<Rightarrow> 's controller \<Rightarrow> 's controller" where
  "idle_1 h c =
    (if timer_event_1 c then mem_check h (for_devices (tick_1 h) (c\<lparr>timer_event_1 := False\<rparr>)) else c)"

definition idle_handler :: "'s hw \<Rightarrow> 's controller \<Rightarrow> 's controller" where
  "idle_handler h c =
    (let c = idle_1 h (idle_10th h (idle_100th c))
     in c\<lparr>ct_chain := shiftOut_timer_handler (ct_board c) (ct_chain c)\<rparr>)"

section \<open>Frames\<close>

fun device_frame :: "canix_frame \<Rightarrow> device \<Rightarrow> 's controller \<Rightarrow> device \<times> 's controller" where
  "device_frame f (D_powerportAutomat p) c =
    on_board D_powerportAutomat (powerportAutomat_can_callback f p (ct_board c)) c"
| "device_frame f (D_rolladenAutomat p) c = (D_rolladenAutomat (rolladenAutomat_can_callback f p), c)"
| "device_frame f (D_dunstabzugport p) c = on_board D_dunstabzugport (dunstabzugport_can_callback f p (ct_board c)) c"
| "device_frame f (D_heizung p) c = on_board D_heizung (heizung_can_callback (zone_matches c) f p (ct_board c)) c"
| "device_frame f (D_lichtzone p) c = on_board D_lichtzone (lichtzone_can_callback f p (ct_board c)) c"
| "device_frame f (D_multitaster p) c = (D_multitaster (multitaster_can_callback f p), c)"
| "device_frame f (D_powerport p) c = on_board D_powerport (powerport_can_callback f p (ct_board c)) c"
| "device_frame f (D_reedkontakt p) c = on_board D_reedkontakt (reedkontakt_can_callback f p (ct_board c)) c"
| "device_frame f (D_rolladen p) c = on_board D_rolladen (rolladen_can_callback f p (ct_board c)) c"
| "device_frame f (D_rolladenSchlitzpos p) c =
    on_board D_rolladenSchlitzpos (rolladenSchlitzpos_can_callback f p (ct_board c)) c"
| "device_frame f (D_zentralheizungspumpe p) c =
    on_board D_zentralheizungspumpe (zentralheizungspumpe_can_callback f p (ct_board c)) c"
| "device_frame f (D_tastdimmer p) c = on_board D_tastdimmer (tastdimmer_can_callback f p (ct_board c)) c"
| "device_frame f (D_tempsensor p) c = (D_tempsensor p, c\<lparr>ct_board := tempsensor_can_callback f p (ct_board c)\<rparr>)"
| "device_frame f (D_zeitschaltuhr p) c = (D_zeitschaltuhr (zeitschaltuhr_can_callback f p), c)"
| "device_frame f (D_zeitzone p) c = on_board D_zeitzone (zeitzone_can_callback (zones c) f p (ct_board c)) c"
| "device_frame f d c = (d, c)"

text \<open>\<open>None\<close> would be a discovery of the 1-wire bus that does not end.\<close>

definition hauselektrik_callback :: "'s hw \<Rightarrow> canix_frame \<Rightarrow> 's controller \<Rightarrow> 's controller option" where
  "hauselektrik_callback h f c =
    (let d = fr_data f; cmd = d ! 1 in
     if d ! 0 \<noteq> HCAN_SRV_HES then Some c
     else if fr_dst f \<noteq> canix_selfaddr (ct_board c) \<and> fr_dst f \<noteq> HCAN_MULTICAST_CONTROL \<and> fr_dst f \<noteq> HCAN_MULTICAST_INFO
     then Some c
     else (let c = for_devices (device_frame f) c in
           if cmd = HCAN_HES_CONFIG_RELOAD then Some (devices_load_config h c)
           else if cmd = HCAN_HES_CONFIG_RAM_USAGE_REQUEST
           then Some (c\<lparr>ct_board := send_frame (fr_src f) [HCAN_SRV_HES, HCAN_HES_CONFIG_RAM_USAGE_REPLAY,
                    hi8 (device_data_ram_usage c), lo8 (device_data_ram_usage c)] (ct_board c)\<rparr>)
           else if cmd = HCAN_HES_1WIRE_DISCOVER
           then (let old = ow_getpin (ct_owpin c); pin = ow_setpin (d ! 2)
                 in case ow_discover (hw_line h pin) (hw_rst h pin) f (hw_stack h) (ct_bus c) (ct_board c) of
                      None \<Rightarrow> None
                    | Some (s, b) \<Rightarrow> Some (c\<lparr>ct_bus := s, ct_board := b, ct_owpin := ow_setpin old\<rparr>))
           else Some c))"

fun ts_frame :: "canix_frame \<Rightarrow> device \<Rightarrow> device" where
  "ts_frame f (D_timeservice p) = D_timeservice (ts_receive f p)"
| "ts_frame f d = d"

definition timeservice_callback :: "canix_frame \<Rightarrow> 's controller \<Rightarrow> 's controller" where
  "timeservice_callback f c =
    (if fr_data f ! 1 = HCAN_RTS_TIME_INFO then c\<lparr>pdevice_data := map (ts_frame f) (pdevice_data c)\<rparr> else c)"

section \<open>The station\<close>

text \<open>The controller with the state of the operating system: the CAN controller, the receive queue, the
  table of callbacks, and whether the watchdog reset was started.\<close>

record 's station =
  st_ctl :: "'s controller"
  st_mcp :: mcp
  st_rx :: rx_state
  st_reset :: bool
  st_callbacks :: "frame_cb list"

abbreviation (input) CB_HMS :: nat where "CB_HMS \<equiv> 1"
abbreviation (input) CB_RTS :: nat where "CB_RTS \<equiv> 2"
abbreviation (input) CB_EDS :: nat where "CB_EDS \<equiv> 3"
abbreviation (input) CB_HES :: nat where "CB_HES \<equiv> 4"
abbreviation (input) CB_TS :: nat where "CB_TS \<equiv> 5"

definition call_back :: "u16 \<Rightarrow> 's hw \<Rightarrow> canix_frame \<Rightarrow> nat \<Rightarrow> 's station \<Rightarrow> 's station option" where
  "call_back build h f cb s =
    (let c = st_ctl s; b = ct_board c in
     if cb = CB_HMS
     then (let nd = canix_SFP_HMS_handler build f
                 \<lparr>nd_board = b, nd_mcp = st_mcp s, nd_rx = st_rx s, nd_reset = st_reset s\<rparr>
           in Some (s\<lparr>st_ctl := c\<lparr>ct_board := nd_board nd\<rparr>, st_mcp := nd_mcp nd, st_rx := nd_rx nd, st_reset := nd_reset nd\<rparr>))
     else if cb = CB_RTS then Some (s\<lparr>st_ctl := c\<lparr>ct_board := canix_SFP_RTS_handler f b\<rparr>\<rparr>)
     else if cb = CB_EDS then map_option (\<lambda>b. s\<lparr>st_ctl := c\<lparr>ct_board := b\<rparr>\<rparr>) (eds_can_callback f b)
     else if cb = CB_HES then map_option (\<lambda>c. s\<lparr>st_ctl := c\<rparr>) (hauselektrik_callback h f c)
     else if cb = CB_TS then Some (s\<lparr>st_ctl := timeservice_callback f c\<rparr>)
     else Some s)"

text \<open>The registrations of \<open>canix_init\<close> and of \<open>main\<close>.\<close>

definition reg :: "nat \<Rightarrow> int \<Rightarrow> u8 \<Rightarrow> frame_cb list \<Rightarrow> frame_cb list" where
  "reg cb dst srv t = fst (canix_reg_frame_callback cb dst HCAN_PROTO_SFP srv t)"

definition canix_init_callbacks :: "u16 \<Rightarrow> frame_cb list" where
  "canix_init_callbacks self =
    (let t = replicate MAX_FRAME_CALLBACKS \<lparr>cb_callback = 0, cb_dst = 0, cb_proto = 0, cb_srv = 0\<rparr>;
         t = reg CB_HMS (uint self) HCAN_SRV_HMS t;
         t = reg CB_HMS (uint HCAN_MULTICAST_INFO) HCAN_SRV_HMS t;
         t = reg CB_RTS (uint HCAN_MULTICAST_INFO) HCAN_SRV_RTS t;
         t = reg CB_RTS (uint self) HCAN_SRV_RTS t
     in reg CB_EDS (uint self) HCAN_SRV_EDS t)"

definition main_callbacks :: "u16 \<Rightarrow> frame_cb list" where
  "main_callbacks self =
    reg CB_TS (uint HCAN_MULTICAST_INFO) HCAN_SRV_RTS (reg CB_HES (-1) HCAN_SRV_HES (canix_init_callbacks self))"

text \<open>What \<open>canix_init\<close> does to the board, and the start of \<open>main\<close> up to the main loop.\<close>

definition canix_init_board :: "board \<Rightarrow> board" where
  "canix_init_board b =
    (let b = b\<lparr>rtc := canix_rtc_init\<rparr>
     in snd (eds_init (canix_set_syslog_level (eeprom_read_byte EEPR_DEBUG_LEVEL b) b)))"

definition main_start :: "'s hw \<Rightarrow> 's station \<Rightarrow> 's station" where
  "main_start h s =
    (let c = st_ctl s; b = canix_init_board (darlingtonoutput_init (ct_board c))
     in s\<lparr>st_ctl := devices_load_config h (c\<lparr>ct_board := b\<rparr>), st_callbacks := main_callbacks (canix_selfaddr b)\<rparr>)"

datatype 's station_event = Ev_Rtc | Ev_Idle "'s hw" | Ev_Deliver "'s hw" canix_frame

definition deliver :: "u16 \<Rightarrow> 's hw \<Rightarrow> canix_frame \<Rightarrow> 's station \<Rightarrow> 's station option" where
  "deliver build h f s =
    fold (\<lambda>cb r. Option.bind r (call_back build h f cb)) (canix_deliver_frame (st_callbacks s) f) (Some s)"

fun station_step :: "u16 \<Rightarrow> 's station_event \<Rightarrow> 's station \<Rightarrow> 's station option" where
  "station_step build Ev_Rtc s = Some (s\<lparr>st_ctl := timer_handler (st_ctl s)\<rparr>)"
| "station_step build (Ev_Idle h) s = Some (s\<lparr>st_ctl := idle_handler h (st_ctl s)\<rparr>)"
| "station_step build (Ev_Deliver h f) s = deliver build h f s"

fun station_run :: "u16 \<Rightarrow> 's station_event list \<Rightarrow> 's station \<Rightarrow> 's station option" where
  "station_run build [] s = Some s"
| "station_run build (e # es) s = Option.bind (station_step build e s) (station_run build es)"

section \<open>Devices keep to their outputs\<close>

text \<open>The outputs of a device.\<close>

fun out_ports :: "device \<Rightarrow> u8 list" where
  "out_ports (D_dunstabzugport p) = [du_port (du_config p)]"
| "out_ports (D_heizung p) = [hz_port (hz_config p)]"
| "out_ports (D_powerport p) = [pp_port (pp_config p)]"
| "out_ports (D_rolladen p) = [port_power (ro_config p), port_dir (ro_config p)]"
| "out_ports (D_tastdimmer p) = [td_port (td_config p)]"
| "out_ports _ = []"

fun is_shutter :: "device \<Rightarrow> bool" where
  "is_shutter (D_rolladen p) = True"
| "is_shutter _ = False"

text \<open>The contract of a handler of the table: it changes no output but the device's own and leaves the table
  to the loop; \<open>S\<close> is what it does to a shutter.\<close>

definition keeps_to :: "device \<Rightarrow> 's controller \<Rightarrow> device \<times> 's controller \<Rightarrow> bool" where
  "keeps_to d c r =
    (out_ports (fst r) = out_ports d \<and> is_shutter (fst r) = is_shutter d \<and> pdevice_data (snd r) = pdevice_data c \<and>
     (\<forall>n. pin_valid n (ct_board (snd r)) = pin_valid n (ct_board c)) \<and>
     (\<forall>n. n \<notin> set (out_ports d) \<longrightarrow> darlingtonoutput_getpin n (ct_board (snd r)) = darlingtonoutput_getpin n (ct_board c)))"

text \<open>No output of a shutter is used by another device.\<close>

definition separate :: "device list \<Rightarrow> bool" where
  "separate ds = (\<forall>i < length ds. \<forall>j < length ds. i \<noteq> j \<longrightarrow> is_shutter (ds ! i) \<longrightarrow>
     set (out_ports (ds ! i)) \<inter> set (out_ports (ds ! j)) = {})"

definition same_relays :: "device_data_rolladen \<Rightarrow> board \<Rightarrow> board \<Rightarrow> bool" where
  "same_relays p b b' = (power_on p b' = power_on p b \<and> dir_on p b' = dir_on p b \<and> (\<forall>n. pin_valid n b' = pin_valid n b))"

lemma same_relays_refl [simp]: "same_relays p b b"
  by (simp add: same_relays_def)

lemma same_relays_trans: "same_relays p b b' \<Longrightarrow> same_relays p b' b'' \<Longrightarrow> same_relays p b b''"
  by (simp add: same_relays_def)

locale table_handler =
  fixes H :: "device \<Rightarrow> 's controller \<Rightarrow> device \<times> 's controller"
    and S :: "device_data_rolladen \<Rightarrow> board \<Rightarrow> device_data_rolladen \<times> board"
  assumes contract: "keeps_to d c (H d c)"
    and shutter: "H (D_rolladen p) c = on_board D_rolladen (S p (ct_board c)) c"
begin

lemma visit_table:
  assumes "i < length (pdevice_data c)"
  shows "pdevice_data (visit H i c) = (pdevice_data c)[i := fst (H (pdevice_data c ! i) c)]"
    "ct_board (visit H i c) = ct_board (snd (H (pdevice_data c ! i) c))"
    "map out_ports (pdevice_data (visit H i c)) = map out_ports (pdevice_data c)"
    "map is_shutter (pdevice_data (visit H i c)) = map is_shutter (pdevice_data c)"
  using contract [of "pdevice_data c ! i" c] assms
  by (auto simp: visit_def keeps_to_def case_prod_unfold Let_def map_update list_update_same_conv)

text \<open>The visit of another device leaves a shutter and its relays alone.\<close>

lemma visit_other:
  assumes "i < length (pdevice_data c)" "j < length (pdevice_data c)" "i \<noteq> j" "separate (pdevice_data c)"
    "pdevice_data c ! i = D_rolladen p"
  shows "pdevice_data (visit H j c) ! i = D_rolladen p \<and> same_relays p (ct_board c) (ct_board (visit H j c))"
proof -
  have "set (out_ports (pdevice_data c ! i)) \<inter> set (out_ports (pdevice_data c ! j)) = {}"
    using assms unfolding separate_def by (metis is_shutter.simps(1))
  then have "port_power (ro_config p) \<notin> set (out_ports (pdevice_data c ! j))"
    "port_dir (ro_config p) \<notin> set (out_ports (pdevice_data c ! j))" using assms(5) by auto
  then show ?thesis using contract [of "pdevice_data c ! j" c] assms
    by (simp add: visit_table keeps_to_def same_relays_def power_on_def dir_on_def)
qed

lemma visit_separate:
  assumes "i < length (pdevice_data c)" "separate (pdevice_data c)"
  shows "separate (pdevice_data (visit H i c))" "length (pdevice_data (visit H i c)) = length (pdevice_data c)"
proof -
  have l: "length (pdevice_data (visit H i c)) = length (pdevice_data c)" using assms by (simp add: visit_table)
  have "out_ports (pdevice_data (visit H i c) ! k) = out_ports (pdevice_data c ! k)"
    "is_shutter (pdevice_data (visit H i c) ! k) = is_shutter (pdevice_data c ! k)" if "k < length (pdevice_data c)" for k
    using arg_cong [OF visit_table(3) [OF assms(1)], of "\<lambda>xs. xs ! k"]
      arg_cong [OF visit_table(4) [OF assms(1)], of "\<lambda>xs. xs ! k"] that l by simp_all
  then show "separate (pdevice_data (visit H i c))" "length (pdevice_data (visit H i c)) = length (pdevice_data c)"
    using assms l by (simp_all add: separate_def)
qed

lemma visits_separate:
  assumes "separate (pdevice_data c)" "k \<le> length (pdevice_data c)"
  shows "separate (pdevice_data (fold (visit H) [0..<k] c)) \<and>
    length (pdevice_data (fold (visit H) [0..<k] c)) = length (pdevice_data c)"
  using assms(2) by (induction k) (use assms(1) visit_separate in auto)

lemma visits_kinds:
  "k \<le> length (pdevice_data c) \<Longrightarrow>
    map is_shutter (pdevice_data (fold (visit H) [0..<k] c)) = map is_shutter (pdevice_data c)"
proof (induction k)
  case (Suc k)
  then have IH: "map is_shutter (pdevice_data (fold (visit H) [0..<k] c)) = map is_shutter (pdevice_data c)" by simp
  then have "length (pdevice_data (fold (visit H) [0..<k] c)) = length (pdevice_data c)" by (metis length_map)
  then show ?case using visit_table(4) [of k "fold (visit H) [0..<k] c"] Suc.prems IH by simp
qed simp

lemma visits_shutter:
  assumes "separate (pdevice_data c)" "k \<le> length (pdevice_data c)" "i < length (pdevice_data c)"
    "pdevice_data c ! i = D_rolladen p"
  shows "if k \<le> i then pdevice_data (fold (visit H) [0..<k] c) ! i = D_rolladen p \<and>
         same_relays p (ct_board c) (ct_board (fold (visit H) [0..<k] c))
     else \<exists>b1 p' b2. same_relays p (ct_board c) b1 \<and> S p b1 = (p', b2) \<and>
         pdevice_data (fold (visit H) [0..<k] c) ! i = D_rolladen p' \<and>
         same_relays p' b2 (ct_board (fold (visit H) [0..<k] c))"
  using assms(2)
proof (induction k)
  case 0
  then show ?case using assms by simp
next
  case (Suc k)
  let ?c = "fold (visit H) [0..<k] c"
  have k: "k < length (pdevice_data ?c)" "separate (pdevice_data ?c)" "length (pdevice_data ?c) = length (pdevice_data c)"
    using visits_separate [OF assms(1), of k] Suc.prems by simp_all
  have s: "fold (visit H) [0..<Suc k] c = visit H k ?c" by simp
  consider "k < i" | "k = i" | "i < k" by linarith
  then show ?case
  proof cases
    case 1
    then have "pdevice_data ?c ! i = D_rolladen p" "same_relays p (ct_board c) (ct_board ?c)" using Suc by simp_all
    with visit_other [of i ?c k p] 1 k assms(3) s show ?thesis by (auto intro: same_relays_trans)
  next
    case 2
    then have d: "pdevice_data ?c ! i = D_rolladen p" "same_relays p (ct_board c) (ct_board ?c)" using Suc by simp_all
    obtain p' b2 where sp: "S p (ct_board ?c) = (p', b2)" by fastforce
    have "pdevice_data (visit H k ?c) ! i = D_rolladen p'" "ct_board (visit H k ?c) = b2"
      using visit_table(1,2) [OF k(1)] d 2 k sp by (simp_all add: shutter on_board_def)
    then have "same_relays p (ct_board c) (ct_board ?c) \<and> S p (ct_board ?c) = (p', b2) \<and>
        pdevice_data (visit H k ?c) ! i = D_rolladen p' \<and> same_relays p' b2 (ct_board (visit H k ?c))"
      using d sp by simp
    then show ?thesis using 2 unfolding s by auto
  next
    case 3
    then obtain b1 p' b2 where r: "same_relays p (ct_board c) b1" "S p b1 = (p', b2)"
        "pdevice_data ?c ! i = D_rolladen p'" "same_relays p' b2 (ct_board ?c)" using Suc by auto
    have "pdevice_data (visit H k ?c) ! i = D_rolladen p'" "same_relays p' (ct_board ?c) (ct_board (visit H k ?c))"
      using visit_other [of i ?c k p'] 3 k assms(3) r(3) by auto
    then show ?thesis using 3 r same_relays_trans unfolding s by auto
  qed
qed

lemma pass:
  assumes "separate (pdevice_data c)"
  shows "separate (pdevice_data (for_devices H c))"
    "length (pdevice_data (for_devices H c)) = length (pdevice_data c)"
    "\<And>i p. i < length (pdevice_data c) \<Longrightarrow> pdevice_data c ! i = D_rolladen p \<Longrightarrow>
      \<exists>b1 p' b2. same_relays p (ct_board c) b1 \<and> S p b1 = (p', b2) \<and>
        pdevice_data (for_devices H c) ! i = D_rolladen p' \<and> same_relays p' b2 (ct_board (for_devices H c))"
proof -
  let ?n = "length (pdevice_data c)"
  show "separate (pdevice_data (for_devices H c))" "length (pdevice_data (for_devices H c)) = ?n"
    using visits_separate [OF assms, of ?n] by (simp_all add: for_devices_def)
  show "\<exists>b1 p' b2. same_relays p (ct_board c) b1 \<and> S p b1 = (p', b2) \<and>
      pdevice_data (for_devices H c) ! i = D_rolladen p' \<and> same_relays p' b2 (ct_board (for_devices H c))"
    if "i < ?n" "pdevice_data c ! i = D_rolladen p" for i p
    using visits_shutter [OF assms order_refl that] that(1) by (simp add: for_devices_def)
qed

end

lemma same_keeps: "keeps_to d c (d, c)"
  by (auto simp: keeps_to_def)

text \<open>A driver that keeps its contract on the board keeps it in the table.\<close>

context output_driver
begin

lemma in_table:
  assumes "\<And>p. out_ports (C p) = ports p" "\<And>p. \<not> is_shutter (C p)"
  shows "keeps_to (C p) c (on_board C (handle p (ct_board c)) c)"
proof -
  have "C p \<noteq> D_rolladen q" for q using assms(2) [of p] by auto
  then show ?thesis using assms other_pins pins_stay ports_stay by (simp add: keeps_to_def on_board_def)
qed

end

lemma same_board [simp]: "c\<lparr>ct_board := ct_board c\<rparr> = c"
  by (cases c) simp

interpretation t100: table_handler tick_100th Pair
proof
  show "keeps_to d c (tick_100th d c)" for d c
    by (cases d) (simp_all add: same_keeps multitaster_tick.in_table taster_tick.in_table)
qed (simp_all add: on_board_def)

lemma tick_10th_shutter: "keeps_to (D_rolladen p) c (tick_10th h (D_rolladen p) c)"
  using rolladen_tick.other_pins [of _ p "ct_board c"] rolladen_tick.pins_stay [of _ p "ct_board c"]
    rolladen_tick.ports_stay [of p "ct_board c"]
  by (auto simp: keeps_to_def on_board_def )

lemma device_frame_shutter: "keeps_to (D_rolladen p) c (device_frame f (D_rolladen p) c)"
  using rolladen_frame.other_pins [of _ p f "ct_board c"] rolladen_frame.pins_stay [of _ f p "ct_board c"]
    rolladen_frame.ports_stay [of f p "ct_board c"]
  by (auto simp: keeps_to_def on_board_def )

lemma sensor_keeps:
  "keeps_to (D_poti p) c (tick_10th h (D_poti p) c)"
  "keeps_to (D_helligkeitssensor q) c (tick_1 h (D_helligkeitssensor q) c)"
  "keeps_to (D_tempsensor r) c (tick_1 h (D_tempsensor r) c)"
  using poti_tick.other_pins [where p = p and b = "ct_board c"] poti_tick.pins_stay [where p = p and b = "ct_board c"]
    hs_tick.other_pins [where p = q and b = "ct_board c"] hs_tick.pins_stay [where p = q and b = "ct_board c"]
    tempsensor_tick.other_pins [where p = r and b = "ct_board c" and s = "ct_bus c"]
    tempsensor_tick.pins_stay [where p = r and b = "ct_board c" and s = "ct_bus c"]
  by (simp_all add: keeps_to_def keep_mux_def Let_def case_prod_unfold)

interpretation t10: table_handler "tick_10th h" rolladen_timer_handler for h
proof
  show "keeps_to d c (tick_10th h d c)" for d c
    by (cases d)
      (simp_all add: same_keeps tick_10th_shutter sensor_keeps multitaster_tick.in_table schlitz_tick.in_table
        schalter_tick.in_table del: tick_10th.simps(2,3))
qed (simp_all add: on_board_def)

interpretation t1: table_handler "tick_1 h" Pair for h
proof
  show "keeps_to d c (tick_1 h d c)" for d c
    by (cases d)
      (simp_all add: same_keeps sensor_keeps hood_tick.in_table heizung_tick.in_table lichtzone_tick.in_table
        reed_tick.in_table rolladenAutomat_tick.in_table timeservice_tick.in_table zeitschaltuhr_tick.in_table
        powerport_tick.in_table del: tick_1.simps(2,7))
qed (simp_all add: on_board_def)

interpretation dframe: table_handler "device_frame f" "rolladen_can_callback f" for f
proof
  show "keeps_to d c (device_frame f d c)" for d c
    by (cases d)
      (simp_all add: same_keeps device_frame_shutter powerportAutomat_frame.in_table hood_frame.in_table
        heizung_frame.in_table lichtzone_frame.in_table powerport_frame.in_table reed_frame.in_table
        schlitz_frame.in_table pumpe_frame.in_table dimmer_frame.in_table zeitzone_frame.in_table
        del: device_frame.simps(9), simp_all add: keeps_to_def tempsensor_can_callback_def)
qed (simp_all add: on_board_def)

section \<open>Shutters in a station\<close>

definition shutters_ok :: "'s controller \<Rightarrow> bool" where
  "shutters_ok c = (separate (pdevice_data c) \<and>
     (\<forall>i p. i < length (pdevice_data c) \<longrightarrow> pdevice_data c ! i = D_rolladen p \<longrightarrow>
       (\<exists>off still. ro_reach off still p (ct_board c))))"

text \<open>What a step of the controller may do to its shutters: the table stays, and the relays of each are
  related by \<open>R\<close>, which takes power and direction before and after.\<close>

definition steps :: "(bool \<Rightarrow> bool \<Rightarrow> bool \<Rightarrow> bool \<Rightarrow> bool) \<Rightarrow> 's controller \<Rightarrow> 's controller \<Rightarrow> bool" where
  "steps R c c' = (shutters_ok c \<longrightarrow> shutters_ok c' \<and> length (pdevice_data c') = length (pdevice_data c) \<and>
     (\<forall>i p. i < length (pdevice_data c) \<longrightarrow> pdevice_data c ! i = D_rolladen p \<longrightarrow>
       (\<exists>p'. pdevice_data c' ! i = D_rolladen p' \<and>
         R (power_on p (ct_board c)) (dir_on p (ct_board c)) (power_on p' (ct_board c')) (dir_on p' (ct_board c')))))"

definition calm_R :: "bool \<Rightarrow> bool \<Rightarrow> bool \<Rightarrow> bool \<Rightarrow> bool" where
  "calm_R pw dr pw' dr' = (pw' = pw \<and> dr' = dr)"

definition safe_R :: "bool \<Rightarrow> bool \<Rightarrow> bool \<Rightarrow> bool \<Rightarrow> bool" where
  "safe_R pw dr pw' dr' = (dr' \<noteq> dr \<longrightarrow> \<not> pw \<and> \<not> pw')"

lemma steps_trans:
  assumes "steps R c c'" "steps R' c' c''"
    and "\<And>a b d e f g. R a b d e \<Longrightarrow> R' d e f g \<Longrightarrow> Q a b f g"
  shows "steps Q c c''"
  unfolding steps_def
proof (intro impI)
  assume ok: "shutters_ok c"
  then have 1: "shutters_ok c'" "length (pdevice_data c') = length (pdevice_data c)"
    and 2: "shutters_ok c''" "length (pdevice_data c'') = length (pdevice_data c')"
    using assms(1,2) by (auto simp: steps_def)
  show "shutters_ok c'' \<and> length (pdevice_data c'') = length (pdevice_data c) \<and>
     (\<forall>i p. i < length (pdevice_data c) \<longrightarrow> pdevice_data c ! i = D_rolladen p \<longrightarrow>
       (\<exists>p''. pdevice_data c'' ! i = D_rolladen p'' \<and>
         Q (power_on p (ct_board c)) (dir_on p (ct_board c)) (power_on p'' (ct_board c'')) (dir_on p'' (ct_board c''))))"
  proof (intro conjI allI impI)
    fix i p assume i: "i < length (pdevice_data c)" and p: "pdevice_data c ! i = D_rolladen p"
    obtain p' where p': "pdevice_data c' ! i = D_rolladen p'"
        "R (power_on p (ct_board c)) (dir_on p (ct_board c)) (power_on p' (ct_board c')) (dir_on p' (ct_board c'))"
      using assms(1) ok i p unfolding steps_def by blast
    have "i < length (pdevice_data c')" using i 1 by simp
    then obtain p'' where "pdevice_data c'' ! i = D_rolladen p''"
        "R' (power_on p' (ct_board c')) (dir_on p' (ct_board c')) (power_on p'' (ct_board c'')) (dir_on p'' (ct_board c''))"
      using assms(2) 1(1) p'(1) unfolding steps_def by blast
    then show "\<exists>p''. pdevice_data c'' ! i = D_rolladen p'' \<and>
         Q (power_on p (ct_board c)) (dir_on p (ct_board c)) (power_on p'' (ct_board c'')) (dir_on p'' (ct_board c''))"
      using p'(2) assms(3) by blast
  qed (use 1 2 in auto)
qed

lemma reach_same:
  assumes "ro_reach off still p b" "same_relays p b b'"
  shows "ro_reach off still p b'"
proof -
  have "ro_wired p b" using reach_inv [OF assms(1)] by (simp add: ro_inv_def)
  then have "ro_wired p b'" using assms(2) by (simp add: ro_wired_def same_relays_def)
  then show ?thesis using ro_reach.others assms by (simp add: same_relays_def)
qed

text \<open>A change of the board that leaves the outputs alone, and a change of other devices.\<close>

lemma board_calm:
  assumes "\<And>n. darlingtonoutput_getpin n (ct_board c') = darlingtonoutput_getpin n (ct_board c)"
    "\<And>n. pin_valid n (ct_board c') = pin_valid n (ct_board c)"
    "length (pdevice_data c') = length (pdevice_data c)"
    "\<And>i. i < length (pdevice_data c) \<Longrightarrow> out_ports (pdevice_data c' ! i) = out_ports (pdevice_data c ! i)"
    "\<And>i. i < length (pdevice_data c) \<Longrightarrow> pdevice_data c' ! i = pdevice_data c ! i \<or>
      \<not> is_shutter (pdevice_data c' ! i) \<and> \<not> is_shutter (pdevice_data c ! i)"
  shows "steps calm_R c c'"
proof -
  have rel: "power_on p (ct_board c') = power_on p (ct_board c)" "dir_on p (ct_board c') = dir_on p (ct_board c)"
      "same_relays p (ct_board c) (ct_board c')" for p
    using assms(1,2) by (simp_all add: same_relays_def power_on_def dir_on_def)
  have sh: "pdevice_data c' ! i = D_rolladen p \<longleftrightarrow> pdevice_data c ! i = D_rolladen p" if "i < length (pdevice_data c)" for i p
    using assms(5) [OF that] by auto
  have sh': "is_shutter (pdevice_data c' ! i) = is_shutter (pdevice_data c ! i)" if "i < length (pdevice_data c)" for i
    using assms(5) [OF that] by auto
  have "separate (pdevice_data c) \<Longrightarrow> separate (pdevice_data c')" using assms(3,4) sh' by (simp add: separate_def)
  then show ?thesis using rel sh assms(3) reach_same
    unfolding steps_def shutters_ok_def calm_R_def by (metis (no_types, lifting))
qed

context table_handler
begin

lemma pass_steps:
  assumes "\<And>p b p' b' off still. S p b = (p', b') \<Longrightarrow> ro_reach off still p b \<Longrightarrow>
      (\<exists>off still. ro_reach off still p' b') \<and> R (power_on p b) (dir_on p b) (power_on p' b') (dir_on p' b')"
  shows "steps R c (for_devices H c)"
  unfolding steps_def
proof (intro impI)
  let ?c = "for_devices H c"
  assume ok: "shutters_ok c"
  then have sep: "separate (pdevice_data c)" by (simp add: shutters_ok_def)
  note ps = pass [OF sep]
  have each: "\<exists>p'. pdevice_data ?c ! i = D_rolladen p' \<and> (\<exists>off still. ro_reach off still p' (ct_board ?c)) \<and>
      R (power_on p (ct_board c)) (dir_on p (ct_board c)) (power_on p' (ct_board ?c)) (dir_on p' (ct_board ?c))"
    if i: "i < length (pdevice_data c)" and p: "pdevice_data c ! i = D_rolladen p" for i p
  proof -
    obtain off still where "ro_reach off still p (ct_board c)" using ok i p unfolding shutters_ok_def by blast
    moreover obtain b1 p' b2 where x: "same_relays p (ct_board c) b1" "S p b1 = (p', b2)"
      "pdevice_data ?c ! i = D_rolladen p'" "same_relays p' b2 (ct_board ?c)" using ps(3) [OF i p] by blast
    ultimately have "ro_reach off still p b1" using reach_same by blast
    from assms [OF x(2) this] obtain off' still' where
      "ro_reach off' still' p' b2" "R (power_on p b1) (dir_on p b1) (power_on p' b2) (dir_on p' b2)" by blast
    then show ?thesis using x reach_same [of off' still' p' b2] by (auto simp: same_relays_def)
  qed
  have was: "\<exists>p. pdevice_data c ! i = D_rolladen p" if "i < length (pdevice_data c)" "pdevice_data ?c ! i = D_rolladen q" for i q
  proof -
    have "is_shutter (pdevice_data ?c ! i) = is_shutter (pdevice_data c ! i)"
      using arg_cong [OF visits_kinds [of "length (pdevice_data c)" c, OF order_refl], of "\<lambda>xs. xs ! i"] that(1) ps(2) by (simp add: for_devices_def)
    then show ?thesis using that(2) by (cases "pdevice_data c ! i") simp_all
  qed
  show "shutters_ok ?c \<and> length (pdevice_data ?c) = length (pdevice_data c) \<and>
     (\<forall>i p. i < length (pdevice_data c) \<longrightarrow> pdevice_data c ! i = D_rolladen p \<longrightarrow>
       (\<exists>p'. pdevice_data ?c ! i = D_rolladen p' \<and>
         R (power_on p (ct_board c)) (dir_on p (ct_board c)) (power_on p' (ct_board ?c)) (dir_on p' (ct_board ?c))))"
  proof (intro conjI)
    have "\<exists>off still. ro_reach off still q (ct_board ?c)"
      if i: "i < length (pdevice_data c)" and q: "pdevice_data ?c ! i = D_rolladen q" for i q
      using was [OF i q] each [OF i] q by fastforce
    then show "shutters_ok ?c" using ps(1,2) by (simp add: shutters_ok_def)
  qed (use ps(2) each in blast)+
qed

end

lemma calm_Pair:
  "Pair p b = (p', b') \<Longrightarrow> ro_reach off still p b \<Longrightarrow>
    (\<exists>off still. ro_reach off still p' b') \<and> calm_R (power_on p b) (dir_on p b) (power_on p' b') (dir_on p' b')"
  by (auto simp: calm_R_def)

lemma calm_frame:
  assumes "rolladen_can_callback f p b = (p', b')" "ro_reach off still p b"
  shows "(\<exists>off still. ro_reach off still p' b') \<and> calm_R (power_on p b) (dir_on p b) (power_on p' b') (dir_on p' b')"
  using ro_reach.frame [OF assms(2,1)] frame_keeps [OF assms(1)] by (auto simp: calm_R_def power_on_def dir_on_def)

lemma safe_tick:
  assumes "rolladen_timer_handler p b = (p', b')" "ro_reach off still p b"
  shows "(\<exists>off still. ro_reach off still p' b') \<and> safe_R (power_on p b) (dir_on p b) (power_on p' b') (dir_on p' b')"
  using ro_reach.tick [OF assms(2,1)] tick_inv [OF reach_inv [OF assms(2)] assms(1)]
  unfolding safe_R_def tick_safe_def by blast

text \<open>The data space works on the EEPROM only.\<close>

definition same_pins :: "board \<Rightarrow> board \<Rightarrow> bool" where
  "same_pins b b' = (\<forall>n. darlingtonoutput_getpin n b' = darlingtonoutput_getpin n b \<and> pin_valid n b' = pin_valid n b)"

lemma same_pins_refl [simp]: "same_pins b b"
  by (simp add: same_pins_def)

lemma same_pins_trans: "same_pins b b' \<Longrightarrow> same_pins b' b'' \<Longrightarrow> same_pins b b''"
  by (simp add: same_pins_def)

lemma same_pins_simps [simp]:
  "same_pins b (send_prio d x q b') = same_pins b b'" "same_pins b (send_frame d x b') = same_pins b b'"
  "same_pins b (eeprom_write_byte a v b') = same_pins b b'" "same_pins b (canix_syslog_P pr fm as b') = same_pins b b'"
  by (simp_all add: same_pins_def)

lemma eds_alloc_pins: "same_pins b (snd (eds_alloc_from p sz b))"
  by (induction p sz b rule: eds_alloc_from.induct) (subst eds_alloc_from.simps, simp add: Let_def)

lemma eds_free_pins: "same_pins b (snd (eds_free_from p q b))"
  by (induction p q b rule: eds_free_from.induct) (subst eds_free_from.simps, simp add: EDS_SET_BLOCK_TYPE_def)

lemma eds_format_pins: "same_pins b (eds_format_loop p b)"
proof (induction p b rule: eds_format_loop.induct)
  case (1 p b)
  then show ?case by (subst eds_format_loop.simps) (simp add: Let_def same_pins_def)
qed

lemma defrag_step_pins: "same_pins b (snd (snd (defrag_step p l b)))"
  by (simp add: defrag_step_def Let_def EDS_SET_BLOCK_SIZE_def)

lemma eds_defrag_pins:
  assumes "eds_defragment_loop p l b = Some b'"
  shows "same_pins b b'"
proof (rule eds_defragment_loop.raw_induct [where P = "\<lambda>_ _ b b'. same_pins b b'", OF _ assms])
  fix loop p l b b'
  assume IH: "\<And>p l b b'. loop p l b = Some b' \<Longrightarrow> same_pins b b'"
    and eq: "(if p < EDS_END then case defrag_step p l b of (p1, l1, b1) \<Rightarrow> loop (eds_next_block p1 b1) l1 b1 else Some b) = Some b'"
  obtain p1 l1 b1 where d: "defrag_step p l b = (p1, l1, b1)" by (cases "defrag_step p l b")
  show "same_pins b b'" using eq IH [of "eds_next_block p1 b1" l1 b1 b'] defrag_step_pins [of b p l]
    by (auto simp: d intro: same_pins_trans split: if_splits)
qed

lemma eds_callback_pins:
  assumes "eds_can_callback f b = Some b'"
  shows "same_pins b b'"
  using assms eds_alloc_pins [of b EDS_DATA_START] eds_free_pins [of b EDS_DATA_START] eds_defrag_pins
    eds_format_pins [of "eeprom_write_byte (EDS_START + 1) EDS_MAGIC2 (eeprom_write_byte EDS_START EDS_MAGIC1 b)"]
  by (simp add: eds_can_callback_def eds_answer_def eds_alloc_def eds_free_def eds_defragment_def eds_format_def
      EDS_SET_BLOCK_TYPE_def Let_def case_prod_unfold split: if_splits) (auto simp: same_pins_def)

lemma hms_pins: "same_pins (nd_board nd) (nd_board (canix_SFP_HMS_handler build f nd))"
  by (simp add: canix_SFP_HMS_handler_def hms_answer_def Let_def)
    (simp add: canix_set_syslog_level_def same_pins_def darlingtonoutput_getpin_def pin_valid_def)

lemma rts_pins: "same_pins b (canix_SFP_RTS_handler f b)"
  by (simp add: canix_SFP_RTS_handler_def Let_def) (simp add: same_pins_def darlingtonoutput_getpin_def pin_valid_def)

lemma ow_discover_pins:
  assumes "ow_discover_loop line rst f diff id8 s b = Some r"
  shows "same_pins b (snd r)"
proof (rule ow_discover_loop.raw_induct [where P = "\<lambda>_ _ _ _ _ _ b r. same_pins b (snd r)", OF _ assms])
  fix loop line and rst :: "'a ow_rst" and f diff id8 s b r
  assume IH: "\<And>(line :: 'a ow_line) rst f diff id8 s b r. loop line rst f diff id8 s b = Some r \<Longrightarrow> same_pins b (snd r)"
    and eq: "(if diff = LAST_DEVICE then Some (s, b)
       else (case ow_rom_search line rst diff id8 s of
             (Inl e, s) \<Rightarrow> Some (s, ow_failed f e b)
           | (Inr (diff, id8), s) \<Rightarrow> loop line rst f diff id8 s (ow_found f id8 b))) = Some r"
  have p: "same_pins b (ow_failed f e b)" "same_pins b (ow_found f i b)" for e i
    by (simp_all add: ow_failed_def ow_found_def)
  then show "same_pins b (snd r)" using eq
    by (auto intro: same_pins_trans [OF p(2)] IH split: if_splits prod.splits sum.splits)
qed

section \<open>Steps of the station\<close>

lemma steps_weaken: "steps R c c' \<Longrightarrow> (\<And>a b d e. R a b d e \<Longrightarrow> Q a b d e) \<Longrightarrow> steps Q c c'"
  unfolding steps_def by blast

lemma calm_trans: "steps calm_R c c' \<Longrightarrow> steps calm_R c' c'' \<Longrightarrow> steps calm_R c c''"
  by (erule (1) steps_trans) (auto simp: calm_R_def)

lemma calm_safe: "steps calm_R c c' \<Longrightarrow> steps safe_R c' c'' \<Longrightarrow> steps safe_R c c''"
  by (erule (1) steps_trans) (auto simp: calm_R_def safe_R_def)

lemma safe_calm: "steps safe_R c c' \<Longrightarrow> steps calm_R c' c'' \<Longrightarrow> steps safe_R c c''"
  by (erule (1) steps_trans) (auto simp: calm_R_def safe_R_def)

lemma calm_is_safe: "steps calm_R c c' \<Longrightarrow> steps safe_R c c'"
  by (erule steps_weaken) (simp add: calm_R_def safe_R_def)

lemma calm_refl: "steps calm_R c c"
  by (rule board_calm) simp_all

lemma pins_calm:
  assumes "same_pins (ct_board c) (ct_board c')" "pdevice_data c' = pdevice_data c"
  shows "steps calm_R c c'"
  by (rule board_calm) (use assms in \<open>simp_all add: same_pins_def\<close>)

lemma passes:
  "steps calm_R c (for_devices tick_100th c)" "steps safe_R c (for_devices (tick_10th h) c)"
  "steps calm_R c (for_devices (tick_1 h) c)" "steps calm_R c (for_devices (device_frame f) c)"
  by (rule t100.pass_steps, erule (1) calm_Pair) (rule t10.pass_steps, erule (1) safe_tick,
    rule t1.pass_steps, erule (1) calm_Pair, rule dframe.pass_steps, erule (1) calm_frame)

lemma idle_safe: "steps safe_R c (idle_handler h c)"
proof -
  let ?c1 = "idle_100th c" let ?c2 = "idle_10th h ?c1" let ?c3 = "idle_1 h ?c2"
  have "steps calm_R c ?c1"
    using calm_trans [OF pins_calm [of c "c\<lparr>timer_event_100th := False\<rparr>"] passes(1)]
    by (simp add: idle_100th_def calm_refl)
  moreover have "steps safe_R ?c1 ?c2"
    using calm_safe [OF pins_calm [of ?c1 "?c1\<lparr>timer_event_10th := False\<rparr>"] passes(2)]
    by (simp add: idle_10th_def calm_is_safe [OF calm_refl])
  moreover have "steps calm_R ?c2 ?c3"
  proof (cases "timer_event_1 ?c2")
    case True
    let ?c = "for_devices (tick_1 h) (?c2\<lparr>timer_event_1 := False\<rparr>)"
    have "steps calm_R ?c2 ?c"
      using calm_trans [OF pins_calm [of ?c2 "?c2\<lparr>timer_event_1 := False\<rparr>"] passes(3)] by simp
    moreover have "steps calm_R ?c ?c3" by (rule pins_calm) (simp_all add: idle_1_def mem_check_def True Let_def)
    ultimately show ?thesis by (rule calm_trans)
  qed (simp add: idle_1_def calm_refl)
  moreover have "steps calm_R ?c3 (idle_handler h c)" by (rule pins_calm) (simp_all add: idle_handler_def Let_def)
  ultimately show ?thesis using calm_safe safe_calm by blast
qed

lemma hauselektrik_calm:
  assumes "hauselektrik_callback h f c = Some c'" and "fr_data f ! 0 = HCAN_SRV_HES \<longrightarrow> fr_data f ! 1 \<noteq> HCAN_HES_CONFIG_RELOAD"
  shows "steps calm_R c c'"
proof -
  let ?c = "for_devices (device_frame f) c"
  note p = passes(4) [of c f]
  have o: "same_pins b (snd r)" if "ow_discover l rst f st u b = Some r" for l rst st u b r
    by (rule ow_discover_pins [OF that [unfolded ow_discover_def]])
  have "c' = c \<or> pdevice_data c' = pdevice_data ?c \<and> same_pins (ct_board ?c) (ct_board c')"
    using assms by (auto simp: hauselektrik_callback_def Let_def split: if_splits option.splits dest!: o)
  then show ?thesis using calm_refl calm_trans [OF p pins_calm] by metis
qed

lemma timeservice_calm: "steps calm_R c (timeservice_callback f c)"
proof (rule board_calm)
  fix i assume i: "i < length (pdevice_data c)"
  have "ts_frame f d = d \<or> \<not> is_shutter (ts_frame f d) \<and> \<not> is_shutter d" "out_ports (ts_frame f d) = out_ports d" for d
    by (cases d; simp)+
  then show "pdevice_data (timeservice_callback f c) ! i = pdevice_data c ! i \<or>
      \<not> is_shutter (pdevice_data (timeservice_callback f c) ! i) \<and> \<not> is_shutter (pdevice_data c ! i)"
    "out_ports (pdevice_data (timeservice_callback f c) ! i) = out_ports (pdevice_data c ! i)"
    using i by (auto simp: timeservice_callback_def)
qed (simp_all add: timeservice_callback_def)

definition no_reload :: "canix_frame \<Rightarrow> bool" where
  "no_reload f = (fr_data f ! 0 = HCAN_SRV_HES \<longrightarrow> fr_data f ! 1 \<noteq> HCAN_HES_CONFIG_RELOAD)"

lemma call_back_calm:
  assumes "call_back build h f cb s = Some s'" "no_reload f"
  shows "steps calm_R (st_ctl s) (st_ctl s')"
proof -
  let ?nd = "\<lparr>nd_board = ct_board (st_ctl s), nd_mcp = st_mcp s, nd_rx = st_rx s, nd_reset = st_reset s\<rparr>"
  have h: "same_pins (ct_board (st_ctl s)) (nd_board (canix_SFP_HMS_handler build f ?nd))"
    using hms_pins [of ?nd build f] by simp
  consider "pdevice_data (st_ctl s') = pdevice_data (st_ctl s)" "same_pins (ct_board (st_ctl s)) (ct_board (st_ctl s'))"
    | "hauselektrik_callback h f (st_ctl s) = Some (st_ctl s')" | "st_ctl s' = timeservice_callback f (st_ctl s)"
    using assms(1) h rts_pins [of "ct_board (st_ctl s)" f] eds_callback_pins [of f "ct_board (st_ctl s)"]
    by (auto simp: call_back_def Let_def split: if_splits)
  then show ?thesis
  proof cases
    case 1
    show ?thesis by (rule pins_calm) (fact 1)+
  next
    case 2
    then show ?thesis by (rule hauselektrik_calm) (use assms(2) in \<open>simp add: no_reload_def\<close>)
  next
    case 3
    then show ?thesis using timeservice_calm by simp
  qed
qed

lemma deliver_calm:
  assumes "deliver build h f s = Some s'" "no_reload f"
  shows "steps calm_R (st_ctl s) (st_ctl s')"
proof -
  have "steps calm_R (st_ctl s) (st_ctl s')"
    if "fold (\<lambda>cb r. Option.bind r (call_back build h f cb)) cbs (Some s) = Some s'" for cbs s
    using that
  proof (induction cbs arbitrary: s)
    case Nil
    then show ?case by (simp add: calm_refl)
  next
    case (Cons cb cbs)
    have none: "fold (\<lambda>cb r. Option.bind r (call_back build h f cb)) cbs None = None" for cbs by (induction cbs) simp_all
    obtain s1 where "call_back build h f cb s = Some s1"
      using Cons.prems none by (cases "call_back build h f cb s") auto
    then show ?case using Cons call_back_calm [OF _ assms(2)] calm_trans by fastforce
  qed
  then show ?thesis using assms(1) by (simp add: deliver_def)
qed

fun ordinary :: "'s station_event \<Rightarrow> bool" where
  "ordinary (Ev_Deliver h f) = no_reload f"
| "ordinary _ = True"

lemma station_step_safe:
  assumes "station_step build e s = Some s'" "ordinary e"
  shows "steps safe_R (st_ctl s) (st_ctl s')"
proof (cases e)
  case Ev_Rtc
  have "steps calm_R (st_ctl s) (timer_handler (st_ctl s))"
    by (rule pins_calm) (simp_all add: timer_handler_def Let_def)
  then show ?thesis using assms Ev_Rtc calm_is_safe [of "st_ctl s"] by auto
next
  case (Ev_Idle h)
  then show ?thesis using assms idle_safe by auto
next
  case (Ev_Deliver h f)
  then show ?thesis using assms deliver_calm [of build h f s s'] calm_is_safe [of "st_ctl s" "st_ctl s'"] by simp
qed

lemma station_run_ok:
  assumes "station_run build es s = Some s'" "\<forall>e \<in> set es. ordinary e" "shutters_ok (st_ctl s)"
  shows "shutters_ok (st_ctl s')"
  using assms
proof (induction es arbitrary: s)
  case (Cons e es)
  then obtain s1 where "station_step build e s = Some s1" "station_run build es s1 = Some s'"
    by (cases "station_step build e s") auto
  moreover from this have "shutters_ok (st_ctl s1)"
    using Cons.prems station_step_safe [of build e s s1] by (simp add: steps_def)
  ultimately show ?case using Cons by simp
qed simp

section \<open>From the start\<close>

text \<open>At the start all outputs are off, and loading leaves them off with every shutter in its initial state.\<close>

definition fresh :: "'s controller \<Rightarrow> bool" where
  "fresh c = ((\<forall>n. \<not> darlingtonoutput_getpin n (ct_board c)) \<and>
     (\<forall>p. D_rolladen p \<in> set (pdevice_data c) \<longrightarrow> (\<exists>q. p = rolladen_init q)))"

lemma shift_off: "\<not> getShiftOutPinState n (changeShiftOutPinState n False ds)"
  by (induction n "False" ds rule: changeShiftOutPinState.induct) (auto simp: bit_simps)

lemma setpin_off:
  assumes "\<not> darlingtonoutput_getpin n b"
  shows "\<not> darlingtonoutput_getpin n (darlingtonoutput_setpin m False b)"
proof (cases "n = m")
  case True
  then show ?thesis
    by (simp add: darlingtonoutput_getpin_def darlingtonoutput_setpin_def Let_def bit_simps shift_off)
qed (use assms in simp)

lemma init_device_off:
  assumes "\<forall>n. \<not> darlingtonoutput_getpin n (ct_board c)"
  shows "\<not> darlingtonoutput_getpin n (ct_board (snd (init_device h it c)))"
  unfolding init_device_def on_board_def using assms
  by (simp add: Let_def case_prod_unfold dunstabzugport_init_def heizung_init_def poti_init_def poti_mux_def
      reedkontakt_init_def schalter_init_def sendMessage_def setpin_off split: option.splits)

lemma init_device_shutter: "fst (init_device h it c) = D_rolladen p \<Longrightarrow> \<exists>q. p = rolladen_init q"
  by (auto simp: init_device_def on_board_def Let_def case_prod_unfold split: if_splits option.splits)

lemma load_block_fresh:
  assumes "fresh c"
  shows "fresh (fst (load_block h it alloc c))"
proof -
  have off: "\<forall>n. \<not> darlingtonoutput_getpin n (ct_board c)" using assms by (simp add: fresh_def)
  have init: "fresh (let (d, c') = init_device h it c1 in c'\<lparr>pdevice_data := pdevice_data c' @ [d]\<rparr>)"
    if "pdevice_data c1 = pdevice_data c" "\<forall>n. \<not> darlingtonoutput_getpin n (ct_board c1)" for c1 :: "'a controller"
  proof -
    obtain d c' where i: "init_device h it c1 = (d, c')" by (cases "init_device h it c1")
    have "\<not> darlingtonoutput_getpin n (ct_board c')" for n using init_device_off [OF that(2), of n h it] by (simp add: i)
    moreover have "pdevice_data c' = pdevice_data c" using init_device_keeps(1) [of h it c1] that by (simp add: i)
    moreover have "d = D_rolladen p \<Longrightarrow> \<exists>q. p = rolladen_init q" for p using init_device_shutter [of h it c1 p] by (simp add: i)
    ultimately show ?thesis using assms by (auto simp: i fresh_def)
  qed
  show ?thesis
    using assms init [of c] init [of "c\<lparr>ct_board := raise_fault (ct_board c)\<rparr>"]
    by (auto simp: load_block_def devices_init_def compat_error_def Let_def case_prod_unfold split: option.splits)
      (auto simp: fresh_def)
qed

lemma load_loop_fresh: "fresh c \<Longrightarrow> fresh (load_loop h it alloc c)"
proof (induction h it alloc c rule: load_loop.induct)
  case (1 h it alloc c)
  obtain c' alloc' go where lb: "load_block h it alloc c = (c', alloc', go)" by (cases "load_block h it alloc c")
  have "fresh c'" using load_block_fresh [OF 1(2), of h it alloc] by (simp add: lb)
  then show ?case using 1 lb by (subst load_loop.simps) (auto simp: fresh_def)
qed

lemma boot_off:
  assumes "shift_data b = replicate MAX_NUM_OF_SHIFT_OUT_REGISTER 0"
  shows "\<not> darlingtonoutput_getpin n (canix_init_board (darlingtonoutput_init b))"
proof -
  have z: "getShiftOutPinState k (replicate m 0) = False" for k m by (induction m arbitrary: k) simp_all
  have four: "unat (n - 8) < 4" if "\<not> n < 8" "n < 12"
    using that unat_minus_lit(1) [of n] by (simp add: word_less_nat_alt)
  have "bit (15 :: u8) k" if "k < 4" for k :: nat
  proof -
    have m: "(15 :: u8) = mask 4" by (simp add: mask_eq_decr_exp)
    show ?thesis unfolding m bit_mask_iff using that by simp
  qed
  then have "\<not> darlingtonoutput_getpin n (darlingtonoutput_init b)"
    using assms four z by (auto simp: darlingtonoutput_init_def initShiftInOut_def darlingtonoutput_getpin_def bit_simps)
  moreover have "same_pins (darlingtonoutput_init b) (canix_init_board (darlingtonoutput_init b))"
    using eds_format_pins unfolding same_pins_def
    by (simp add: canix_init_board_def eds_init_def eds_format_def canix_set_syslog_level_def Let_def)
      (simp add: darlingtonoutput_getpin_def pin_valid_def)
  ultimately show ?thesis by (simp add: same_pins_def)
qed

text \<open>The configuration of the shutters: two valid outputs of its own for each.\<close>

definition wired :: "'s controller \<Rightarrow> bool" where
  "wired c = (separate (pdevice_data c) \<and> (\<forall>p. D_rolladen p \<in> set (pdevice_data c) \<longrightarrow> ro_wired p (ct_board c)))"

lemma main_start_ok:
  assumes "shift_data (ct_board (st_ctl s)) = replicate MAX_NUM_OF_SHIFT_OUT_REGISTER 0"
    and "wired (st_ctl (main_start h s))"
  shows "shutters_ok (st_ctl (main_start h s))"
proof -
  let ?c = "st_ctl (main_start h s)"
  have "fresh ?c"
    unfolding main_start_def devices_load_config_def Let_def
    using boot_off [OF assms(1)] by (simp, intro load_loop_fresh) (simp add: fresh_def devices_init_def)
  then have off: "\<not> darlingtonoutput_getpin n (ct_board ?c)" and sh: "D_rolladen p \<in> set (pdevice_data ?c) \<Longrightarrow> \<exists>q. p = rolladen_init q"
    for n p by (auto simp: fresh_def)
  have "ro_reach 3 1 p (ct_board ?c)" if d: "D_rolladen p \<in> set (pdevice_data ?c)" for p
  proof -
    obtain q where "p = rolladen_init q" using sh [OF d] by blast
    moreover have "ro_wired p (ct_board ?c)" using assms(2) d by (simp add: wired_def)
    ultimately show ?thesis using off by (intro ro_reach.start [of p q]) (simp_all add: power_on_def dir_on_def)
  qed
  then show ?thesis using assms(2) by (auto simp: shutters_ok_def wired_def in_set_conv_nth)
qed

text \<open>C8: The relays of the shutters are safe in the running firmware, from its start to the first reload of the
  configuration. A board starts with all outputs off and the configuration of its data space, which fits the table of
  devices and in which every shutter has two outputs of its own; then clock interrupts, calls of the idle handler and
  frames of any kind except requests to reload are interleaved in any order, with all the other devices running. In
  every event the direction relay of a shutter changes only while its power relay is off before and after, and a
  stopped shutter has both relays off, as long as nothing undefined happens (\<open>fault\<close>). After a reload this fails, since
  the motor of a running shutter keeps running in the state stopped.\<close>

theorem station_shutters_safe:
  assumes "shift_data (ct_board (st_ctl s0)) = replicate MAX_NUM_OF_SHIFT_OUT_REGISTER 0"
    and "wired (st_ctl (main_start h s0))"
    and "station_run build es (main_start h s0) = Some s" "\<forall>e \<in> set es. ordinary e"
    and "station_step build e s = Some s'" "ordinary e"
    and "i < length (pdevice_data (st_ctl s))" "pdevice_data (st_ctl s) ! i = D_rolladen p"
    and "length (pdevice_data (st_ctl (main_start h s0))) \<le> MAX_PDEVICE_DATA" "\<not> fault (ct_board (st_ctl s'))"
  shows "\<exists>p'. pdevice_data (st_ctl s') ! i = D_rolladen p' \<and>
    (dir_on p' (ct_board (st_ctl s')) \<noteq> dir_on p (ct_board (st_ctl s)) \<longrightarrow>
      \<not> power_on p (ct_board (st_ctl s)) \<and> \<not> power_on p' (ct_board (st_ctl s'))) \<and>
    (lowlevel_state p' = ST_STOP \<longrightarrow> \<not> power_on p' (ct_board (st_ctl s')) \<and> \<not> dir_on p' (ct_board (st_ctl s')))"
proof -
  have ok: "shutters_ok (st_ctl s)" using station_run_ok [OF assms(3,4) main_start_ok [OF assms(1,2)]] .
  have st: "steps safe_R (st_ctl s) (st_ctl s')" by (rule station_step_safe [OF assms(5,6)])
  then obtain p' where p': "pdevice_data (st_ctl s') ! i = D_rolladen p'"
      "safe_R (power_on p (ct_board (st_ctl s))) (dir_on p (ct_board (st_ctl s)))
        (power_on p' (ct_board (st_ctl s'))) (dir_on p' (ct_board (st_ctl s')))"
    using ok assms(7,8) unfolding steps_def by blast
  have "shutters_ok (st_ctl s')" "length (pdevice_data (st_ctl s')) = length (pdevice_data (st_ctl s))"
    using st ok by (simp_all add: steps_def)
  then obtain off still where "ro_reach off still p' (ct_board (st_ctl s'))"
    using p'(1) assms(7) unfolding shutters_ok_def by metis
  from reach_inv [OF this] have "lowlevel_state p' = ST_STOP \<longrightarrow> \<not> power_on p' (ct_board (st_ctl s')) \<and> \<not> dir_on p' (ct_board (st_ctl s'))"
    by (auto simp: ro_inv_def ro_relays_def)
  then show ?thesis using p' by (auto simp: safe_R_def)
qed

section \<open>Rates\<close>

text \<open>The counters after \<open>m\<close> interrupts, and no pending event.\<close>

definition clock_at :: "nat \<Rightarrow> 's controller \<Rightarrow> bool" where
  "clock_at m c = (timer_counter_100th c = of_nat (m mod 10) \<and> timer_counter_10th c = of_nat (m div 10 mod 10) \<and>
     timer_counter_1 c = of_nat (m div 100))"

definition no_event :: "'s controller \<Rightarrow> bool" where
  "no_event c = (\<not> timer_event_100th c \<and> \<not> timer_event_10th c \<and> \<not> timer_event_1 c)"

lemma timer_handler_step:
  assumes "clock_at m c"
  shows "clock_at (Suc m) (timer_handler c) \<and> timer_event_100th (timer_handler c) \<and>
    (timer_event_10th (timer_handler c) \<longleftrightarrow> timer_event_10th c \<or> 10 dvd Suc m) \<and>
    (timer_event_1 (timer_handler c) \<longleftrightarrow> timer_event_1 c \<or> 100 dvd Suc m)"
proof -
  let ?k = "m mod 10" and ?j = "m div 10 mod 10"
  have digit: "(of_nat k + 1 = (10 :: u8)) = (k = 9)" "\<not> of_nat k = (10 :: u8)" if "k < 10" for k :: nat
  proof -
    have "k \<in> {0, 1, 2, 3, 4, 5, 6, 7, 8, 9}" using that by auto
    then show "(of_nat k + 1 = (10 :: u8)) = (k = 9)" "\<not> of_nat k = (10 :: u8)" by auto
  qed
  have k: "Suc m mod 10 = (if ?k = 9 then 0 else ?k + 1)" "Suc m div 10 = (if ?k = 9 then m div 10 + 1 else m div 10)"
    by (auto simp: mod_Suc div_Suc)
  have j: "(m div 10 + 1) mod 10 = (if ?j = 9 then 0 else ?j + 1)"
    "(m div 10 + 1) div 10 = (if ?j = 9 then m div 10 div 10 + 1 else m div 10 div 10)"
    by (auto simp: mod_Suc div_Suc)
  have h: "n div 100 = n div 10 div 10" for n :: nat by (simp add: div_mult2_eq [symmetric])
  have z: "(m div 10 + 1) mod 10 = 0 \<longleftrightarrow> ?j = 9" unfolding j(1) by simp
  have d10: "10 dvd Suc m \<longleftrightarrow> ?k = 9" unfolding dvd_eq_mod_eq_0 k(1) by simp
  have "Suc m mod 100 = 10 * (Suc m div 10 mod 10) + Suc m mod 10" using mod_mult2_eq [of "Suc m" 10 10] by simp
  then have "100 dvd Suc m \<longleftrightarrow> Suc m div 10 mod 10 = 0 \<and> Suc m mod 10 = 0" unfolding dvd_eq_mod_eq_0 by simp
  then have d100: "100 dvd Suc m \<longleftrightarrow> ?k = 9 \<and> ?j = 9" unfolding k using z by (cases "?k = 9") (simp_all only: if_True if_False simp_thms, simp)
  note d = d10 d100
  have lt: "?k < 10" "?j < 10" by simp_all
  obtain c0 c1 c2 where c: "timer_counter_100th c = c0" "timer_counter_10th c = c1" "timer_counter_1 c = c2" by blast
  have v: "c0 = of_nat ?k" "c1 = of_nat ?j" "c2 = of_nat (m div 10 div 10)"
    using assms by (simp_all add: clock_at_def h c)
  have nine: "c0 + 1 = 10 \<longleftrightarrow> ?k = 9" "c1 + 1 = 10 \<longleftrightarrow> ?j = 9" "c1 \<noteq> 10"
    unfolding v using digit lt by simp_all
  show ?thesis
  proof (cases "?k = 9")
    case False
    then have "c0 + 1 \<noteq> 10" using nine by simp
    then show ?thesis unfolding clock_at_def h k d using False nine(3) by (simp add: timer_handler_def c v)
  next
    case k9: True
    then have c9: "c0 + 1 = 10" using nine by simp
    show ?thesis
    proof (cases "?j = 9")
      case False
      then have "c1 + 1 \<noteq> 10" using nine by simp
      then show ?thesis unfolding clock_at_def h k d using k9 False c9 by (simp add: timer_handler_def c v j [simplified])
    next
      case True
      then have "c1 + 1 = 10" using nine by simp
      then show ?thesis unfolding clock_at_def h k d using k9 True c9 by (simp add: timer_handler_def c v j [simplified])
    qed
  qed
qed

lemma timer_handlers:
  assumes "clock_at m c"
  shows "clock_at (m + n) ((timer_handler ^^ n) c) \<and>
    (timer_event_100th ((timer_handler ^^ n) c) \<longleftrightarrow> timer_event_100th c \<or> 0 < n) \<and>
    (timer_event_10th ((timer_handler ^^ n) c) \<longleftrightarrow> timer_event_10th c \<or> m div 10 < (m + n) div 10) \<and>
    (timer_event_1 ((timer_handler ^^ n) c) \<longleftrightarrow> timer_event_1 c \<or> m div 100 < (m + n) div 100)"
proof (induction n)
  case 0
  then show ?case using assms by simp
next
  case (Suc n)
  let ?c = "(timer_handler ^^ n) c"
  have up: "(d dvd Suc k) = (k div d < Suc k div d)" if "0 < d" for d k :: nat
    using that by (simp add: div_Suc mod_eq_0_iff_dvd [symmetric] del: mod_eq_0_iff_dvd)
  have mono: "m div d \<le> (m + n) div d" "(m + n) div d \<le> Suc (m + n) div d" for d by (simp_all add: div_le_mono)
  have iff: "m div d < (m + n) div d \<or> d dvd Suc (m + n) \<longleftrightarrow> m div d < Suc (m + n) div d" if "0 < d" for d
    using up [OF that, of "m + n"] mono [of d] by linarith
  have s: "(timer_handler ^^ Suc n) c = timer_handler ?c" by simp
  have ck: "clock_at (m + n) ?c" using Suc by blast
  show ?case unfolding s using timer_handler_step [OF ck] Suc iff [of 10] iff [of 100] by simp
qed

text \<open>The handlers of the devices leave the counters alone.\<close>

definition same_timers :: "'s controller \<Rightarrow> 's controller \<Rightarrow> bool" where
  "same_timers c c' = (timer_counter_100th c' = timer_counter_100th c \<and> timer_counter_10th c' = timer_counter_10th c \<and>
     timer_counter_1 c' = timer_counter_1 c \<and> timer_event_100th c' = timer_event_100th c \<and>
     timer_event_10th c' = timer_event_10th c \<and> timer_event_1 c' = timer_event_1 c)"

lemma handlers_timers:
  "same_timers c (snd (tick_100th d c))" "same_timers c (snd (tick_10th h d c))" "same_timers c (snd (tick_1 h d c))"
  by (cases d; simp add: same_timers_def on_board_def Let_def case_prod_unfold)+

lemma for_devices_timers:
  assumes "\<And>d c. same_timers c (snd (H d c))"
  shows "same_timers c (for_devices H c)"
proof -
  have "same_timers c (fold (visit H) is c)" for "is"
    by (induction "is" rule: rev_induct)
      (use assms in \<open>auto simp: same_timers_def visit_def case_prod_unfold Let_def\<close>)
  then show ?thesis by (simp add: for_devices_def)
qed

lemma passes_timers:
  "same_timers c (for_devices tick_100th c)" "same_timers c (for_devices (tick_10th h) c)"
  "same_timers c (for_devices (tick_1 h) c)"
  by (rule for_devices_timers, rule handlers_timers)+

text \<open>The rates of the timer handlers. Between two calls of the idle handler \<open>n\<close> clock interrupts happen, \<open>m\<close>
  before. Then the handlers of the 10 ms group run if there was an interrupt at all, those of the 100 ms
  group if a multiple of ten and those of the second if a multiple of a hundred interrupts has been
  passed; each group runs at most once, however late the call is, after which the outputs are refreshed.
  The state is then that of \<open>m + n\<close> interrupts without pending events, so that this holds for the next
  call again.\<close>

theorem handler_rates:
  assumes "clock_at m c" "no_event c"
  shows "idle_handler h ((timer_handler ^^ n) c) =
      (let c0 = (timer_handler ^^ n) c;
           c1 = (if 0 < n then for_devices tick_100th (c0\<lparr>timer_event_100th := False\<rparr>) else c0);
           c2 = (if m div 10 < (m + n) div 10 then for_devices (tick_10th h) (c1\<lparr>timer_event_10th := False\<rparr>) else c1);
           c3 = (if m div 100 < (m + n) div 100
                 then mem_check h (for_devices (tick_1 h) (c2\<lparr>timer_event_1 := False\<rparr>)) else c2)
       in c3\<lparr>ct_chain := shiftOut_timer_handler (ct_board c3) (ct_chain c3)\<rparr>) \<and>
    clock_at (m + n) (idle_handler h ((timer_handler ^^ n) c)) \<and> no_event (idle_handler h ((timer_handler ^^ n) c))"
proof -
  define c0 where "c0 = (timer_handler ^^ n) c"
  define c1 where "c1 = idle_100th c0"
  define c2 where "c2 = idle_10th h c1"
  define c3 where "c3 = idle_1 h c2"
  have t: "clock_at (m + n) c0" "timer_event_100th c0 \<longleftrightarrow> 0 < n" "timer_event_10th c0 \<longleftrightarrow> m div 10 < (m + n) div 10"
      "timer_event_1 c0 \<longleftrightarrow> m div 100 < (m + n) div 100"
    using timer_handlers [OF assms(1), of n] assms(2) by (auto simp: c0_def no_event_def)
  have 1: "clock_at (m + n) c1" "\<not> timer_event_100th c1" "timer_event_10th c1 = timer_event_10th c0" "timer_event_1 c1 = timer_event_1 c0"
    using t(1) passes_timers(1) [where c = "c0\<lparr>timer_event_100th := False\<rparr>"]
    by (auto simp: c1_def idle_100th_def same_timers_def clock_at_def)
  have 2: "clock_at (m + n) c2" "\<not> timer_event_100th c2" "\<not> timer_event_10th c2" "timer_event_1 c2 = timer_event_1 c1"
    using 1 passes_timers(2) [where c = "c1\<lparr>timer_event_10th := False\<rparr>" and h = h]
    by (auto simp: c2_def idle_10th_def same_timers_def clock_at_def)
  have 3: "clock_at (m + n) c3" "no_event c3"
    using 2 passes_timers(3) [where c = "c2\<lparr>timer_event_1 := False\<rparr>" and h = h]
    by (auto simp: c3_def idle_1_def mem_check_def Let_def same_timers_def clock_at_def no_event_def)
  have i: "idle_handler h c0 = c3\<lparr>ct_chain := shiftOut_timer_handler (ct_board c3) (ct_chain c3)\<rparr>"
    by (simp add: idle_handler_def c1_def c2_def c3_def Let_def)
  have p: "c1 = (if 0 < n then for_devices tick_100th (c0\<lparr>timer_event_100th := False\<rparr>) else c0)"
    "c2 = (if m div 10 < (m + n) div 10 then for_devices (tick_10th h) (c1\<lparr>timer_event_10th := False\<rparr>) else c1)"
    "c3 = (if m div 100 < (m + n) div 100 then mem_check h (for_devices (tick_1 h) (c2\<lparr>timer_event_1 := False\<rparr>)) else c2)"
    using t 1 2 by (simp_all add: c1_def idle_100th_def c2_def idle_10th_def c3_def idle_1_def)
  show ?thesis
    using 3 unfolding c0_def [symmetric] i Let_def p(1) [symmetric] p(2) [symmetric] p(3) [symmetric]
    by (simp add: clock_at_def no_event_def)
qed

theorem handler_rates_witness:
  "clock_at 0 (controller_of ex_board []) \<and>
   clock_at 25 (idle_handler ex_hw ((timer_handler ^^ 25) (controller_of ex_board [])))"
proof -
  have c: "clock_at 0 (controller_of ex_board [])" "no_event (controller_of ex_board [])"
    by (simp_all add: clock_at_def no_event_def controller_of_def)
  from handler_rates [OF c, of ex_hw 25] have "clock_at (0 + 25) (idle_handler ex_hw ((timer_handler ^^ 25) (controller_of ex_board [])))"
    by blast
  then show ?thesis using c by simp
qed

section \<open>A station in operation\<close>

text \<open>A station with one shutter on outputs 0 and 1, with button 5.\<close>

definition ex_shutter_eeprom :: "nat \<Rightarrow> u8" where
  "ex_shutter_eeprom a =
    (if a = 2 then 100 else if a = 32 then 0xe4 else if a = 33 then 0x7d else if a = 34 then EDS_rolladen_BLOCK_ID
     else if a = 35 then 13 else if a = 37 then 1 else if a = 38 then 5 else if a = 41 then 200 else if a = 44 then 4
     else if a = 1849 then 198 else if a \<in> {50, 307, 564, 821, 1078, 1335, 1592} then 255 else 0)"

definition ex_station :: "unit station" where
  "ex_station = \<lparr>st_ctl = controller_of (ex_board\<lparr>eeprom := ex_shutter_eeprom\<rparr>) [], st_mcp = ex_mcp,
     st_rx = \<lparr>rxs_queue = one_rxq, canix_rx_received = 0, canix_rx_lost = 0\<rparr>, st_reset = False, st_callbacks = []\<rparr>"

lemma ex_shutter_blocks:
  assumes "eeprom b = ex_shutter_eeprom"
  shows "eds_blocks EDS_DATA_START b =
    [(34, 12, 13), (49, 0, 255), (306, 0, 255), (563, 0, 255), (820, 0, 255), (1077, 0, 255), (1334, 0, 255),
     (1591, 0, 255), (1848, 0, 198)]"
  by (simp add: eds_blocks.simps eds_next_block_def EDS_BLOCK_SIZE_def eeprom_read_byte_def ex_shutter_eeprom_def assms)

definition ex_shutter :: device_data_rolladen where
  "ex_shutter = rolladen_init \<lparr>ro_config = \<lparr>port_power = 0, port_dir = 1, rc_taster = 5, rc_dummy = 0, rc_feature = 0,
      rc_laufzeit = 200, max_rekalib = 4 * 256, rc_gruppen = [0, 0, 0, 0]\<rparr>, summe_laufzeit = 0, laufzeit = 0,
      soll_laufzeit = 0, cmdsrc = 0, lowlevel_last_dir = DIR_AUF, lowlevel_state = ST_STOP,
      lowlevel_command = READY, lowlevel_wait_counter = 0, hilevel_up_event_counter = 0\<rparr>"

definition ex_started :: board where
  "ex_started = canix_init_board (darlingtonoutput_init (ex_board\<lparr>eeprom := ex_shutter_eeprom\<rparr>))"

lemma ex_started_facts:
  "eeprom ex_started = ex_shutter_eeprom" "canix_selfaddr ex_started = 100" "length (shift_data ex_started) = 4"
  "\<not> darlingtonoutput_getpin n ex_started"
proof -
  show "eeprom ex_started = ex_shutter_eeprom" "canix_selfaddr ex_started = 100" "length (shift_data ex_started) = 4"
    by (simp_all add: ex_started_def canix_init_board_def eds_init_def eeprom_read_byte_def ex_shutter_eeprom_def
        canix_set_syslog_level_def darlingtonoutput_init_def initShiftInOut_def canix_syslog_P_def ex_board_def
        canix_selfaddr_def Let_def)
  show "\<not> darlingtonoutput_getpin n ex_started"
    unfolding ex_started_def by (rule boot_off) (simp add: ex_board_def numeral_eq_Suc)
qed

lemma ex_started_fault: "\<not> fault ex_started"
  by (simp add: ex_started_def canix_init_board_def eds_init_def eeprom_read_byte_def ex_shutter_eeprom_def
      canix_set_syslog_level_def darlingtonoutput_init_def initShiftInOut_def canix_syslog_P_def ex_board_def Let_def)

lemma ex_shutter_load:
  assumes "eeprom b = ex_shutter_eeprom"
  shows "devices_load_config ex_hw (controller_of b ds) =
    (controller_of b [D_rolladen ex_shutter])\<lparr>device_data_ram_usage := 33\<rparr>"
proof -
  let ?c = "controller_of b ds"
  have l: "loadable ?c"
    by (simp add: loadable_def controller_of_def eds_wf_def ex_shutter_blocks [OF assms])
      (simp add: assms ex_shutter_eeprom_def device_sizes_def)
  have a: "config_blocks b = [34]" by (simp add: config_blocks_def used_addrs_def ex_shutter_blocks [OF assms])
  have e: "eeprom b 34 = 12" "EDS_BLOCK_SIZE 34 b = 13"
    by (simp_all add: EDS_BLOCK_SIZE_def eeprom_read_byte_def assms ex_shutter_eeprom_def)
  have r: "rolladen_config 34 b = ro_config ex_shutter"
    by (simp add: rolladen_config_def cfg_byte_def cfg_word_def cfg_bytes_def eeprom_read_byte_def assms
        ex_shutter_eeprom_def ex_shutter_def rolladen_init_def word16_def upt_rec)
  have "devices_load_config ex_hw ?c = load_list ex_hw [34] 0 (devices_init ?c)"
    using devices_load_config_list [of ?c ex_hw] l a by (simp add: loadable_def config_blocks_def controller_of_def)
  also have "\<dots> = (controller_of b [D_rolladen ex_shutter])\<lparr>device_data_ram_usage := 33\<rparr>"
    by (simp add: load_block_def e device_sizes_def init_device_def devices_init_def controller_of_def r Let_def)
      (simp add: ex_shutter_def rolladen_init_def)
  finally show ?thesis .
qed

lemma ex_station_start:
  "main_start ex_hw ex_station = ex_station\<lparr>st_ctl := (controller_of ex_started [D_rolladen ex_shutter])
     \<lparr>device_data_ram_usage := 33\<rparr>, st_callbacks := main_callbacks 100\<rparr>"
proof -
  have "ct_board (st_ctl ex_station) = ex_board\<lparr>eeprom := ex_shutter_eeprom\<rparr>" "(st_ctl ex_station)\<lparr>ct_board := b\<rparr> = controller_of b []" for b
    by (simp_all add: ex_station_def controller_of_def)
  then show ?thesis
    by (simp add: main_start_def ex_started_def [symmetric] ex_started_facts(1,2) ex_shutter_load)
qed

lemma ex_press:
  "deliver 0 ex_hw (hes_frame [HCAN_HES_TASTER_DOWN, 5]) (main_start ex_hw ex_station) =
     Some (ex_station\<lparr>st_ctl := (controller_of ex_started [D_rolladen (taster_down ex_shutter)])
       \<lparr>device_data_ram_usage := 33\<rparr>, st_callbacks := main_callbacks 100\<rparr>)"
proof -
  let ?f = "hes_frame [HCAN_HES_TASTER_DOWN, 5]"
  have r: "replicate 16 x = [x, x, x, x, x, x, x, x, x, x, x, x, x, x, x, x]" for x :: frame_cb
    by (simp add: numeral_eq_Suc)
  have cb: "canix_deliver_frame (main_callbacks 100) ?f = [CB_HES]"
    by (simp add: main_callbacks_def canix_init_callbacks_def reg_def canix_reg_frame_callback_def r
        cb_matches_def hes_frame_def)
  have "rolladen_can_callback ?f ex_shutter b = (taster_down ex_shutter, b)" for b
    by (simp add: rolladen_can_callback_def hes_frame_def ex_shutter_def rolladen_init_def)
  then show ?thesis
    by (simp add: deliver_def ex_station_start cb call_back_def hauselektrik_callback_def for_devices_def visit_def
        controller_of_def on_board_def) (simp add: hes_frame_def for_devices_def visit_def on_board_def)
qed

lemma station_run_append:
  "station_run build (es @ fs) s = Option.bind (station_run build es s) (station_run build fs)"
proof (induction es arbitrary: s)
  case (Cons e es)
  then show ?case by (cases "station_step build e s") simp_all
qed simp

theorem station_shutters_safe_witness:
  "\<exists>s p. station_run 0 (Ev_Deliver ex_hw (hes_frame [HCAN_HES_TASTER_DOWN, 5]) # replicate 10 Ev_Rtc @ [Ev_Idle ex_hw])
      (main_start ex_hw ex_station) = Some s \<and>
    pdevice_data (st_ctl s) = [D_rolladen p] \<and> power_on p (ct_board (st_ctl s)) \<and> \<not> dir_on p (ct_board (st_ctl s))"
proof -
  let ?es = "Ev_Deliver ex_hw (hes_frame [HCAN_HES_TASTER_DOWN, 5]) # replicate 10 Ev_Rtc"
  let ?p = "taster_down ex_shutter"
  let ?c = "(controller_of ex_started [D_rolladen ?p])\<lparr>device_data_ram_usage := 33\<rparr>"
  define c1 where "c1 = (timer_handler ^^ 10) ?c"
  define s1 where "s1 = ex_station\<lparr>st_ctl := c1, st_callbacks := main_callbacks 100\<rparr>"
  have ticks: "station_run 0 (replicate n Ev_Rtc) s = Some (s\<lparr>st_ctl := (timer_handler ^^ n) (st_ctl s)\<rparr>)" for n and s :: "unit station"
    by (induction n arbitrary: s) (simp_all add: funpow_swap1)
  have run: "station_run 0 ?es (main_start ex_hw ex_station) = Some s1"
    by (simp add: ex_press ticks s1_def c1_def del: replicate.simps)
  have "pdevice_data ((timer_handler ^^ n) c) = pdevice_data c \<and> ct_board ((timer_handler ^^ n) c) = ct_board c" for n and c :: "unit controller"
    by (induction n) (simp_all add: timer_handler_def Let_def)
  then have keep: "pdevice_data c1 = [D_rolladen ?p]" "ct_board c1 = ex_started" by (simp_all add: c1_def controller_of_def)
  have "clock_at 0 ?c" "no_event ?c" by (simp_all add: clock_at_def no_event_def controller_of_def)
  then have ev: "timer_event_100th c1" "timer_event_10th c1" "\<not> timer_event_1 c1"
    using timer_handlers [of 0 ?c 10] by (simp_all add: c1_def no_event_def)
  obtain p' b' where t: "rolladen_timer_handler ?p ex_started = (p', b')" by fastforce
  have on: "darlingtonoutput_getpin 0 b'" "port_power (ro_config p') = 0"
    using t ex_started_facts(3)
    by (auto simp: rolladen_timer_handler_def rolladen_lowlevel_timer_handler_def taster_down_def ex_shutter_def
        rolladen_init_def lowlevel_switch_def set_power_def dout.get_set_same pin_valid_def)
  define s2 where "s2 = s1\<lparr>st_ctl := idle_handler ex_hw (st_ctl s1)\<rparr>"
  have idle: "pdevice_data (st_ctl s2) = [D_rolladen p']" "ct_board (st_ctl s2) = b'"
    using t ev keep by (simp_all add: s2_def s1_def idle_handler_def idle_1_def idle_10th_def idle_100th_def for_devices_def
        visit_def on_board_def Let_def)
  have w: "wired (st_ctl (main_start ex_hw ex_station))"
    by (auto simp: ex_station_start wired_def separate_def controller_of_def ro_wired_def ex_shutter_def rolladen_init_def
        pin_valid_def ex_started_facts(3))
  have step: "station_step 0 (Ev_Idle ex_hw) s1 = Some s2" by (simp add: s2_def)
  have "\<not> fault b'"
    using t ex_started_fault by (auto simp: rolladen_timer_handler_def rolladen_lowlevel_timer_handler_def taster_down_def ex_shutter_def
        rolladen_init_def lowlevel_switch_def set_power_def split: if_splits)
  then have fine: "length (pdevice_data (st_ctl (main_start ex_hw ex_station))) \<le> MAX_PDEVICE_DATA" "\<not> fault (ct_board (st_ctl s2))"
    using idle by (simp_all add: ex_station_start controller_of_def)
  have "shift_data (ct_board (st_ctl ex_station)) = replicate 4 0"
    by (simp add: ex_station_def controller_of_def ex_board_def numeral_eq_Suc)
  then have "\<exists>q. pdevice_data (st_ctl s2) ! 0 = D_rolladen q \<and>
      (dir_on q (ct_board (st_ctl s2)) \<noteq> dir_on ?p (ct_board (st_ctl s1)) \<longrightarrow>
        \<not> power_on ?p (ct_board (st_ctl s1)) \<and> \<not> power_on q (ct_board (st_ctl s2)))"
    using station_shutters_safe [OF _ w run _ step _ _ _ fine, of 0 ?p]
    by (auto simp: no_reload_def hes_frame_def s1_def keep)
  moreover have "\<not> dir_on ?p (ct_board (st_ctl s1))"
    using ex_started_facts(4) by (simp add: dir_on_def s1_def keep)
  ultimately have "power_on p' b'" "\<not> dir_on p' b'" using idle on by (auto simp: power_on_def)
  moreover have "station_run 0 (?es @ [Ev_Idle ex_hw]) (main_start ex_hw ex_station) = Some s2"
    using run step by (simp only: station_run_append) simp
  ultimately show ?thesis using idle by auto
qed

section \<open>Reloading while a shutter runs\<close>

text \<open>What loading leaves of the outputs: all but those of the hoods loaded; every shutter of the table is in
  its initial state.\<close>

fun hood_port :: "device \<Rightarrow> u8 list" where
  "hood_port (D_dunstabzugport q) = [du_port (du_config q)]"
| "hood_port _ = []"

definition hood_ports :: "device list \<Rightarrow> u8 list" where
  "hood_ports ds = concat (map hood_port ds)"

definition loaded_from :: "'s controller \<Rightarrow> 's controller \<Rightarrow> bool" where
  "loaded_from c0 c =
    ((\<forall>n. n \<notin> set (hood_ports (pdevice_data c)) \<longrightarrow>
        darlingtonoutput_getpin n (ct_board c) = darlingtonoutput_getpin n (ct_board c0)) \<and>
     (\<forall>p. D_rolladen p \<in> set (pdevice_data c) \<longrightarrow> (\<exists>q. p = rolladen_init q)))"

lemma init_device_pins:
  assumes "n \<notin> set (hood_port (fst (init_device h it c)))"
  shows "darlingtonoutput_getpin n (ct_board (snd (init_device h it c))) = darlingtonoutput_getpin n (ct_board c)"
  using assms unfolding init_device_def on_board_def
  by (auto simp: Let_def case_prod_unfold dunstabzugport_init_def heizung_init_def poti_init_def poti_mux_def
      reedkontakt_init_def schalter_init_def sendMessage_def split: option.splits if_splits)

lemma load_block_from:
  assumes "loaded_from c0 c" "load_block h it alloc c = (c', alloc', go)"
  shows "loaded_from c0 c' \<or> \<not> go \<and> pdevice_data c' = []"
proof -
  have init: "loaded_from c0 (let (d, c2) = init_device h it c1 in c2\<lparr>pdevice_data := pdevice_data c2 @ [d]\<rparr>)"
    if "pdevice_data c1 = pdevice_data c" "\<forall>n. darlingtonoutput_getpin n (ct_board c1) = darlingtonoutput_getpin n (ct_board c)"
    for c1 :: "'a controller"
  proof -
    obtain d c2 where i: "init_device h it c1 = (d, c2)" by (cases "init_device h it c1")
    have "pdevice_data c2 = pdevice_data c" using init_device_keeps(1) [of h it c1] that by (simp add: i)
    then show ?thesis
      using assms(1) init_device_pins [of _ h it c1] init_device_shutter [of h it c1] that
      by (auto simp: loaded_from_def i hood_ports_def)
  qed
  let ?R = "\<lambda>c1. let (d, c2) = init_device h it c1 in c2\<lparr>pdevice_data := pdevice_data c2 @ [d]\<rparr>"
  have r: "c' = ?R c \<or> c' = ?R (c\<lparr>ct_board := raise_fault (ct_board c)\<rparr>) \<or>
      \<not> go \<and> pdevice_data c' = [] \<or> pdevice_data c' = pdevice_data c \<and> same_pins (ct_board c) (ct_board c')"
    using assms(2)
    by (auto simp: load_block_def Let_def case_prod_unfold devices_init_def same_pins_def split: option.splits if_splits)
  have "loaded_from c0 (?R c)" "loaded_from c0 (?R (c\<lparr>ct_board := raise_fault (ct_board c)\<rparr>))"
    by (rule init; simp)+
  then show ?thesis using r assms(1) by (auto simp: loaded_from_def same_pins_def)
qed

lemma load_loop_from:
  assumes "loaded_from c0 c"
  shows "loaded_from c0 (load_loop h it alloc c) \<or> pdevice_data (load_loop h it alloc c) = []"
  using assms
proof (induction h it alloc c rule: load_loop.induct)
  case (1 h it alloc c)
  obtain c' alloc' go where lb: "load_block h it alloc c = (c', alloc', go)" by (cases "load_block h it alloc c")
  have "loaded_from c0 c' \<or> \<not> go \<and> pdevice_data c' = []" by (rule load_block_from [OF 1(2) lb])
  then show ?case using 1 lb by (subst (1 2) load_loop.simps) (auto simp: loaded_from_def)
qed

lemma stopped_stays:
  assumes "lowlevel_state p = ST_STOP" "lowlevel_command p = READY" "hilevel_up_event_counter p = -1"
    and "rolladen_timer_handler p b = (p', b')"
  shows "lowlevel_state p' = ST_STOP \<and> lowlevel_command p' = READY \<and> hilevel_up_event_counter p' = -1 \<and>
    ro_config p' = ro_config p \<and> b' = b"
  using assms
  by (auto simp: rolladen_timer_handler_def rolladen_lowlevel_timer_handler_def lowlevel_switch_def Let_def
      lowlevel_count_unfold is_auf_def is_ab_def hilevel_tick_def split: if_splits)

lemma stopped_trace:
  assumes "lowlevel_state p = ST_STOP" "lowlevel_command p = READY" "hilevel_up_event_counter p = -1"
  shows "ro_trace (replicate k Ev_Tick) p b = replicate k (power_on p b, dir_on p b)"
  using assms
proof (induction k arbitrary: p)
  case (Suc k)
  obtain p' b' where t: "rolladen_timer_handler p b = (p', b')" by fastforce
  from stopped_stays [OF Suc.prems t] Suc.IH [of p'] show ?case by (simp add: t power_on_def dir_on_def)
qed simp

text \<open>C10: A reload of the configuration does not stop the motor of a running shutter. The request puts every
  shutter of the new table into the state stopped but leaves its relays as they were, and as long as no command comes
  the timer handler leaves them so: a motor that was running keeps running, without the position being counted and
  past its end position. The power output of the shutter is not one that a hood of the table switches when it starts.\<close>

theorem reload_leaves_motor_running:
  assumes "D_rolladen p \<in> set (pdevice_data (devices_load_config h c))" "power_on p (ct_board c)"
    and "port_power (ro_config p) \<notin> set (hood_ports (pdevice_data (devices_load_config h c)))"
  shows "lowlevel_state p = ST_STOP \<and> power_on p (ct_board (devices_load_config h c)) \<and>
    (\<forall>k. map fst (ro_trace (replicate k Ev_Tick) p (ct_board (devices_load_config h c))) = replicate k True)"
proof -
  let ?c = "devices_load_config h c"
  have "loaded_from c (devices_init c)" by (simp add: loaded_from_def devices_init_def)
  then have "loaded_from c ?c" using load_loop_from assms(1) unfolding devices_load_config_def Let_def by fastforce
  then have on: "power_on p (ct_board ?c)" and "\<exists>q. p = rolladen_init q"
    using assms unfolding loaded_from_def power_on_def by blast+
  then have st: "lowlevel_state p = ST_STOP" "lowlevel_command p = READY" "hilevel_up_event_counter p = -1"
    by (auto simp: rolladen_init_def)
  then show ?thesis using on stopped_trace [OF st] by simp
qed

theorem reload_leaves_motor_running_witness:
  "pdevice_data (devices_load_config ex_hw (controller_of (darlingtonoutput_setpin 0 True ex_started) [])) = [D_rolladen ex_shutter] \<and>
   lowlevel_state ex_shutter = ST_STOP \<and>
   map fst (ro_trace (replicate 1000 Ev_Tick) ex_shutter
     (ct_board (devices_load_config ex_hw (controller_of (darlingtonoutput_setpin 0 True ex_started) [])))) = replicate 1000 True"
proof -
  let ?b = "darlingtonoutput_setpin 0 True ex_started"
  have l: "pdevice_data (devices_load_config ex_hw (controller_of ?b [])) = [D_rolladen ex_shutter]"
    by (simp add: ex_shutter_load ex_started_facts(1)) (simp add: controller_of_def)
  have "power_on ex_shutter (ct_board (controller_of ?b []))"
    by (simp add: power_on_def ex_shutter_def rolladen_init_def controller_of_def dout.get_set_same pin_valid_def
        ex_started_facts(3))
  then show ?thesis using reload_leaves_motor_running [of ex_shutter ex_hw "controller_of ?b []"] l
    by (simp add: hood_ports_def)
qed

end
