(* ===== verification/Usv.thy ===== *)
theory Usv
  imports Board
begin

text \<open>
  The firmware of the uninterruptible power supply (\<open>firmwares/usv-modul\<close>): \<open>usvstatemachine.c\<close> switches
  the supply of the bus between the mains and two batteries by the voltages it measures, \<open>led.c\<close> drives
  seven LEDs with a pulse width in tenths of a second, and \<open>darlingtonoutput.c\<close> the relay. The AD converter
  is a parameter: \<open>adc mux k\<close> is what the \<open>k\<close>-th conversion since the start gives when it is made on the
  channel \<open>mux\<close>, so that no two readings need agree. A run is a sequence of timer interrupts, passes of the
  idle handler and frames for the callback, in any order; each of them is one step.
\<close>

section \<open>State\<close>

text \<open>The LEDs are on port C of the board, the relay is its output pin 7. \<open>conversions\<close> counts the
  conversions made.\<close>

record usv =
  us_board :: board
  on_battery :: u8
  usv_timer :: u16
  switch_back_counter :: u16
  led_timer :: u8
  second_counter :: u8
  U_min :: "u16 list"
  U_max :: "u16 list"
  led_state :: "u8 list"
  led_timer_counter :: u8
  conversions :: nat

abbreviation (input) U1 :: u8 where "U1 \<equiv> 0"
abbreviation (input) U3 :: u8 where "U3 \<equiv> 2"
abbreviation (input) U4 :: u8 where "U4 \<equiv> 3"
abbreviation (input) U_SIZE :: nat where "U_SIZE \<equiv> 5"
abbreviation (input) V23 :: u16 where "V23 \<equiv> 784"
abbreviation (input) V24 :: u16 where "V24 \<equiv> 819"
abbreviation (input) U_BAT_WARNING :: u16 where "U_BAT_WARNING \<equiv> 836"
abbreviation (input) U_BAT_CRITICAL :: u16 where "U_BAT_CRITICAL \<equiv> 829"

section \<open>Outputs\<close>

text \<open>The relay driver of this firmware has the pins of ports D and B only.\<close>

definition usv_darlingtonoutput_init :: "board \<Rightarrow> board" where
  "usv_darlingtonoutput_init b =
     b\<lparr>DDRD := DDRD b OR 0xff, DDRB := DDRB b OR 0x0f, PORTD := 0, PORTB := PORTB b AND NOT 0x0f\<rparr>"

definition usv_darlingtonoutput_getpin :: "u8 \<Rightarrow> board \<Rightarrow> bool" where
  "usv_darlingtonoutput_getpin n b =
     (if n < 8 then bit (PORTD b) (unat n) else if n < 12 then bit (PORTB b) (unat (n - 8)) else False)"

definition usv_darlingtonoutput_setpin :: "u8 \<Rightarrow> bool \<Rightarrow> board \<Rightarrow> board" where
  "usv_darlingtonoutput_setpin n state b =
     (if n < 8 then
        b\<lparr>DDRD := set_bit (unat n) (DDRD b),
          PORTD := (if state then set_bit (unat n) (PORTD b) else unset_bit (unat n) (PORTD b))\<rparr>
      else if n < 12 then
        (let n = n - 8
         in b\<lparr>DDRB := set_bit (unat n) (DDRB b),
              PORTB := (if state then set_bit (unat n) (PORTB b) else unset_bit (unat n) (PORTB b))\<rparr>)
      else b)"

definition led_init :: "usv \<Rightarrow> usv" where
  "led_init s = s\<lparr>us_board := (us_board s)\<lparr>DDRC := 255, PORTC := 255\<rparr>, led_timer_counter := 0,
     led_state := replicate 8 0\<rparr>"

definition led_set :: "u8 \<Rightarrow> u8 \<Rightarrow> usv \<Rightarrow> usv" where
  "led_set n state s = (let n = (if n > 7 then 0 else n) in s\<lparr>led_state := (led_state s)[unat n := state]\<rparr>)"

text \<open>The LED \<open>n\<close> is on pin \<open>7 - n\<close>, which is low when it is lit.\<close>

definition led_enable :: "nat \<Rightarrow> bool \<Rightarrow> usv \<Rightarrow> usv" where
  "led_enable n enable s =
     (if n \<le> 6 then
        (let pin = 7 - n; b = us_board s
         in s\<lparr>us_board := b\<lparr>PORTC := (if enable then unset_bit pin (PORTC b) else set_bit pin (PORTC b))\<rparr>\<rparr>)
      else s)"

definition led_timer_handler :: "usv \<Rightarrow> usv" where
  "led_timer_handler s =
     (let c = led_timer_counter s + 1; c = (if c \<ge> 10 then 0 else c); s = s\<lparr>led_timer_counter := c\<rparr>
      in fold (\<lambda>i s. led_enable i (led_timer_counter s < led_state s ! i) s) [0..<7] s)"

section \<open>Measuring\<close>

text \<open>One conversion is discarded, sixteen are added. The product with 1.075 is made in floating point and
  truncated; for the values of a shifted 16 bit sum (below 4096) that is \<open>n * 43 div 40\<close>: the product is
  exact up to a relative error of \<open>2 ^ - 23\<close>, above the exact value where that is an integer, and other
  values are at least a fortieth away from the next integer.\<close>

definition adc_reach_channel :: "(u8 \<Rightarrow> nat \<Rightarrow> u16) \<Rightarrow> u8 \<Rightarrow> usv \<Rightarrow> u16 \<times> usv" where
  "adc_reach_channel adc mux s =
     (let k = conversions s; result = drop_bit 4 (sum_list (map (adc mux) [k + 1..<k + 17]))
      in (of_nat (unat result * 43 div 40), s\<lparr>conversions := k + 17\<rparr>))"

definition U_bat :: "(u8 \<Rightarrow> nat \<Rightarrow> u16) \<Rightarrow> usv \<Rightarrow> u16 \<times> usv" where
  "U_bat adc = adc_reach_channel adc U3"

definition U_puffer :: "(u8 \<Rightarrow> nat \<Rightarrow> u16) \<Rightarrow> usv \<Rightarrow> u16 \<times> usv" where
  "U_puffer adc = adc_reach_channel adc U4"

definition U_NT :: "(u8 \<Rightarrow> nat \<Rightarrow> u16) \<Rightarrow> usv \<Rightarrow> u16 \<times> usv" where
  "U_NT adc = adc_reach_channel adc U1"

definition usv_reset_U_stats :: "usv \<Rightarrow> usv" where
  "usv_reset_U_stats s = s\<lparr>U_min := replicate U_SIZE 1023, U_max := replicate U_SIZE 0\<rparr>"

definition update_stat :: "(u8 \<Rightarrow> nat \<Rightarrow> u16) \<Rightarrow> nat \<Rightarrow> usv \<Rightarrow> usv" where
  "update_stat adc i s =
     (let (U, s) = adc_reach_channel adc (of_nat i) s;
          s = (if U > U_max s ! i then s\<lparr>U_max := (U_max s)[i := U]\<rparr> else s)
      in if U < U_min s ! i then s\<lparr>U_min := (U_min s)[i := U]\<rparr> else s)"

section \<open>Switching\<close>

definition send_state :: "u16 \<Rightarrow> usv \<Rightarrow> usv" where
  "send_state dst s =
     s\<lparr>us_board := send_frame dst [HCAN_SRV_USVS, HCAN_USVS_STATE_INFO, on_battery s] (us_board s)\<rparr>"

definition switch_to_battery :: "usv \<Rightarrow> usv" where
  "switch_to_battery s =
     (let s = s\<lparr>on_battery := 1, us_board := usv_darlingtonoutput_setpin 7 True (us_board s), usv_timer := 200\<rparr>;
          s = led_set 6 10 (led_set 3 0 s)
      in send_state HCAN_MULTICAST_INFO s)"

definition switch_to_netzbetrieb :: "usv \<Rightarrow> usv" where
  "switch_to_netzbetrieb s =
     (let s = s\<lparr>on_battery := 0, us_board := usv_darlingtonoutput_setpin 7 False (us_board s), usv_timer := 10\<rparr>;
          s = led_set 6 0 (led_set 3 10 s)
      in send_state HCAN_MULTICAST_INFO s)"

text \<open>The decision, and the LEDs that show the voltages.\<close>

definition usv_decide :: "(u8 \<Rightarrow> nat \<Rightarrow> u16) \<Rightarrow> usv \<Rightarrow> usv" where
  "usv_decide adc s =
     (let (puffer, s) = U_puffer adc s
      in if puffer \<le> V23 then
           (let (bat, s) = U_bat adc s
            in if bat > V24 then
                 (if on_battery s = 0 then (switch_to_battery s)\<lparr>switch_back_counter := 30\<rparr> else s)
               else if on_battery s \<noteq> 0 then switch_to_netzbetrieb s else s)
         else
           (let (nt, s) = U_NT adc s
            in if nt > V24 \<and> switch_back_counter s = 0
               then (if on_battery s \<noteq> 0 then switch_to_netzbetrieb s else s) else s))"

definition usv_leds :: "(u8 \<Rightarrow> nat \<Rightarrow> u16) \<Rightarrow> usv \<Rightarrow> usv" where
  "usv_leds adc s =
     (let (v, s) = U_puffer adc s; s = led_set 0 (if v \<ge> V23 then 10 else 0) s;
          (v, s) = U_NT adc s; s = led_set 2 (if v < V23 then 10 else 0) s;
          (v, s) = U_bat adc s; s = led_set 4 (if v < U_BAT_WARNING then 3 else 0) s;
          (v, s) = U_bat adc s
      in led_set 5 (if v < U_BAT_CRITICAL then 5 else 0) s)"

definition usv_state_handler :: "(u8 \<Rightarrow> nat \<Rightarrow> u16) \<Rightarrow> usv \<Rightarrow> usv" where
  "usv_state_handler adc s =
     (let s = fold (update_stat adc) [0..<U_SIZE] s
      in if usv_timer s \<noteq> 0 then s else usv_leds adc (usv_decide adc s))"

section \<open>The timer\<close>

definition usv_timer_handler :: "usv \<Rightarrow> usv" where
  "usv_timer_handler s =
     (let s = (if usv_timer s > 0 then s\<lparr>usv_timer := usv_timer s - 1\<rparr> else s);
          s = (if led_timer s = 0 then led_timer_handler (s\<lparr>led_timer := 9\<rparr>)
               else s\<lparr>led_timer := led_timer s - 1\<rparr>)
      in if second_counter s = 0 then
           (let s = s\<lparr>second_counter := 100\<rparr>
            in if switch_back_counter s > 0 then s\<lparr>switch_back_counter := switch_back_counter s - 1\<rparr> else s)
         else s\<lparr>second_counter := second_counter s - 1\<rparr>)"

section \<open>Frames\<close>

definition usv_can_callback :: "(u8 \<Rightarrow> nat \<Rightarrow> u16) \<Rightarrow> canix_frame \<Rightarrow> usv \<Rightarrow> usv" where
  "usv_can_callback adc f s =
     (let c = fr_data f ! 1; n = fr_data f ! 2 - 1
      in if c = HCAN_USVS_STATE_REQUEST then send_state (fr_src f) s
         else if c = HCAN_USVS_VOLTAGE_REQUEST then
           (if n < 5 then
              (let (U, s) = adc_reach_channel adc n s
               in s\<lparr>us_board := send_frame (fr_src f) [HCAN_SRV_USVS, HCAN_USVS_VOLTAGE_REPLAY, hi8 U, lo8 U]
                    (us_board s)\<rparr>)
            else s)
         else if c = HCAN_USVS_VOLTAGE_STATS_REQUEST then
           (if n < 5 then
              s\<lparr>us_board := send_frame (fr_src f) [HCAN_SRV_USVS, HCAN_USVS_VOLTAGE_STATS_REPLAY, fr_data f ! 2,
                   hi8 (U_min s ! unat n), lo8 (U_min s ! unat n), hi8 (U_max s ! unat n), lo8 (U_max s ! unat n)]
                 (us_board s)\<rparr>
            else s)
         else if c = HCAN_USVS_VOLTAGE_STATS_RESET then usv_reset_U_stats s
         else s)"

section \<open>The program\<close>

text \<open>The initialised variables and \<open>main\<close> up to the main loop.\<close>

definition usv_globals :: "board \<Rightarrow> usv" where
  "usv_globals b = \<lparr>us_board = b, on_battery = 0, usv_timer = 0, switch_back_counter = 0, led_timer = 5,
     second_counter = 0, U_min = replicate U_SIZE 0, U_max = replicate U_SIZE 0, led_state = replicate 8 0,
     led_timer_counter = 0, conversions = 0\<rparr>"

definition usv_main :: "board \<Rightarrow> usv" where
  "usv_main b =
     (let s = led_init (usv_globals (usv_darlingtonoutput_init b))
      in usv_reset_U_stats (led_set 1 1 (led_set 6 0 (led_set 3 10 s))))"

datatype usv_event = U_Rtc | U_Idle | U_Frame canix_frame

fun usv_step :: "(u8 \<Rightarrow> nat \<Rightarrow> u16) \<Rightarrow> usv_event \<Rightarrow> usv \<Rightarrow> usv" where
  "usv_step adc U_Rtc s = usv_timer_handler s"
| "usv_step adc U_Idle s = usv_state_handler adc s"
| "usv_step adc (U_Frame f) s = usv_can_callback adc f s"

definition usv_run :: "(u8 \<Rightarrow> nat \<Rightarrow> u16) \<Rightarrow> usv_event list \<Rightarrow> usv \<Rightarrow> usv" where
  "usv_run adc es s = fold (usv_step adc) es s"

section \<open>What the operations do\<close>

definition volt :: "(u8 \<Rightarrow> nat \<Rightarrow> u16) \<Rightarrow> u8 \<Rightarrow> nat \<Rightarrow> u16" where
  "volt adc mux k = of_nat (unat (drop_bit 4 (sum_list (map (adc mux) [k + 1..<k + 17]))) * 43 div 40)"

lemma adc_reach_channel_eq [simp]:
  "adc_reach_channel adc mux s = (volt adc mux (conversions s), s\<lparr>conversions := conversions s + 17\<rparr>)"
  by (simp add: adc_reach_channel_def volt_def Let_def)

named_theorems usv_defs \<open>operations of the state machine\<close>

lemmas [usv_defs] = U_bat_def U_puffer_def U_NT_def send_state_def switch_to_battery_def
  switch_to_netzbetrieb_def usv_decide_def usv_leds_def Let_def led_set_def

definition widen :: "(u8 \<Rightarrow> nat \<Rightarrow> u16) \<Rightarrow> nat \<Rightarrow> nat \<Rightarrow> u16 list \<Rightarrow> u16 list" where
  "widen adc k n us = map (\<lambda>i. if i < n then max (us ! i) (volt adc (of_nat i) (k + 17 * i)) else us ! i) [0..<length us]"

definition narrow :: "(u8 \<Rightarrow> nat \<Rightarrow> u16) \<Rightarrow> nat \<Rightarrow> nat \<Rightarrow> u16 list \<Rightarrow> u16 list" where
  "narrow adc k n us = map (\<lambda>i. if i < n then min (us ! i) (volt adc (of_nat i) (k + 17 * i)) else us ! i) [0..<length us]"

lemma stats_length [simp]:
  "length (narrow adc k n us) = length us" "length (widen adc k n us) = length us"
  by (simp_all add: narrow_def widen_def)

lemma stats_nth:
  "i < length us \<Longrightarrow> widen adc k n us ! i = (if i < n then max (us ! i) (volt adc (of_nat i) (k + 17 * i)) else us ! i)"
  "i < length us \<Longrightarrow> narrow adc k n us ! i = (if i < n then min (us ! i) (volt adc (of_nat i) (k + 17 * i)) else us ! i)"
  by (simp_all add: narrow_def widen_def)

lemma stats_fold:
  "n \<le> length (U_min s) \<Longrightarrow> n \<le> length (U_max s) \<Longrightarrow> fold (update_stat adc) [0..<n] s =
    s\<lparr>U_min := narrow adc (conversions s) n (U_min s), U_max := widen adc (conversions s) n (U_max s),
      conversions := conversions s + 17 * n\<rparr>"
proof (induction n)
  case 0
  then show ?case by (simp add: widen_def narrow_def map_nth)
next
  case (Suc n)
  let ?v = "volt adc (of_nat n) (conversions s + 17 * n)"
  have "(if ?v > U_max s ! n then (widen adc (conversions s) n (U_max s))[n := ?v] else widen adc (conversions s) n (U_max s))
      = widen adc (conversions s) (Suc n) (U_max s)"
    using Suc.prems by (intro nth_equalityI) (auto simp: stats_nth nth_list_update max_def split: if_splits)
  moreover have "(if ?v < U_min s ! n then (narrow adc (conversions s) n (U_min s))[n := ?v] else narrow adc (conversions s) n (U_min s))
      = narrow adc (conversions s) (Suc n) (U_min s)"
    using Suc.prems by (intro nth_equalityI) (auto simp: stats_nth nth_list_update min_def split: if_splits)
  moreover have "widen adc (conversions s) n (U_max s) ! n = U_max s ! n" "narrow adc (conversions s) n (U_min s) ! n = U_min s ! n"
    using Suc.prems by (simp_all add: stats_nth)
  ultimately show ?case using Suc by (auto simp: update_stat_def Let_def)
qed

text \<open>One pass of the idle handler: five readings for the statistics, then the decision by the sixth, of the
  buffer, and the seventh, of the batteries or the mains supply.\<close>

definition reading :: "(u8 \<Rightarrow> nat \<Rightarrow> u16) \<Rightarrow> u8 \<Rightarrow> nat \<Rightarrow> usv \<Rightarrow> u16" where
  "reading adc mux i s = volt adc mux (conversions s + 17 * i)"

definition usv_next :: "(u8 \<Rightarrow> nat \<Rightarrow> u16) \<Rightarrow> usv \<Rightarrow> bool" where
  "usv_next adc s =
    (if usv_timer s \<noteq> 0 then on_battery s \<noteq> 0
     else if reading adc U4 5 s \<le> V23 then reading adc U3 6 s > V24
     else on_battery s \<noteq> 0 \<and> \<not> (reading adc U1 6 s > V24 \<and> switch_back_counter s = 0))"

definition usv_wf :: "usv \<Rightarrow> bool" where
  "usv_wf s = (length (U_min s) = 5 \<and> length (U_max s) = 5 \<and> length (led_state s) = 8 \<and>
     on_battery s \<in> {0, 1} \<and> usv_timer s \<le> 200 \<and> switch_back_counter s \<le> 30 \<and> led_timer s < 10 \<and>
     second_counter s \<le> 100 \<and> led_timer_counter s < 10)"

text \<open>The relay, the state and the LEDs for mains and emergency supply agree, and the heartbeat is on.\<close>

definition usv_shown :: "usv \<Rightarrow> bool" where
  "usv_shown s =
    ((usv_darlingtonoutput_getpin 7 (us_board s) = (on_battery s = 1)) \<and> bit (DDRD (us_board s)) 7 \<and>
     led_state s ! 3 = (if on_battery s = 1 then 0 else 10) \<and>
     led_state s ! 6 = (if on_battery s = 1 then 10 else 0) \<and> led_state s ! 1 = 1)"

lemma pin7_send [simp]:
  "usv_darlingtonoutput_getpin n (send_frame d x b) = usv_darlingtonoutput_getpin n b"
  "DDRD (send_frame d x b) = DDRD b" "PORTC (send_frame d x b) = PORTC b"
  by (simp_all add: usv_darlingtonoutput_getpin_def send_frame_def send_prio_def)

lemma pin7_set [simp]:
  "usv_darlingtonoutput_getpin 7 (usv_darlingtonoutput_setpin 7 v b) = v"
  "bit (DDRD (usv_darlingtonoutput_setpin 7 v b)) 7"
  by (simp_all add: usv_darlingtonoutput_getpin_def usv_darlingtonoutput_setpin_def bit_simps)

lemma usv_state_handler_eq:
  assumes "usv_wf s"
  shows "on_battery (usv_state_handler adc s) = (if usv_next adc s then 1 else 0)"
    "usv_wf (usv_state_handler adc s)"
    "usv_timer (usv_state_handler adc s) = (if usv_next adc s = (on_battery s \<noteq> 0) then usv_timer s
       else if usv_next adc s then 200 else 10)"
    "switch_back_counter (usv_state_handler adc s) =
       (if usv_next adc s \<and> on_battery s = 0 then 30 else switch_back_counter s)"
    "second_counter (usv_state_handler adc s) = second_counter s"
    "U_min (usv_state_handler adc s) = narrow adc (conversions s) 5 (U_min s)"
    "U_max (usv_state_handler adc s) = widen adc (conversions s) 5 (U_max s)"
proof -
  have wf: "length (U_min s) = 5" "length (U_max s) = 5" "on_battery s = 0 \<or> on_battery s = 1"
    using assms by (auto simp: usv_wf_def)
  let ?s = "s\<lparr>U_min := narrow adc (conversions s) 5 (U_min s), U_max := widen adc (conversions s) 5 (U_max s),
      conversions := 85 + conversions s\<rparr>"
  have st: "fold (update_stat adc) [0..<5] s = ?s" using stats_fold [of 5 s adc] wf by (simp add: add.commute)
  show "on_battery (usv_state_handler adc s) = (if usv_next adc s then 1 else 0)"
    using wf by (auto simp: usv_state_handler_def st usv_defs usv_next_def reading_def add.commute)
  show "usv_wf (usv_state_handler adc s)"
    using assms by (auto simp: usv_state_handler_def st usv_defs usv_wf_def)
  show "usv_timer (usv_state_handler adc s) = (if usv_next adc s = (on_battery s \<noteq> 0) then usv_timer s
       else if usv_next adc s then 200 else 10)"
    using wf by (auto simp: usv_state_handler_def st usv_defs usv_next_def reading_def add.commute)
  show "switch_back_counter (usv_state_handler adc s) =
       (if usv_next adc s \<and> on_battery s = 0 then 30 else switch_back_counter s)"
    using wf by (auto simp: usv_state_handler_def st usv_defs usv_next_def reading_def add.commute)
  show "second_counter (usv_state_handler adc s) = second_counter s"
    "U_min (usv_state_handler adc s) = narrow adc (conversions s) 5 (U_min s)"
    "U_max (usv_state_handler adc s) = widen adc (conversions s) 5 (U_max s)"
    by (simp_all add: usv_state_handler_def st usv_defs)
qed

definition led_pin :: "nat \<Rightarrow> bool \<Rightarrow> u8 \<Rightarrow> u8" where
  "led_pin n enable c =
     (if n \<le> 6 then (if enable then unset_bit (7 - n) c else set_bit (7 - n) c) else c)"

lemma led_enable_eq: "led_enable n enable s = s\<lparr>us_board := (us_board s)\<lparr>PORTC := led_pin n enable (PORTC (us_board s))\<rparr>\<rparr>"
  by (simp add: led_enable_def led_pin_def Let_def)

lemma led_fold:
  "fold (\<lambda>i s. led_enable i (led_timer_counter s < led_state s ! i) s) is s =
    s\<lparr>us_board := (us_board s)\<lparr>PORTC := fold (\<lambda>i. led_pin i (led_timer_counter s < led_state s ! i)) is
      (PORTC (us_board s))\<rparr>\<rparr>"
  by (induction "is" arbitrary: s) (simp_all add: led_enable_eq)

lemma usv_timer_handler_eq:
  assumes "usv_wf s"
  shows "on_battery (usv_timer_handler s) = on_battery s" "usv_wf (usv_timer_handler s)"
    "usv_timer (usv_timer_handler s) = (if usv_timer s = 0 then 0 else usv_timer s - 1)"
    "switch_back_counter (usv_timer_handler s) =
       (if second_counter s = 0 \<and> switch_back_counter s \<noteq> 0 then switch_back_counter s - 1 else switch_back_counter s)"
    "second_counter (usv_timer_handler s) = (if second_counter s = 0 then 100 else second_counter s - 1)"
    "led_state (usv_timer_handler s) = led_state s"
    "U_min (usv_timer_handler s) = U_min s" "U_max (usv_timer_handler s) = U_max s"
    "conversions (usv_timer_handler s) = conversions s"
    "usv_shown (usv_timer_handler s) = usv_shown s"
proof -
  have dec: "(w :: 16 word) \<le> n \<Longrightarrow> 0 < w \<Longrightarrow> w - 1 \<le> n" "(v :: 8 word) \<le> m \<Longrightarrow> v \<noteq> 0 \<Longrightarrow> v - 1 \<le> m"
    "(v :: 8 word) < m \<Longrightarrow> v \<noteq> 0 \<Longrightarrow> v - 1 < m" for w n v m
    by (simp_all add: word_le_nat_alt word_less_nat_alt unat_minus_one_pos word_gt_zero_iff unat_gt_0)
  show "usv_wf (usv_timer_handler s)"
    using assms by (auto simp: usv_timer_handler_def led_timer_handler_def led_fold usv_wf_def Let_def not_le dec)
  show "usv_shown (usv_timer_handler s) = usv_shown s"
    by (simp add: usv_timer_handler_def led_timer_handler_def led_fold usv_shown_def Let_def usv_darlingtonoutput_getpin_def)
qed (auto simp: usv_timer_handler_def led_timer_handler_def led_fold Let_def word_gt_zero_iff)

lemma usv_can_callback_eq:
  assumes "usv_wf s"
  shows "on_battery (usv_can_callback adc f s) = on_battery s" "usv_wf (usv_can_callback adc f s)"
    "usv_timer (usv_can_callback adc f s) = usv_timer s"
    "switch_back_counter (usv_can_callback adc f s) = switch_back_counter s"
    "second_counter (usv_can_callback adc f s) = second_counter s"
    "usv_shown (usv_can_callback adc f s) = usv_shown s"
  using assms by (auto simp: usv_can_callback_def Let_def send_state_def usv_reset_U_stats_def usv_wf_def usv_shown_def)

lemma usv_shown_handler:
  assumes "usv_wf s" "usv_shown s"
  shows "usv_shown (usv_state_handler adc s)"
proof -
  have wf: "length (U_min s) = 5" "length (U_max s) = 5" "length (led_state s) = 8" "on_battery s = 0 \<or> on_battery s = 1"
    using assms by (auto simp: usv_wf_def)
  have st: "fold (update_stat adc) [0..<5] s = s\<lparr>U_min := narrow adc (conversions s) 5 (U_min s),
      U_max := widen adc (conversions s) 5 (U_max s), conversions := conversions s + 85\<rparr>"
    using stats_fold [of 5 s adc] wf by simp
  show ?thesis using wf(3,4) assms(2)
    by (auto simp: usv_state_handler_def st usv_defs usv_shown_def)
qed

lemmas usv_step_eqs = usv_state_handler_eq usv_timer_handler_eq usv_can_callback_eq

lemma usv_run_simps [simp]:
  "usv_run adc [] s = s" "usv_run adc (e # es) s = usv_run adc es (usv_step adc e s)"
  "usv_run adc (es @ fs) s = usv_run adc fs (usv_run adc es s)"
  by (simp_all add: usv_run_def)

lemma usv_step_wf: "usv_wf s \<Longrightarrow> usv_wf (usv_step adc e s)"
  by (cases e) (simp_all add: usv_step_eqs)

lemma usv_run_wf: "usv_wf s \<Longrightarrow> usv_wf (usv_run adc es s)"
  by (induction es arbitrary: s) (simp_all add: usv_step_wf)

lemma usv_run_shown: "usv_wf s \<Longrightarrow> usv_shown s \<Longrightarrow> usv_shown (usv_run adc es s)"
proof (induction es arbitrary: s)
  case (Cons e es)
  then have "usv_shown (usv_step adc e s)" by (cases e) (simp_all add: usv_step_eqs usv_shown_handler)
  with Cons show ?case by (simp add: usv_step_wf)
qed simp

lemma usv_main_ok: "usv_wf (usv_main b)" "usv_shown (usv_main b)"
proof -
  have r: "replicate 8 (0 :: u8) = [0, 0, 0, 0, 0, 0, 0, 0]" by (simp add: numeral_eq_Suc)
  show "usv_wf (usv_main b)" 
    by (simp add: usv_main_def led_init_def usv_globals_def usv_reset_U_stats_def led_set_def usv_wf_def Let_def)
  show "usv_shown (usv_main b)"
    by (simp add: usv_main_def led_init_def usv_globals_def usv_reset_U_stats_def led_set_def usv_shown_def Let_def r
        usv_darlingtonoutput_init_def usv_darlingtonoutput_getpin_def bit_simps)
qed

text \<open>C34: In every state the supply can reach, the relay is on the batteries exactly when the state says
  so, its pin is an output, the LEDs for mains (3) and emergency supply (6) show that state, the heartbeat
  is on, and no counter is out of its range.\<close>

theorem usv_outputs_agree:
  "let s = usv_run adc es (usv_main b)
   in usv_wf s \<and> (usv_darlingtonoutput_getpin 7 (us_board s) = (on_battery s = 1)) \<and> bit (DDRD (us_board s)) 7 \<and>
     led_state s ! 3 = (if on_battery s = 1 then 0 else 10) \<and> led_state s ! 6 = (if on_battery s = 1 then 10 else 0) \<and>
     led_state s ! 1 = 1"
  using usv_run_wf [OF usv_main_ok(1), of adc es b] usv_run_shown [OF usv_main_ok, of adc es b]
  unfolding Let_def usv_shown_def by blast

section \<open>No flutter\<close>

lemma usv_holds:
  "usv_wf s \<Longrightarrow> count_list es U_Rtc < unat (usv_timer s) \<Longrightarrow> on_battery (usv_run adc es s) = on_battery s"
proof (induction es arbitrary: s)
  case (Cons e es)
  have "count_list es U_Rtc < unat (usv_timer (usv_step adc e s)) \<and> on_battery (usv_step adc e s) = on_battery s"
    using Cons.prems by (cases e) (auto simp: usv_step_eqs usv_next_def unat_minus_one_pos usv_wf_def split: if_splits)
  then show ?case using Cons by (simp add: usv_step_wf)
qed simp

text \<open>The timer interrupts until a return to the mains is allowed.\<close>

definition back_wait :: "usv \<Rightarrow> nat" where
  "back_wait s = (if switch_back_counter s = 0 then 0
     else 101 * (unat (switch_back_counter s) - 1) + unat (second_counter s) + 1)"

lemma back_wait_tick:
  assumes "usv_wf s"
  shows "back_wait (usv_timer_handler s) = back_wait s - 1"
proof (cases "switch_back_counter s = 0 \<or> second_counter s \<noteq> 0")
  case True
  then show ?thesis using assms by (auto simp: back_wait_def usv_step_eqs unat_minus_one_pos unat_gt_0)
next
  case False
  then have c: "unat (switch_back_counter s - 1) = unat (switch_back_counter s) - 1" "0 < unat (switch_back_counter s)"
    by (simp_all add: unat_minus_one_pos unat_gt_0)
  then show ?thesis using False assms
    by (cases "unat (switch_back_counter s) = 1")
      (auto simp: back_wait_def usv_step_eqs unat_eq_zero [symmetric] simp del: unat_eq_zero)
qed

definition drained :: "(u8 \<Rightarrow> nat \<Rightarrow> u16) \<Rightarrow> usv \<Rightarrow> bool" where
  "drained adc s = (reading adc U4 5 s \<le> V23 \<and> reading adc U3 6 s \<le> V24)"

lemma usv_stays:
  assumes "usv_wf s" "on_battery s = 1" "count_list es U_Rtc < back_wait s"
    and "\<And>xs ys. es = xs @ U_Idle # ys \<Longrightarrow> \<not> drained adc (usv_run adc xs s)"
  shows "on_battery (usv_run adc es s) = 1"
  using assms
proof (induction es arbitrary: s)
  case (Cons e es)
  have "e = U_Idle \<Longrightarrow> \<not> drained adc s" using Cons.prems(4) [of "[]" es] by simp
  then have "count_list es U_Rtc < back_wait (usv_step adc e s) \<and> on_battery (usv_step adc e s) = 1"
    using Cons.prems(1-3)
  proof (cases e)
    case U_Rtc
    then show ?thesis using Cons.prems(1-3) by (simp add: usv_step_eqs(8) back_wait_tick)
  qed (auto simp: usv_step_eqs usv_next_def drained_def back_wait_def not_le split: if_splits)
  moreover have "\<not> drained adc (usv_run adc xs (usv_step adc e s))" if "es = xs @ U_Idle # ys" for xs ys
    using Cons.prems(4) [of "e # xs" ys] that by simp
  ultimately show ?case using Cons.IH [of "usv_step adc e s"] Cons.prems(1) by (simp add: usv_step_wf)
qed simp

text \<open>C35: The supply does not flutter. After a switch to the batteries, whatever is measured, the supply stays
  on them for at least the next 199 timer interrupts (two seconds), and for at least 2929 (29.3 seconds, where the
  comment in \<open>usv_state_handler\<close> promises 30) as long as no pass of the idle handler finds the batteries
  drained; after a switch back to the mains it stays there for at least the next nine. A switch is made only by the
  idle handler, when the voltages of the pass ask for it.\<close>

theorem usv_no_flutter:
  assumes "s = usv_run adc es (usv_main b)" and "s' = usv_step adc e s" and "on_battery s' \<noteq> on_battery s"
  shows "e = U_Idle \<and> (on_battery s' = 1 \<longleftrightarrow> usv_next adc s) \<and>
    (if on_battery s' = 1 then
       (\<forall>fs. count_list fs U_Rtc < 200 \<longrightarrow> on_battery (usv_run adc fs s') = 1) \<and>
       (\<forall>fs. count_list fs U_Rtc < 2930 \<and> (\<forall>xs ys. fs = xs @ U_Idle # ys \<longrightarrow> \<not> drained adc (usv_run adc xs s'))
          \<longrightarrow> on_battery (usv_run adc fs s') = 1)
     else (\<forall>fs. count_list fs U_Rtc < 10 \<longrightarrow> on_battery (usv_run adc fs s') = 0))"
proof -
  have wf: "usv_wf s" "usv_wf s'" using assms by (simp_all add: usv_run_wf usv_main_ok usv_step_wf)
  have idle: "e = U_Idle" using assms(2,3) wf by (cases e) (auto simp: usv_step_eqs)
  have b: "on_battery s' = (if usv_next adc s then 1 else 0)" "on_battery s = (if usv_next adc s then 0 else 1)"
    using assms(2,3) idle wf by (auto simp: usv_step_eqs usv_wf_def split: if_splits)
  have t: "usv_timer s' = (if usv_next adc s then 200 else 10)" "usv_next adc s \<Longrightarrow> switch_back_counter s' = 30"
    using assms(2) idle wf(1) b by (auto simp: usv_step_eqs split: if_splits)
  have w: "usv_next adc s \<Longrightarrow> 2930 \<le> back_wait s'" using t(2) by (simp add: back_wait_def)
  show ?thesis
  proof (cases "usv_next adc s")
    case True
    have "on_battery (usv_run adc fs s') = 1" if "count_list fs U_Rtc < 200" for fs
      using usv_holds [OF wf(2), of fs adc] that b t(1) True by simp
    moreover have "on_battery (usv_run adc fs s') = 1" if "count_list fs U_Rtc < 2930"
        "\<forall>xs ys. fs = xs @ U_Idle # ys \<longrightarrow> \<not> drained adc (usv_run adc xs s')" for fs
      using usv_stays [OF wf(2), of fs adc] that b w True by simp
    ultimately show ?thesis using idle b True by auto
  next
    case False
    have "on_battery (usv_run adc fs s') = 0" if "count_list fs U_Rtc < 10" for fs
      using usv_holds [OF wf(2), of fs adc] that b t(1) False by simp
    then show ?thesis using idle b False by auto
  qed
qed


text \<open>A supply that fails at once, with full batteries.\<close>

definition ex_adc :: "u8 \<Rightarrow> nat \<Rightarrow> u16" where
  "ex_adc mux k = (if mux = U3 then 1023 else 0)"

lemma ex_volt: "volt ex_adc mux k = (if mux = U3 then 1099 else 0)"
proof -
  have u: "[k + 1..<k + 17] = map (\<lambda>i. k + i) [1, 2, 3, 4, 5, 6, 7, 8, 9, 10, 11, 12, 13, 14, 15, 16]"
    by (simp add: numeral_eq_Suc upt_rec)
  have "drop_bit 4 (16368 :: u16) = 1023" by (simp add: drop_bit_eq_div)
  then show ?thesis unfolding volt_def u ex_adc_def by simp
qed

theorem usv_no_flutter_witness:
  "on_battery (usv_run ex_adc (U_Idle # replicate 199 U_Rtc) (usv_main ex_board)) = 1 \<and>
   on_battery (usv_run ex_adc (U_Idle # replicate 2929 U_Rtc) (usv_main ex_board)) = 1"
proof -
  let ?s = "usv_main ex_board"
  have wf: "usv_wf ?s" by (rule usv_main_ok)
  have on: "on_battery ?s = 0" "usv_timer ?s = 0"
    by (simp_all add: usv_main_def led_init_def usv_globals_def usv_reset_U_stats_def led_set_def Let_def)
  then have next1: "usv_next ex_adc ?s" by (simp add: usv_next_def reading_def ex_volt)
  then have s': "on_battery (usv_step ex_adc U_Idle ?s) = 1" using usv_state_handler_eq(1) [OF wf, of ex_adc] by simp
  have c: "count_list (replicate n U_Rtc) U_Rtc = n" for n by (induction n) simp_all
  have n: "replicate n U_Rtc = xs @ U_Idle # ys \<Longrightarrow> False" for n xs ys
    by (metis in_set_conv_decomp in_set_replicate usv_event.distinct(1))
  let ?t = "usv_step ex_adc U_Idle ?s"
  have h: "\<forall>fs. count_list fs U_Rtc < 200 \<longrightarrow> on_battery (usv_run ex_adc fs ?t) = 1"
    "\<forall>fs. count_list fs U_Rtc < 2930 \<and> (\<forall>xs ys. fs = xs @ U_Idle # ys \<longrightarrow> \<not> drained ex_adc (usv_run ex_adc xs ?t))
       \<longrightarrow> on_battery (usv_run ex_adc fs ?t) = 1"
    using usv_no_flutter [of ?s ex_adc "[]" ex_board ?t U_Idle] s' on by simp_all
  have "on_battery (usv_run ex_adc (replicate 199 U_Rtc) ?t) = 1"
    using h(1) [rule_format, of "replicate 199 U_Rtc"] c [of 199] by simp
  moreover have "on_battery (usv_run ex_adc (replicate 2929 U_Rtc) ?t) = 1"
    by (rule h(2) [rule_format]) (use c [of 2929] n in auto)
  ultimately show ?thesis by (simp del: usv_step.simps)
qed

section \<open>Statistics of the voltages\<close>

text \<open>The readings of channel \<open>i\<close> that the idle handler takes along a run.\<close>

fun stat_readings :: "(u8 \<Rightarrow> nat \<Rightarrow> u16) \<Rightarrow> nat \<Rightarrow> usv_event list \<Rightarrow> usv \<Rightarrow> u16 list" where
  "stat_readings adc i [] s = []"
| "stat_readings adc i (e # es) s =
     (if e = U_Idle then [reading adc (of_nat i) i s] else []) @ stat_readings adc i es (usv_step adc e s)"

definition no_stats_reset :: "usv_event \<Rightarrow> bool" where
  "no_stats_reset e = (case e of U_Frame f \<Rightarrow> fr_data f ! 1 \<noteq> HCAN_USVS_VOLTAGE_STATS_RESET | _ \<Rightarrow> True)"

lemma stats_run:
  assumes "usv_wf s" "i < 5" "\<forall>e \<in> set es. no_stats_reset e"
  shows "U_max (usv_run adc es s) ! i = fold max (stat_readings adc i es s) (U_max s ! i) \<and>
    U_min (usv_run adc es s) ! i = fold min (stat_readings adc i es s) (U_min s ! i)"
  using assms
proof (induction es arbitrary: s)
  case (Cons e es)
  have l: "length (U_max s) = 5" "length (U_min s) = 5" using Cons.prems by (simp_all add: usv_wf_def)
  let ?r = "if e = U_Idle then [reading adc (of_nat i) i s] else []"
  have "U_max (usv_step adc e s) ! i = fold max ?r (U_max s ! i) \<and> U_min (usv_step adc e s) ! i = fold min ?r (U_min s ! i)"
  proof (cases e)
    case U_Idle
    then show ?thesis using Cons.prems(1,2) l
      by (simp add: usv_step_eqs stats_nth reading_def max.commute min.commute)
  next
    case (U_Frame f)
    then have "fr_data f ! 1 \<noteq> HCAN_USVS_VOLTAGE_STATS_RESET" using Cons.prems(3) by (simp add: no_stats_reset_def)
    then show ?thesis by (simp add: U_Frame usv_can_callback_def Let_def send_state_def)
  qed (use Cons.prems(1) in \<open>simp add: usv_step_eqs\<close>)
  with Cons show ?case by (simp add: usv_step_wf)
qed simp

text \<open>After a reset of the statistics, or the start, and any run without another one, the extremes of each
  of the five voltages are those of the readings the idle handler took in between: the maximum with 0,
  the minimum with 1023.\<close>

theorem usv_stats_are_extremes:
  assumes "\<forall>e \<in> set es. no_stats_reset e" and "i < 5"
    and "s = usv_main b \<or> s = usv_reset_U_stats (usv_run adc es0 (usv_main b))"
  shows "U_max (usv_run adc es s) ! i = fold max (stat_readings adc i es s) 0 \<and>
    U_min (usv_run adc es s) ! i = fold min (stat_readings adc i es s) 1023"
proof -
  have r: "usv_main b = usv_reset_U_stats (usv_main b)" 
    by (simp add: usv_main_def led_init_def usv_globals_def usv_reset_U_stats_def led_set_def Let_def)
  have "usv_wf (usv_reset_U_stats (usv_run adc es0 (usv_main b)))"
    using usv_run_wf [OF usv_main_ok(1), of adc es0 b] by (simp add: usv_wf_def usv_reset_U_stats_def)
  then have "usv_wf s" "s = usv_reset_U_stats s" using assms(3) usv_main_ok(1) r by (auto simp: usv_reset_U_stats_def)
  moreover from this(2) have "U_max s = replicate 5 0" "U_min s = replicate 5 1023"
    by (metis (no_types, lifting) usv_reset_U_stats_def usv.select_convs usv.surjective usv.update_convs)+
  ultimately show ?thesis using stats_run [of s i es adc] assms(1,2) by simp
qed

theorem usv_stats_are_extremes_witness:
  "U_max (usv_run ex_adc [U_Idle, U_Rtc, U_Idle] (usv_main ex_board)) ! 2 = 1099 \<and>
   U_min (usv_run ex_adc [U_Idle, U_Rtc, U_Idle] (usv_main ex_board)) ! 0 = 0"
  using usv_stats_are_extremes [of "[U_Idle, U_Rtc, U_Idle]" 2 "usv_main ex_board" ex_board ex_adc "[]"]
    usv_stats_are_extremes [of "[U_Idle, U_Rtc, U_Idle]" 0 "usv_main ex_board" ex_board ex_adc "[]"]
  by (simp add: no_stats_reset_def reading_def ex_volt)

section \<open>The relay pins as a bank, and the LED pattern\<close>

interpretation uspin: pin_bank "\<lambda>n b. n < 12" usv_darlingtonoutput_setpin usv_darlingtonoutput_getpin
proof
  fix n m :: u8 and b v
  show "usv_darlingtonoutput_getpin n (usv_darlingtonoutput_setpin n v b) = v" if "n < 12"
    using that
    by (auto simp: usv_darlingtonoutput_getpin_def usv_darlingtonoutput_setpin_def Let_def unat_minus_lit bit_simps
        word_less_nat_alt)
  show "usv_darlingtonoutput_getpin m (usv_darlingtonoutput_setpin n v b) = usv_darlingtonoutput_getpin m b" if "n \<noteq> m"
  proof -
    have "unat n \<noteq> unat m" using that by (simp add: word_unat_eq_iff)
    moreover from this have "\<not> n < 8 \<Longrightarrow> \<not> m < 8 \<Longrightarrow> unat (n - 8) \<noteq> unat (m - 8)"
      by (simp add: unat_minus_lit word_less_nat_alt)
    ultimately show ?thesis
      by (auto simp: usv_darlingtonoutput_getpin_def usv_darlingtonoutput_setpin_def Let_def bit_simps)
  qed
qed simp

definition lit :: "nat \<Rightarrow> usv \<Rightarrow> bool" where
  "lit n s = (\<not> bit (PORTC (us_board s)) (7 - n))"

lemma bit_led_pin: "n \<le> 6 \<Longrightarrow> bit (led_pin i e c) (7 - n) = (if i = n then \<not> e else bit c (7 - n))"
  by (auto simp: led_pin_def bit_simps)

lemma bit_led_fold:
  "n \<le> 6 \<Longrightarrow> bit (fold (\<lambda>i. led_pin i (P i)) is c) (7 - n) = (if n \<in> set is then \<not> P n else bit c (7 - n))"
  by (induction "is" arbitrary: c) (auto simp: bit_led_pin)

lemma led_handler_lit:
  assumes "n \<le> 6" "led_timer_counter s < 10"
  shows "lit n (led_timer_handler s) = (led_timer_counter (led_timer_handler s) < led_state s ! n)"
    "led_state (led_timer_handler s) = led_state s"
    "unat (led_timer_counter (led_timer_handler s)) = (unat (led_timer_counter s) + 1) mod 10"
proof -
  show "lit n (led_timer_handler s) = (led_timer_counter (led_timer_handler s) < led_state s ! n)"
    using assms(1) by (simp add: led_timer_handler_def Let_def led_fold lit_def bit_led_fold)
  show "led_state (led_timer_handler s) = led_state s" by (simp add: led_timer_handler_def led_fold Let_def)
  have "unat (led_timer_counter s) < 10" using assms(2) by (simp add: word_less_nat_alt)
  moreover from this have "unat (led_timer_counter s + 1) = unat (led_timer_counter s) + 1"
    by (simp add: unat_plus_one_lt)
  ultimately show "unat (led_timer_counter (led_timer_handler s)) = (unat (led_timer_counter s) + 1) mod 10"
    by (auto simp: led_timer_handler_def led_fold Let_def word_le_nat_alt mod_Suc)
qed

text \<open>The LEDs are lit their state in tenths of the time: after \<open>k\<close> calls of the handler LED \<open>n\<close> is on just
  when the phase is below its state.\<close>

lemma led_pattern:
  assumes "n \<le> 6" "led_timer_counter s < 10" "0 < k"
  shows "lit n ((led_timer_handler ^^ k) s) = ((unat (led_timer_counter s) + k) mod 10 < unat (led_state s ! n))"
proof -
  have inv: "unat (led_timer_counter ((led_timer_handler ^^ k) s)) = (unat (led_timer_counter s) + k) mod 10 \<and>
      led_state ((led_timer_handler ^^ k) s) = led_state s" for k
  proof (induction k)
    case 0
    then show ?case using assms(2) by (simp add: word_less_nat_alt)
  next
    case (Suc k)
    then have "led_timer_counter ((led_timer_handler ^^ k) s) < 10" by (simp add: word_less_nat_alt)
    from led_handler_lit(2,3) [OF assms(1) this] Suc show ?case by (simp add: mod_Suc_eq)
  qed
  obtain j where k: "k = Suc j" using assms(3) by (cases k) auto
  have "led_timer_counter ((led_timer_handler ^^ j) s) < 10" using inv [of j] by (simp add: word_less_nat_alt)
  from led_handler_lit(1) [OF assms(1) this] inv [of j] inv [of k] show ?thesis by (simp add: k word_less_nat_alt)
qed

end
