(* ===== verification/Bootloader.thy ===== *)
theory Bootloader
  imports Mcp2515
begin

text \<open>
  The bootloaders of the boards (\<open>hcanbl32/main.c\<close> and its predecessor \<open>hcanbl8/main.c\<close>): one loop that
  reads a frame from the receive buffer of the CAN controller, carries out the management command in it
  (flash page buffer, flash page, EEPROM, checksum, state) and, as long as booting was not stopped,
  counts up to the start of the application. The flash memory and the EEPROM are functions of the byte
  address. What differs between the processors is the record \<open>chip\<close>; \<open>boot_start\<close> is the address the makefiles put the
  bootloader at, which fills the rest of the flash. A pass of the loop ends with \<open>Go_on\<close>, the start of the application or
  a reset by the watchdog; \<open>bl_fault\<close> is set when a buffer on the stack is overrun or a page of the bootloader
  itself is written: what the program does after that is not modelled.
\<close>

section \<open>State\<close>

record chip =
  page_size :: nat
  boot_start :: nat
  device_arch :: u8
  crc_support :: bool
  ping_group :: bool

definition atmega8 :: chip where
  "atmega8 = \<lparr>page_size = 64, boot_start = 0x1800, device_arch = 0, crc_support = False, ping_group = False\<rparr>"

definition atmega32 :: chip where
  "atmega32 = \<lparr>page_size = 128, boot_start = 0x7000, device_arch = 1, crc_support = True, ping_group = True\<rparr>"

definition atmega644 :: chip where
  "atmega644 = \<lparr>page_size = 256, boot_start = 0xf000, device_arch = 2, crc_support = True, ping_group = True\<rparr>"

record bl =
  bl_mcp :: mcp
  flash :: "nat \<Rightarrow> u8"
  bl_eeprom :: "nat \<Rightarrow> u8"
  flash_buffer :: "u8 list"
  bl_data :: "u8 list"
  bootCounter :: u8
  lineCounter :: u16
  self_addr :: u16
  bl_fault :: bool

datatype bl_next = Go_on | Jump_app | Reset

section \<open>The CAN controller\<close>

text \<open>The register accesses are those of the driver of the application. A message is always loaded into the
  first transmit buffer; \<open>SPI_RTS\<close> requests its transmission.\<close>

definition mcp2515_rts0 :: "mcp \<Rightarrow> mcp" where
  "mcp2515_rts0 m = m\<lparr>regs := (regs m)(TXB0CTRL := regs m TXB0CTRL OR 8)\<rparr>"

definition bl_can_send_message :: "u32 \<Rightarrow> u8 list \<Rightarrow> u8 \<Rightarrow> mcp \<Rightarrow> mcp" where
  "bl_can_send_message i data len m =
     (let m = mcp2515_write_register_p TXB0SIDH (id_registers i) m;
          m = mcp2515_write_register TXB0DLC len m;
          m = mcp2515_write_register_p TXB0D0 (take (unat len) data) m
      in mcp2515_rts0 m)"

text \<open>\<open>can_read_message\<close> copies as many bytes as the length register says into the eight bytes of \<open>data\<close>.\<close>

definition bl_can_read_message :: "bl \<Rightarrow> (u8 \<times> u32) \<times> bl" where
  "bl_can_read_message s =
     (let ((sz, i, d), m) = mcp2515_read_message (bl_mcp s)
      in ((sz, i), s\<lparr>bl_mcp := m, bl_data := take 8 (d @ drop (length d) (bl_data s)),
            bl_fault := bl_fault s \<or> sz > 8\<rparr>))"

section \<open>The checksum of the flash\<close>

text \<open>\<open>_crc16_update\<close> of avr-libc, the polynomial \<open>0xA001\<close> reflected.\<close>

fun crc_shift :: "nat \<Rightarrow> u16 \<Rightarrow> u16" where
  "crc_shift 0 c = c"
| "crc_shift (Suc n) c = crc_shift n (if bit c 0 then drop_bit 1 c XOR 0xA001 else drop_bit 1 c)"

definition crc16_update :: "u16 \<Rightarrow> u8 \<Rightarrow> u16" where
  "crc16_update crc a = crc_shift 8 (crc XOR ucast a)"

definition crc16_word :: "(nat \<Rightarrow> u8) \<Rightarrow> nat \<Rightarrow> u16 \<Rightarrow> u16" where
  "crc16_word fl i crc = crc16_update (crc16_update crc (fl (2 * i + 1))) (fl (2 * i))"

definition calculate_crc16_over_flash :: "u16 \<Rightarrow> (nat \<Rightarrow> u8) \<Rightarrow> u16" where
  "calculate_crc16_over_flash sz fl = fold (crc16_word fl) [0..<unat sz div 2] 0xffff"

definition eeprom_read_word :: "nat \<Rightarrow> (nat \<Rightarrow> u8) \<Rightarrow> u16" where
  "eeprom_read_word a ee = word16 (ee (a + 1)) (ee a)"

definition check_firmware :: "bl \<Rightarrow> bool" where
  "check_firmware s =
     (calculate_crc16_over_flash (eeprom_read_word EEPR_FIRMWARE_SIZE (bl_eeprom s)) (flash s) =
      eeprom_read_word EEPR_FIRMWARE_CRC16 (bl_eeprom s))"

section \<open>Writing a page\<close>

text \<open>The page instructions of the processor: erasing sets the page of an address to ones, the words of the
  temporary buffer are addressed by the position in the page, and writing a page clears bits.\<close>

definition boot_page_erase :: "nat \<Rightarrow> u16 \<Rightarrow> (nat \<Rightarrow> u8) \<Rightarrow> nat \<Rightarrow> u8" where
  "boot_page_erase ps addr fl = (\<lambda>a. if a div ps = unat addr div ps then 0xff else fl a)"

definition boot_page_fill :: "nat \<Rightarrow> u16 \<Rightarrow> u16 \<Rightarrow> u16 list \<Rightarrow> u16 list" where
  "boot_page_fill ps addr w tmp = tmp[(unat addr mod ps) div 2 := w]"

definition boot_page_write :: "nat \<Rightarrow> u16 \<Rightarrow> u16 list \<Rightarrow> (nat \<Rightarrow> u8) \<Rightarrow> nat \<Rightarrow> u8" where
  "boot_page_write ps addr tmp fl = (\<lambda>a. if a div ps = unat addr div ps
     then (let w = tmp ! ((a mod ps) div 2) in fl a AND (if even a then lo8 w else hi8 w)) else fl a)"

definition flash_buffer_write :: "nat \<Rightarrow> u16 \<Rightarrow> u8 list \<Rightarrow> (nat \<Rightarrow> u8) \<Rightarrow> nat \<Rightarrow> u8" where
  "flash_buffer_write ps addr buf fl =
     (let fl = boot_page_erase ps addr fl;
          tmp = fold (\<lambda>k. boot_page_fill ps (addr + of_nat (2 * k)) (word16 (buf ! (2 * k + 1)) (buf ! (2 * k))))
                  [0..<ps div 2] (replicate (ps div 2) 0xffff)
      in boot_page_write ps addr tmp fl)"

section \<open>The commands\<close>

abbreviation (input) ADDR_MASK :: u32 where "ADDR_MASK \<equiv> 0x3ff"

definition bl_set :: "nat \<Rightarrow> u8 \<Rightarrow> bl \<Rightarrow> bl" where
  "bl_set i v s = s\<lparr>bl_data := (bl_data s)[i := v]\<rparr>"

definition bl_reply :: "u32 \<Rightarrow> u8 \<Rightarrow> bl \<Rightarrow> bl_next \<times> bl" where
  "bl_reply id1 sz s =
     (let id2 = push_bit 10 (id1 AND ADDR_MASK) OR ucast (self_addr s) OR push_bit 20 1
      in (Go_on, s\<lparr>bl_mcp := bl_can_send_message id2 (bl_data s) sz (bl_mcp s)\<rparr>))"

text \<open>\<open>flash_buffer[data[2]+i] = data[3+i]\<close> for the four bytes of a frame.\<close>

definition bl_fill :: "chip \<Rightarrow> bl \<Rightarrow> bl" where
  "bl_fill ch s =
     (let d = bl_data s; s = (if d ! 2 AND 0x0f = 0 then s\<lparr>lineCounter := 0\<rparr> else s);
          n = unat (d ! 2)
      in s\<lparr>flash_buffer := fold (\<lambda>i buf. buf[n + i := d ! (3 + i)]) [0..<4] (flash_buffer s),
           bl_fault := bl_fault s \<or> n + 3 \<ge> page_size ch, lineCounter := lineCounter s + 4\<rparr>)"

definition bl_command :: "chip \<Rightarrow> u32 \<Rightarrow> bl \<Rightarrow> bl_next \<times> bl" where
  "bl_command ch id1 s =
     (let d = bl_data s; c = d ! 1
      in if c = 1 then bl_reply id1 2 (bl_set 1 2 s)
         else if c = 3 then bl_reply id1 3 (bl_set 2 (if bootCounter s \<noteq> 0 then 0 else 1) (bl_set 1 4 s))
         else if c = 5 then (Reset, s)
         else if c = 6 then bl_reply id1 2 (bl_set 1 7 (s\<lparr>bootCounter := 0\<rparr>))
         else if c = 8 then (Jump_app, s)
         else if c = 9 then
           bl_reply id1 4 (bl_set 3 (bl_eeprom s EEPR_BOARD_TYPE) (bl_set 2 (device_arch ch) (bl_set 1 10 s)))
         else if c = 16 then
           (let s = bl_fill ch s in if lineCounter s \<ge> 16 then bl_reply id1 2 (bl_set 1 17 s) else (Go_on, s))
         else if c = 18 then
           (let addr = word16 (d ! 3) (d ! 2)
            in bl_reply id1 2 (bl_set 1 19
                 (s\<lparr>flash := flash_buffer_write (page_size ch) addr (flash_buffer s) (flash s),
                    bl_fault := bl_fault s \<or> unat addr \<ge> boot_start ch\<rparr>)))
         else if c = 20 then
           bl_reply id1 2 (bl_set 1 21
             (s\<lparr>bl_eeprom := (bl_eeprom s)(unat (word16 (d ! 3) (d ! 2)) := d ! 4)\<rparr>))
         else if c = 22 then
           bl_reply id1 3 (bl_set 2 (bl_eeprom s (unat (word16 (d ! 3) (d ! 2)))) (bl_set 1 23 s))
         else if c = 37 \<and> crc_support ch then
           (let sum = calculate_crc16_over_flash (word16 (d ! 2) (d ! 3)) (flash s)
            in bl_reply id1 4 (bl_set 3 (lo8 sum) (bl_set 2 (hi8 sum) (bl_set 1 38 s))))
         else (Go_on, s))"

section \<open>The loop\<close>

definition addressed :: "chip \<Rightarrow> u32 \<Rightarrow> bl \<Rightarrow> bool" where
  "addressed ch id1 s =
     (drop_bit 10 id1 AND ADDR_MASK = ucast (self_addr s) \<or>
      ping_group ch \<and> drop_bit 10 id1 AND ADDR_MASK = ucast HCAN_MULTICAST_PING)"

definition bl_receive :: "chip \<Rightarrow> bl \<Rightarrow> bl_next \<times> bl" where
  "bl_receive ch s =
     (if mcp2515_message_available (bl_mcp s) then
        (let ((sz, id1), s) = bl_can_read_message s
         in if addressed ch id1 s \<and> sz \<ge> 2 \<and> bl_data s ! 0 = 1 then bl_command ch id1 s else (Go_on, s))
      else (Go_on, s))"

definition bl_log :: "u8 \<Rightarrow> u8 list \<Rightarrow> bl \<Rightarrow> bl" where
  "bl_log len d s =
     s\<lparr>bl_mcp := bl_can_send_message (push_bit 10 (40 AND ADDR_MASK) OR ucast (self_addr s) OR push_bit 20 1) d len (bl_mcp s)\<rparr>"

definition bl_boot :: "chip \<Rightarrow> bl \<Rightarrow> bl_next \<times> bl" where
  "bl_boot ch s =
     (if bootCounter s > 0 then
        (let s = s\<lparr>bootCounter := bootCounter s + 1\<rparr>
         in if bootCounter s > 50 then
              (if crc_support ch \<and> \<not> check_firmware s then (Reset, bl_log 2 [4, 2] s) else (Jump_app, s))
            else (Go_on, s))
      else (Go_on, s))"

definition bl_pass :: "chip \<Rightarrow> bl \<Rightarrow> bl_next \<times> bl" where
  "bl_pass ch s = (case bl_receive ch s of (Go_on, s) \<Rightarrow> bl_boot ch s | r \<Rightarrow> r)"

text \<open>From the reset: \<open>mcusr\<close> is the reset flag register, \<open>stack\<close> what the buffers on the stack hold.\<close>

definition bl_main :: "chip \<Rightarrow> u8 \<Rightarrow> u8 list \<Rightarrow> u8 list \<Rightarrow> (nat \<Rightarrow> u8) \<Rightarrow> (nat \<Rightarrow> u8) \<Rightarrow> mcp \<Rightarrow> bl" where
  "bl_main ch mcusr dat buf ee fl m =
     (let s = \<lparr>bl_mcp = m, flash = fl, bl_eeprom = ee, flash_buffer = buf, bl_data = dat[0 := 4, 1 := 1, 2 := mcusr],
                bootCounter = 1, lineCounter = 0,
                self_addr = word16 (ee (EEPR_SELF_ADDR + 1)) (ee EEPR_SELF_ADDR) AND 0x3ff, bl_fault = False\<rparr>
      in bl_log 3 (bl_data s) s)"


section \<open>What the checksum detects\<close>

lemma bit_A001: "bit (0xA001 :: u16) n \<longleftrightarrow> n = 0 \<or> n = 13 \<or> n = 15"
proof (cases "n < 16")
  case True
  then have "n \<in> {0, 1, 2, 3, 4, 5, 6, 7, 8, 9, 10, 11, 12, 13, 14, 15}" by (simp add: numeral_eq_Suc less_Suc_eq)
  then show ?thesis by auto
next
  case False
  then show ?thesis using bit_imp_le_length [of "0xA001 :: u16" n] by auto
qed

definition crc_step :: "u16 \<Rightarrow> u16" where
  "crc_step c = (if bit c 0 then drop_bit 1 c XOR 0xA001 else drop_bit 1 c)"

lemma crc_shift_Suc: "crc_shift (Suc n) c = crc_shift n (crc_step c)"
  by (simp add: crc_step_def)

lemma bit_crc_step:
  assumes "n < 16"
  shows "bit (crc_step c) n = (bit c (Suc n) \<noteq> (bit c 0 \<and> (n = 0 \<or> n = 13 \<or> n = 15)))"
  using assms bit_A001 [of n] by (auto simp: crc_step_def bit_xor_iff bit_drop_bit_eq)

text \<open>A step of the shift register can be undone: its top bit tells the bit shifted out.\<close>

lemma crc_step_inj:
  assumes "crc_step c = crc_step d"
  shows "c = d"
proof -
  have top: "bit (crc_step c) 15 = bit c 0" for c using bit_crc_step [of 15 c] by (auto dest: bit_imp_le_length)
  have z: "bit c 0 = bit d 0" using top [of c] top [of d] assms by simp
  show ?thesis
  proof (rule bit_word_eqI)
    fix n assume "n < LENGTH(16)"
    then show "bit c n = bit d n"
    proof (cases n)
      case (Suc m)
      then have "m < 16" using \<open>n < LENGTH(16)\<close> by simp
      from bit_crc_step [OF this, of c] bit_crc_step [OF this, of d] show ?thesis using assms z Suc by auto
    qed (simp add: z)
  qed
qed

lemma crc_shift_inj: "crc_shift n c = crc_shift n d \<longleftrightarrow> c = d"
proof
  show "crc_shift n c = crc_shift n d \<Longrightarrow> c = d"
  proof (induction n arbitrary: c d)
    case (Suc n)
    then have "crc_step c = crc_step d" by (simp only: crc_shift_Suc)
    then show ?case by (rule crc_step_inj)
  qed simp
qed simp

lemma crc_step_xor: "crc_step (c XOR d) = crc_step c XOR crc_step d"
proof (rule bit_word_eqI)
  fix n assume "n < LENGTH(16)"
  then have "n < 16" by simp
  then show "bit (crc_step (c XOR d)) n = bit (crc_step c XOR crc_step d) n"
    by (auto simp: bit_xor_iff bit_crc_step)
qed

lemma crc_shift_xor: "crc_shift n (c XOR d) = crc_shift n c XOR crc_shift n d"
  by (induction n arbitrary: c d) (simp, simp only: crc_shift_Suc crc_step_xor)

lemma crc_shift_push: "n + m \<le> 16 \<Longrightarrow> crc_shift n (push_bit n (take_bit m c)) = take_bit m c"
proof (induction n)
  case (Suc n)
  have "crc_step (push_bit (Suc n) (take_bit m c)) = push_bit n (take_bit m c)"
  proof (rule bit_word_eqI)
    fix k assume "k < LENGTH(16)"
    then have "k < 16" by simp
    then show "bit (crc_step (push_bit (Suc n) (take_bit m c))) k = bit (push_bit n (take_bit m c)) k"
      using Suc.prems by (auto simp: bit_crc_step bit_push_bit_iff bit_take_bit_iff Suc_diff_le simp del: push_bit_Suc)
  qed
  then show ?case using Suc by (simp only: crc_shift_Suc)
qed simp

lemma xor_swap:
  assumes "p XOR b = q XOR (d :: 'a::len word)"
  shows "p XOR q = b XOR d"
proof (rule bit_word_eqI)
  fix n
  have "bit (p XOR b) n = bit (q XOR d) n" using assms by simp
  then show "bit (p XOR q) n = bit (b XOR d) n" by (auto simp: bit_xor_iff)
qed

text \<open>Two bytes in a row are never swallowed: with the same checksum before and after they are the same.\<close>

lemma crc16_word_inj:
  assumes "crc16_update (crc16_update c a) b = crc16_update (crc16_update c' a') b'" "c = c'"
  shows "a = a' \<and> b = b'"
proof -
  have "crc16_update c a XOR ucast b = crc16_update c a' XOR ucast b'"
    using assms by (simp add: crc16_update_def crc_shift_inj)
  then have "crc16_update c a XOR crc16_update c a' = ucast b XOR ucast b'" by (rule xor_swap)
  moreover have "crc16_update c a XOR crc16_update c a' = crc_shift 8 ((c XOR ucast a) XOR (c XOR ucast a'))"
    by (simp only: crc16_update_def crc_shift_xor)
  moreover have "(c XOR ucast a) XOR (c XOR ucast a') = ucast a XOR (ucast a' :: u16)" by (rule xor_swap) (simp add: xor.commute xor.left_commute)
  ultimately have "crc_shift 8 (ucast a XOR ucast a') = ucast b XOR (ucast b' :: u16)" by simp
  moreover have "ucast b XOR (ucast b' :: u16) = take_bit 8 (ucast (b XOR b'))"
    by (rule bit_word_eqI) (auto simp: bit_simps dest: bit_imp_le_length)
  ultimately have "crc_shift 8 (ucast a XOR ucast a') = crc_shift 8 (push_bit 8 (take_bit 8 (ucast (b XOR b'))))"
    by (simp add: crc_shift_push)
  then have e: "ucast a XOR ucast a' = (push_bit 8 (take_bit 8 (ucast (b XOR b'))) :: u16)" by (simp only: crc_shift_inj)
  have "bit a n = bit a' n" "bit b n = bit b' n" if "n < 8" for n
  proof -
    from e have "bit (ucast a XOR ucast a' :: u16) n = bit (push_bit 8 (take_bit 8 (ucast (b XOR b'))) :: u16) n"
      "bit (ucast a XOR ucast a' :: u16) (n + 8) = bit (push_bit 8 (take_bit 8 (ucast (b XOR b'))) :: u16) (n + 8)" by simp_all
    then show "bit a n = bit a' n" "bit b n = bit b' n" using that
      by (auto simp: bit_simps dest: bit_imp_le_length)
  qed
  then show ?thesis by (auto intro: bit_word_eqI)
qed

lemma crc16_update_inj: "crc16_update c a = crc16_update d a \<longleftrightarrow> c = d"
proof
  assume "crc16_update c a = crc16_update d a"
  then have "c XOR ucast a = d XOR ucast a" by (simp add: crc16_update_def crc_shift_inj)
  then have "c XOR d = ucast a XOR ucast a" by (rule xor_swap)
  then show "c = d" by (simp add: bit_eq_iff bit_xor_iff)
qed simp

lemma crc16_fold_inj: "fold (crc16_word fl) is c = fold (crc16_word fl) is d \<longleftrightarrow> c = d"
  by (induction "is" arbitrary: c d) (simp_all add: crc16_word_def crc16_update_inj)

lemma crc16_fold_cong:
  "(\<And>i. i \<in> set is \<Longrightarrow> fl (2 * i) = fl' (2 * i) \<and> fl (2 * i + 1) = fl' (2 * i + 1)) \<Longrightarrow>
    fold (crc16_word fl) is c = fold (crc16_word fl') is c"
  by (induction "is" arbitrary: c) (simp_all add: crc16_word_def)

lemma crc16_detects_word:
  assumes "k < unat sz div 2" and "fl (2 * k) \<noteq> fl' (2 * k) \<or> fl (2 * k + 1) \<noteq> fl' (2 * k + 1)"
    and "\<And>a. a div 2 \<noteq> k \<Longrightarrow> fl a = fl' a"
  shows "calculate_crc16_over_flash sz fl \<noteq> calculate_crc16_over_flash sz fl'"
proof
  assume e: "calculate_crc16_over_flash sz fl = calculate_crc16_over_flash sz fl'"
  have u: "[0..<unat sz div 2] = [0..<k] @ k # [Suc k..<unat sz div 2]"
    using upt_add_eq_append [of 0 k "unat sz div 2 - k"] assms(1) by (simp add: upt_conv_Cons)
  have same: "fl (2 * i) = fl' (2 * i) \<and> fl (2 * i + 1) = fl' (2 * i + 1)" if "i \<noteq> k" for i
    using assms(3) [of "2 * i"] assms(3) [of "2 * i + 1"] that by simp
  have pre: "fold (crc16_word fl) [0..<k] 0xffff = fold (crc16_word fl') [0..<k] 0xffff"
    by (rule crc16_fold_cong) (use same in auto)
  have post: "fold (crc16_word fl) [Suc k..<unat sz div 2] c = fold (crc16_word fl') [Suc k..<unat sz div 2] c" for c
    by (rule crc16_fold_cong) (use same in auto)
  let ?c = "fold (crc16_word fl') [0..<k] 0xffff"
  have "fold (crc16_word fl') [Suc k..<unat sz div 2] (crc16_word fl k ?c) =
      fold (crc16_word fl') [Suc k..<unat sz div 2] (crc16_word fl' k ?c)"
    using e by (simp add: calculate_crc16_over_flash_def u pre post)
  then have "crc16_word fl k ?c = crc16_word fl' k ?c" by (simp add: crc16_fold_inj)
  then show False using crc16_word_inj [of ?c "fl (2 * k + 1)" "fl (2 * k)" ?c] assms(2) by (auto simp: crc16_word_def)
qed

section \<open>Frames to and from the loop\<close>

text \<open>A frame from the bus in the receive buffer, and the frame the controller sends when asked to.\<close>

definition put_frame :: "u32 \<Rightarrow> u8 list \<Rightarrow> mcp \<Rightarrow> mcp" where
  "put_frame i d m =
     (let m = mcp2515_write_register_p RXB0SIDH (id_registers i) m;
          m = mcp2515_write_register RXB0DLC (of_nat (length d)) m;
          m = mcp2515_write_register_p RXB0D0 d m
      in m\<lparr>regs := (regs m)(CANINTF := regs m CANINTF OR 1)\<rparr>)"

definition tx_frame :: "mcp \<Rightarrow> (u32 \<times> u8 list) option" where
  "tx_frame m =
     (if bit (regs m TXB0CTRL) 3
      then Some (read_id (mcp2515_read_register_p TXB0SIDH 4 m),
                 mcp2515_read_register_p TXB0D0 (unat (regs m TXB0DLC)) m)
      else None)"

definition tx_done :: "mcp \<Rightarrow> mcp" where
  "tx_done m = m\<lparr>regs := (regs m)(TXB0CTRL := regs m TXB0CTRL AND NOT 8)\<rparr>"

fun bl_run :: "chip \<Rightarrow> (u32 \<times> u8 list) option list \<Rightarrow> bl \<Rightarrow> bl_next \<times> bl" where
  "bl_run ch [] s = (Go_on, s)"
| "bl_run ch (f # fs) s =
     (let s = (case f of None \<Rightarrow> s | Some (i, d) \<Rightarrow> s\<lparr>bl_mcp := put_frame i d (bl_mcp s)\<rparr>)
      in case bl_pass ch s of (Go_on, s) \<Rightarrow> bl_run ch fs s | r \<Rightarrow> r)"

lemma len_id_registers [simp]: "length (id_registers i) = 4"
  by (simp add: id_registers_def)

lemma dlc_small: "length d \<le> 8 \<Longrightarrow> unat (of_nat (length d) :: u8) = length d"
  by (simp add: unat_of_nat)

lemma dlc_mask: "(w :: u8) \<le> 8 \<Longrightarrow> w AND 0x0F = w"
proof -
  assume "w \<le> 8"
  then have "take_bit 4 w = w" by (simp add: word_unat_eq_iff unsigned_take_bit_eq take_bit_nat_eq_self word_le_nat_alt)
  then show ?thesis by (simp add: take_bit_eq_mask mask_eq_exp_minus_1)
qed

lemma put_frame_regs:
  assumes "length d \<le> 8"
  shows "j < 4 \<Longrightarrow> regs (put_frame i d m) (RXB0SIDH + of_nat j) = id_registers i ! j"
    "regs (put_frame i d m) RXB0DLC = of_nat (length d)"
    "j < length d \<Longrightarrow> regs (put_frame i d m) (RXB0D0 + of_nat j) = d ! j"
    "bit (regs (put_frame i d m) CANINTF) 0"
    "regs (put_frame i d m) TXB0CTRL = regs m TXB0CTRL"
proof -
  have l: "length (id_registers i) \<le> 256" "length d \<le> 256" using assms by simp_all
  note defs = put_frame_def Let_def mcp2515_write_register_def regs_write_register_p [OF l(1)] regs_write_register_p [OF l(2)]
  show "regs (put_frame i d m) (RXB0SIDH + of_nat j) = id_registers i ! j" if "j < 4"
  proof -
    from that consider "j = 0" | "j = 1" | "j = 2" | "j = 3" by linarith
    then show ?thesis using assms by cases (simp_all add: defs)
  qed
  show "regs (put_frame i d m) RXB0DLC = of_nat (length d)" using assms by (simp add: defs)
  show "regs (put_frame i d m) (RXB0D0 + of_nat j) = d ! j" if "j < length d"
  proof -
    from that assms consider "j = 0" | "j = 1" | "j = 2" | "j = 3" | "j = 4" | "j = 5" | "j = 6" | "j = 7" by linarith
    then show ?thesis using assms that by cases (simp_all add: defs)
  qed
  show "bit (regs (put_frame i d m) CANINTF) 0" using assms by (simp add: defs bit_or_iff)
  show "regs (put_frame i d m) TXB0CTRL = regs m TXB0CTRL" using assms by (simp add: defs)
qed

lemma read_put_frame:
  assumes "length d \<le> 8"
  shows "mcp2515_read_message (put_frame i d m) =
    ((of_nat (length d), i AND mask 29, d), mcp2515_bit_modify CANINTF 0x01 0x00 (put_frame i d m))"
proof -
  note p = put_frame_regs [OF assms, where i = i and m = m]
  have "mcp2515_read_register_p RXB0SIDH 4 (put_frame i d m) = id_registers i"
    by (rule nth_equalityI) (simp_all add: read_register_p_map p(1) del: numeral_plus_numeral)
  moreover have "mcp2515_read_register_p RXB0D0 (length d) (put_frame i d m) = d"
    by (rule nth_equalityI) (simp_all add: read_register_p_map p(3))
  moreover have "(of_nat (length d) :: u8) AND 0x0F = of_nat (length d)"
    by (rule dlc_mask) (use assms in \<open>simp add: word_le_nat_alt dlc_small\<close>)
  ultimately show ?thesis using p(2) dlc_small [OF assms]
    by (simp add: mcp2515_read_message_def Let_def mcp2515_read_register_def read_id_registers)
qed

lemma bl_send_regs:
  assumes "unat len \<le> 8" "unat len \<le> length d"
  shows "tx_frame (bl_can_send_message i d len m) = Some (i AND mask 29, take (unat len) d)"
    "regs (bl_can_send_message i d len m) CANINTF = regs m CANINTF"
proof -
  have l: "length (id_registers i) \<le> 256" "length (take (unat len) d) \<le> 256" using assms by simp_all
  note defs = bl_can_send_message_def Let_def mcp2515_write_register_def mcp2515_rts0_def
    regs_write_register_p [OF l(1)] regs_write_register_p [OF l(2)]
  let ?m = "bl_can_send_message i d len m"
  have c: "bit (regs ?m TXB0CTRL) 3" "regs ?m TXB0DLC = len"
    using assms by (simp_all add: defs bit_or_iff)
  have "regs ?m (TXB0SIDH + of_nat j) = id_registers i ! j" if "j < 4" for j
  proof -
    from that consider "j = 0" | "j = 1" | "j = 2" | "j = 3" by linarith
    then show ?thesis using assms by cases (simp_all add: defs)
  qed
  then have "mcp2515_read_register_p TXB0SIDH 4 ?m = id_registers i"
    by (intro nth_equalityI) (simp_all add: read_register_p_map)
  moreover have "regs ?m (TXB0D0 + of_nat j) = d ! j" if "j < unat len" for j
  proof -
    from that assms consider "j = 0" | "j = 1" | "j = 2" | "j = 3" | "j = 4" | "j = 5" | "j = 6" | "j = 7" by linarith
    then show ?thesis using assms that by cases (simp_all add: defs)
  qed
  then have "mcp2515_read_register_p TXB0D0 (unat len) ?m = take (unat len) d"
    using assms by (intro nth_equalityI) (simp_all add: read_register_p_map)
  ultimately show "tx_frame ?m = Some (i AND mask 29, take (unat len) d)"
    using c by (simp add: tx_frame_def read_id_registers)
  show "regs ?m CANINTF = regs m CANINTF" using assms by (simp add: defs)
qed

section \<open>When the application is started\<close>

definition bl_ok :: "bl \<Rightarrow> bool" where
  "bl_ok s = (length (bl_data s) = 8 \<and> \<not> mcp2515_message_available (bl_mcp s))"

lemma bl_set_simps [simp]:
  "length (bl_data (bl_set i v s)) = length (bl_data s)" "bl_mcp (bl_set i v s) = bl_mcp s"
  "flash (bl_set i v s) = flash s" "bl_eeprom (bl_set i v s) = bl_eeprom s" "bootCounter (bl_set i v s) = bootCounter s"
  "flash_buffer (bl_set i v s) = flash_buffer s" "self_addr (bl_set i v s) = self_addr s"
  "lineCounter (bl_set i v s) = lineCounter s" "bl_fault (bl_set i v s) = bl_fault s"
  "bl_data (bl_set i v s) = (bl_data s)[i := v]"
  by (simp_all add: bl_set_def)

lemma bl_fill_simps [simp]:
  "bl_data (bl_fill ch s) = bl_data s" "bl_mcp (bl_fill ch s) = bl_mcp s" "flash (bl_fill ch s) = flash s"
  "bl_eeprom (bl_fill ch s) = bl_eeprom s" "bootCounter (bl_fill ch s) = bootCounter s" "self_addr (bl_fill ch s) = self_addr s"
  by (simp_all add: bl_fill_def Let_def)

lemma bl_reply_keeps:
  assumes "bl_reply id1 sz s = (r, s')" "length (bl_data s) = 8" "unat sz \<le> 8"
  shows "r = Go_on \<and> length (bl_data s') = 8 \<and> regs (bl_mcp s') CANINTF = regs (bl_mcp s) CANINTF"
  using assms bl_send_regs(2) [of sz "bl_data s" _ "bl_mcp s"] by (auto simp: bl_reply_def Let_def)

lemma bl_command_keeps:
  assumes "bl_command ch id1 s = (r, s')" "length (bl_data s) = 8"
  shows "length (bl_data s') = 8" "regs (bl_mcp s') CANINTF = regs (bl_mcp s) CANINTF"
    "r = Jump_app \<Longrightarrow> bl_data s ! 1 = 8"
  using assms unfolding bl_command_def Let_def
  by (auto split: if_splits dest!: bl_reply_keeps)

lemma bl_boot_keeps:
  assumes "bl_boot ch s = (r, s')" "length (bl_data s) = 8"
  shows "r = Go_on \<Longrightarrow> length (bl_data s') = 8 \<and> regs (bl_mcp s') CANINTF = regs (bl_mcp s) CANINTF"
    "r = Jump_app \<Longrightarrow> crc_support ch \<Longrightarrow> check_firmware s'"
  using assms by (auto simp: bl_boot_def Let_def check_firmware_def split: if_splits)

lemma bl_receive_none: "bl_ok s \<Longrightarrow> bl_receive ch s = (Go_on, s)"
  by (simp add: bl_ok_def bl_receive_def)

lemma flag_cleared: "\<not> mcp2515_message_available (mcp2515_bit_modify CANINTF 0x01 0x00 m)"
  by (simp add: mcp2515_message_available_def mcp2515_bit_modify_def mcp2515_read_register_def bit_simps)

lemma available_of_regs: "regs m CANINTF = regs m' CANINTF \<Longrightarrow> mcp2515_message_available m = mcp2515_message_available m'"
  by (simp add: mcp2515_message_available_def mcp2515_read_register_def)

text \<open>A frame in the receive buffer reaches the commands with its identifier and data.\<close>

definition with_data :: "u32 \<Rightarrow> u8 list \<Rightarrow> bl \<Rightarrow> bl" where
  "with_data i d s = s\<lparr>bl_mcp := mcp2515_bit_modify CANINTF 0x01 0x00 (put_frame i d (bl_mcp s)),
     bl_data := d @ drop (length d) (bl_data s)\<rparr>"

lemma with_data_simps [simp]:
  "bl_data (with_data i d s) = d @ drop (length d) (bl_data s)" "flash (with_data i d s) = flash s"
  "bl_eeprom (with_data i d s) = bl_eeprom s" "bootCounter (with_data i d s) = bootCounter s"
  "flash_buffer (with_data i d s) = flash_buffer s" "self_addr (with_data i d s) = self_addr s"
  "lineCounter (with_data i d s) = lineCounter s" "bl_fault (with_data i d s) = bl_fault s"
  "\<not> mcp2515_message_available (bl_mcp (with_data i d s))"
  by (simp_all add: with_data_def flag_cleared)

lemma bl_receive_frame:
  assumes "length d \<le> 8" "length (bl_data s) = 8"
  shows "bl_receive ch (s\<lparr>bl_mcp := put_frame i d (bl_mcp s)\<rparr>) =
    (if addressed ch (i AND mask 29) s \<and> 2 \<le> length d \<and> d ! 0 = 1 then bl_command ch (i AND mask 29) (with_data i d s)
     else (Go_on, with_data i d s))"
proof -
  have av: "mcp2515_message_available (put_frame i d (bl_mcp s))"
    using put_frame_regs(4) [OF assms(1)] by (simp add: mcp2515_message_available_def mcp2515_read_register_def)
  have sz: "(of_nat (length d) :: u8) \<ge> 2 \<longleftrightarrow> 2 \<le> length d" "\<not> (of_nat (length d) :: u8) > 8"
    using dlc_small [OF assms(1)] assms(1) by (simp_all add: word_le_nat_alt word_less_nat_alt)
  have rd: "bl_can_read_message (s\<lparr>bl_mcp := put_frame i d (bl_mcp s)\<rparr>) = ((of_nat (length d), i AND mask 29), with_data i d s)"
    using assms sz(2) by (simp add: bl_can_read_message_def read_put_frame with_data_def Let_def)
  have ad: "addressed ch (i AND mask 29) (with_data i d s) = addressed ch (i AND mask 29) s" by (simp add: addressed_def)
  have d0: "2 \<le> length d \<Longrightarrow> (d @ drop (length d) (bl_data s)) ! 0 = d ! 0" by (cases d) auto
  show ?thesis using av sz(1) d0 by (auto simp: bl_receive_def rd ad)
qed

lemma bl_pass_step:
  assumes "bl_ok s" "\<forall>i d. f = Some (i, d) \<longrightarrow> length d \<le> 8"
    and "bl_pass ch (case f of None \<Rightarrow> s | Some (i, d) \<Rightarrow> s\<lparr>bl_mcp := put_frame i d (bl_mcp s)\<rparr>) = (r, s')"
  shows "r = Go_on \<Longrightarrow> bl_ok s'"
    "r = Jump_app \<Longrightarrow> crc_support ch \<Longrightarrow> check_firmware s' \<or> (\<exists>i d. f = Some (i, d) \<and> 2 \<le> length d \<and> take 2 d = [1, 8])"
proof -
  let ?s = "case f of None \<Rightarrow> s | Some (i, d) \<Rightarrow> s\<lparr>bl_mcp := put_frame i d (bl_mcp s)\<rparr>"
  have l: "length (bl_data s) = 8" using assms(1) by (simp add: bl_ok_def)
  obtain r1 s1 where rc: "bl_receive ch ?s = (r1, s1)" by (cases "bl_receive ch ?s")
  have k: "length (bl_data s1) = 8 \<and> \<not> mcp2515_message_available (bl_mcp s1) \<and>
      (r1 = Jump_app \<longrightarrow> (\<exists>i d. f = Some (i, d) \<and> 2 \<le> length d \<and> take 2 d = [1, 8]))"
  proof (cases f)
    case None
    then show ?thesis using rc bl_receive_none [OF assms(1), of ch] assms(1) by (auto simp: bl_ok_def)
  next
    case (Some p)
    obtain i d where p: "p = (i, d)" by (cases p)
    have d: "length d \<le> 8" using assms(2) Some p by simp
    let ?w = "with_data i d s"
    have w: "length (bl_data ?w) = 8" using l d by simp
    consider "addressed ch (i AND mask 29) s" "2 \<le> length d" "d ! 0 = 1" "bl_command ch (i AND mask 29) ?w = (r1, s1)"
      | "r1 = Go_on" "s1 = ?w"
      using rc bl_receive_frame [OF d l, of ch i] Some p by (auto split: if_splits)
    then show ?thesis
    proof cases
      case 1
      have "bl_data ?w ! 1 = d ! 1" using 1(2) by (simp add: nth_append)
      moreover have "2 \<le> length d \<Longrightarrow> take 2 d = [d ! 0, d ! 1]" by (cases d; cases "tl d") auto
      ultimately show ?thesis
        using bl_command_keeps [OF 1(4) w] 1 Some p available_of_regs [of "bl_mcp s1" "bl_mcp ?w"] by auto
    next
      case 2
      then show ?thesis using w by simp
    qed
  qed
  show "bl_ok s'" if "r = Go_on"
  proof -
    have "r1 = Go_on" "bl_boot ch s1 = (r, s')" using assms(3) rc that by (auto simp: bl_pass_def split: bl_next.splits)
    then show ?thesis using bl_boot_keeps(1) [of ch s1 r s'] k that available_of_regs [of "bl_mcp s'" "bl_mcp s1"]
      by (auto simp: bl_ok_def)
  qed
  show "check_firmware s' \<or> (\<exists>i d. f = Some (i, d) \<and> 2 \<le> length d \<and> take 2 d = [1, 8])" if "r = Jump_app" "crc_support ch"
  proof -
    have "r1 = Jump_app \<or> (r1 = Go_on \<and> bl_boot ch s1 = (r, s'))"
      using assms(3) rc that by (auto simp: bl_pass_def split: bl_next.splits)
    then show ?thesis using k bl_boot_keeps(2) [of ch s1 r s'] that by auto
  qed
qed

definition blank :: mcp where
  "blank = \<lparr>regs = (\<lambda>_. 0), canix_tx_sent = 0, canix_tx_dropped = 0\<rparr>"

lemma bl_main_ok:
  assumes "\<not> mcp2515_message_available m" "length dat = 8"
  shows "bl_ok (bl_main ch mcusr dat buf ee fl m)"
proof -
  have "regs (bl_can_send_message i dat' 3 m) CANINTF = regs m CANINTF" if "length dat' = 8" for i dat'
    by (rule bl_send_regs(2)) (use that in simp_all)
  from available_of_regs [OF this] show ?thesis using assms
    by (simp add: bl_main_def bl_log_def Let_def bl_ok_def)
qed

lemma bl_main_simps [simp]:
  "flash (bl_main ch mcusr dat buf ee fl m) = fl" "bl_eeprom (bl_main ch mcusr dat buf ee fl m) = ee"
  "bootCounter (bl_main ch mcusr dat buf ee fl m) = 1"
  by (simp_all add: bl_main_def bl_log_def Let_def)

text \<open>C36: A board whose bootloader checks the application (that of the ATmega32 and the ATmega644; the one of the ATmega8
  does not) starts it after a reset only when the checksum over the flash agrees with the one in its EEPROM, whatever
  frames of at most eight bytes it receives, provided that none of them begins with the bytes of the command to load the application,
  that no fill command reached beyond the page buffer and that no write command reached the bootloader itself.\<close>

theorem bootloader_starts_checked_firmware:
  assumes "bl_run ch fs (bl_main ch mcusr dat buf ee fl m) = (Jump_app, s)"
    and "crc_support ch" and "\<not> mcp2515_message_available m" and "length dat = 8"
    and "\<forall>i d. Some (i, d) \<in> set fs \<longrightarrow> length d \<le> 8 \<and> take 2 d \<noteq> [1, 8]" and "\<not> bl_fault s"
  shows "check_firmware s"
proof -
  have "bl_run ch fs s0 = (Jump_app, s) \<Longrightarrow> bl_ok s0 \<Longrightarrow>
      \<forall>i d. Some (i, d) \<in> set fs \<longrightarrow> length d \<le> 8 \<and> take 2 d \<noteq> [1, 8] \<Longrightarrow> check_firmware s" for s0
  proof (induction fs arbitrary: s0)
    case (Cons f fs)
    let ?s = "case f of None \<Rightarrow> s0 | Some (i, d) \<Rightarrow> s0\<lparr>bl_mcp := put_frame i d (bl_mcp s0)\<rparr>"
    obtain r s1 where p: "bl_pass ch ?s = (r, s1)" by (cases "bl_pass ch ?s")
    have f: "\<forall>i d. f = Some (i, d) \<longrightarrow> length d \<le> 8" using Cons.prems(3) by auto
    note st = bl_pass_step [OF Cons.prems(2) f p]
    consider "r = Go_on" "bl_run ch fs s1 = (Jump_app, s)" | "r = Jump_app" "s1 = s"
      using Cons.prems(1) p by (cases r) (auto simp: Let_def)
    then show ?case
    proof cases
      case 1
      then show ?thesis using Cons.IH [of s1] st(1) Cons.prems(3) by auto
    next
      case 2
      then show ?thesis using st(2) assms(2) Cons.prems(3) by auto
    qed
  qed simp
  then show ?thesis using assms bl_main_ok by blast
qed

lemma quiet_run:
  assumes "bl_ok s" "bootCounter s = of_nat b" "0 < b" "b \<le> 50"
  shows "bl_run ch (replicate n None) s =
    (if b + n \<le> 50 then (Go_on, s\<lparr>bootCounter := of_nat (b + n)\<rparr>)
     else let s = s\<lparr>bootCounter := 51\<rparr> in if crc_support ch \<and> \<not> check_firmware s then (Reset, bl_log 2 [4, 2] s) else (Jump_app, s))"
  using assms
proof (induction n arbitrary: s b)
  case 0
  then show ?case by simp
next
  case (Suc n)
  have u: "unat (of_nat b :: u8) = b" using Suc.prems by (simp add: unat_of_nat)
  then have pos: "bootCounter s > 0" using Suc.prems by (simp add: word_gt_zero_iff unat_eq_zero [symmetric] del: unat_eq_zero)
  have u1: "unat (of_nat (Suc b) :: u8) = Suc b" using Suc.prems by (simp add: unat_of_nat del: of_nat_Suc)
  have inc: "bootCounter s + 1 = of_nat (Suc b)" using Suc.prems by (simp add: add.commute)
  have gt: "(of_nat (Suc b) :: u8) > 50 \<longleftrightarrow> b = 50" using Suc.prems u1 by (auto simp: word_less_nat_alt simp del: of_nat_Suc)
  let ?s = "s\<lparr>bootCounter := of_nat (Suc b)\<rparr>"
  have pass: "bl_pass ch s = (if b = 50 then (if crc_support ch \<and> \<not> check_firmware ?s then (Reset, bl_log 2 [4, 2] ?s) else (Jump_app, ?s))
      else (Go_on, ?s))"
    using pos gt by (simp add: bl_pass_def bl_receive_none [OF Suc.prems(1)] bl_boot_def Let_def inc del: of_nat_Suc)
  show ?case
  proof (cases "b = 50")
    case True
    then show ?thesis using pass by (simp add: Let_def)
  next
    case False
    have "bl_ok ?s" using Suc.prems(1) by (simp add: bl_ok_def)
    then show ?thesis using Suc.IH [of ?s "Suc b"] Suc.prems False pass by (simp add: Let_def del: of_nat_Suc)
  qed
qed

text \<open>A board that nobody stops decides at the fiftieth pass of the loop, not before: the bootloader with
  checksum starts the application if the checksum is right and resets the board otherwise, the one
  without starts it in any case.\<close>

theorem bootloader_decides:
  assumes "\<not> mcp2515_message_available m" and "length dat = 8"
  shows "fst (bl_run ch (replicate n None) (bl_main ch mcusr dat buf ee fl m)) =
    (if n < 50 then Go_on
     else if crc_support ch \<and> \<not> check_firmware (bl_main ch mcusr dat buf ee fl m) then Reset else Jump_app)"
proof -
  let ?s = "bl_main ch mcusr dat buf ee fl m"
  have "check_firmware (?s\<lparr>bootCounter := 51\<rparr>) = check_firmware ?s" by (simp add: check_firmware_def)
  then show ?thesis using quiet_run [OF bl_main_ok [OF assms(1,2)], of ch mcusr buf ee fl 1 ch n]
    by (simp add: Let_def)
qed

text \<open>A damaged application is not started: when the two bytes of one flash word of an application
  with the right checksum change in any way, an undisturbed board resets instead of starting it.\<close>

theorem damaged_firmware_not_started:
  assumes "crc_support ch" and "\<not> mcp2515_message_available m" and "length dat = 8"
    and "check_firmware (bl_main ch mcusr dat buf ee fl m)"
    and "2 * k + 1 < unat (eeprom_read_word EEPR_FIRMWARE_SIZE ee)"
    and "fl' (2 * k) \<noteq> fl (2 * k) \<or> fl' (2 * k + 1) \<noteq> fl (2 * k + 1)" and "\<forall>a. a div 2 \<noteq> k \<longrightarrow> fl' a = fl a"
  shows "fst (bl_run ch (replicate 50 None) (bl_main ch mcusr dat buf ee fl' m)) = Reset"
proof -
  let ?sz = "eeprom_read_word EEPR_FIRMWARE_SIZE ee"
  have "k < unat ?sz div 2" using assms(5) by simp
  then have "calculate_crc16_over_flash ?sz fl \<noteq> calculate_crc16_over_flash ?sz fl'"
    by (rule crc16_detects_word) (use assms(6,7) in auto)
  then have "\<not> check_firmware (bl_main ch mcusr dat buf ee fl' m)" using assms(4) by (simp add: check_firmware_def)
  then show ?thesis using bootloader_decides [OF assms(2,3), where n = 50] assms(1) by simp
qed


text \<open>A firmware of one word, both bytes zero.\<close>

definition ex_firmware_eeprom :: "nat \<Rightarrow> u8" where
  "ex_firmware_eeprom = (\<lambda>_. 0)(2 := 100, 16 := 1, 17 := 176, 18 := 2)"

abbreviation ex_bl :: "(nat \<Rightarrow> u8) \<Rightarrow> bl" where
  "ex_bl fl \<equiv> bl_main atmega644 1 (replicate 8 0) (replicate 256 0) ex_firmware_eeprom fl blank"

lemma ex_firmware_crc: "calculate_crc16_over_flash 2 (\<lambda>_. 0) = 0xb001"
proof -
  have c: "crc16_update 0xffff 0 = 0x40bf" "crc16_update 0x40bf 0 = 0xb001" by code_simp+
  have u: "[0..<unat (2 :: u16) div 2] = [0]" by simp
  show ?thesis by (simp only: calculate_crc16_over_flash_def u fold.simps id_comp comp_id crc16_word_def) (simp only: c)
qed

lemma ex_firmware_ok: "check_firmware (ex_bl (\<lambda>_. 0))" "\<not> mcp2515_message_available blank"
proof -
  have "eeprom_read_word EEPR_FIRMWARE_SIZE ex_firmware_eeprom = 2" "eeprom_read_word EEPR_FIRMWARE_CRC16 ex_firmware_eeprom = 0xb001"
    by (simp_all add: eeprom_read_word_def ex_firmware_eeprom_def word16_def)
  then show "check_firmware (ex_bl (\<lambda>_. 0))" by (simp add: check_firmware_def ex_firmware_crc)
  show "\<not> mcp2515_message_available blank" by (simp add: blank_def mcp2515_message_available_def mcp2515_read_register_def)
qed

theorem bootloader_decides_witness:
  "fst (bl_run atmega644 (replicate 49 None) (ex_bl (\<lambda>_. 0))) = Go_on \<and>
   fst (bl_run atmega644 (replicate 50 None) (ex_bl (\<lambda>_. 0))) = Jump_app"
proof -
  have "length (replicate 8 (0 :: u8)) = 8" by simp
  note d = bootloader_decides [OF ex_firmware_ok(2) this, where ch = atmega644 and mcusr = 1 and buf = "replicate 256 0"
      and ee = ex_firmware_eeprom and fl = "\<lambda>_. 0"]
  show ?thesis using d [of 49] d [of 50] ex_firmware_ok(1) by simp
qed

theorem damaged_firmware_not_started_witness:
  "fst (bl_run atmega644 (replicate 50 None) (ex_bl ((\<lambda>_. 0)(1 := 7)))) = Reset"
proof (rule damaged_firmware_not_started [where k = 0 and fl = "\<lambda>_. 0"])
  show "2 * 0 + 1 < unat (eeprom_read_word EEPR_FIRMWARE_SIZE ex_firmware_eeprom)"
    by (simp add: eeprom_read_word_def ex_firmware_eeprom_def word16_def)
qed (use ex_firmware_ok in \<open>simp_all add: atmega644_def\<close>)

theorem bootloader_starts_checked_firmware_witness:
  "\<exists>s. bl_run atmega644 (Some (0, [1, 1]) # replicate 49 None) (ex_bl (\<lambda>_. 0)) = (Jump_app, s) \<and> check_firmware s"
proof -
  let ?s = "ex_bl (\<lambda>_. 0)"
  have ok: "bl_ok ?s" by (rule bl_main_ok) (simp_all add: ex_firmware_ok(2))
  have sa: "self_addr ?s = 100" by (simp add: bl_main_def bl_log_def Let_def ex_firmware_eeprom_def word16_def)
  let ?w = "with_data 0 [1, 1] ?s"
  have r: "bl_receive atmega644 (?s\<lparr>bl_mcp := put_frame 0 [1, 1] (bl_mcp ?s)\<rparr>) = (Go_on, ?w)"
    by (subst bl_receive_frame) (use ok sa in \<open>simp_all add: bl_ok_def addressed_def\<close>)
  let ?v = "?w\<lparr>bootCounter := 2\<rparr>"
  have p: "bl_pass atmega644 (?s\<lparr>bl_mcp := put_frame 0 [1, 1] (bl_mcp ?s)\<rparr>) = (Go_on, ?v)"
    by (simp add: bl_pass_def r bl_boot_def Let_def)
  have v: "bl_ok ?v" "check_firmware (?v\<lparr>bootCounter := 51\<rparr>)"
    using ok ex_firmware_ok(1) by (simp_all add: bl_ok_def check_firmware_def)
  have run: "bl_run atmega644 (Some (0, [1, 1]) # replicate 49 None) ?s = (Jump_app, ?v\<lparr>bootCounter := 51\<rparr>)"
    using quiet_run [OF v(1), of 2 atmega644 49] p v(2) by (simp add: Let_def del: replicate.simps)
  moreover have "check_firmware (?v\<lparr>bootCounter := 51\<rparr>)"
    by (rule bootloader_starts_checked_firmware [OF run]) (use ex_firmware_ok in \<open>auto simp: atmega644_def bl_main_def bl_log_def Let_def\<close>)
  ultimately show ?thesis by blast
qed

end
