(* ===== verification/Hostlink.thy ===== *)
theory Hostlink
  imports Canix Canix_Rxq
begin

text \<open>
  The way of a frame between the CAN bus and a program on the host: the firmware of the host interface
  (\<open>firmwares/hostinterface-v02/main.c\<close>) and the daemon behind the serial line (\<open>hcanhid/main.c\<close>) exchange
  frames as text, the daemon \<open>hcand\<close> passes the packets of each client to all others, the library
  (\<open>libhcan++/frame.cc\<close>) turns a frame into a packet and back, and \<open>hcanaddressd\<close> hands out the addresses
  of the programs. The theory shows that a frame comes through this way unchanged in both directions, and
  what a lost character does to it.
\<close>

section \<open>Packets and text\<close>

record CANFrame =
  cf_id :: u32
  cf_size :: u32
  cf_data :: "u8 list"

text \<open>Characters are bytes; commands are the capital letters.\<close>

abbreviation (input) ch_B :: u8 where "ch_B \<equiv> 0x42"
abbreviation (input) ch_C :: u8 where "ch_C \<equiv> 0x43"
abbreviation (input) ch_F :: u8 where "ch_F \<equiv> 0x46"
abbreviation (input) ch_P :: u8 where "ch_P \<equiv> 0x50"
abbreviation (input) ch_R :: u8 where "ch_R \<equiv> 0x52"
abbreviation (input) ch_S :: u8 where "ch_S \<equiv> 0x53"
abbreviation (input) ch_Y :: u8 where "ch_Y \<equiv> 0x59"

definition is_command :: "u8 \<Rightarrow> bool" where
  "is_command c = (0x41 \<le> c \<and> c \<le> 0x5a)"

definition hexchars :: "u8 list" where
  "hexchars = [0x30, 0x31, 0x32, 0x33, 0x34, 0x35, 0x36, 0x37, 0x38, 0x39, 0x61, 0x62, 0x63, 0x64, 0x65, 0x66]"

definition send_char_to_HT :: "u8 \<Rightarrow> u8 list" where
  "send_char_to_HT c = [hexchars ! unat (drop_bit 4 (c AND 0xf0)), hexchars ! unat (c AND 0x0f)]"

definition convert_hexstr2int :: "u8 \<Rightarrow> u8 \<Rightarrow> u8" where
  "convert_hexstr2int msb lsb =
     (let v = (if msb \<ge> 0x30 \<and> msb \<le> 0x39 then push_bit 4 (msb - 0x30) else push_bit 4 (msb - 0x61 + 10))
      in v OR (if lsb \<ge> 0x30 \<and> lsb \<le> 0x39 then lsb - 0x30 else lsb - 0x61 + 10))"

definition id_bytes :: "u32 \<Rightarrow> u8 list" where
  "id_bytes i = [ucast (i AND 0xff), ucast (drop_bit 8 i AND 0xff), ucast (drop_bit 16 i AND 0xff),
     ucast (drop_bit 24 i AND 0xff)]"

definition id_of_bytes :: "u8 list \<Rightarrow> u32" where
  "id_of_bytes b = ucast (b ! 0) OR push_bit 8 (ucast (b ! 1)) OR push_bit 16 (ucast (b ! 2)) OR push_bit 24 (ucast (b ! 3))"

text \<open>The text of a frame.\<close>

definition frame_text :: "u32 \<Rightarrow> u8 \<Rightarrow> u8 list \<Rightarrow> u8 list" where
  "frame_text i sz d = [ch_C] @ concat (map send_char_to_HT (id_bytes i @ [sz] @ d)) @ [ch_F]"

section \<open>The host interface\<close>

text \<open>\<open>hi_reset\<close> is set once the firmware waits for the watchdog; it then handles nothing more. \<open>hi_rx\<close> is the
  receive queue, which the timer interrupt fills from the controller \<open>hi_mcp\<close>. \<open>usb_out\<close> is what the firmware has
  written to the host.\<close>

record hi =
  obuffer :: "u8 list"
  oindex :: u8
  hi_first :: "u8 option"
  hi_mcp :: mcp
  hi_rx :: rx_state
  usb_out :: "u8 list"
  hi_reset :: bool

definition usb_putc :: "u8 \<Rightarrow> hi \<Rightarrow> hi" where
  "usb_putc c s = s\<lparr>usb_out := usb_out s @ [c]\<rparr>"

text \<open>The main loop calls it only when the queue holds a frame; of the buffer on the stack only the bytes of the frame
  are written, so that its old contents do not matter.\<close>

definition handle_frame_input :: "hi \<Rightarrow> hi" where
  "handle_frame_input s =
     (case can_read_message [] (rxs_queue (hi_rx s)) of
        None \<Rightarrow> s
      | Some ((sz, extended, d), q) \<Rightarrow>
          s\<lparr>hi_rx := (hi_rx s)\<lparr>rxs_queue := q\<rparr>, usb_out := usb_out s @ frame_text extended sz d\<rparr>)"

text \<open>The timer interrupt of the interface, as far as it receives; \<open>None\<close> where it overruns its buffer.\<close>

definition hi_isr :: "hi \<Rightarrow> hi option" where
  "hi_isr s = (case isr_poll (hi_mcp s) (hi_rx s) of None \<Rightarrow> None | Some (m, r) \<Rightarrow> Some (s\<lparr>hi_mcp := m, hi_rx := r\<rparr>))"

definition hi_command :: "u8 \<Rightarrow> hi \<Rightarrow> hi" where
  "hi_command c s =
     (if c = ch_B then usb_putc ch_B (s\<lparr>oindex := 0, hi_first := None\<rparr>)
      else if c = ch_C then s\<lparr>hi_first := None, oindex := 0\<rparr>
      else if c = ch_F then
        (if uint (obuffer s ! 4) \<noteq> uint (oindex s) - 5 then s\<lparr>hi_reset := True\<rparr>
         else s\<lparr>hi_mcp := snd (can_send_message (id_of_bytes (obuffer s)) (drop 5 (obuffer s)) (obuffer s ! 4) (hi_mcp s))\<rparr>)
      else if c = ch_P then usb_putc ch_P s
      else if c = ch_R then s\<lparr>hi_reset := True\<rparr>
      else if c = ch_S then usb_putc 0x32 (usb_putc 0x30 s)
      else s)"

text \<open>A \<open>char\<close> of this compiler is signed, so that \<open>0xff\<close> as a first digit is the -1 of an empty \<open>firstBitsChar\<close>.\<close>

definition hi_value :: "u8 \<Rightarrow> hi \<Rightarrow> hi" where
  "hi_value c s =
     (case hi_first s of
        None \<Rightarrow> s\<lparr>hi_first := (if c = 0xff then None else Some c)\<rparr>
      | Some m \<Rightarrow> s\<lparr>obuffer := (obuffer s)[unat (oindex s) := convert_hexstr2int m c], oindex := oindex s + 1, hi_first := None\<rparr>)"

definition handle_serial_input :: "u8 \<Rightarrow> hi \<Rightarrow> hi" where
  "handle_serial_input c s =
     (if hi_reset s then s
      else let s = (if is_command c then hi_command c s else hi_value c s)
           in if oindex s > 63 then s\<lparr>hi_reset := True\<rparr> else s)"

text \<open>A pass of the main loop, with the character that has come over the line, if any.\<close>

definition hi_pass :: "u8 option \<Rightarrow> hi \<Rightarrow> hi" where
  "hi_pass c s =
     (if hi_reset s then s
      else let s = (if can_message_available (rxs_queue (hi_rx s)) then handle_frame_input s else s)
           in case c of None \<Rightarrow> s | Some c \<Rightarrow> handle_serial_input c s)"

section \<open>The daemon behind the serial line\<close>

text \<open>\<open>hid_fault\<close> is set when a buffer is overrun: \<open>ibuffer\<close> has 64 bytes and a frame eight. The two frames
  with their busy flags are options; \<open>uart_out\<close> and \<open>udp_out\<close> are what was written to the serial line and
  to the socket. \<open>hid_wait\<close>: the program blocks in \<open>recchar\<close> for the character after a \<open>Y\<close>; \<open>hid_abort\<close>: an
  assertion has ended it.\<close>

record hid =
  ibuffer :: "u8 list"
  iindex :: u8
  firstBitsChar :: "u8 option"
  frame_to_hcand :: "CANFrame option"
  frame_to_hi :: "CANFrame option"
  uart_out :: "u8 list"
  udp_out :: "CANFrame list"
  hid_wait :: bool
  hid_fault :: bool
  hid_abort :: bool

text \<open>Draining the line before the \<open>R\<close> drops characters that have not been delivered yet.\<close>

definition reset_HI :: "hid \<Rightarrow> hid" where
  "reset_HI s = s\<lparr>uart_out := uart_out s @ [ch_R]\<rparr>"

definition hid_command :: "u8 \<Rightarrow> hid \<Rightarrow> hid" where
  "hid_command c s =
     (if c = ch_B then s\<lparr>iindex := 0\<rparr>
      else if c = ch_Y then s\<lparr>hid_wait := True\<rparr>
      else if c = ch_C then s\<lparr>iindex := 0\<rparr>
      else if c = ch_F then
        (let extended = id_of_bytes (ibuffer s); sz = ibuffer s ! 4
         in if uint sz \<noteq> uint (iindex s) - 5 then (reset_HI s)\<lparr>iindex := 0\<rparr>
            else (let frame = \<lparr>cf_id = extended, cf_size = ucast sz, cf_data = take (unat sz) (drop 5 (ibuffer s))\<rparr>;
                      s = s\<lparr>hid_fault := hid_fault s \<or> sz > 8\<rparr>
                  in if frame_to_hcand s = None then s\<lparr>frame_to_hcand := Some frame\<rparr> else s))
      else s\<lparr>uart_out := uart_out s @ [ch_R]\<rparr>)"

definition hid_value :: "u8 \<Rightarrow> hid \<Rightarrow> hid" where
  "hid_value c s =
     (case firstBitsChar s of
        None \<Rightarrow> s\<lparr>firstBitsChar := Some c\<rparr>
      | Some m \<Rightarrow> s\<lparr>ibuffer := (ibuffer s)[unat (iindex s) := convert_hexstr2int m c], iindex := iindex s + 1,
           firstBitsChar := None, hid_fault := hid_fault s \<or> iindex s \<ge> 64\<rparr>)"

definition hid_char :: "u8 \<Rightarrow> hid \<Rightarrow> hid" where
  "hid_char c s =
     (if hid_wait s then s\<lparr>hid_wait := False, iindex := 0\<rparr>
      else if is_command c then hid_command c s else hid_value c s)"

text \<open>The assertion in \<open>send_frame_to_HI\<close> comes after the identifier has been written.\<close>

definition send_frame_to_HI :: "CANFrame \<Rightarrow> hid \<Rightarrow> hid" where
  "send_frame_to_HI f s =
     (if cf_size f \<le> 8
      then s\<lparr>uart_out := uart_out s @ frame_text (cf_id f) (ucast (cf_size f)) (take (unat (cf_size f)) (cf_data f))\<rparr>
      else s\<lparr>uart_out := uart_out s @ [ch_C] @ concat (map send_char_to_HT (id_bytes (cf_id f))), hid_abort := True\<rparr>)"

text \<open>A turn of the main loop after \<open>select\<close>: which of the two descriptors can be written, the packet that
  can be read from the socket and the character from the line, if any.\<close>

definition hid_loop :: "bool \<Rightarrow> bool \<Rightarrow> CANFrame option \<Rightarrow> u8 option \<Rightarrow> hid \<Rightarrow> hid" where
  "hid_loop wr_hcand wr_hi packet c s =
     (if hid_abort s then s
      else
        let wr_hcand = (wr_hcand \<and> frame_to_hcand s \<noteq> None); wr_hi = (wr_hi \<and> frame_to_hi s \<noteq> None);
            s = (if \<not> wr_hcand \<and> \<not> wr_hi \<and> packet = None \<and> c = None
                 then s\<lparr>udp_out := udp_out s @ [\<lparr>cf_id = 0, cf_size = 0, cf_data = replicate 8 0\<rparr>]\<rparr> else s);
            s = (if wr_hcand then s\<lparr>udp_out := udp_out s @ [the (frame_to_hcand s)], frame_to_hcand := None\<rparr> else s);
            s = (if wr_hi then (send_frame_to_HI (the (frame_to_hi s)) s)\<lparr>frame_to_hi := None\<rparr> else s)
        in if hid_abort s then s
           else let s = (if frame_to_hi s = None \<and> packet \<noteq> None then s\<lparr>frame_to_hi := packet\<rparr> else s)
                in case c of None \<Rightarrow> s | Some c \<Rightarrow> hid_char c s)"

section \<open>Receiving the text\<close>

text \<open>What both ends of the line have in common: two digits in a row store a byte as long as there is room.\<close>

locale serial_receiver =
  fixes recv :: "u8 \<Rightarrow> 's \<Rightarrow> 's" and ready :: "'s \<Rightarrow> bool" and store :: "u8 \<Rightarrow> 's \<Rightarrow> 's"
    and buf :: "'s \<Rightarrow> u8 list" and idx :: "'s \<Rightarrow> nat" and cap :: nat
  assumes two_digits: "ready s \<Longrightarrow> idx s < cap \<Longrightarrow> \<not> is_command m \<Longrightarrow> m \<noteq> 0xff \<Longrightarrow>
      \<not> is_command c \<Longrightarrow> recv c (recv m s) = store (convert_hexstr2int m c) s"
    and store_ready: "ready s \<Longrightarrow> idx s < cap \<Longrightarrow> ready (store v s)"
    and store_buf: "idx s < cap \<Longrightarrow> buf (store v s) = (buf s)[idx s := v] \<and> idx (store v s) = idx s + 1"
    and buf_room: "ready s \<Longrightarrow> cap \<le> length (buf s)"

definition digit :: "u8 \<Rightarrow> u8" where
  "digit c = (if c \<ge> 0x30 \<and> c \<le> 0x39 then c - 0x30 else c - 0x61 + 10)"

lemma convert_digits: "convert_hexstr2int m l = push_bit 4 (digit m) OR digit l"
  by (simp add: convert_hexstr2int_def digit_def Let_def)

lemma nibble:
  assumes "n < 16"
  shows "\<not> is_command (hexchars ! n)" "digit (hexchars ! n) = of_nat n" "hexchars ! n \<noteq> 0xff"
proof -
  have "n \<in> {0, 1, 2, 3, 4, 5, 6, 7, 8, 9, 10, 11, 12, 13, 14, 15}" using assms by (simp add: numeral_eq_Suc less_Suc_eq)
  then show "\<not> is_command (hexchars ! n)" "digit (hexchars ! n) = of_nat n" "hexchars ! n \<noteq> 0xff"
    by (auto simp: is_command_def hexchars_def digit_def)
qed

lemma hex_digits:
  obtains m l where "send_char_to_HT c = [m, l]" "\<not> is_command m" "\<not> is_command l" "convert_hexstr2int m l = c" "m \<noteq> 0xff"
proof -
  have m: "drop_bit 4 (c AND 0xf0) = drop_bit 4 c" "c AND 0x0f = take_bit 4 c"
  proof -
    have k: "(0xf0 :: u8) = push_bit 4 (mask 4)" "(0x0f :: u8) = mask 4" by (simp_all add: mask_eq_exp_minus_1 push_bit_eq_mult)
    show "drop_bit 4 (c AND 0xf0) = drop_bit 4 c"
      unfolding k(1) by (rule bit_word_eqI) (auto simp: bit_drop_bit_eq bit_and_iff bit_push_bit_iff bit_mask_iff dest: bit_imp_le_length)
    show "c AND 0x0f = take_bit 4 c"
      unfolding k(2) by (rule bit_word_eqI) (auto simp: bit_take_bit_iff bit_and_iff bit_mask_iff)
  qed
  let ?h = "unat (drop_bit 4 c)" and ?l = "unat (take_bit 4 c)"
  have lt: "?h < 16" "?l < 16" using unat_u8_less [of c] by (simp_all add: drop_bit_eq_div take_bit_eq_mod unat_div unat_mod)
  have split: "push_bit 4 (drop_bit 4 c) OR take_bit 4 c = c" by (rule bit_word_eqI) (auto simp: bit_simps)
  have "convert_hexstr2int (hexchars ! ?h) (hexchars ! ?l) = c"
    using split by (simp add: convert_digits nibble(2) lt)
  then show ?thesis using that nibble(1,3) lt m by (simp add: send_char_to_HT_def)
qed

context serial_receiver
begin

lemma receive_bytes:
  "ready s \<Longrightarrow> idx s + length vs \<le> cap \<Longrightarrow>
    fold recv (concat (map send_char_to_HT vs)) s = fold store vs s \<and> ready (fold store vs s) \<and>
    idx (fold store vs s) = idx s + length vs \<and>
    buf (fold store vs s) = take (idx s) (buf s) @ vs @ drop (idx s + length vs) (buf s)"
proof (induction vs arbitrary: s)
  case (Cons v vs)
  obtain m l where d: "send_char_to_HT v = [m, l]" "\<not> is_command m" "\<not> is_command l" "convert_hexstr2int m l = v" "m \<noteq> 0xff"
    by (rule hex_digits)
  have r: "idx s < cap" "idx s < length (buf s)" using Cons.prems buf_room [of s] by simp_all
  then have "take (idx s + 1) ((buf s)[idx s := v]) = take (idx s) (buf s) @ [v]"
    by (simp add: take_Suc_conv_app_nth)
  then show ?case
    using Cons two_digits [OF Cons.prems(1) r(1) d(2,5,3)] store_ready [OF Cons.prems(1) r(1), of v] store_buf [OF r(1), of v] d(1,4)
    by simp
qed simp

end

section \<open>The two receivers\<close>

definition hi_ready :: "hi \<Rightarrow> bool" where
  "hi_ready s = (hi_first s = None \<and> \<not> hi_reset s \<and> length (obuffer s) = 64)"

definition hi_store :: "u8 \<Rightarrow> hi \<Rightarrow> hi" where
  "hi_store v s = s\<lparr>obuffer := (obuffer s)[unat (oindex s) := v], oindex := oindex s + 1\<rparr>"

lemma eq_of_nat_unat: "unat (w :: 'a::len word) = n \<Longrightarrow> w = of_nat n"
  by auto

lemma index_small: "unat w < n \<Longrightarrow> n \<le> 64 \<Longrightarrow> \<not> (w :: u8) > 63 \<and> unat (w + 1) = unat w + 1"
  by (simp add: word_less_nat_alt unat_plus_one_lt)

interpretation hirx: serial_receiver handle_serial_input hi_ready hi_store obuffer "\<lambda>s. unat (oindex s)" 63
proof
  fix s :: hi and m c v
  assume i: "unat (oindex s) < 63"
  then have k: "\<not> oindex s > 63" "unat (oindex s + 1) = unat (oindex s) + 1" "\<not> oindex s + 1 > 63"
    using index_small [of "oindex s" 63] by (auto simp: word_less_nat_alt)
  show "obuffer (hi_store v s) = (obuffer s)[unat (oindex s) := v] \<and> unat (oindex (hi_store v s)) = unat (oindex s) + 1"
    using k by (simp add: hi_store_def)
  assume r: "hi_ready s"
  show "hi_ready (hi_store v s)" using r by (simp add: hi_store_def hi_ready_def)
  assume "\<not> is_command m" "m \<noteq> 0xff" "\<not> is_command c"
  then show "handle_serial_input c (handle_serial_input m s) = hi_store (convert_hexstr2int m c) s"
    using r k by (simp add: handle_serial_input_def hi_ready_def hi_value_def hi_store_def)
qed (simp add: hi_ready_def)

definition hid_ready :: "hid \<Rightarrow> bool" where
  "hid_ready s = (firstBitsChar s = None \<and> \<not> hid_wait s \<and> length (ibuffer s) = 64)"

definition hid_store :: "u8 \<Rightarrow> hid \<Rightarrow> hid" where
  "hid_store v s = s\<lparr>ibuffer := (ibuffer s)[unat (iindex s) := v], iindex := iindex s + 1\<rparr>"

interpretation hidrx: serial_receiver hid_char hid_ready hid_store ibuffer "\<lambda>s. unat (iindex s)" 64
proof
  fix s :: hid and m c v
  assume i: "unat (iindex s) < 64"
  then have k: "\<not> iindex s \<ge> 64" "unat (iindex s + 1) = unat (iindex s) + 1"
    using index_small [of "iindex s" 64] by (auto simp: word_le_nat_alt)
  show "ibuffer (hid_store v s) = (ibuffer s)[unat (iindex s) := v] \<and> unat (iindex (hid_store v s)) = unat (iindex s) + 1"
    using k by (simp add: hid_store_def)
  assume r: "hid_ready s"
  show "hid_ready (hid_store v s)" using r by (simp add: hid_store_def hid_ready_def)
  assume "\<not> is_command m" "m \<noteq> 0xff" "\<not> is_command c"
  then show "hid_char c (hid_char m s) = hid_store (convert_hexstr2int m c) s"
    using r k by (simp add: hid_char_def hid_ready_def hid_value_def hid_store_def)
qed (simp add: hid_ready_def)

lemma store_frames:
  "fold hi_store vs s = s\<lparr>obuffer := obuffer (fold hi_store vs s), oindex := oindex (fold hi_store vs s)\<rparr>"
  "fold hid_store vs t = t\<lparr>ibuffer := ibuffer (fold hid_store vs t), iindex := iindex (fold hid_store vs t)\<rparr>"
proof -
  show "fold hi_store vs s = s\<lparr>obuffer := obuffer (fold hi_store vs s), oindex := oindex (fold hi_store vs s)\<rparr>"
  proof (induction vs arbitrary: s)
    case (Cons v vs)
    show ?case using Cons.IH [of "hi_store v s"] by (simp add: hi_store_def)
  qed simp
  show "fold hid_store vs t = t\<lparr>ibuffer := ibuffer (fold hid_store vs t), iindex := iindex (fold hid_store vs t)\<rparr>"
  proof (induction vs arbitrary: t)
    case (Cons v vs)
    show ?case using Cons.IH [of "hid_store v t"] by (simp add: hid_store_def)
  qed simp
qed

section \<open>A frame comes through\<close>

lemma id_round [simp]: "id_of_bytes (id_bytes i @ rest) = i" "length (id_bytes i) = 4"
proof -
  have k: "(0xff :: u32) = mask 8" by (simp add: mask_eq_exp_minus_1)
  have "id_of_bytes (id_bytes i @ rest) = ucast (ucast (i AND mask 8) :: u8) OR push_bit 8 (ucast (ucast (drop_bit 8 i AND mask 8) :: u8))
      OR push_bit 16 (ucast (ucast (drop_bit 16 i AND mask 8) :: u8)) OR push_bit 24 (ucast (ucast (drop_bit 24 i AND mask 8) :: u8))"
    unfolding id_of_bytes_def id_bytes_def k by (simp add: nth_append)
  also have "\<dots> = i" by (rule u32_eqI) (simp add: bit_simps)
  finally show "id_of_bytes (id_bytes i @ rest) = i" .
qed (simp add: id_bytes_def)

lemma frame_text_run:
  "fold recv (frame_text i sz d) s = recv ch_F (fold recv (concat (map send_char_to_HT (id_bytes i @ [sz] @ d))) (recv ch_C s))"
  by (simp add: frame_text_def)

lemma hi_receives:
  assumes "\<not> hi_reset s" "length (obuffer s) = 64" "length d \<le> 8" "sz = of_nat (length d)"
  shows "\<exists>ob. length ob = 64 \<and> fold handle_serial_input (frame_text i sz d) s =
    s\<lparr>hi_first := None, obuffer := ob, oindex := of_nat (5 + length d), hi_mcp := snd (can_send_message i d sz (hi_mcp s))\<rparr>"
proof -
  let ?s = "s\<lparr>hi_first := None, oindex := 0\<rparr>" and ?vs = "id_bytes i @ [sz] @ d"
  have c: "handle_serial_input ch_C s = ?s" using assms(1) by (simp add: handle_serial_input_def is_command_def hi_command_def)
  have r: "hi_ready ?s" "unat (oindex ?s) + length ?vs \<le> 63" using assms by (simp_all add: hi_ready_def)
  define t where "t = fold hi_store ?vs ?s"
  note rb = hirx.receive_bytes [OF r, folded t_def]
  have ob: "obuffer t = ?vs @ drop (5 + length d) (obuffer s)" "unat (oindex t) = 5 + length d" "hi_ready t"
    using rb by simp_all
  have idx: "oindex t = of_nat (5 + length d)" by (rule eq_of_nat_unat [OF ob(2)])
  have sz: "unat sz = length d" "uint sz = int (length d)" using assms(3,4) by (simp_all add: unat_of_nat uint_nat)
  have ui: "uint (oindex t) = 5 + int (length d)" using ob(2) by (simp add: uint_nat)
  have t: "t = s\<lparr>hi_first := None, obuffer := obuffer t, oindex := of_nat (5 + length d)\<rparr>"
    using store_frames(1) [of ?vs ?s, folded t_def] by (simp add: idx)
  have 4: "obuffer t ! 4 = sz" "drop 5 (obuffer t) = d @ drop (5 + length d) (obuffer s)" "id_of_bytes (obuffer t) = i"
    unfolding ob(1) using id_round(1) [of i "[sz] @ d @ drop (5 + length d) (obuffer s)"] by (simp_all add: nth_append)
  have cs: "can_send_message i (d @ e) sz m = can_send_message i d sz m" for e m
    by (simp add: can_send_message_def load_tx_buffer_def Let_def sz(1))
  have "\<not> oindex t > 63" using ob(2) assms(3) by (simp add: word_less_nat_alt)
  moreover have "hi_mcp t = hi_mcp s" by (subst t) simp
  ultimately have "handle_serial_input ch_F t = t\<lparr>hi_mcp := snd (can_send_message i d sz (hi_mcp s))\<rparr>"
    using ob(3) ui sz(2) 4 cs by (simp add: handle_serial_input_def hi_ready_def is_command_def hi_command_def)
  moreover have "fold handle_serial_input (frame_text i sz d) s = handle_serial_input ch_F t"
    using rb by (simp add: frame_text_run c t_def)
  moreover have "t\<lparr>hi_mcp := snd (can_send_message i d sz (hi_mcp s))\<rparr> = s\<lparr>hi_first := None, obuffer := obuffer t,
      oindex := of_nat (5 + length d), hi_mcp := snd (can_send_message i d sz (hi_mcp s))\<rparr>" by (subst t) simp
  moreover have "length (obuffer t) = 64" using ob(3) by (simp add: hi_ready_def)
  ultimately show ?thesis by metis
qed

text \<open>The daemon needs an idle digit position when the text begins.\<close>

lemma hid_receives:
  assumes "hid_ready s" "frame_to_hcand s = None" "length d \<le> 8" "sz = of_nat (length d)"
  shows "\<exists>ib. length ib = 64 \<and> fold hid_char (frame_text i sz d) s =
    s\<lparr>ibuffer := ib, iindex := of_nat (5 + length d), frame_to_hcand := Some \<lparr>cf_id = i, cf_size = ucast sz, cf_data = d\<rparr>\<rparr>"
proof -
  let ?s = "s\<lparr>iindex := 0\<rparr>" and ?vs = "id_bytes i @ [sz] @ d"
  have c: "hid_char ch_C s = ?s" using assms(1) by (simp add: hid_char_def hid_ready_def is_command_def hid_command_def)
  have r: "hid_ready ?s" "unat (iindex ?s) + length ?vs \<le> 64" using assms by (simp_all add: hid_ready_def)
  define t where "t = fold hid_store ?vs ?s"
  note rb = hidrx.receive_bytes [OF r, folded t_def]
  have ib: "ibuffer t = ?vs @ drop (5 + length d) (ibuffer s)" "unat (iindex t) = 5 + length d" "hid_ready t"
    using rb by simp_all
  have idx: "iindex t = of_nat (5 + length d)" by (rule eq_of_nat_unat [OF ib(2)])
  have sz: "unat sz = length d" "uint sz = int (length d)" "\<not> sz > 8"
    using assms(3,4) by (simp_all add: unat_of_nat uint_nat word_less_nat_alt)
  have ui: "uint (iindex t) = 5 + int (length d)" using ib(2) by (simp add: uint_nat)
  have t: "t = s\<lparr>ibuffer := ibuffer t, iindex := of_nat (5 + length d)\<rparr>"
    using store_frames(2) [of ?vs ?s, folded t_def] by (simp add: idx)
  have 4: "ibuffer t ! 4 = sz" "drop 5 (ibuffer t) = d @ drop (5 + length d) (ibuffer s)" "id_of_bytes (ibuffer t) = i"
    unfolding ib(1) using id_round(1) [of i "[sz] @ d @ drop (5 + length d) (ibuffer s)"] by (simp_all add: nth_append)
  have k: "frame_to_hcand t = None" "hid_fault t = hid_fault s" using assms(2) by (subst t, simp)+
  let ?f = "\<lparr>cf_id = i, cf_size = ucast sz, cf_data = d\<rparr>"
  have "hid_char ch_F t = t\<lparr>frame_to_hcand := Some ?f\<rparr>"
    using ib(3) ui sz 4 k by (simp add: hid_char_def hid_ready_def is_command_def hid_command_def Let_def)
  moreover have "fold hid_char (frame_text i sz d) s = hid_char ch_F t" using rb by (simp add: frame_text_run c t_def)
  moreover have "t\<lparr>frame_to_hcand := Some ?f\<rparr> = s\<lparr>ibuffer := ibuffer t, iindex := of_nat (5 + length d), frame_to_hcand := Some ?f\<rparr>"
    by (subst t) simp
  moreover have "length (ibuffer t) = 64" using ib(3) by (simp add: hid_ready_def)
  ultimately show ?thesis by metis
qed

section \<open>Frames of the library\<close>

record hframe =
  m_src :: u16
  m_dst :: u16
  m_proto :: u8
  m_prio :: u8
  m_data :: "u8 list"
  m_size :: u32

abbreviation (input) prio_lo :: u8 where "prio_lo \<equiv> 3"

text \<open>The constructor from an array cuts the size to eight; the one from a vector writes every byte, past the
  eight of the frame if there are more (\<open>None\<close>).\<close>

definition frame_array :: "u16 \<Rightarrow> u16 \<Rightarrow> u8 \<Rightarrow> u8 list \<Rightarrow> u32 \<Rightarrow> hframe" where
  "frame_array src dst proto d sz =
     (let n = (if sz > 8 then 8 else sz)
      in \<lparr>m_src = src, m_dst = dst, m_proto = proto, m_prio = prio_lo,
          m_data = take (unat n) d @ replicate (8 - unat n) 0, m_size = n\<rparr>)"

definition frame_vector :: "u16 \<Rightarrow> u16 \<Rightarrow> u8 \<Rightarrow> u8 list \<Rightarrow> hframe option" where
  "frame_vector src dst proto d =
     (if length d > 8 then None
      else Some \<lparr>m_src = src, m_dst = dst, m_proto = proto, m_prio = prio_lo,
             m_data = d @ replicate (8 - length d) 0, m_size = of_nat (length d)\<rparr>)"

definition frame_data :: "hframe \<Rightarrow> nat \<Rightarrow> u8" where
  "frame_data f i = m_data f ! (i mod 8)"

definition frame_set_data :: "nat \<Rightarrow> u8 \<Rightarrow> hframe \<Rightarrow> hframe" where
  "frame_set_data i v f = f\<lparr>m_data := (m_data f)[i mod 8 := v], m_size := of_nat (i + 1)\<rparr>"

definition data_as_string :: "hframe \<Rightarrow> u8 list" where
  "data_as_string f = take (unat (m_size f)) (m_data f)"

text \<open>The packet has the bytes up to the size; what is behind them is not initialised and left out.\<close>

definition frame_write_to :: "hframe \<Rightarrow> CANFrame" where
  "frame_write_to f =
     \<lparr>cf_id = ucast (m_src f AND 0x3ff) OR push_bit 10 (ucast (m_dst f AND 0x3ff)) OR
        push_bit 20 (ucast (m_proto f AND 0x07)) OR push_bit 24 (ucast (m_prio f)),
      cf_size = m_size f, cf_data = take (unat (m_size f)) (m_data f)\<rparr>"

definition frame_read_from :: "CANFrame \<Rightarrow> hframe" where
  "frame_read_from cf =
     frame_array (ucast (cf_id cf AND 0x3ff)) (ucast (drop_bit 10 (cf_id cf) AND 0x3ff))
       (ucast (drop_bit 20 (cf_id cf) AND 0x7)) (cf_data cf) (cf_size cf)"

text \<open>The frame of a node, as the firmware sees it, and the same frame in the library.\<close>

definition node_frame :: "hframe \<Rightarrow> canix_frame" where
  "node_frame f = \<lparr>fr_src = m_src f, fr_dst = m_dst f, fr_proto = m_proto f, fr_size = ucast (m_size f),
     fr_data = data_as_string f\<rparr>"

definition host_frame :: "canix_frame \<Rightarrow> hframe" where
  "host_frame f = frame_array (fr_src f) (fr_dst f) (fr_proto f) (fr_data f) (ucast (fr_size f))"

lemma write_id: "cf_id (frame_write_to f) = canix_extid (node_frame f) (m_prio f)"
  by (simp add: frame_write_to_def canix_extid_def node_frame_def)

lemma read_from_extid:
  assumes "frame_wf f" "cf_id cf AND mask 29 = canix_extid f prio AND mask 29" "cf_size cf = ucast (fr_size f)"
    "cf_data cf = take (unat (fr_size f)) (fr_data f)"
  shows "frame_read_from cf = host_frame f"
proof -
  have m: "cf_id cf AND 0x3ff = (cf_id cf AND mask 29) AND 0x3ff" "drop_bit 10 (cf_id cf) AND 0x3ff = drop_bit 10 (cf_id cf AND mask 29) AND 0x3ff"
    "drop_bit 20 (cf_id cf) AND 7 = drop_bit 20 (cf_id cf AND mask 29) AND 7"
    unfolding mask_literals by (rule bit_word_eqI, auto simp: bit_simps dest: bit_imp_le_length)+
  have sz: "\<not> (ucast (fr_size f) :: u32) > 8" "unat (ucast (fr_size f) :: u32) = unat (fr_size f)"
    using assms(1) by (simp_all add: frame_wf_def word_less_nat_alt unsigned_ucast_eq take_bit_nat_eq_self)
  show ?thesis
    unfolding frame_read_from_def host_frame_def m assms(2) extid_masked_fields
    using assms(1,3,4) sz by (simp add: frame_array_def Let_def frame_wf_def ucast_mask_small16 ucast_mask_small8)
qed

lemma node_frame_host:
  assumes "frame_wf f"
  shows "node_frame (host_frame f) = f\<lparr>fr_data := take (unat (fr_size f)) (fr_data f)\<rparr>"
proof -
  have "\<not> (ucast (fr_size f) :: u32) > 8" "unat (ucast (fr_size f) :: u32) = unat (fr_size f)"
    using assms by (simp_all add: frame_wf_def word_less_nat_alt unsigned_ucast_eq take_bit_nat_eq_self)
  moreover have "ucast (ucast (fr_size f) :: u32) = fr_size f" by (rule bit_word_eqI) (auto simp: bit_simps)
  ultimately show ?thesis using assms by (simp add: node_frame_def host_frame_def frame_array_def Let_def data_as_string_def frame_wf_def)
qed

text \<open>C37: A frame sent by a program on the host arrives at the nodes of the bus: written to its packet, to the
  text of the serial line and from there into a transmit buffer of the host interface, the controller of any node that
  gets the contents of that buffer reads the addresses, the protocol, the size and the bytes of the frame. The daemon
  has taken the packet and has not been ended by an assertion, and the host interface does not wait for its reset and
  has a free transmit buffer; in which state its receiver was before does not matter.\<close>

theorem host_frame_reaches_node:
  assumes "frame_wf f" and "\<not> hid_abort h" and "frame_to_hi h = Some (frame_write_to (host_frame f))"
    and "\<not> hi_reset s" and "length (obuffer s) = 64" and "can_any_sendable (hi_mcp s)"
  shows "\<exists>k. can_sendable k (hi_mcp s) \<and>
    (let h' = hid_loop False True None None h;
         s' = fold handle_serial_input (drop (length (uart_out h)) (uart_out h')) s
     in \<not> hi_reset s' \<and> length (obuffer s') = 64 \<and> \<not> hid_abort h' \<and> frame_to_hi h' = None \<and>
        (\<forall>mb. rx_image mb = tx_image k (hi_mcp s') \<longrightarrow>
           frame_of_message (fst (mcp2515_read_message mb)) = f\<lparr>fr_data := take (unat (fr_size f)) (fr_data f)\<rparr>))"
proof -
  let ?g = "f\<lparr>fr_data := take (unat (fr_size f)) (fr_data f)\<rparr>" and ?cf = "frame_write_to (host_frame f)"
  let ?d = "take (unat (fr_size f)) (fr_data f)"
  have sz: "unat (fr_size f) \<le> 8" "length ?d = unat (fr_size f)" "fr_size f = of_nat (length ?d)" "frame_wf ?g"
    using assms(1) by (auto simp: frame_wf_def)
  have u: "unat (ucast (fr_size f) :: u32) = unat (fr_size f)"
    using sz(1) by (simp add: unsigned_ucast_eq take_bit_nat_eq_self)
  have n: "\<not> (ucast (fr_size f) :: u32) > 8" using sz(1) u by (simp add: word_less_nat_alt)
  have cf: "cf_size ?cf = ucast (fr_size f)" "cf_data ?cf = ?d" "ucast (cf_size ?cf) = fr_size f"
  proof -
    show s: "cf_size ?cf = ucast (fr_size f)" using n by (simp add: frame_write_to_def host_frame_def frame_array_def Let_def)
    show "cf_data ?cf = ?d" using n u sz by (simp add: frame_write_to_def host_frame_def frame_array_def Let_def)
    show "ucast (cf_size ?cf) = fr_size f" unfolding s by (rule bit_word_eqI) (auto simp: bit_simps)
  qed
  obtain i where i: "cf_id ?cf = i" "i = canix_extid ?g (m_prio (host_frame f))"
    using write_id [of "host_frame f"] node_frame_host [OF assms(1)] by simp
  have tx: "drop (length (uart_out h)) (uart_out (hid_loop False True None None h)) = frame_text i (fr_size f) ?d"
    "\<not> hid_abort (hid_loop False True None None h)" "frame_to_hi (hid_loop False True None None h) = None"
    using assms(2,3) n cf i(1) u by (simp_all add: hid_loop_def send_frame_to_HI_def Let_def not_less)
  obtain ob where s': "length ob = 64" "fold handle_serial_input (frame_text i (fr_size f) ?d) s =
      s\<lparr>hi_first := None, obuffer := ob, oindex := of_nat (5 + length ?d), hi_mcp := snd (can_send_message i ?d (fr_size f) (hi_mcp s))\<rparr>"
    using hi_receives [OF assms(4,5) _ sz(3)] sz(1,2) by metis
  obtain k where k: "can_sendable k (hi_mcp s)" "can_send_message i ?d (fr_size f) (hi_mcp s) =
      (MCP2515_OK, (load_tx_buffer k i ?d (fr_size f) (hi_mcp s))\<lparr>canix_tx_sent := canix_tx_sent (hi_mcp s) + 1\<rparr>)"
    using can_send_message_picks [OF assms(6)] by metis
  have "frame_of_message (fst (mcp2515_read_message mb)) = ?g"
    if "rx_image mb = tx_image k (snd (can_send_message i ?d (fr_size f) (hi_mcp s)))" for mb
  proof -
    have "rx_image mb = tx_image k (load_tx_buffer k i ?d (fr_size f) (hi_mcp s))"
      using that k(2) by (simp add: tx_image_def read_register_p_map)
    then have "fst (mcp2515_read_message mb) = (fr_size f, i AND mask 29, take (unat (fr_size f)) ?d)"
      by (rule read_message_of_load [rotated 2]) (use sz in simp_all)
    then show ?thesis using frame_of_extid [OF sz(4)] i(2) by simp
  qed
  then show ?thesis using k(1) s' tx assms(4) by (intro exI [of _ k]) (simp add: Let_def)
qed

text \<open>The daemon reads characters from the line, one in each turn of its main loop; the socket can be written. And
  a number of passes of the interface, after each of which the daemon reads what was written and has a turn to pass it on.\<close>

definition hid_line :: "u8 list \<Rightarrow> hid \<Rightarrow> hid" where
  "hid_line cs h = fold (\<lambda>c. hid_loop True False None (Some c)) cs h"

fun gateway_passes :: "nat \<Rightarrow> hi \<times> hid \<Rightarrow> hi \<times> hid" where
  "gateway_passes 0 (s, h) = (s, h)"
| "gateway_passes (Suc n) (s, h) =
     (let s' = hi_pass None s
      in gateway_passes n (s', hid_loop True False None None (hid_line (drop (length (usb_out s)) (usb_out s')) h)))"

text \<open>A frame as the message of the controller that carries it.\<close>

definition node_msg :: "canix_frame \<times> u8 \<Rightarrow> rx_msg" where
  "node_msg x = (case x of (f, prio) \<Rightarrow> (fr_size f, canix_extid f prio AND mask 29, take (unat (fr_size f)) (fr_data f)))"

lemma hid_char_keeps: "hid_abort (hid_char c h) = hid_abort h" "c \<noteq> ch_F \<Longrightarrow> frame_to_hcand (hid_char c h) = frame_to_hcand h"
  by (auto simp: hid_char_def hid_command_def hid_value_def reset_HI_def Let_def split: option.splits)

lemma hid_line_chars:
  "ch_F \<notin> set cs \<Longrightarrow> frame_to_hcand h = None \<Longrightarrow> \<not> hid_abort h \<Longrightarrow> hid_line cs h = fold hid_char cs h"
proof (induction cs arbitrary: h)
  case (Cons c cs)
  have "hid_loop True False None (Some c) h = hid_char c h" using Cons.prems by (simp add: hid_loop_def)
  moreover have "hid_line cs (hid_char c h) = fold hid_char cs (hid_char c h)"
    using Cons.IH [of "hid_char c h"] Cons.prems by (simp add: hid_char_keeps)
  ultimately show ?case by (simp add: hid_line_def)
qed (simp add: hid_line_def)

lemma digits_no_F: "ch_F \<notin> set (concat (map send_char_to_HT vs))"
proof (induction vs)
  case (Cons v vs)
  obtain m l where "send_char_to_HT v = [m, l]" "\<not> is_command m" "\<not> is_command l" by (metis hex_digits)
  then show ?case using Cons by (auto simp: is_command_def)
qed simp

lemma hid_line_frame:
  assumes "frame_to_hcand h = None" "\<not> hid_abort h"
  shows "hid_line (frame_text i sz d) h = fold hid_char (frame_text i sz d) h"
proof -
  let ?cs = "ch_C # concat (map send_char_to_HT (id_bytes i @ [sz] @ d))"
  have n: "ch_F \<notin> set ?cs" using digits_no_F [of "id_bytes i @ [sz] @ d"] by simp
  have k: "hid_abort (fold hid_char cs h) = hid_abort h" for cs h by (induction cs arbitrary: h) (simp_all add: hid_char_keeps)
  have f: "frame_to_hcand (fold hid_char cs h) = frame_to_hcand h" if "ch_F \<notin> set cs" for cs h
    using that by (induction cs arbitrary: h) (simp_all add: hid_char_keeps)
  define g where "g = fold hid_char ?cs h"
  have g: "frame_to_hcand g = None" "\<not> hid_abort g" "hid_line ?cs h = g"
    using f [OF n, of h] k [of ?cs h] hid_line_chars [OF n assms] assms by (simp_all add: g_def)
  have t: "frame_text i sz d = ?cs @ [ch_F]" by (simp add: frame_text_def)
  have "hid_line (?cs @ [ch_F]) h = hid_loop True False None (Some ch_F) g"
    using g(3) by (simp add: hid_line_def)
  also have "\<dots> = hid_char ch_F g" using g by (simp add: hid_loop_def)
  finally show ?thesis by (simp add: t g_def)
qed

text \<open>A frame through the daemon.\<close>

lemma daemon_passes_frame:
  assumes "frame_wf f" "hid_ready h" "frame_to_hcand h = None" "\<not> hid_abort h" "node_msg (f, prio) = (sz, i, d)"
  shows "\<exists>cf h'. hid_loop True False None None (hid_line (frame_text i sz d) h) = h' \<and> hid_ready h' \<and> frame_to_hcand h' = None \<and>
    \<not> hid_abort h' \<and> udp_out h' = udp_out h @ [cf] \<and> frame_read_from cf = host_frame f"
proof -
  have m: "sz = fr_size f" "i = canix_extid f prio AND mask 29" "d = take (unat sz) (fr_data f)" using assms(5) by (auto simp: node_msg_def)
  have sz: "length d \<le> 8" "sz = of_nat (length d)" using assms(1) m by (auto simp: frame_wf_def)
  let ?cf = "\<lparr>cf_id = i, cf_size = ucast sz, cf_data = d\<rparr>"
  obtain ib where h': "length ib = 64" "fold hid_char (frame_text i sz d) h =
      h\<lparr>ibuffer := ib, iindex := of_nat (5 + length d), frame_to_hcand := Some ?cf\<rparr>"
    using hid_receives [OF assms(2,3) sz] by blast
  have "frame_read_from ?cf = host_frame f"
    by (rule read_from_extid [OF assms(1), of _ prio]) (simp_all add: m)
  then show ?thesis using h' assms(2-4) by (simp add: hid_line_frame Let_def hid_loop_def hid_ready_def)
qed

text \<open>The queue is emptied frame by frame.\<close>

lemma passes_empty_queue:
  assumes "length (rxs_queue (hi_rx s)) = CANIX_QUEUE_SIZE" "rxq_bag (rxs_queue (hi_rx s)) = mset (map node_msg fs)" "\<not> hi_reset s"
    and "\<forall>(f, prio) \<in> set fs. frame_wf f" "hid_ready h" "frame_to_hcand h = None" "\<not> hid_abort h"
  shows "\<exists>s' h' cfs. gateway_passes (length fs) (s, h) = (s', h') \<and> rxq_bag (rxs_queue (hi_rx s')) = {#} \<and> hid_ready h' \<and>
    frame_to_hcand h' = None \<and> \<not> hid_abort h' \<and> udp_out h' = udp_out h @ cfs \<and>
    mset (map frame_read_from cfs) = mset (map (\<lambda>(f, prio). host_frame f) fs)"
  using assms
proof (induction "length fs" arbitrary: fs s h)
  case 0
  then show ?case by (intro exI [of _ s] exI [of _ h] exI [of _ "[]"]) simp
next
  case (Suc n)
  let ?q = "rxs_queue (hi_rx s)"
  have inv: "rxq_invar ?q" using Suc.prems(1) by (simp add: rxq_invar_def)
  have "rxq_bag ?q \<noteq> {#}" using Suc.hyps(2) Suc.prems(2) by auto
  then obtain x q where r: "can_read_message [] ?q = Some (x, q)" using rxq.get_None [OF inv] by (cases "can_read_message [] ?q") auto
  have b: "rxq_bag ?q = add_mset x (rxq_bag q)" "length q = CANIX_QUEUE_SIZE"
    using rxq.get_Some [OF inv r] can_read_message_length [OF r] Suc.prems(1) by simp_all
  then have "x \<in># mset (map node_msg fs)" using Suc.prems(2) by simp
  then obtain y where y: "y \<in> set fs" "x = node_msg y" by auto
  obtain f prio where fp: "y = (f, prio)" by (cases y)
  define gs where "gs = remove1 y fs"
  have m: "mset fs = add_mset y (mset gs)" using y(1) by (simp add: gs_def)
  have "add_mset x (rxq_bag q) = add_mset x (mset (map node_msg gs))" using b(1) Suc.prems(2) m y(2) by simp
  then have gs: "rxq_bag q = mset (map node_msg gs)" by simp
  have wf: "\<forall>(f, prio) \<in> set gs. frame_wf f" using Suc.prems(4) set_remove1_subset [of y fs] by (auto simp: gs_def)
  have n: "n = length gs" using y(1) Suc.hyps(2) by (simp add: gs_def length_remove1)
  obtain sz i d where x: "x = (sz, i, d)" by (cases x)
  have av: "can_message_available ?q" using r by (simp add: can_message_available_def can_read_message_def split: if_splits)
  define s1 where "s1 = hi_pass None s"
  have s1: "s1 = s\<lparr>hi_rx := (hi_rx s)\<lparr>rxs_queue := q\<rparr>, usb_out := usb_out s @ frame_text i sz d\<rparr>"
    using Suc.prems(3) av r x by (simp add: s1_def hi_pass_def handle_frame_input_def)
  have "frame_wf f" using Suc.prems(4) y(1) fp by auto
  from daemon_passes_frame [OF this Suc.prems(5-7), of prio sz i d] y(2) x fp
  obtain cf h1 where h1: "hid_loop True False None None (hid_line (frame_text i sz d) h) = h1" "hid_ready h1"
    "frame_to_hcand h1 = None" "\<not> hid_abort h1" "udp_out h1 = udp_out h @ [cf]" "frame_read_from cf = host_frame f" by auto
  obtain s' h' cfs where ih: "gateway_passes (length gs) (s1, h1) = (s', h')" "rxq_bag (rxs_queue (hi_rx s')) = {#}" "hid_ready h'"
    "frame_to_hcand h' = None" "\<not> hid_abort h'" "udp_out h' = udp_out h1 @ cfs"
    "mset (map frame_read_from cfs) = mset (map (\<lambda>(f, prio). host_frame f) gs)"
    using Suc.hyps(1) [OF n, of s1 h1] gs wf b(2) h1 Suc.prems(3) by (auto simp: s1)
  have "gateway_passes (length fs) (s, h) = (s', h')"
    using ih(1) h1(1) by (simp add: s1_def [symmetric] n flip: Suc.hyps(2)) (simp add: s1)
  moreover have "udp_out h' = udp_out h @ (cf # cfs)" using ih(6) h1(5) by simp
  moreover have "mset (map frame_read_from (cf # cfs)) = mset (map (\<lambda>(f, prio). host_frame f) fs)"
    using ih(7) h1(6) m fp by simp
  ultimately show ?case using ih(2-5) by blast
qed

text \<open>C38: The frames of the bus arrive at the programs of the host. The frame that waits in the controller of the host
  interface joins those in its receive queue, which is not full; when the main loop has passed once for each of them, the
  queue is empty and \<open>hcand\<close> has a packet for each, from which the library reads the same addresses, protocol, size and
  bytes (in any order, as the queue keeps none). The condition is that the daemon is not in the middle of a byte and has
  no frame waiting for \<open>hcand\<close> at first; it is in that state again afterwards. No character comes from the host meanwhile.\<close>

theorem node_frame_reaches_host:
  assumes "length (rxs_queue (hi_rx s)) = CANIX_QUEUE_SIZE" "rxq_bag (rxs_queue (hi_rx s)) = mset (map node_msg fs)"
    and "length fs < CANIX_QUEUE_SIZE" "\<forall>(f, prio) \<in> set ((g, gprio) # fs). frame_wf f" "\<not> hi_reset s"
    and "mcp2515_message_available (hi_mcp s)" "fst (mcp2515_read_message (hi_mcp s)) = node_msg (g, gprio)"
    and "hid_ready h" "frame_to_hcand h = None" "\<not> hid_abort h"
  shows "\<exists>s1 s' h' cfs. hi_isr s = Some s1 \<and> gateway_passes (Suc (length fs)) (s1, h) = (s', h') \<and>
    canix_rxq_size (rxs_queue (hi_rx s')) = 0 \<and> hid_ready h' \<and> frame_to_hcand h' = None \<and> \<not> hid_abort h' \<and>
    udp_out h' = udp_out h @ cfs \<and> mset (map frame_read_from cfs) = mset (map (\<lambda>(f, prio). host_frame f) ((g, gprio) # fs))"
proof -
  let ?q = "rxs_queue (hi_rx s)"
  obtain sz i d m where x: "node_msg (g, gprio) = (sz, i, d)" "mcp2515_read_message (hi_mcp s) = ((sz, i, d), m)"
    using assms(7) by (metis prod.collapse)
  have sz: "unat sz \<le> 8" "length d = unat sz" using x(1) assms(4) by (auto simp: node_msg_def frame_wf_def)
  have "canix_rxq_size ?q = size (rxq_bag ?q)" by (simp add: rxq_bag_def canix_rxq_size_def flip: size_mset)
  then have nf: "canix_rxq_size ?q < CANIX_QUEUE_SIZE" using assms(3) by (simp add: assms(2))
  define s1 where "s1 = s\<lparr>hi_mcp := m, hi_rx := (hi_rx s)\<lparr>rxs_queue := isr_store (sz, i, d) ?q, canix_rx_received := canix_rx_received (hi_rx s) + 1\<rparr>\<rparr>"
  have "hi_isr s = Some s1" using assms(6) x(2) sz nf by (simp add: hi_isr_def isr_poll_def s1_def)
  moreover have "rxq_bag (rxs_queue (hi_rx s1)) = mset (map node_msg ((g, gprio) # fs))"
    using isr_store_bag [of ?q "(sz, i, d)"] assms(1,2) nf sz x(1) by (simp add: s1_def rxq_invar_def rxq_full_def)
  moreover have "length (rxs_queue (hi_rx s1)) = CANIX_QUEUE_SIZE" using assms(1) by (simp add: s1_def del: isr_store.simps)
  ultimately show ?thesis
    using passes_empty_queue [of s1 "(g, gprio) # fs" h] assms(4,5,8-10) by (auto simp: s1_def rxq_bag_def canix_rxq_size_def)
qed

text \<open>A digit lost on the line is never made up for. When the daemon waits for the second digit of a
  byte, it does so after any number of complete frames too, because the beginning of a frame resets the
  position in the buffer but not the digit kept; the receiver in the host interface resets both.\<close>

theorem hid_slip_persists:
  assumes "firstBitsChar h \<noteq> None" and "\<not> hid_wait h"
  shows "firstBitsChar (fold hid_char (concat (map (\<lambda>(i, sz, d). frame_text i sz d) fs)) h) \<noteq> None"
proof -
  have digits: "hid_wait (hid_char c h) = hid_wait h \<and> (firstBitsChar (hid_char c h) = None) = (firstBitsChar h \<noteq> None)"
    if "\<not> is_command c" "\<not> hid_wait h" for c h
    using that by (auto simp: hid_char_def hid_value_def split: option.splits)
  have bytes: "\<not> hid_wait (fold hid_char (concat (map send_char_to_HT vs)) h) \<and>
      (firstBitsChar (fold hid_char (concat (map send_char_to_HT vs)) h) = None) = (firstBitsChar h = None)"
    if "\<not> hid_wait h" for vs h
    using that
  proof (induction vs arbitrary: h)
    case (Cons v vs)
    obtain m l where d: "send_char_to_HT v = [m, l]" "\<not> is_command m" "\<not> is_command l" by (metis hex_digits)
    show ?case using Cons digits [OF d(2), of h] digits [OF d(3), of "hid_char m h"] d(1) by simp
  qed simp
  have command: "\<not> hid_wait (hid_char c h) \<and> firstBitsChar (hid_char c h) = firstBitsChar h"
    if "c \<in> {ch_C, ch_F}" "\<not> hid_wait h" for c h
    using that by (auto simp: hid_char_def is_command_def hid_command_def reset_HI_def Let_def)
  have frame: "\<not> hid_wait (fold hid_char (frame_text i sz d) h) \<and>
      (firstBitsChar (fold hid_char (frame_text i sz d) h) = None) = (firstBitsChar h = None)" if "\<not> hid_wait h" for i sz d h
  proof -
    let ?h = "fold hid_char (concat (map send_char_to_HT (id_bytes i @ [sz] @ d))) (hid_char ch_C h)"
    have "\<not> hid_wait ?h \<and> (firstBitsChar ?h = None) = (firstBitsChar h = None)"
      using bytes [of "hid_char ch_C h" "id_bytes i @ [sz] @ d"] command [of ch_C h] that by simp
    then show ?thesis unfolding frame_text_run using command [of ch_F ?h] by simp
  qed
  have "\<not> hid_wait (fold hid_char (concat (map (\<lambda>(i, sz, d). frame_text i sz d) fs)) h) \<and>
      (firstBitsChar (fold hid_char (concat (map (\<lambda>(i, sz, d). frame_text i sz d) fs)) h) = None) = (firstBitsChar h = None)"
    using assms(2)
  proof (induction fs arbitrary: h)
    case (Cons f fs)
    then show ?case using frame [of h "fst f" "fst (snd f)" "snd (snd f)"] by (simp add: case_prod_unfold)
  qed simp
  then show ?thesis using assms(1) by simp
qed

definition ex_hid :: hid where
  "ex_hid = \<lparr>ibuffer = replicate 64 0, iindex = 0, firstBitsChar = None, frame_to_hcand = None, frame_to_hi = None,
     uart_out = [], udp_out = [], hid_wait = False, hid_fault = False, hid_abort = False\<rparr>"

definition ex_hi :: "mcp \<Rightarrow> hi" where
  "ex_hi m = \<lparr>obuffer = replicate 64 0, oindex = 3, hi_first = Some 0x61, hi_mcp = m,
     hi_rx = \<lparr>rxs_queue = empty_rxq, canix_rx_received = 0, canix_rx_lost = 0\<rparr>, usb_out = [], hi_reset = False\<rparr>"

lemma ex_frame_wf: "frame_wf ex_frame" "take (unat (fr_size ex_frame)) (fr_data ex_frame) = [5, 1]"
  by (simp_all add: frame_wf_def ex_frame_def)

theorem host_frame_reaches_node_witness:
  "\<exists>k. \<forall>mb. rx_image mb = tx_image k (hi_mcp (fold handle_serial_input
        (uart_out (hid_loop False True None None (ex_hid\<lparr>frame_to_hi := Some (frame_write_to (host_frame ex_frame))\<rparr>))) (ex_hi ex_mcp))) \<longrightarrow>
      frame_of_message (fst (mcp2515_read_message mb)) = ex_frame"
proof -
  let ?h = "ex_hid\<lparr>frame_to_hi := Some (frame_write_to (host_frame ex_frame))\<rparr>"
  have p: "\<not> hid_abort ?h" "frame_to_hi ?h = Some (frame_write_to (host_frame ex_frame))" "uart_out ?h = []"
    "\<not> hi_reset (ex_hi ex_mcp)" "length (obuffer (ex_hi ex_mcp)) = 64" "can_any_sendable (hi_mcp (ex_hi ex_mcp))"
    by (simp_all add: ex_hid_def ex_hi_def can_any_sendable_def can_sendable_def ex_mcp_def mcp2515_read_register_def)
  have e: "ex_frame\<lparr>fr_data := [5, 1]\<rparr> = ex_frame" by (simp add: ex_frame_def)
  show ?thesis using host_frame_reaches_node [OF ex_frame_wf(1) p(1,2,4,5,6)] unfolding ex_frame_wf(2) e p(3) Let_def drop_Nil
    by (metis (no_types, lifting) drop0 list.size(3))
qed

theorem node_frame_reaches_host_witness:
  "\<exists>m s1 s' h' cf. hi_isr (ex_hi m) = Some s1 \<and> gateway_passes 1 (s1, ex_hid) = (s', h') \<and> udp_out h' = [cf] \<and>
     frame_read_from cf = frame_array 100 35 1 [5, 1] 2"
proof -
  let ?m = "ex_bus (load_tx_buffer 0 (canix_extid ex_frame 0) [5, 1] 2 ex_mcp)"
  have "fst (mcp2515_read_message ?m) = (2, canix_extid ex_frame 0 AND mask 29, take (unat (2 :: u8)) [5, 1])"
    by (rule read_message_of_load [OF _ _ ex_bus_image]) simp_all
  then have r: "fst (mcp2515_read_message (hi_mcp (ex_hi ?m))) = node_msg (ex_frame, 0)"
    by (simp add: ex_hi_def ex_frame_def node_msg_def)
  have h: "hid_ready ex_hid" "frame_to_hcand ex_hid = None" "\<not> hid_abort ex_hid" by (simp_all add: ex_hid_def hid_ready_def)
  have q: "length (rxs_queue (hi_rx (ex_hi ?m))) = CANIX_QUEUE_SIZE" "rxq_bag (rxs_queue (hi_rx (ex_hi ?m))) = mset (map node_msg [])"
    "\<not> hi_reset (ex_hi ?m)" by (simp_all add: ex_hi_def empty_rxq_def rxq_bag_def)
  have av: "mcp2515_message_available (hi_mcp (ex_hi ?m))"
    by (simp add: ex_hi_def mcp2515_message_available_def ex_bus_def mcp2515_read_register_def)
  have f: "host_frame ex_frame = frame_array 100 35 1 [5, 1] 2" by (simp add: host_frame_def ex_frame_def)
  have e: "udp_out ex_hid = []" by (simp add: ex_hid_def)
  have z: "mset (map g xs) = {#z#} \<Longrightarrow> \<exists>x. xs = [x] \<and> g x = z" for g :: "CANFrame \<Rightarrow> hframe" and xs z
    by (cases xs) auto
  show ?thesis
    using node_frame_reaches_host [OF q(1,2) _ _ q(3) av r h] ex_frame_wf(1) z unfolding e f by (auto 0 4 simp: f)
qed

theorem hid_slip_persists_witness:
  "firstBitsChar (fold hid_char (concat (map (\<lambda>(i, sz, d). frame_text i sz d) [(7, 1, [9]), (8, 0, [])])) (ex_hid\<lparr>firstBitsChar := Some 0x30\<rparr>)) \<noteq> None"
  by (rule hid_slip_persists) (simp_all add: ex_hid_def)

section \<open>The packet daemon\<close>

text \<open>\<open>hcand\<close> keeps a table of the clients it has heard of, an address of 0 marking a free entry, and the
  seconds since each was heard. The rest of a socket address is the same for all clients. The result of a
  packet are the packets sent, with their receivers.\<close>

record peer =
  s_addr :: u32
  s_port :: u16

type_synonym hcand = "(peer \<times> int) list"

abbreviation (input) MAX_PEERS :: nat where "MAX_PEERS \<equiv> 1024"
abbreviation (input) TIMEOUT :: int where "TIMEOUT \<equiv> 60"

definition hcand_init :: hcand where
  "hcand_init = replicate MAX_PEERS (\<lparr>s_addr = 0, s_port = 0\<rparr>, TIMEOUT)"

definition does_peer_exist :: "peer \<Rightarrow> hcand \<Rightarrow> nat option" where
  "does_peer_exist p t = first_index (\<lambda>e. fst e = p) t"

definition add_peer :: "peer \<Rightarrow> hcand \<Rightarrow> nat option \<times> hcand" where
  "add_peer p t =
     (case first_index (\<lambda>e. s_addr (fst e) = 0) t of
        None \<Rightarrow> (None, t) | Some i \<Rightarrow> (Some i, t[i := (p, snd (t ! i))]))"

definition sig_alarm :: "hcand \<Rightarrow> hcand" where
  "sig_alarm t = map (\<lambda>(p, n). if s_addr p \<noteq> 0
     then (if n + 1 > TIMEOUT then (p\<lparr>s_addr := 0\<rparr>, 0) else (p, n + 1)) else (p, n)) t"

definition hcand_packet :: "peer \<Rightarrow> CANFrame \<Rightarrow> hcand \<Rightarrow> (peer \<times> CANFrame) list \<times> hcand" where
  "hcand_packet peer f t =
     (let (i, t) = (case does_peer_exist peer t of Some i \<Rightarrow> (Some i, t) | None \<Rightarrow> add_peer peer t)
      in case i of
           None \<Rightarrow> ([], t)
         | Some i \<Rightarrow>
             (let t = t[i := (fst (t ! i), 0)]
              in if cf_id f = 0 then ([], t)
                 else (map (\<lambda>e. (fst e, f)) (filter (\<lambda>e. s_addr (fst e) \<noteq> 0 \<and> fst e \<noteq> peer) t), t)))"

datatype hcand_event = H_Packet peer CANFrame | H_Alarm

fun hcand_step :: "hcand_event \<Rightarrow> hcand \<Rightarrow> hcand" where
  "hcand_step (H_Packet p f) t = snd (hcand_packet p f t)"
| "hcand_step H_Alarm t = sig_alarm t"

definition live :: "hcand \<Rightarrow> peer list" where
  "live t = filter (\<lambda>p. s_addr p \<noteq> 0) (map fst t)"

definition proper :: "hcand_event \<Rightarrow> bool" where
  "proper e = (case e of H_Packet p f \<Rightarrow> s_addr p \<noteq> 0 | H_Alarm \<Rightarrow> True)"

lemma live_update_time: "i < length t \<Longrightarrow> live (t[i := (fst (t ! i), n)]) = live t"
proof -
  assume "i < length t"
  then have "(map fst t)[i := fst (t ! i)] = map fst t" by (metis list_update_id nth_map)
  then show ?thesis by (simp add: live_def map_update)
qed

lemma live_add:
  assumes "i < length t" "s_addr (fst (t ! i)) = 0" "s_addr p \<noteq> 0"
  shows "\<exists>xs ys. live t = xs @ ys \<and> live (t[i := (p, n)]) = xs @ p # ys"
proof -
  have "live (t[i := (p, n)]) = live (take i t @ (p, n) # drop (Suc i) t)" using assms(1) by (simp add: upd_conv_take_nth_drop)
  moreover have "live t = live (take i t @ t ! i # drop (Suc i) t)" using id_take_nth_drop [OF assms(1)] by (rule arg_cong)
  ultimately show ?thesis using assms(2,3)
    by (intro exI [of _ "live (take i t)"] exI [of _ "live (drop (Suc i) t)"]) (simp add: live_def)
qed

lemma hcand_packet_cases:
  assumes "s_addr p \<noteq> 0" "hcand_packet p f t = (out, t')"
  shows "length t' = length t \<and>
    ((p \<in> set (live t) \<and> live t' = live t \<or>
      p \<notin> set (live t) \<and> (\<exists>xs ys. live t = xs @ ys \<and> live t' = xs @ p # ys)) \<and>
     out = (if cf_id f = 0 then [] else map (\<lambda>q. (q, f)) (filter (\<lambda>q. q \<noteq> p) (live t))) \<and>
     (\<exists>i < length t'. t' ! i = (p, 0))
     \<or> p \<notin> set (live t) \<and> (\<forall>e \<in> set t. s_addr (fst e) \<noteq> 0) \<and> out = [] \<and> t' = t)"
proof -
  have sent: "map (\<lambda>e. (fst e, f)) (filter (\<lambda>e. s_addr (fst e) \<noteq> 0 \<and> fst e \<noteq> p) u) = map (\<lambda>q. (q, f)) (filter (\<lambda>q. q \<noteq> p) (live u))" for u
    by (induction u) (auto simp: live_def)
  show ?thesis
  proof (cases "does_peer_exist p t")
    case (Some i)
    then have i: "i < length t" "fst (t ! i) = p" using first_index_SomeD by (fastforce simp: does_peer_exist_def)+
    then have "p \<in> set (live t)" using assms(1) by (auto simp: live_def intro!: image_eqI [of _ fst "t ! i"])
    moreover have "t' = t[i := (p, 0)]" "out = (if cf_id f = 0 then [] else map (\<lambda>q. (q, f)) (filter (\<lambda>q. q \<noteq> p) (live t)))"
      using assms(2) i live_update_time [OF i(1), of 0] by (auto simp: hcand_packet_def Some sent Let_def split: if_splits)
    ultimately show ?thesis using i live_update_time [OF i(1), of 0] by auto
  next
    case None
    then have new: "p \<notin> fst ` set t" by (auto simp: does_peer_exist_def first_index_None_iff)
    then have nl: "p \<notin> set (live t)" by (auto simp: live_def)
    show ?thesis
    proof (cases "first_index (\<lambda>e. s_addr (fst e) = 0) t")
      case None
      then have "out = [] \<and> t' = t" using assms(2) \<open>does_peer_exist p t = None\<close> by (simp add: hcand_packet_def add_peer_def)
      then show ?thesis using None nl by (simp add: first_index_None_iff)
    next
      case (Some i)
      then have i: "i < length t" "s_addr (fst (t ! i)) = 0" using first_index_SomeD by fastforce+
      obtain xs ys where l: "live t = xs @ ys" "live (t[i := (p, 0)]) = xs @ p # ys"
        using live_add [OF i assms(1), of 0] by blast
      have t': "t' = t[i := (p, 0)]"
        using assms(2) i \<open>does_peer_exist p t = None\<close> by (auto simp: hcand_packet_def add_peer_def Some Let_def split: if_splits)
      have "out = (if cf_id f = 0 then [] else map (\<lambda>q. (q, f)) (filter (\<lambda>q. q \<noteq> p) (live (t[i := (p, 0)]))))"
        using assms(2) i \<open>does_peer_exist p t = None\<close>
        by (auto simp: hcand_packet_def add_peer_def Some Let_def sent split: if_splits)
      then show ?thesis using l t' nl i by auto
    qed
  qed
qed

lemma live_filter: "live t = map fst (filter (\<lambda>e. s_addr (fst e) \<noteq> 0) t)"
  by (induction t) (auto simp: live_def)

lemma live_alarm: "live (sig_alarm t) = map fst (filter (\<lambda>e. snd e + 1 \<le> TIMEOUT) (filter (\<lambda>e. s_addr (fst e) \<noteq> 0) t))"
  by (induction t) (auto simp: live_def sig_alarm_def)

lemma hcand_distinct:
  assumes "distinct (live t)" "proper e"
  shows "distinct (live (hcand_step e t)) \<and> length (hcand_step e t) = length t"
proof (cases e)
  case (H_Packet p f)
  obtain out t' where r: "hcand_packet p f t = (out, t')" by (cases "hcand_packet p f t")
  have "s_addr p \<noteq> 0" using assms(2) H_Packet by (simp add: proper_def)
  from hcand_packet_cases [OF this r] show ?thesis using assms(1) H_Packet r by auto
next
  case H_Alarm
  have "distinct (map fst (filter (\<lambda>e. s_addr (fst e) \<noteq> 0) t))" using assms(1) by (simp only: live_filter)
  then have "distinct (live (sig_alarm t))" unfolding live_alarm by (rule distinct_map_filter)
  then show ?thesis using H_Alarm by (simp add: sig_alarm_def)
qed

lemma hcand_run_distinct:
  assumes "\<forall>e \<in> set es. proper e"
  shows "distinct (live (fold hcand_step es hcand_init)) \<and> length (fold hcand_step es hcand_init) = MAX_PEERS"
  using assms
proof (induction es rule: rev_induct)
  case Nil
  then show ?case by (simp add: hcand_init_def live_def)
next
  case (snoc e es)
  then show ?case using hcand_distinct [of "fold hcand_step es hcand_init" e] by simp
qed

text \<open>A client stays in the table for sixty seconds of silence.\<close>

lemma hcand_keeps:
  assumes "s_addr p \<noteq> 0" "\<forall>e \<in> set es. proper e" "\<exists>i < length t. fst (t ! i) = p \<and> max 0 (snd (t ! i)) + int (count_list es H_Alarm) \<le> TIMEOUT"
  shows "p \<in> set (live (fold hcand_step es t))"
  using assms(2,3)
proof (induction es arbitrary: t)
  case Nil
  then show ?case using assms(1) by (auto simp: live_def intro!: image_eqI [of _ fst])
next
  case (Cons e es)
  obtain i where i: "i < length t" "fst (t ! i) = p" "max 0 (snd (t ! i)) + int (count_list (e # es) H_Alarm) \<le> TIMEOUT"
    using Cons.prems(2) by blast
  have "\<exists>i < length (hcand_step e t). fst (hcand_step e t ! i) = p \<and> max 0 (snd (hcand_step e t ! i)) + int (count_list es H_Alarm) \<le> TIMEOUT"
  proof (cases e)
    case H_Alarm
    then show ?thesis using i assms(1) by (intro exI [of _ i]) (auto simp: sig_alarm_def case_prod_unfold)
  next
    case (H_Packet q f)
    have q: "s_addr q \<noteq> 0" using Cons.prems(1) H_Packet by (simp add: proper_def)
    have step: "hcand_step e t ! i = t ! i \<and> length (hcand_step e t) = length t \<or> hcand_step e t ! i = (p, 0) \<and> length (hcand_step e t) = length t"
    proof (cases "does_peer_exist q t")
      case (Some j)
      then have "j < length t" "fst (t ! j) = q" using first_index_SomeD by (fastforce simp: does_peer_exist_def)+
      then show ?thesis using Some H_Packet i by (auto simp: hcand_packet_def Let_def nth_list_update)
    next
      case None
      note n = this
      show ?thesis
      proof (cases "first_index (\<lambda>e. s_addr (fst e) = 0) t")
        case (Some j)
        then have "j < length t" "s_addr (fst (t ! j)) = 0" using first_index_SomeD by fastforce+
        then have "i \<noteq> j" using i(2) assms(1) by auto
        then show ?thesis using n Some H_Packet i by (auto simp: hcand_packet_def add_peer_def Let_def)
      qed (use n H_Packet in \<open>auto simp: hcand_packet_def add_peer_def\<close>)
    qed
    then show ?thesis using i H_Packet by (intro exI [of _ i]) auto
  qed
  with Cons show ?case by simp
qed

text \<open>C39: The packet daemon passes each packet to every other client it knows exactly once and not back to the
  sender, and knows a client for sixty seconds after each of its packets; only when all 1024 entries are taken by
  others it drops the packet of a client it does not know. Clients have addresses other than 0.0.0.0, and a packet
  with the identifier 0 (alive) is passed to nobody.\<close>

theorem hcand_delivers:
  assumes "\<forall>e \<in> set es. proper e" and "\<forall>e \<in> set fs. proper e" and "s_addr p \<noteq> 0"
    and t: "t = fold hcand_step es hcand_init" and "p \<in> set (live t) \<or> length (live t) < MAX_PEERS"
  shows "distinct (map fst (fst (hcand_packet p f t))) \<and>
    set (fst (hcand_packet p f t)) = (if cf_id f = 0 then {} else {(q, f) |q. q \<in> set (live t) \<and> q \<noteq> p}) \<and>
    (count_list fs H_Alarm \<le> 60 \<longrightarrow> p \<in> set (live (fold hcand_step fs (snd (hcand_packet p f t)))))"
proof -
  have d: "distinct (live t)" "length t = MAX_PEERS" using hcand_run_distinct [OF assms(1)] by (simp_all add: t)
  obtain out t' where r: "hcand_packet p f t = (out, t')" by (cases "hcand_packet p f t")
  have "\<not> (p \<notin> set (live t) \<and> (\<forall>e \<in> set t. s_addr (fst e) \<noteq> 0))"
  proof
    assume a: "p \<notin> set (live t) \<and> (\<forall>e \<in> set t. s_addr (fst e) \<noteq> 0)"
    then have "live t = map fst t" by (auto simp: live_filter filter_id_conv)
    then show False using a assms(5) d(2) by simp
  qed
  with hcand_packet_cases [OF assms(3) r] have out: "out = (if cf_id f = 0 then [] else map (\<lambda>q. (q, f)) (filter (\<lambda>q. q \<noteq> p) (live t)))"
    and "\<exists>i < length t'. t' ! i = (p, 0)" by blast+
  then have "count_list fs H_Alarm \<le> 60 \<Longrightarrow> p \<in> set (live (fold hcand_step fs t'))"
    by (intro hcand_keeps [OF assms(3,2)]) auto
  then show ?thesis using d(1) out by (auto simp: r comp_def)
qed


lemma hcand_first_packet:
  assumes "s_addr q \<noteq> 0"
  shows "live (hcand_step (H_Packet q f) hcand_init) = [q]"
proof -
  have e: "live hcand_init = []" by (simp add: hcand_init_def live_def)
  have n: "hcand_init \<noteq> [] \<and> s_addr (fst (hd hcand_init)) = 0" by (simp add: hcand_init_def)
  then have "\<not> (\<forall>e \<in> set hcand_init. s_addr (fst e) \<noteq> 0)" by (meson hd_in_set)
  moreover obtain out t' where "hcand_packet q f hcand_init = (out, t')" by (cases "hcand_packet q f hcand_init")
  ultimately show ?thesis using hcand_packet_cases [OF assms, of f hcand_init out t'] e by auto
qed

theorem hcand_delivers_witness:
  "let p = \<lparr>s_addr = 0x7F000001, s_port = 4711\<rparr>; q = \<lparr>s_addr = 0x0A000002, s_port = 815\<rparr>; f = frame_write_to (frame_array 100 35 1 [5, 1] 2);
       t = hcand_step (H_Packet q f) hcand_init
   in cf_id f \<noteq> 0 \<and> set (fst (hcand_packet p f t)) = {(q, f)} \<and> p \<in> set (live (fold hcand_step (replicate 60 H_Alarm) (snd (hcand_packet p f t))))"
proof -
  define p :: peer where "p = \<lparr>s_addr = 0x7F000001, s_port = 4711\<rparr>"
  define q :: peer where "q = \<lparr>s_addr = 0x0A000002, s_port = 815\<rparr>"
  define f where "f = frame_write_to (frame_array 100 35 1 [5, 1] 2)"
  define t where "t = hcand_step (H_Packet q f) hcand_init"
  have pq: "s_addr p \<noteq> 0" "s_addr q \<noteq> 0" "p \<noteq> q" by (simp_all add: p_def q_def)
  have id: "cf_id f \<noteq> 0" unfolding f_def by code_simp
  have l: "live t = [q]" unfolding t_def by (rule hcand_first_packet [OF pq(2)])
  have "set (fst (hcand_packet p f t)) = (if cf_id f = 0 then {} else {(r, f) |r. r \<in> set (live t) \<and> r \<noteq> p}) \<and>
      (count_list (replicate 60 H_Alarm) H_Alarm \<le> 60 \<longrightarrow> p \<in> set (live (fold hcand_step (replicate 60 H_Alarm) (snd (hcand_packet p f t)))))"
    using hcand_delivers [of "[H_Packet q f]" "replicate 60 H_Alarm" p t f] pq by (simp add: proper_def t_def [symmetric] l del: hcand_step.simps)
  moreover have "count_list (replicate 60 H_Alarm) H_Alarm \<le> 60" by (rule order_trans [OF count_le_length]) simp
  ultimately have "set (fst (hcand_packet p f t)) = {(q, f)} \<and> p \<in> set (live (fold hcand_step (replicate 60 H_Alarm) (snd (hcand_packet p f t))))"
    using l pq id by auto
  then show ?thesis using id unfolding Let_def p_def [symmetric] q_def [symmetric] f_def [symmetric] t_def [symmetric] by blast
qed


section \<open>The address daemon\<close>

text \<open>\<open>hcanaddressd\<close> lends every client that connects one of the addresses 512 to 543 for as long as the
  connection lasts. A pass of its loop is given the descriptors \<open>select\<close> reports ready, what \<open>accept\<close> returns when
  a client waits, and what \<open>read\<close> returns for a descriptor; its results are the addresses written, with their
  descriptors, and the descriptors closed. A failed \<open>read\<close> returns -1, which the code keeps as a \<open>size_t\<close>.\<close>

record peer_t =
  p_socket :: int
  p_address :: int

abbreviation (input) MAX_PEER :: nat where "MAX_PEER \<equiv> 32"

definition init_peer_array :: "peer_t list" where
  "init_peer_array = map (\<lambda>i. \<lparr>p_socket = -1, p_address = 512 + int i\<rparr>) [0..<MAX_PEER]"

definition assign_address :: "int \<Rightarrow> peer_t list \<Rightarrow> int \<times> peer_t list" where
  "assign_address sock t =
     (case first_index (\<lambda>p. p_socket p = -1) t of
        None \<Rightarrow> (-1, t)
      | Some i \<Rightarrow> (p_address (t ! i), t[i := (t ! i)\<lparr>p_socket := sock\<rparr>]))"

definition addressd_accept :: "int \<Rightarrow> peer_t list \<Rightarrow> (int \<times> int) list \<times> int list \<times> peer_t list" where
  "addressd_accept sock t =
     (if sock = -1 then ([], [], t)
      else let (a, t) = assign_address sock t
           in if a = -1 then ([], [sock], t) else ([(sock, a)], [], t))"

definition addressd_reads :: "int set \<Rightarrow> (int \<Rightarrow> int) \<Rightarrow> peer_t list \<Rightarrow> int list \<times> peer_t list" where
  "addressd_reads ready rd t =
     (let gone = (\<lambda>p. p_socket p \<noteq> -1 \<and> p_socket p \<in> ready \<and> rd (p_socket p) = 0)
      in (map p_socket (filter gone t), map (\<lambda>p. if gone p then p\<lparr>p_socket := -1\<rparr> else p) t))"

definition addressd_pass ::
  "int option \<Rightarrow> int set \<Rightarrow> (int \<Rightarrow> int) \<Rightarrow> peer_t list \<Rightarrow> (int \<times> int) list \<times> int list \<times> peer_t list" where
  "addressd_pass acc ready rd t =
     (let watched = p_socket ` set t \<inter> ready;
          (told, refused, t) = (case acc of None \<Rightarrow> ([], [], t) | Some sock \<Rightarrow> addressd_accept sock t);
          (closed, t) = addressd_reads watched rd t
      in (told, refused @ closed, t))"

definition lent :: "peer_t list \<Rightarrow> (int \<times> int) list" where
  "lent t = map (\<lambda>p. (p_socket p, p_address p)) (filter (\<lambda>p. p_socket p \<noteq> -1) t)"

text \<open>The addresses never move between the entries, and no descriptor stands in two entries.\<close>

definition addressd_inv :: "peer_t list \<Rightarrow> bool" where
  "addressd_inv t \<longleftrightarrow> map p_address t = map (\<lambda>i. 512 + int i) [0..<MAX_PEER] \<and> distinct (map fst (lent t))"

definition addressd_step :: "int option \<times> int set \<times> (int \<Rightarrow> int) \<Rightarrow> peer_t list \<Rightarrow> peer_t list" where
  "addressd_step e t = (case e of (acc, ready, rd) \<Rightarrow> snd (snd (addressd_pass acc ready rd t)))"

text \<open>The descriptors \<open>accept\<close> returns are not in use already.\<close>

definition accept_fresh :: "int option \<Rightarrow> peer_t list \<Rightarrow> bool" where
  "accept_fresh acc t = (\<forall>s. acc = Some s \<longrightarrow> s \<notin> fst ` set (lent t))"

fun accepts_fresh :: "(int option \<times> int set \<times> (int \<Rightarrow> int)) list \<Rightarrow> peer_t list \<Rightarrow> bool" where
  "accepts_fresh [] t = True"
| "accepts_fresh (e # es) t = (accept_fresh (fst e) t \<and> accepts_fresh es (addressd_step e t))"

lemma lent_update:
  assumes "i < length t" "p_socket (t ! i) = -1" "s \<noteq> -1"
  shows "\<exists>xs ys. lent t = xs @ ys \<and> lent (t[i := (t ! i)\<lparr>p_socket := s\<rparr>]) = xs @ (s, p_address (t ! i)) # ys"
proof -
  have "lent (t[i := (t ! i)\<lparr>p_socket := s\<rparr>]) = lent (take i t @ (t ! i)\<lparr>p_socket := s\<rparr> # drop (Suc i) t)"
    using assms(1) by (simp add: upd_conv_take_nth_drop)
  moreover have "lent t = lent (take i t @ t ! i # drop (Suc i) t)" using id_take_nth_drop [OF assms(1)] by (rule arg_cong)
  ultimately show ?thesis using assms(2,3)
    by (intro exI [of _ "lent (take i t)"] exI [of _ "lent (drop (Suc i) t)"]) (simp add: lent_def)
qed

lemma lent_addresses:
  assumes "addressd_inv t"
  shows "distinct (map snd (lent t))" "snd ` set (lent t) \<subseteq> {512..543}" "distinct (map p_address t)" "length t = 32"
    "p_address ` set t = {512..543}"
proof -
  have a: "map p_address t = map (\<lambda>i. 512 + int i) [0..<MAX_PEER]" using assms by (simp add: addressd_inv_def)
  show d: "distinct (map p_address t)" unfolding a by (simp add: distinct_map inj_on_def)
  have "map snd (lent t) = map p_address (filter (\<lambda>p. p_socket p \<noteq> -1) t)" by (simp add: lent_def)
  then show "distinct (map snd (lent t))" using d by (simp add: distinct_map_filter)
  have "p_address ` set t = (\<lambda>i. 512 + int i) ` {0..<32}" using arg_cong [OF a, of set] by simp
  moreover have "\<dots> = {512..543}"
  proof
    show "{512..543} \<subseteq> (\<lambda>i. 512 + int i) ` {0..<32}"
    proof
      fix x :: int assume "x \<in> {512..543}"
      then show "x \<in> (\<lambda>i. 512 + int i) ` {0..<32}" by (intro image_eqI [of _ _ "nat (x - 512)"]) auto
    qed
  qed auto
  ultimately show r: "p_address ` set t = {512..543}" by simp
  show "snd ` set (lent t) \<subseteq> {512..543}" using r by (auto simp: lent_def)
  show "length t = 32" using arg_cong [OF a, of length] by simp
qed

lemma addressd_accept_cases:
  assumes "addressd_inv t" "s \<noteq> -1" "addressd_accept s t = (told, closed, t')"
  shows "length (lent t) = MAX_PEER \<and> told = [] \<and> closed = [s] \<and> t' = t \<or>
    length (lent t) < MAX_PEER \<and> closed = [] \<and>
    (\<exists>a xs ys. a \<in> {512..543} \<and> a \<notin> snd ` set (lent t) \<and> told = [(s, a)] \<and> lent t = xs @ ys \<and> lent t' = xs @ (s, a) # ys) \<and>
    map p_address t' = map p_address t"
proof (cases "first_index (\<lambda>p. p_socket p = -1) t")
  case None
  then have "filter (\<lambda>p. p_socket p \<noteq> -1) t = t" by (simp add: first_index_None_iff filter_id_conv)
  then have "length (lent t) = 32" using lent_addresses(4) [OF assms(1)] by (simp add: lent_def)
  then show ?thesis using assms None by (simp add: addressd_accept_def assign_address_def Let_def)
next
  case (Some i)
  then have i: "i < length t" "p_socket (t ! i) = -1" using first_index_SomeD by fastforce+
  obtain xs ys where l: "lent t = xs @ ys" "lent (t[i := (t ! i)\<lparr>p_socket := s\<rparr>]) = xs @ (s, p_address (t ! i)) # ys"
    using lent_update [OF i assms(2)] by blast
  have r: "p_address (t ! i) \<in> {512..543}" using lent_addresses(5) [OF assms(1)] i(1) by auto
  have new: "p_address (t ! i) \<notin> snd ` set (lent t)"
  proof
    assume "p_address (t ! i) \<in> snd ` set (lent t)"
    then obtain j where j: "j < length t" "p_socket (t ! j) \<noteq> -1" "p_address (t ! j) = p_address (t ! i)"
      by (auto simp: lent_def in_set_conv_nth)
    then have "i = j" using nth_eq_iff_index_eq [OF lent_addresses(3) [OF assms(1)], of j i] i(1) by simp
    then show False using i(2) j(2) by simp
  qed
  have "length (lent t) < length t" using i by (auto simp: lent_def intro!: length_filter_less)
  moreover have "map p_address (t[i := (t ! i)\<lparr>p_socket := s\<rparr>]) = map p_address t"
    using i(1) by (simp add: map_update) (metis list_update_id nth_map)
  ultimately show ?thesis using assms Some r new l lent_addresses(4) [OF assms(1)]
    by (auto simp: addressd_accept_def assign_address_def Let_def)
qed

lemma addressd_reads_lent:
  "lent (snd (addressd_reads ready rd t)) = filter (\<lambda>p. \<not> (fst p \<in> ready \<and> rd (fst p) = 0)) (lent t)"
  "map p_address (snd (addressd_reads ready rd t)) = map p_address t"
  by (induction t) (auto simp: lent_def addressd_reads_def Let_def)

lemma addressd_pass_inv:
  assumes "addressd_inv t" "accept_fresh acc t" "addressd_pass acc ready rd t = (told, closed, t')"
  shows "addressd_inv t'"
proof -
  obtain u where u: "addressd_inv u" "t' = snd (addressd_reads (p_socket ` set t \<inter> ready) rd u)"
  proof (cases "acc = None \<or> acc = Some (-1)")
    case True
    then show ?thesis using assms that [of t] by (auto simp: addressd_pass_def addressd_accept_def Let_def split: prod.splits)
  next
    case False
    then obtain s where s: "acc = Some s" "s \<noteq> -1" by auto
    obtain tl cl v where r: "addressd_accept s t = (tl, cl, v)" by (cases "addressd_accept s t")
    have "addressd_inv v" using addressd_accept_cases [OF assms(1) s(2) r] assms(1,2) s(1)
      by (auto simp: addressd_inv_def accept_fresh_def)
    then show ?thesis using that [of v] assms(3) s(1) r by (auto simp: addressd_pass_def Let_def split: prod.splits)
  qed
  then show ?thesis by (simp add: addressd_inv_def addressd_reads_lent distinct_map_filter)
qed

lemma addressd_inv_init: "addressd_inv init_peer_array" "lent init_peer_array = []"
  by (simp_all add: addressd_inv_def init_peer_array_def lent_def)

lemma addressd_inv_run:
  "addressd_inv t \<Longrightarrow> accepts_fresh es t \<Longrightarrow> addressd_inv (fold addressd_step es t)"
proof (induction es arbitrary: t)
  case (Cons e es)
  obtain acc ready rd where e: "e = (acc, ready, rd)" by (cases e)
  obtain tl cl u where "addressd_pass acc ready rd t = (tl, cl, u)" by (cases "addressd_pass acc ready rd t")
  then show ?case using addressd_pass_inv [OF Cons.prems(1), of acc ready rd tl cl u] Cons e by (simp add: addressd_step_def)
qed simp

lemma addressd_takes:
  assumes "addressd_inv t" "accept_fresh acc t"
    and "(case acc of None \<Rightarrow> ([], [], t) | Some s \<Rightarrow> addressd_accept s t) = (told, refused, v)"
  shows "set (lent v) = set (lent t) \<union> set told"
    "set refused = {s. acc = Some s \<and> s \<noteq> -1 \<and> length (lent t) = 32}"
    "case acc of None \<Rightarrow> told = []
     | Some s \<Rightarrow> if s = -1 \<or> length (lent t) = 32 then told = [] else \<exists>a \<in> {512..543} - snd ` set (lent t). told = [(s, a)]"
proof -
  have "set (lent v) = set (lent t) \<union> set told \<and> set refused = {s. acc = Some s \<and> s \<noteq> -1 \<and> length (lent t) = 32} \<and>
    (case acc of None \<Rightarrow> told = []
     | Some s \<Rightarrow> if s = -1 \<or> length (lent t) = 32 then told = [] else \<exists>a \<in> {512..543} - snd ` set (lent t). told = [(s, a)])"
  proof (cases "acc = None \<or> acc = Some (-1)")
    case True
    then show ?thesis using assms(3) by (auto simp: addressd_accept_def)
  next
    case False
    then obtain s where s: "acc = Some s" "s \<noteq> -1" by auto
    show ?thesis using addressd_accept_cases [OF assms(1) s(2), of told refused v] assms(3) s by auto
  qed
  then show "set (lent v) = set (lent t) \<union> set told"
    "set refused = {s. acc = Some s \<and> s \<noteq> -1 \<and> length (lent t) = 32}"
    "case acc of None \<Rightarrow> told = []
     | Some s \<Rightarrow> if s = -1 \<or> length (lent t) = 32 then told = [] else \<exists>a \<in> {512..543} - snd ` set (lent t). told = [(s, a)]"
    by blast+
qed

lemma addressd_closes:
  "set (fst (addressd_reads ready rd t)) = {d \<in> fst ` set (lent t). d \<in> ready \<and> rd d = 0}"
  by (force simp: addressd_reads_def lent_def)

text \<open>C40: An address is lent to at most one client at a time. In any pass, whether \<open>accept\<close> was called or not and
  whether it failed or not, a client that connects is told one of the addresses 512 to 543 no other client holds, or is
  disconnected when all 32 are lent, and nobody else is told an address; the addresses of the clients that have closed
  their connection, and only theirs, become free again, and only those clients are disconnected besides. The descriptors
  \<open>accept\<close> returns are not those of clients that are still connected.\<close>

theorem addresses_are_exclusive:
  assumes "accepts_fresh es init_peer_array" and t: "t = fold addressd_step es init_peer_array"
    and "accept_fresh acc t" and r: "addressd_pass acc ready rd t = (told, closed, t')"
  shows "distinct (map fst (lent t)) \<and> distinct (map snd (lent t)) \<and>
    (case acc of None \<Rightarrow> told = []
     | Some s \<Rightarrow> if s = -1 \<or> length (lent t) = 32 then told = [] else \<exists>a \<in> {512..543} - snd ` set (lent t). told = [(s, a)]) \<and>
    set closed = {s. acc = Some s \<and> s \<noteq> -1 \<and> length (lent t) = 32} \<union> {d \<in> fst ` set (lent t). d \<in> ready \<and> rd d = 0} \<and>
    set (lent t') = {(d, a) \<in> set (lent t) \<union> set told. \<not> (d \<in> fst ` set (lent t) \<and> d \<in> ready \<and> rd d = 0)}"
proof -
  have inv: "addressd_inv t" unfolding t by (rule addressd_inv_run [OF addressd_inv_init(1) assms(1)])
  obtain tl cl v where v: "(case acc of None \<Rightarrow> ([], [], t) | Some s \<Rightarrow> addressd_accept s t) = (tl, cl, v)"
    by (metis prod_cases3)
  note tk = addressd_takes [OF inv assms(3) v]
  define watched where "watched = p_socket ` set t \<inter> ready"
  have p: "told = tl" "closed = cl @ fst (addressd_reads watched rd v)" "t' = snd (addressd_reads watched rd v)"
    using r v by (auto simp: addressd_pass_def watched_def Let_def split: prod.splits)
  have w: "d \<in> watched \<longleftrightarrow> d \<in> fst ` set (lent t) \<and> d \<in> ready" if "d \<noteq> -1" for d
    using that by (force simp: watched_def lent_def)
  have n: "d \<noteq> -1" if "(d, a) \<in> set (lent v)" for d a using that by (auto simp: lent_def)
  have "set (lent t') = {(d, a) \<in> set (lent v). \<not> (d \<in> fst ` set (lent t) \<and> d \<in> ready \<and> rd d = 0)}"
  proof (rule set_eqI)
    fix e :: "int \<times> int"
    obtain d a where e: "e = (d, a)" by (cases e)
    show "e \<in> set (lent t') \<longleftrightarrow> e \<in> {(d, a) \<in> set (lent v). \<not> (d \<in> fst ` set (lent t) \<and> d \<in> ready \<and> rd d = 0)}"
      unfolding p(3) addressd_reads_lent e using w [OF n, of d a] by auto
  qed
  moreover have "{d \<in> fst ` set (lent v). d \<in> watched \<and> rd d = 0} = {d \<in> fst ` set (lent t). d \<in> ready \<and> rd d = 0}"
  proof (rule set_eqI)
    fix d :: int
    have "fst ` set (lent t) \<subseteq> fst ` set (lent v)" unfolding tk(1) by blast
    moreover have "d \<noteq> -1" if "d \<in> fst ` set (lent v)" using that n by force
    ultimately show "d \<in> {d \<in> fst ` set (lent v). d \<in> watched \<and> rd d = 0} \<longleftrightarrow> d \<in> {d \<in> fst ` set (lent t). d \<in> ready \<and> rd d = 0}"
      using w [of d] by auto
  qed
  ultimately show ?thesis
    using inv lent_addresses(1) [OF inv] tk unfolding p(1,2)
    by (simp add: addressd_inv_def addressd_closes)
qed

theorem addresses_are_exclusive_witness:
  "let (told, closed, t') = addressd_pass (Some 8) {3, 7} (\<lambda>d. 0) (addressd_step (Some 7, {3}, \<lambda>d. 0) init_peer_array)
   in told = [(8, 513)] \<and> set (lent t') = {(8, 513)}"
proof -
  let ?t = "addressd_step (Some 7, {3}, \<lambda>d. 0) init_peer_array"
  have t: "lent ?t = [(7, 512)]" by code_simp
  have told: "fst (addressd_pass (Some 8) {3, 7} (\<lambda>d. 0) ?t) = [(8, 513)]" by code_simp
  obtain told closed t' where r: "addressd_pass (Some 8) {3, 7} (\<lambda>d. 0) ?t = (told, closed, t')"
    by (cases "addressd_pass (Some 8) {3, 7} (\<lambda>d. 0) ?t")
  have f: "accepts_fresh [(Some 7, {3}, \<lambda>d. 0)] init_peer_array" by (simp add: accept_fresh_def addressd_inv_init)
  have g: "accept_fresh (Some 8) ?t" by (simp add: accept_fresh_def t)
  have e: "?t = fold addressd_step [(Some 7, {3}, \<lambda>d. 0)] init_peer_array" by simp
  have "set (lent t') = {(d, a) \<in> set (lent ?t) \<union> set told. \<not> (d \<in> fst ` set (lent ?t) \<and> d \<in> {3, 7} \<and> (0 :: int) = 0)}"
    using addresses_are_exclusive [OF f e g r] by (elim conjE)
  moreover have tl: "told = [(8, 513)]" using told unfolding r by simp
  moreover have "e \<in> {(d, a) \<in> set [(7, 512)] \<union> set [(8, 513)]. \<not> (d \<in> fst ` set [(7, 512)] \<and> d \<in> {3, 7} \<and> (0 :: int) = 0)}
      \<longleftrightarrow> e \<in> {(8, 513)}" for e :: "int \<times> int" by (cases e) auto
  ultimately have "set (lent t') = {(8, 513)}" unfolding t by blast
  then show ?thesis unfolding r using tl by simp
qed

end
