(* ===== verification/Panel.thy ===== *)
theory Panel
  imports Devices
begin

text \<open>
  The firmware of the user panel (\<open>firmwares/userpanel-v01\<close>): a display of two lines and eight keys. The
  pages it shows are blocks of the EEPROM data space, linked by their ids; each type of page has its own
  file with a print function, a key handler and a frame handler (\<open>*_page.c\<close>), and \<open>lcdstatemachine.c\<close>
  dispatches to them. The active page is the bytes of the structure \<open>lcdpage_t\<close>, which the page types
  see through their own structures.

  The page functions wait for replies in \<open>canix_sleep_100th\<close>, which runs the main loop meanwhile: frames are
  delivered and keys handled inside the function that sleeps. The functions therefore take the sleep as an
  argument \<open>slp\<close>. At the top it lets the events happen that an environment gives for the n-th sleep, and
  inside of it, where the \<open>running\<close> flag makes it return at once, it is the identity.
\<close>

section \<open>State\<close>

datatype view_state = STATE_VIEW | STATE_EDIT

text \<open>The variables of each page file.\<close>

record heiz_page =
  heiz_details_expected :: u8
  heiz_details_heiz_id :: u8
  heiz_details_mode :: u8
  heiz_details_rate :: u8
  heiz_details_Tsoll :: u16
  heiz_details_Tist :: u16
  heiz_details_dauer :: u16
  heiz_details_mode_edit :: u8
  heiz_details_Tsoll_edit :: u16
  heiz_details_rate_edit :: u8
  heiz_details_dauer_edit :: u16
  heiz_page_subpage :: u8
  heiz_page_state :: view_state

record gesamt_heiz_page =
  gesamt_heiz_details_mode_edit :: u8
  gesamt_heiz_details_Tsoll_edit :: u16
  gesamt_heiz_details_dauer_edit :: u16
  gesamt_heiz_page_subpage :: u8
  gesamt_heiz_page_state :: view_state

record weck_page =
  weck_details_expected :: u8
  weck_details_weck_id :: u8
  weck_details_dauer :: u16
  weck_details_dauer_edit :: u16
  weck_page_state :: view_state

record powerport_page =
  powerport_page_state :: u8
  powerport_page_timer :: u8

record temp_anzeige_page =
  temperature_expected :: u8
  temperature :: u16

text \<open>\<open>active_page\<close> is the 198 bytes of \<open>lcdstate.active_page\<close>; \<open>screen\<close> is what has been written since the
  display was cleared, with the position. \<open>naps\<close> counts the sleeps; \<open>panel_reset\<close> is set once the panel
  waits for the watchdog.\<close>

record panel =
  pn_board :: board
  active_page :: "u8 list"
  page_stack :: "u8 list"
  page_stack_ptr :: u8
  keypress_time :: u8
  lcd_led_countdown :: u8
  lcd_screensafer_countdown :: u16
  hzp :: heiz_page
  gzp :: gesamt_heiz_page
  wkp :: weck_page
  ppp :: powerport_page
  tmp :: temp_anzeige_page
  fenster_monitor_reed_state :: "u8 list"
  screen :: "((nat \<times> nat) \<times> u8 list) list"
  lcd_mode :: u8
  OCR1A :: u8
  OCR1B :: u8
  key_counter :: "u8 list"
  key_state :: "u8 list"
  timer_counters :: "u8 \<times> u8 \<times> u8"
  timer_events :: "bool \<times> bool \<times> bool"
  naps :: nat
  panel_reset :: bool

type_synonym sleeper = "u8 \<Rightarrow> panel \<Rightarrow> panel"

abbreviation (input) LCDPAGE_SIZE :: nat where "LCDPAGE_SIZE \<equiv> 198"
abbreviation (input) EDS_PAGE_ID_START :: u8 where "EDS_PAGE_ID_START \<equiv> 100"
abbreviation (input) EDS_PAGE_ID_END :: u8 where "EDS_PAGE_ID_END \<equiv> 149"
abbreviation (input) EDS_lcd_light_settings_BLOCK_ID :: u8 where "EDS_lcd_light_settings_BLOCK_ID \<equiv> 98"
abbreviation (input) EDS_userpanel_shortcuts_BLOCK_ID :: u8 where "EDS_userpanel_shortcuts_BLOCK_ID \<equiv> 99"
abbreviation (input) EDS_screensaver_page_BLOCK_ID :: u8 where "EDS_screensaver_page_BLOCK_ID \<equiv> 100"
abbreviation (input) EDS_dir_page_BLOCK_ID :: u8 where "EDS_dir_page_BLOCK_ID \<equiv> 101"
abbreviation (input) EDS_heiz_page_BLOCK_ID :: u8 where "EDS_heiz_page_BLOCK_ID \<equiv> 102"
abbreviation (input) EDS_rolladen_page_BLOCK_ID :: u8 where "EDS_rolladen_page_BLOCK_ID \<equiv> 103"
abbreviation (input) EDS_taster_page_BLOCK_ID :: u8 where "EDS_taster_page_BLOCK_ID \<equiv> 104"
abbreviation (input) EDS_powerport_page_BLOCK_ID :: u8 where "EDS_powerport_page_BLOCK_ID \<equiv> 105"
abbreviation (input) EDS_fenster_monitor_page_BLOCK_ID :: u8 where "EDS_fenster_monitor_page_BLOCK_ID \<equiv> 107"
abbreviation (input) EDS_temp_anzeige_page_BLOCK_ID :: u8 where "EDS_temp_anzeige_page_BLOCK_ID \<equiv> 108"
abbreviation (input) EDS_weck_page_BLOCK_ID :: u8 where "EDS_weck_page_BLOCK_ID \<equiv> 109"
abbreviation (input) EDS_gesamt_heiz_page_BLOCK_ID :: u8 where "EDS_gesamt_heiz_page_BLOCK_ID \<equiv> 110"
abbreviation (input) ERROR_PAGE_SIZE_TOO_LARGE :: u8 where "ERROR_PAGE_SIZE_TOO_LARGE \<equiv> 1"
abbreviation (input) ERROR_PAGE_PAGE_NOT_FOUND :: u8 where "ERROR_PAGE_PAGE_NOT_FOUND \<equiv> 2"
abbreviation (input) ERROR_PAGE_CHILD_PAGE_NOT_FOUND :: u8 where "ERROR_PAGE_CHILD_PAGE_NOT_FOUND \<equiv> 3"
abbreviation (input) ERROR_PAGE_PAGE_STACK_OVERFLOW :: u8 where "ERROR_PAGE_PAGE_STACK_OVERFLOW \<equiv> 4"
abbreviation (input) ERROR_PAGE_PAGE_STACK_UNDERFLOW :: u8 where "ERROR_PAGE_PAGE_STACK_UNDERFLOW \<equiv> 5"
abbreviation (input) ERROR_PAGE_SHORTCUTS_MISSING :: u8 where "ERROR_PAGE_SHORTCUTS_MISSING \<equiv> 6"
abbreviation (input) KEY_F1 :: nat where "KEY_F1 \<equiv> 8"
abbreviation (input) KEY_F2 :: nat where "KEY_F2 \<equiv> 0"
abbreviation (input) KEY_F3 :: nat where "KEY_F3 \<equiv> 9"
abbreviation (input) KEY_F4 :: nat where "KEY_F4 \<equiv> 1"
abbreviation (input) KEY_OK :: nat where "KEY_OK \<equiv> 3"
abbreviation (input) KEY_ESC :: nat where "KEY_ESC \<equiv> 2"
abbreviation (input) KEY_UP :: nat where "KEY_UP \<equiv> 7"
abbreviation (input) KEY_DOWN :: nat where "KEY_DOWN \<equiv> 6"
abbreviation (input) LCD_DISP_ON :: u8 where "LCD_DISP_ON \<equiv> 0x0c"
abbreviation (input) LCD_DISP_ON_CURSOR_BLINK :: u8 where "LCD_DISP_ON_CURSOR_BLINK \<equiv> 0x0f"
abbreviation (input) LCD_BACKLIGHT_DEFAULT :: u8 where "LCD_BACKLIGHT_DEFAULT \<equiv> 30"
abbreviation (input) LCD_CONTRAST_DEFAULT :: u8 where "LCD_CONTRAST_DEFAULT \<equiv> 10"
abbreviation (input) LCD_BACKLIGHT_DEFAULT_LOW :: u8 where "LCD_BACKLIGHT_DEFAULT_LOW \<equiv> 3"
abbreviation (input) LCD_CONTRAST_DEFAULT_LOW :: u8 where "LCD_CONTRAST_DEFAULT_LOW \<equiv> 15"

section \<open>Access to the page, the display and the EEPROM\<close>

text \<open>A field of the active page; the structures of the page types begin at \<open>page_id\<close>.\<close>

definition block_type :: "panel \<Rightarrow> u8" where "block_type s = active_page s ! 0"
definition page_id :: "panel \<Rightarrow> u8" where "page_id s = active_page s ! 2"
definition parent_id :: "panel \<Rightarrow> u8" where "parent_id s = active_page s ! 3"
definition next_id :: "panel \<Rightarrow> u8" where "next_id s = active_page s ! 4"
definition prev_id :: "panel \<Rightarrow> u8" where "prev_id s = active_page s ! 5"

definition fld :: "nat \<Rightarrow> panel \<Rightarrow> u8" where "fld i s = active_page s ! (2 + i)"

definition cstr :: "nat \<Rightarrow> panel \<Rightarrow> u8 list" where
  "cstr i s = takeWhile (\<lambda>c. c \<noteq> 0) (drop (2 + i) (active_page s))"

definition chars :: "string \<Rightarrow> u8 list" where "chars = map of_char"

fun digits :: "nat \<Rightarrow> u8 list" where
  "digits n = (if n < 10 then [0x30 + of_nat n] else digits (n div 10) @ [0x30 + of_nat (n mod 10)])"

declare digits.simps [simp del]

text \<open>The conversions \<open>%d\<close>, \<open>%02d\<close>, \<open>%3d\<close> and \<open>%6s\<close>; \<open>snprintf\<close> with the size \<open>n\<close> keeps \<open>n - 1\<close> characters.\<close>

definition fmt_d :: "nat \<Rightarrow> bool \<Rightarrow> int \<Rightarrow> u8 list" where
  "fmt_d w zero i =
     (let ds = digits (nat (abs i)); sg = (if i < 0 then [0x2d] else []); k = w - length ds - length sg
      in if zero then sg @ replicate k 0x30 @ ds else replicate k 0x20 @ sg @ ds)"

definition fmt_s :: "nat \<Rightarrow> u8 list \<Rightarrow> u8 list" where
  "fmt_s w t = replicate (w - length t) 0x20 @ t"

definition snprintf :: "nat \<Rightarrow> u8 list \<Rightarrow> u8 list" where
  "snprintf n t = take (n - 1) t"

definition lcd_clrscr :: "panel \<Rightarrow> panel" where
  "lcd_clrscr s = s\<lparr>screen := []\<rparr>"

definition lcd_puts :: "nat \<Rightarrow> nat \<Rightarrow> u8 list \<Rightarrow> panel \<Rightarrow> panel" where
  "lcd_puts x y t s = s\<lparr>screen := screen s @ [((x, y), t)]\<rparr>"

definition lcd_command :: "u8 \<Rightarrow> panel \<Rightarrow> panel" where
  "lcd_command c s = s\<lparr>lcd_mode := c\<rparr>"

definition pn_log :: "u8 \<Rightarrow> string \<Rightarrow> int list \<Rightarrow> panel \<Rightarrow> panel" where
  "pn_log prio fmt args s = s\<lparr>pn_board := canix_syslog_P prio fmt args (pn_board s)\<rparr>"

definition eeprom_read_block :: "nat \<Rightarrow> nat \<Rightarrow> board \<Rightarrow> u8 list" where
  "eeprom_read_block p n b = map (\<lambda>i. eeprom_read_byte (p + i) b) [0..<n]"

definition eeprom_write_block :: "u8 list \<Rightarrow> nat \<Rightarrow> board \<Rightarrow> board" where
  "eeprom_write_block bs p b = fold (\<lambda>i. eeprom_write_byte (p + i) (bs ! i)) [0..<length bs] b"

text \<open>The blocks a loop over \<open>eds_find_next_block\<close> visits after the block at \<open>p\<close>.\<close>

lemma eds_find_from_bound:
  "eds_find_from P p b \<noteq> 0 \<Longrightarrow> p < EDS_END \<and> p < eds_find_from P p b"
proof -
  assume a: "eds_find_from P p b \<noteq> 0"
  then have "p < EDS_END" using eds_find_from.simps [of P p b] by (cases "p < EDS_END") auto
  with a show ?thesis using eds_find_from_greater [of P p b] by simp
qed

function eds_each :: "(u8 \<Rightarrow> bool) \<Rightarrow> nat \<Rightarrow> board \<Rightarrow> nat list" where
  "eds_each P p b = (let q = eds_find_from P p b in if q = 0 then [] else q # eds_each P q b)"
  by pat_completeness auto
termination
proof (relation "measure (\<lambda>(P, p, b). EDS_END - p)")
  show "wf (measure (\<lambda>(P :: u8 \<Rightarrow> bool, p, b :: board). EDS_END - p))" by simp
next
  fix P :: "u8 \<Rightarrow> bool" and p q and b :: board
  assume "q = eds_find_from P p b" "q \<noteq> 0"
  then show "((P, q, b), P, p, b) \<in> measure (\<lambda>(P, p, b). EDS_END - p)"
    using eds_find_from_bound [of P p b] by auto
qed

declare eds_each.simps [simp del]

definition EDS_foreach_block_between :: "u8 \<Rightarrow> u8 \<Rightarrow> board \<Rightarrow> nat list" where
  "EDS_foreach_block_between a z b =
     (let it = eds_find_next_block_between 0 a z b
      in if it = 0 then [] else it # eds_each (\<lambda>t. t \<ge> a \<and> t \<le> z) it b)"

text \<open>The loops of \<open>lcdctrl.c\<close> start at the first block and skip it when it has another type.\<close>

definition eds_all_of :: "u8 \<Rightarrow> board \<Rightarrow> nat list" where
  "eds_all_of t b = filter (\<lambda>it. EDS_BLOCK_TYPE it b = t) (EDS_DATA_START # eds_each (\<lambda>t'. t' = t) EDS_DATA_START b)"


section \<open>Frames for the pages\<close>

abbreviation (input) HEIZUNG_MODE_OFF :: u8 where "HEIZUNG_MODE_OFF \<equiv> 0"
abbreviation (input) HEIZUNG_MODE_MANUAL :: u8 where "HEIZUNG_MODE_MANUAL \<equiv> 1"
abbreviation (input) HEIZUNG_MODE_THERMOSTAT :: u8 where "HEIZUNG_MODE_THERMOSTAT \<equiv> 2"
abbreviation (input) HEIZUNG_MODE_AUTOMATIK :: u8 where "HEIZUNG_MODE_AUTOMATIK \<equiv> 3"
abbreviation (input) HEIZUNG_MODE_THERMOSTAT_FROSTSCHUTZ :: u8 where "HEIZUNG_MODE_THERMOSTAT_FROSTSCHUTZ \<equiv> 1"
abbreviation (input) HEIZUNG_MODE_THERMOSTAT_FROSTSCHUTZ_KURZ :: u8 where "HEIZUNG_MODE_THERMOSTAT_FROSTSCHUTZ_KURZ \<equiv> 2"
abbreviation (input) HEIZUNG_MODE_THERMOSTAT_X :: u8 where "HEIZUNG_MODE_THERMOSTAT_X \<equiv> 3"
abbreviation (input) HEIZUNG_MODE_AUTOMATIK_X :: u8 where "HEIZUNG_MODE_AUTOMATIK_X \<equiv> 4"
abbreviation (input) MAX_HEIZ_IDS :: nat where "MAX_HEIZ_IDS \<equiv> 12"
abbreviation (input) VORGABE_TEMPERATUR_FROSTSCHUTZ :: u16 where "VORGABE_TEMPERATUR_FROSTSCHUTZ \<equiv> 160"
abbreviation (input) VORGABE_DAUER_FROSTSCHUTZ :: u16 where "VORGABE_DAUER_FROSTSCHUTZ \<equiv> 64800"
abbreviation (input) VORGABE_DAUER_FROSTSCHUTZ_KURZ :: u16 where "VORGABE_DAUER_FROSTSCHUTZ_KURZ \<equiv> 10800"
abbreviation (input) VORGABE_TEMPERATUR_THERMOSTAT :: u16 where "VORGABE_TEMPERATUR_THERMOSTAT \<equiv> 288"
abbreviation (input) VORGABE_DAUER_THERMOSTAT :: u16 where "VORGABE_DAUER_THERMOSTAT \<equiv> 14400"

definition heiz_page_details :: "u8 list \<Rightarrow> heiz_page \<Rightarrow> heiz_page" where
  "heiz_page_details d h =
     (let h = h\<lparr>heiz_details_expected := heiz_details_expected h AND NOT 0x01\<rparr>; cmd = d ! 1
      in if cmd = HCAN_HES_HEIZUNG_MODE_OFF_DETAILS then
           h\<lparr>heiz_details_mode := HEIZUNG_MODE_OFF, heiz_details_Tsoll := 0, heiz_details_dauer := 0\<rparr>
         else if cmd = HCAN_HES_HEIZUNG_MODE_MANUAL_DETAILS then
           h\<lparr>heiz_details_mode := HEIZUNG_MODE_MANUAL, heiz_details_rate := d ! 3,
             heiz_details_dauer := word16 (d ! 4) (d ! 5)\<rparr>
         else if cmd = HCAN_HES_HEIZUNG_MODE_THERMOSTAT_DETAILS then
           h\<lparr>heiz_details_mode := HEIZUNG_MODE_THERMOSTAT, heiz_details_Tsoll := word16 (d ! 3) (d ! 4),
             heiz_details_dauer := word16 (d ! 5) (d ! 6)\<rparr>
         else
           h\<lparr>heiz_details_mode := HEIZUNG_MODE_AUTOMATIK, heiz_details_Tsoll := word16 (d ! 3) (d ! 4),
             heiz_details_dauer := 0\<rparr>)"

definition heiz_page_can_callback :: "canix_frame \<Rightarrow> panel \<Rightarrow> panel" where
  "heiz_page_can_callback f s =
     (let d = fr_data f; cmd = d ! 1; h = hzp s
      in if cmd \<in> {HCAN_HES_HEIZUNG_MODE_OFF_DETAILS, HCAN_HES_HEIZUNG_MODE_MANUAL_DETAILS,
             HCAN_HES_HEIZUNG_MODE_THERMOSTAT_DETAILS, HCAN_HES_HEIZUNG_MODE_AUTOMATIK_DETAILS} then
           (if heiz_details_expected h \<noteq> 0 \<and> d ! 2 = heiz_details_heiz_id h
            then s\<lparr>hzp := heiz_page_details d h\<rparr> else s)
         else if cmd = HCAN_HES_HEIZUNG_TIST_REPLAY then
           (if d ! 2 = heiz_details_heiz_id h
            then s\<lparr>hzp := h\<lparr>heiz_details_expected := heiz_details_expected h AND NOT 0x02,
                   heiz_details_Tist := word16 (d ! 3) (d ! 4)\<rparr>\<rparr> else s)
         else s)"

text \<open>The command of the frame is only looked at after the waiting has been ended.\<close>

definition weck_page_can_callback :: "canix_frame \<Rightarrow> panel \<Rightarrow> panel" where
  "weck_page_can_callback f s =
     (let d = fr_data f; w = wkp s
      in if weck_details_expected w \<noteq> 0 \<and> d ! 2 = weck_details_weck_id w then
           (let w = w\<lparr>weck_details_expected := weck_details_expected w AND NOT 0x01\<rparr>
            in s\<lparr>wkp := (if d ! 1 = HCAN_HES_WECKER_DETAILS
                   then w\<lparr>weck_details_dauer := word16 (d ! 3) (d ! 4)\<rparr> else w)\<rparr>)
         else s)"

text \<open>The sum \<open>(data[3] << 8 | data[4]) + 30\<close> is a 16 bit \<open>int\<close>, its quotient is cut to an \<open>int8_t\<close>.\<close>

definition timer_minutes :: "u8 \<Rightarrow> u8 \<Rightarrow> u8" where
  "timer_minutes h l = of_int (the (cdiv (sint (word16 h l + 30)) 60))"

definition powerport_page_can_callback :: "canix_frame \<Rightarrow> panel \<Rightarrow> panel" where
  "powerport_page_can_callback f s =
     (let d = fr_data f; p = ppp s
      in if fr_proto f = HCAN_PROTO_SFP \<and> d ! 0 = HCAN_SRV_HES then
           (if d ! 1 = HCAN_HES_POWER_GROUP_STATE_REPLAY then
              (if d ! 2 = fld 5 s
               then (lcd_puts 4 1 (snprintf 15 (chars (if d ! 3 \<noteq> 0 then ''[ein]'' else ''[aus]''))) s)
                      \<lparr>ppp := p\<lparr>powerport_page_state := (if d ! 3 \<noteq> 0 then 1 else 0)\<rparr>\<rparr>
               else s)
            else if d ! 1 = HCAN_HES_POWER_GROUP_TIMER_REPLAY then
              (if d ! 2 = fld 5 s then
                 (if d ! 3 = 0 \<and> d ! 4 = 0 then s\<lparr>ppp := p\<lparr>powerport_page_timer := 0\<rparr>\<rparr>
                  else let t = timer_minutes (d ! 3) (d ! 4)
                       in lcd_puts 8 1 (snprintf 15 (chars '','' @ fmt_d 3 False (sint t) @ chars ''min]''))
                            (s\<lparr>ppp := p\<lparr>powerport_page_timer := t\<rparr>\<rparr>))
               else s)
            else s)
         else s)"

definition fenster_monitor_insert_reed_state :: "u8 \<Rightarrow> u8 \<Rightarrow> panel \<Rightarrow> panel" where
  "fenster_monitor_insert_reed_state gruppe state s =
     s\<lparr>fenster_monitor_reed_state :=
         fold (\<lambda>i rs. if gruppe = fld (4 + i) s then rs[i := state] else rs) [0..<24] (fenster_monitor_reed_state s)\<rparr>"

definition fenster_monitor_page_can_callback :: "canix_frame \<Rightarrow> panel \<Rightarrow> panel" where
  "fenster_monitor_page_can_callback f s =
     (let d = fr_data f
      in if d ! 1 = HCAN_HES_REEDKONTAKT_STATE_REPLAY then fenster_monitor_insert_reed_state (d ! 2) (d ! 3) s else s)"

definition temp_anzeige_page_can_callback :: "canix_frame \<Rightarrow> panel \<Rightarrow> panel" where
  "temp_anzeige_page_can_callback f s =
     (let d = fr_data f
      in if d ! 1 = HCAN_HES_1WIRE_TEMPERATURE_REPLAY \<and> d ! 2 = fld 5 s
         then s\<lparr>tmp := \<lparr>temperature_expected = 0, temperature = word16 (d ! 3) (d ! 4)\<rparr>\<rparr> else s)"

definition lcdstatemachine_can_callback :: "canix_frame \<Rightarrow> panel \<Rightarrow> panel" where
  "lcdstatemachine_can_callback f s =
     (let t = block_type s
      in if t = EDS_heiz_page_BLOCK_ID then heiz_page_can_callback f s
         else if t = EDS_weck_page_BLOCK_ID then weck_page_can_callback f s
         else if t = EDS_powerport_page_BLOCK_ID then powerport_page_can_callback f s
         else if t = EDS_fenster_monitor_page_BLOCK_ID then fenster_monitor_page_can_callback f s
         else if t = EDS_temp_anzeige_page_BLOCK_ID then temp_anzeige_page_can_callback f s
         else s)"

text \<open>The handler of the service, called for frames of the house electricity service.\<close>

definition panel_hauselektrik_callback :: "canix_frame \<Rightarrow> panel \<Rightarrow> panel" where
  "panel_hauselektrik_callback f s =
     (if fr_data f ! 0 \<noteq> HCAN_SRV_HES \<or>
         (fr_dst f \<noteq> canix_selfaddr (pn_board s) \<and> fr_dst f \<noteq> HCAN_MULTICAST_CONTROL \<and> fr_dst f \<noteq> HCAN_MULTICAST_INFO)
      then s else lcdstatemachine_can_callback f s)"

text \<open>Sending, with the local delivery to the panel's own handler.\<close>

definition hes_send :: "u16 \<Rightarrow> u8 \<Rightarrow> u8 list \<Rightarrow> panel \<Rightarrow> panel" where
  "hes_send dst prio d s =
     (let d = HCAN_SRV_HES # d
      in panel_hauselektrik_callback
           \<lparr>fr_src = canix_selfaddr (pn_board s), fr_dst = dst, fr_proto = HCAN_PROTO_SFP, fr_size = of_nat (length d), fr_data = d\<rparr>
           (s\<lparr>pn_board := send_prio dst d prio (pn_board s)\<rparr>))"

definition hes_control :: "u8 list \<Rightarrow> panel \<Rightarrow> panel" where
  "hes_control d s = hes_send HCAN_MULTICAST_CONTROL HCAN_PRIO_HI d s"

section \<open>The light of the display\<close>

definition lcdctrl_set_backlight :: "u8 \<Rightarrow> panel \<Rightarrow> panel" where
  "lcdctrl_set_backlight n s = s\<lparr>OCR1A := n\<rparr>"

definition lcdctrl_set_contrast :: "u8 \<Rightarrow> panel \<Rightarrow> panel" where
  "lcdctrl_set_contrast n s = s\<lparr>OCR1B := n\<rparr>"

text \<open>The first matching time zone of a settings block decides, and the first block that has one; the values
  are its zone, light and contrast.\<close>

fun light_zones :: "nat list \<Rightarrow> u8 \<Rightarrow> panel \<Rightarrow> bool \<times> panel" where
  "light_zones [] zid s = (False, s)"
| "light_zones (it2 # its) zid s =
     (let b = pn_board s; zz = zeitzone_config_at it2 b;
          s = pn_log SYSLOG_PRIO_DEBUG ''lcdctrl_set_light: zeit zone found @%d'' [int it2] s
      in if zid = zz_gruppe zz \<and> time_matches (from_hour zz) (from_minute zz) (to_hour zz) (to_minute zz) (day_pattern zz) (rtc b)
         then (True, s) else light_zones its zid s)"

fun light_blocks :: "nat list \<Rightarrow> panel \<Rightarrow> bool \<times> panel" where
  "light_blocks [] s = (False, s)"
| "light_blocks (it # its) s =
     (let b = pn_board s; zid = eeprom_read_byte (it + 2) b; back = eeprom_read_byte (it + 3) b;
          con = eeprom_read_byte (it + 4) b;
          s = pn_log SYSLOG_PRIO_DEBUG ''lcdctrl_set_light: light block found @%d'' [int it] s;
          s = pn_log SYSLOG_PRIO_DEBUG '' zeitzone: %d'' [uint zid] s;
          s = pn_log SYSLOG_PRIO_DEBUG '' backlight: %d'' [uint back] s;
          s = pn_log SYSLOG_PRIO_DEBUG '' contrast: %d'' [uint con] s;
          (found, s) = light_zones (eds_all_of EDS_zeitzone_BLOCK_ID b) zid s
      in if found then
           (True, pn_log SYSLOG_PRIO_DEBUG ''lcdctrl_set_light: %d,%d'' [uint back, uint con]
              (lcdctrl_set_contrast con (lcdctrl_set_backlight back s)))
         else light_blocks its s)"

text \<open>\<open>active\<close> is the mode \<open>LCD_MODE_ACTIVE\<close>.\<close>

definition lcdctrl_set_display_light :: "bool \<Rightarrow> panel \<Rightarrow> panel" where
  "lcdctrl_set_display_light active s =
     (if active then lcdctrl_set_contrast LCD_CONTRAST_DEFAULT (lcdctrl_set_backlight LCD_BACKLIGHT_DEFAULT s)
      else
        let s = pn_log SYSLOG_PRIO_DEBUG ''lcdctrl_set_light: mode=inactive'' [] s;
            (done, s) = light_blocks (eds_all_of EDS_lcd_light_settings_BLOCK_ID (pn_board s)) s
        in if done then s
           else lcdctrl_set_contrast LCD_CONTRAST_DEFAULT_LOW (lcdctrl_set_backlight LCD_BACKLIGHT_DEFAULT_LOW s))"

definition lcdctrl_blink :: "sleeper \<Rightarrow> panel \<Rightarrow> panel" where
  "lcdctrl_blink slp s =
     lcdctrl_set_display_light True
       (fold (\<lambda>j. fold (\<lambda>i s. slp 1 (s\<lparr>OCR1A := of_nat (i * 10), OCR1B := 10\<rparr>)) [0..<10]) [0..<3 :: nat] s)"


section \<open>Showing the pages\<close>

definition load_error_page :: "u8 \<Rightarrow> panel \<Rightarrow> panel" where
  "load_error_page code s = s\<lparr>active_page := (active_page s)[0 := 255, 1 := 1, 2 := 255, 3 := 0, 4 := 0, 5 := 0, 6 := code]\<rparr>"

text \<open>The text of a day outside 1 to 7 is an uninitialised buffer.\<close>

definition day_name :: "u8 \<Rightarrow> u8 list option" where
  "day_name d =
     (if d = 1 then Some (chars ''Mon'') else if d = 2 then Some (chars ''Di'') else if d = 3 then Some (chars ''Mi'')
      else if d = 4 then Some (chars ''Do'') else if d = 5 then Some (chars ''Fr'') else if d = 6 then Some (chars ''Sa'')
      else if d = 7 then Some (chars ''So'') else None)"

definition print_screensaver_page :: "panel \<Rightarrow> panel" where
  "print_screensaver_page s =
     (let c = rtc (pn_board s); (tag, s) = (case day_name (day_of_week c) of Some t \<Rightarrow> (t, s)
          | None \<Rightarrow> ([], s\<lparr>pn_board := raise_fault (pn_board s)\<rparr>));
          s = lcd_puts 0 0 (snprintf 31 (tag @ chars '', '' @ fmt_d 2 True (uint (day_of_month c)) @ chars ''.'' @
                fmt_d 2 True (uint (month_of_year c)) @ chars ''.'' @ fmt_d 0 False (uint (year c) + 2000))) s
      in lcd_puts 0 1 (snprintf 31 (fmt_d 2 True (uint (hour c)) @ chars '':'' @ fmt_d 2 True (uint (minute c)) @ chars '' Uhr'')) s)"

definition print_dir_page :: "panel \<Rightarrow> panel" where
  "print_dir_page s = lcd_puts 0 0 (snprintf 31 (chars ''>'' @ cstr 4 s @ chars ''..'')) s"

text \<open>The request for the details overwrites the mark of the first expected reply with the second one.\<close>

definition get_heiz_details :: "sleeper \<Rightarrow> u8 \<Rightarrow> panel \<Rightarrow> bool \<times> panel" where
  "get_heiz_details slp heiz_id s =
     (let s = s\<lparr>hzp := (hzp s)\<lparr>heiz_details_heiz_id := heiz_id, heiz_details_Tsoll := 0\<rparr>\<rparr>;
          s = hes_control [HCAN_HES_HEIZUNG_DETAILS_REQUEST, heiz_id] s;
          s = s\<lparr>hzp := (hzp s)\<lparr>heiz_details_expected := 1\<rparr>\<rparr>;
          s = slp 5 s;
          s = hes_control [HCAN_HES_HEIZUNG_TIST_REQUEST, heiz_id] s;
          s = s\<lparr>hzp := (hzp s)\<lparr>heiz_details_expected := 2\<rparr>\<rparr>;
          s = slp 5 s
      in if heiz_details_expected (hzp s) = 0
         then (True, s\<lparr>hzp := (hzp s)\<lparr>heiz_details_heiz_id := 0\<rparr>\<rparr>) else (False, s))"

definition tenths :: "u16 \<Rightarrow> u8" where "tenths T = ucast (drop_bit 4 ((T AND 0x0f) * 10))"
definition degrees :: "u16 \<Rightarrow> u8" where "degrees T = ucast (signed_drop_bit 4 T)"
definition hours :: "u16 \<Rightarrow> u8" where "hours d = ucast (d div 3600)"
definition hour_minutes :: "u16 \<Rightarrow> u8" where "hour_minutes d = ucast ((d div 60) mod 60)"

definition fmt_temp :: "u16 \<Rightarrow> u8 list" where
  "fmt_temp T = fmt_d 2 True (uint (degrees T)) @ chars ''.'' @ fmt_d 0 False (uint (tenths T)) @ [0xdf] @ chars ''C''"

definition fmt_dauer :: "u16 \<Rightarrow> u8 list" where
  "fmt_dauer d = fmt_d 0 False (uint (hours d)) @ chars '':'' @ fmt_d 2 True (uint (hour_minutes d)) @ chars ''h''"

text \<open>What the second line shows; a mode without a text leaves the first line in the buffer.\<close>

definition heiz_page_line :: "u8 \<Rightarrow> u8 \<Rightarrow> u8 \<Rightarrow> u16 \<Rightarrow> u16 \<Rightarrow> u8 list \<Rightarrow> u8 list" where
  "heiz_page_line subpage md rate Tsoll dauer buf =
     (if subpage = 0 then
        (if md = HEIZUNG_MODE_OFF then chars ''Mode aus'' else if md = HEIZUNG_MODE_MANUAL then chars ''Mode manuell''
         else if md = HEIZUNG_MODE_THERMOSTAT then chars ''Mode Therm.''
         else if md = HEIZUNG_MODE_AUTOMATIK then chars ''Mode auto'' else buf)
      else if subpage = 1 then
        (if md = HEIZUNG_MODE_OFF then chars '' - ''
         else if md = HEIZUNG_MODE_MANUAL then chars ''Rate='' @ fmt_d 0 False (uint rate) @ chars ''%''
         else if md = HEIZUNG_MODE_THERMOSTAT \<or> md = HEIZUNG_MODE_AUTOMATIK then chars ''Ts='' @ fmt_temp Tsoll else buf)
      else
        (if md = HEIZUNG_MODE_OFF \<or> md = HEIZUNG_MODE_AUTOMATIK then chars '' - ''
         else if md = HEIZUNG_MODE_MANUAL \<or> md = HEIZUNG_MODE_THERMOSTAT then chars ''Dauer='' @ fmt_dauer dauer else buf))"

definition heiz_page_print_page :: "sleeper \<Rightarrow> panel \<Rightarrow> panel" where
  "heiz_page_print_page slp s =
     (let s = lcd_clrscr s;
          (ok, s) = (if heiz_page_state (hzp s) = STATE_VIEW then get_heiz_details slp (fld 12 s) s else (True, s))
      in if \<not> ok then lcd_puts 0 1 (snprintf 31 (chars ''Fehler!'')) s
         else let h = hzp s; ed = (heiz_page_state h = STATE_EDIT);
                  md = (if ed then heiz_details_mode_edit h else heiz_details_mode h);
                  rate = (if ed then heiz_details_rate_edit h else heiz_details_rate h);
                  Tsoll = (if ed then heiz_details_Tsoll_edit h else heiz_details_Tsoll h);
                  dauer = (if ed then heiz_details_dauer_edit h else heiz_details_dauer h);
                  s = lcd_puts 0 0 (snprintf 31 (fmt_s 6 (cstr 4 s))) s;
                  buf = snprintf 31 (chars '' Ti='' @ fmt_temp (heiz_details_Tist h));
                  s = lcd_puts 6 0 buf s; sub = heiz_page_subpage h
              in if sub \<le> 2 then lcd_puts 0 1 (snprintf 31 (heiz_page_line sub md rate Tsoll dauer buf)) s else s)"

text \<open>The presets of a mode. A thermostat keeps its values unless they are 0 or those of the frost protection.\<close>

definition gesamt_heiz_presets :: "gesamt_heiz_page \<Rightarrow> gesamt_heiz_page" where
  "gesamt_heiz_presets g =
     (let m = gesamt_heiz_details_mode_edit g
      in if m = HEIZUNG_MODE_THERMOSTAT_FROSTSCHUTZ then
           g\<lparr>gesamt_heiz_details_Tsoll_edit := VORGABE_TEMPERATUR_FROSTSCHUTZ,
             gesamt_heiz_details_dauer_edit := VORGABE_DAUER_FROSTSCHUTZ\<rparr>
         else if m = HEIZUNG_MODE_THERMOSTAT_FROSTSCHUTZ_KURZ then
           g\<lparr>gesamt_heiz_details_Tsoll_edit := VORGABE_TEMPERATUR_FROSTSCHUTZ,
             gesamt_heiz_details_dauer_edit := VORGABE_DAUER_FROSTSCHUTZ_KURZ\<rparr>
         else if m = HEIZUNG_MODE_THERMOSTAT_X then
           (let T = gesamt_heiz_details_Tsoll_edit g; d = gesamt_heiz_details_dauer_edit g
            in g\<lparr>gesamt_heiz_details_Tsoll_edit := (if T = 0 \<or> T = VORGABE_TEMPERATUR_FROSTSCHUTZ then VORGABE_TEMPERATUR_THERMOSTAT else T),
                 gesamt_heiz_details_dauer_edit := (if d = 0 \<or> d = VORGABE_DAUER_FROSTSCHUTZ then VORGABE_DAUER_THERMOSTAT else d)\<rparr>)
         else g)"

definition gesamt_heiz_page_line :: "u8 \<Rightarrow> u8 \<Rightarrow> u16 \<Rightarrow> u16 \<Rightarrow> u8 list \<Rightarrow> u8 list" where
  "gesamt_heiz_page_line subpage md Tsoll dauer buf =
     (if subpage = 0 then
        (if md = HEIZUNG_MODE_OFF then chars ''Mode aus''
         else if md = HEIZUNG_MODE_THERMOSTAT_FROSTSCHUTZ then chars ''Mode Frost.''
         else if md = HEIZUNG_MODE_THERMOSTAT_FROSTSCHUTZ_KURZ then chars ''Mode Frost.kurz''
         else if md = HEIZUNG_MODE_THERMOSTAT_X then chars ''Mode Therm.''
         else if md = HEIZUNG_MODE_AUTOMATIK_X then chars ''Mode auto'' else buf)
      else if md = HEIZUNG_MODE_OFF \<or> md = HEIZUNG_MODE_AUTOMATIK_X then chars '' - ''
      else if md \<le> 3 then (if subpage = 1 then chars ''Ts='' @ fmt_temp Tsoll else chars ''Dauer='' @ fmt_dauer dauer)
      else buf)"

text \<open>The values shown are those from before the presets are set, except while editing, when none are set.\<close>

definition gesamt_heiz_page_print_page :: "panel \<Rightarrow> panel" where
  "gesamt_heiz_page_print_page s =
     (let g = gzp s; md = gesamt_heiz_details_mode_edit g; dauer = gesamt_heiz_details_dauer_edit g;
          Tsoll = gesamt_heiz_details_Tsoll_edit g; s = lcd_clrscr s;
          s = (if gesamt_heiz_page_state g = STATE_VIEW then s\<lparr>gzp := gesamt_heiz_presets g\<rparr> else s);
          buf = snprintf 31 (fmt_s 6 (cstr 4 s)); s = lcd_puts 0 0 buf s; sub = gesamt_heiz_page_subpage g
      in if sub \<le> 2 then lcd_puts 0 1 (snprintf 31 (gesamt_heiz_page_line sub md Tsoll dauer buf)) s else s)"

definition get_weck_details :: "sleeper \<Rightarrow> u8 \<Rightarrow> panel \<Rightarrow> bool \<times> panel" where
  "get_weck_details slp weck_id s =
     (let s = s\<lparr>wkp := (wkp s)\<lparr>weck_details_weck_id := weck_id\<rparr>\<rparr>;
          s = hes_control [HCAN_HES_WECKER_DETAILS_REQUEST, weck_id] s;
          s = s\<lparr>wkp := (wkp s)\<lparr>weck_details_expected := 1\<rparr>\<rparr>;
          s = slp 5 s
      in if weck_details_expected (wkp s) = 0
         then (True, s\<lparr>wkp := (wkp s)\<lparr>weck_details_weck_id := 0\<rparr>\<rparr>) else (False, s))"

definition weck_page_print_page :: "sleeper \<Rightarrow> panel \<Rightarrow> panel" where
  "weck_page_print_page slp s =
     (let s = lcd_clrscr s;
          (ok, s) = (if weck_page_state (wkp s) = STATE_VIEW then get_weck_details slp (fld 5 s) s else (True, s))
      in if \<not> ok then lcd_puts 0 1 (snprintf 31 (chars ''Fehler!'')) s
         else let dauer = (if weck_page_state (wkp s) = STATE_EDIT then weck_details_dauer_edit (wkp s) else weck_details_dauer (wkp s));
                  s = lcd_puts 0 0 (snprintf 31 (fmt_s 8 (cstr 6 s))) s
              in lcd_puts 0 1 (snprintf 31 (chars ''wecken in '' @ fmt_dauer dauer)) s)"

definition rolladen_page_print_page :: "panel \<Rightarrow> panel" where
  "rolladen_page_print_page s =
     (let s = lcd_puts 0 0 (snprintf 31 (cstr 7 s)) (lcd_clrscr s) in lcd_puts 0 1 (snprintf 31 (cstr 24 s)) s)"

definition taster_page_print_page :: "panel \<Rightarrow> panel" where
  "taster_page_print_page s =
     (let s = lcd_puts 0 0 (snprintf 39 (fmt_s 16 (cstr 6 s))) (lcd_clrscr s) in lcd_puts 0 1 (snprintf 39 (fmt_s 16 (cstr 23 s))) s)"

definition powerport_page_print_page :: "sleeper \<Rightarrow> panel \<Rightarrow> panel" where
  "powerport_page_print_page slp s =
     (let s = lcd_puts 0 0 (snprintf 39 (cstr 6 s)) (lcd_clrscr s); s = lcd_puts 0 1 (snprintf 39 (cstr 23 s)) s;
          s = s\<lparr>ppp := \<lparr>powerport_page_state = -1, powerport_page_timer = -1\<rparr>\<rparr>;
          s = hes_control [HCAN_HES_POWER_GROUP_STATE_QUERY, fld 5 s] s;
          s = slp 1 s
      in hes_control [HCAN_HES_POWER_GROUP_TIMER_QUERY, fld 5 s] s)"

definition temp_anzeige_page_get_temp :: "sleeper \<Rightarrow> panel \<Rightarrow> u16 option \<times> panel" where
  "temp_anzeige_page_get_temp slp s =
     (let s = hes_send HCAN_MULTICAST_INFO HCAN_PRIO_LOW [HCAN_HES_1WIRE_TEMPERATURE_QUERY, fld 5 s] s;
          s = slp 2 (s\<lparr>tmp := (tmp s)\<lparr>temperature_expected := 1\<rparr>\<rparr>)
      in (if temperature_expected (tmp s) = 0 then Some (temperature (tmp s)) else None, s))"

text \<open>\<open>(Tist + 8) >> 4\<close> rounds to degrees; it is an \<open>int\<close> of 16 bits.\<close>

definition temp_anzeige_page_print_page :: "sleeper \<Rightarrow> panel \<Rightarrow> panel" where
  "temp_anzeige_page_print_page slp s =
     (let s = lcd_clrscr s; s = lcd_puts 0 0 (snprintf 31 (cstr 6 s)) s
      in case temp_anzeige_page_get_temp slp s of
           (Some Tist, s) \<Rightarrow>
             lcd_puts 0 1 (snprintf 31 (chars ''T='' @ fmt_d 0 False (sint (signed_drop_bit 4 (Tist + 8))) @ [0xdf] @ chars ''C'')) s
         | (None, s) \<Rightarrow> pn_log SYSLOG_PRIO_ERROR ''temp_anzeige: tempsensor replay %d missing'' [uint (fld 5 s)] s)"

text \<open>The contacts are asked one after the other, a tenth of a second each.\<close>

definition fenster_monitor_query :: "sleeper \<Rightarrow> nat \<Rightarrow> panel \<Rightarrow> panel" where
  "fenster_monitor_query slp i s =
     (if fld (4 + i) s \<noteq> 255
      then slp 10 (hes_send HCAN_MULTICAST_CONTROL HCAN_PRIO_LOW [HCAN_HES_REEDKONTAKT_STATE_QUERY, fld (4 + i) s] s)
      else s)"

definition fenster_monitor_collect_reed_states :: "sleeper \<Rightarrow> panel \<Rightarrow> u8 \<times> panel" where
  "fenster_monitor_collect_reed_states slp s =
     (let s = s\<lparr>fenster_monitor_reed_state := replicate 24 255\<rparr>;
          s = fold (fenster_monitor_query slp) [0..<24] s
      in (of_nat (length (filter (\<lambda>r. r \<noteq> 0 \<and> r \<noteq> 255) (fenster_monitor_reed_state s))), s))"

definition fenster_monitor_page_print_page :: "sleeper \<Rightarrow> panel \<Rightarrow> panel" where
  "fenster_monitor_page_print_page slp s =
     (let s = lcd_puts 0 0 (snprintf 31 (chars ''Fenster:'')) (lcd_clrscr s);
          (n, s) = fenster_monitor_collect_reed_states slp s
      in lcd_puts 0 1 (snprintf 31 (chars '' '' @ fmt_d 0 False (uint n) @ chars '' offen'')) s)"

text \<open>The text of an error; for an unknown code the buffer keeps the first line.\<close>

definition error_text :: "u8 \<Rightarrow> u8 list \<Rightarrow> u8 list" where
  "error_text c buf =
     (if c = ERROR_PAGE_SIZE_TOO_LARGE then chars ''Seite zu gr.'' else if c = ERROR_PAGE_PAGE_NOT_FOUND then chars ''Seite n. gef.''
      else if c = ERROR_PAGE_CHILD_PAGE_NOT_FOUND then chars ''Child-S. n. gef.''
      else if c = ERROR_PAGE_PAGE_STACK_OVERFLOW then chars ''page stack overflow''
      else if c = ERROR_PAGE_PAGE_STACK_UNDERFLOW then chars ''page stack underflow''
      else if c = ERROR_PAGE_SHORTCUTS_MISSING then chars ''shortcuts error'' else buf)"

definition print_page :: "sleeper \<Rightarrow> panel \<Rightarrow> panel" where
  "print_page slp s =
     (let s = lcd_clrscr s; t = block_type s
      in if t = 255 then
           (let buf = snprintf 31 (chars ''Fehler '' @ fmt_d 0 False (uint (fld 4 s)) @ chars '':'')
            in lcd_puts 0 1 (error_text (fld 4 s) buf) (lcd_puts 0 0 buf s))
         else if t = EDS_screensaver_page_BLOCK_ID then print_screensaver_page s
         else if t = EDS_dir_page_BLOCK_ID then print_dir_page s
         else if t = EDS_heiz_page_BLOCK_ID then heiz_page_print_page slp s
         else if t = EDS_weck_page_BLOCK_ID then weck_page_print_page slp s
         else if t = EDS_gesamt_heiz_page_BLOCK_ID then gesamt_heiz_page_print_page s
         else if t = EDS_rolladen_page_BLOCK_ID then rolladen_page_print_page s
         else if t = EDS_taster_page_BLOCK_ID then taster_page_print_page s
         else if t = EDS_powerport_page_BLOCK_ID then powerport_page_print_page slp s
         else if t = EDS_fenster_monitor_page_BLOCK_ID then fenster_monitor_page_print_page slp s
         else if t = EDS_temp_anzeige_page_BLOCK_ID then temp_anzeige_page_print_page slp s
         else lcd_puts 0 1 (snprintf 31 (fmt_d 0 False (uint t) @ chars '' unbekannt''))
                (lcd_puts 0 0 (snprintf 31 (chars ''Fehler: Pagetyp'')) s))"


section \<open>Going from page to page\<close>

text \<open>A page that does not fit is passed over, after the error page has been loaded.\<close>

fun load_page_loop :: "nat list \<Rightarrow> u8 \<Rightarrow> panel \<Rightarrow> panel" where
  "load_page_loop [] pg s =
     load_error_page ERROR_PAGE_PAGE_NOT_FOUND (pn_log SYSLOG_PRIO_ERROR ''page %d not found'' [uint pg] s)"
| "load_page_loop (it # its) pg s =
     (let b = pn_board s; sz = unat (EDS_BLOCK_SIZE it b) + 2
      in if eeprom_read_byte (it + 2) b = pg then
           (if sz > LCDPAGE_SIZE then
              load_page_loop its pg
                (load_error_page ERROR_PAGE_SIZE_TOO_LARGE (pn_log SYSLOG_PRIO_ERROR ''page (%d) size too large'' [uint pg] s))
            else
              let old = active_page s; new = eeprom_read_block it sz b @ drop sz old;
                  s = pn_log SYSLOG_PRIO_DEBUG ''load_page: #1 .ap.block_type=%d'' [uint (old ! 0)] s;
                  s = pn_log SYSLOG_PRIO_DEBUG ''load_page: #1 .ap.block_size=%d'' [uint (old ! 1)] s;
                  s = pn_log SYSLOG_PRIO_DEBUG ''load_page: #1 .ap.page_id=%d'' [uint (old ! 2)] s;
                  s = s\<lparr>active_page := new\<rparr>;
                  s = pn_log SYSLOG_PRIO_DEBUG ''load_page: #2 .ap.block_type=%d'' [uint (new ! 0)] s;
                  s = pn_log SYSLOG_PRIO_DEBUG ''load_page: #2 .ap.block_size=%d'' [uint (new ! 1)] s
              in pn_log SYSLOG_PRIO_DEBUG ''load_page: #2 .ap.page_id=%d'' [uint (new ! 2)] s)
         else load_page_loop its pg s)"

definition load_page :: "u8 \<Rightarrow> panel \<Rightarrow> panel" where
  "load_page pg s =
     (let s = pn_log SYSLOG_PRIO_DEBUG ''load page %d'' [uint pg] s
      in load_page_loop (EDS_foreach_block_between EDS_PAGE_ID_START EDS_PAGE_ID_END (pn_board s)) pg s)"

definition goto_page :: "sleeper \<Rightarrow> u8 \<Rightarrow> panel \<Rightarrow> panel" where
  "goto_page slp pg s = print_page slp (load_page pg (pn_log SYSLOG_PRIO_DEBUG ''goto page %d'' [uint pg] s))"

definition goto_page_up :: "sleeper \<Rightarrow> panel \<Rightarrow> panel" where
  "goto_page_up slp s = (if parent_id s \<noteq> 0 then print_page slp (load_page (parent_id s) s) else s)"

definition goto_next_page :: "sleeper \<Rightarrow> panel \<Rightarrow> panel" where
  "goto_next_page slp s = (if next_id s \<noteq> 0 then print_page slp (load_page (next_id s) s) else s)"

definition goto_prev_page :: "sleeper \<Rightarrow> panel \<Rightarrow> panel" where
  "goto_prev_page slp s = (if prev_id s \<noteq> 0 then print_page slp (load_page (prev_id s) s) else s)"

definition page_path_stack_push :: "sleeper \<Rightarrow> u8 \<Rightarrow> panel \<Rightarrow> panel" where
  "page_path_stack_push slp pg s =
     (if page_stack_ptr s \<ge> 7 then print_page slp (load_error_page ERROR_PAGE_PAGE_STACK_OVERFLOW s)
      else s\<lparr>page_stack := (page_stack s)[unat (page_stack_ptr s) := pg], page_stack_ptr := page_stack_ptr s + 1\<rparr>)"

definition page_path_stack_pop :: "sleeper \<Rightarrow> panel \<Rightarrow> u8 \<times> panel" where
  "page_path_stack_pop slp s =
     (if page_stack_ptr s = 0 then (255, print_page slp (load_error_page ERROR_PAGE_PAGE_STACK_UNDERFLOW s))
      else let n = page_stack_ptr s - 1 in (page_stack s ! unat n, s\<lparr>page_stack_ptr := n\<rparr>))"

fun first_child_loop :: "sleeper \<Rightarrow> nat list \<Rightarrow> u8 \<Rightarrow> panel \<Rightarrow> panel" where
  "first_child_loop slp [] self s = print_page slp (load_error_page ERROR_PAGE_CHILD_PAGE_NOT_FOUND s)"
| "first_child_loop slp (it # its) self s =
     (let b = pn_board s; sz = unat (EDS_BLOCK_SIZE it b) + 2
      in if eeprom_read_byte (it + 3) b = self \<and> eeprom_read_byte (it + 5) b = 0 then
           (if sz > LCDPAGE_SIZE then print_page slp (load_error_page ERROR_PAGE_SIZE_TOO_LARGE s)
            else print_page slp (s\<lparr>active_page := eeprom_read_block it sz b @ drop sz (active_page s)\<rparr>))
         else first_child_loop slp its self s)"

definition goto_first_child_page :: "sleeper \<Rightarrow> panel \<Rightarrow> panel" where
  "goto_first_child_page slp s =
     (let self = page_id s; s = page_path_stack_push slp self s
      in first_child_loop slp (EDS_foreach_block_between EDS_PAGE_ID_START EDS_PAGE_ID_END (pn_board s)) self s)"

section \<open>Keys on the pages\<close>

text \<open>\<open>None\<close>: the command and the size of the message are not initialised.\<close>

definition heiz_edited_message :: "u8 \<Rightarrow> heiz_page \<Rightarrow> u8 list option" where
  "heiz_edited_message hid h =
     (let md = heiz_details_mode_edit h; d = heiz_details_dauer_edit h; T = heiz_details_Tsoll_edit h
      in if heiz_page_subpage h = 0 then
           (if md = HEIZUNG_MODE_OFF then Some [HCAN_HES_HEIZUNG_SET_MODE_OFF, hid]
            else if md = HEIZUNG_MODE_MANUAL then Some [HCAN_HES_HEIZUNG_SET_MODE_MANUAL, hid, 0, 84, 96]
            else if md = HEIZUNG_MODE_THERMOSTAT then Some [HCAN_HES_HEIZUNG_SET_MODE_THERMOSTAT_DETAILS, hid, 1, 64, 84, 96]
            else if md = HEIZUNG_MODE_AUTOMATIK then Some [HCAN_HES_HEIZUNG_SET_MODE_AUTOMATIK, hid]
            else None)
         else if heiz_page_subpage h \<in> {1, 2} then
           (if md = HEIZUNG_MODE_MANUAL
            then Some [HCAN_HES_HEIZUNG_SET_MODE_MANUAL, hid, heiz_details_rate_edit h, hi8 d, lo8 d]
            else if md = HEIZUNG_MODE_THERMOSTAT
            then Some [HCAN_HES_HEIZUNG_SET_MODE_THERMOSTAT_DETAILS, hid, hi8 T, lo8 T, hi8 d, lo8 d]
            else None)
         else None)"

definition set_heiz_edited_details :: "panel \<Rightarrow> panel" where
  "set_heiz_edited_details s =
     (case heiz_edited_message (fld 12 s) (hzp s) of
        Some d \<Rightarrow> hes_control d s
      | None \<Rightarrow> s\<lparr>pn_board := raise_fault (pn_board s)\<rparr>)"

definition heiz_edit_up :: "heiz_page \<Rightarrow> heiz_page" where
  "heiz_edit_up h =
     (let md = heiz_details_mode_edit h; sub = heiz_page_subpage h
      in if sub = 0 then (if md < HEIZUNG_MODE_AUTOMATIK then h\<lparr>heiz_details_mode_edit := md + 1\<rparr> else h)
         else if sub = 1 then
           (if md = HEIZUNG_MODE_MANUAL
            then (if heiz_details_rate_edit h < 100 then h\<lparr>heiz_details_rate_edit := heiz_details_rate_edit h + 10\<rparr> else h)
            else if md = HEIZUNG_MODE_THERMOSTAT
            then (if sint (heiz_details_Tsoll_edit h) < 480 then h\<lparr>heiz_details_Tsoll_edit := heiz_details_Tsoll_edit h + 2\<rparr> else h)
            else h)
         else if sub = 2 then
           (if (md = HEIZUNG_MODE_MANUAL \<or> md = HEIZUNG_MODE_THERMOSTAT) \<and> heiz_details_dauer_edit h < 43200
            then h\<lparr>heiz_details_dauer_edit := heiz_details_dauer_edit h div 900 * 900 + 900\<rparr> else h)
         else h)"

definition heiz_edit_down :: "heiz_page \<Rightarrow> heiz_page" where
  "heiz_edit_down h =
     (let md = heiz_details_mode_edit h; sub = heiz_page_subpage h
      in if sub = 0 then (if md > HEIZUNG_MODE_OFF then h\<lparr>heiz_details_mode_edit := md - 1\<rparr> else h)
         else if sub = 1 then
           (if md = HEIZUNG_MODE_MANUAL
            then (if heiz_details_rate_edit h > 0 then h\<lparr>heiz_details_rate_edit := heiz_details_rate_edit h - 10\<rparr> else h)
            else if md = HEIZUNG_MODE_THERMOSTAT
            then (if sint (heiz_details_Tsoll_edit h) > 0 then h\<lparr>heiz_details_Tsoll_edit := heiz_details_Tsoll_edit h - 2\<rparr> else h)
            else h)
         else if sub = 2 then
           (if (md = HEIZUNG_MODE_MANUAL \<or> md = HEIZUNG_MODE_THERMOSTAT) \<and> heiz_details_dauer_edit h > 900
            then h\<lparr>heiz_details_dauer_edit := heiz_details_dauer_edit h div 900 * 900 - 900\<rparr> else h)
         else h)"

text \<open>The result of the request is not looked at: without a reply the old values are edited.\<close>

definition heiz_begin_edit :: "sleeper \<Rightarrow> panel \<Rightarrow> panel" where
  "heiz_begin_edit slp s =
     (let (ok, s) = get_heiz_details slp (fld 12 s) s; h = hzp s;
          s = (if ok then s\<lparr>hzp := h\<lparr>heiz_details_mode_edit := heiz_details_mode h, heiz_details_rate_edit := heiz_details_rate h,
                 heiz_details_Tsoll_edit := heiz_details_Tsoll h, heiz_details_dauer_edit := heiz_details_dauer h\<rparr>\<rparr> else s)
      in if heiz_page_subpage (hzp s) = 1 \<and> heiz_details_mode_edit (hzp s) = HEIZUNG_MODE_AUTOMATIK then s
         else heiz_page_print_page slp
                (lcd_command LCD_DISP_ON_CURSOR_BLINK (s\<lparr>hzp := (hzp s)\<lparr>heiz_page_state := STATE_EDIT\<rparr>\<rparr>)))"

definition heiz_page_handle_key_down_event :: "sleeper \<Rightarrow> nat \<Rightarrow> panel \<Rightarrow> panel" where
  "heiz_page_handle_key_down_event slp key s =
     (let h = hzp s; viewing = (heiz_page_state h = STATE_VIEW)
      in if key = KEY_OK then
           (if viewing then heiz_begin_edit slp s
            else heiz_page_print_page slp (set_heiz_edited_details
                   (lcd_command LCD_DISP_ON (s\<lparr>hzp := h\<lparr>heiz_page_state := STATE_VIEW\<rparr>\<rparr>))))
         else if key = KEY_ESC then
           (if viewing then goto_page_up slp (s\<lparr>hzp := h\<lparr>heiz_page_subpage := 0\<rparr>\<rparr>)
            else heiz_page_print_page slp (lcd_command LCD_DISP_ON (s\<lparr>hzp := h\<lparr>heiz_page_state := STATE_VIEW\<rparr>\<rparr>)))
         else if key = KEY_UP then
           heiz_page_print_page slp (s\<lparr>hzp := (if viewing
             then (if heiz_page_subpage h > 0 then h\<lparr>heiz_page_subpage := heiz_page_subpage h - 1\<rparr> else h)
             else heiz_edit_up h)\<rparr>)
         else if key = KEY_DOWN then
           heiz_page_print_page slp (s\<lparr>hzp := (if viewing
             then (let top = (if heiz_details_mode_edit h = HEIZUNG_MODE_OFF \<or> heiz_details_mode_edit h = HEIZUNG_MODE_AUTOMATIK then 0 else 2)
                   in if heiz_page_subpage h < top then h\<lparr>heiz_page_subpage := heiz_page_subpage h + 1\<rparr> else h)
             else heiz_edit_down h)\<rparr>)
         else s)"


definition frost_or_thermostat :: "u8 \<Rightarrow> bool" where
  "frost_or_thermostat md =
     (md = HEIZUNG_MODE_THERMOSTAT_FROSTSCHUTZ \<or> md = HEIZUNG_MODE_THERMOSTAT_FROSTSCHUTZ_KURZ \<or> md = HEIZUNG_MODE_THERMOSTAT_X)"

definition gesamt_heiz_message :: "gesamt_heiz_page \<Rightarrow> u8 \<Rightarrow> u8 list option" where
  "gesamt_heiz_message g hid =
     (let md = gesamt_heiz_details_mode_edit g;
          thermo = (\<lambda>(T :: u16) (d :: u16). Some [HCAN_HES_HEIZUNG_SET_MODE_THERMOSTAT_DETAILS, hid, hi8 T, lo8 T, hi8 d, lo8 d])
      in if gesamt_heiz_page_subpage g = 0 then
           (if md = HEIZUNG_MODE_OFF then Some [HCAN_HES_HEIZUNG_SET_MODE_OFF, hid]
            else if md = HEIZUNG_MODE_THERMOSTAT_FROSTSCHUTZ then thermo VORGABE_TEMPERATUR_FROSTSCHUTZ VORGABE_DAUER_FROSTSCHUTZ
            else if md = HEIZUNG_MODE_THERMOSTAT_FROSTSCHUTZ_KURZ
            then thermo VORGABE_TEMPERATUR_FROSTSCHUTZ VORGABE_DAUER_FROSTSCHUTZ_KURZ
            else if md = HEIZUNG_MODE_THERMOSTAT_X then thermo VORGABE_TEMPERATUR_THERMOSTAT VORGABE_DAUER_THERMOSTAT
            else if md = HEIZUNG_MODE_AUTOMATIK_X then Some [HCAN_HES_HEIZUNG_SET_MODE_AUTOMATIK, hid]
            else None)
         else if gesamt_heiz_page_subpage g \<in> {1, 2} \<and> frost_or_thermostat md
         then thermo (gesamt_heiz_details_Tsoll_edit g) (gesamt_heiz_details_dauer_edit g)
         else None)"

definition set_gesamt_heiz_edited_details :: "panel \<Rightarrow> panel" where
  "set_gesamt_heiz_edited_details s =
     (let g = gzp s
      in fold (\<lambda>i s. if fld (12 + i) s = 255 then s
                 else case gesamt_heiz_message g (fld (12 + i) s) of
                        Some d \<Rightarrow> hes_control d s | None \<Rightarrow> s\<lparr>pn_board := raise_fault (pn_board s)\<rparr>)
           [0..<MAX_HEIZ_IDS] s)"

definition gesamt_heiz_edit_up :: "gesamt_heiz_page \<Rightarrow> gesamt_heiz_page" where
  "gesamt_heiz_edit_up g =
     (let md = gesamt_heiz_details_mode_edit g; sub = gesamt_heiz_page_subpage g; T = gesamt_heiz_details_Tsoll_edit g;
          d = gesamt_heiz_details_dauer_edit g
      in if sub = 0 then (if md < HEIZUNG_MODE_AUTOMATIK_X then g\<lparr>gesamt_heiz_details_mode_edit := md + 1\<rparr> else g)
         else if sub = 1 then
           (if frost_or_thermostat md \<and> sint T < 480 then g\<lparr>gesamt_heiz_details_Tsoll_edit := T + 2\<rparr> else g)
         else if sub = 2 then
           (if frost_or_thermostat md \<and> d < 43200 then g\<lparr>gesamt_heiz_details_dauer_edit := d div 900 * 900 + 900\<rparr> else g)
         else g)"

definition gesamt_heiz_edit_down :: "gesamt_heiz_page \<Rightarrow> gesamt_heiz_page" where
  "gesamt_heiz_edit_down g =
     (let md = gesamt_heiz_details_mode_edit g; sub = gesamt_heiz_page_subpage g; T = gesamt_heiz_details_Tsoll_edit g;
          d = gesamt_heiz_details_dauer_edit g
      in if sub = 0 then (if md > HEIZUNG_MODE_OFF then g\<lparr>gesamt_heiz_details_mode_edit := md - 1\<rparr> else g)
         else if sub = 1 then
           (if frost_or_thermostat md \<and> sint T > 0 then g\<lparr>gesamt_heiz_details_Tsoll_edit := T - 2\<rparr> else g)
         else if sub = 2 then
           (if frost_or_thermostat md \<and> d > 900 then g\<lparr>gesamt_heiz_details_dauer_edit := d div 900 * 900 - 900\<rparr> else g)
         else g)"

definition gesamt_heiz_page_handle_key_down_event :: "sleeper \<Rightarrow> nat \<Rightarrow> panel \<Rightarrow> panel" where
  "gesamt_heiz_page_handle_key_down_event slp key s =
     (let g = gzp s; viewing = (gesamt_heiz_page_state g = STATE_VIEW)
      in if key = KEY_OK then
           (if viewing then
              (let g = gesamt_heiz_presets g
               in if gesamt_heiz_page_subpage g = 1 \<and> gesamt_heiz_details_mode_edit g = HEIZUNG_MODE_AUTOMATIK_X
                  then s\<lparr>gzp := g\<rparr>
                  else gesamt_heiz_page_print_page
                         (lcd_command LCD_DISP_ON_CURSOR_BLINK (s\<lparr>gzp := g\<lparr>gesamt_heiz_page_state := STATE_EDIT\<rparr>\<rparr>)))
            else gesamt_heiz_page_print_page (set_gesamt_heiz_edited_details
                   (lcd_command LCD_DISP_ON (s\<lparr>gzp := g\<lparr>gesamt_heiz_page_state := STATE_VIEW\<rparr>\<rparr>))))
         else if key = KEY_ESC then
           (if viewing then goto_page_up slp (s\<lparr>gzp := g\<lparr>gesamt_heiz_page_subpage := 0\<rparr>\<rparr>)
            else gesamt_heiz_page_print_page (lcd_command LCD_DISP_ON (s\<lparr>gzp := g\<lparr>gesamt_heiz_page_state := STATE_VIEW\<rparr>\<rparr>)))
         else if key = KEY_UP then
           gesamt_heiz_page_print_page (s\<lparr>gzp := (if viewing
             then (if gesamt_heiz_page_subpage g > 0 then g\<lparr>gesamt_heiz_page_subpage := gesamt_heiz_page_subpage g - 1\<rparr> else g)
             else gesamt_heiz_edit_up g)\<rparr>)
         else if key = KEY_DOWN then
           gesamt_heiz_page_print_page (s\<lparr>gzp := (if viewing
             then (let md = gesamt_heiz_details_mode_edit g; top = (if md = HEIZUNG_MODE_OFF \<or> md = HEIZUNG_MODE_AUTOMATIK_X then 0 else 2)
                   in if gesamt_heiz_page_subpage g < top then g\<lparr>gesamt_heiz_page_subpage := gesamt_heiz_page_subpage g + 1\<rparr> else g)
             else gesamt_heiz_edit_down g)\<rparr>)
         else s)"

text \<open>The feature bits 4 and 5 choose between waking by an on or by an off command.\<close>

definition set_weck_edited_details :: "panel \<Rightarrow> panel" where
  "set_weck_edited_details s =
     (let d = weck_details_dauer_edit (wkp s);
          feature = (if bit (fld 4 s) 4 then 4 else if bit (fld 4 s) 5 then 5 else 4)
      in hes_control [HCAN_HES_WECKER_SET, fld 5 s, feature, hi8 d, lo8 d] s)"

definition weck_edit_up :: "u16 \<Rightarrow> u16" where
  "weck_edit_up d = (if d < 43200 then (d div 300 + 1) * 300 + 300 else d)"

definition weck_edit_down :: "u16 \<Rightarrow> u16" where
  "weck_edit_down d = (if d > 300 then d div 300 * 300 - 300 else d)"

definition weck_page_handle_key_down_event :: "sleeper \<Rightarrow> nat \<Rightarrow> panel \<Rightarrow> panel" where
  "weck_page_handle_key_down_event slp key s =
     (let w = wkp s; viewing = (weck_page_state w = STATE_VIEW)
      in if key = KEY_OK then
           (if viewing then weck_page_print_page slp (lcd_command LCD_DISP_ON_CURSOR_BLINK
                   (s\<lparr>wkp := w\<lparr>weck_details_dauer_edit := 1200, weck_page_state := STATE_EDIT\<rparr>\<rparr>))
            else weck_page_print_page slp (set_weck_edited_details
                   (lcd_command LCD_DISP_ON (s\<lparr>wkp := w\<lparr>weck_page_state := STATE_VIEW\<rparr>\<rparr>))))
         else if key = KEY_ESC then
           (if viewing then goto_page_up slp s
            else weck_page_print_page slp (lcd_command LCD_DISP_ON (s\<lparr>wkp := w\<lparr>weck_page_state := STATE_VIEW\<rparr>\<rparr>)))
         else if key = KEY_UP \<and> \<not> viewing then
           weck_page_print_page slp (s\<lparr>wkp := w\<lparr>weck_details_dauer_edit := weck_edit_up (weck_details_dauer_edit w)\<rparr>\<rparr>)
         else if key = KEY_DOWN \<and> \<not> viewing then
           weck_page_print_page slp (s\<lparr>wkp := w\<lparr>weck_details_dauer_edit := weck_edit_down (weck_details_dauer_edit w)\<rparr>\<rparr>)
         else s)"

text \<open>The keys that lead away, the same on the pages without editing.\<close>

definition leave_page :: "sleeper \<Rightarrow> nat \<Rightarrow> panel \<Rightarrow> panel" where
  "leave_page slp key s =
     (if key = KEY_ESC then goto_page_up slp s else if key = KEY_UP then goto_prev_page slp s
      else if key = KEY_DOWN then goto_next_page slp s else s)"

definition rolladen_page_handle_key_down_event :: "sleeper \<Rightarrow> nat \<Rightarrow> panel \<Rightarrow> panel" where
  "rolladen_page_handle_key_down_event slp key s =
     (if key = KEY_OK then lcdctrl_blink slp (hes_control [HCAN_HES_ROLLADEN_POSITION_SET, fld 5 s, fld 6 s] s)
      else leave_page slp key s)"

definition taster_page_handle_key_down_event :: "sleeper \<Rightarrow> nat \<Rightarrow> panel \<Rightarrow> panel" where
  "taster_page_handle_key_down_event slp key s =
     (if key = KEY_OK then
        (let g = fld 5 s; s = slp 1 (hes_control [HCAN_HES_TASTER_DOWN, g] s)
         in lcdctrl_blink slp (hes_control [HCAN_HES_TASTER_UP, g] s))
      else leave_page slp key s)"

definition powerport_page_handle_key_down_event :: "sleeper \<Rightarrow> nat \<Rightarrow> panel \<Rightarrow> panel" where
  "powerport_page_handle_key_down_event slp key s =
     (let p = ppp s; again = (\<lambda>s. powerport_page_print_page slp (slp 5 (lcdctrl_blink slp s)))
      in if key = KEY_OK \<and> powerport_page_state p = 1 \<and> sint (powerport_page_timer p) > 0 then
           again (hes_control [HCAN_HES_POWER_GROUP_SET_TIMER, fld 5 s, 0, 0] s)
         else if key = KEY_OK \<and> powerport_page_state p \<noteq> -1 then
           again (hes_control [if powerport_page_state p \<noteq> 0 then HCAN_HES_POWER_GROUP_OFF else HCAN_HES_POWER_GROUP_ON, fld 5 s] s)
         else leave_page slp key s)"

section \<open>The state machine\<close>

text \<open>\<open>lcdstate.state\<close> stays \<open>STATE_VIEW\<close> from the start. OK opens the first child only on the two
  page types without a function of their own.\<close>

definition view_key_down :: "sleeper \<Rightarrow> nat \<Rightarrow> panel \<Rightarrow> panel" where
  "view_key_down slp key s =
     (if key = KEY_OK then
        (if block_type s = EDS_screensaver_page_BLOCK_ID \<or> block_type s = EDS_dir_page_BLOCK_ID
         then goto_first_child_page slp s else s)
      else leave_page slp key s)"

definition key_down_event :: "sleeper \<Rightarrow> nat \<Rightarrow> panel \<Rightarrow> panel" where
  "key_down_event slp key s =
     (let s = pn_log SYSLOG_PRIO_DEBUG ''key_down %x'' [int key] s;
          s = lcdctrl_set_contrast LCD_CONTRAST_DEFAULT (lcdctrl_set_backlight LCD_BACKLIGHT_DEFAULT (s\<lparr>lcd_led_countdown := 10\<rparr>));
          s = s\<lparr>lcd_screensafer_countdown := 300, keypress_time := 1\<rparr>; t = block_type s
      in if t = EDS_heiz_page_BLOCK_ID then heiz_page_handle_key_down_event slp key s
         else if t = EDS_weck_page_BLOCK_ID then weck_page_handle_key_down_event slp key s
         else if t = EDS_gesamt_heiz_page_BLOCK_ID then gesamt_heiz_page_handle_key_down_event slp key s
         else if t = EDS_rolladen_page_BLOCK_ID then rolladen_page_handle_key_down_event slp key s
         else if t = EDS_taster_page_BLOCK_ID then taster_page_handle_key_down_event slp key s
         else if t = EDS_powerport_page_BLOCK_ID then powerport_page_handle_key_down_event slp key s
         else view_key_down slp key s)"

definition load_shortcut_page :: "sleeper \<Rightarrow> nat \<Rightarrow> panel \<Rightarrow> panel" where
  "load_shortcut_page slp n s =
     (let b = pn_board s; it = eds_find_next_block 0 EDS_userpanel_shortcuts_BLOCK_ID b
      in if it \<noteq> 0 then goto_page slp (eeprom_read_block (it + 2) 8 b ! (n - 1)) s
         else load_error_page ERROR_PAGE_SHORTCUTS_MISSING s)"

definition save_shortcut_page :: "nat \<Rightarrow> panel \<Rightarrow> panel" where
  "save_shortcut_page n s =
     (let b = pn_board s; it = eds_find_next_block 0 EDS_userpanel_shortcuts_BLOCK_ID b
      in if it \<noteq> 0
         then s\<lparr>pn_board := eeprom_write_block ((eeprom_read_block (it + 2) 8 b)[n - 1 := page_id s]) (it + 2) b\<rparr>
         else load_error_page ERROR_PAGE_SHORTCUTS_MISSING s)"

definition shortcut_number :: "nat \<Rightarrow> nat" where
  "shortcut_number key =
     (if key = KEY_F1 then 1 else if key = KEY_F2 then 2 else if key = KEY_F3 then 3 else if key = KEY_F4 then 4 else 0)"

definition key_up_event :: "sleeper \<Rightarrow> nat \<Rightarrow> panel \<Rightarrow> panel" where
  "key_up_event slp key s =
     (let n = shortcut_number key;
          s = (if n = 0 then s
               else if keypress_time s < 3 then
                 (let s = load_shortcut_page slp n (pn_log SYSLOG_PRIO_DEBUG ''load_shortcut %x'' [int n] s)
                  in pn_log SYSLOG_PRIO_DEBUG ''keytime = %x'' [uint (keypress_time s)] s)
               else
                 (let s = save_shortcut_page n (pn_log SYSLOG_PRIO_DEBUG ''save_shortcut %x'' [int n] s)
                  in pn_log SYSLOG_PRIO_DEBUG ''keytime = %x'' [uint (keypress_time s)] s))
      in s\<lparr>keypress_time := 0\<rparr>)"

definition lcdstatemachine_init :: "sleeper \<Rightarrow> panel \<Rightarrow> panel" where
  "lcdstatemachine_init slp s =
     print_page slp (load_page 1 (s\<lparr>keypress_time := 0, lcd_led_countdown := 5, lcd_screensafer_countdown := 30\<rparr>))"

text \<open>The light is dimmed in steps of the brightness.\<close>

definition lcd_dim :: "sleeper \<Rightarrow> panel \<Rightarrow> panel" where
  "lcd_dim slp s = fold (\<lambda>i s. slp 5 (lcdctrl_set_backlight (of_nat i) s)) (rev [4..<31]) s"

text \<open>Once a second.\<close>

definition lcdstatemachine_timer_handler :: "sleeper \<Rightarrow> panel \<Rightarrow> panel" where
  "lcdstatemachine_timer_handler slp s =
     (let s = (if keypress_time s \<noteq> 0 \<and> keypress_time s < 255 then s\<lparr>keypress_time := keypress_time s + 1\<rparr> else s);
          s = (if lcd_led_countdown s > 0 then
                 (let s = s\<lparr>lcd_led_countdown := lcd_led_countdown s - 1\<rparr>
                  in if lcd_led_countdown s = 0 then
                       lcdctrl_set_display_light False (lcd_dim slp s)
                     else s)
               else s);
          s = (if second (rtc (pn_board s)) AND 0x0f = 0
               then print_page slp (if lcd_led_countdown s = 0 then lcdctrl_set_display_light False s else s) else s)
      in if lcd_screensafer_countdown s > 0 then
           (let s = s\<lparr>lcd_screensafer_countdown := lcd_screensafer_countdown s - 1\<rparr>
            in if lcd_screensafer_countdown s = 0 then print_page slp (load_page 1 s) else s)
         else s)"

section \<open>Keys and timers\<close>

abbreviation (input) KEY_COUNTER_START :: u8 where "KEY_COUNTER_START \<equiv> 5"
abbreviation (input) KEY_MASK :: u16 where "KEY_MASK \<equiv> 0x3fcf"

definition keys_init :: "panel \<Rightarrow> panel" where
  "keys_init s =
     (let b = pn_board s
      in s\<lparr>pn_board := b\<lparr>DDRD := DDRD b AND NOT 0xcf, PORTD := PORTD b OR 0xcf, DDRA := DDRA b AND NOT 0x3f,
             PORTA := PORTA b OR 0x3f\<rparr>,
           key_counter := replicate 16 0, key_state := replicate 16 0\<rparr>)"

text \<open>The ports A and D, which the keys pull down.\<close>

definition keys_key_pressed :: "u8 \<Rightarrow> u8 \<Rightarrow> u16" where
  "keys_key_pressed pina pind = NOT (word16 pina pind) AND KEY_MASK"

definition handle_key :: "sleeper \<Rightarrow> u16 \<Rightarrow> nat \<Rightarrow> panel \<Rightarrow> panel" where
  "handle_key slp keys i s =
     (if panel_reset s then s
      else if key_counter s ! i = 0 then
        (let s = (if key_state s ! i = 0 \<and> bit keys i
                  then key_down_event slp i
                         (s\<lparr>key_counter := (key_counter s)[i := KEY_COUNTER_START], key_state := (key_state s)[i := 1]\<rparr>) else s)
         in if key_state s ! i = 1 \<and> \<not> bit keys i
            then key_up_event slp i
                   (s\<lparr>key_counter := (key_counter s)[i := KEY_COUNTER_START], key_state := (key_state s)[i := 0]\<rparr>) else s)
      else s\<lparr>key_counter := (key_counter s)[i := key_counter s ! i - 1]\<rparr>)"

definition keys_handle_pressed :: "sleeper \<Rightarrow> u8 \<Rightarrow> u8 \<Rightarrow> panel \<Rightarrow> panel" where
  "keys_handle_pressed slp pina pind s =
     (let keys = keys_key_pressed pina pind;
          s = (if bit keys KEY_ESC \<and> bit keys KEY_UP \<and> bit keys KEY_DOWN then s\<lparr>panel_reset := True\<rparr> else s)
      in fold (handle_key slp keys) [0..<16] s)"

definition panel_timer_handler :: "panel \<Rightarrow> panel" where
  "panel_timer_handler s =
     (let (c100, c10, c1) = timer_counters s; (e100, e10, e1) = timer_events s;
          c100 = c100 + 1; e100 = True;
          (c10, c100, e10) = (if c100 = 10 then (c10 + 1, 0, True) else (c10, c100, e10));
          (c1, c10, e1) = (if c10 = 10 then (c1 + 1, 0, True) else (c1, c10, e1))
      in s\<lparr>timer_counters := (c100, c10, c1), timer_events := (e100, e10, e1)\<rparr>)"

definition panel_idle_handler :: "sleeper \<Rightarrow> u8 \<Rightarrow> u8 \<Rightarrow> panel \<Rightarrow> panel" where
  "panel_idle_handler slp pina pind s =
     (let s = (case timer_events s of (e100, e10, e1) \<Rightarrow>
            if e100 then keys_handle_pressed slp pina pind (s\<lparr>timer_events := (False, e10, e1)\<rparr>) else s);
          s = (case timer_events s of (e100, e10, e1) \<Rightarrow> if e10 then s\<lparr>timer_events := (e100, False, e1)\<rparr> else s)
      in case timer_events s of (e100, e10, e1) \<Rightarrow>
           if e1 then lcdstatemachine_timer_handler slp (s\<lparr>timer_events := (e100, e10, False)\<rparr>) else s)"

section \<open>Runs\<close>

text \<open>What the main loop does, with the levels of the key ports, and the interrupts: the timer and the clock.\<close>

datatype panel_event = P_Timer | P_Clock canix_rtc_clock_t | P_Frame canix_frame | P_Idle u8 u8

definition panel_event :: "sleeper \<Rightarrow> panel_event \<Rightarrow> panel \<Rightarrow> panel" where
  "panel_event slp e s =
     (if panel_reset s then s
      else case e of
             P_Timer \<Rightarrow> panel_timer_handler s
           | P_Clock c \<Rightarrow> s\<lparr>pn_board := (pn_board s)\<lparr>rtc := c\<rparr>\<rparr>
           | P_Frame f \<Rightarrow> panel_hauselektrik_callback f s
           | P_Idle pina pind \<Rightarrow> panel_idle_handler slp pina pind s)"

definition sleep_nested :: sleeper where "sleep_nested n s = s"

definition panel_sleep :: "(nat \<Rightarrow> panel_event list) \<Rightarrow> sleeper" where
  "panel_sleep env n s = (if panel_reset s then s else fold (panel_event sleep_nested) (env (naps s)) (s\<lparr>naps := naps s + 1\<rparr>))"

definition panel_step :: "(nat \<Rightarrow> panel_event list) \<Rightarrow> panel_event \<Rightarrow> panel \<Rightarrow> panel" where
  "panel_step env e s = panel_event (panel_sleep env) e s"

definition panel_run :: "(nat \<Rightarrow> panel_event list) \<Rightarrow> panel_event list \<Rightarrow> panel \<Rightarrow> panel" where
  "panel_run env es s = fold (panel_step env) es s"

text \<open>The variables with their initial values, and \<open>main\<close> up to the main loop.\<close>

definition panel_globals :: "board \<Rightarrow> panel" where
  "panel_globals b = \<lparr>pn_board = b, active_page = replicate LCDPAGE_SIZE 0, page_stack = replicate 8 0, page_stack_ptr = 0,
     keypress_time = 0, lcd_led_countdown = 0, lcd_screensafer_countdown = 0,
     hzp = \<lparr>heiz_details_expected = 0, heiz_details_heiz_id = 0, heiz_details_mode = 0, heiz_details_rate = 0,
       heiz_details_Tsoll = 0, heiz_details_Tist = 0, heiz_details_dauer = 0, heiz_details_mode_edit = 0,
       heiz_details_Tsoll_edit = 0, heiz_details_rate_edit = 0, heiz_details_dauer_edit = 0, heiz_page_subpage = 0,
       heiz_page_state = STATE_VIEW\<rparr>,
     gzp = \<lparr>gesamt_heiz_details_mode_edit = 0, gesamt_heiz_details_Tsoll_edit = 0, gesamt_heiz_details_dauer_edit = 0,
       gesamt_heiz_page_subpage = 0, gesamt_heiz_page_state = STATE_VIEW\<rparr>,
     wkp = \<lparr>weck_details_expected = 0, weck_details_weck_id = 0, weck_details_dauer = 0, weck_details_dauer_edit = 0,
       weck_page_state = STATE_VIEW\<rparr>,
     ppp = \<lparr>powerport_page_state = -1, powerport_page_timer = -1\<rparr>, tmp = \<lparr>temperature_expected = 0, temperature = 0\<rparr>,
     fenster_monitor_reed_state = replicate 24 0, screen = [], lcd_mode = LCD_DISP_ON, OCR1A = 0, OCR1B = 0,
     key_counter = replicate 16 0, key_state = replicate 16 0, timer_counters = (0, 0, 0),
     timer_events = (False, False, False), naps = 0, panel_reset = False\<rparr>"

definition lcdctrl_init :: "panel \<Rightarrow> panel" where
  "lcdctrl_init s = s\<lparr>pn_board := (pn_board s)\<lparr>DDRD := DDRD (pn_board s) OR 0x30\<rparr>, OCR1A := 0, OCR1B := 0\<rparr>"

definition panel_main :: "(nat \<Rightarrow> panel_event list) \<Rightarrow> board \<Rightarrow> panel" where
  "panel_main env b =
     lcdstatemachine_init (panel_sleep env) (keys_init (lcdctrl_init (lcd_clrscr (lcd_command LCD_DISP_ON (panel_globals b)))))"

end
