(* ===== verification/Panel_Props.thy ===== *)
theory Panel_Props
  imports Panel
begin

text \<open>
  What the user panel guarantees in every run: its state stays well-formed, keys, frames and timers coming in
  any order and also while a page sleeps.
\<close>

section \<open>The well-formed state\<close>

definition hz_wf :: "heiz_page \<Rightarrow> bool" where
  "hz_wf h \<longleftrightarrow> heiz_page_subpage h \<le> 2 \<and> heiz_details_mode h \<le> 3 \<and> heiz_details_mode_edit h \<le> 3"

definition gz_wf :: "gesamt_heiz_page \<Rightarrow> bool" where
  "gz_wf g \<longleftrightarrow> gesamt_heiz_page_subpage g \<le> 2 \<and> gesamt_heiz_details_mode_edit g \<le> 4"

definition page_type_ok :: "u8 \<Rightarrow> bool" where
  "page_type_ok t \<longleftrightarrow> t = 255 \<or> EDS_PAGE_ID_START \<le> t \<and> t \<le> EDS_PAGE_ID_END"

definition panel_sized :: "panel \<Rightarrow> bool" where
  "panel_sized s \<longleftrightarrow> length (active_page s) = LCDPAGE_SIZE \<and> length (page_stack s) = 8 \<and> page_stack_ptr s \<le> 7 \<and>
     length (fenster_monitor_reed_state s) = 24 \<and> length (key_counter s) = 16 \<and> length (key_state s) = 16 \<and>
     (\<forall>k \<in> set (key_state s). k \<le> 1) \<and> (\<forall>k \<in> set (key_counter s). k \<le> KEY_COUNTER_START) \<and>
     hz_wf (hzp s) \<and> gz_wf (gzp s) \<and> weck_details_dauer_edit (wkp s) \<le> 43500"

definition panel_wf :: "panel \<Rightarrow> bool" where
  "panel_wf s \<longleftrightarrow> panel_sized s \<and> page_type_ok (block_type s)"

text \<open>The fields the invariant does not mention.\<close>

lemma panel_sized_others [simp]:
  "panel_sized (s\<lparr>pn_board := b\<rparr>) = panel_sized s" "panel_sized (s\<lparr>keypress_time := k\<rparr>) = panel_sized s"
  "panel_sized (s\<lparr>lcd_led_countdown := k\<rparr>) = panel_sized s" "panel_sized (s\<lparr>lcd_screensafer_countdown := n\<rparr>) = panel_sized s"
  "panel_sized (s\<lparr>ppp := p\<rparr>) = panel_sized s" "panel_sized (s\<lparr>tmp := t\<rparr>) = panel_sized s"
  "panel_sized (s\<lparr>screen := sc\<rparr>) = panel_sized s" "panel_sized (s\<lparr>lcd_mode := k\<rparr>) = panel_sized s"
  "panel_sized (s\<lparr>OCR1A := k\<rparr>) = panel_sized s" "panel_sized (s\<lparr>OCR1B := k\<rparr>) = panel_sized s"
  "panel_sized (s\<lparr>timer_events := e\<rparr>) = panel_sized s" "panel_sized (s\<lparr>timer_counters := c\<rparr>) = panel_sized s"
  "panel_sized (s\<lparr>naps := m\<rparr>) = panel_sized s" "panel_sized (s\<lparr>panel_reset := r\<rparr>) = panel_sized s"
  by (simp_all add: panel_sized_def)

lemma block_type_others [simp]:
  "block_type (s\<lparr>pn_board := b\<rparr>) = block_type s" "block_type (s\<lparr>keypress_time := k\<rparr>) = block_type s"
  "block_type (s\<lparr>lcd_led_countdown := k\<rparr>) = block_type s" "block_type (s\<lparr>lcd_screensafer_countdown := n\<rparr>) = block_type s"
  "block_type (s\<lparr>ppp := p\<rparr>) = block_type s" "block_type (s\<lparr>tmp := t\<rparr>) = block_type s"
  "block_type (s\<lparr>screen := sc\<rparr>) = block_type s" "block_type (s\<lparr>lcd_mode := k\<rparr>) = block_type s"
  "block_type (s\<lparr>OCR1A := k\<rparr>) = block_type s" "block_type (s\<lparr>OCR1B := k\<rparr>) = block_type s"
  "block_type (s\<lparr>timer_events := e\<rparr>) = block_type s" "block_type (s\<lparr>timer_counters := c\<rparr>) = block_type s"
  "block_type (s\<lparr>naps := m\<rparr>) = block_type s" "block_type (s\<lparr>panel_reset := r\<rparr>) = block_type s"
  "block_type (s\<lparr>hzp := h\<rparr>) = block_type s" "block_type (s\<lparr>gzp := g\<rparr>) = block_type s"
  "block_type (s\<lparr>wkp := w\<rparr>) = block_type s" "block_type (s\<lparr>page_stack := st\<rparr>) = block_type s"
  "block_type (s\<lparr>page_stack_ptr := k\<rparr>) = block_type s" "block_type (s\<lparr>key_counter := ks\<rparr>) = block_type s"
  "block_type (s\<lparr>key_state := ks\<rparr>) = block_type s" "block_type (s\<lparr>fenster_monitor_reed_state := ks\<rparr>) = block_type s"
  by (simp_all add: block_type_def)

lemma panel_wf_others [simp]:
  "panel_wf (s\<lparr>pn_board := b\<rparr>) = panel_wf s" "panel_wf (s\<lparr>keypress_time := k\<rparr>) = panel_wf s"
  "panel_wf (s\<lparr>lcd_led_countdown := k\<rparr>) = panel_wf s" "panel_wf (s\<lparr>lcd_screensafer_countdown := n\<rparr>) = panel_wf s"
  "panel_wf (s\<lparr>ppp := p\<rparr>) = panel_wf s" "panel_wf (s\<lparr>tmp := t\<rparr>) = panel_wf s"
  "panel_wf (s\<lparr>screen := sc\<rparr>) = panel_wf s" "panel_wf (s\<lparr>lcd_mode := k\<rparr>) = panel_wf s"
  "panel_wf (s\<lparr>OCR1A := k\<rparr>) = panel_wf s" "panel_wf (s\<lparr>OCR1B := k\<rparr>) = panel_wf s"
  "panel_wf (s\<lparr>timer_events := e\<rparr>) = panel_wf s" "panel_wf (s\<lparr>timer_counters := c\<rparr>) = panel_wf s"
  "panel_wf (s\<lparr>naps := m\<rparr>) = panel_wf s" "panel_wf (s\<lparr>panel_reset := r\<rparr>) = panel_wf s"
  by (simp_all add: panel_wf_def)

lemma panel_wf_pages:
  "panel_wf s \<Longrightarrow> hz_wf h \<Longrightarrow> panel_wf (s\<lparr>hzp := h\<rparr>)"
  "panel_wf s \<Longrightarrow> gz_wf g \<Longrightarrow> panel_wf (s\<lparr>gzp := g\<rparr>)"
  "panel_wf s \<Longrightarrow> weck_details_dauer_edit w \<le> 43500 \<Longrightarrow> panel_wf (s\<lparr>wkp := w\<rparr>)"
  by (simp_all add: panel_wf_def panel_sized_def)

lemma panel_wfD:
  "panel_wf s \<Longrightarrow> hz_wf (hzp s)" "panel_wf s \<Longrightarrow> gz_wf (gzp s)" "panel_wf s \<Longrightarrow> weck_details_dauer_edit (wkp s) \<le> 43500"
  by (simp_all add: panel_wf_def panel_sized_def)

lemma panel_ops [simp]:
  "panel_wf (lcd_clrscr s) = panel_wf s" "panel_wf (lcd_puts x y t s) = panel_wf s" "panel_wf (lcd_command k s) = panel_wf s"
  "panel_wf (pn_log prio fmt args s) = panel_wf s" "panel_wf (lcdctrl_set_backlight n s) = panel_wf s"
  "panel_wf (lcdctrl_set_contrast n s) = panel_wf s"
  by (simp_all add: lcd_clrscr_def lcd_puts_def lcd_command_def pn_log_def lcdctrl_set_backlight_def lcdctrl_set_contrast_def)

named_theorems panel_keep \<open>functions that keep the state well-formed\<close>

section \<open>Frames\<close>

lemma hz_wf_details: "hz_wf h \<Longrightarrow> hz_wf (heiz_page_details d h)"
  by (simp add: hz_wf_def heiz_page_details_def Let_def)

lemma fold_reed_length:
  "length (fold (\<lambda>i rs. if g = h i then rs[i := v] else rs) is rs) = length rs"
  by (induction "is" arbitrary: rs) auto

lemma callback_wf [panel_keep]: "panel_wf s \<Longrightarrow> panel_wf (lcdstatemachine_can_callback f s)"
proof -
  assume s: "panel_wf s"
  have "panel_wf (heiz_page_can_callback f s)"
    using s panel_wfD(1) [OF s] hz_wf_details
    by (simp add: heiz_page_can_callback_def Let_def panel_wf_pages) (simp add: hz_wf_def panel_wf_pages)
  moreover have "panel_wf (weck_page_can_callback f s)"
    using s panel_wfD(3) [OF s] by (simp add: weck_page_can_callback_def Let_def panel_wf_pages)
  moreover have "panel_wf (powerport_page_can_callback f s)" using s by (simp add: powerport_page_can_callback_def Let_def)
  moreover have "panel_wf (fenster_monitor_page_can_callback f s)"
    using s by (simp add: fenster_monitor_page_can_callback_def fenster_monitor_insert_reed_state_def Let_def panel_wf_def
        panel_sized_def fold_reed_length)
  moreover have "panel_wf (temp_anzeige_page_can_callback f s)" using s by (simp add: temp_anzeige_page_can_callback_def Let_def)
  ultimately show ?thesis using s by (simp add: lcdstatemachine_can_callback_def Let_def)
qed

lemma panel_callback_wf [panel_keep]: "panel_wf s \<Longrightarrow> panel_wf (panel_hauselektrik_callback f s)"
  by (simp add: panel_hauselektrik_callback_def callback_wf)

lemma hes_send_wf [panel_keep]: "panel_wf s \<Longrightarrow> panel_wf (hes_send dst prio d s)" "panel_wf s \<Longrightarrow> panel_wf (hes_control d s)"
  by (simp_all add: hes_control_def hes_send_def panel_callback_wf Let_def)

lemma light_zones_wf [simp]: "panel_wf (snd (light_zones its z s)) = panel_wf s"
  by (induction its arbitrary: s) (simp_all add: Let_def)

lemma light_blocks_wf [simp]: "panel_wf (snd (light_blocks its s)) = panel_wf s"
  by (induction its arbitrary: s) (simp_all add: Let_def case_prod_unfold)

lemma light_wf [simp]: "panel_wf (lcdctrl_set_display_light active s) = panel_wf s"
  by (simp add: lcdctrl_set_display_light_def Let_def case_prod_unfold)

section \<open>Loading pages\<close>

lemma error_page_wf [panel_keep]: "panel_sized s \<Longrightarrow> panel_wf (load_error_page c s)"
  by (simp add: load_error_page_def panel_wf_def panel_sized_def block_type_def page_type_ok_def)

lemma find_from_type: "eds_find_from P p b \<noteq> 0 \<Longrightarrow> P (EDS_BLOCK_TYPE (eds_find_from P p b) b)"
proof (induction P p b rule: eds_find_from.induct)
  case (1 P p b)
  then show ?case by (subst (asm) (3) eds_find_from.simps, subst eds_find_from.simps) (auto simp: Let_def split: if_splits)
qed

lemma each_type: "it \<in> set (eds_each P p b) \<Longrightarrow> P (EDS_BLOCK_TYPE it b)"
proof (induction P p b rule: eds_each.induct)
  case (1 P p b)
  then show ?case using find_from_type [of P p b] by (subst (asm) (2) eds_each.simps) (auto simp: Let_def split: if_splits)
qed

lemma foreach_type:
  "it \<in> set (EDS_foreach_block_between a z b) \<Longrightarrow> a \<le> EDS_BLOCK_TYPE it b \<and> EDS_BLOCK_TYPE it b \<le> z"
  using each_type [of it "\<lambda>t. t \<ge> a \<and> t \<le> z"] find_from_type [of "\<lambda>t. t \<ge> a \<and> t \<le> z" 34 b]
  by (auto simp: EDS_foreach_block_between_def Let_def eds_find_next_block_between_def split: if_splits)

lemma read_block_wf:
  assumes "panel_sized s" "it \<in> set (EDS_foreach_block_between EDS_PAGE_ID_START EDS_PAGE_ID_END b)" "2 \<le> n" "n \<le> LCDPAGE_SIZE"
  shows "panel_wf (s\<lparr>active_page := eeprom_read_block it n b @ drop n (active_page s)\<rparr>)"
proof -
  have "(eeprom_read_block it n b @ drop n (active_page s)) ! 0 = EDS_BLOCK_TYPE it b"
    using assms(3) by (simp add: eeprom_read_block_def nth_append EDS_BLOCK_TYPE_def eeprom_read_byte_def)
  moreover have "length (eeprom_read_block it n b @ drop n (active_page s)) = LCDPAGE_SIZE"
    using assms(1,4) by (simp add: eeprom_read_block_def panel_sized_def)
  ultimately show ?thesis using foreach_type [OF assms(2)] assms(1)
    by (simp add: panel_wf_def panel_sized_def block_type_def page_type_ok_def)
qed

lemma sized_ops [simp]: "panel_sized (pn_log prio fmt args s) = panel_sized s" "pn_board (s\<lparr>active_page := pg\<rparr>) = pn_board s"
  by (simp_all add: pn_log_def)

lemma load_page_loop_wf:
  assumes "panel_sized s" "set its \<subseteq> set (EDS_foreach_block_between EDS_PAGE_ID_START EDS_PAGE_ID_END b)" "eeprom (pn_board s) = eeprom b"
  shows "panel_wf (load_page_loop its pg s)"
  using assms
proof (induction its arbitrary: s)
  case Nil
  then show ?case by (simp add: error_page_wf)
next
  case (Cons it its)
  let ?sz = "unat (EDS_BLOCK_SIZE it (pn_board s)) + 2"
  have e: "eeprom_read_block it n (pn_board s) = eeprom_read_block it n b" for n
    using Cons.prems(3) by (simp add: eeprom_read_block_def eeprom_read_byte_def)
  have k: "panel_sized (load_error_page c (pn_log p f as s)) \<and> eeprom (pn_board (load_error_page c (pn_log p f as s))) = eeprom b" for c p f as
    using Cons.prems(1,3) error_page_wf [of "pn_log p f as s" c]
    by (simp add: panel_wf_def load_error_page_def pn_log_def canix_syslog_P_def)
  have f: "panel_wf (s\<lparr>active_page := eeprom_read_block it ?sz b @ drop ?sz (active_page s)\<rparr>)" if "?sz \<le> LCDPAGE_SIZE"
    using read_block_wf [OF Cons.prems(1), of it b ?sz] Cons.prems(2) that by simp
  have g: "pn_log p f as (s\<lparr>active_page := pg\<rparr>) = (pn_log p f as s)\<lparr>active_page := pg\<rparr>" for p f as pg s by (simp add: pn_log_def)
  have h: "panel_wf ((pn_log p f as s)\<lparr>active_page := pg\<rparr>) = panel_wf (s\<lparr>active_page := pg\<rparr>)" for p f as pg s by (simp add: g [symmetric])
  show ?case using Cons k f by (simp add: Let_def e h)
qed

lemma load_page_wf [panel_keep]: "panel_sized s \<Longrightarrow> panel_wf (load_page pg s)"
  unfolding load_page_def Let_def by (rule load_page_loop_wf [OF _ order_refl refl]) simp


section \<open>Sleeping, showing and keys\<close>

text \<open>What is kept during each sleep is kept by the functions that sleep.\<close>

lemma weck_edit_bounds: "d \<le> 43500 \<Longrightarrow> weck_edit_up d \<le> 43500" "d \<le> 43500 \<Longrightarrow> weck_edit_down d \<le> 43500"
proof -
  assume d: "d \<le> 43500"
  show "weck_edit_up d \<le> 43500"
  proof (cases "d < 43200")
    case True
    then have q: "unat d div 300 \<le> 143" by (simp add: word_less_nat_alt)
    have "unat ((d div 300 + 1) * 300 + 300) = (unat d div 300 + 1) * 300 + 300"
      using q by (simp add: unat_word_ariths unat_div)
    then show ?thesis using q True by (simp add: weck_edit_up_def word_le_nat_alt)
  qed (use d in \<open>simp add: weck_edit_up_def\<close>)
  show "weck_edit_down d \<le> 43500"
  proof (cases "d > 300")
    case True
    then have q: "300 < unat d" "unat d \<le> 43500" using d by (simp_all add: word_less_nat_alt word_le_nat_alt)
    have m: "unat (d div 300 * 300) = unat d div 300 * 300" using q(2) by (simp add: unat_word_ariths unat_div)
    then have "unat (d div 300 * 300 - 300) = unat d div 300 * 300 - 300"
      using q by (subst unat_sub) (simp_all add: word_le_nat_alt)
    then show ?thesis using q True by (simp add: weck_edit_down_def word_le_nat_alt)
  qed (use d in \<open>simp add: weck_edit_down_def\<close>)
qed

lemma u8_dec_le: "(k :: u8) \<le> n \<Longrightarrow> k \<noteq> 0 \<Longrightarrow> k - 1 \<le> n"
  by (simp add: unat_minus_one_pos word_le_nat_alt word_gt_zero_iff)

lemma let_keeps: "P x \<Longrightarrow> (\<And>y. P y \<Longrightarrow> Q (f y)) \<Longrightarrow> Q (let y = x in f y)"
  by simp

lemma fold_keeps: "(\<And>x s. P s \<Longrightarrow> P (f x s)) \<Longrightarrow> P s \<Longrightarrow> P (fold f xs s)"
  by (induction xs arbitrary: s) simp_all

locale wf_sleeper =
  fixes slp :: sleeper
  assumes slp_wf: "panel_wf s \<Longrightarrow> panel_wf (slp n s)"
begin

lemma blink_wf [panel_keep]: "panel_wf s \<Longrightarrow> panel_wf (lcdctrl_blink slp s)"
  unfolding lcdctrl_blink_def light_wf by (rule fold_keeps, rule fold_keeps) (simp_all add: slp_wf)

lemma heiz_details_wf:
  assumes "panel_wf s"
  shows "panel_wf (snd (get_heiz_details slp i s))"
proof -
  have k: "panel_wf t \<Longrightarrow> panel_wf (t\<lparr>hzp := (hzp t)\<lparr>heiz_details_expected := e\<rparr>\<rparr>)"
    "panel_wf t \<Longrightarrow> panel_wf (t\<lparr>hzp := (hzp t)\<lparr>heiz_details_heiz_id := e\<rparr>\<rparr>)"
    "panel_wf t \<Longrightarrow> panel_wf (t\<lparr>hzp := (hzp t)\<lparr>heiz_details_heiz_id := e, heiz_details_Tsoll := T\<rparr>\<rparr>)" for t e T
    using panel_wfD(1) [of t] by (auto intro!: panel_wf_pages simp: hz_wf_def)
  show ?thesis unfolding get_heiz_details_def Let_def
    by (simp add: k slp_wf hes_send_wf assms)
qed

lemma weck_details_wf:
  assumes "panel_wf s"
  shows "panel_wf (snd (get_weck_details slp i s))"
proof -
  have k: "panel_wf t \<Longrightarrow> panel_wf (t\<lparr>wkp := (wkp t)\<lparr>weck_details_expected := e\<rparr>\<rparr>)"
    "panel_wf t \<Longrightarrow> panel_wf (t\<lparr>wkp := (wkp t)\<lparr>weck_details_weck_id := e\<rparr>\<rparr>)" for t e
    using panel_wfD(3) [of t] by (auto intro!: panel_wf_pages)
  show ?thesis unfolding get_weck_details_def Let_def by (simp add: k slp_wf hes_send_wf assms)
qed

lemma heiz_print_wf [panel_keep]: "panel_wf s \<Longrightarrow> panel_wf (heiz_page_print_page slp s)"
  by (simp add: heiz_page_print_page_def Let_def case_prod_unfold heiz_details_wf)

lemma weck_print_wf [panel_keep]: "panel_wf s \<Longrightarrow> panel_wf (weck_page_print_page slp s)"
  by (simp add: weck_page_print_page_def Let_def case_prod_unfold weck_details_wf)

lemma powerport_print_wf [panel_keep]: "panel_wf s \<Longrightarrow> panel_wf (powerport_page_print_page slp s)"
  by (simp add: powerport_page_print_page_def Let_def hes_send_wf slp_wf)

lemma temp_print_wf [panel_keep]: "panel_wf s \<Longrightarrow> panel_wf (temp_anzeige_page_print_page slp s)"
  by (simp add: temp_anzeige_page_print_page_def temp_anzeige_page_get_temp_def Let_def hes_send_wf slp_wf split: option.splits prod.splits)

lemma fenster_print_wf [panel_keep]: "panel_wf s \<Longrightarrow> panel_wf (fenster_monitor_page_print_page slp s)"
proof -
  assume s: "panel_wf s"
  have q: "panel_wf t \<Longrightarrow> panel_wf (fold (fenster_monitor_query slp) is t)" for "is" t
    by (rule fold_keeps) (simp_all add: fenster_monitor_query_def slp_wf hes_send_wf)
  have "panel_wf t \<Longrightarrow> panel_wf (t\<lparr>fenster_monitor_reed_state := replicate 24 255\<rparr>)" for t by (simp add: panel_wf_def panel_sized_def)
  then show ?thesis using s
    by (simp add: fenster_monitor_page_print_page_def fenster_monitor_collect_reed_states_def Let_def q)
qed

end

lemma gesamt_print_wf [panel_keep]: "panel_wf s \<Longrightarrow> panel_wf (gesamt_heiz_page_print_page s)"
proof -
  have p: "gz_wf g \<Longrightarrow> gz_wf (gesamt_heiz_presets g)" for g by (simp add: gz_wf_def gesamt_heiz_presets_def Let_def)
  assume "panel_wf s"
  then show ?thesis using panel_wfD(2) [of s] p
    by (simp add: gesamt_heiz_page_print_page_def Let_def panel_wf_pages)
qed

lemma simple_prints_wf [simp]: "panel_wf (print_screensaver_page s) = panel_wf s" "panel_wf (print_dir_page s) = panel_wf s"
  "panel_wf (rolladen_page_print_page s) = panel_wf s" "panel_wf (taster_page_print_page s) = panel_wf s"
  by (simp_all add: print_screensaver_page_def print_dir_page_def rolladen_page_print_page_def taster_page_print_page_def Let_def
      split: option.splits)


lemma wf_sized: "panel_wf s \<Longrightarrow> panel_sized s" by (simp add: panel_wf_def)

lemma hz_wf_edit: "hz_wf h \<Longrightarrow> hz_wf (heiz_edit_up h)" "hz_wf h \<Longrightarrow> hz_wf (heiz_edit_down h)"
  using inc_le [of "heiz_details_mode_edit h" 3] u8_dec_le [of "heiz_details_mode_edit h" 3]
  by (auto simp: hz_wf_def heiz_edit_up_def heiz_edit_down_def Let_def word_gt_zero_iff)

lemma gz_wf_edit: "gz_wf g \<Longrightarrow> gz_wf (gesamt_heiz_edit_up g)" "gz_wf g \<Longrightarrow> gz_wf (gesamt_heiz_edit_down g)"
  "gz_wf g \<Longrightarrow> gz_wf (gesamt_heiz_presets g)"
  using inc_le [of "gesamt_heiz_details_mode_edit g" 4] u8_dec_le [of "gesamt_heiz_details_mode_edit g" 4]
  by (auto simp: gz_wf_def gesamt_heiz_edit_up_def gesamt_heiz_edit_down_def gesamt_heiz_presets_def Let_def word_gt_zero_iff)

lemma set_edited_wf [panel_keep]: "panel_wf s \<Longrightarrow> panel_wf (set_heiz_edited_details s)"
  "panel_wf s \<Longrightarrow> panel_wf (set_gesamt_heiz_edited_details s)" "panel_wf s \<Longrightarrow> panel_wf (set_weck_edited_details s)"
proof -
  show "panel_wf s \<Longrightarrow> panel_wf (set_heiz_edited_details s)"
    by (simp add: set_heiz_edited_details_def hes_send_wf split: option.splits)
  show "panel_wf s \<Longrightarrow> panel_wf (set_weck_edited_details s)"
    by (simp add: set_weck_edited_details_def hes_send_wf Let_def)
  show "panel_wf s \<Longrightarrow> panel_wf (set_gesamt_heiz_edited_details s)"
    unfolding set_gesamt_heiz_edited_details_def Let_def
    by (rule fold_keeps) (simp_all add: hes_send_wf split: option.splits)
qed

lemma panel_wf_path:
  "panel_wf s \<Longrightarrow> page_stack_ptr s < 7 \<Longrightarrow>
    panel_wf (s\<lparr>page_stack := (page_stack s)[i := pg], page_stack_ptr := page_stack_ptr s + 1\<rparr>)"
  by (simp add: panel_wf_def panel_sized_def inc_le)

lemma panel_wf_keys:
  assumes "panel_wf s" "c \<le> KEY_COUNTER_START" "k \<le> 1"
  shows "panel_wf (s\<lparr>key_counter := (key_counter s)[i := c], key_state := (key_state s)[j := k]\<rparr>)"
    "panel_wf (s\<lparr>key_counter := (key_counter s)[i := c]\<rparr>)"
  using assms set_update_subset_insert [of "key_counter s" i c] set_update_subset_insert [of "key_state s" j k]
  by (auto simp: panel_wf_def panel_sized_def)

context wf_sleeper
begin

lemma print_page_wf [panel_keep]: "panel_wf s \<Longrightarrow> panel_wf (print_page slp s)"
  by (simp add: print_page_def Let_def heiz_print_wf weck_print_wf powerport_print_wf temp_print_wf fenster_print_wf gesamt_print_wf)

lemma goto_wf [panel_keep]: "panel_wf s \<Longrightarrow> panel_wf (goto_page slp pg s)" "panel_wf s \<Longrightarrow> panel_wf (goto_page_up slp s)"
  "panel_wf s \<Longrightarrow> panel_wf (goto_next_page slp s)" "panel_wf s \<Longrightarrow> panel_wf (goto_prev_page slp s)"
  by (simp_all add: goto_page_def goto_page_up_def goto_next_page_def goto_prev_page_def print_page_wf load_page_wf wf_sized)

lemma first_child_wf: 
  "panel_wf s \<Longrightarrow> set its \<subseteq> set (EDS_foreach_block_between EDS_PAGE_ID_START EDS_PAGE_ID_END (pn_board s)) \<Longrightarrow>
    panel_wf (first_child_loop slp its self s)"
proof (induction its)
  case Nil
  then show ?case by (simp add: print_page_wf error_page_wf wf_sized)
next
  case (Cons it its)
  then show ?case using read_block_wf [OF wf_sized, of s it "pn_board s" "unat (EDS_BLOCK_SIZE it (pn_board s)) + 2"]
    by (simp add: Let_def print_page_wf error_page_wf wf_sized)
qed

lemma child_page_wf [panel_keep]: "panel_wf s \<Longrightarrow> panel_wf (goto_first_child_page slp s)"
proof -
  assume s: "panel_wf s"
  have "panel_wf (page_path_stack_push slp pg s)" for pg
    using s panel_wf_path [OF s] by (simp add: page_path_stack_push_def print_page_wf error_page_wf wf_sized not_le)
  then show ?thesis by (simp add: goto_first_child_page_def Let_def first_child_wf)
qed

lemma heiz_key_wf [panel_keep]: "panel_wf s \<Longrightarrow> panel_wf (heiz_page_handle_key_down_event slp key s)"
proof -
  assume s: "panel_wf s"
  have h: "hz_wf (hzp s)" by (rule panel_wfD(1) [OF s])
  have begin_wf: "panel_wf (heiz_begin_edit slp s)"
  proof -
    obtain ok t where t: "get_heiz_details slp (fld 12 s) s = (ok, t)" by (cases "get_heiz_details slp (fld 12 s) s")
    have tw: "panel_wf t" using heiz_details_wf [OF s, of "fld 12 s"] t by simp
    define u where "u = (if ok then t\<lparr>hzp := (hzp t)\<lparr>heiz_details_mode_edit := heiz_details_mode (hzp t),
        heiz_details_rate_edit := heiz_details_rate (hzp t), heiz_details_Tsoll_edit := heiz_details_Tsoll (hzp t),
        heiz_details_dauer_edit := heiz_details_dauer (hzp t)\<rparr>\<rparr> else t)"
    have uw: "panel_wf u" using tw panel_wfD(1) [OF tw] by (auto simp: u_def hz_wf_def intro!: panel_wf_pages)
    then have "panel_wf (u\<lparr>hzp := (hzp u)\<lparr>heiz_page_state := STATE_EDIT\<rparr>\<rparr>)"
      using panel_wfD(1) [OF uw] by (auto simp: hz_wf_def intro!: panel_wf_pages)
    then show ?thesis using uw unfolding heiz_begin_edit_def t by (simp add: Let_def u_def [symmetric] heiz_print_wf)
  qed
  have k: "panel_wf (s\<lparr>hzp := (hzp s)\<lparr>heiz_page_state := v\<rparr>\<rparr>)" "panel_wf (s\<lparr>hzp := (hzp s)\<lparr>heiz_page_subpage := 0\<rparr>\<rparr>)"
    "heiz_page_subpage (hzp s) \<noteq> 0 \<Longrightarrow> panel_wf (s\<lparr>hzp := (hzp s)\<lparr>heiz_page_subpage := heiz_page_subpage (hzp s) - 1\<rparr>\<rparr>)"
    "heiz_page_subpage (hzp s) < 2 \<Longrightarrow> panel_wf (s\<lparr>hzp := (hzp s)\<lparr>heiz_page_subpage := heiz_page_subpage (hzp s) + 1\<rparr>\<rparr>)"
    "panel_wf (s\<lparr>hzp := heiz_edit_up (hzp s)\<rparr>)" "panel_wf (s\<lparr>hzp := heiz_edit_down (hzp s)\<rparr>)" "panel_wf (s\<lparr>hzp := hzp s\<rparr>)" for v
    using s h hz_wf_edit [OF h] u8_dec_le [of "heiz_page_subpage (hzp s)" 2] inc_le [of "heiz_page_subpage (hzp s)" 2]
    by (auto intro!: panel_wf_pages simp: hz_wf_def)
  show ?thesis using begin_wf k s
    by (simp add: heiz_page_handle_key_down_event_def Let_def heiz_print_wf set_edited_wf goto_wf word_gt_zero_iff)
qed

lemma gesamt_key_wf [panel_keep]: "panel_wf s \<Longrightarrow> panel_wf (gesamt_heiz_page_handle_key_down_event slp key s)"
proof -
  assume s: "panel_wf s"
  have g: "gz_wf (gzp s)" by (rule panel_wfD(2) [OF s])
  have k: "panel_wf (s\<lparr>gzp := (gzp s)\<lparr>gesamt_heiz_page_state := v\<rparr>\<rparr>)" "panel_wf (s\<lparr>gzp := (gzp s)\<lparr>gesamt_heiz_page_subpage := 0\<rparr>\<rparr>)"
    "gesamt_heiz_page_subpage (gzp s) \<noteq> 0 \<Longrightarrow>
       panel_wf (s\<lparr>gzp := (gzp s)\<lparr>gesamt_heiz_page_subpage := gesamt_heiz_page_subpage (gzp s) - 1\<rparr>\<rparr>)"
    "gesamt_heiz_page_subpage (gzp s) < 2 \<Longrightarrow>
       panel_wf (s\<lparr>gzp := (gzp s)\<lparr>gesamt_heiz_page_subpage := gesamt_heiz_page_subpage (gzp s) + 1\<rparr>\<rparr>)"
    "panel_wf (s\<lparr>gzp := gesamt_heiz_edit_up (gzp s)\<rparr>)" "panel_wf (s\<lparr>gzp := gesamt_heiz_edit_down (gzp s)\<rparr>)" "panel_wf (s\<lparr>gzp := gzp s\<rparr>)"
    "panel_wf (s\<lparr>gzp := gesamt_heiz_presets (gzp s)\<rparr>)"
    "panel_wf (s\<lparr>gzp := (gesamt_heiz_presets (gzp s))\<lparr>gesamt_heiz_page_state := v\<rparr>\<rparr>)" for v
    using s g gz_wf_edit [OF g] u8_dec_le [of "gesamt_heiz_page_subpage (gzp s)" 2] inc_le [of "gesamt_heiz_page_subpage (gzp s)" 2]
    by (auto intro!: panel_wf_pages simp: gz_wf_def)
  show ?thesis using k s
    by (simp add: gesamt_heiz_page_handle_key_down_event_def Let_def gesamt_print_wf set_edited_wf goto_wf word_gt_zero_iff)
qed

lemma weck_key_wf [panel_keep]: "panel_wf s \<Longrightarrow> panel_wf (weck_page_handle_key_down_event slp key s)"
  using panel_wfD(3) [of s] weck_edit_bounds [of "weck_details_dauer_edit (wkp s)"]
  by (simp add: weck_page_handle_key_down_event_def Let_def weck_print_wf set_edited_wf goto_wf panel_wf_pages)

lemma leave_wf [panel_keep]: "panel_wf s \<Longrightarrow> panel_wf (leave_page slp key s)"
  by (simp add: leave_page_def goto_wf)

lemma other_keys_wf [panel_keep]: "panel_wf s \<Longrightarrow> panel_wf (rolladen_page_handle_key_down_event slp key s)"
  "panel_wf s \<Longrightarrow> panel_wf (taster_page_handle_key_down_event slp key s)"
  "panel_wf s \<Longrightarrow> panel_wf (powerport_page_handle_key_down_event slp key s)"
  "panel_wf s \<Longrightarrow> panel_wf (view_key_down slp key s)"
  by (simp_all add: rolladen_page_handle_key_down_event_def taster_page_handle_key_down_event_def
      powerport_page_handle_key_down_event_def view_key_down_def Let_def blink_wf hes_send_wf slp_wf leave_wf child_page_wf powerport_print_wf)

lemma key_down_wf [panel_keep]: "panel_wf s \<Longrightarrow> panel_wf (key_down_event slp key s)"
  by (simp add: key_down_event_def Let_def heiz_key_wf gesamt_key_wf weck_key_wf other_keys_wf)

lemma key_up_wf [panel_keep]: "panel_wf s \<Longrightarrow> panel_wf (key_up_event slp key s)"
proof -
  assume s: "panel_wf s"
  have "panel_wf t \<Longrightarrow> panel_wf (load_shortcut_page slp n t)" "panel_wf t \<Longrightarrow> panel_wf (save_shortcut_page n t)" for n t
    by (simp_all add: load_shortcut_page_def save_shortcut_page_def Let_def goto_wf error_page_wf wf_sized)
  with s show ?thesis by (simp add: key_up_event_def Let_def)
qed

lemma timer_wf [panel_keep]: "panel_wf s \<Longrightarrow> panel_wf (lcdstatemachine_timer_handler slp s)"
proof -
  assume s: "panel_wf s"
  have dim: "panel_wf t \<Longrightarrow> panel_wf (lcd_dim slp t)" for t
    unfolding lcd_dim_def by (rule fold_keeps) (simp_all add: slp_wf)
  show ?thesis unfolding lcdstatemachine_timer_handler_def
    by (intro let_keeps [where P = panel_wf and Q = panel_wf])
      (simp_all add: s dim print_page_wf load_page_wf wf_sized let_keeps [where P = panel_wf and Q = panel_wf])
qed

lemma keys_wf [panel_keep]: "panel_wf s \<Longrightarrow> panel_wf (keys_handle_pressed slp a d s)"
proof -
  assume s: "panel_wf s"
  have h: "panel_wf (handle_key slp keys i s)" if "panel_wf s" for keys i s
  proof -
    note kk = panel_wf_keys [OF _ order_refl]
    have dec: "panel_wf (s\<lparr>key_counter := (key_counter s)[i := key_counter s ! i - 1]\<rparr>)" if "key_counter s ! i \<noteq> 0"
    proof (cases "i < length (key_counter s)")
      case True
      then have "key_counter s ! i \<le> 5" using \<open>panel_wf s\<close> by (simp add: panel_wf_def panel_sized_def)
      then show ?thesis using panel_wf_keys(2) [OF \<open>panel_wf s\<close>, of _ 0] u8_dec_le that by simp
    next
      case False
      then have "(key_counter s)[i := key_counter s ! i - 1] = key_counter s" by (simp add: list_update_beyond)
      then show ?thesis using \<open>panel_wf s\<close> by (simp add: panel_wf_def panel_sized_def block_type_def)
    qed
    have a: "panel_wf t \<Longrightarrow> panel_wf (key_down_event slp i (t\<lparr>key_counter := (key_counter t)[i := KEY_COUNTER_START], key_state := (key_state t)[i := 1]\<rparr>))"
      and b: "panel_wf t \<Longrightarrow> panel_wf (key_up_event slp i (t\<lparr>key_counter := (key_counter t)[i := KEY_COUNTER_START], key_state := (key_state t)[i := 0]\<rparr>))" for t
      by (simp_all add: key_down_wf key_up_wf kk)
    show ?thesis using that a [OF that] b [OF that] b [OF a [OF that]] dec by (simp add: handle_key_def Let_def)
  qed
  show ?thesis unfolding keys_handle_pressed_def Let_def by (rule fold_keeps) (simp_all add: h s)
qed

lemma panel_event_wf [panel_keep]: "panel_wf s \<Longrightarrow> panel_wf (panel_event slp e s)"
proof -
  assume s: "panel_wf s"
  have i: "panel_wf (panel_idle_handler slp a d s)" for a d
    unfolding panel_idle_handler_def case_prod_unfold
    by (intro let_keeps [where P = panel_wf and Q = panel_wf]) (simp_all add: s keys_wf timer_wf)
  show ?thesis using s i
    by (auto simp: panel_event_def panel_timer_handler_def Let_def case_prod_unfold panel_callback_wf split: panel_event.splits)
qed

end

interpretation nested: wf_sleeper sleep_nested
  by unfold_locales (simp add: sleep_nested_def)

interpretation top: wf_sleeper "panel_sleep env" for env
proof
  fix s n assume "panel_wf s"
  then show "panel_wf (panel_sleep env n s)"
    unfolding panel_sleep_def by (auto intro!: fold_keeps [where P = panel_wf] nested.panel_event_wf)
qed


lemma panel_main_wf: "panel_wf (panel_main env b)"
proof -
  have "panel_sized (keys_init (lcdctrl_init (lcd_clrscr (lcd_command LCD_DISP_ON (panel_globals b)))))"
    by (simp add: panel_sized_def keys_init_def lcdctrl_init_def lcd_clrscr_def lcd_command_def panel_globals_def hz_wf_def gz_wf_def Let_def)
  then show ?thesis by (simp add: panel_main_def lcdstatemachine_init_def top.print_page_wf load_page_wf)
qed

text \<open>C17: The state of a panel is well-formed in every run, whatever keys, frames and clock values arrive and
  in which order, at the top level or while a page sleeps: the active page is an error page or has a page
  type, it and the tables keep their sizes and no index leaves its table, sub-pages and modes stay among
  those the functions know, the counters of the keys in range, and an alarm is at most 43500 seconds.\<close>

theorem panel_stays_well_formed:
  "panel_wf (panel_run env es (panel_main env b))"
  unfolding panel_run_def panel_step_def
  by (rule fold_keeps) (simp_all add: top.panel_event_wf panel_main_wf)

end
