(* ===== verification/Panel_Heating.thy ===== *)
theory Panel_Heating
  imports Panel_Props Heizung
begin

text \<open>
  The heating page of the user panel together with the heating it belongs to: what the panel sets is what the
  heating then does and what the page shows next; and the cases in which a page works with values that are not
  those of its own device.
\<close>

section \<open>The heating page and its heating\<close>

text \<open>The fields of the active page do not depend on the rest of the state.\<close>

lemma fld_others [simp]:
  "fld i (s\<lparr>pn_board := x0\<rparr>) = fld i s" "fld i (s\<lparr>keypress_time := x1\<rparr>) = fld i s" "fld i (s\<lparr>lcd_led_countdown := x2\<rparr>) = fld i s"
  "fld i (s\<lparr>lcd_screensafer_countdown := x3\<rparr>) = fld i s" "fld i (s\<lparr>hzp := x4\<rparr>) = fld i s" "fld i (s\<lparr>ppp := x5\<rparr>) = fld i s"
  "fld i (s\<lparr>screen := x6\<rparr>) = fld i s" "fld i (s\<lparr>lcd_mode := x7\<rparr>) = fld i s" "fld i (s\<lparr>OCR1A := x8\<rparr>) = fld i s"
  "fld i (s\<lparr>OCR1B := x9\<rparr>) = fld i s" "fld i (s\<lparr>naps := x10\<rparr>) = fld i s"
  by (simp_all add: fld_def)

lemma cstr_others [simp]:
  "cstr i (s\<lparr>pn_board := x0\<rparr>) = cstr i s" "cstr i (s\<lparr>keypress_time := x1\<rparr>) = cstr i s" "cstr i (s\<lparr>lcd_led_countdown := x2\<rparr>) = cstr i s"
  "cstr i (s\<lparr>lcd_screensafer_countdown := x3\<rparr>) = cstr i s" "cstr i (s\<lparr>hzp := x4\<rparr>) = cstr i s" "cstr i (s\<lparr>ppp := x5\<rparr>) = cstr i s"
  "cstr i (s\<lparr>screen := x6\<rparr>) = cstr i s" "cstr i (s\<lparr>lcd_mode := x7\<rparr>) = cstr i s" "cstr i (s\<lparr>OCR1A := x8\<rparr>) = cstr i s"
  "cstr i (s\<lparr>OCR1B := x9\<rparr>) = cstr i s" "cstr i (s\<lparr>naps := x10\<rparr>) = cstr i s"
  by (simp_all add: cstr_def)

text \<open>A command of the panel as a frame, and what a heating answers to a frame.\<close>

definition panel_frame :: "u8 list \<Rightarrow> panel \<Rightarrow> canix_frame" where
  "panel_frame d s = \<lparr>fr_src = canix_selfaddr (pn_board s), fr_dst = HCAN_MULTICAST_CONTROL, fr_proto = HCAN_PROTO_SFP,
     fr_size = of_nat (length d + 1), fr_data = HCAN_SRV_HES # d\<rparr>"

definition heating_replies :: "(u8 \<Rightarrow> bool) \<Rightarrow> canix_frame \<Rightarrow> device_data_heizung \<Rightarrow> board \<Rightarrow> panel_event list" where
  "heating_replies zm f p b = map (\<lambda>(g, prio). P_Frame g) (drop (length (sent b)) (sent (snd (heizung_can_callback zm f p b))))"

fun mode_code :: "hz_mode \<Rightarrow> u8" where
  "mode_code MODE_OFF = 0" | "mode_code MODE_MANUAL = 1" | "mode_code MODE_THERMOSTAT = 2" | "mode_code MODE_AUTOMATIK = 3"

definition details_data :: "(u8 \<Rightarrow> bool) \<Rightarrow> device_data_heizung \<Rightarrow> u8 list" where
  "details_data zm p =
     (let i = hz_id (hz_config p) in case mode p of
        MODE_OFF \<Rightarrow> [51, i]
      | MODE_MANUAL \<Rightarrow> [53, i, manual_rate p, hi8 (duration_counter p), lo8 (duration_counter p)]
      | MODE_THERMOSTAT \<Rightarrow> [55, i, hi8 (thermostat_temp p), lo8 (thermostat_temp p), hi8 (duration_counter p), lo8 (duration_counter p)]
      | MODE_AUTOMATIK \<Rightarrow> (case heizung_get_matching_zeitzone_index zm p of
          Some k \<Rightarrow> (let v = snd (solltemp_lines (hz_config p) ! k) in [57, i, hi8 v, lo8 v, heizung_get_matching_zeitzone_id zm p])
        | None \<Rightarrow> [57, i, 0, 0, 0]))"

definition node_reply :: "u8 list \<Rightarrow> canix_frame \<Rightarrow> board \<Rightarrow> canix_frame" where
  "node_reply d f b = \<lparr>fr_src = canix_selfaddr b, fr_dst = fr_src f, fr_proto = HCAN_PROTO_SFP, fr_size = of_nat (length d + 1),
     fr_data = HCAN_SRV_HES # d\<rparr>"

lemma heating_replies_details:
  assumes "hz_id (hz_config p) = i"
  shows "heating_replies zm (panel_frame [HCAN_HES_HEIZUNG_DETAILS_REQUEST, i] s) p b =
    [P_Frame (node_reply (details_data zm p) (panel_frame [HCAN_HES_HEIZUNG_DETAILS_REQUEST, i] s) b)]"
  using assms
  by (cases "mode p") (auto simp: heating_replies_def heizung_can_callback_def panel_frame_def Let_def heizung_details_def hz_reply_def
      send_prio_def node_reply_def details_data_def canix_syslog_P_def canix_selfaddr_def split: option.splits)

lemma heating_replies_tist:
  assumes "hz_id (hz_config p) = i"
  shows "heating_replies zm (panel_frame [HCAN_HES_HEIZUNG_TIST_REQUEST, i] s) p b =
    [P_Frame (node_reply [60, i, hi8 (measure_value p), lo8 (measure_value p)] (panel_frame [HCAN_HES_HEIZUNG_TIST_REQUEST, i] s) b)]"
  using assms by (simp add: heating_replies_def heizung_can_callback_def panel_frame_def Let_def hz_reply_def send_prio_def node_reply_def)

lemma selfaddr_ops [simp]: "canix_selfaddr (send_prio dst d prio b) = canix_selfaddr b"
  by (simp add: canix_selfaddr_def send_prio_def)

lemma hes_control_heiz:
  assumes "block_type s = EDS_heiz_page_BLOCK_ID" "d ! 0 \<notin> {51, 53, 55, 57, 60}"
  shows "hes_control d s = s\<lparr>pn_board := send_prio HCAN_MULTICAST_CONTROL (HCAN_SRV_HES # d) HCAN_PRIO_HI (pn_board s)\<rparr>"
  using assms by (simp add: hes_control_def hes_send_def panel_hauselektrik_callback_def lcdstatemachine_can_callback_def
      heiz_page_can_callback_def Let_def)

text \<open>A sleep in which one answer comes in.\<close>

lemma sleep_reply:
  assumes "env (naps s) = [P_Frame (node_reply d f b)]" "fr_src f = canix_selfaddr (pn_board s)" "\<not> panel_reset s"
    "block_type s = EDS_heiz_page_BLOCK_ID"
  shows "panel_sleep env n s = heiz_page_can_callback (node_reply d f b) (s\<lparr>naps := Suc (naps s)\<rparr>)"
  using assms by (simp add: panel_sleep_def panel_event_def panel_hauselektrik_callback_def node_reply_def
      lcdstatemachine_can_callback_def Let_def)

lemma details_data_head: "details_data zm p ! 0 \<in> {51, 53, 55, 57}" "details_data zm p ! 1 = hz_id (hz_config p)"
  by (cases "mode p"; simp add: details_data_def Let_def split: option.splits)+

lemma heiz_details_reply:
  assumes "heiz_details_expected (hzp s) \<noteq> 0" "hz_id (hz_config p) = heiz_details_heiz_id (hzp s)"
  shows "heiz_page_can_callback (node_reply (details_data zm p) f b) s =
    s\<lparr>hzp := heiz_page_details (HCAN_SRV_HES # details_data zm p) (hzp s)\<rparr>"
  using assms details_data_head [of zm p] by (auto simp: heiz_page_can_callback_def node_reply_def Let_def)

lemma heiz_tist_reply:
  "i = heiz_details_heiz_id (hzp s) \<Longrightarrow>
    heiz_page_can_callback (node_reply [60, i, hi8 T, lo8 T] f b) s =
    s\<lparr>hzp := (hzp s)\<lparr>heiz_details_expected := heiz_details_expected (hzp s) AND NOT 0x02, heiz_details_Tist := T\<rparr>\<rparr>"
  by (simp add: heiz_page_can_callback_def node_reply_def Let_def)

lemma panel_frame_cong: "canix_selfaddr (pn_board t) = canix_selfaddr (pn_board s) \<Longrightarrow> panel_frame d t = panel_frame d s"
  by (simp add: panel_frame_def)

lemma details_keep [simp]: "heiz_details_heiz_id (heiz_page_details d h) = heiz_details_heiz_id h"
  "heiz_page_subpage (heiz_page_details d h) = heiz_page_subpage h" "heiz_page_state (heiz_page_details d h) = heiz_page_state h"
  by (simp_all add: heiz_page_details_def Let_def)

definition details_asked :: "u8 \<Rightarrow> board \<Rightarrow> board" where
  "details_asked i b = send_prio HCAN_MULTICAST_CONTROL [HCAN_SRV_HES, HCAN_HES_HEIZUNG_TIST_REQUEST, i] HCAN_PRIO_HI
     (send_prio HCAN_MULTICAST_CONTROL [HCAN_SRV_HES, HCAN_HES_HEIZUNG_DETAILS_REQUEST, i] HCAN_PRIO_HI b)"

lemma heiz_details_exchange:
  assumes pg: "block_type s = EDS_heiz_page_BLOCK_ID" "\<not> panel_reset s" and i: "hz_id (hz_config p) = i"
    and env: "env (naps s) = heating_replies zm (panel_frame [HCAN_HES_HEIZUNG_DETAILS_REQUEST, i] s) p b"
      "env (Suc (naps s)) = heating_replies zm (panel_frame [HCAN_HES_HEIZUNG_TIST_REQUEST, i] s) p b"
  shows "get_heiz_details (panel_sleep env) i s = (True, s\<lparr>pn_board := details_asked i (pn_board s), naps := Suc (Suc (naps s)),
    hzp := (heiz_page_details (HCAN_SRV_HES # details_data zm p)
           ((hzp s)\<lparr>heiz_details_heiz_id := i, heiz_details_Tsoll := 0, heiz_details_expected := 1\<rparr>))
        \<lparr>heiz_details_expected := 0, heiz_details_Tist := measure_value p, heiz_details_heiz_id := 0\<rparr>\<rparr>)"
proof -
  let ?f1 = "panel_frame [HCAN_HES_HEIZUNG_DETAILS_REQUEST, i] s" and ?f2 = "panel_frame [HCAN_HES_HEIZUNG_TIST_REQUEST, i] s"
  define bd where "bd = send_prio HCAN_MULTICAST_CONTROL [HCAN_SRV_HES, HCAN_HES_HEIZUNG_DETAILS_REQUEST, i] HCAN_PRIO_HI (pn_board s)"
  define bd2 where "bd2 = send_prio HCAN_MULTICAST_CONTROL [HCAN_SRV_HES, HCAN_HES_HEIZUNG_TIST_REQUEST, i] HCAN_PRIO_HI bd"
  define h1 where "h1 = (hzp s)\<lparr>heiz_details_heiz_id := i, heiz_details_Tsoll := 0, heiz_details_expected := 1\<rparr>"
  define h2 where "h2 = heiz_page_details (HCAN_SRV_HES # details_data zm p) h1"
  have id: "heiz_details_heiz_id h1 = i" "heiz_details_heiz_id h2 = i" "heiz_details_expected h1 = 1" by (simp_all add: h1_def h2_def)
  define s1 where "s1 = s\<lparr>pn_board := bd, hzp := h1\<rparr>"
  have s1: "block_type s1 = 102" "\<not> panel_reset s1" "naps s1 = naps s" "canix_selfaddr (pn_board s1) = canix_selfaddr (pn_board s)" "hzp s1 = h1"
    using pg by (simp_all add: s1_def bd_def)
  have "panel_sleep env 5 s1 = heiz_page_can_callback (node_reply (details_data zm p) ?f1 b) (s1\<lparr>naps := Suc (naps s)\<rparr>)"
    using sleep_reply [of env s1 "details_data zm p" ?f1 b 5] s1 env(1) heating_replies_details [OF i, of zm s b]
    by (simp add: panel_frame_def)
  also have "\<dots> = s1\<lparr>naps := Suc (naps s), hzp := h2\<rparr>"
    using heiz_details_reply [of "s1\<lparr>naps := Suc (naps s)\<rparr>" p zm ?f1 b] s1 id i by (simp add: h2_def)
  finally have sl1: "panel_sleep env 5 s1 = s1\<lparr>naps := Suc (naps s), hzp := h2\<rparr>" .
  define s2 where "s2 = s1\<lparr>naps := Suc (naps s), pn_board := bd2, hzp := h2\<lparr>heiz_details_expected := 2\<rparr>\<rparr>"
  have s2: "block_type s2 = 102" "\<not> panel_reset s2" "naps s2 = Suc (naps s)" "canix_selfaddr (pn_board s2) = canix_selfaddr (pn_board s)"
    "hzp s2 = h2\<lparr>heiz_details_expected := 2\<rparr>"
    using s1 by (simp_all add: s2_def bd2_def bd_def)
  have "panel_sleep env 5 s2 = heiz_page_can_callback (node_reply [60, i, hi8 (measure_value p), lo8 (measure_value p)] ?f2 b)
      (s2\<lparr>naps := Suc (Suc (naps s))\<rparr>)"
    using sleep_reply [of env s2 "[60, i, hi8 (measure_value p), lo8 (measure_value p)]" ?f2 b 5] s2 env(2) heating_replies_tist [OF i, of zm s b]
    by (simp add: panel_frame_def)
  also have "\<dots> = s2\<lparr>naps := Suc (Suc (naps s)), hzp := h2\<lparr>heiz_details_expected := 0, heiz_details_Tist := measure_value p\<rparr>\<rparr>"
    using heiz_tist_reply [of i "s2\<lparr>naps := Suc (Suc (naps s))\<rparr>" "measure_value p" ?f2 b] s2 id by simp
  finally have sl2: "panel_sleep env 5 s2 = s2\<lparr>naps := Suc (Suc (naps s)), hzp := h2\<lparr>heiz_details_expected := 0, heiz_details_Tist := measure_value p\<rparr>\<rparr>" .
  have c1: "hes_control [HCAN_HES_HEIZUNG_DETAILS_REQUEST, i] (s\<lparr>hzp := (hzp s)\<lparr>heiz_details_heiz_id := i, heiz_details_Tsoll := 0\<rparr>\<rparr>)
      = s\<lparr>pn_board := bd, hzp := (hzp s)\<lparr>heiz_details_heiz_id := i, heiz_details_Tsoll := 0\<rparr>\<rparr>"
    using pg(1) by (simp add: hes_control_heiz bd_def)
  have c2: "hes_control [HCAN_HES_HEIZUNG_TIST_REQUEST, i] (s1\<lparr>naps := Suc (naps s), hzp := h2\<rparr>)
      = s1\<lparr>naps := Suc (naps s), pn_board := bd2, hzp := h2\<rparr>"
    using s1(1) by (simp add: hes_control_heiz bd2_def s1_def)
  show ?thesis
    unfolding get_heiz_details_def Let_def c1
    by (simp add: s1_def [symmetric] h1_def [symmetric] sl1 c2 s2_def [symmetric] sl2)
      (simp add: s2_def s1_def h2_def details_asked_def bd2_def bd_def)
qed


text \<open>What a heating does: its mode, rate, set temperature and the remaining time, as far as the mode has them; and
  what the OK key on the page means: the presets on the first sub-page, the edited values on the others.\<close>

definition heating_setting :: "device_data_heizung \<Rightarrow> u8 \<times> u8 \<times> u16 \<times> u16" where
  "heating_setting p = (case mode p of
       MODE_OFF \<Rightarrow> (0, 0, 0, 0)
     | MODE_MANUAL \<Rightarrow> (1, manual_rate p, 0, duration_counter p)
     | MODE_THERMOSTAT \<Rightarrow> (2, 0, thermostat_temp p, duration_counter p)
     | MODE_AUTOMATIK \<Rightarrow> (3, 0, 0, 0))"

definition edited_setting :: "heiz_page \<Rightarrow> u8 \<times> u8 \<times> u16 \<times> u16" where
  "edited_setting h =
     (let m = heiz_details_mode_edit h; first = (heiz_page_subpage h = 0);
          dauer = (if first then 21600 else heiz_details_dauer_edit h)
      in if m = 1 then (1, if first then 0 else heiz_details_rate_edit h, 0, dauer)
         else if m = 2 then (2, 0, if first then 320 else heiz_details_Tsoll_edit h, dauer)
         else (m, 0, 0, 0))"

definition setting_line :: "u8 \<Rightarrow> u8 \<times> u8 \<times> u16 \<times> u16 \<Rightarrow> u8 list" where
  "setting_line sub st = (case st of (m, r, T, d) \<Rightarrow> snprintf 31 (heiz_page_line sub m r T d []))"

lemma edited_message_cases:
  assumes "heiz_edited_message i h = Some d"
  obtains "heiz_page_subpage h = 0" "heiz_details_mode_edit h = 0" "d = [HCAN_HES_HEIZUNG_SET_MODE_OFF, i]"
  | "heiz_page_subpage h = 0" "heiz_details_mode_edit h = 1" "d = [HCAN_HES_HEIZUNG_SET_MODE_MANUAL, i, 0, 84, 96]"
  | "heiz_page_subpage h = 0" "heiz_details_mode_edit h = 2" "d = [HCAN_HES_HEIZUNG_SET_MODE_THERMOSTAT_DETAILS, i, 1, 64, 84, 96]"
  | "heiz_page_subpage h = 0" "heiz_details_mode_edit h = 3" "d = [HCAN_HES_HEIZUNG_SET_MODE_AUTOMATIK, i]"
  | "heiz_page_subpage h \<in> {1, 2}" "heiz_details_mode_edit h = 1"
    "d = [HCAN_HES_HEIZUNG_SET_MODE_MANUAL, i, heiz_details_rate_edit h, hi8 (heiz_details_dauer_edit h), lo8 (heiz_details_dauer_edit h)]"
  | "heiz_page_subpage h \<in> {1, 2}" "heiz_details_mode_edit h = 2"
    "d = [HCAN_HES_HEIZUNG_SET_MODE_THERMOSTAT_DETAILS, i, hi8 (heiz_details_Tsoll_edit h), lo8 (heiz_details_Tsoll_edit h),
       hi8 (heiz_details_dauer_edit h), lo8 (heiz_details_dauer_edit h)]"
  using assms unfolding heiz_edited_message_def Let_def by (simp split: if_splits)

lemma preset_words: "word16 84 96 = 21600" "word16 1 64 = 320"
  by (simp_all add: word16_def)

lemma heating_takes_setting:
  assumes "heiz_edited_message i h = Some d" "hz_id (hz_config p) = i" "p' = fst (heizung_can_callback zm (panel_frame d s) p b)"
  shows "heating_setting p' = edited_setting h \<and> hz_id (hz_config p') = i \<and> measure_value p' = measure_value p \<and>
    d ! 0 \<notin> {51, 53, 55, 57, 60} \<and>
    (heiz_page_subpage h = 0 \<or> heiz_page_subpage h \<in> {1, 2} \<and> (mode p' = MODE_MANUAL \<or> mode p' = MODE_THERMOSTAT))"
  by (rule edited_message_cases [OF assms(1)])
    (use assms(2,3) in \<open>auto simp: heizung_can_callback_def panel_frame_def heating_setting_def edited_setting_def Let_def preset_words\<close>)

lemma details_of_heating:
  assumes "h = heiz_page_details (HCAN_SRV_HES # details_data zm p) h0"
  shows "heiz_details_mode h = mode_code (mode p)"
    "mode p = MODE_MANUAL \<Longrightarrow> heiz_details_rate h = manual_rate p \<and> heiz_details_dauer h = duration_counter p"
    "mode p = MODE_THERMOSTAT \<Longrightarrow> heiz_details_Tsoll h = thermostat_temp p \<and> heiz_details_dauer h = duration_counter p"
  using assms by (cases "mode p"; simp add: heiz_page_details_def details_data_def Let_def split: option.splits)+

lemma shown_line:
  assumes "h = heiz_page_details (HCAN_SRV_HES # details_data zm p) h0"
    "sub = 0 \<or> sub \<in> {1, 2} \<and> (mode p = MODE_MANUAL \<or> mode p = MODE_THERMOSTAT)"
  shows "heiz_page_line sub (heiz_details_mode h) (heiz_details_rate h) (heiz_details_Tsoll h) (heiz_details_dauer h) buf =
    (case heating_setting p of (m, r, T, d) \<Rightarrow> heiz_page_line sub m r T d [])"
  using details_of_heating [OF assms(1)] assms(2)
  by (cases "mode p") (auto simp: heating_setting_def heiz_page_line_def)

lemma heiz_page_shows:
  assumes pg: "block_type s = EDS_heiz_page_BLOCK_ID" "\<not> panel_reset s" and i: "hz_id (hz_config p) = fld 12 s"
    and st: "heiz_page_state (hzp s) = STATE_VIEW" "sub = heiz_page_subpage (hzp s)"
      "sub = 0 \<or> sub \<in> {1, 2} \<and> (mode p = MODE_MANUAL \<or> mode p = MODE_THERMOSTAT)"
    and env: "env (naps s) = heating_replies zm (panel_frame [HCAN_HES_HEIZUNG_DETAILS_REQUEST, fld 12 s] s) p b"
      "env (Suc (naps s)) = heating_replies zm (panel_frame [HCAN_HES_HEIZUNG_TIST_REQUEST, fld 12 s] s) p b"
  shows "screen (heiz_page_print_page (panel_sleep env) s) =
      [((0, 0), snprintf 31 (fmt_s 6 (cstr 4 s))), ((6, 0), snprintf 31 (chars '' Ti='' @ fmt_temp (measure_value p))),
       ((0, 1), setting_line sub (heating_setting p))]"
    "pn_board (heiz_page_print_page (panel_sleep env) s) = details_asked (fld 12 s) (pn_board s)"
proof -
  define s0 where "s0 = lcd_clrscr s"
  have s0: "block_type s0 = 102" "\<not> panel_reset s0" "naps s0 = naps s" "hzp s0 = hzp s" "fld 12 s0 = fld 12 s" "cstr 4 s0 = cstr 4 s"
    "panel_frame c s0 = panel_frame c s" "screen s0 = []" "pn_board s0 = pn_board s" for c
    using pg by (simp_all add: s0_def lcd_clrscr_def fld_def cstr_def panel_frame_def)
  note ex = heiz_details_exchange [OF s0(1,2) i, of env zm b, unfolded s0, OF env]
  define h0 where "h0 = (hzp s)\<lparr>heiz_details_heiz_id := fld 12 s, heiz_details_Tsoll := 0, heiz_details_expected := 1\<rparr>"
  define h where "h = heiz_page_details (HCAN_SRV_HES # details_data zm p) h0"
  have h: "heiz_page_subpage h = sub" "heiz_page_state h = STATE_VIEW" using st by (simp_all add: h_def h0_def)
  have le: "sub \<le> 2" using st(3) by auto
  have c: "cstr 4 (s0\<lparr>pn_board := b1, naps := n1, hzp := h1\<rparr>) = cstr 4 s" for b1 n1 h1 using s0(6) by (simp add: cstr_def)
  show "screen (heiz_page_print_page (panel_sleep env) s) =
      [((0, 0), snprintf 31 (fmt_s 6 (cstr 4 s))), ((6, 0), snprintf 31 (chars '' Ti='' @ fmt_temp (measure_value p))),
       ((0, 1), setting_line sub (heating_setting p))]"
    using h le shown_line [OF h_def st(3)]
    by (simp add: heiz_page_print_page_def Let_def s0_def [symmetric] s0 st(1) ex h0_def [symmetric] h_def [symmetric] lcd_puts_def
        c setting_line_def case_prod_unfold)
  show "pn_board (heiz_page_print_page (panel_sleep env) s) = details_asked (fld 12 s) (pn_board s)"
    using h le
    by (simp add: heiz_page_print_page_def Let_def s0_def [symmetric] s0 st(1) ex h0_def [symmetric] h_def [symmetric] lcd_puts_def)
qed


text \<open>The OK key while editing, up to the printing of the page.\<close>

definition ok_sent :: "u8 list \<Rightarrow> panel \<Rightarrow> panel" where
  "ok_sent d s = s\<lparr>lcd_led_countdown := 10, OCR1A := LCD_BACKLIGHT_DEFAULT, OCR1B := LCD_CONTRAST_DEFAULT,
     lcd_screensafer_countdown := 300, keypress_time := 1, hzp := (hzp s)\<lparr>heiz_page_state := STATE_VIEW\<rparr>, lcd_mode := LCD_DISP_ON,
     pn_board := send_prio HCAN_MULTICAST_CONTROL (HCAN_SRV_HES # d) HCAN_PRIO_HI
       (canix_syslog_P SYSLOG_PRIO_DEBUG ''key_down %x'' [int KEY_OK] (pn_board s))\<rparr>"

lemma edited_message_state [simp]: "heiz_edited_message i (h\<lparr>heiz_page_state := v\<rparr>) = heiz_edited_message i h"
  by (simp add: heiz_edited_message_def Let_def)

lemma ok_while_editing:
  assumes "block_type s = EDS_heiz_page_BLOCK_ID" "heiz_page_state (hzp s) = STATE_EDIT"
    "heiz_edited_message (fld 12 s) (hzp s) = Some d" "d ! 0 \<notin> {51, 53, 55, 57, 60}"
  shows "key_down_event slp KEY_OK s = heiz_page_print_page slp (ok_sent d s)"
  using assms by (simp add: key_down_event_def Let_def heiz_page_handle_key_down_event_def set_heiz_edited_details_def
      pn_log_def lcdctrl_set_contrast_def lcdctrl_set_backlight_def lcd_command_def hes_control_heiz ok_sent_def)

lemma ok_sent_fields [simp]:
  "block_type (ok_sent d s) = block_type s" "fld i (ok_sent d s) = fld i s" "cstr i (ok_sent d s) = cstr i s"
  "naps (ok_sent d s) = naps s" "panel_reset (ok_sent d s) = panel_reset s" "panel_frame c (ok_sent d s) = panel_frame c s"
  "hzp (ok_sent d s) = (hzp s)\<lparr>heiz_page_state := STATE_VIEW\<rparr>"
  "sent (pn_board (ok_sent d s)) = sent (pn_board s) @ [(panel_frame d s, HCAN_PRIO_HI)]"
  by (simp_all add: ok_sent_def panel_frame_def send_prio_def canix_syslog_P_def canix_selfaddr_def)

text \<open>The frames a function has sent.\<close>

definition frames_sent :: "panel \<Rightarrow> panel \<Rightarrow> canix_frame list" where
  "frames_sent s s' = map fst (drop (length (sent (pn_board s))) (sent (pn_board s')))"

lemma heiz_ok_exchange:
  assumes "block_type s = EDS_heiz_page_BLOCK_ID" "\<not> panel_reset s" "heiz_page_state (hzp s) = STATE_EDIT"
    and "heiz_edited_message (fld 12 s) (hzp s) = Some d" "hz_id (hz_config p) = fld 12 s"
    and "p' = fst (heizung_can_callback zm (panel_frame d s) p b)"
    and "env (naps s) = heating_replies zm (panel_frame [HCAN_HES_HEIZUNG_DETAILS_REQUEST, fld 12 s] s) p' b"
    and "env (Suc (naps s)) = heating_replies zm (panel_frame [HCAN_HES_HEIZUNG_TIST_REQUEST, fld 12 s] s) p' b"
    and "s' = key_down_event (panel_sleep env) KEY_OK s"
  shows "frames_sent s s' = [panel_frame d s, panel_frame [HCAN_HES_HEIZUNG_DETAILS_REQUEST, fld 12 s] s,
        panel_frame [HCAN_HES_HEIZUNG_TIST_REQUEST, fld 12 s] s] \<and>
    heating_setting p' = edited_setting (hzp s) \<and>
    screen s' = [((0, 0), snprintf 31 (fmt_s 6 (cstr 4 s))), ((6, 0), snprintf 31 (chars '' Ti='' @ fmt_temp (measure_value p))),
      ((0, 1), setting_line (heiz_page_subpage (hzp s)) (heating_setting p'))]"
proof -
  note tk = heating_takes_setting [OF assms(4,5,6)]
  have s': "s' = heiz_page_print_page (panel_sleep env) (ok_sent d s)"
    using ok_while_editing [OF assms(1,3,4)] tk assms(9) by simp
  note sh = heiz_page_shows [of "ok_sent d s" p' "heiz_page_subpage (hzp s)" env zm b]
  have "screen s' = [((0, 0), snprintf 31 (fmt_s 6 (cstr 4 s))), ((6, 0), snprintf 31 (chars '' Ti='' @ fmt_temp (measure_value p))),
      ((0, 1), setting_line (heiz_page_subpage (hzp s)) (heating_setting p'))]"
    using sh(1) tk assms(1,2,7,8) s' by simp
  moreover have "frames_sent s s' = [panel_frame d s, panel_frame [HCAN_HES_HEIZUNG_DETAILS_REQUEST, fld 12 s] s,
        panel_frame [HCAN_HES_HEIZUNG_TIST_REQUEST, fld 12 s] s]"
    using sh(2) tk assms(1,2,7,8) s'
    by (simp add: frames_sent_def details_asked_def) (simp add: send_prio_def panel_frame_def ok_sent_def canix_selfaddr_def canix_syslog_P_def)
  ultimately show ?thesis using tk by simp
qed


text \<open>C18: What the OK key of the heating page sets, when the page is being edited and has a command for its
  sub-page and mode, is what the heating then does and what the page shows: the command has the mode and the values of
  the sub-page (the presets on the first one), the heating takes them over, and when it answers the two questions of
  the page, and no other frame comes in meanwhile, the display shows its measured temperature and these values.\<close>

theorem panel_sets_and_shows_heating:
  assumes "block_type s = EDS_heiz_page_BLOCK_ID" "\<not> panel_reset s" "heiz_page_state (hzp s) = STATE_EDIT"
    and "heiz_edited_message (fld 12 s) (hzp s) = Some d" "hz_id (hz_config p) = fld 12 s"
    and "p' = fst (heizung_can_callback zm (panel_frame d s) p b)"
    and "env (naps s) = heating_replies zm (panel_frame [HCAN_HES_HEIZUNG_DETAILS_REQUEST, fld 12 s] s) p' b"
    and "env (Suc (naps s)) = heating_replies zm (panel_frame [HCAN_HES_HEIZUNG_TIST_REQUEST, fld 12 s] s) p' b"
    and "s' = key_down_event (panel_sleep env) KEY_OK s"
  shows "frames_sent s s' = [panel_frame d s, panel_frame [HCAN_HES_HEIZUNG_DETAILS_REQUEST, fld 12 s] s,
        panel_frame [HCAN_HES_HEIZUNG_TIST_REQUEST, fld 12 s] s] \<and>
    heating_setting p' = edited_setting (hzp s) \<and>
    screen s' = [((0, 0), snprintf 31 (fmt_s 6 (cstr 4 s))), ((6, 0), snprintf 31 (chars '' Ti='' @ fmt_temp (measure_value p))),
      ((0, 1), setting_line (heiz_page_subpage (hzp s)) (heating_setting p'))]"
  by (rule heiz_ok_exchange [OF assms])

text \<open>The page of heating 67, on which a thermostat temperature of 21 degrees for an hour has been entered.\<close>

definition ex_heiz_panel :: panel where
  "ex_heiz_panel = (panel_globals ex_board)\<lparr>
     active_page := [102, 40, 2, 1, 0, 0, 66, 97, 100, 0, 0, 0, 0, 0, 67] @ replicate 35 0,
     hzp := \<lparr>heiz_details_expected = 0, heiz_details_heiz_id = 0, heiz_details_mode = 1, heiz_details_rate = 50,
       heiz_details_Tsoll = 0, heiz_details_Tist = 0, heiz_details_dauer = 7200, heiz_details_mode_edit = 2,
       heiz_details_Tsoll_edit = 336, heiz_details_rate_edit = 0, heiz_details_dauer_edit = 3600, heiz_page_subpage = 1,
       heiz_page_state = STATE_EDIT\<rparr>\<rparr>"

definition ex_heating_env :: "nat \<Rightarrow> panel_event list" where
  "ex_heating_env n =
     (let p' = fst (heizung_can_callback (\<lambda>_. False) (panel_frame [56, 67, 1, 80, 14, 16] ex_heiz_panel) ex_heizung ex_board)
      in heating_replies (\<lambda>_. False) (panel_frame [if n = 0 then HCAN_HES_HEIZUNG_DETAILS_REQUEST else HCAN_HES_HEIZUNG_TIST_REQUEST, 67]
           ex_heiz_panel) p' ex_board)"

theorem panel_sets_and_shows_heating_witness:
  "screen (key_down_event (panel_sleep ex_heating_env) KEY_OK ex_heiz_panel) ! 2 = ((0, 1), chars ''Ts=21.0'' @ [0xdf] @ chars ''C'')"
proof -
  have "block_type ex_heiz_panel = EDS_heiz_page_BLOCK_ID" "\<not> panel_reset ex_heiz_panel" "heiz_page_state (hzp ex_heiz_panel) = STATE_EDIT"
    and f: "fld 12 ex_heiz_panel = 67" and n: "naps ex_heiz_panel = 0"
    by (simp_all add: ex_heiz_panel_def block_type_def fld_def panel_globals_def)
  moreover have "heiz_edited_message 67 (hzp ex_heiz_panel) = Some [56, 67, 1, 80, 14, 16]"
    by (simp add: ex_heiz_panel_def heiz_edited_message_def Let_def) (simp add: hi8_def lo8_def)
  ultimately have "screen (key_down_event (panel_sleep ex_heating_env) KEY_OK ex_heiz_panel) ! 2 =
      ((0, 1), setting_line (heiz_page_subpage (hzp ex_heiz_panel)) (edited_setting (hzp ex_heiz_panel)))"
    using panel_sets_and_shows_heating [of ex_heiz_panel "[56, 67, 1, 80, 14, 16]" ex_heizung _ "\<lambda>_. False" ex_board ex_heating_env, OF _ _ _ _ _ refl _ _ refl]
    by (simp add: ex_heating_env_def ex_heizung_def Let_def numeral_2_eq_2)
  also have "\<dots> = ((0, 1), chars ''Ts=21.0'' @ [0xdf] @ chars ''C'')" by code_simp
  finally show ?thesis .
qed


section \<open>Where the page shows or sets something else\<close>

lemma heiz_details_lost:
  assumes pg: "block_type s = EDS_heiz_page_BLOCK_ID" "\<not> panel_reset s" and i: "hz_id (hz_config p) = i"
    and env: "env (naps s) = []"
      "env (Suc (naps s)) = heating_replies zm (panel_frame [HCAN_HES_HEIZUNG_TIST_REQUEST, i] s) p b"
  shows "get_heiz_details (panel_sleep env) i s = (True, s\<lparr>pn_board := details_asked i (pn_board s), naps := Suc (Suc (naps s)),
    hzp := (hzp s)\<lparr>heiz_details_heiz_id := 0, heiz_details_Tsoll := 0, heiz_details_expected := 0,
      heiz_details_Tist := measure_value p\<rparr>\<rparr>)"
proof -
  let ?f2 = "panel_frame [HCAN_HES_HEIZUNG_TIST_REQUEST, i] s"
  define h1 where "h1 = (hzp s)\<lparr>heiz_details_heiz_id := i, heiz_details_Tsoll := 0, heiz_details_expected := 1\<rparr>"
  define bd where "bd = send_prio HCAN_MULTICAST_CONTROL [HCAN_SRV_HES, HCAN_HES_HEIZUNG_DETAILS_REQUEST, i] HCAN_PRIO_HI (pn_board s)"
  define bd2 where "bd2 = send_prio HCAN_MULTICAST_CONTROL [HCAN_SRV_HES, HCAN_HES_HEIZUNG_TIST_REQUEST, i] HCAN_PRIO_HI bd"
  define s1 where "s1 = s\<lparr>pn_board := bd, hzp := h1\<rparr>"
  have sl1: "panel_sleep env 5 s1 = s1\<lparr>naps := Suc (naps s)\<rparr>" using env(1) pg(2) by (simp add: panel_sleep_def s1_def)
  define s2 where "s2 = s1\<lparr>naps := Suc (naps s), pn_board := bd2, hzp := h1\<lparr>heiz_details_expected := 2\<rparr>\<rparr>"
  have s2: "block_type s2 = 102" "\<not> panel_reset s2" "naps s2 = Suc (naps s)" "canix_selfaddr (pn_board s2) = canix_selfaddr (pn_board s)"
    "hzp s2 = h1\<lparr>heiz_details_expected := 2\<rparr>" "heiz_details_heiz_id h1 = i"
    using pg by (simp_all add: s2_def s1_def bd2_def bd_def h1_def)
  have "panel_sleep env 5 s2 = heiz_page_can_callback (node_reply [60, i, hi8 (measure_value p), lo8 (measure_value p)] ?f2 b)
      (s2\<lparr>naps := Suc (Suc (naps s))\<rparr>)"
    using sleep_reply [of env s2 "[60, i, hi8 (measure_value p), lo8 (measure_value p)]" ?f2 b 5] s2 env(2) heating_replies_tist [OF i, of zm s b]
    by (simp add: panel_frame_def)
  also have "\<dots> = s2\<lparr>naps := Suc (Suc (naps s)), hzp := h1\<lparr>heiz_details_expected := 0, heiz_details_Tist := measure_value p\<rparr>\<rparr>"
    using heiz_tist_reply [of i "s2\<lparr>naps := Suc (Suc (naps s))\<rparr>" "measure_value p" ?f2 b] s2 by simp
  finally have sl2: "panel_sleep env 5 s2 = s2\<lparr>naps := Suc (Suc (naps s)),
      hzp := h1\<lparr>heiz_details_expected := 0, heiz_details_Tist := measure_value p\<rparr>\<rparr>" .
  have c1: "hes_control [HCAN_HES_HEIZUNG_DETAILS_REQUEST, i] (s\<lparr>hzp := (hzp s)\<lparr>heiz_details_heiz_id := i, heiz_details_Tsoll := 0\<rparr>\<rparr>)
      = s\<lparr>pn_board := bd, hzp := (hzp s)\<lparr>heiz_details_heiz_id := i, heiz_details_Tsoll := 0\<rparr>\<rparr>"
    using pg(1) by (simp add: hes_control_heiz bd_def)
  have c2: "hes_control [HCAN_HES_HEIZUNG_TIST_REQUEST, i] (s1\<lparr>naps := Suc (naps s)\<rparr>) = s1\<lparr>naps := Suc (naps s), pn_board := bd2\<rparr>"
    using pg(1) by (simp add: hes_control_heiz bd2_def s1_def)
  have h: "hzp s1 = h1" by (simp add: s1_def)
  show ?thesis
    unfolding get_heiz_details_def Let_def c1
    by (simp add: s1_def [symmetric] h1_def [symmetric] sl1 c2 h s2_def [symmetric] sl2)
      (simp add: s2_def s1_def details_asked_def bd2_def bd_def h1_def)
qed

lemma heiz_page_shown_state:
  assumes pg: "block_type s = EDS_heiz_page_BLOCK_ID" "\<not> panel_reset s" and i: "hz_id (hz_config p) = fld 12 s"
    and st: "heiz_page_state (hzp s) = STATE_VIEW"
    and env: "env (naps s) = heating_replies zm (panel_frame [HCAN_HES_HEIZUNG_DETAILS_REQUEST, fld 12 s] s) p b"
      "env (Suc (naps s)) = heating_replies zm (panel_frame [HCAN_HES_HEIZUNG_TIST_REQUEST, fld 12 s] s) p b"
  shows "\<exists>sc. heiz_page_print_page (panel_sleep env) s = s\<lparr>pn_board := details_asked (fld 12 s) (pn_board s), naps := Suc (Suc (naps s)),
    hzp := (heiz_page_details (HCAN_SRV_HES # details_data zm p)
           ((hzp s)\<lparr>heiz_details_heiz_id := fld 12 s, heiz_details_Tsoll := 0, heiz_details_expected := 1\<rparr>))
        \<lparr>heiz_details_expected := 0, heiz_details_Tist := measure_value p, heiz_details_heiz_id := 0\<rparr>, screen := sc\<rparr>"
proof -
  define s0 where "s0 = lcd_clrscr s"
  have s0: "block_type s0 = 102" "\<not> panel_reset s0" "naps s0 = naps s" "hzp s0 = hzp s" "fld 12 s0 = fld 12 s"
    "panel_frame c s0 = panel_frame c s" "pn_board s0 = pn_board s" for c
    using pg by (simp_all add: s0_def lcd_clrscr_def panel_frame_def)
  note ex = heiz_details_exchange [OF s0(1,2) i, of env zm b, unfolded s0, OF env]
  show ?thesis
    by (simp add: heiz_page_print_page_def Let_def s0_def [symmetric] s0 st ex lcd_puts_def)
      (simp add: s0_def lcd_clrscr_def, intro conjI impI exI, rule refl, rule refl)
qed

lemma lost_line:
  assumes "h = heiz_page_details (HCAN_SRV_HES # details_data zm p) h0"
    "sub = 0 \<or> sub \<in> {1, 2} \<and> (mode p = MODE_MANUAL \<or> mode p = MODE_THERMOSTAT)"
  shows "heiz_page_line sub (heiz_details_mode h) (heiz_details_rate h) 0 (heiz_details_dauer h) buf =
    (case heating_setting p of (m, r, T, d) \<Rightarrow> heiz_page_line sub m r 0 d [])"
  using details_of_heating [OF assms(1)] assms(2)
  by (cases "mode p") (auto simp: heating_setting_def heiz_page_line_def)

lemma lost_details_screen:
  assumes "block_type s = EDS_heiz_page_BLOCK_ID" "\<not> panel_reset s" "heiz_page_state (hzp s) = STATE_VIEW"
    and "heiz_page_subpage (hzp s) \<le> 2" "hz_id (hz_config p) = fld 12 s" "env (naps s) = []"
    and "env (Suc (naps s)) = heating_replies zm (panel_frame [HCAN_HES_HEIZUNG_TIST_REQUEST, fld 12 s] s) p b"
  shows "fst (get_heiz_details (panel_sleep env) (fld 12 s) s) \<and>
    screen (heiz_page_print_page (panel_sleep env) s) =
      [((0, 0), snprintf 31 (fmt_s 6 (cstr 4 s))), ((6, 0), snprintf 31 (chars '' Ti='' @ fmt_temp (measure_value p))),
       ((0, 1), snprintf 31 (heiz_page_line (heiz_page_subpage (hzp s)) (heiz_details_mode (hzp s)) (heiz_details_rate (hzp s)) 0
          (heiz_details_dauer (hzp s)) (snprintf 31 (chars '' Ti='' @ fmt_temp (measure_value p)))))]"
proof -
  have s0: "block_type (lcd_clrscr s) = 102" "\<not> panel_reset (lcd_clrscr s)" "naps (lcd_clrscr s) = naps s" "hzp (lcd_clrscr s) = hzp s"
    "fld 12 (lcd_clrscr s) = fld 12 s" "panel_frame c (lcd_clrscr s) = panel_frame c s" for c
    using assms by (simp_all add: lcd_clrscr_def panel_frame_def)
  note ex = heiz_details_lost [OF s0(1,2) assms(5), of env zm b, unfolded s0, OF assms(6,7)]
  show ?thesis
    using heiz_details_lost [where env = env, OF assms(1,2,5,6,7)] assms(3,4) ex
    by (simp add: heiz_page_print_page_def Let_def s0 lcd_puts_def) (simp add: lcd_clrscr_def)
qed

lemma print_heiz_page:
  "block_type s = EDS_heiz_page_BLOCK_ID \<Longrightarrow> print_page slp s = heiz_page_print_page slp (lcd_clrscr s)"
  by (simp add: print_page_def Let_def block_type_def lcd_clrscr_def)

lemma pn_log_keeps [simp]:
  "hzp (pn_log q f as s) = hzp s" "naps (pn_log q f as s) = naps s" "panel_reset (pn_log q f as s) = panel_reset s"
  "sent (pn_board (pn_log q f as s)) = sent (pn_board s)" "canix_selfaddr (pn_board (pn_log q f as s)) = canix_selfaddr (pn_board s)"
  "active_page (pn_log q f as s) = active_page s"
  by (simp_all add: pn_log_def canix_syslog_P_def canix_selfaddr_def)

lemma load_error_page_keeps [simp]:
  "hzp (load_error_page c s) = hzp s" "naps (load_error_page c s) = naps s" "panel_reset (load_error_page c s) = panel_reset s"
  "pn_board (load_error_page c s) = pn_board s"
  by (simp_all add: load_error_page_def)

definition page_free :: "panel \<Rightarrow> heiz_page \<times> nat \<times> bool \<times> (canix_frame \<times> u8) list \<times> u16" where
  "page_free s = (hzp s, naps s, panel_reset s, sent (pn_board s), canix_selfaddr (pn_board s))"

lemma page_free_simps [simp]: "page_free (pn_log q f as s) = page_free s" "page_free (load_error_page c s) = page_free s"
  "page_free (s\<lparr>active_page := a\<rparr>) = page_free s"
  by (simp_all add: page_free_def)

lemma load_page_loop_keeps: "page_free (load_page_loop its pg s) = page_free s"
  by (induction its arbitrary: s) (simp_all add: Let_def)

lemma load_page_keeps: "page_free (load_page pg s) = page_free s"
  by (simp add: load_page_def Let_def load_page_loop_keeps)

text \<open>Logging does not change which block is found.\<close>

lemma syslog_blocks [simp]:
  "EDS_BLOCK_TYPE p (b\<lparr>syslog := l\<rparr>) = EDS_BLOCK_TYPE p b" "EDS_BLOCK_SIZE p (b\<lparr>syslog := l\<rparr>) = EDS_BLOCK_SIZE p b"
  "eds_next_block p (b\<lparr>syslog := l\<rparr>) = eds_next_block p b" "eeprom_read_block p n (b\<lparr>syslog := l\<rparr>) = eeprom_read_block p n b"
  by (simp_all add: EDS_BLOCK_TYPE_def EDS_BLOCK_SIZE_def eds_next_block_def eeprom_read_block_def eeprom_read_byte_def)

lemma syslog_find [simp]: "eds_find_from P p (b\<lparr>syslog := l\<rparr>) = eds_find_from P p b"
  by (induction P p b rule: eds_find_from.induct) (subst (1 2) eds_find_from.simps, simp add: Let_def)

lemma syslog_each [simp]: "eds_each P p (b\<lparr>syslog := l\<rparr>) = eds_each P p b"
  by (induction P p b rule: eds_each.induct) (subst (1 2) eds_each.simps, simp add: Let_def)

lemma syslog_foreach [simp]: "EDS_foreach_block_between x y (b\<lparr>syslog := l\<rparr>) = EDS_foreach_block_between x y b"
  by (simp add: EDS_foreach_block_between_def eds_find_next_block_between_def Let_def)

lemma pn_log_board: "\<exists>l. pn_board (pn_log q f as s) = (pn_board s)\<lparr>syslog := l\<rparr>"
  by (cases "pn_board s") (simp add: pn_log_def canix_syslog_P_def)

definition same_page :: "panel \<Rightarrow> panel \<Rightarrow> bool" where
  "same_page t s \<longleftrightarrow> active_page t = active_page s \<and> (\<exists>l. pn_board t = (pn_board s)\<lparr>syslog := l\<rparr>)"

lemma same_page_log: "same_page t s \<Longrightarrow> same_page (pn_log q f as t) (pn_log q f as s)"
  by (auto simp: same_page_def pn_log_def canix_syslog_P_def)

lemma same_page_error: "same_page t s \<Longrightarrow> same_page (load_error_page c t) (load_error_page c s)"
  by (auto simp: same_page_def load_error_page_def)

lemma load_page_loop_log:
  "same_page t s \<Longrightarrow> active_page (load_page_loop its pg t) = active_page (load_page_loop its pg s)"
proof (induction its arbitrary: s t)
  case Nil
  then show ?case using same_page_error [OF same_page_log] by (simp add: same_page_def load_error_page_def)
next
  case (Cons it its)
  have e: "EDS_BLOCK_SIZE it (pn_board t) = EDS_BLOCK_SIZE it (pn_board s)" "active_page t = active_page s"
    "eeprom_read_byte (Suc (Suc it)) (pn_board t) = eeprom_read_byte (Suc (Suc it)) (pn_board s)"
    "eeprom_read_block it n (pn_board t) = eeprom_read_block it n (pn_board s)" for n
    using Cons.prems by (auto simp: same_page_def eeprom_read_byte_def)
  show ?case
    using Cons.IH [OF Cons.prems] Cons.IH [OF same_page_error [OF same_page_log [OF Cons.prems]]] by (simp add: e Let_def)
qed

lemma load_page_log: "active_page (load_page pg (pn_log q f as s)) = active_page (load_page pg s)"
proof -
  have s: "same_page (pn_log q f as s) s" using pn_log_board [of q f as s] by (simp add: same_page_def)
  obtain l where l: "pn_board (pn_log q f as s) = (pn_board s)\<lparr>syslog := l\<rparr>" using pn_log_board by blast
  obtain l' where l': "pn_board (pn_log SYSLOG_PRIO_DEBUG ''load page %d'' [uint pg] (pn_log q f as s)) = (pn_board (pn_log q f as s))\<lparr>syslog := l'\<rparr>"
    using pn_log_board by blast
  obtain m where m: "pn_board (pn_log SYSLOG_PRIO_DEBUG ''load page %d'' [uint pg] s) = (pn_board s)\<lparr>syslog := m\<rparr>"
    using pn_log_board by blast
  show ?thesis
    using load_page_loop_log [OF same_page_log [OF s]] by (simp add: load_page_def Let_def l l' m)
qed

text \<open>C19: A lost answer to the question for the settings is not noticed: the second question overwrites the record of
  the first, so that the answer with the measured temperature alone counts as complete. After the page of a heating \<open>q\<close>
  has shown its settings, the page of another heating \<open>p\<close> whose answer to the first question is lost (no other frame
  comes in while the panel waits) shows the measured temperature of \<open>p\<close> with the mode, the rate and the time of \<open>q\<close>, and a
  set temperature of 0. The sub-page is the first one, or \<open>q\<close> has the settings the other two show.\<close>

theorem heiz_lost_details_unnoticed:
  assumes "block_type s = EDS_heiz_page_BLOCK_ID" "\<not> panel_reset s" "heiz_page_state (hzp s) = STATE_VIEW"
    and sub: "sub = heiz_page_subpage (hzp s)" "sub = 0 \<or> sub \<in> {1, 2} \<and> (mode q = MODE_MANUAL \<or> mode q = MODE_THERMOSTAT)"
    and "hz_id (hz_config q) = fld 12 s"
    and "env (naps s) = heating_replies zm (panel_frame [HCAN_HES_HEIZUNG_DETAILS_REQUEST, fld 12 s] s) q b"
    and "env (naps s + 1) = heating_replies zm (panel_frame [HCAN_HES_HEIZUNG_TIST_REQUEST, fld 12 s] s) q b"
    and s1: "s1 = heiz_page_print_page (panel_sleep env) s"
    and "block_type (load_page pg s1) = EDS_heiz_page_BLOCK_ID" and t: "t = goto_page (panel_sleep env) pg s1"
    and "hz_id (hz_config p) = fld 12 (load_page pg s1)"
    and "env (naps s + 2) = []"
    and "env (naps s + 3) = heating_replies zm (panel_frame [HCAN_HES_HEIZUNG_TIST_REQUEST, fld 12 (load_page pg s1)] s) p bp"
  shows "screen s1 ! 2 = ((0, 1), setting_line sub (heating_setting q)) \<and>
    screen t = [((0, 0), snprintf 31 (fmt_s 6 (cstr 4 (load_page pg s1)))), ((6, 0), snprintf 31 (chars '' Ti='' @ fmt_temp (measure_value p))),
      ((0, 1), setting_line sub (case heating_setting q of (m, r, T, d) \<Rightarrow> (m, r, 0, d)))]"
proof -
  obtain sc where sc: "s1 = s\<lparr>pn_board := details_asked (fld 12 s) (pn_board s), naps := Suc (Suc (naps s)),
    hzp := (heiz_page_details (HCAN_SRV_HES # details_data zm q)
           ((hzp s)\<lparr>heiz_details_heiz_id := fld 12 s, heiz_details_Tsoll := 0, heiz_details_expected := 1\<rparr>))
        \<lparr>heiz_details_expected := 0, heiz_details_Tist := measure_value q, heiz_details_heiz_id := 0\<rparr>, screen := sc\<rparr>"
    using heiz_page_shown_state [of s q env zm b] assms(1-3,6,7,8) s1 by auto
  define u where "u = lcd_clrscr (load_page pg (pn_log SYSLOG_PRIO_DEBUG ''goto page %d'' [uint pg] s1))"
  have ap: "active_page u = active_page (load_page pg s1)" "page_free u = page_free s1"
    by (simp_all add: u_def lcd_clrscr_def load_page_log load_page_keeps page_free_def [of "_\<lparr>screen := _\<rparr>"])
      (simp add: page_free_def load_page_keeps [unfolded page_free_def])
  have h: "heiz_page_state (hzp s1) = STATE_VIEW" "heiz_page_subpage (hzp s1) = sub" "naps s1 = Suc (Suc (naps s))" "\<not> panel_reset s1"
    using assms(2,3) sub(1) by (simp_all add: sc)
  have u: "block_type u = 102" "fld 12 u = fld 12 (load_page pg s1)" "cstr 4 u = cstr 4 (load_page pg s1)" "hzp u = hzp s1"
    "naps u = Suc (Suc (naps s))" "\<not> panel_reset u" "panel_frame c u = panel_frame c s" for c
    using ap assms(10) h by (simp_all add: block_type_def fld_def cstr_def page_free_def panel_frame_def)
      (simp add: sc details_asked_def)
  have t': "t = heiz_page_print_page (panel_sleep env) u"
    using u(1) by (simp add: t goto_page_def print_heiz_page u_def lcd_clrscr_def block_type_def)
  have "sub \<le> 2" using sub(2) by auto
  then have "screen t = [((0, 0), snprintf 31 (fmt_s 6 (cstr 4 u))), ((6, 0), snprintf 31 (chars '' Ti='' @ fmt_temp (measure_value p))),
       ((0, 1), snprintf 31 (heiz_page_line sub (heiz_details_mode (hzp s1)) (heiz_details_rate (hzp s1)) 0
          (heiz_details_dauer (hzp s1)) (snprintf 31 (chars '' Ti='' @ fmt_temp (measure_value p)))))]"
    using lost_details_screen [of u p env zm bp] u h assms(12-14) by (simp add: t' numeral_2_eq_2 numeral_3_eq_3)
  moreover have "heiz_page_line sub (heiz_details_mode (hzp s1)) (heiz_details_rate (hzp s1)) 0 (heiz_details_dauer (hzp s1)) buf =
      (case heating_setting q of (m, r, T, d) \<Rightarrow> heiz_page_line sub m r 0 d [])" for buf
    using lost_line [OF refl sub(2)] by (simp add: sc)
  moreover have "screen s1 ! 2 = ((0, 1), setting_line sub (heating_setting q))"
    using heiz_page_shows(1) [of s q sub env zm b] assms(1-8) by (simp add: s1 numeral_2_eq_2)
  ultimately show ?thesis using u(3) by (simp add: setting_line_def case_prod_unfold)
qed

lemma print_while_editing:
  assumes "block_type s = EDS_heiz_page_BLOCK_ID" "heiz_page_state (hzp s) = STATE_EDIT"
  shows "\<exists>sc. print_page slp s = s\<lparr>screen := sc\<rparr>"
  using assms
  by (simp add: print_page_def Let_def lcd_clrscr_def heiz_page_print_page_def lcd_puts_def)
    (rule conjI; rule impI; rule exI; rule refl)

lemma goto_while_editing:
  assumes "block_type (load_page pg s) = EDS_heiz_page_BLOCK_ID" "heiz_page_state (hzp s) = STATE_EDIT"
  shows "active_page (goto_page slp pg s) = active_page (load_page pg s)" "page_free (goto_page slp pg s) = page_free s"
proof -
  define u where "u = load_page pg (pn_log SYSLOG_PRIO_DEBUG ''goto page %d'' [uint pg] s)"
  have u: "page_free u = page_free s" "active_page u = active_page (load_page pg s)"
    by (simp_all add: u_def load_page_keeps load_page_log)
  then have "block_type u = 102" "hzp u = hzp s" using assms(1) by (simp_all add: page_free_def block_type_def)
  then obtain sc where "print_page slp u = u\<lparr>screen := sc\<rparr>" using print_while_editing assms(2) by metis
  then have t: "goto_page slp pg s = u\<lparr>screen := sc\<rparr>" by (simp add: goto_page_def u_def)
  show "active_page (goto_page slp pg s) = active_page (load_page pg s)" "page_free (goto_page slp pg s) = page_free s"
    using u by (simp_all add: t page_free_def)
qed

text \<open>Another heating page can get the values of this one: the page that is left while it is being edited, by
  a shortcut key or when the display goes back to its first page, stays in the editing state, since this state is
  shared by all heating pages. The OK key on the other page then sends what was edited here to the heating there.\<close>

theorem heiz_edit_leaks:
  assumes "heiz_page_state (hzp s) = STATE_EDIT" "\<not> panel_reset s" "t = goto_page (panel_sleep env) pg s"
    and "block_type (load_page pg s) = EDS_heiz_page_BLOCK_ID"
    and "heiz_edited_message (fld 12 t) (hzp s) = Some d" "hz_id (hz_config p) = fld 12 t"
    and "p' = fst (heizung_can_callback zm (panel_frame d s) p b)"
    and "env (naps s) = heating_replies zm (panel_frame [HCAN_HES_HEIZUNG_DETAILS_REQUEST, fld 12 t] s) p' b"
    and "env (Suc (naps s)) = heating_replies zm (panel_frame [HCAN_HES_HEIZUNG_TIST_REQUEST, fld 12 t] s) p' b"
  shows "frames_sent s (key_down_event (panel_sleep env) KEY_OK t) ! 0 = panel_frame d s \<and>
    heating_setting p' = edited_setting (hzp s)"
proof -
  have pf: "page_free t = page_free s" "block_type t = 102"
    using goto_while_editing [OF assms(4,1)] assms(3,4) by (simp_all add: block_type_def)
  then have ht: "hzp t = hzp s" "panel_reset t = panel_reset s" "naps t = naps s" "sent (pn_board t) = sent (pn_board s)"
    "panel_frame c t = panel_frame c s" for c by (simp_all add: page_free_def panel_frame_def)
  have "frames_sent t (key_down_event (panel_sleep env) KEY_OK t) = [panel_frame d s, panel_frame [HCAN_HES_HEIZUNG_DETAILS_REQUEST, fld 12 t] s,
        panel_frame [HCAN_HES_HEIZUNG_TIST_REQUEST, fld 12 t] s] \<and> heating_setting p' = edited_setting (hzp s)"
    using heiz_ok_exchange [of t d p p' zm b env, OF _ _ _ _ assms(6) _ _ _ refl] ht pf(2) assms(1,2,5,7-9) by simp
  then show ?thesis using ht(4) by (simp add: frames_sent_def)
qed

text \<open>The page of heating 68 is loaded while the one of heating 67 is edited.\<close>

definition ex_other_eeprom :: "nat \<Rightarrow> u8" where
  "ex_other_eeprom a = (if a = 34 then EDS_heiz_page_BLOCK_ID else if a = 35 then 40 else if a = 36 then 3 else if a = 48 then 68
     else if a < 76 then 0 else 255)"

definition ex_other_page :: panel where
  "ex_other_page = ex_heiz_panel\<lparr>pn_board := ex_board\<lparr>eeprom := ex_other_eeprom\<rparr>\<rparr>"

lemma ex_other_blocks:
  "eeprom b = ex_other_eeprom \<Longrightarrow> EDS_foreach_block_between EDS_PAGE_ID_START EDS_PAGE_ID_END b = [34]"
  by (simp add: EDS_foreach_block_between_def eds_find_next_block_between_def eds_each.simps eds_find_from.simps eds_next_block_def
      EDS_BLOCK_TYPE_def EDS_BLOCK_SIZE_def eeprom_read_byte_def ex_other_eeprom_def)

lemma load_page_hit:
  assumes "EDS_foreach_block_between EDS_PAGE_ID_START EDS_PAGE_ID_END (pn_board s) = it # its"
    "eeprom_read_byte (it + 2) (pn_board s) = pg" "n = unat (EDS_BLOCK_SIZE it (pn_board s)) + 2" "n \<le> LCDPAGE_SIZE"
  shows "active_page (load_page pg s) = eeprom_read_block it n (pn_board s) @ drop n (active_page s)"
proof -
  obtain l where l: "pn_board (pn_log SYSLOG_PRIO_DEBUG ''load page %d'' [uint pg] s) = (pn_board s)\<lparr>syslog := l\<rparr>"
    using pn_log_board by blast
  have "eeprom_read_byte (Suc (Suc it)) ((pn_board s)\<lparr>syslog := l\<rparr>) = pg" using assms(2) by (simp add: eeprom_read_byte_def)
  then show ?thesis using assms(1,3,4) by (simp add: load_page_def l Let_def)
qed

lemma ex_other_loaded:
  assumes "eeprom (pn_board s) = ex_other_eeprom"
  shows "block_type (load_page 3 s) = 102" "fld 12 (load_page 3 s) = 68"
  using load_page_hit [of s 34 "[]" 3 42] ex_other_blocks [OF assms] assms
  by (simp_all add: ex_other_eeprom_def eeprom_read_byte_def EDS_BLOCK_SIZE_def block_type_def fld_def
      eeprom_read_block_def nth_append)

definition ex_leak_env :: "nat \<Rightarrow> panel_event list" where
  "ex_leak_env n = heating_replies (\<lambda>_. False)
     (panel_frame [if n = 0 then HCAN_HES_HEIZUNG_DETAILS_REQUEST else HCAN_HES_HEIZUNG_TIST_REQUEST, 68] ex_other_page)
     (fst (heizung_can_callback (\<lambda>_. False) (panel_frame [56, 68, 1, 80, 14, 16] ex_other_page)
        (ex_heizung\<lparr>hz_config := (hz_config ex_heizung)\<lparr>hz_id := 68\<rparr>\<rparr>) ex_board)) ex_board"

theorem heiz_edit_leaks_witness:
  "frames_sent ex_other_page (key_down_event (panel_sleep ex_leak_env) KEY_OK (goto_page (panel_sleep ex_leak_env) 3 ex_other_page)) ! 0 =
     panel_frame [56, 68, 1, 80, 14, 16] ex_other_page"
proof -
  define t where "t = goto_page (panel_sleep ex_leak_env) 3 ex_other_page"
  have e: "heiz_page_state (hzp ex_other_page) = STATE_EDIT" "\<not> panel_reset ex_other_page" "naps ex_other_page = 0"
    by (simp_all add: ex_other_page_def ex_heiz_panel_def panel_globals_def)
  have ee: "eeprom (pn_board ex_other_page) = ex_other_eeprom" by (simp add: ex_other_page_def)
  have "fld 12 t = 68"
    using goto_while_editing(1) [OF ex_other_loaded(1) [OF ee] e(1), of "panel_sleep ex_leak_env"] ex_other_loaded(2) [OF ee] by (simp add: t_def fld_def)
  moreover have "heiz_edited_message 68 (hzp ex_other_page) = Some [56, 68, 1, 80, 14, 16]"
    by (simp add: ex_other_page_def ex_heiz_panel_def heiz_edited_message_def Let_def) (simp add: hi8_def lo8_def)
  ultimately show ?thesis
    using heiz_edit_leaks [of ex_other_page t ex_leak_env 3 "[56, 68, 1, 80, 14, 16]"
        "ex_heizung\<lparr>hz_config := (hz_config ex_heizung)\<lparr>hz_id := 68\<rparr>\<rparr>" _ "\<lambda>_. False" ex_board, OF e(1,2) t_def ex_other_loaded(1) [OF ee] _ _ refl]
    by (simp add: t_def [symmetric] e ex_leak_env_def)
qed

text \<open>The page of heating 67 in view, then the one of heating 68, whose first answer is lost.\<close>

definition ex_view_page :: panel where
  "ex_view_page = ex_other_page\<lparr>hzp := (hzp ex_other_page)\<lparr>heiz_page_state := STATE_VIEW\<rparr>\<rparr>"

definition ex_heizung_68 :: device_data_heizung where
  "ex_heizung_68 = ex_heizung\<lparr>hz_config := (hz_config ex_heizung)\<lparr>hz_id := 68\<rparr>, mode := MODE_OFF\<rparr>"

definition ex_lost_env :: "nat \<Rightarrow> panel_event list" where
  "ex_lost_env n =
     (if n = 0 then heating_replies (\<lambda>_. False) (panel_frame [HCAN_HES_HEIZUNG_DETAILS_REQUEST, 67] ex_view_page) ex_heizung ex_board
      else if n = 1 then heating_replies (\<lambda>_. False) (panel_frame [HCAN_HES_HEIZUNG_TIST_REQUEST, 67] ex_view_page) ex_heizung ex_board
      else if n = 2 then []
      else heating_replies (\<lambda>_. False) (panel_frame [HCAN_HES_HEIZUNG_TIST_REQUEST, 68] ex_view_page) ex_heizung_68 ex_board)"

theorem heiz_lost_details_unnoticed_witness:
  "mode ex_heizung_68 = MODE_OFF \<and>
   (let s1 = heiz_page_print_page (panel_sleep ex_lost_env) ex_view_page
    in screen (goto_page (panel_sleep ex_lost_env) 3 s1) ! 2 = ((0, 1), chars ''Ts=00.0'' @ [0xdf] @ chars ''C''))"
proof -
  define s1 where "s1 = heiz_page_print_page (panel_sleep ex_lost_env) ex_view_page"
  have pre: "block_type ex_view_page = EDS_heiz_page_BLOCK_ID" "\<not> panel_reset ex_view_page" "heiz_page_state (hzp ex_view_page) = STATE_VIEW"
    "heiz_page_subpage (hzp ex_view_page) = 1" "mode ex_heizung = MODE_THERMOSTAT" "hz_id (hz_config ex_heizung) = 67"
    "fld 12 ex_view_page = 67" "naps ex_view_page = 0" "eeprom (pn_board ex_view_page) = ex_other_eeprom"
    by (simp_all add: ex_view_page_def ex_other_page_def ex_heiz_panel_def block_type_def fld_def panel_globals_def ex_heizung_def)
  have "pn_board s1 = details_asked 67 (pn_board ex_view_page)"
    using heiz_page_shows(2) [of ex_view_page ex_heizung 1 ex_lost_env "\<lambda>_. False" ex_board] pre
    by (simp add: s1_def ex_lost_env_def)
  then have l: "block_type (load_page 3 s1) = 102" "fld 12 (load_page 3 s1) = 68"
    using ex_other_loaded [of s1] pre by (simp_all add: details_asked_def send_prio_def)
  have "screen (goto_page (panel_sleep ex_lost_env) 3 s1) ! 2 =
      ((0, 1), setting_line 1 (case heating_setting ex_heizung of (m, r, T, d) \<Rightarrow> (m, r, 0, d)))"
    using heiz_lost_details_unnoticed [of ex_view_page 1 ex_heizung ex_lost_env "\<lambda>_. False" ex_board s1 3 _ ex_heizung_68 ex_board,
        OF pre(1-3) _ _ _ _ _ s1_def _ refl] pre l
    by (simp add: ex_lost_env_def ex_heizung_68_def numeral_2_eq_2 numeral_3_eq_3)
  also have "\<dots> = ((0, 1), chars ''Ts=00.0'' @ [0xdf] @ chars ''C'')" by code_simp
  finally show ?thesis by (simp add: s1_def Let_def) (simp add: ex_heizung_68_def)
qed

end
