(* ===== verification/Panel_Light.thy ===== *)
theory Panel_Light
  imports Panel_Heating Lichtzone
begin

text \<open>
  The page of a switched outlet or light together with the light zone it asks for its timer: what the OK key does
  while the light is on.
\<close>

text \<open>A sleep in which nothing happens, and what the functions that wait keep then.\<close>

lemma quiet_sleep: "(\<And>n. env n = []) \<Longrightarrow> panel_sleep env k s = (if panel_reset s then s else s\<lparr>naps := Suc (naps s)\<rparr>)"
  by (simp add: panel_sleep_def)

definition same_frames :: "panel \<Rightarrow> panel \<Rightarrow> bool" where
  "same_frames s t \<longleftrightarrow> pn_board t = pn_board s \<and> active_page t = active_page s \<and> panel_reset t = panel_reset s"

lemma blink_same_frames:
  assumes "\<And>n. env n = []"
  shows "same_frames s (lcdctrl_blink (panel_sleep env) s)"
proof -
  have "same_frames s (fold (\<lambda>j. fold (\<lambda>i s. panel_sleep env 1 (s\<lparr>OCR1A := of_nat (i * 10), OCR1B := 10\<rparr>)) [0..<10]) [0..<3 :: nat] s)"
    by (rule fold_keeps, rule fold_keeps) (simp_all add: quiet_sleep assms same_frames_def)
  then show ?thesis
    by (simp add: lcdctrl_blink_def lcdctrl_set_display_light_def lcdctrl_set_contrast_def lcdctrl_set_backlight_def same_frames_def)
qed

lemma hes_control_power:
  assumes "block_type s = EDS_powerport_page_BLOCK_ID" "d ! 0 \<notin> {HCAN_HES_POWER_GROUP_STATE_REPLAY, HCAN_HES_POWER_GROUP_TIMER_REPLAY}"
  shows "hes_control d s = s\<lparr>pn_board := send_prio HCAN_MULTICAST_CONTROL (HCAN_SRV_HES # d) HCAN_PRIO_HI (pn_board s)\<rparr>"
  using assms by (simp add: hes_control_def hes_send_def panel_hauselektrik_callback_def lcdstatemachine_can_callback_def
      powerport_page_can_callback_def Let_def)

definition sends :: "u8 list list \<Rightarrow> panel \<Rightarrow> panel \<Rightarrow> bool" where
  "sends ds s t \<longleftrightarrow> sent (pn_board t) = sent (pn_board s) @ map (\<lambda>d. (panel_frame d s, HCAN_PRIO_HI)) ds \<and>
     canix_selfaddr (pn_board t) = canix_selfaddr (pn_board s) \<and> active_page t = active_page s \<and> panel_reset t = panel_reset s"

lemma sends_nil: "same_frames s t \<Longrightarrow> sends [] s t"
  by (simp add: sends_def same_frames_def)

lemma sends_trans: "sends ds s t \<Longrightarrow> sends es t u \<Longrightarrow> sends (ds @ es) s u"
  by (simp add: sends_def panel_frame_def)

lemma sends_fields: "sends ds s t \<Longrightarrow> block_type t = block_type s" "sends ds s t \<Longrightarrow> fld i t = fld i s"
  "sends ds s t \<Longrightarrow> frames_sent s t = map (\<lambda>d. panel_frame d s) ds"
  by (simp_all add: sends_def block_type_def fld_def frames_sent_def)

lemma sends_control:
  assumes "block_type s = EDS_powerport_page_BLOCK_ID" "d ! 0 \<notin> {HCAN_HES_POWER_GROUP_STATE_REPLAY, HCAN_HES_POWER_GROUP_TIMER_REPLAY}"
  shows "sends [d] s (hes_control d s)"
  unfolding hes_control_power [OF assms] by (simp add: sends_def panel_frame_def) (simp add: send_prio_def canix_selfaddr_def)

lemma sends_quiet: "(\<And>n. env n = []) \<Longrightarrow> sends [] s (panel_sleep env k s)"
  by (simp add: quiet_sleep sends_def)

lemma sends_print:
  assumes "\<And>n. env n = []" "block_type s = EDS_powerport_page_BLOCK_ID"
  shows "sends [[HCAN_HES_POWER_GROUP_STATE_QUERY, fld 5 s], [HCAN_HES_POWER_GROUP_TIMER_QUERY, fld 5 s]] s
    (powerport_page_print_page (panel_sleep env) s)"
proof -
  let ?q = "\<lambda>c. [c, fld 5 s]"
  define s1 where "s1 = (let s = lcd_puts 0 0 (snprintf 39 (cstr 6 s)) (lcd_clrscr s); s = lcd_puts 0 1 (snprintf 39 (cstr 23 s)) s
    in s\<lparr>ppp := \<lparr>powerport_page_state = -1, powerport_page_timer = -1\<rparr>\<rparr>)"
  define s2 where "s2 = hes_control (?q HCAN_HES_POWER_GROUP_STATE_QUERY) s1"
  define s3 where "s3 = panel_sleep env 1 s2"
  define s4 where "s4 = hes_control (?q HCAN_HES_POWER_GROUP_TIMER_QUERY) s3"
  have s1: "sends [] s s1" by (simp add: s1_def sends_def lcd_puts_def lcd_clrscr_def Let_def)
  have s2: "sends [?q HCAN_HES_POWER_GROUP_STATE_QUERY] s s2"
    using sends_trans [OF s1 sends_control, of "?q HCAN_HES_POWER_GROUP_STATE_QUERY"] sends_fields(1) [OF s1] assms(2) by (simp add: s2_def)
  have s3: "sends [?q HCAN_HES_POWER_GROUP_STATE_QUERY] s s3"
    using sends_trans [OF s2 sends_quiet [of env s2 1]] assms(1) by (simp add: s3_def)
  have s4: "sends [?q HCAN_HES_POWER_GROUP_STATE_QUERY, ?q HCAN_HES_POWER_GROUP_TIMER_QUERY] s s4"
    using sends_trans [OF s3 sends_control, of "?q HCAN_HES_POWER_GROUP_TIMER_QUERY"] sends_fields(1) [OF s3] assms(2) by (simp add: s4_def)
  have c: "cstr i (lcd_clrscr s) = cstr i s" "fld i (lcd_clrscr s) = fld i s" for i by (simp_all add: lcd_clrscr_def)
  have d: "cstr i (lcd_puts x y b t) = cstr i t" "fld i (lcd_puts x y b t) = fld i t" for i x y b t by (simp_all add: lcd_puts_def)
  have e: "fld 5 s1 = fld 5 s" "fld 5 s3 = fld 5 s" using sends_fields(2) [OF s1] sends_fields(2) [OF s3] by simp_all
  have "powerport_page_print_page (panel_sleep env) s = s4"
    using e by (simp add: powerport_page_print_page_def Let_def s1_def [unfolded Let_def, symmetric] s2_def [symmetric] c d)
      (simp add: s4_def s3_def s2_def s1_def Let_def c d)
  with s4 show ?thesis by simp
qed


text \<open>The minutes the page keeps in 8 bits, rounded: they are positive only below 128.\<close>

lemma sint_u8_positive: "1 \<le> n \<Longrightarrow> n < 256 \<Longrightarrow> (0 < sint (of_int n :: u8)) = (n < 128)"
proof -
  assume n: "1 \<le> n" "n < 256"
  have t: "take_bit 8 n = n" using n by (simp add: take_bit_eq_mod)
  have b: "bit n 7 = (128 \<le> n)"
  proof
    assume "bit n 7"
    then show "128 \<le> n" using n by (cases "n < 128") (simp_all add: bit_iff_odd div_pos_pos_trivial)
  next
    assume "128 \<le> n"
    then have "n div 128 = 1" using n by presburger
    then show "bit n 7" by (simp add: bit_iff_odd)
  qed
  have "sint (of_int n :: u8) = n - 256 * of_bool (128 \<le> n)"
    by (simp add: signed_of_int signed_take_bit_eq_take_bit_minus t b)
  then show ?thesis using n by (cases "128 \<le> n") simp_all
qed

lemma sint_u8_sign: "(0 < sint (of_int n :: u8)) = (1 \<le> n mod 256 \<and> n mod 256 < 128)"
proof -
  have m: "(of_int n :: u8) = of_int (n mod 256)" by (rule word_uint_eqI) (simp add: uint_word_of_int)
  consider "n mod 256 = 0" | "1 \<le> n mod 256" "n mod 256 < 256" using pos_mod_bound [of 256 n] pos_mod_sign [of 256 n] by linarith
  then show ?thesis
  proof cases
    case 1
    then show ?thesis unfolding m by simp
  next
    case 2
    then show ?thesis unfolding m using sint_u8_positive by blast
  qed
qed

text \<open>The minutes the page counts, rounded.\<close>

definition minutes_left :: "u16 \<Rightarrow> int" where "minutes_left T = (uint T + 30) div 60"

lemma timer_minutes_sign:
  assumes "T < 32738"
  shows "(0 < sint (timer_minutes (hi8 T) (lo8 T))) = (1 \<le> minutes_left T mod 256 \<and> minutes_left T mod 256 < 128)"
proof -
  have T: "uint T < 32738" using assms by (simp add: word_less_def)
  have "uint (T + 30) = uint T + 30" using T by (simp add: uint_word_ariths)
  then have s: "sint (T + 30) = uint T + 30" using T by (simp add: sint_uint signed_take_bit_int_eq_self)
  have "sgn (uint T + 30) = 1" using uint_ge_0 [of T] by (simp add: sgn_1_pos add_nonneg_pos)
  then have "timer_minutes (hi8 T) (lo8 T) = of_int (minutes_left T)"
    by (simp add: timer_minutes_def s cdiv_def minutes_left_def)
  then show ?thesis by (simp add: sint_u8_sign)
qed

lemma ok_on_lit_outlet:
  assumes env: "\<And>n. env n = []" and pg: "block_type s = EDS_powerport_page_BLOCK_ID" and st: "powerport_page_state (ppp s) = 1"
  shows "sends [if 0 < sint (powerport_page_timer (ppp s)) then [HCAN_HES_POWER_GROUP_SET_TIMER, fld 5 s, 0, 0] else [HCAN_HES_POWER_GROUP_OFF, fld 5 s],
      [HCAN_HES_POWER_GROUP_STATE_QUERY, fld 5 s], [HCAN_HES_POWER_GROUP_TIMER_QUERY, fld 5 s]] s (key_down_event (panel_sleep env) KEY_OK s)"
proof -
  let ?c = "if 0 < sint (powerport_page_timer (ppp s)) then [HCAN_HES_POWER_GROUP_SET_TIMER, fld 5 s, 0, 0] else [HCAN_HES_POWER_GROUP_OFF, fld 5 s]"
  define s0 where "s0 = (lcdctrl_set_contrast LCD_CONTRAST_DEFAULT (lcdctrl_set_backlight LCD_BACKLIGHT_DEFAULT
      ((pn_log SYSLOG_PRIO_DEBUG ''key_down %x'' [int KEY_OK] s)\<lparr>lcd_led_countdown := 10\<rparr>)))\<lparr>lcd_screensafer_countdown := 300, keypress_time := 1\<rparr>"
  define s1 where "s1 = hes_control ?c s0"
  define s2 where "s2 = panel_sleep env 5 (lcdctrl_blink (panel_sleep env) s1)"
  have s0: "sends [] s s0" "ppp s0 = ppp s"
    by (simp_all add: s0_def sends_def lcdctrl_set_contrast_def lcdctrl_set_backlight_def pn_log_def canix_syslog_P_def canix_selfaddr_def)
  have "sends [?c] s s1"
    using sends_trans [OF s0(1) sends_control, of ?c] sends_fields(1) [OF s0(1)] pg by (simp add: s1_def)
  then have s2: "sends [?c] s s2"
    using sends_trans [OF sends_trans [OF _ sends_nil [OF blink_same_frames [of env s1]]] sends_quiet [of env _ 5]] env by (simp add: s2_def)
  have "sends [?c, [HCAN_HES_POWER_GROUP_STATE_QUERY, fld 5 s], [HCAN_HES_POWER_GROUP_TIMER_QUERY, fld 5 s]] s
      (powerport_page_print_page (panel_sleep env) s2)"
    using sends_trans [OF s2 sends_print [of env s2]] env sends_fields(1,2) [OF s2] pg by simp
  moreover have "key_down_event (panel_sleep env) KEY_OK s = powerport_page_print_page (panel_sleep env) s2"
    unfolding key_down_event_def Let_def s0_def [symmetric] s2_def s1_def
    using sends_fields(1,2) [OF s0(1)] pg st s0(2) by (simp add: powerport_page_handle_key_down_event_def Let_def)
  ultimately show ?thesis by simp
qed

text \<open>C20: What the OK key does on the page of a lit light depends on the minutes left, which the page takes
  from the answer of the light zone, rounds and cuts to a signed byte. When this byte is positive the key ends the
  timer and the light stays on; otherwise, below half a minute, from 128 to 256 minutes (a zone in its extended mode
  is lit for 240), and again with longer times that were set by a message, the key switches the light off. The zone
  has a time left of less than 32738 seconds, beyond which the sum of the page overflows, the group of the page is one
  of its groups and not 255, and no other frame comes in while the panel waits.\<close>

theorem ok_on_lit_light_zone:
  assumes "\<And>n. env n = []" "block_type s = EDS_powerport_page_BLOCK_ID" "powerport_page_state (ppp s) = 1" "\<not> panel_reset s"
    and "fld 5 s \<in> set (action_gruppen (lz_config p))" "fld 5 s \<noteq> 255" "lz_timer_counter p < 32738"
    and "g = fst (last (sent (snd (lichtzone_can_callback (panel_frame [HCAN_HES_POWER_GROUP_TIMER_QUERY, fld 5 s] s) p b))))"
    and "s' = key_down_event (panel_sleep env) KEY_OK (panel_hauselektrik_callback g s)"
    and "p' = fst (lichtzone_can_callback (hd (frames_sent s s')) p b)"
  shows "lz_timer_counter p' = 0 \<and> lz_state p' =
    (if minutes_left (lz_timer_counter p) mod 256 \<in> {1..127} then lz_state p else LICHTZONE_STATE_OFF)"
proof -
  let ?T = "lz_timer_counter p"
  let ?on = "1 \<le> minutes_left ?T mod 256 \<and> minutes_left ?T mod 256 < 128"
  have g: "g = \<lparr>fr_src = canix_selfaddr b, fr_dst = canix_selfaddr (pn_board s), fr_proto = HCAN_PROTO_SFP, fr_size = 5,
      fr_data = [HCAN_SRV_HES, HCAN_HES_POWER_GROUP_TIMER_REPLAY, fld 5 s, hi8 ?T, lo8 ?T]\<rparr>"
    using assms(5,8) by (simp add: lichtzone_can_callback_def panel_frame_def send_prio_def)
  define t where "t = panel_hauselektrik_callback g s"
  have z: "timer_minutes 0 0 = 0" by (simp add: timer_minutes_def word16_def cdiv_def)
  have t: "sends [] s t" "ppp t = (ppp s)\<lparr>powerport_page_timer := timer_minutes (hi8 ?T) (lo8 ?T)\<rparr>"
    using assms(2) z by (auto simp: t_def g panel_hauselektrik_callback_def lcdstatemachine_can_callback_def
        powerport_page_can_callback_def Let_def sends_def lcd_puts_def)
  have "hd (frames_sent s s') = panel_frame (if ?on then [HCAN_HES_POWER_GROUP_SET_TIMER, fld 5 s, 0, 0] else [HCAN_HES_POWER_GROUP_OFF, fld 5 s]) s"
    using sends_fields(3) [OF sends_trans [OF t(1) ok_on_lit_outlet [of env t]]] assms(1-3,9) sends_fields(1,2) [OF t(1)] t(2)
      timer_minutes_sign [OF assms(7)] by (simp add: t_def [symmetric])
  moreover have "?on = (minutes_left ?T mod 256 \<in> {1..127})" by auto
  ultimately show ?thesis using assms(5,6,10) by (simp add: lichtzone_can_callback_def panel_frame_def) (auto simp: word16_def)
qed


definition ex_light_panel :: panel where
  "ex_light_panel = (panel_globals ex_board)\<lparr>active_page := [105, 43, 2, 1, 0, 0, 0, 6] @ replicate 42 0,
     ppp := \<lparr>powerport_page_state = 1, powerport_page_timer = -1\<rparr>\<rparr>"

definition ex_lit_zone :: device_data_lichtzone where
  "ex_lit_zone = ex_lichtzone\<lparr>lz_config := (lz_config ex_lichtzone)\<lparr>action_gruppen := [6, 255]\<rparr>, lz_state := LICHTZONE_STATE_ON_EXT,
     lz_timer_counter := 14400\<rparr>"

theorem ok_on_lit_light_zone_witness:
  "(let g = fst (last (sent (snd (lichtzone_can_callback (panel_frame [HCAN_HES_POWER_GROUP_TIMER_QUERY, 6] ex_light_panel) ex_lit_zone ex_board))));
        s' = key_down_event (panel_sleep (\<lambda>_. [])) KEY_OK (panel_hauselektrik_callback g ex_light_panel)
    in lz_state (fst (lichtzone_can_callback (hd (frames_sent ex_light_panel s')) ex_lit_zone ex_board)) = LICHTZONE_STATE_OFF)"
proof -
  have "block_type ex_light_panel = EDS_powerport_page_BLOCK_ID" "powerport_page_state (ppp ex_light_panel) = 1" "\<not> panel_reset ex_light_panel"
    "fld 5 ex_light_panel = 6" by (simp_all add: ex_light_panel_def block_type_def fld_def panel_globals_def)
  then show ?thesis
    using ok_on_lit_light_zone [of "\<lambda>_. []" ex_light_panel ex_lit_zone _ ex_board, OF _ _ _ _ _ _ _ refl refl refl]
    by (simp add: Let_def) (simp add: ex_lit_zone_def minutes_left_def)
qed

end
