(* ===== verification/Data_Query.thy ===== *)
theory Data_Query
  imports Hcan_Prelude
begin

text \<open>
  The query language of the frame log (\<open>libhcandata/data_query.cc\<close>): expressions in reverse Polish notation over the
  fields of a frame, compiled to a code of 32 bit words and run on a stack for every frame of a log. A \<open>long\<close> has
  32 bits (the Makefiles build for i386). The stack is the list of the entries \<open>m_stack[1]\<close> to \<open>m_stack[m_stack_ptr]\<close>, the last one first.
\<close>

section \<open>Entries and errors\<close>

record data_file_frame_entry =
  fe_timestamp :: "64 word"
  fe_src :: u16
  fe_dst :: u16
  fe_proto :: u16
  fe_size :: u16
  fe_data :: "u8 list"

text \<open>The exceptions; \<open>Long_overflow\<close> and \<open>Stack_overrun\<close> stand for what C++ leaves undefined: a number that does not fit
  into a \<open>long\<close>, and the write to \<open>m_stack[16]\<close> that \<open>push\<close> does before it tests the pointer.\<close>

datatype query_error = Code_block_too_small | Invalid_stack | Stack_underrun | Unknown_opcode | Code_end_reached |
  Long_overflow | Stack_overrun

abbreviation (input) CODE_SIZE :: nat where "CODE_SIZE \<equiv> 128"
abbreviation (input) STACK_SIZE :: nat where "STACK_SIZE \<equiv> 16"

abbreviation (input) TOKEN_NOP :: u32 where "TOKEN_NOP \<equiv> 0x00000000"
abbreviation (input) TOKEN_INT :: u32 where "TOKEN_INT \<equiv> 0x01000000"
abbreviation (input) TOKEN_SRC :: u32 where "TOKEN_SRC \<equiv> 0x10000000"
abbreviation (input) TOKEN_DST :: u32 where "TOKEN_DST \<equiv> 0x11000000"
abbreviation (input) TOKEN_PROTO :: u32 where "TOKEN_PROTO \<equiv> 0x12000000"
abbreviation (input) TOKEN_SIZE :: u32 where "TOKEN_SIZE \<equiv> 0x13000000"
abbreviation (input) TOKEN_D0 :: u32 where "TOKEN_D0 \<equiv> 0x14000000"
abbreviation (input) TOKEN_D1 :: u32 where "TOKEN_D1 \<equiv> 0x15000000"
abbreviation (input) TOKEN_D2 :: u32 where "TOKEN_D2 \<equiv> 0x16000000"
abbreviation (input) TOKEN_D3 :: u32 where "TOKEN_D3 \<equiv> 0x17000000"
abbreviation (input) TOKEN_D4 :: u32 where "TOKEN_D4 \<equiv> 0x18000000"
abbreviation (input) TOKEN_D5 :: u32 where "TOKEN_D5 \<equiv> 0x19000000"
abbreviation (input) TOKEN_D6 :: u32 where "TOKEN_D6 \<equiv> 0x20000000"
abbreviation (input) TOKEN_D7 :: u32 where "TOKEN_D7 \<equiv> 0x21000000"
abbreviation (input) TOKEN_EQUAL :: u32 where "TOKEN_EQUAL \<equiv> 0x80000000"
abbreviation (input) TOKEN_AND_OP :: u32 where "TOKEN_AND_OP \<equiv> 0x81000000"
abbreviation (input) TOKEN_AND :: u32 where "TOKEN_AND \<equiv> 0x82000000"
abbreviation (input) TOKEN_OR_OP :: u32 where "TOKEN_OR_OP \<equiv> 0x83000000"
abbreviation (input) TOKEN_OR :: u32 where "TOKEN_OR \<equiv> 0x84000000"
abbreviation (input) TOKEN_NOTEQUAL :: u32 where "TOKEN_NOTEQUAL \<equiv> 0x85000000"
abbreviation (input) TOKEN_NOT :: u32 where "TOKEN_NOT \<equiv> 0x86000000"

section \<open>Compiling\<close>

text \<open>The words that the passes of \<open>while (! ss.eof()) { ... ss >> word; ... }\<close> get: after trailing white space, and
  for an empty query, the last one is empty.\<close>

definition is_space :: "char \<Rightarrow> bool" where
  "is_space c \<longleftrightarrow> c = CHR 0x20 \<or> (9 \<le> (of_char c :: nat) \<and> (of_char c :: nat) \<le> 13)"

function stream_words :: "string \<Rightarrow> string list" where
  "stream_words s =
     (let r = dropWhile is_space s; rest = dropWhile (\<lambda>c. \<not> is_space c) r
      in if r = [] then [[]]
         else takeWhile (\<lambda>c. \<not> is_space c) r # (if rest = [] then [] else stream_words rest))"
  by pat_completeness auto
termination
proof (relation "measure length", goal_cases)
  case (2 s r rest)
  then have "r \<noteq> []" by simp
  then obtain a l where r: "r = a # l" by (meson neq_Nil_conv)
  then have "\<not> is_space a" using 2 hd_dropWhile [of is_space s] by simp
  then have "rest = dropWhile (\<lambda>c. \<not> is_space c) l" unfolding 2(2) r by simp
  then have "length rest \<le> length l" using length_dropWhile_le by metis
  moreover have "length r \<le> length s" using 2 length_dropWhile_le by metis
  ultimately show ?case using r by simp
qed simp

declare stream_words.simps [simp del]

definition is_digit_char :: "char \<Rightarrow> bool" where
  "is_digit_char c \<longleftrightarrow> 48 \<le> (of_char c :: nat) \<and> (of_char c :: nat) \<le> 57"

definition decimal :: "string \<Rightarrow> nat" where
  "decimal w = fold (\<lambda>c n. 10 * n + (of_char c - 48)) w 0"

definition is_number :: "string \<Rightarrow> bool" where
  "is_number w \<longleftrightarrow> w \<noteq> [] \<and> list_all is_digit_char w"

definition token :: "string \<Rightarrow> u32 option" where
  "token w =
     (if w = ''src'' then Some TOKEN_SRC else if w = ''dst'' then Some TOKEN_DST else if w = ''proto'' then Some TOKEN_PROTO
      else if w = ''size'' then Some TOKEN_SIZE else if w = ''d0'' then Some TOKEN_D0 else if w = ''d1'' then Some TOKEN_D1
      else if w = ''d2'' then Some TOKEN_D2 else if w = ''d3'' then Some TOKEN_D3 else if w = ''d4'' then Some TOKEN_D4
      else if w = ''d5'' then Some TOKEN_D5 else if w = ''d6'' then Some TOKEN_D6 else if w = ''d7'' then Some TOKEN_D7
      else if w = ''='' then Some TOKEN_EQUAL else if w = ''!='' then Some TOKEN_NOTEQUAL else if w = ''!'' then Some TOKEN_NOT
      else if w = ''&'' then Some TOKEN_AND_OP else if w = ''&&'' then Some TOKEN_AND else if w = ''|'' then Some TOKEN_OR_OP
      else if w = ''||'' then Some TOKEN_OR else None)"

text \<open>\<open>c\<close> counts the bytes of the code, of \<open>sizeof(m_code)\<close> = 512. Unknown words are passed over.\<close>

fun compile_loop :: "string list \<Rightarrow> nat \<Rightarrow> u32 list \<Rightarrow> query_error + u32 list" where
  "compile_loop [] c code = (if c \<ge> 4 * CODE_SIZE - 4 then Inl Code_block_too_small else Inr (code @ [TOKEN_NOP]))"
| "compile_loop (w # ws) c code =
     (if c \<ge> 4 * CODE_SIZE - 4 then Inl Code_block_too_small
      else if is_number w then
        (if decimal w < 2 ^ 31 then compile_loop ws (c + 4) (code @ [TOKEN_INT OR (of_nat (decimal w) AND 0x00ffffff)])
         else Inl Long_overflow)
      else case token w of
             Some t \<Rightarrow> compile_loop ws (c + 4) (code @ [t])
           | None \<Rightarrow> compile_loop ws c code)"

record data_query =
  m_code :: "u32 list"
  m_stack :: "u32 list"

definition compile_query :: "string \<Rightarrow> query_error + data_query" where
  "compile_query q = (case compile_loop (stream_words q) 0 [] of
       Inl e \<Rightarrow> Inl e | Inr code \<Rightarrow> Inr \<lparr>m_code = code, m_stack = []\<rparr>)"

section \<open>Running\<close>

definition dq_push :: "u32 \<Rightarrow> u32 list \<Rightarrow> query_error + u32 list" where
  "dq_push d st = (if length st + 1 > STACK_SIZE - 1 then Inl Stack_overrun else Inr (d # st))"

definition dq_binop :: "(u32 \<Rightarrow> u32 \<Rightarrow> u32) \<Rightarrow> u32 list \<Rightarrow> query_error + u32 list" where
  "dq_binop f st = (case st of d1 # d2 # r \<Rightarrow> dq_push (f d1 d2) r | _ \<Rightarrow> Inl Stack_underrun)"

definition of_b :: "bool \<Rightarrow> u32" where "of_b b = (if b then 1 else 0)"

definition exec_op :: "u32 \<Rightarrow> data_file_frame_entry \<Rightarrow> u32 list \<Rightarrow> query_error + u32 list" where
  "exec_op w f st =
     (let opcode = w AND 0xff000000; d = (\<lambda>i. ucast (fe_data f ! i))
      in if opcode = TOKEN_INT then dq_push (w AND 0x00ffffff) st
         else if opcode = TOKEN_SRC then dq_push (ucast (fe_src f)) st
         else if opcode = TOKEN_DST then dq_push (ucast (fe_dst f)) st
         else if opcode = TOKEN_PROTO then dq_push (ucast (fe_proto f)) st
         else if opcode = TOKEN_SIZE then dq_push (ucast (fe_size f)) st
         else if opcode = TOKEN_D0 then dq_push (d 0) st else if opcode = TOKEN_D1 then dq_push (d 1) st
         else if opcode = TOKEN_D2 then dq_push (d 2) st else if opcode = TOKEN_D3 then dq_push (d 3) st
         else if opcode = TOKEN_D4 then dq_push (d 4) st else if opcode = TOKEN_D5 then dq_push (d 5) st
         else if opcode = TOKEN_D6 then dq_push (d 6) st else if opcode = TOKEN_D7 then dq_push (d 7) st
         else if opcode = TOKEN_EQUAL then dq_binop (\<lambda>a b. of_b (a = b)) st
         else if opcode = TOKEN_NOTEQUAL then dq_binop (\<lambda>a b. of_b (a \<noteq> b)) st
         else if opcode = TOKEN_NOT then (case st of d1 # r \<Rightarrow> dq_push (of_b (d1 = 0)) r | [] \<Rightarrow> Inl Stack_underrun)
         else if opcode = TOKEN_AND_OP then dq_binop (AND) st
         else if opcode = TOKEN_AND then dq_binop (\<lambda>a b. of_b (a \<noteq> 0 \<and> b \<noteq> 0)) st
         else if opcode = TOKEN_OR_OP then dq_binop (OR) st
         else if opcode = TOKEN_OR then dq_binop (\<lambda>a b. of_b (a \<noteq> 0 \<or> b \<noteq> 0)) st
         else Inl Unknown_opcode)"

text \<open>\<open>c\<close> counts bytes but is compared with the number of words. The code always ends with a \<open>TOKEN_NOP\<close>.\<close>

fun match_loop :: "nat \<Rightarrow> u32 list \<Rightarrow> data_file_frame_entry \<Rightarrow> u32 list \<Rightarrow> query_error + bool \<times> u32 list" where
  "match_loop c [] f st = Inl Code_end_reached"
| "match_loop c (w # code) f st =
     (if c < CODE_SIZE then
        (if w AND 0xff000000 = TOKEN_NOP
         then (if length st \<noteq> 1 then Inl Invalid_stack else Inr (hd st \<noteq> 0, tl st))
         else case exec_op w f st of Inl e \<Rightarrow> Inl e | Inr st \<Rightarrow> match_loop (c + 4) code f st)
      else Inl Code_end_reached)"

definition match_query :: "data_file_frame_entry \<Rightarrow> data_query \<Rightarrow> query_error + bool \<times> data_query" where
  "match_query f dq = (case match_loop 0 (m_code dq) f (m_stack dq) of
       Inl e \<Rightarrow> Inl e | Inr (r, st) \<Rightarrow> Inr (r, dq\<lparr>m_stack := st\<rparr>))"

section \<open>What a query means\<close>

datatype qexp = Lit string | Src | Dst | Proto | Size | Data nat | Not qexp | Eq qexp qexp | Neq qexp qexp |
  Bit_and qexp qexp | Conj qexp qexp | Bit_or qexp qexp | Disj qexp qexp

fun qval :: "data_file_frame_entry \<Rightarrow> qexp \<Rightarrow> u32" where
  "qval f (Lit w) = of_nat (decimal w)"
| "qval f Src = ucast (fe_src f)" | "qval f Dst = ucast (fe_dst f)" | "qval f Proto = ucast (fe_proto f)"
| "qval f Size = ucast (fe_size f)" | "qval f (Data i) = ucast (fe_data f ! i)"
| "qval f (Not a) = of_b (qval f a = 0)" | "qval f (Eq a b) = of_b (qval f a = qval f b)"
| "qval f (Neq a b) = of_b (qval f a \<noteq> qval f b)" | "qval f (Bit_and a b) = qval f a AND qval f b"
| "qval f (Conj a b) = of_b (qval f a \<noteq> 0 \<and> qval f b \<noteq> 0)" | "qval f (Bit_or a b) = qval f a OR qval f b"
| "qval f (Disj a b) = of_b (qval f a \<noteq> 0 \<or> qval f b \<noteq> 0)"

fun rpn :: "qexp \<Rightarrow> string list" where
  "rpn (Lit w) = [w]" | "rpn Src = [''src'']" | "rpn Dst = [''dst'']" | "rpn Proto = [''proto'']" | "rpn Size = [''size'']"
| "rpn (Data i) = [[CHR ''d'', char_of (48 + i)]]" | "rpn (Not a) = rpn a @ [''!'']" | "rpn (Eq a b) = rpn a @ rpn b @ [''='']"
| "rpn (Neq a b) = rpn a @ rpn b @ [''!='']" | "rpn (Bit_and a b) = rpn a @ rpn b @ [''&'']"
| "rpn (Conj a b) = rpn a @ rpn b @ [''&&'']" | "rpn (Bit_or a b) = rpn a @ rpn b @ [''|'']" | "rpn (Disj a b) = rpn a @ rpn b @ [''||'']"

text \<open>The numbers of a query fit into the 24 bits of an instruction, the data fields are those of a frame. \<open>need\<close> is
  the number of stack entries.\<close>

fun query_ok :: "qexp \<Rightarrow> bool" where
  "query_ok (Lit w) = (is_number w \<and> decimal w < 2 ^ 24)" | "query_ok (Data i) = (i < 8)" | "query_ok (Not a) = query_ok a"
| "query_ok (Eq a b) = (query_ok a \<and> query_ok b)" | "query_ok (Neq a b) = (query_ok a \<and> query_ok b)"
| "query_ok (Bit_and a b) = (query_ok a \<and> query_ok b)" | "query_ok (Conj a b) = (query_ok a \<and> query_ok b)"
| "query_ok (Bit_or a b) = (query_ok a \<and> query_ok b)" | "query_ok (Disj a b) = (query_ok a \<and> query_ok b)" | "query_ok _ = True"

fun need :: "qexp \<Rightarrow> nat" where
  "need (Not a) = need a" | "need (Eq a b) = max (need a) (Suc (need b))" | "need (Neq a b) = max (need a) (Suc (need b))"
| "need (Bit_and a b) = max (need a) (Suc (need b))" | "need (Conj a b) = max (need a) (Suc (need b))"
| "need (Bit_or a b) = max (need a) (Suc (need b))" | "need (Disj a b) = max (need a) (Suc (need b))" | "need _ = 1"

definition instr :: "string \<Rightarrow> u32" where
  "instr w = (if is_number w then TOKEN_INT OR (of_nat (decimal w) AND 0x00ffffff) else the (token w))"


lemma data_word:
  assumes "i < 8"
  shows "\<not> is_number [CHR ''d'', char_of (48 + i)] \<and> token [CHR ''d'', char_of (48 + i)] = Some ([TOKEN_D0, TOKEN_D1, TOKEN_D2,
    TOKEN_D3, TOKEN_D4, TOKEN_D5, TOKEN_D6, TOKEN_D7] ! i)"
proof -
  have "i \<in> {0, 1, 2, 3, 4, 5, 6, 7}" using assms by auto
  moreover have "\<forall>i \<in> {0, 1, 2, 3, 4, 5, 6, 7}. \<not> is_number [CHR ''d'', char_of (48 + i)] \<and> token [CHR ''d'', char_of (48 + i)] = Some ([TOKEN_D0, TOKEN_D1, TOKEN_D2,
    TOKEN_D3, TOKEN_D4, TOKEN_D5, TOKEN_D6, TOKEN_D7] ! i)" by code_simp
  ultimately show ?thesis by blast
qed

lemma symbol_words [simp]:
  "\<not> is_number ''src''" "\<not> is_number ''dst''" "\<not> is_number ''proto''" "\<not> is_number ''size''" "\<not> is_number ''=''" "\<not> is_number ''!=''"
  "\<not> is_number ''!''" "\<not> is_number ''&''" "\<not> is_number ''&&''" "\<not> is_number ''|''" "\<not> is_number ''||''"
  by (code_simp+)

lemma symbol_tokens [simp]:
  "token ''src'' = Some TOKEN_SRC" "token ''dst'' = Some TOKEN_DST" "token ''proto'' = Some TOKEN_PROTO" "token ''size'' = Some TOKEN_SIZE"
  "token ''='' = Some TOKEN_EQUAL" "token ''!='' = Some TOKEN_NOTEQUAL" "token ''!'' = Some TOKEN_NOT" "token ''&'' = Some TOKEN_AND_OP"
  "token ''&&'' = Some TOKEN_AND" "token ''|'' = Some TOKEN_OR_OP" "token ''||'' = Some TOKEN_OR"
  by (simp_all add: token_def)

lemma rpn_instr: "query_ok e \<Longrightarrow> w \<in> set (rpn e) \<Longrightarrow> is_number w \<and> decimal w < 2 ^ 31 \<or> \<not> is_number w \<and> token w \<noteq> None"
  by (induction e) (auto dest: data_word)

lemma compile_rpn:
  "(\<And>w. w \<in> set ws \<Longrightarrow> is_number w \<and> decimal w < 2 ^ 31 \<or> \<not> is_number w \<and> token w \<noteq> None) \<Longrightarrow>
    c + 4 * length ws < 4 * CODE_SIZE - 4 \<Longrightarrow> compile_loop ws c code = Inr (code @ map instr ws @ [TOKEN_NOP])"
proof (induction ws arbitrary: c code)
  case (Cons w ws)
  have IH: "compile_loop ws (c + 4) code = Inr (code @ map instr ws @ [TOKEN_NOP])" for code
    using Cons.IH [of "c + 4"] Cons.prems by simp
  show ?case
  proof (cases "is_number w")
    case True
    then show ?thesis using Cons.prems(1) [of w] Cons.prems(2) IH by (simp add: instr_def)
  next
    case False
    then obtain t where "token w = Some t" using Cons.prems(1) [of w] by auto
    then show ?thesis using False Cons.prems(2) IH by (simp add: instr_def)
  qed
qed simp

lemma compile_full: "c \<ge> 4 * CODE_SIZE - 4 \<Longrightarrow> compile_loop ws c code = Inl Code_block_too_small"
  by (cases ws) simp_all

lemma empty_word: "\<not> is_number []" "token [] = None"
  by (simp_all add: is_number_def token_def)

lemma compile_skip: "compile_loop (filter (\<lambda>w. w \<noteq> []) ws) c code = compile_loop ws c code"
  by (induction ws arbitrary: c code) (simp_all add: empty_word compile_full split: option.split)

definition steps :: "nat \<Rightarrow> u32 list \<Rightarrow> data_file_frame_entry \<Rightarrow> u32 list \<Rightarrow> u32 list \<Rightarrow> bool" where
  "steps c is f st st' \<longleftrightarrow> (\<forall>rest. match_loop c (is @ rest) f st =
     (if c + 4 * length is \<le> CODE_SIZE then match_loop (c + 4 * length is) rest f st' else Inl Code_end_reached))"

lemma steps_append:
  "c mod 4 = 0 \<Longrightarrow> c \<le> CODE_SIZE \<Longrightarrow> steps c is f st st' \<Longrightarrow> (c + 4 * length is \<le> CODE_SIZE \<Longrightarrow> steps (c + 4 * length is) js f st' st'') \<Longrightarrow> steps c (is @ js) f st st''"
  by (auto simp: steps_def algebra_simps)


text \<open>One instruction pushes a value, or takes one or two and pushes a result.\<close>

lemma step_push:
  assumes "c mod 4 = 0" "c \<le> CODE_SIZE" "exec_op w f st = Inr st'" "w AND 0xff000000 \<noteq> TOKEN_NOP"
  shows "steps c [w] f st st'"
proof -
  have "c < CODE_SIZE \<Longrightarrow> c + 4 \<le> CODE_SIZE" using assms(1,2) by presburger
  then show ?thesis using assms by (auto simp: steps_def)
qed

lemma code_masks: "(0x01000000 :: u32) = push_bit 24 1" "(0x00ffffff :: u32) = mask 24" "(0xff000000 :: u32) = push_bit 24 (mask 8)"
  by (simp_all add: mask_eq_exp_minus_1 push_bit_eq_mult)

lemma bit_int_token: "bit (0x01000000 :: u32) n \<longleftrightarrow> n = 24"
  by (simp only: code_masks(1) bit_push_bit_iff) (auto simp: bit_1_iff)

lemma int_instr:
  assumes "is_number w" "decimal w < 2 ^ 24"
  shows "instr w AND 0xff000000 = TOKEN_INT" "instr w AND 0x00ffffff = of_nat (decimal w)"
proof -
  have u: "unat (of_nat (decimal w) :: u32) = decimal w" using assms(2) by (simp add: unat_of_nat)
  have "take_bit 24 (of_nat (decimal w) :: u32) = of_nat (decimal w)"
    using assms(2) by (simp add: word_unat_eq_iff unsigned_take_bit_eq u take_bit_nat_eq_self del: unsigned_of_nat)
  then have m: "of_nat (decimal w) AND 0x00ffffff = (of_nat (decimal w) :: u32)" by (simp add: code_masks take_bit_eq_mask)
  show "instr w AND 0xff000000 = TOKEN_INT" unfolding instr_def if_P [OF assms(1)] code_masks(2,3)
    by (rule bit_word_eqI, simp only: bit_or_iff bit_and_iff bit_push_bit_iff bit_mask_iff bit_int_token) auto
  have "(TOKEN_INT OR (of_nat (decimal w) AND 0x00ffffff)) AND 0x00ffffff = (of_nat (decimal w) :: u32) AND 0x00ffffff"
    unfolding code_masks(2)
    by (rule bit_word_eqI, simp only: bit_or_iff bit_and_iff bit_mask_iff bit_int_token) auto
  then show "instr w AND 0x00ffffff = of_nat (decimal w)" using assms(1) m by (simp add: instr_def)
qed

text \<open>Two operands and an operation.\<close>

lemma steps_binop:
  assumes "c mod 4 = 0" "c \<le> CODE_SIZE" "length st < STACK_SIZE - 1"
    and "steps c is f st (x # st)" "\<And>c. c mod 4 = 0 \<Longrightarrow> c \<le> CODE_SIZE \<Longrightarrow> steps c js f (x # st) (y # x # st)"
    and "exec_op (instr w) f (y # x # st) = dq_push z st" "instr w AND 0xff000000 \<noteq> TOKEN_NOP"
  shows "steps c (is @ js @ [instr w]) f st (z # st)"
proof (rule steps_append [OF assms(1,2,4)])
  assume c1: "c + 4 * length is \<le> CODE_SIZE"
  let ?c1 = "c + 4 * length is"
  have m: "?c1 mod 4 = 0" "(?c1 + 4 * length js) mod 4 = 0" using assms(1) by presburger+
  show "steps ?c1 (js @ [instr w]) f (x # st) (z # st)"
  proof (rule steps_append [OF m(1) c1 assms(5) [OF m(1) c1]])
    assume c2: "?c1 + 4 * length js \<le> CODE_SIZE"
    show "steps (?c1 + 4 * length js) [instr w] f (y # x # st) (z # st)"
      using assms(3,6,7) by (intro step_push [OF m(2) c2]) (simp_all add: dq_push_def)
  qed
qed

lemma need_pos [simp]: "0 < need e" "need e \<noteq> 0"
  by (induction e) simp_all

lemma exec_binops:
  "exec_op (instr ''='') f (y # x # st) = dq_push (of_b (y = x)) st"
  "exec_op (instr ''!='') f (y # x # st) = dq_push (of_b (y \<noteq> x)) st"
  "exec_op (instr ''&'') f (y # x # st) = dq_push (y AND x) st"
  "exec_op (instr ''&&'') f (y # x # st) = dq_push (of_b (y \<noteq> 0 \<and> x \<noteq> 0)) st"
  "exec_op (instr ''|'') f (y # x # st) = dq_push (y OR x) st"
  "exec_op (instr ''||'') f (y # x # st) = dq_push (of_b (y \<noteq> 0 \<or> x \<noteq> 0)) st"
  by (simp_all add: exec_op_def dq_binop_def instr_def)

lemma binop_codes:
  "instr ''='' AND 0xff000000 \<noteq> TOKEN_NOP" "instr ''!='' AND 0xff000000 \<noteq> TOKEN_NOP" "instr ''&'' AND 0xff000000 \<noteq> TOKEN_NOP" "instr ''&&'' AND 0xff000000 \<noteq> TOKEN_NOP" "instr ''|'' AND 0xff000000 \<noteq> TOKEN_NOP" "instr ''||'' AND 0xff000000 \<noteq> TOKEN_NOP"
  by (simp_all add: instr_def)

lemma rpn_steps:
  "query_ok e \<Longrightarrow> length st + need e \<le> STACK_SIZE - 1 \<Longrightarrow> c mod 4 = 0 \<Longrightarrow> c \<le> CODE_SIZE \<Longrightarrow> steps c (map instr (rpn e)) f st (qval f e # st)"
proof (induction e arbitrary: c st)
  case (Lit w)
  then show ?case using int_instr [of w] by (auto intro!: step_push simp: exec_op_def dq_push_def)
next
  case Src
  then show ?case by (auto intro!: step_push simp: exec_op_def dq_push_def instr_def)
next
  case Dst
  then show ?case by (auto intro!: step_push simp: exec_op_def dq_push_def instr_def)
next
  case Proto
  then show ?case by (auto intro!: step_push simp: exec_op_def dq_push_def instr_def)
next
  case Size
  then show ?case by (auto intro!: step_push simp: exec_op_def dq_push_def instr_def)
next
  case (Data i)
  then have "i \<in> {0, 1, 2, 3, 4, 5, 6, 7}" by auto
  then show ?case using Data data_word [of i] by (auto intro!: step_push simp: exec_op_def dq_push_def instr_def)
next
  case (Not a)
  have "steps (c + 4 * length (rpn a)) [instr ''!''] f (qval f a # st) (qval f (Not a) # st)" if "c + 4 * length (rpn a) \<le> CODE_SIZE"
    using Not.prems that need_pos(1) [of a] by (intro step_push) (auto simp: exec_op_def dq_push_def instr_def simp del: need_pos)
  then show ?case using steps_append [OF Not.prems(3,4) Not.IH [OF _ _ Not.prems(3,4)]] Not.prems(1,2) by simp
next
  case (Eq a b)
  then have "steps c (map instr (rpn a) @ map instr (rpn b) @ [instr ''='']) f st ((of_b (qval f b = qval f a)) # st)"
    using need_pos(1) [of a] by (intro steps_binop [OF _ _ _ _ _ exec_binops(1) binop_codes(1)]) auto
  then show ?case by (simp add: eq_commute)
next
  case (Neq a b)
  then have "steps c (map instr (rpn a) @ map instr (rpn b) @ [instr ''!='']) f st ((of_b (qval f b \<noteq> qval f a)) # st)"
    using need_pos(1) [of a] by (intro steps_binop [OF _ _ _ _ _ exec_binops(2) binop_codes(2)]) auto
  then show ?case by (simp add: eq_commute)
next
  case (Bit_and a b)
  then have "steps c (map instr (rpn a) @ map instr (rpn b) @ [instr ''&'']) f st ((qval f b AND qval f a) # st)"
    using need_pos(1) [of a] by (intro steps_binop [OF _ _ _ _ _ exec_binops(3) binop_codes(3)]) auto
  then show ?case by (simp add: and.commute)
next
  case (Conj a b)
  then have "steps c (map instr (rpn a) @ map instr (rpn b) @ [instr ''&&'']) f st ((of_b (qval f b \<noteq> 0 \<and> qval f a \<noteq> 0)) # st)"
    using need_pos(1) [of a] by (intro steps_binop [OF _ _ _ _ _ exec_binops(4) binop_codes(4)]) auto
  then show ?case by (simp add: conj_commute)
next
  case (Bit_or a b)
  then have "steps c (map instr (rpn a) @ map instr (rpn b) @ [instr ''|'']) f st ((qval f b OR qval f a) # st)"
    using need_pos(1) [of a] by (intro steps_binop [OF _ _ _ _ _ exec_binops(5) binop_codes(5)]) auto
  then show ?case by (simp add: or.commute)
next
  case (Disj a b)
  then have "steps c (map instr (rpn a) @ map instr (rpn b) @ [instr ''||'']) f st ((of_b (qval f b \<noteq> 0 \<or> qval f a \<noteq> 0)) # st)"
    using need_pos(1) [of a] by (intro steps_binop [OF _ _ _ _ _ exec_binops(6) binop_codes(6)]) auto
  then show ?case by (simp add: disj_commute)
qed


lemma query_run:
  assumes "filter (\<lambda>w. w \<noteq> []) (stream_words q) = rpn e" "query_ok e" "length (rpn e) \<le> 126" "need e \<le> 15"
  shows "\<exists>dq. compile_query q = Inr dq \<and> m_stack dq = [] \<and>
    (\<forall>f. match_query f dq = (if length (rpn e) \<le> 31 then Inr (qval f e \<noteq> 0, dq) else Inl Code_end_reached))"
proof (intro exI conjI allI)
  let ?dq = "\<lparr>m_code = map instr (rpn e) @ [TOKEN_NOP], m_stack = []\<rparr>"
  have "compile_loop (stream_words q) 0 [] = Inr (map instr (rpn e) @ [TOKEN_NOP])"
    using compile_rpn [OF rpn_instr [OF assms(2)], of "rpn e" 0 "[]"] compile_skip [of "stream_words q" 0 "[]"] assms(1,3) by simp
  then show "compile_query q = Inr ?dq" by (simp add: compile_query_def)
  fix f
  have "steps 0 (map instr (rpn e)) f [] [qval f e]" using rpn_steps [OF assms(2), of "[]" 0 f] assms(4) by simp
  then have "match_loop 0 (map instr (rpn e) @ [TOKEN_NOP]) f [] = (if 4 * length (rpn e) \<le> CODE_SIZE
      then match_loop (4 * length (rpn e)) [TOKEN_NOP] f [qval f e] else Inl Code_end_reached)"
    by (simp add: steps_def)
  then show "match_query f ?dq = (if length (rpn e) \<le> 31 then Inr (qval f e \<noteq> 0, ?dq) else Inl Code_end_reached)"
    by (auto simp: match_query_def)
qed simp

text \<open>C23: The query language means what its expressions mean: a query that spells an expression in reverse
  Polish notation, its words apart by any white space, compiles, and running it on a frame tells whether the value of
  the expression is not 0, the stack being empty again, if the expression has at most 31 words. With 32 to 126 words
  the query compiles too, but every frame ends it with an exception, because the end of the code is tested in the
  wrong unit. In both cases the numbers of the query are below \<open>2 ^ 24\<close> (the instruction keeps no more
  bits), the data bytes are numbered 0 to 7 and the expression needs at most 15 entries of the stack (at a sixteenth
  the stack of the program is overrun).\<close>

theorem query_means_expression:
  assumes "filter (\<lambda>w. w \<noteq> []) (stream_words q) = rpn e" "query_ok e" "length (rpn e) \<le> 126" "need e \<le> 15"
  shows "\<exists>dq. compile_query q = Inr dq \<and> m_stack dq = [] \<and>
    (\<forall>f. match_query f dq = (if length (rpn e) \<le> 31 then Inr (qval f e \<noteq> 0, dq) else Inl Code_end_reached))"
  using assms by (rule query_run)

text \<open>Frames of a temperature sensor: the frames from node 20 whose service and command are 5 and 34.\<close>

definition ex_query :: qexp where
  "ex_query = Conj (Eq Src (Lit ''20'')) (Conj (Eq (Data 0) (Lit ''5'')) (Eq (Data 1) (Lit ''34'')))"

lemma ex_query_facts:
  "filter (\<lambda>w. w \<noteq> []) (stream_words ''src 20 = d0 5 =  d1 34 = && && '') = rpn ex_query" "query_ok ex_query"
  "length (rpn ex_query) \<le> 31" "need ex_query \<le> 15"
proof -
  have "char_of (48::nat) = CHR ''0''" "char_of (49::nat) = CHR ''1''" by code_simp+
  then show "filter (\<lambda>w. w \<noteq> []) (stream_words ''src 20 = d0 5 =  d1 34 = && && '') = rpn ex_query"
    by (simp add: stream_words.simps is_space_def ex_query_def)
qed (simp_all add: ex_query_def is_number_def is_digit_char_def decimal_def)

theorem query_means_expression_witness:
  "case compile_query ''src 20 = d0 5 =  d1 34 = && && '' of
     Inr dq \<Rightarrow> match_query \<lparr>fe_timestamp = 0, fe_src = 20, fe_dst = 36, fe_proto = 1, fe_size = 5, fe_data = [5, 34, 7, 1, 64, 0, 0, 0]\<rparr> dq = Inr (True, dq)
   | Inl _ \<Rightarrow> False"
proof -
  have "qval \<lparr>fe_timestamp = 0, fe_src = 20, fe_dst = 36, fe_proto = 1, fe_size = 5, fe_data = [5, 34, 7, 1, 64, 0, 0, 0]\<rparr> ex_query \<noteq> 0"
    by (simp add: ex_query_def decimal_def of_b_def)
  then show ?thesis
    using query_means_expression [OF ex_query_facts(1,2) _ ex_query_facts(4)] ex_query_facts(3) by fastforce
qed

end
