(* ===== verification/Data_File.thy ===== *)
theory Data_File
  imports Hostlink Data_Query
begin

text \<open>
  The frame log on the host: the file format, its writer and its reader (\<open>libhcandata/file_format_v1.h\<close>,
  \<open>data_file_writer.cc\<close>, \<open>data_file.cc\<close>), the daemon that logs every frame of the bus (\<open>hcanswd/main.cc\<close>) and the
  program that searches a log (\<open>hcandq/main.cc\<close>). A file is the list of its bytes; the structures lie in it as i386
  lays them out, little endian. The formatting of the printed lines and the time zone of the host are left out.
\<close>

section \<open>Little endian numbers\<close>

fun le_bytes :: "nat \<Rightarrow> nat \<Rightarrow> u8 list" where
  "le_bytes 0 v = []"
| "le_bytes (Suc n) v = of_nat (v mod 256) # le_bytes n (v div 256)"

fun le_nat :: "u8 list \<Rightarrow> nat" where
  "le_nat [] = 0"
| "le_nat (b # bs) = unat b + 256 * le_nat bs"

definition bytes_at :: "nat \<Rightarrow> nat \<Rightarrow> u8 list \<Rightarrow> nat" where
  "bytes_at off n b = le_nat (take n (drop off b))"

lemma length_le_bytes [simp]: "length (le_bytes n v) = n"
  by (induction n v rule: le_bytes.induct) auto

lemma le_nat_bytes [simp]: "v < 256 ^ n \<Longrightarrow> le_nat (le_bytes n v) = v"
proof (induction n v rule: le_bytes.induct)
  case (2 n v)
  then have "v div 256 < 256 ^ n" by (simp add: less_mult_imp_div_less mult.commute)
  moreover have "unat (of_nat (v mod 256) :: u8) = v mod 256" by (simp add: unat_of_nat)
  ultimately show ?case using 2(1) by simp
qed simp

lemma bytes_at_here [simp]: "v < 256 ^ n \<Longrightarrow> bytes_at 0 n (le_bytes n v @ r) = v"
  by (simp add: bytes_at_def)

lemma bytes_at_skip [simp]: "length a \<le> off \<Longrightarrow> bytes_at off n (a @ r) = bytes_at (off - length a) n r"
  by (simp add: bytes_at_def)

section \<open>The blocks\<close>

abbreviation (input) DATA_FILE_MAGIC_1 :: nat where "DATA_FILE_MAGIC_1 \<equiv> 0x12345678"
abbreviation (input) DATA_FILE_MAGIC_2 :: nat where "DATA_FILE_MAGIC_2 \<equiv> 0x20080404"
abbreviation (input) data_file_type_header :: nat where "data_file_type_header \<equiv> 1"
abbreviation (input) data_file_type_data :: nat where "data_file_type_data \<equiv> 2"

definition header_bytes :: "nat \<Rightarrow> nat \<Rightarrow> nat \<Rightarrow> nat \<Rightarrow> u8 list" where
  "header_bytes ty sz m1 m2 = le_bytes 4 ty @ le_bytes 4 sz @ le_bytes 4 m1 @ le_bytes 4 m2"

definition data_bytes :: "nat \<Rightarrow> nat \<Rightarrow> nat \<Rightarrow> nat \<Rightarrow> u8 list" where
  "data_bytes ty sz t0 t1 = le_bytes 4 ty @ le_bytes 4 sz @ le_bytes 8 t0 @ le_bytes 8 t1"

definition entry_bytes :: "data_file_frame_entry \<Rightarrow> u8 list" where
  "entry_bytes e = le_bytes 8 (unat (fe_timestamp e)) @ le_bytes 2 (unat (fe_src e)) @ le_bytes 2 (unat (fe_dst e)) @
     le_bytes 2 (unat (fe_proto e)) @ le_bytes 2 (unat (fe_size e)) @ fe_data e"

definition entry_of_bytes :: "u8 list \<Rightarrow> data_file_frame_entry" where
  "entry_of_bytes b = \<lparr>fe_timestamp = of_nat (bytes_at 0 8 b), fe_src = of_nat (bytes_at 8 2 b), fe_dst = of_nat (bytes_at 10 2 b),
     fe_proto = of_nat (bytes_at 12 2 b), fe_size = of_nat (bytes_at 14 2 b), fe_data = take 8 (drop 16 b)\<rparr>"

text \<open>The exceptions. \<open>Uninitialised\<close>: a read came back short and a field that was not read is used; \<open>Bus_error\<close>: an
  access past the last page of the mapped file.\<close>

datatype log_error = Wrong_magic_1 | Wrong_magic_2 | Wrong_header_type | Wrong_data_type | System_error |
  Index_out_of_bounds | Uninitialised | Bus_error | Query_error query_error

section \<open>The writer\<close>

text \<open>A file that is open for reading and writing, with its position; \<open>off_t\<close> has 32 bits.\<close>

record posix_file =
  f_bytes :: "u8 list"
  f_pos :: nat

definition file_write :: "u8 list \<Rightarrow> posix_file \<Rightarrow> posix_file" where
  "file_write b w = \<lparr>f_bytes = take (f_pos w) (f_bytes w) @ replicate (f_pos w - length (f_bytes w)) 0 @ b @
       drop (f_pos w + length b) (f_bytes w), f_pos = f_pos w + length b\<rparr>"

text \<open>Reading a structure of \<open>n\<close> bytes of which the first \<open>used\<close> are looked at.\<close>

definition file_read :: "nat \<Rightarrow> nat \<Rightarrow> posix_file \<Rightarrow> log_error + u8 list \<times> posix_file" where
  "file_read n used w =
     (let b = take n (drop (f_pos w) (f_bytes w))
      in if length b < used then Inl Uninitialised else Inr (b, w\<lparr>f_pos := f_pos w + length b\<rparr>))"

text \<open>Seeking from the start, and to \<open>n\<close> bytes before the end.\<close>

definition seek_set :: "nat \<Rightarrow> posix_file \<Rightarrow> log_error + posix_file" where
  "seek_set n w = (if n < 2 ^ 31 then Inr (w\<lparr>f_pos := n\<rparr>) else Inl System_error)"

definition seek_end :: "nat \<Rightarrow> posix_file \<Rightarrow> log_error + posix_file" where
  "seek_end n w = (if length (f_bytes w) < n then Inl System_error else Inr (w\<lparr>f_pos := length (f_bytes w) - n\<rparr>))"

definition bind_log :: "log_error + 'a \<Rightarrow> ('a \<Rightarrow> log_error + 'b) \<Rightarrow> log_error + 'b" where
  "bind_log x f = (case x of Inl e \<Rightarrow> Inl e | Inr a \<Rightarrow> f a)"

lemma bind_log_simps [simp]: "bind_log (Inl e) f = Inl e" "bind_log (Inr a) f = f a"
  by (simp_all add: bind_log_def)

definition setup_file :: "u32 \<Rightarrow> posix_file \<Rightarrow> posix_file" where
  "setup_file now w =
     file_write (data_bytes data_file_type_data 24 (unat (scast now :: 64 word)) 0)
       (file_write (header_bytes data_file_type_header 16 DATA_FILE_MAGIC_1 DATA_FILE_MAGIC_2) w)"

definition check_if_file_valid :: "posix_file \<Rightarrow> log_error + posix_file" where
  "check_if_file_valid w =
     bind_log (seek_set 0 w) (\<lambda>w.
     bind_log (file_read 16 16 w) (\<lambda>(header, w).
       if bytes_at 8 4 header \<noteq> DATA_FILE_MAGIC_1 then Inl Wrong_magic_1
       else if bytes_at 12 4 header \<noteq> DATA_FILE_MAGIC_2 then Inl Wrong_magic_2
       else if bytes_at 0 4 header \<noteq> data_file_type_header then Inl Wrong_header_type
       else bind_log (seek_set (bytes_at 4 4 header) w) (\<lambda>w.
            bind_log (file_read 24 4 w) (\<lambda>(data, w).
              if bytes_at 0 4 data \<noteq> data_file_type_data then Inl Wrong_data_type else seek_end 0 w))))"

definition data_file_writer :: "u32 \<Rightarrow> u8 list \<Rightarrow> log_error + posix_file" where
  "data_file_writer now file =
     (let w = \<lparr>f_bytes = file, f_pos = 0\<rparr>
      in if length file > 0 then check_if_file_valid w else Inr (setup_file now w))"

definition write_frame :: "u32 \<Rightarrow> u16 \<Rightarrow> u16 \<Rightarrow> u16 \<Rightarrow> u16 \<Rightarrow> u8 list \<Rightarrow> posix_file \<Rightarrow> posix_file" where
  "write_frame now src dst proto sz d w =
     file_write (entry_bytes \<lparr>fe_timestamp = scast now, fe_src = src, fe_dst = dst, fe_proto = proto, fe_size = sz, fe_data = take 8 d\<rparr>) w"

text \<open>Only the first 16 bytes of the block are written back, and its \<open>last_timestamp\<close> is in the other eight.\<close>

definition write_data_block :: "nat \<Rightarrow> u8 list \<Rightarrow> posix_file \<Rightarrow> log_error + posix_file" where
  "write_data_block data_pos block w =
     bind_log (seek_set data_pos w) (\<lambda>w. if f_pos w = 1 then Inl System_error else Inr (file_write (take 16 block) w))"

definition sync_file :: "posix_file \<Rightarrow> log_error + posix_file" where
  "sync_file w =
     bind_log (seek_end 0 w) (\<lambda>w.
     let end_pos = f_pos w in
     bind_log (seek_set 0 w) (\<lambda>w.
     bind_log (file_read 16 8 w) (\<lambda>(header, w).
     let data_pos = bytes_at 4 4 header in
     bind_log (seek_set data_pos w) (\<lambda>w.
     bind_log (file_read 24 4 w) (\<lambda>(data, w).
     let sz = unat (of_nat end_pos - of_nat data_pos :: u32) in
     bind_log
       (if sz > 24
        then bind_log (file_read 24 8 w) (\<lambda>(oldest, w).
             bind_log (seek_end 24 w) (\<lambda>w.
             bind_log (file_read 24 8 w) (\<lambda>(newest, w).
               Inr (data_bytes (bytes_at 0 4 data) sz (bytes_at 0 8 oldest) (bytes_at 0 8 newest), w))))
        else Inr (data_bytes (bytes_at 0 4 data) sz 0 0, w)) (\<lambda>(block, w).
     bind_log (write_data_block data_pos block w) (seek_end 0)))))))"

section \<open>The logging daemon\<close>

text \<open>The pass of the loop for a packet that arrives at the time \<open>now\<close>.\<close>

definition swd_frame :: "u32 \<Rightarrow> CANFrame \<Rightarrow> posix_file \<Rightarrow> posix_file" where
  "swd_frame now cf w =
     (let f = frame_read_from cf
      in write_frame now (m_src f) (m_dst f) (ucast (m_proto f)) (ucast (m_size f)) (map (frame_data f) [0..<8]) w)"

text \<open>A run in standard mode: the time it starts, what it receives, and whether it ends in order (the destructor then
  writes the data block) or is killed.\<close>

record swd_run =
  run_start :: u32
  run_packets :: "(u32 \<times> CANFrame) list"
  run_ends :: bool

definition run_standard_mode :: "swd_run \<Rightarrow> u8 list \<Rightarrow> log_error + u8 list" where
  "run_standard_mode r file =
     bind_log (data_file_writer (run_start r) file) (\<lambda>w.
     let w = fold (\<lambda>(now, cf). swd_frame now cf) (run_packets r) w
     in if run_ends r then bind_log (sync_file w) (\<lambda>w. Inr (f_bytes w)) else Inr (f_bytes w))"

fun run_all :: "swd_run list \<Rightarrow> u8 list \<Rightarrow> log_error + u8 list" where
  "run_all [] file = Inr file"
| "run_all (r # rs) file = bind_log (run_standard_mode r file) (run_all rs)"

section \<open>The reader\<close>

text \<open>The file is mapped into memory, its last page filled up with zeros; a page has 4096 bytes.\<close>

definition mapped :: "u8 list \<Rightarrow> u8 list" where
  "mapped file = file @ replicate ((4096 - length file mod 4096) mod 4096) 0"

definition data_file :: "u8 list \<Rightarrow> log_error + unit" where
  "data_file file =
     (let m = mapped file
      in if length file = 0 then Inl System_error
         else if bytes_at 8 4 m \<noteq> DATA_FILE_MAGIC_1 then Inl Wrong_magic_1
         else if bytes_at 12 4 m \<noteq> DATA_FILE_MAGIC_2 then Inl Wrong_magic_2
         else if bytes_at 0 4 m \<noteq> data_file_type_header then Inl Wrong_header_type
         else if bytes_at 16 4 m \<noteq> data_file_type_data then Inl Wrong_data_type
         else Inr ())"

definition df_count :: "u8 list \<Rightarrow> int" where
  "df_count file = uint ((of_nat (length file) - 16 - 24 :: u32) div 24)"

definition df_frame :: "u8 list \<Rightarrow> int \<Rightarrow> log_error + data_file_frame_entry" where
  "df_frame file idx =
     (if idx < 0 \<or> idx > df_count file - 1 then Inl Index_out_of_bounds
      else let off = 16 + 24 + 24 * nat idx
           in if off + 24 > length (mapped file) then Inl Bus_error
              else Inr (entry_of_bytes (take 24 (drop off (mapped file)))))"

section \<open>Searching a log\<close>






section \<open>What a log holds\<close>

text \<open>The entry of a packet, and the file with the entries \<open>es\<close>; \<open>last_timestamp\<close> is always 0.\<close>

definition logged :: "u32 \<times> CANFrame \<Rightarrow> data_file_frame_entry" where
  "logged p = (let f = frame_read_from (snd p)
     in \<lparr>fe_timestamp = scast (fst p), fe_src = m_src f, fe_dst = m_dst f, fe_proto = ucast (m_proto f), fe_size = ucast (m_size f),
         fe_data = map (frame_data f) [0..<8]\<rparr>)"

definition log_file :: "nat \<Rightarrow> nat \<Rightarrow> data_file_frame_entry list \<Rightarrow> u8 list" where
  "log_file t sz es = header_bytes data_file_type_header 16 DATA_FILE_MAGIC_1 DATA_FILE_MAGIC_2 @
     data_bytes data_file_type_data sz t 0 @ concat (map entry_bytes es)"

definition entries_ok :: "data_file_frame_entry list \<Rightarrow> bool" where
  "entries_ok es \<longleftrightarrow> list_all (\<lambda>e. length (fe_data e) = 8) es"

lemma header_length [simp]: "length (header_bytes a b c d) = 16" "length (data_bytes a b c d) = 24"
  by (simp_all add: header_bytes_def data_bytes_def)

lemma entry_length [simp]: "length (fe_data e) = 8 \<Longrightarrow> length (entry_bytes e) = 24"
  by (simp add: entry_bytes_def)

lemma entries_length [simp]: "entries_ok es \<Longrightarrow> length (concat (map entry_bytes es)) = 24 * length es"
  by (induction es) (auto simp: entries_ok_def)

lemma header_fields [simp]:
  "a < 2 ^ 32 \<Longrightarrow> bytes_at 0 4 (header_bytes a b c d @ r) = a" "b < 2 ^ 32 \<Longrightarrow> bytes_at 4 4 (header_bytes a b c d @ r) = b"
  "c < 2 ^ 32 \<Longrightarrow> bytes_at 8 4 (header_bytes a b c d @ r) = c" "d < 2 ^ 32 \<Longrightarrow> bytes_at 12 4 (header_bytes a b c d @ r) = d"
  "a < 2 ^ 32 \<Longrightarrow> bytes_at 0 4 (data_bytes a b x y @ r) = a"
  by (simp_all add: header_bytes_def data_bytes_def)

lemmas header_fields0 [simp] = header_fields [where r = "[]", simplified]

lemma unat_u64_less: "unat (t :: 64 word) < 256 ^ 8"
proof -
  have "unat t < 2 ^ LENGTH(64)" by (rule unsigned_less)
  then show ?thesis by simp
qed

lemma unat_u16_bytes: "unat (t :: u16) < 256 ^ 2"
  using unat_u16_less [of t] by simp

lemma entry_round:
  assumes "length (fe_data e) = 8"
  shows "entry_of_bytes (entry_bytes e @ r) = e" "bytes_at 0 8 (entry_bytes e @ r) = unat (fe_timestamp e)"
  using assms unat_u64_less [of "fe_timestamp e"] unat_u16_bytes
  by (simp_all add: entry_of_bytes_def entry_bytes_def)

lemma logged_ok [simp]: "length (fe_data (logged p)) = 8"
  by (simp add: logged_def Let_def)

lemma log_file_length [simp]: "entries_ok es \<Longrightarrow> length (log_file t sz es) = 40 + 24 * length es"
  by (simp add: log_file_def)

lemma log_file_fields [simp]:
  "bytes_at 0 4 (log_file t sz es) = 1" "bytes_at 4 4 (log_file t sz es) = 16" "bytes_at 8 4 (log_file t sz es) = DATA_FILE_MAGIC_1"
  "bytes_at 12 4 (log_file t sz es) = DATA_FILE_MAGIC_2" "bytes_at 16 4 (log_file t sz es) = 2"
  by (simp_all add: log_file_def)

lemma bytes_at_take [simp]: "off + n \<le> m \<Longrightarrow> bytes_at off n (take m b) = bytes_at off n b"
  by (simp add: bytes_at_def drop_take min_absorb1)

lemma bytes_at_drop [simp]: "bytes_at off n (drop k b) = bytes_at (off + k) n b"
  by (simp add: bytes_at_def)

lemma writer_on_log:
  assumes "entries_ok es"
  shows "data_file_writer now (log_file t sz es) = Inr \<lparr>f_bytes = log_file t sz es, f_pos = length (log_file t sz es)\<rparr>"
  using assms
  by (simp add: data_file_writer_def check_if_file_valid_def seek_set_def seek_end_def file_read_def Let_def)

lemma writer_on_new:
  "data_file_writer now [] = Inr \<lparr>f_bytes = log_file (unat (scast now :: 64 word)) 24 [], f_pos = 40\<rparr>"
  by (simp add: data_file_writer_def setup_file_def file_write_def log_file_def)

lemma swd_frame_appends:
  "f_pos w = length (f_bytes w) \<Longrightarrow> swd_frame now cf w =
     \<lparr>f_bytes = f_bytes w @ entry_bytes (logged (now, cf)), f_pos = length (f_bytes w) + 24\<rparr>"
  by (simp add: swd_frame_def write_frame_def file_write_def logged_def Let_def entry_bytes_def)

lemma swd_frames_append:
  "fold (\<lambda>(now, cf). swd_frame now cf) ps \<lparr>f_bytes = b, f_pos = length b\<rparr> =
     \<lparr>f_bytes = b @ concat (map entry_bytes (map logged ps)), f_pos = length b + 24 * length ps\<rparr>"
proof (induction ps arbitrary: b)
  case (Cons p ps)
  obtain now cf where p: "p = (now, cf)" by fastforce
  have "swd_frame now cf \<lparr>f_bytes = b, f_pos = length b\<rparr> =
      \<lparr>f_bytes = b @ entry_bytes (logged p), f_pos = length (b @ entry_bytes (logged p))\<rparr>"
    by (simp add: swd_frame_appends p)
  then show ?case using Cons.IH [of "b @ entry_bytes (logged p)"] by (simp add: p)
qed simp

lemma sync_log:
  assumes "entries_ok es" "40 + 24 * length es < 2 ^ 31"
  shows "\<exists>t'. sync_file \<lparr>f_bytes = log_file t sz es, f_pos = p\<rparr> =
     Inr \<lparr>f_bytes = log_file t' (24 + 24 * length es) es, f_pos = 40 + 24 * length es\<rparr>"
proof -
  let ?b = "log_file t sz es"
  have sz: "unat (of_nat (40 + 24 * length es) - of_nat 16 :: u32) = 24 + 24 * length es"
  proof -
    have "(of_nat (40 + 24 * length es) - of_nat 16 :: u32) = of_nat (24 + 24 * length es)" by simp
    moreover have "unat (of_nat (24 + 24 * length es) :: u32) = 24 + 24 * length es"
      using assms(2) by (simp only: unat_of_nat) simp
    ultimately show ?thesis by simp
  qed
  have oldest: "bytes_at 40 8 ?b = unat (fe_timestamp (hd es))" if "es \<noteq> []"
    using that assms(1) by (cases es) (auto simp: log_file_def entries_ok_def entry_round)
  have "take 16 ?b = header_bytes data_file_type_header 16 DATA_FILE_MAGIC_1 DATA_FILE_MAGIC_2"
    and "drop 32 ?b = le_bytes 8 0 @ concat (map entry_bytes es)"
    by (simp_all add: log_file_def data_bytes_def)
  moreover have "take 16 (data_bytes 2 s a b) = le_bytes 4 2 @ le_bytes 4 s @ le_bytes 8 a" for s a b
    by (simp add: data_bytes_def)
  ultimately have wr: "file_write (take 16 (data_bytes 2 s a b)) \<lparr>f_bytes = ?b, f_pos = 16\<rparr> =
      \<lparr>f_bytes = log_file a s es, f_pos = 32\<rparr>" for s a b
    using assms(1) by (simp add: file_write_def log_file_def data_bytes_def)
  show ?thesis
  proof (cases "es = []")
    case True
    show ?thesis unfolding sync_file_def seek_end_def seek_set_def file_read_def write_data_block_def Let_def
      using assms wr True sz by (simp, blast)
  next
    case False
    then have "min (24 * length es) 24 = 24" by (cases es) auto
    then show ?thesis unfolding sync_file_def seek_end_def seek_set_def file_read_def write_data_block_def Let_def
      using assms wr False sz oldest by (simp, blast)
  qed
qed

lemma run_on_log:
  assumes "bs = [] \<and> es = [] \<or> bs = log_file t sz es" "entries_ok es" "40 + 24 * (length es + length (run_packets r)) < 2 ^ 31"
  shows "\<exists>t' sz'. run_standard_mode r bs = Inr (log_file t' sz' (es @ map logged (run_packets r)))"
proof -
  obtain t1 sz1 where w: "data_file_writer (run_start r) bs = Inr \<lparr>f_bytes = log_file t1 sz1 es, f_pos = length (log_file t1 sz1 es)\<rparr>"
    using assms(1) writer_on_new writer_on_log [OF assms(2)] assms(2) by auto
  let ?es = "es @ map logged (run_packets r)"
  have ok: "entries_ok ?es" using assms(2) by (auto simp: entries_ok_def list_all_iff)
  have "log_file t1 sz1 es @ concat (map entry_bytes (map logged (run_packets r))) = log_file t1 sz1 ?es"
    by (simp add: log_file_def)
  then have f: "fold (\<lambda>(now, cf). swd_frame now cf) (run_packets r) \<lparr>f_bytes = log_file t1 sz1 es, f_pos = length (log_file t1 sz1 es)\<rparr> =
      \<lparr>f_bytes = log_file t1 sz1 ?es, f_pos = length (log_file t1 sz1 es) + 24 * length (run_packets r)\<rparr>"
    using swd_frames_append by simp
  show ?thesis
    using sync_log [OF ok, of t1 sz1 "length (log_file t1 sz1 es) + 24 * length (run_packets r)"] assms(3)
    by (cases "run_ends r") (fastforce simp: run_standard_mode_def w f Let_def)+
qed

lemma runs_on_log:
  assumes "rs \<noteq> []" "bs = [] \<and> es = [] \<or> bs = log_file t sz es" "entries_ok es"
    "40 + 24 * (length es + length (concat (map run_packets rs))) < 2 ^ 31"
  shows "\<exists>t' sz'. run_all rs bs = Inr (log_file t' sz' (es @ map logged (concat (map run_packets rs))))"
  using assms
proof (induction rs arbitrary: bs es t sz)
  case (Cons r rs)
  obtain t1 sz1 where r: "run_standard_mode r bs = Inr (log_file t1 sz1 (es @ map logged (run_packets r)))"
    using run_on_log [of bs es t sz r] Cons.prems by auto
  have ok: "entries_ok (es @ map logged (run_packets r))" using Cons.prems(3) by (auto simp: entries_ok_def list_all_iff)
  show ?case
  proof (cases "rs = []")
    case True
    then show ?thesis using r by auto
  next
    case False
    then obtain t2 sz2 where "run_all rs (log_file t1 sz1 (es @ map logged (run_packets r))) =
        Inr (log_file t2 sz2 ((es @ map logged (run_packets r)) @ map logged (concat (map run_packets rs))))"
      using Cons.IH [OF False disjI2 [OF refl] ok, of t1 sz1] Cons.prems(4) by (auto simp: algebra_simps)
    then show ?thesis using r by auto
  qed
qed simp

section \<open>Reading a log\<close>

lemma data_file_log: "entries_ok es \<Longrightarrow> data_file (log_file t sz es) = Inr ()"
proof -
  assume ok: "entries_ok es"
  have "bytes_at off 4 (mapped (log_file t sz es)) = bytes_at off 4 (log_file t sz es)" if "off \<le> 36" for off
    using that ok by (simp add: mapped_def bytes_at_def)
  then show ?thesis using ok by (simp add: data_file_def Let_def)
qed

lemma count_log:
  assumes "entries_ok es" "40 + 24 * length es < 2 ^ 31"
  shows "df_count (log_file t sz es) = int (length es)"
proof -
  have "(of_nat (length (log_file t sz es)) - 16 - 24 :: u32) = of_nat (24 * length es)" using assms(1) by simp
  moreover have "unat (of_nat (24 * length es) :: u32) = 24 * length es" using assms(2) by (simp only: unat_of_nat) simp
  ultimately have "unat ((of_nat (length (log_file t sz es)) - 16 - 24 :: u32) div 24) = length es" by (simp add: unat_div)
  then show ?thesis unfolding df_count_def by (metis uint_nat)
qed

lemma entries_drop:
  assumes "entries_ok es" "i < length es"
  shows "drop (24 * i) (concat (map entry_bytes es)) = entry_bytes (es ! i) @ concat (map entry_bytes (drop (Suc i) es))"
  using assms
proof (induction i arbitrary: es)
  case 0
  then show ?case by (cases es) auto
next
  case (Suc i)
  then obtain e es' where es: "es = e # es'" by (cases es) auto
  then have "length (entry_bytes e) = 24" "entries_ok es'" using Suc.prems by (auto simp: entries_ok_def)
  then show ?case using Suc.IH [of es'] Suc.prems(2) by (simp add: es)
qed

lemma frame_log:
  assumes "entries_ok es" "40 + 24 * length es < 2 ^ 31"
  shows "df_frame (log_file t sz es) i = (if 0 \<le> i \<and> i < int (length es) then Inr (es ! nat i) else Inl Index_out_of_bounds)"
proof (cases "0 \<le> i \<and> i < int (length es)")
  case True
  let ?f = "log_file t sz es"
  define k where "k = nat i"
  have k: "k < length es" using True by (auto simp: k_def nat_less_iff)
  have len: "length (entry_bytes (es ! k)) = 24" using assms(1) k by (simp add: entries_ok_def list_all_length)
  have "drop (40 + 24 * k) ?f = entry_bytes (es ! k) @ concat (map entry_bytes (drop (Suc k) es))"
    using entries_drop [OF assms(1) k] by (simp add: log_file_def)
  moreover have "40 + 24 * k + 24 \<le> length ?f" using assms(1) k by simp
  ultimately have "take 24 (drop (40 + 24 * k) (mapped ?f)) = entry_bytes (es ! k)"
    using len by (simp add: mapped_def)
  then have "entry_of_bytes (take 24 (drop (40 + 24 * k) (mapped ?f))) = es ! k"
    using entry_round(1) [of "es ! k" "[]"] assms(1) k by (simp add: entries_ok_def list_all_length)
  moreover have "\<not> 40 + 24 * k + 24 > length (mapped ?f)" using \<open>40 + 24 * k + 24 \<le> length ?f\<close> by (simp add: mapped_def)
  ultimately show ?thesis using True count_log [OF assms] by (simp add: df_frame_def Let_def k_def nat_less_iff)
next
  case False
  then show ?thesis using count_log [OF assms] by (auto simp: df_frame_def)
qed

text \<open>C22: The log is complete: whatever runs of the daemon wrote it, ended in order or killed, as long as it is
  smaller than 2 GB, the reader accepts the file, counts one frame for every packet received and returns them in the
  order of their arrival, and any other index is an error. The time of the last frame is never stored in the data
  block, though the destructor computes it.\<close>

theorem log_holds_every_frame:
  assumes "rs \<noteq> []" "ps = concat (map run_packets rs)" "40 + 24 * length ps < 2 ^ 31"
  shows "\<exists>file. run_all rs [] = Inr file \<and> data_file file = Inr () \<and> df_count file = int (length ps) \<and>
    (\<forall>i. df_frame file i = (if 0 \<le> i \<and> i < int (length ps) then Inr (logged (ps ! nat i)) else Inl Index_out_of_bounds)) \<and>
    bytes_at 32 8 file = 0"
proof -
  obtain t sz where r: "run_all rs [] = Inr (log_file t sz (map logged ps))"
    using runs_on_log [of rs "[]" "[]" 0 0] assms by (auto simp: entries_ok_def)
  have ok: "entries_ok (map logged ps)" by (simp add: entries_ok_def list_all_iff)
  have len: "40 + 24 * length (map logged ps) < 2 ^ 31" using assms(3) by simp
  have "bytes_at 32 8 (log_file t sz (map logged ps)) = 0" by (simp add: log_file_def data_bytes_def)
  then show ?thesis using r data_file_log [OF ok] count_log [OF ok len] frame_log [OF ok len]
    by (auto simp: nat_less_iff)
qed








text \<open>Two runs, the first one killed: a temperature, a ping and another temperature.\<close>

definition ex_runs :: "swd_run list" where
  "ex_runs =
    [\<lparr>run_start = 1000, run_packets =
        [(1001, \<lparr>cf_id = 0x3109014, cf_size = 5, cf_data = [5, 34, 7, 1, 64, 0, 0, 0]\<rparr>), (1002, \<lparr>cf_id = 0x3100c15, cf_size = 2, cf_data = [1, 5]\<rparr>)],
      run_ends = False\<rparr>,
     \<lparr>run_start = 2000, run_packets = [(2001, \<lparr>cf_id = 0x3109014, cf_size = 5, cf_data = [5, 34, 7, 1, 66]\<rparr>)], run_ends = True\<rparr>]"

lemma ex_runs_packets: "concat (map run_packets ex_runs) =
    [(1001, \<lparr>cf_id = 0x3109014, cf_size = 5, cf_data = [5, 34, 7, 1, 64, 0, 0, 0]\<rparr>), (1002, \<lparr>cf_id = 0x3100c15, cf_size = 2, cf_data = [1, 5]\<rparr>),
     (2001, \<lparr>cf_id = 0x3109014, cf_size = 5, cf_data = [5, 34, 7, 1, 66]\<rparr>)]"
  by (simp add: ex_runs_def)

theorem log_holds_every_frame_witness:
  "\<exists>file. run_all ex_runs [] = Inr file \<and> df_count file = 3 \<and> df_frame file 3 = Inl Index_out_of_bounds \<and>
     df_frame file 2 = Inr \<lparr>fe_timestamp = 2001, fe_src = 20, fe_dst = 36, fe_proto = 1, fe_size = 5, fe_data = [5, 34, 7, 1, 66, 0, 0, 0]\<rparr>"
proof -
  have "logged (2001, \<lparr>cf_id = 0x3109014, cf_size = 5, cf_data = [5, 34, 7, 1, 66]\<rparr>) =
      \<lparr>fe_timestamp = 2001, fe_src = 20, fe_dst = 36, fe_proto = 1, fe_size = 5, fe_data = [5, 34, 7, 1, 66, 0, 0, 0]\<rparr>"
    by code_simp
  moreover have "ex_runs \<noteq> []" "length (concat (map run_packets ex_runs)) = 3"
    by (simp add: ex_runs_def) (simp add: ex_runs_packets)
  ultimately show ?thesis
    using log_holds_every_frame [of ex_runs, OF _ refl] by (auto simp: ex_runs_packets)
qed


end
