(* ===== verification/Log_Archive.thy ===== *)
theory Log_Archive
  imports Data_File
begin

text \<open>
  The archive mode of the logging daemon (\<open>hcanswd/main.cc\<close>, \<open>run_archive_mode\<close>): one log for every day, closed and
  opened anew at the change of the day and at \<open>SIGHUP\<close>, and the end at \<open>SIGINT\<close> or \<open>SIGTERM\<close>. The signals only set
  flags (a blocked \<open>recv\<close> is restarted), which the loop looks at after the next frame. The name of the file of a time
  (\<open>generate_filename\<close>, with \<open>localtime\<close> of the host) is the parameter \<open>day\<close>; the clock does not tick within a pass.
\<close>

section \<open>The loop\<close>

datatype swd_event = Packet u32 CANFrame | Sig_hup | Sig_quit

text \<open>The directory with the closed files, and the file that is open.\<close>

record archive =
  ar_files :: "string \<rightharpoonup> u8 list"
  ar_name :: string
  ar_w :: posix_file
  signal_quit :: bool
  signal_reload :: bool

datatype archive_state = Running archive | Ended "string \<rightharpoonup> u8 list"

definition archive_open :: "(u32 \<Rightarrow> string) \<Rightarrow> u32 \<Rightarrow> (string \<rightharpoonup> u8 list) \<Rightarrow> log_error + archive_state" where
  "archive_open day now fs =
     bind_log (data_file_writer now (case fs (day now) of None \<Rightarrow> [] | Some f \<Rightarrow> f))
       (\<lambda>w. Inr (Running \<lparr>ar_files = fs, ar_name = day now, ar_w = w, signal_quit = False, signal_reload = False\<rparr>))"

definition archive_close :: "archive \<Rightarrow> log_error + (string \<rightharpoonup> u8 list)" where
  "archive_close a = bind_log (sync_file (ar_w a)) (\<lambda>w. Inr ((ar_files a)(ar_name a \<mapsto> f_bytes w)))"

fun archive_step :: "(u32 \<Rightarrow> string) \<Rightarrow> swd_event \<Rightarrow> archive_state \<Rightarrow> log_error + archive_state" where
  "archive_step day ev (Ended fs) = Inr (Ended fs)"
| "archive_step day Sig_hup (Running a) = Inr (Running (a\<lparr>signal_reload := True\<rparr>))"
| "archive_step day Sig_quit (Running a) = Inr (Running (a\<lparr>signal_quit := True\<rparr>))"
| "archive_step day (Packet now cf) (Running a) =
     (let a = a\<lparr>ar_w := swd_frame now cf (ar_w a)\<rparr>
      in if day now \<noteq> ar_name a \<or> signal_quit a \<or> signal_reload a
         then bind_log (archive_close a) (\<lambda>fs. if signal_quit a then Inr (Ended fs) else archive_open day now fs)
         else Inr (Running a))"

fun archive_steps :: "(u32 \<Rightarrow> string) \<Rightarrow> swd_event list \<Rightarrow> archive_state \<Rightarrow> log_error + archive_state" where
  "archive_steps day [] s = Inr s"
| "archive_steps day (e # es) s = bind_log (archive_step day e s) (archive_steps day es)"

definition run_archive_mode :: "(u32 \<Rightarrow> string) \<Rightarrow> u32 \<Rightarrow> swd_event list \<Rightarrow> (string \<rightharpoonup> u8 list) \<Rightarrow> log_error + archive_state" where
  "run_archive_mode day now evs fs = bind_log (archive_open day now fs) (archive_steps day evs)"

section \<open>What is in the files\<close>

fun packets :: "swd_event list \<Rightarrow> (u32 \<times> CANFrame) list" where
  "packets [] = []" | "packets (Packet now cf # es) = (now, cf) # packets es" | "packets (_ # es) = packets es"

text \<open>The packets that go to the file \<open>n\<close>, if the one before came, or the daemon was started, at the time \<open>t\<close>.\<close>

fun assigned :: "(u32 \<Rightarrow> string) \<Rightarrow> string \<Rightarrow> u32 \<Rightarrow> (u32 \<times> CANFrame) list \<Rightarrow> (u32 \<times> CANFrame) list" where
  "assigned day n t [] = []"
| "assigned day n t (p # ps) = (if day t = n then [p] else []) @ assigned day n (fst p) ps"

text \<open>A file that the reader takes for the log of the entries \<open>es\<close>; a file that is missing has none.\<close>

definition log_has :: "u8 list option \<Rightarrow> data_file_frame_entry list \<Rightarrow> bool" where
  "log_has fo es \<longleftrightarrow> (case fo of None \<Rightarrow> es = []
     | Some f \<Rightarrow> data_file f = Inr () \<and> df_count f = int (length es) \<and> (\<forall>i < length es. df_frame f (int i) = Inr (es ! i)))"

definition archive_file :: "archive \<Rightarrow> string \<rightharpoonup> u8 list" where
  "archive_file a = (ar_files a)(ar_name a \<mapsto> f_bytes (ar_w a))"

definition is_log :: "u8 list option \<Rightarrow> data_file_frame_entry list \<Rightarrow> bool" where
  "is_log fo es \<longleftrightarrow> entries_ok es \<and> (case fo of None \<Rightarrow> es = [] | Some f \<Rightarrow> \<exists>t sz. f = log_file t sz es)"

lemma is_log_simps [simp]: "is_log None es \<longleftrightarrow> es = []" "is_log (Some (log_file t sz es)) es \<longleftrightarrow> entries_ok es"
  by (auto simp: is_log_def entries_ok_def)

lemma is_log_ok: "is_log fo es \<Longrightarrow> entries_ok es"
  by (simp add: is_log_def)

lemma is_log_SomeE:
  assumes "is_log (Some f) es"
  obtains t sz where "f = log_file t sz es" "entries_ok es"
  using assms by (auto simp: is_log_def)

lemma is_log_has: "is_log fo es \<Longrightarrow> 40 + 24 * length es < 2 ^ 31 \<Longrightarrow> log_has fo es"
  using data_file_log [of es] count_log [of es] frame_log [of es]
  by (fastforce simp: is_log_def log_has_def split: option.splits)

definition arch_ok :: "(u32 \<Rightarrow> string) \<Rightarrow> u32 \<Rightarrow> archive \<Rightarrow> (string \<Rightarrow> data_file_frame_entry list) \<Rightarrow> bool" where
  "arch_ok day t a E \<longleftrightarrow> ar_name a = day t \<and> f_pos (ar_w a) = length (f_bytes (ar_w a)) \<and> (\<forall>n. is_log (archive_file a n) (E n))"

lemma arch_ok_flags [simp]:
  "arch_ok day t (a\<lparr>signal_reload := b\<rparr>) E = arch_ok day t a E" "arch_ok day t (a\<lparr>signal_quit := b\<rparr>) E = arch_ok day t a E"
  by (simp_all add: arch_ok_def archive_file_def)

lemma archive_opens:
  assumes "\<forall>n. is_log (fs n) (E n)"
  shows "\<exists>a. archive_open day now fs = Inr (Running a) \<and> arch_ok day now a E \<and> \<not> signal_quit a"
proof -
  let ?n = "day now"
  have ok: "entries_ok (E ?n)" using assms is_log_ok by blast
  have "\<exists>t sz. data_file_writer now (case fs ?n of None \<Rightarrow> [] | Some f \<Rightarrow> f) =
      Inr \<lparr>f_bytes = log_file t sz (E ?n), f_pos = length (log_file t sz (E ?n))\<rparr>"
  proof (cases "fs ?n")
    case None
    then have "E ?n = []" using assms is_log_simps(1) by metis
    then show ?thesis using None writer_on_new [of now] by (auto simp: entries_ok_def)
  next
    case (Some f)
    then obtain t sz where "f = log_file t sz (E ?n)" using assms by (metis is_log_SomeE)
    then have "data_file_writer now f = Inr \<lparr>f_bytes = log_file t sz (E ?n), f_pos = length (log_file t sz (E ?n))\<rparr>"
      using writer_on_log [OF ok] by simp
    then show ?thesis using Some by auto
  qed
  then obtain t sz where "archive_open day now fs = Inr (Running \<lparr>ar_files = fs, ar_name = ?n,
      ar_w = \<lparr>f_bytes = log_file t sz (E ?n), f_pos = length (log_file t sz (E ?n))\<rparr>, signal_quit = False, signal_reload = False\<rparr>)"
    by (auto simp: archive_open_def)
  then show ?thesis using assms ok by (simp add: arch_ok_def archive_file_def)
qed

lemma arch_ok_open:
  assumes "arch_ok day t a E"
  shows "\<exists>t1 sz1. f_bytes (ar_w a) = log_file t1 sz1 (E (day t))" "entries_ok (E (day t))" "ar_name a = day t"
    "f_pos (ar_w a) = length (f_bytes (ar_w a))" "n \<noteq> day t \<Longrightarrow> is_log (ar_files a n) (E n)"
proof -
  have "is_log (archive_file a (day t)) (E (day t))" "is_log (archive_file a n) (E n)" using assms by (simp_all add: arch_ok_def)
  then show "\<exists>t1 sz1. f_bytes (ar_w a) = log_file t1 sz1 (E (day t))" "entries_ok (E (day t))"
    "n \<noteq> day t \<Longrightarrow> is_log (ar_files a n) (E n)"
    using assms by (auto simp: arch_ok_def archive_file_def is_log_def)
qed (use assms in \<open>simp_all add: arch_ok_def\<close>)

lemma archive_closes:
  assumes "arch_ok day t a E" "40 + 24 * length (E (day t)) < 2 ^ 31"
  shows "\<exists>fs. archive_close a = Inr fs \<and> (\<forall>n. is_log (fs n) (E n))"
proof -
  note ok = arch_ok_open [OF assms(1)]
  obtain t1 sz1 where f: "f_bytes (ar_w a) = log_file t1 sz1 (E (day t))" using ok(1) by auto
  have w: "ar_w a = \<lparr>f_bytes = log_file t1 sz1 (E (day t)), f_pos = f_pos (ar_w a)\<rparr>" using f by simp
  obtain t2 where "sync_file (ar_w a) = Inr \<lparr>f_bytes = log_file t2 (24 + 24 * length (E (day t))) (E (day t)),
      f_pos = 40 + 24 * length (E (day t))\<rparr>"
    using sync_log [OF ok(2) assms(2), of t1 sz1 "f_pos (ar_w a)"] w by metis
  then show ?thesis using ok by (simp add: archive_close_def)
qed

lemma packet_appends:
  assumes "arch_ok day t a E"
  shows "arch_ok day t (a\<lparr>ar_w := swd_frame now cf (ar_w a)\<rparr>) (E(day t := E (day t) @ [logged (now, cf)]))"
proof -
  note ok = arch_ok_open [OF assms]
  obtain t1 sz1 where f: "f_bytes (ar_w a) = log_file t1 sz1 (E (day t))" using ok(1) by auto
  then have f': "f_bytes (ar_w a) @ entry_bytes (logged (now, cf)) = log_file t1 sz1 (E (day t) @ [logged (now, cf)])"
    by (simp add: log_file_def)
  have e: "entries_ok (E (day t) @ [logged (now, cf)])" using ok(2) by (simp add: entries_ok_def)
  have "is_log (Some (f_bytes (ar_w a) @ entry_bytes (logged (now, cf)))) (E (day t) @ [logged (now, cf)])"
    unfolding f' using e by simp
  then show ?thesis using ok by (simp add: arch_ok_def archive_file_def swd_frame_appends)
qed

lemma archive_packet:
  assumes "arch_ok day t a E" "\<And>n. 40 + 24 * (length (E n) + 1) < 2 ^ 31"
    and E'_def: "E' = E(day t := E (day t) @ [logged (now, cf)])"
  shows "\<not> signal_quit a \<Longrightarrow> \<exists>a'. archive_step day (Packet now cf) (Running a) = Inr (Running a') \<and> arch_ok day now a' E' \<and> \<not> signal_quit a'"
    "signal_quit a \<Longrightarrow> \<exists>fs. archive_step day (Packet now cf) (Running a) = Inr (Ended fs) \<and> (\<forall>n. is_log (fs n) (E' n))"
proof -
  let ?a = "a\<lparr>ar_w := swd_frame now cf (ar_w a)\<rparr>"
  have ok: "arch_ok day t ?a E'" unfolding E'_def by (rule packet_appends [OF assms(1)])
  have "40 + 24 * length (E' (day t)) < 2 ^ 31" using assms(2) [of "day t"] by (simp add: E'_def)
  then obtain fs where fs: "archive_close ?a = Inr fs" "\<forall>n. is_log (fs n) (E' n)" using archive_closes [OF ok] by auto
  show "\<exists>fs. archive_step day (Packet now cf) (Running a) = Inr (Ended fs) \<and> (\<forall>n. is_log (fs n) (E' n))" if "signal_quit a"
    using fs that by (simp add: Let_def)
  show "\<exists>a'. archive_step day (Packet now cf) (Running a) = Inr (Running a') \<and> arch_ok day now a' E' \<and> \<not> signal_quit a'" if "\<not> signal_quit a"
  proof (cases "day now \<noteq> ar_name a \<or> signal_reload a")
    case True
    then show ?thesis using fs that archive_opens [OF fs(2), of day now] by (simp add: Let_def)
  next
    case False
    then have "day now = day t" using assms(1) by (simp add: arch_ok_def)
    then have "arch_ok day now ?a E'" using ok by (simp add: arch_ok_def)
    then show ?thesis using False that by (simp add: Let_def)
  qed
qed

lemma archive_runs:
  assumes "arch_ok day t a E" "\<not> signal_quit a" "Sig_quit \<notin> set evs" "\<And>n. 40 + 24 * (length (E n) + length (packets evs)) < 2 ^ 31"
  shows "\<exists>a' t'. archive_steps day evs (Running a) = Inr (Running a') \<and> \<not> signal_quit a' \<and>
    arch_ok day t' a' (\<lambda>n. E n @ map logged (assigned day n t (packets evs))) \<and>
    (\<forall>n p. assigned day n t (packets evs @ [p]) = assigned day n t (packets evs) @ (if day t' = n then [p] else []))"
  using assms
proof (induction evs arbitrary: a t E)
  case (Cons ev evs)
  show ?case
  proof (cases ev)
    case (Packet now cf)
    let ?E = "E(day t := E (day t) @ [logged (now, cf)])"
    have b: "40 + 24 * (length (E n) + 1) < 2 ^ 31" "40 + 24 * (length (?E n) + length (packets evs)) < 2 ^ 31" for n
      using Cons.prems(4) [of n] by (auto simp: Packet)
    obtain a1 where a1: "archive_step day (Packet now cf) (Running a) = Inr (Running a1)" "arch_ok day now a1 ?E" "\<not> signal_quit a1"
      using archive_packet(1) [OF Cons.prems(1) b(1) refl Cons.prems(2), of now cf] by auto
    have "(\<lambda>n. ?E n @ map logged (assigned day n now (packets evs))) =
        (\<lambda>n. E n @ map logged (assigned day n t ((now, cf) # packets evs)))"
      by (auto simp: fun_eq_iff)
    then show ?thesis using Cons.IH [OF a1(2,3) _ b(2)] Cons.prems(3) a1(1) by (simp add: Packet)
  next
    case Sig_hup
    have "arch_ok day t (a\<lparr>signal_reload := True\<rparr>) E" using Cons.prems(1) by simp
    then show ?thesis using Cons.IH [of t "a\<lparr>signal_reload := True\<rparr>" E] Cons.prems by (simp add: Sig_hup)
  next
    case Sig_quit
    then show ?thesis using Cons.prems(3) by simp
  qed
qed auto

text \<open>C24: The archive loses no frame: each frame received is in exactly one file of the directory, which is
  empty at first, the file of the day on which the frame before it came (or the daemon started), all of them in the
  order of their arrival, whatever signals ask for a new file in between, as long as all frames fit into 2 GB. After a
  signal to end, the next frame is still logged, and all files are closed. So the first frame after midnight is in the
  log of the day before.\<close>

theorem archive_loses_no_frame:
  assumes "Sig_quit \<notin> set evs" "40 + 24 * (length (packets evs) + 1) < 2 ^ 31"
  shows "(\<exists>a. run_archive_mode day t0 evs Map.empty = Inr (Running a) \<and>
      (\<forall>n. log_has (archive_file a n) (map logged (assigned day n t0 (packets evs))))) \<and>
    (\<exists>fs. run_archive_mode day t0 (evs @ [Sig_quit, Packet now cf]) Map.empty = Inr (Ended fs) \<and>
      (\<forall>n. log_has (fs n) (map logged (assigned day n t0 (packets evs @ [(now, cf)])))))"
proof -
  have asg: "length (assigned day n t ps) \<le> length ps" for n t ps
    by (induction ps arbitrary: t) (auto intro: le_SucI)
  obtain a0 where a0: "archive_open day t0 Map.empty = Inr (Running a0)" "arch_ok day t0 a0 (\<lambda>n. [])" "\<not> signal_quit a0"
    using archive_opens [of Map.empty "\<lambda>n. []" day t0] by auto
  obtain a t' where a: "archive_steps day evs (Running a0) = Inr (Running a)" "\<not> signal_quit a"
    "arch_ok day t' a (\<lambda>n. map logged (assigned day n t0 (packets evs)))"
    "\<And>n p. assigned day n t0 (packets evs @ [p]) = assigned day n t0 (packets evs) @ (if day t' = n then [p] else [])"
    using archive_runs [OF a0(2,3) assms(1)] assms(2) by auto
  let ?E = "\<lambda>n. map logged (assigned day n t0 (packets evs))"
  have b: "40 + 24 * (length (?E n) + 1) < 2 ^ 31" for n using assms(2) asg [of n t0 "packets evs"] by simp
  have log: "log_has fo es" if "is_log fo es" "length es \<le> length (packets evs) + 1" for fo es
    using is_log_has [OF that(1)] that(2) assms(2) by simp
  have "log_has (archive_file a n) (?E n)" for n
    using log [of "archive_file a n" "?E n"] a(3) asg [of n t0 "packets evs"] by (simp add: arch_ok_def)
  moreover have steps: "archive_steps day (evs @ es) s = bind_log (archive_steps day evs s) (archive_steps day es)" for s es
    by (induction evs arbitrary: s) (auto simp: bind_log_def split: sum.splits)
  have "arch_ok day t' (a\<lparr>signal_quit := True\<rparr>) ?E" using a(3) by simp
  then obtain fs where fs: "archive_step day (Packet now cf) (Running (a\<lparr>signal_quit := True\<rparr>)) = Inr (Ended fs)"
    "\<forall>n. is_log (fs n) ((?E(day t' := ?E (day t') @ [logged (now, cf)])) n)"
    using archive_packet(2) [where day = day and t = t' and a = "a\<lparr>signal_quit := True\<rparr>" and E = ?E and now = now and cf = cf, OF _ b refl]
    by auto
  have "(?E(day t' := ?E (day t') @ [logged (now, cf)])) n = map logged (assigned day n t0 (packets evs @ [(now, cf)]))" for n
    using a(4) by auto
  then have "is_log (fs n) (map logged (assigned day n t0 (packets evs @ [(now, cf)])))" for n using fs(2) by metis
  then have "log_has (fs n) (map logged (assigned day n t0 (packets evs @ [(now, cf)])))" for n
    using log asg [of n t0 "packets evs @ [(now, cf)]"] by simp
  ultimately show ?thesis using a(1) a0(1) fs(1) by (simp add: run_archive_mode_def steps)
qed

text \<open>Midnight between the second and the third frame.\<close>

definition ex_day :: "u32 \<Rightarrow> string" where
  "ex_day t = (if t < 86400 then ''20091229.hdump'' else ''20091230.hdump'')"

definition ex_events :: "swd_event list" where
  "ex_events = [Packet 86398 \<lparr>cf_id = 0x3100c15, cf_size = 2, cf_data = [1, 5]\<rparr>, Sig_hup,
     Packet 86399 \<lparr>cf_id = 0x3100c16, cf_size = 2, cf_data = [1, 5]\<rparr>, Packet 86400 \<lparr>cf_id = 0x3100c17, cf_size = 2, cf_data = [1, 5]\<rparr>,
     Packet 86401 \<lparr>cf_id = 0x3100c18, cf_size = 2, cf_data = [1, 5]\<rparr>]"

theorem archive_loses_no_frame_witness:
  "\<exists>a. run_archive_mode ex_day 86000 ex_events Map.empty = Inr (Running a) \<and>
    log_has (archive_file a ''20091229.hdump'') (map (\<lambda>i. logged (86398 + i, \<lparr>cf_id = 0x3100c15 + i, cf_size = 2, cf_data = [1, 5]\<rparr>)) [0, 1, 2]) \<and>
    log_has (archive_file a ''20091230.hdump'') [logged (86401, \<lparr>cf_id = 0x3100c18, cf_size = 2, cf_data = [1, 5]\<rparr>)]"
proof -
  have asg: "assigned ex_day ''20091229.hdump'' 86000 (packets ex_events) = map (\<lambda>i. (86398 + i, \<lparr>cf_id = 0x3100c15 + i, cf_size = 2, cf_data = [1, 5]\<rparr>)) [0, 1, 2]"
    "assigned ex_day ''20091230.hdump'' 86000 (packets ex_events) = [(86401, \<lparr>cf_id = 0x3100c18, cf_size = 2, cf_data = [1, 5]\<rparr>)]"
    by (simp_all add: ex_events_def ex_day_def)
  have "Sig_quit \<notin> set ex_events" "40 + 24 * (length (packets ex_events) + 1) < 2 ^ 31"
    by (simp_all add: ex_events_def)
  then obtain a where "run_archive_mode ex_day 86000 ex_events Map.empty = Inr (Running a)"
    "log_has (archive_file a n) (map logged (assigned ex_day n 86000 (packets ex_events)))" for n
    using archive_loses_no_frame [of ex_events, THEN conjunct1] by blast
  from this(1) this(2) [of "''20091229.hdump''"] this(2) [of "''20091230.hdump''"] show ?thesis
    unfolding asg by auto
qed

end
