(* ===== verification/Transport.thy ===== *)
theory Transport
  imports Hostlink
begin

text \<open>
  The messages of the protocol as the programs on the host send and receive them. \<open>libhcan++/hcan_transport.cc\<close> has a
  function \<open>send_X\<close> and a function \<open>recv_X\<close> for every message \<open>X\<close>: the one builds the frame from its parameters, the
  other waits for a frame to the own address (\<open>recv_frame\<close> of \<open>transport_connection.cc\<close>), checks its sender, size,
  service and command, and hands out the parameters. The theory has one definition for each of them. The values that
  \<open>recv_X\<close> stores through its pointers are the list of its result, in the order of the parameters.
\<close>

section \<open>The connection\<close>

text \<open>What the socket will deliver in time, and the rest of the world, which \<open>react\<close> (of the programs built on this)
  lets answer. A frame that is late is one that comes with a later reaction.\<close>

record 'p tconn =
  inbox :: "hframe list"
  peer :: 'p

datatype transport_error = Timeout | Wrong_src | Wrong_size | Wrong_service | Wrong_command

type_synonym ('p, 'a) host = "'p tconn \<Rightarrow> (transport_error + 'a) \<times> 'p tconn"
type_synonym 'p recv = "u16 \<Rightarrow> u16 \<Rightarrow> ('p, u8 list) host"

text \<open>Frames for others are passed over, at most 100000 frames at all.\<close>

fun recv_loop :: "nat \<Rightarrow> u16 \<Rightarrow> hframe list \<Rightarrow> (transport_error + hframe) \<times> hframe list" where
  "recv_loop counter dst [] = (Inl Timeout, [])"
| "recv_loop counter dst (f # fs) =
     (if counter = 0 then (Inl Timeout, f # fs)
      else if m_dst f \<noteq> dst then recv_loop (counter - 1) dst fs else (Inr f, fs))"

definition recv_frame :: "u16 \<Rightarrow> ('p, hframe) host" where
  "recv_frame dst c = (case recv_loop 100000 dst (inbox c) of (r, fs) \<Rightarrow> (r, c\<lparr>inbox := fs\<rparr>))"

definition recv_message :: "u16 \<Rightarrow> u16 \<Rightarrow> nat \<Rightarrow> u8 \<Rightarrow> u8 \<Rightarrow> ('p, u8 list) host" where
  "recv_message src dst n service command c =
     (case recv_frame dst c of
        (Inl e, c) \<Rightarrow> (Inl e, c)
      | (Inr f, c) \<Rightarrow>
          (if src \<noteq> 0 \<and> m_src f \<noteq> src then Inl Wrong_src
           else if m_size f \<noteq> of_nat n then Inl Wrong_size
           else if frame_data f 0 \<noteq> service then Inl Wrong_service
           else if frame_data f 1 \<noteq> command then Inl Wrong_command
           else Inr (map (frame_data f) [2..<n]), c))"

section \<open>The messages\<close>

definition send_PING_REQUEST :: "u16 \<Rightarrow> u16 \<Rightarrow> hframe" where
  "send_PING_REQUEST src dst = frame_array src dst 1 [1, 1] 2"

definition recv_PING_REQUEST :: "'p recv" where
  "recv_PING_REQUEST src dst c = recv_message src dst 2 1 1 c"

definition send_PING_REPLAY :: "u16 \<Rightarrow> u16 \<Rightarrow> hframe" where
  "send_PING_REPLAY src dst = frame_array src dst 1 [1, 2] 2"

definition recv_PING_REPLAY :: "'p recv" where
  "recv_PING_REPLAY src dst c = recv_message src dst 2 1 2 c"

definition send_DEVICE_STATE_REQUEST :: "u16 \<Rightarrow> u16 \<Rightarrow> hframe" where
  "send_DEVICE_STATE_REQUEST src dst = frame_array src dst 1 [1, 3] 2"

definition recv_DEVICE_STATE_REQUEST :: "'p recv" where
  "recv_DEVICE_STATE_REQUEST src dst c = recv_message src dst 2 1 3 c"

definition send_DEVICE_STATE_REPLAY :: "u16 \<Rightarrow> u16 \<Rightarrow> u8 \<Rightarrow> hframe" where
  "send_DEVICE_STATE_REPLAY src dst state = frame_array src dst 1 [1, 4, state] 3"

definition recv_DEVICE_STATE_REPLAY :: "'p recv" where
  "recv_DEVICE_STATE_REPLAY src dst c = recv_message src dst 3 1 4 c"

definition send_DEVICE_RESET :: "u16 \<Rightarrow> u16 \<Rightarrow> hframe" where
  "send_DEVICE_RESET src dst = frame_array src dst 1 [1, 5] 2"

definition recv_DEVICE_RESET :: "'p recv" where
  "recv_DEVICE_RESET src dst c = recv_message src dst 2 1 5 c"

definition send_DEVICE_BOOT_STOP :: "u16 \<Rightarrow> u16 \<Rightarrow> hframe" where
  "send_DEVICE_BOOT_STOP src dst = frame_array src dst 1 [1, 6] 2"

definition recv_DEVICE_BOOT_STOP :: "'p recv" where
  "recv_DEVICE_BOOT_STOP src dst c = recv_message src dst 2 1 6 c"

definition send_DEVICE_BOOT_STOP_ACK :: "u16 \<Rightarrow> u16 \<Rightarrow> hframe" where
  "send_DEVICE_BOOT_STOP_ACK src dst = frame_array src dst 1 [1, 7] 2"

definition recv_DEVICE_BOOT_STOP_ACK :: "'p recv" where
  "recv_DEVICE_BOOT_STOP_ACK src dst c = recv_message src dst 2 1 7 c"

definition send_DEVICE_LOAD_APP :: "u16 \<Rightarrow> u16 \<Rightarrow> hframe" where
  "send_DEVICE_LOAD_APP src dst = frame_array src dst 1 [1, 8] 2"

definition recv_DEVICE_LOAD_APP :: "'p recv" where
  "recv_DEVICE_LOAD_APP src dst c = recv_message src dst 2 1 8 c"

definition send_DEVICE_TYPE_REQUEST :: "u16 \<Rightarrow> u16 \<Rightarrow> hframe" where
  "send_DEVICE_TYPE_REQUEST src dst = frame_array src dst 1 [1, 9] 2"

definition recv_DEVICE_TYPE_REQUEST :: "'p recv" where
  "recv_DEVICE_TYPE_REQUEST src dst c = recv_message src dst 2 1 9 c"

definition send_DEVICE_TYPE_REPLAY :: "u16 \<Rightarrow> u16 \<Rightarrow> u8 \<Rightarrow> u8 \<Rightarrow> hframe" where
  "send_DEVICE_TYPE_REPLAY src dst arch type = frame_array src dst 1 [1, 10, arch, type] 4"

definition recv_DEVICE_TYPE_REPLAY :: "'p recv" where
  "recv_DEVICE_TYPE_REPLAY src dst c = recv_message src dst 4 1 10 c"

definition send_FLASH_BUFFER_FILL :: "u16 \<Rightarrow> u16 \<Rightarrow> u8 \<Rightarrow> u8 \<Rightarrow> u8 \<Rightarrow> u8 \<Rightarrow> u8 \<Rightarrow> hframe" where
  "send_FLASH_BUFFER_FILL src dst index d0 d1 d2 d3 = frame_array src dst 1 [1, 16, index, d0, d1, d2, d3] 7"

definition recv_FLASH_BUFFER_FILL :: "'p recv" where
  "recv_FLASH_BUFFER_FILL src dst c = recv_message src dst 7 1 16 c"

definition send_FLASH_BUFFER_FILL_ACK :: "u16 \<Rightarrow> u16 \<Rightarrow> hframe" where
  "send_FLASH_BUFFER_FILL_ACK src dst = frame_array src dst 1 [1, 17] 2"

definition recv_FLASH_BUFFER_FILL_ACK :: "'p recv" where
  "recv_FLASH_BUFFER_FILL_ACK src dst c = recv_message src dst 2 1 17 c"

definition send_FLASH_BUFFER_WRITE :: "u16 \<Rightarrow> u16 \<Rightarrow> u8 \<Rightarrow> u8 \<Rightarrow> hframe" where
  "send_FLASH_BUFFER_WRITE src dst addr_lsb addr_msb = frame_array src dst 1 [1, 18, addr_lsb, addr_msb] 4"

definition recv_FLASH_BUFFER_WRITE :: "'p recv" where
  "recv_FLASH_BUFFER_WRITE src dst c = recv_message src dst 4 1 18 c"

definition send_FLASH_BUFFER_WRITE_ACK :: "u16 \<Rightarrow> u16 \<Rightarrow> hframe" where
  "send_FLASH_BUFFER_WRITE_ACK src dst = frame_array src dst 1 [1, 19] 2"

definition recv_FLASH_BUFFER_WRITE_ACK :: "'p recv" where
  "recv_FLASH_BUFFER_WRITE_ACK src dst c = recv_message src dst 2 1 19 c"

definition send_INTERNAL_EEPROM_WRITE :: "u16 \<Rightarrow> u16 \<Rightarrow> u8 \<Rightarrow> u8 \<Rightarrow> u8 \<Rightarrow> hframe" where
  "send_INTERNAL_EEPROM_WRITE src dst addr_lsb addr_msb value = frame_array src dst 1 [1, 20, addr_lsb, addr_msb, value] 5"

definition recv_INTERNAL_EEPROM_WRITE :: "'p recv" where
  "recv_INTERNAL_EEPROM_WRITE src dst c = recv_message src dst 5 1 20 c"

definition send_INTERNAL_EEPROM_WRITE_ACK :: "u16 \<Rightarrow> u16 \<Rightarrow> hframe" where
  "send_INTERNAL_EEPROM_WRITE_ACK src dst = frame_array src dst 1 [1, 21] 2"

definition recv_INTERNAL_EEPROM_WRITE_ACK :: "'p recv" where
  "recv_INTERNAL_EEPROM_WRITE_ACK src dst c = recv_message src dst 2 1 21 c"

definition send_INTERNAL_EEPROM_READ_REQUEST :: "u16 \<Rightarrow> u16 \<Rightarrow> u8 \<Rightarrow> u8 \<Rightarrow> hframe" where
  "send_INTERNAL_EEPROM_READ_REQUEST src dst addr_lsb addr_msb = frame_array src dst 1 [1, 22, addr_lsb, addr_msb] 4"

definition recv_INTERNAL_EEPROM_READ_REQUEST :: "'p recv" where
  "recv_INTERNAL_EEPROM_READ_REQUEST src dst c = recv_message src dst 4 1 22 c"

definition send_INTERNAL_EEPROM_READ_REPLAY :: "u16 \<Rightarrow> u16 \<Rightarrow> u8 \<Rightarrow> hframe" where
  "send_INTERNAL_EEPROM_READ_REPLAY src dst value = frame_array src dst 1 [1, 23, value] 3"

definition recv_INTERNAL_EEPROM_READ_REPLAY :: "'p recv" where
  "recv_INTERNAL_EEPROM_READ_REPLAY src dst c = recv_message src dst 3 1 23 c"

definition send_INTERNAL_EEPROM_READ_BULK_REQUEST :: "u16 \<Rightarrow> u16 \<Rightarrow> u8 \<Rightarrow> u8 \<Rightarrow> hframe" where
  "send_INTERNAL_EEPROM_READ_BULK_REQUEST src dst addr_lsb addr_msb = frame_array src dst 1 [1, 24, addr_lsb, addr_msb] 4"

definition recv_INTERNAL_EEPROM_READ_BULK_REQUEST :: "'p recv" where
  "recv_INTERNAL_EEPROM_READ_BULK_REQUEST src dst c = recv_message src dst 4 1 24 c"

definition send_INTERNAL_EEPROM_READ_BULK_REPLAY :: "u16 \<Rightarrow> u16 \<Rightarrow> u8 \<Rightarrow> u8 \<Rightarrow> u8 \<Rightarrow> u8 \<Rightarrow> u8 \<Rightarrow> u8 \<Rightarrow> hframe" where
  "send_INTERNAL_EEPROM_READ_BULK_REPLAY src dst d0 d1 d2 d3 d4 d5 = frame_array src dst 1 [1, 25, d0, d1, d2, d3, d4, d5] 8"

definition recv_INTERNAL_EEPROM_READ_BULK_REPLAY :: "'p recv" where
  "recv_INTERNAL_EEPROM_READ_BULK_REPLAY src dst c = recv_message src dst 8 1 25 c"

definition send_UPTIME_QUERY :: "u16 \<Rightarrow> u16 \<Rightarrow> hframe" where
  "send_UPTIME_QUERY src dst = frame_array src dst 1 [1, 30] 2"

definition recv_UPTIME_QUERY :: "'p recv" where
  "recv_UPTIME_QUERY src dst c = recv_message src dst 2 1 30 c"

definition send_UPTIME_REPLAY :: "u16 \<Rightarrow> u16 \<Rightarrow> u8 \<Rightarrow> u8 \<Rightarrow> u8 \<Rightarrow> u8 \<Rightarrow> hframe" where
  "send_UPTIME_REPLAY src dst u3 u2 u1 u0 = frame_array src dst 1 [1, 31, u3, u2, u1, u0] 6"

definition recv_UPTIME_REPLAY :: "'p recv" where
  "recv_UPTIME_REPLAY src dst c = recv_message src dst 6 1 31 c"

definition send_SYSLOG_LEVEL_SET :: "u16 \<Rightarrow> u16 \<Rightarrow> u8 \<Rightarrow> hframe" where
  "send_SYSLOG_LEVEL_SET src dst level = frame_array src dst 1 [1, 32, level] 3"

definition recv_SYSLOG_LEVEL_SET :: "'p recv" where
  "recv_SYSLOG_LEVEL_SET src dst c = recv_message src dst 3 1 32 c"

definition send_BUILD_VERSION_QUERY :: "u16 \<Rightarrow> u16 \<Rightarrow> hframe" where
  "send_BUILD_VERSION_QUERY src dst = frame_array src dst 1 [1, 33] 2"

definition recv_BUILD_VERSION_QUERY :: "'p recv" where
  "recv_BUILD_VERSION_QUERY src dst c = recv_message src dst 2 1 33 c"

definition send_BUILD_VERSION_REPLAY :: "u16 \<Rightarrow> u16 \<Rightarrow> u8 \<Rightarrow> u8 \<Rightarrow> hframe" where
  "send_BUILD_VERSION_REPLAY src dst hi lo = frame_array src dst 1 [1, 34, hi, lo] 4"

definition recv_BUILD_VERSION_REPLAY :: "'p recv" where
  "recv_BUILD_VERSION_REPLAY src dst c = recv_message src dst 4 1 34 c"

definition send_CAN_EC_QUERY :: "u16 \<Rightarrow> u16 \<Rightarrow> hframe" where
  "send_CAN_EC_QUERY src dst = frame_array src dst 1 [1, 35] 2"

definition recv_CAN_EC_QUERY :: "'p recv" where
  "recv_CAN_EC_QUERY src dst c = recv_message src dst 2 1 35 c"

definition send_CAN_EC_REPLAY :: "u16 \<Rightarrow> u16 \<Rightarrow> u8 \<Rightarrow> u8 \<Rightarrow> hframe" where
  "send_CAN_EC_REPLAY src dst REC TEC = frame_array src dst 1 [1, 36, REC, TEC] 4"

definition recv_CAN_EC_REPLAY :: "'p recv" where
  "recv_CAN_EC_REPLAY src dst c = recv_message src dst 4 1 36 c"

definition send_FLASH_CRC16_QUERY :: "u16 \<Rightarrow> u16 \<Rightarrow> u8 \<Rightarrow> u8 \<Rightarrow> hframe" where
  "send_FLASH_CRC16_QUERY src dst hi lo = frame_array src dst 1 [1, 37, hi, lo] 4"

definition recv_FLASH_CRC16_QUERY :: "'p recv" where
  "recv_FLASH_CRC16_QUERY src dst c = recv_message src dst 4 1 37 c"

definition send_FLASH_CRC16_REPLAY :: "u16 \<Rightarrow> u16 \<Rightarrow> u8 \<Rightarrow> u8 \<Rightarrow> hframe" where
  "send_FLASH_CRC16_REPLAY src dst hi lo = frame_array src dst 1 [1, 38, hi, lo] 4"

definition recv_FLASH_CRC16_REPLAY :: "'p recv" where
  "recv_FLASH_CRC16_REPLAY src dst c = recv_message src dst 4 1 38 c"

definition send_LOOP_THROUGHPUT_QUERY :: "u16 \<Rightarrow> u16 \<Rightarrow> hframe" where
  "send_LOOP_THROUGHPUT_QUERY src dst = frame_array src dst 1 [1, 39] 2"

definition recv_LOOP_THROUGHPUT_QUERY :: "'p recv" where
  "recv_LOOP_THROUGHPUT_QUERY src dst c = recv_message src dst 2 1 39 c"

definition send_LOOP_THROUGHPUT_REPLAY :: "u16 \<Rightarrow> u16 \<Rightarrow> u8 \<Rightarrow> u8 \<Rightarrow> hframe" where
  "send_LOOP_THROUGHPUT_REPLAY src dst hi lo = frame_array src dst 1 [1, 40, hi, lo] 4"

definition recv_LOOP_THROUGHPUT_REPLAY :: "'p recv" where
  "recv_LOOP_THROUGHPUT_REPLAY src dst c = recv_message src dst 4 1 40 c"

definition send_RX_RECEIVED_QUERY :: "u16 \<Rightarrow> u16 \<Rightarrow> hframe" where
  "send_RX_RECEIVED_QUERY src dst = frame_array src dst 1 [1, 41] 2"

definition recv_RX_RECEIVED_QUERY :: "'p recv" where
  "recv_RX_RECEIVED_QUERY src dst c = recv_message src dst 2 1 41 c"

definition send_RX_RECEIVED_REPLAY :: "u16 \<Rightarrow> u16 \<Rightarrow> u8 \<Rightarrow> u8 \<Rightarrow> u8 \<Rightarrow> u8 \<Rightarrow> hframe" where
  "send_RX_RECEIVED_REPLAY src dst d0 d1 d2 d3 = frame_array src dst 1 [1, 42, d0, d1, d2, d3] 6"

definition recv_RX_RECEIVED_REPLAY :: "'p recv" where
  "recv_RX_RECEIVED_REPLAY src dst c = recv_message src dst 6 1 42 c"

definition send_RX_LOST_QUERY :: "u16 \<Rightarrow> u16 \<Rightarrow> hframe" where
  "send_RX_LOST_QUERY src dst = frame_array src dst 1 [1, 43] 2"

definition recv_RX_LOST_QUERY :: "'p recv" where
  "recv_RX_LOST_QUERY src dst c = recv_message src dst 2 1 43 c"

definition send_RX_LOST_REPLAY :: "u16 \<Rightarrow> u16 \<Rightarrow> u8 \<Rightarrow> u8 \<Rightarrow> u8 \<Rightarrow> u8 \<Rightarrow> hframe" where
  "send_RX_LOST_REPLAY src dst d0 d1 d2 d3 = frame_array src dst 1 [1, 44, d0, d1, d2, d3] 6"

definition recv_RX_LOST_REPLAY :: "'p recv" where
  "recv_RX_LOST_REPLAY src dst c = recv_message src dst 6 1 44 c"

definition send_TX_SENT_QUERY :: "u16 \<Rightarrow> u16 \<Rightarrow> hframe" where
  "send_TX_SENT_QUERY src dst = frame_array src dst 1 [1, 45] 2"

definition recv_TX_SENT_QUERY :: "'p recv" where
  "recv_TX_SENT_QUERY src dst c = recv_message src dst 2 1 45 c"

definition send_TX_SENT_REPLAY :: "u16 \<Rightarrow> u16 \<Rightarrow> u8 \<Rightarrow> u8 \<Rightarrow> u8 \<Rightarrow> u8 \<Rightarrow> hframe" where
  "send_TX_SENT_REPLAY src dst d0 d1 d2 d3 = frame_array src dst 1 [1, 46, d0, d1, d2, d3] 6"

definition recv_TX_SENT_REPLAY :: "'p recv" where
  "recv_TX_SENT_REPLAY src dst c = recv_message src dst 6 1 46 c"

definition send_TX_DROPPED_QUERY :: "u16 \<Rightarrow> u16 \<Rightarrow> hframe" where
  "send_TX_DROPPED_QUERY src dst = frame_array src dst 1 [1, 47] 2"

definition recv_TX_DROPPED_QUERY :: "'p recv" where
  "recv_TX_DROPPED_QUERY src dst c = recv_message src dst 2 1 47 c"

definition send_TX_DROPPED_REPLAY :: "u16 \<Rightarrow> u16 \<Rightarrow> u8 \<Rightarrow> u8 \<Rightarrow> u8 \<Rightarrow> u8 \<Rightarrow> hframe" where
  "send_TX_DROPPED_REPLAY src dst d0 d1 d2 d3 = frame_array src dst 1 [1, 48, d0, d1, d2, d3] 6"

definition recv_TX_DROPPED_REPLAY :: "'p recv" where
  "recv_TX_DROPPED_REPLAY src dst c = recv_message src dst 6 1 48 c"

definition send_RX_TX_STATS_RESET :: "u16 \<Rightarrow> u16 \<Rightarrow> hframe" where
  "send_RX_TX_STATS_RESET src dst = frame_array src dst 1 [1, 49] 2"

definition recv_RX_TX_STATS_RESET :: "'p recv" where
  "recv_RX_TX_STATS_RESET src dst c = recv_message src dst 2 1 49 c"

definition send_BOOT_RESETFLAG_LOG :: "u16 \<Rightarrow> u16 \<Rightarrow> u8 \<Rightarrow> hframe" where
  "send_BOOT_RESETFLAG_LOG src dst flag = frame_array src dst 1 [4, 1, flag] 3"

definition recv_BOOT_RESETFLAG_LOG :: "'p recv" where
  "recv_BOOT_RESETFLAG_LOG src dst c = recv_message src dst 3 4 1 c"

definition send_FIRMWARE_CRC16_ERROR :: "u16 \<Rightarrow> u16 \<Rightarrow> hframe" where
  "send_FIRMWARE_CRC16_ERROR src dst = frame_array src dst 1 [4, 2] 2"

definition recv_FIRMWARE_CRC16_ERROR :: "'p recv" where
  "recv_FIRMWARE_CRC16_ERROR src dst c = recv_message src dst 2 4 2 c"

definition send_FIRMWARE_CONFIG_COMPAT_ERROR :: "u16 \<Rightarrow> u16 \<Rightarrow> u8 \<Rightarrow> u8 \<Rightarrow> u8 \<Rightarrow> u8 \<Rightarrow> u8 \<Rightarrow> hframe" where
  "send_FIRMWARE_CONFIG_COMPAT_ERROR src dst eds_block_type eds_addr_hi eds_addr_lo size_in_config size_in_firmware = frame_array src dst 1 [4, 3, eds_block_type, eds_addr_hi, eds_addr_lo, size_in_config, size_in_firmware] 7"

definition recv_FIRMWARE_CONFIG_COMPAT_ERROR :: "'p recv" where
  "recv_FIRMWARE_CONFIG_COMPAT_ERROR src dst c = recv_message src dst 7 4 3 c"

definition send_DUMP_DEBUG_INFO :: "u16 \<Rightarrow> u16 \<Rightarrow> u8 \<Rightarrow> hframe" where
  "send_DUMP_DEBUG_INFO src dst context = frame_array src dst 1 [4, 4, context] 3"

definition recv_DUMP_DEBUG_INFO :: "'p recv" where
  "recv_DUMP_DEBUG_INFO src dst c = recv_message src dst 3 4 4 c"

definition send_TASTER_DOWN :: "u16 \<Rightarrow> u16 \<Rightarrow> u8 \<Rightarrow> u8 \<Rightarrow> hframe" where
  "send_TASTER_DOWN src dst gruppe index = frame_array src dst 1 [5, 1, gruppe, index] 4"

definition recv_TASTER_DOWN :: "'p recv" where
  "recv_TASTER_DOWN src dst c = recv_message src dst 4 5 1 c"

definition send_TASTER_UP :: "u16 \<Rightarrow> u16 \<Rightarrow> u8 \<Rightarrow> u8 \<Rightarrow> hframe" where
  "send_TASTER_UP src dst gruppe index = frame_array src dst 1 [5, 2, gruppe, index] 4"

definition recv_TASTER_UP :: "'p recv" where
  "recv_TASTER_UP src dst c = recv_message src dst 4 5 2 c"

definition send_POWER_GROUP_ON :: "u16 \<Rightarrow> u16 \<Rightarrow> u8 \<Rightarrow> hframe" where
  "send_POWER_GROUP_ON src dst gruppe = frame_array src dst 1 [5, 10, gruppe] 3"

definition recv_POWER_GROUP_ON :: "'p recv" where
  "recv_POWER_GROUP_ON src dst c = recv_message src dst 3 5 10 c"

definition send_POWER_GROUP_OFF :: "u16 \<Rightarrow> u16 \<Rightarrow> u8 \<Rightarrow> hframe" where
  "send_POWER_GROUP_OFF src dst gruppe = frame_array src dst 1 [5, 11, gruppe] 3"

definition recv_POWER_GROUP_OFF :: "'p recv" where
  "recv_POWER_GROUP_OFF src dst c = recv_message src dst 3 5 11 c"

definition send_POWER_GROUP_STATE_QUERY :: "u16 \<Rightarrow> u16 \<Rightarrow> u8 \<Rightarrow> hframe" where
  "send_POWER_GROUP_STATE_QUERY src dst gruppe = frame_array src dst 1 [5, 12, gruppe] 3"

definition recv_POWER_GROUP_STATE_QUERY :: "'p recv" where
  "recv_POWER_GROUP_STATE_QUERY src dst c = recv_message src dst 3 5 12 c"

definition send_POWER_GROUP_STATE_REPLAY :: "u16 \<Rightarrow> u16 \<Rightarrow> u8 \<Rightarrow> u8 \<Rightarrow> hframe" where
  "send_POWER_GROUP_STATE_REPLAY src dst gruppe status = frame_array src dst 1 [5, 13, gruppe, status] 4"

definition recv_POWER_GROUP_STATE_REPLAY :: "'p recv" where
  "recv_POWER_GROUP_STATE_REPLAY src dst c = recv_message src dst 4 5 13 c"

definition send_POWER_GROUP_TIMER_QUERY :: "u16 \<Rightarrow> u16 \<Rightarrow> u8 \<Rightarrow> hframe" where
  "send_POWER_GROUP_TIMER_QUERY src dst gruppe = frame_array src dst 1 [5, 14, gruppe] 3"

definition recv_POWER_GROUP_TIMER_QUERY :: "'p recv" where
  "recv_POWER_GROUP_TIMER_QUERY src dst c = recv_message src dst 3 5 14 c"

definition send_POWER_GROUP_TIMER_REPLAY :: "u16 \<Rightarrow> u16 \<Rightarrow> u8 \<Rightarrow> u8 \<Rightarrow> u8 \<Rightarrow> hframe" where
  "send_POWER_GROUP_TIMER_REPLAY src dst gruppe timer_hi timer_lo = frame_array src dst 1 [5, 15, gruppe, timer_hi, timer_lo] 5"

definition recv_POWER_GROUP_TIMER_REPLAY :: "'p recv" where
  "recv_POWER_GROUP_TIMER_REPLAY src dst c = recv_message src dst 5 5 15 c"

definition send_POWER_GROUP_SET_TIMER :: "u16 \<Rightarrow> u16 \<Rightarrow> u8 \<Rightarrow> u8 \<Rightarrow> u8 \<Rightarrow> hframe" where
  "send_POWER_GROUP_SET_TIMER src dst gruppe timer_hi timer_lo = frame_array src dst 1 [5, 16, gruppe, timer_hi, timer_lo] 5"

definition recv_POWER_GROUP_SET_TIMER :: "'p recv" where
  "recv_POWER_GROUP_SET_TIMER src dst c = recv_message src dst 5 5 16 c"

definition send_POWER_GROUP_STATE_INFO :: "u16 \<Rightarrow> u16 \<Rightarrow> u8 \<Rightarrow> u8 \<Rightarrow> hframe" where
  "send_POWER_GROUP_STATE_INFO src dst gruppe status = frame_array src dst 1 [5, 17, gruppe, status] 4"

definition recv_POWER_GROUP_STATE_INFO :: "'p recv" where
  "recv_POWER_GROUP_STATE_INFO src dst c = recv_message src dst 4 5 17 c"

definition send_ROLLADEN_POSITION_SET :: "u16 \<Rightarrow> u16 \<Rightarrow> u8 \<Rightarrow> u8 \<Rightarrow> hframe" where
  "send_ROLLADEN_POSITION_SET src dst gruppe position = frame_array src dst 1 [5, 20, gruppe, position] 4"

definition recv_ROLLADEN_POSITION_SET :: "'p recv" where
  "recv_ROLLADEN_POSITION_SET src dst c = recv_message src dst 4 5 20 c"

definition send_ROLLADEN_POSITION_REQUEST :: "u16 \<Rightarrow> u16 \<Rightarrow> u8 \<Rightarrow> hframe" where
  "send_ROLLADEN_POSITION_REQUEST src dst gruppe = frame_array src dst 1 [5, 21, gruppe] 3"

definition recv_ROLLADEN_POSITION_REQUEST :: "'p recv" where
  "recv_ROLLADEN_POSITION_REQUEST src dst c = recv_message src dst 3 5 21 c"

definition send_ROLLADEN_POSITION_REPLAY :: "u16 \<Rightarrow> u16 \<Rightarrow> u8 \<Rightarrow> u8 \<Rightarrow> hframe" where
  "send_ROLLADEN_POSITION_REPLAY src dst gruppe position = frame_array src dst 1 [5, 22, gruppe, position] 4"

definition recv_ROLLADEN_POSITION_REPLAY :: "'p recv" where
  "recv_ROLLADEN_POSITION_REPLAY src dst c = recv_message src dst 4 5 22 c"

definition send_ROLLADEN_DEFINE_POSITION :: "u16 \<Rightarrow> u16 \<Rightarrow> u8 \<Rightarrow> u8 \<Rightarrow> hframe" where
  "send_ROLLADEN_DEFINE_POSITION src dst gruppe position = frame_array src dst 1 [5, 23, gruppe, position] 4"

definition recv_ROLLADEN_DEFINE_POSITION :: "'p recv" where
  "recv_ROLLADEN_DEFINE_POSITION src dst c = recv_message src dst 4 5 23 c"

definition send_ROLLADEN_POSITION_CHANGED_INFO :: "u16 \<Rightarrow> u16 \<Rightarrow> u8 \<Rightarrow> u8 \<Rightarrow> u8 \<Rightarrow> u8 \<Rightarrow> hframe" where
  "send_ROLLADEN_POSITION_CHANGED_INFO src dst gruppe position cmdsrc_hi cmdsrc_lo = frame_array src dst 1 [5, 24, gruppe, position, cmdsrc_hi, cmdsrc_lo] 6"

definition recv_ROLLADEN_POSITION_CHANGED_INFO :: "'p recv" where
  "recv_ROLLADEN_POSITION_CHANGED_INFO src dst c = recv_message src dst 6 5 24 c"

definition send_1WIRE_DISCOVER :: "u16 \<Rightarrow> u16 \<Rightarrow> u8 \<Rightarrow> hframe" where
  "send_1WIRE_DISCOVER src dst pin = frame_array src dst 1 [5, 30, pin] 3"

definition recv_1WIRE_DISCOVER :: "'p recv" where
  "recv_1WIRE_DISCOVER src dst c = recv_message src dst 3 5 30 c"

definition send_1WIRE_DISCOVERED_PART_1 :: "u16 \<Rightarrow> u16 \<Rightarrow> u8 \<Rightarrow> u8 \<Rightarrow> u8 \<Rightarrow> u8 \<Rightarrow> hframe" where
  "send_1WIRE_DISCOVERED_PART_1 src dst id0 id1 id2 id3 = frame_array src dst 1 [5, 31, id0, id1, id2, id3] 6"

definition recv_1WIRE_DISCOVERED_PART_1 :: "'p recv" where
  "recv_1WIRE_DISCOVERED_PART_1 src dst c = recv_message src dst 6 5 31 c"

definition send_1WIRE_DISCOVERED_PART_2 :: "u16 \<Rightarrow> u16 \<Rightarrow> u8 \<Rightarrow> u8 \<Rightarrow> u8 \<Rightarrow> u8 \<Rightarrow> hframe" where
  "send_1WIRE_DISCOVERED_PART_2 src dst id4 id5 id6 id7 = frame_array src dst 1 [5, 32, id4, id5, id6, id7] 6"

definition recv_1WIRE_DISCOVERED_PART_2 :: "'p recv" where
  "recv_1WIRE_DISCOVERED_PART_2 src dst c = recv_message src dst 6 5 32 c"

definition send_1WIRE_ERROR :: "u16 \<Rightarrow> u16 \<Rightarrow> u8 \<Rightarrow> hframe" where
  "send_1WIRE_ERROR src dst error = frame_array src dst 1 [5, 33, error] 3"

definition recv_1WIRE_ERROR :: "'p recv" where
  "recv_1WIRE_ERROR src dst c = recv_message src dst 3 5 33 c"

definition send_1WIRE_TEMPERATURE :: "u16 \<Rightarrow> u16 \<Rightarrow> u8 \<Rightarrow> u8 \<Rightarrow> u8 \<Rightarrow> hframe" where
  "send_1WIRE_TEMPERATURE src dst gruppe temp_hi temp_lo = frame_array src dst 1 [5, 34, gruppe, temp_hi, temp_lo] 5"

definition recv_1WIRE_TEMPERATURE :: "'p recv" where
  "recv_1WIRE_TEMPERATURE src dst c = recv_message src dst 5 5 34 c"

definition send_1WIRE_TEMPERATURE_QUERY :: "u16 \<Rightarrow> u16 \<Rightarrow> u8 \<Rightarrow> hframe" where
  "send_1WIRE_TEMPERATURE_QUERY src dst gruppe = frame_array src dst 1 [5, 35, gruppe] 3"

definition recv_1WIRE_TEMPERATURE_QUERY :: "'p recv" where
  "recv_1WIRE_TEMPERATURE_QUERY src dst c = recv_message src dst 3 5 35 c"

definition send_1WIRE_TEMPERATURE_REPLAY :: "u16 \<Rightarrow> u16 \<Rightarrow> u8 \<Rightarrow> u8 \<Rightarrow> u8 \<Rightarrow> hframe" where
  "send_1WIRE_TEMPERATURE_REPLAY src dst gruppe temp_hi temp_lo = frame_array src dst 1 [5, 36, gruppe, temp_hi, temp_lo] 5"

definition recv_1WIRE_TEMPERATURE_REPLAY :: "'p recv" where
  "recv_1WIRE_TEMPERATURE_REPLAY src dst c = recv_message src dst 5 5 36 c"

definition send_REEDKONTAKT_OFFEN :: "u16 \<Rightarrow> u16 \<Rightarrow> u8 \<Rightarrow> hframe" where
  "send_REEDKONTAKT_OFFEN src dst gruppe = frame_array src dst 1 [5, 40, gruppe] 3"

definition recv_REEDKONTAKT_OFFEN :: "'p recv" where
  "recv_REEDKONTAKT_OFFEN src dst c = recv_message src dst 3 5 40 c"

definition send_REEDKONTAKT_STATE_QUERY :: "u16 \<Rightarrow> u16 \<Rightarrow> u8 \<Rightarrow> hframe" where
  "send_REEDKONTAKT_STATE_QUERY src dst gruppe = frame_array src dst 1 [5, 41, gruppe] 3"

definition recv_REEDKONTAKT_STATE_QUERY :: "'p recv" where
  "recv_REEDKONTAKT_STATE_QUERY src dst c = recv_message src dst 3 5 41 c"

definition send_REEDKONTAKT_STATE_REPLAY :: "u16 \<Rightarrow> u16 \<Rightarrow> u8 \<Rightarrow> u8 \<Rightarrow> hframe" where
  "send_REEDKONTAKT_STATE_REPLAY src dst gruppe state = frame_array src dst 1 [5, 42, gruppe, state] 4"

definition recv_REEDKONTAKT_STATE_REPLAY :: "'p recv" where
  "recv_REEDKONTAKT_STATE_REPLAY src dst c = recv_message src dst 4 5 42 c"

definition send_REEDKONTAKT_STATE_CHANGE :: "u16 \<Rightarrow> u16 \<Rightarrow> u8 \<Rightarrow> u8 \<Rightarrow> hframe" where
  "send_REEDKONTAKT_STATE_CHANGE src dst gruppe state = frame_array src dst 1 [5, 43, gruppe, state] 4"

definition recv_REEDKONTAKT_STATE_CHANGE :: "'p recv" where
  "recv_REEDKONTAKT_STATE_CHANGE src dst c = recv_message src dst 4 5 43 c"

definition send_PVSENSOR_STATE_REQUEST :: "u16 \<Rightarrow> u16 \<Rightarrow> u8 \<Rightarrow> hframe" where
  "send_PVSENSOR_STATE_REQUEST src dst gruppe = frame_array src dst 1 [5, 44, gruppe] 3"

definition recv_PVSENSOR_STATE_REQUEST :: "'p recv" where
  "recv_PVSENSOR_STATE_REQUEST src dst c = recv_message src dst 3 5 44 c"

definition send_PVSENSOR_STATE_REPLAY :: "u16 \<Rightarrow> u16 \<Rightarrow> u8 \<Rightarrow> u8 \<Rightarrow> hframe" where
  "send_PVSENSOR_STATE_REPLAY src dst gruppe state = frame_array src dst 1 [5, 45, gruppe, state] 4"

definition recv_PVSENSOR_STATE_REPLAY :: "'p recv" where
  "recv_PVSENSOR_STATE_REPLAY src dst c = recv_message src dst 4 5 45 c"

definition send_PVSENSOR_STATE_CHANGE_INFO :: "u16 \<Rightarrow> u16 \<Rightarrow> u8 \<Rightarrow> u8 \<Rightarrow> hframe" where
  "send_PVSENSOR_STATE_CHANGE_INFO src dst gruppe state = frame_array src dst 1 [5, 46, gruppe, state] 4"

definition recv_PVSENSOR_STATE_CHANGE_INFO :: "'p recv" where
  "recv_PVSENSOR_STATE_CHANGE_INFO src dst c = recv_message src dst 4 5 46 c"

definition send_HEIZUNG_DETAILS_REQUEST :: "u16 \<Rightarrow> u16 \<Rightarrow> u8 \<Rightarrow> hframe" where
  "send_HEIZUNG_DETAILS_REQUEST src dst id' = frame_array src dst 1 [5, 50, id'] 3"

definition recv_HEIZUNG_DETAILS_REQUEST :: "'p recv" where
  "recv_HEIZUNG_DETAILS_REQUEST src dst c = recv_message src dst 3 5 50 c"

definition send_HEIZUNG_MODE_OFF_DETAILS :: "u16 \<Rightarrow> u16 \<Rightarrow> u8 \<Rightarrow> hframe" where
  "send_HEIZUNG_MODE_OFF_DETAILS src dst id' = frame_array src dst 1 [5, 51, id'] 3"

definition recv_HEIZUNG_MODE_OFF_DETAILS :: "'p recv" where
  "recv_HEIZUNG_MODE_OFF_DETAILS src dst c = recv_message src dst 3 5 51 c"

definition send_HEIZUNG_SET_MODE_OFF :: "u16 \<Rightarrow> u16 \<Rightarrow> u8 \<Rightarrow> hframe" where
  "send_HEIZUNG_SET_MODE_OFF src dst id' = frame_array src dst 1 [5, 52, id'] 3"

definition recv_HEIZUNG_SET_MODE_OFF :: "'p recv" where
  "recv_HEIZUNG_SET_MODE_OFF src dst c = recv_message src dst 3 5 52 c"

definition send_HEIZUNG_MODE_MANUAL_DETAILS :: "u16 \<Rightarrow> u16 \<Rightarrow> u8 \<Rightarrow> u8 \<Rightarrow> u8 \<Rightarrow> u8 \<Rightarrow> hframe" where
  "send_HEIZUNG_MODE_MANUAL_DETAILS src dst id' rate duration_hi duration_lo = frame_array src dst 1 [5, 53, id', rate, duration_hi, duration_lo] 6"

definition recv_HEIZUNG_MODE_MANUAL_DETAILS :: "'p recv" where
  "recv_HEIZUNG_MODE_MANUAL_DETAILS src dst c = recv_message src dst 6 5 53 c"

definition send_HEIZUNG_SET_MODE_MANUAL :: "u16 \<Rightarrow> u16 \<Rightarrow> u8 \<Rightarrow> u8 \<Rightarrow> u8 \<Rightarrow> u8 \<Rightarrow> hframe" where
  "send_HEIZUNG_SET_MODE_MANUAL src dst id' rate duration_hi duration_lo = frame_array src dst 1 [5, 54, id', rate, duration_hi, duration_lo] 6"

definition recv_HEIZUNG_SET_MODE_MANUAL :: "'p recv" where
  "recv_HEIZUNG_SET_MODE_MANUAL src dst c = recv_message src dst 6 5 54 c"

definition send_HEIZUNG_MODE_THERMOSTAT_DETAILS :: "u16 \<Rightarrow> u16 \<Rightarrow> u8 \<Rightarrow> u8 \<Rightarrow> u8 \<Rightarrow> u8 \<Rightarrow> u8 \<Rightarrow> hframe" where
  "send_HEIZUNG_MODE_THERMOSTAT_DETAILS src dst id' temp_hi temp_lo duration_hi duration_lo = frame_array src dst 1 [5, 55, id', temp_hi, temp_lo, duration_hi, duration_lo] 7"

definition recv_HEIZUNG_MODE_THERMOSTAT_DETAILS :: "'p recv" where
  "recv_HEIZUNG_MODE_THERMOSTAT_DETAILS src dst c = recv_message src dst 7 5 55 c"

definition send_HEIZUNG_SET_MODE_THERMOSTAT_DETAILS :: "u16 \<Rightarrow> u16 \<Rightarrow> u8 \<Rightarrow> u8 \<Rightarrow> u8 \<Rightarrow> u8 \<Rightarrow> u8 \<Rightarrow> hframe" where
  "send_HEIZUNG_SET_MODE_THERMOSTAT_DETAILS src dst id' temp_hi temp_lo duration_hi duration_lo = frame_array src dst 1 [5, 56, id', temp_hi, temp_lo, duration_hi, duration_lo] 7"

definition recv_HEIZUNG_SET_MODE_THERMOSTAT_DETAILS :: "'p recv" where
  "recv_HEIZUNG_SET_MODE_THERMOSTAT_DETAILS src dst c = recv_message src dst 7 5 56 c"

definition send_HEIZUNG_MODE_AUTOMATIK_DETAILS :: "u16 \<Rightarrow> u16 \<Rightarrow> u8 \<Rightarrow> u8 \<Rightarrow> u8 \<Rightarrow> u8 \<Rightarrow> hframe" where
  "send_HEIZUNG_MODE_AUTOMATIK_DETAILS src dst id' temp_hi temp_lo timerange_id = frame_array src dst 1 [5, 57, id', temp_hi, temp_lo, timerange_id] 6"

definition recv_HEIZUNG_MODE_AUTOMATIK_DETAILS :: "'p recv" where
  "recv_HEIZUNG_MODE_AUTOMATIK_DETAILS src dst c = recv_message src dst 6 5 57 c"

definition send_HEIZUNG_SET_MODE_AUTOMATIK :: "u16 \<Rightarrow> u16 \<Rightarrow> u8 \<Rightarrow> hframe" where
  "send_HEIZUNG_SET_MODE_AUTOMATIK src dst id' = frame_array src dst 1 [5, 58, id'] 3"

definition recv_HEIZUNG_SET_MODE_AUTOMATIK :: "'p recv" where
  "recv_HEIZUNG_SET_MODE_AUTOMATIK src dst c = recv_message src dst 3 5 58 c"

definition send_HEIZUNG_TIST_REQUEST :: "u16 \<Rightarrow> u16 \<Rightarrow> u8 \<Rightarrow> hframe" where
  "send_HEIZUNG_TIST_REQUEST src dst id' = frame_array src dst 1 [5, 59, id'] 3"

definition recv_HEIZUNG_TIST_REQUEST :: "'p recv" where
  "recv_HEIZUNG_TIST_REQUEST src dst c = recv_message src dst 3 5 59 c"

definition send_HEIZUNG_TIST_REPLAY :: "u16 \<Rightarrow> u16 \<Rightarrow> u8 \<Rightarrow> u8 \<Rightarrow> u8 \<Rightarrow> hframe" where
  "send_HEIZUNG_TIST_REPLAY src dst id' temp_hi temp_lo = frame_array src dst 1 [5, 60, id', temp_hi, temp_lo] 5"

definition recv_HEIZUNG_TIST_REPLAY :: "'p recv" where
  "recv_HEIZUNG_TIST_REPLAY src dst c = recv_message src dst 5 5 60 c"

definition send_HEIZUNG_WAERMEBEDARF_INFO :: "u16 \<Rightarrow> u16 \<Rightarrow> u8 \<Rightarrow> u8 \<Rightarrow> hframe" where
  "send_HEIZUNG_WAERMEBEDARF_INFO src dst id' value = frame_array src dst 1 [5, 61, id', value] 4"

definition recv_HEIZUNG_WAERMEBEDARF_INFO :: "'p recv" where
  "recv_HEIZUNG_WAERMEBEDARF_INFO src dst c = recv_message src dst 4 5 61 c"

definition send_HEIZSTEUERUNG_STATE_REQUEST :: "u16 \<Rightarrow> u16 \<Rightarrow> hframe" where
  "send_HEIZSTEUERUNG_STATE_REQUEST src dst = frame_array src dst 1 [5, 62] 2"

definition recv_HEIZSTEUERUNG_STATE_REQUEST :: "'p recv" where
  "recv_HEIZSTEUERUNG_STATE_REQUEST src dst c = recv_message src dst 2 5 62 c"

definition send_HEIZSTEUERUNG_STATE_REPLAY :: "u16 \<Rightarrow> u16 \<Rightarrow> u8 \<Rightarrow> u8 \<Rightarrow> u8 \<Rightarrow> u8 \<Rightarrow> hframe" where
  "send_HEIZSTEUERUNG_STATE_REPLAY src dst VL_soll VL_ist RL_ist BF = frame_array src dst 1 [5, 63, VL_soll, VL_ist, RL_ist, BF] 6"

definition recv_HEIZSTEUERUNG_STATE_REPLAY :: "'p recv" where
  "recv_HEIZSTEUERUNG_STATE_REPLAY src dst c = recv_message src dst 6 5 63 c"

definition send_HEIZSTEUERUNG_STATE_INFO :: "u16 \<Rightarrow> u16 \<Rightarrow> u8 \<Rightarrow> u8 \<Rightarrow> u8 \<Rightarrow> u8 \<Rightarrow> hframe" where
  "send_HEIZSTEUERUNG_STATE_INFO src dst VL_soll GWB_hi GWB_lo BF = frame_array src dst 1 [5, 64, VL_soll, GWB_hi, GWB_lo, BF] 6"

definition recv_HEIZSTEUERUNG_STATE_INFO :: "'p recv" where
  "recv_HEIZSTEUERUNG_STATE_INFO src dst c = recv_message src dst 6 5 64 c"

definition send_HEIZSTEUERUNG_SET_VL :: "u16 \<Rightarrow> u16 \<Rightarrow> u8 \<Rightarrow> hframe" where
  "send_HEIZSTEUERUNG_SET_VL src dst VL_soll = frame_array src dst 1 [5, 65, VL_soll] 3"

definition recv_HEIZSTEUERUNG_SET_VL :: "'p recv" where
  "recv_HEIZSTEUERUNG_SET_VL src dst c = recv_message src dst 3 5 65 c"

definition send_HEIZUNG_SOLLTEMP_LINE_REQUEST :: "u16 \<Rightarrow> u16 \<Rightarrow> u8 \<Rightarrow> u8 \<Rightarrow> hframe" where
  "send_HEIZUNG_SOLLTEMP_LINE_REQUEST src dst id' idx = frame_array src dst 1 [5, 66, id', idx] 4"

definition recv_HEIZUNG_SOLLTEMP_LINE_REQUEST :: "'p recv" where
  "recv_HEIZUNG_SOLLTEMP_LINE_REQUEST src dst c = recv_message src dst 4 5 66 c"

definition send_HEIZUNG_SOLLTEMP_LINE_REPLAY :: "u16 \<Rightarrow> u16 \<Rightarrow> u8 \<Rightarrow> u8 \<Rightarrow> u8 \<Rightarrow> u8 \<Rightarrow> u8 \<Rightarrow> hframe" where
  "send_HEIZUNG_SOLLTEMP_LINE_REPLAY src dst id' idx temp_hi temp_lo zeitzone_id = frame_array src dst 1 [5, 67, id', idx, temp_hi, temp_lo, zeitzone_id] 7"

definition recv_HEIZUNG_SOLLTEMP_LINE_REPLAY :: "'p recv" where
  "recv_HEIZUNG_SOLLTEMP_LINE_REPLAY src dst c = recv_message src dst 7 5 67 c"

definition send_HEIZUNG_SOLLTEMP_WRITE_LINE :: "u16 \<Rightarrow> u16 \<Rightarrow> u8 \<Rightarrow> u8 \<Rightarrow> u8 \<Rightarrow> u8 \<Rightarrow> u8 \<Rightarrow> hframe" where
  "send_HEIZUNG_SOLLTEMP_WRITE_LINE src dst id' idx temp_hi temp_lo zeitzone_id = frame_array src dst 1 [5, 68, id', idx, temp_hi, temp_lo, zeitzone_id] 7"

definition recv_HEIZUNG_SOLLTEMP_WRITE_LINE :: "'p recv" where
  "recv_HEIZUNG_SOLLTEMP_WRITE_LINE src dst c = recv_message src dst 7 5 68 c"

definition send_HEIZUNG_SOLLTEMP_WRITE_LINE_ACK :: "u16 \<Rightarrow> u16 \<Rightarrow> u8 \<Rightarrow> u8 \<Rightarrow> hframe" where
  "send_HEIZUNG_SOLLTEMP_WRITE_LINE_ACK src dst id' idx = frame_array src dst 1 [5, 69, id', idx] 4"

definition recv_HEIZUNG_SOLLTEMP_WRITE_LINE_ACK :: "'p recv" where
  "recv_HEIZUNG_SOLLTEMP_WRITE_LINE_ACK src dst c = recv_message src dst 4 5 69 c"

definition send_WECKER_SET :: "u16 \<Rightarrow> u16 \<Rightarrow> u8 \<Rightarrow> u8 \<Rightarrow> u8 \<Rightarrow> hframe" where
  "send_WECKER_SET src dst id' duration_hi duration_lo = frame_array src dst 1 [5, 72, id', duration_hi, duration_lo] 5"

definition recv_WECKER_SET :: "'p recv" where
  "recv_WECKER_SET src dst c = recv_message src dst 5 5 72 c"

definition send_WECKER_DETAILS_REQUEST :: "u16 \<Rightarrow> u16 \<Rightarrow> u8 \<Rightarrow> hframe" where
  "send_WECKER_DETAILS_REQUEST src dst id' = frame_array src dst 1 [5, 73, id'] 3"

definition recv_WECKER_DETAILS_REQUEST :: "'p recv" where
  "recv_WECKER_DETAILS_REQUEST src dst c = recv_message src dst 3 5 73 c"

definition send_WECKER_DETAILS :: "u16 \<Rightarrow> u16 \<Rightarrow> u8 \<Rightarrow> u8 \<Rightarrow> u8 \<Rightarrow> hframe" where
  "send_WECKER_DETAILS src dst id' duration_hi duration_lo = frame_array src dst 1 [5, 74, id', duration_hi, duration_lo] 5"

definition recv_WECKER_DETAILS :: "'p recv" where
  "recv_WECKER_DETAILS src dst c = recv_message src dst 5 5 74 c"

definition send_HELLIGKEITS_INFO :: "u16 \<Rightarrow> u16 \<Rightarrow> u8 \<Rightarrow> u8 \<Rightarrow> u8 \<Rightarrow> hframe" where
  "send_HELLIGKEITS_INFO src dst guppe brightness_hi brightness_lo = frame_array src dst 1 [5, 71, guppe, brightness_hi, brightness_lo] 5"

definition recv_HELLIGKEITS_INFO :: "'p recv" where
  "recv_HELLIGKEITS_INFO src dst c = recv_message src dst 5 5 71 c"

definition send_POTI_POS_CHANGED :: "u16 \<Rightarrow> u16 \<Rightarrow> u8 \<Rightarrow> u8 \<Rightarrow> u8 \<Rightarrow> hframe" where
  "send_POTI_POS_CHANGED src dst guppe pos_hi pos_lo = frame_array src dst 1 [5, 70, guppe, pos_hi, pos_lo] 5"

definition recv_POTI_POS_CHANGED :: "'p recv" where
  "recv_POTI_POS_CHANGED src dst c = recv_message src dst 5 5 70 c"

definition send_CONFIG_RELOAD :: "u16 \<Rightarrow> u16 \<Rightarrow> hframe" where
  "send_CONFIG_RELOAD src dst = frame_array src dst 1 [5, 100] 2"

definition recv_CONFIG_RELOAD :: "'p recv" where
  "recv_CONFIG_RELOAD src dst c = recv_message src dst 2 5 100 c"

definition send_CONFIG_RAM_USAGE_REQUEST :: "u16 \<Rightarrow> u16 \<Rightarrow> hframe" where
  "send_CONFIG_RAM_USAGE_REQUEST src dst = frame_array src dst 1 [5, 101] 2"

definition recv_CONFIG_RAM_USAGE_REQUEST :: "'p recv" where
  "recv_CONFIG_RAM_USAGE_REQUEST src dst c = recv_message src dst 2 5 101 c"

definition send_CONFIG_RAM_USAGE_REPLAY :: "u16 \<Rightarrow> u16 \<Rightarrow> u8 \<Rightarrow> u8 \<Rightarrow> hframe" where
  "send_CONFIG_RAM_USAGE_REPLAY src dst usage_hi usage_lo = frame_array src dst 1 [5, 102, usage_hi, usage_lo] 4"

definition recv_CONFIG_RAM_USAGE_REPLAY :: "'p recv" where
  "recv_CONFIG_RAM_USAGE_REPLAY src dst c = recv_message src dst 4 5 102 c"

definition send_ZEITZONE_DETAILS_REQUEST :: "u16 \<Rightarrow> u16 \<Rightarrow> u8 \<Rightarrow> hframe" where
  "send_ZEITZONE_DETAILS_REQUEST src dst gruppe = frame_array src dst 1 [5, 110, gruppe] 3"

definition recv_ZEITZONE_DETAILS_REQUEST :: "'p recv" where
  "recv_ZEITZONE_DETAILS_REQUEST src dst c = recv_message src dst 3 5 110 c"

definition send_ZEITZONE_DETAILS_REPLAY :: "u16 \<Rightarrow> u16 \<Rightarrow> u8 \<Rightarrow> u8 \<Rightarrow> u8 \<Rightarrow> u8 \<Rightarrow> u8 \<Rightarrow> u8 \<Rightarrow> hframe" where
  "send_ZEITZONE_DETAILS_REPLAY src dst gruppe day_pattern' from_hour' from_minute' to_hour' to_minute' = frame_array src dst 1 [5, 111, gruppe, day_pattern', from_hour', from_minute', to_hour', to_minute'] 8"

definition recv_ZEITZONE_DETAILS_REPLAY :: "'p recv" where
  "recv_ZEITZONE_DETAILS_REPLAY src dst c = recv_message src dst 8 5 111 c"

definition send_ZEITZONE_WRITE_DETAILS :: "u16 \<Rightarrow> u16 \<Rightarrow> u8 \<Rightarrow> u8 \<Rightarrow> u8 \<Rightarrow> u8 \<Rightarrow> u8 \<Rightarrow> u8 \<Rightarrow> hframe" where
  "send_ZEITZONE_WRITE_DETAILS src dst gruppe day_pattern' from_hour' from_minute' to_hour' to_minute' = frame_array src dst 1 [5, 112, gruppe, day_pattern', from_hour', from_minute', to_hour', to_minute'] 8"

definition recv_ZEITZONE_WRITE_DETAILS :: "'p recv" where
  "recv_ZEITZONE_WRITE_DETAILS src dst c = recv_message src dst 8 5 112 c"

definition send_ZEITZONE_WRITE_DETAILS_ACK :: "u16 \<Rightarrow> u16 \<Rightarrow> u8 \<Rightarrow> hframe" where
  "send_ZEITZONE_WRITE_DETAILS_ACK src dst gruppe = frame_array src dst 1 [5, 113, gruppe] 3"

definition recv_ZEITZONE_WRITE_DETAILS_ACK :: "'p recv" where
  "recv_ZEITZONE_WRITE_DETAILS_ACK src dst c = recv_message src dst 3 5 113 c"

definition send_ZEITZONE_TEST_MATCH_REQUERST :: "u16 \<Rightarrow> u16 \<Rightarrow> u8 \<Rightarrow> hframe" where
  "send_ZEITZONE_TEST_MATCH_REQUERST src dst gruppe = frame_array src dst 1 [5, 114, gruppe] 3"

definition recv_ZEITZONE_TEST_MATCH_REQUERST :: "'p recv" where
  "recv_ZEITZONE_TEST_MATCH_REQUERST src dst c = recv_message src dst 3 5 114 c"

definition send_ZEITZONE_TEST_MATCH_REPLAY :: "u16 \<Rightarrow> u16 \<Rightarrow> u8 \<Rightarrow> u8 \<Rightarrow> hframe" where
  "send_ZEITZONE_TEST_MATCH_REPLAY src dst gruppe match = frame_array src dst 1 [5, 115, gruppe, match] 4"

definition recv_ZEITZONE_TEST_MATCH_REPLAY :: "'p recv" where
  "recv_ZEITZONE_TEST_MATCH_REPLAY src dst c = recv_message src dst 4 5 115 c"

definition send_TIME_INFO :: "u16 \<Rightarrow> u16 \<Rightarrow> u8 \<Rightarrow> u8 \<Rightarrow> u8 \<Rightarrow> u8 \<Rightarrow> u8 \<Rightarrow> hframe" where
  "send_TIME_INFO src dst level day_of_week' hour' minute' second' = frame_array src dst 1 [6, 1, level, day_of_week', hour', minute', second'] 7"

definition recv_TIME_INFO :: "'p recv" where
  "recv_TIME_INFO src dst c = recv_message src dst 7 6 1 c"

definition send_DATE_INFO :: "u16 \<Rightarrow> u16 \<Rightarrow> u8 \<Rightarrow> u8 \<Rightarrow> u8 \<Rightarrow> u8 \<Rightarrow> hframe" where
  "send_DATE_INFO src dst level day_of_month' month_of_year' year' = frame_array src dst 1 [6, 2, level, day_of_month', month_of_year', year'] 6"

definition recv_DATE_INFO :: "'p recv" where
  "recv_DATE_INFO src dst c = recv_message src dst 6 6 2 c"

definition send_TIME_REQUEST :: "u16 \<Rightarrow> u16 \<Rightarrow> hframe" where
  "send_TIME_REQUEST src dst = frame_array src dst 1 [6, 3] 2"

definition recv_TIME_REQUEST :: "'p recv" where
  "recv_TIME_REQUEST src dst c = recv_message src dst 2 6 3 c"

definition send_DATE_REQUEST :: "u16 \<Rightarrow> u16 \<Rightarrow> hframe" where
  "send_DATE_REQUEST src dst = frame_array src dst 1 [6, 4] 2"

definition recv_DATE_REQUEST :: "'p recv" where
  "recv_DATE_REQUEST src dst c = recv_message src dst 2 6 4 c"

definition send_GET_NEXT_BLOCK :: "u16 \<Rightarrow> u16 \<Rightarrow> u8 \<Rightarrow> u8 \<Rightarrow> hframe" where
  "send_GET_NEXT_BLOCK src dst handle_hi handle_lo = frame_array src dst 1 [7, 1, handle_hi, handle_lo] 4"

definition recv_GET_NEXT_BLOCK :: "'p recv" where
  "recv_GET_NEXT_BLOCK src dst c = recv_message src dst 4 7 1 c"

definition send_GET_NEXT_BLOCK_REPLAY :: "u16 \<Rightarrow> u16 \<Rightarrow> u8 \<Rightarrow> u8 \<Rightarrow> u8 \<Rightarrow> u8 \<Rightarrow> hframe" where
  "send_GET_NEXT_BLOCK_REPLAY src dst handle_hi handle_lo type size' = frame_array src dst 1 [7, 2, handle_hi, handle_lo, type, size'] 6"

definition recv_GET_NEXT_BLOCK_REPLAY :: "'p recv" where
  "recv_GET_NEXT_BLOCK_REPLAY src dst c = recv_message src dst 6 7 2 c"

definition send_DEFRAGMENT :: "u16 \<Rightarrow> u16 \<Rightarrow> hframe" where
  "send_DEFRAGMENT src dst = frame_array src dst 1 [7, 3] 2"

definition recv_DEFRAGMENT :: "'p recv" where
  "recv_DEFRAGMENT src dst c = recv_message src dst 2 7 3 c"

definition send_ALLOCATE_BLOCK :: "u16 \<Rightarrow> u16 \<Rightarrow> u8 \<Rightarrow> u8 \<Rightarrow> hframe" where
  "send_ALLOCATE_BLOCK src dst type size' = frame_array src dst 1 [7, 4, type, size'] 4"

definition recv_ALLOCATE_BLOCK :: "'p recv" where
  "recv_ALLOCATE_BLOCK src dst c = recv_message src dst 4 7 4 c"

definition send_ALLOCATE_BLOCK_REPLAY :: "u16 \<Rightarrow> u16 \<Rightarrow> u8 \<Rightarrow> u8 \<Rightarrow> hframe" where
  "send_ALLOCATE_BLOCK_REPLAY src dst handle_hi handle_lo = frame_array src dst 1 [7, 5, handle_hi, handle_lo] 4"

definition recv_ALLOCATE_BLOCK_REPLAY :: "'p recv" where
  "recv_ALLOCATE_BLOCK_REPLAY src dst c = recv_message src dst 4 7 5 c"

definition send_FREE_BLOCK :: "u16 \<Rightarrow> u16 \<Rightarrow> u8 \<Rightarrow> u8 \<Rightarrow> hframe" where
  "send_FREE_BLOCK src dst handle_hi handle_lo = frame_array src dst 1 [7, 6, handle_hi, handle_lo] 4"

definition recv_FREE_BLOCK :: "'p recv" where
  "recv_FREE_BLOCK src dst c = recv_message src dst 4 7 6 c"

definition send_FREE_BLOCK_REPLAY :: "u16 \<Rightarrow> u16 \<Rightarrow> u8 \<Rightarrow> hframe" where
  "send_FREE_BLOCK_REPLAY src dst result = frame_array src dst 1 [7, 7, result] 3"

definition recv_FREE_BLOCK_REPLAY :: "'p recv" where
  "recv_FREE_BLOCK_REPLAY src dst c = recv_message src dst 3 7 7 c"

definition send_READ_FROM_BLOCK :: "u16 \<Rightarrow> u16 \<Rightarrow> u8 \<Rightarrow> u8 \<Rightarrow> u8 \<Rightarrow> hframe" where
  "send_READ_FROM_BLOCK src dst handle_hi handle_lo index = frame_array src dst 1 [7, 8, handle_hi, handle_lo, index] 5"

definition recv_READ_FROM_BLOCK :: "'p recv" where
  "recv_READ_FROM_BLOCK src dst c = recv_message src dst 5 7 8 c"

definition send_READ_FROM_BLOCK_REPLAY :: "u16 \<Rightarrow> u16 \<Rightarrow> u8 \<Rightarrow> u8 \<Rightarrow> u8 \<Rightarrow> u8 \<Rightarrow> hframe" where
  "send_READ_FROM_BLOCK_REPLAY src dst d0 d1 d2 d3 = frame_array src dst 1 [7, 9, d0, d1, d2, d3] 6"

definition recv_READ_FROM_BLOCK_REPLAY :: "'p recv" where
  "recv_READ_FROM_BLOCK_REPLAY src dst c = recv_message src dst 6 7 9 c"

definition send_WRITE_TO_BLOCK :: "u16 \<Rightarrow> u16 \<Rightarrow> u8 \<Rightarrow> u8 \<Rightarrow> u8 \<Rightarrow> u8 \<Rightarrow> hframe" where
  "send_WRITE_TO_BLOCK src dst handle_hi handle_lo index d0 = frame_array src dst 1 [7, 10, handle_hi, handle_lo, index, d0] 6"

definition recv_WRITE_TO_BLOCK :: "'p recv" where
  "recv_WRITE_TO_BLOCK src dst c = recv_message src dst 6 7 10 c"

definition send_WRITE_TO_BLOCK_REPLAY :: "u16 \<Rightarrow> u16 \<Rightarrow> hframe" where
  "send_WRITE_TO_BLOCK_REPLAY src dst = frame_array src dst 1 [7, 11] 2"

definition recv_WRITE_TO_BLOCK_REPLAY :: "'p recv" where
  "recv_WRITE_TO_BLOCK_REPLAY src dst c = recv_message src dst 2 7 11 c"

definition send_FORMAT :: "u16 \<Rightarrow> u16 \<Rightarrow> hframe" where
  "send_FORMAT src dst = frame_array src dst 1 [7, 12] 2"

definition recv_FORMAT :: "'p recv" where
  "recv_FORMAT src dst c = recv_message src dst 2 7 12 c"

definition send_STATE_REQUEST :: "u16 \<Rightarrow> u16 \<Rightarrow> hframe" where
  "send_STATE_REQUEST src dst = frame_array src dst 1 [8, 1] 2"

definition recv_STATE_REQUEST :: "'p recv" where
  "recv_STATE_REQUEST src dst c = recv_message src dst 2 8 1 c"

definition send_STATE_INFO :: "u16 \<Rightarrow> u16 \<Rightarrow> u8 \<Rightarrow> hframe" where
  "send_STATE_INFO src dst state = frame_array src dst 1 [8, 2, state] 3"

definition recv_STATE_INFO :: "'p recv" where
  "recv_STATE_INFO src dst c = recv_message src dst 3 8 2 c"

definition send_VOLTAGE_REQUEST :: "u16 \<Rightarrow> u16 \<Rightarrow> u8 \<Rightarrow> hframe" where
  "send_VOLTAGE_REQUEST src dst Ux = frame_array src dst 1 [8, 3, Ux] 3"

definition recv_VOLTAGE_REQUEST :: "'p recv" where
  "recv_VOLTAGE_REQUEST src dst c = recv_message src dst 3 8 3 c"

definition send_VOLTAGE_REPLAY :: "u16 \<Rightarrow> u16 \<Rightarrow> u8 \<Rightarrow> u8 \<Rightarrow> hframe" where
  "send_VOLTAGE_REPLAY src dst Ux_hi Ux_lo = frame_array src dst 1 [8, 4, Ux_hi, Ux_lo] 4"

definition recv_VOLTAGE_REPLAY :: "'p recv" where
  "recv_VOLTAGE_REPLAY src dst c = recv_message src dst 4 8 4 c"

definition send_VOLTAGE_STATS_REQUEST :: "u16 \<Rightarrow> u16 \<Rightarrow> u8 \<Rightarrow> hframe" where
  "send_VOLTAGE_STATS_REQUEST src dst Ux = frame_array src dst 1 [8, 5, Ux] 3"

definition recv_VOLTAGE_STATS_REQUEST :: "'p recv" where
  "recv_VOLTAGE_STATS_REQUEST src dst c = recv_message src dst 3 8 5 c"

definition send_VOLTAGE_STATS_REPLAY :: "u16 \<Rightarrow> u16 \<Rightarrow> u8 \<Rightarrow> u8 \<Rightarrow> u8 \<Rightarrow> u8 \<Rightarrow> u8 \<Rightarrow> hframe" where
  "send_VOLTAGE_STATS_REPLAY src dst U min_hi min_lo max_hi max_lo = frame_array src dst 1 [8, 6, U, min_hi, min_lo, max_hi, max_lo] 7"

definition recv_VOLTAGE_STATS_REPLAY :: "'p recv" where
  "recv_VOLTAGE_STATS_REPLAY src dst c = recv_message src dst 7 8 6 c"

definition send_VOLTAGE_STATS_RESET :: "u16 \<Rightarrow> u16 \<Rightarrow> hframe" where
  "send_VOLTAGE_STATS_RESET src dst = frame_array src dst 1 [8, 7] 2"

definition recv_VOLTAGE_STATS_RESET :: "'p recv" where
  "recv_VOLTAGE_STATS_RESET src dst c = recv_message src dst 2 8 7 c"

definition send_FA_BLOCK1_INFO :: "u16 \<Rightarrow> u16 \<Rightarrow> u8 \<Rightarrow> u8 \<Rightarrow> u8 \<Rightarrow> u8 \<Rightarrow> u8 \<Rightarrow> u8 \<Rightarrow> hframe" where
  "send_FA_BLOCK1_INFO src dst status stellgrad KT RT BT AT = frame_array src dst 1 [9, 1, status, stellgrad, KT, RT, BT, AT] 8"

definition recv_FA_BLOCK1_INFO :: "'p recv" where
  "recv_FA_BLOCK1_INFO src dst c = recv_message src dst 8 9 1 c"

definition send_REGLER_DATEN_INFO_FRG1 :: "u16 \<Rightarrow> u16 \<Rightarrow> u8 \<Rightarrow> u8 \<Rightarrow> u8 \<Rightarrow> u8 \<Rightarrow> u8 \<Rightarrow> u8 \<Rightarrow> hframe" where
  "send_REGLER_DATEN_INFO_FRG1 src dst status aktion kesseltemp_soll_lo kesseltemp_soll_hi kesseldr_soll_lo kesseldr_soll_hi = frame_array src dst 1 [9, 2, status, aktion, kesseltemp_soll_lo, kesseltemp_soll_hi, kesseldr_soll_lo, kesseldr_soll_hi] 8"

definition recv_REGLER_DATEN_INFO_FRG1 :: "'p recv" where
  "recv_REGLER_DATEN_INFO_FRG1 src dst c = recv_message src dst 8 9 2 c"

definition send_REGLER_DATEN_INFO_FRG2 :: "u16 \<Rightarrow> u16 \<Rightarrow> u8 \<Rightarrow> u8 \<Rightarrow> u8 \<Rightarrow> hframe" where
  "send_REGLER_DATEN_INFO_FRG2 src dst stellgrad ww_soll brennstoff = frame_array src dst 1 [9, 3, stellgrad, ww_soll, brennstoff] 5"

definition recv_REGLER_DATEN_INFO_FRG2 :: "'p recv" where
  "recv_REGLER_DATEN_INFO_FRG2 src dst c = recv_message src dst 5 9 3 c"

definition send_WETTER_INFO :: "u16 \<Rightarrow> u16 \<Rightarrow> u8 \<Rightarrow> u8 \<Rightarrow> u8 \<Rightarrow> u8 \<Rightarrow> u8 \<Rightarrow> hframe" where
  "send_WETTER_INFO src dst niederschlag wind licht_ost licht_sued licht_west = frame_array src dst 1 [10, 1, niederschlag, wind, licht_ost, licht_sued, licht_west] 7"

definition recv_WETTER_INFO :: "'p recv" where
  "recv_WETTER_INFO src dst c = recv_message src dst 7 10 1 c"

definition send_LICHT_STATS_5MIN :: "u16 \<Rightarrow> u16 \<Rightarrow> u8 \<Rightarrow> u8 \<Rightarrow> u8 \<Rightarrow> hframe" where
  "send_LICHT_STATS_5MIN src dst licht_ost licht_sued licht_west = frame_array src dst 1 [10, 2, licht_ost, licht_sued, licht_west] 5"

definition recv_LICHT_STATS_5MIN :: "'p recv" where
  "recv_LICHT_STATS_5MIN src dst c = recv_message src dst 5 10 2 c"

definition send_WIND_STATS_5MIN :: "u16 \<Rightarrow> u16 \<Rightarrow> u8 \<Rightarrow> hframe" where
  "send_WIND_STATS_5MIN src dst wind = frame_array src dst 1 [10, 3, wind] 3"

definition recv_WIND_STATS_5MIN :: "'p recv" where
  "recv_WIND_STATS_5MIN src dst c = recv_message src dst 3 10 3 c"

definition send_OBJECT_COUNT_REQUEST :: "u16 \<Rightarrow> u16 \<Rightarrow> hframe" where
  "send_OBJECT_COUNT_REQUEST src dst = frame_array src dst 1 [11, 1] 2"

definition recv_OBJECT_COUNT_REQUEST :: "'p recv" where
  "recv_OBJECT_COUNT_REQUEST src dst c = recv_message src dst 2 11 1 c"

definition send_OBJECT_COUNT_REPLAY :: "u16 \<Rightarrow> u16 \<Rightarrow> u8 \<Rightarrow> hframe" where
  "send_OBJECT_COUNT_REPLAY src dst count' = frame_array src dst 1 [11, 2, count'] 3"

definition recv_OBJECT_COUNT_REPLAY :: "'p recv" where
  "recv_OBJECT_COUNT_REPLAY src dst c = recv_message src dst 3 11 2 c"

definition send_OBJECT_ATTRIBUTE_REQUEST :: "u16 \<Rightarrow> u16 \<Rightarrow> u8 \<Rightarrow> hframe" where
  "send_OBJECT_ATTRIBUTE_REQUEST src dst oid = frame_array src dst 1 [11, 3, oid] 3"

definition recv_OBJECT_ATTRIBUTE_REQUEST :: "'p recv" where
  "recv_OBJECT_ATTRIBUTE_REQUEST src dst c = recv_message src dst 3 11 3 c"

definition send_OBJECT_ATTRIBUTE_REPLAY :: "u16 \<Rightarrow> u16 \<Rightarrow> u8 \<Rightarrow> u8 \<Rightarrow> u8 \<Rightarrow> u8 \<Rightarrow> u8 \<Rightarrow> u8 \<Rightarrow> hframe" where
  "send_OBJECT_ATTRIBUTE_REPLAY src dst oid oclass p1 p2 p3 p4 = frame_array src dst 1 [11, 4, oid, oclass, p1, p2, p3, p4] 8"

definition recv_OBJECT_ATTRIBUTE_REPLAY :: "'p recv" where
  "recv_OBJECT_ATTRIBUTE_REPLAY src dst c = recv_message src dst 8 11 4 c"

definition send_FIELD_COUNT_REQUEST :: "u16 \<Rightarrow> u16 \<Rightarrow> u8 \<Rightarrow> hframe" where
  "send_FIELD_COUNT_REQUEST src dst oid = frame_array src dst 1 [11, 5, oid] 3"

definition recv_FIELD_COUNT_REQUEST :: "'p recv" where
  "recv_FIELD_COUNT_REQUEST src dst c = recv_message src dst 3 11 5 c"

definition send_FIELD_COUNT_REPLAY :: "u16 \<Rightarrow> u16 \<Rightarrow> u8 \<Rightarrow> u8 \<Rightarrow> hframe" where
  "send_FIELD_COUNT_REPLAY src dst oid count' = frame_array src dst 1 [11, 6, oid, count'] 4"

definition recv_FIELD_COUNT_REPLAY :: "'p recv" where
  "recv_FIELD_COUNT_REPLAY src dst c = recv_message src dst 4 11 6 c"

definition send_FIELD_ATTRIBUTE_REQUEST :: "u16 \<Rightarrow> u16 \<Rightarrow> u8 \<Rightarrow> u8 \<Rightarrow> hframe" where
  "send_FIELD_ATTRIBUTE_REQUEST src dst oid fid = frame_array src dst 1 [11, 7, oid, fid] 4"

definition recv_FIELD_ATTRIBUTE_REQUEST :: "'p recv" where
  "recv_FIELD_ATTRIBUTE_REQUEST src dst c = recv_message src dst 4 11 7 c"

definition send_FIELD_ATTRIBUTE_REPLAY :: "u16 \<Rightarrow> u16 \<Rightarrow> u8 \<Rightarrow> u8 \<Rightarrow> u8 \<Rightarrow> u8 \<Rightarrow> u8 \<Rightarrow> hframe" where
  "send_FIELD_ATTRIBUTE_REPLAY src dst oid fid fclass flags arraysize = frame_array src dst 1 [11, 8, oid, fid, fclass, flags, arraysize] 7"

definition recv_FIELD_ATTRIBUTE_REPLAY :: "'p recv" where
  "recv_FIELD_ATTRIBUTE_REPLAY src dst c = recv_message src dst 7 11 8 c"

definition send_FIELD_READ_REQUEST :: "u16 \<Rightarrow> u16 \<Rightarrow> u8 \<Rightarrow> u8 \<Rightarrow> u8 \<Rightarrow> hframe" where
  "send_FIELD_READ_REQUEST src dst oid fid idx = frame_array src dst 1 [11, 9, oid, fid, idx] 5"

definition recv_FIELD_READ_REQUEST :: "'p recv" where
  "recv_FIELD_READ_REQUEST src dst c = recv_message src dst 5 11 9 c"

definition send_FIELD_READ_REPLAY :: "u16 \<Rightarrow> u16 \<Rightarrow> u8 \<Rightarrow> u8 \<Rightarrow> u8 \<Rightarrow> u8 \<Rightarrow> u8 \<Rightarrow> hframe" where
  "send_FIELD_READ_REPLAY src dst oid fid idx value_hi value_lo = frame_array src dst 1 [11, 10, oid, fid, idx, value_hi, value_lo] 7"

definition recv_FIELD_READ_REPLAY :: "'p recv" where
  "recv_FIELD_READ_REPLAY src dst c = recv_message src dst 7 11 10 c"

definition send_FIELD_WRITE_REQUEST :: "u16 \<Rightarrow> u16 \<Rightarrow> u8 \<Rightarrow> u8 \<Rightarrow> u8 \<Rightarrow> u8 \<Rightarrow> u8 \<Rightarrow> hframe" where
  "send_FIELD_WRITE_REQUEST src dst oid fid idx value_hi value_lo = frame_array src dst 1 [11, 11, oid, fid, idx, value_hi, value_lo] 7"

definition recv_FIELD_WRITE_REQUEST :: "'p recv" where
  "recv_FIELD_WRITE_REQUEST src dst c = recv_message src dst 7 11 11 c"

definition send_FIELD_WRITE_REPLAY :: "u16 \<Rightarrow> u16 \<Rightarrow> u8 \<Rightarrow> u8 \<Rightarrow> u8 \<Rightarrow> hframe" where
  "send_FIELD_WRITE_REPLAY src dst oid fid idx = frame_array src dst 1 [11, 12, oid, fid, idx] 5"

definition recv_FIELD_WRITE_REPLAY :: "'p recv" where
  "recv_FIELD_WRITE_REPLAY src dst c = recv_message src dst 5 11 12 c"

section \<open>All messages\<close>

text \<open>For every message its name, the number of its parameters and its two functions.\<close>

type_synonym 'p codec = "string \<times> nat \<times> (u16 \<Rightarrow> u16 \<Rightarrow> u8 list \<Rightarrow> hframe) \<times> 'p recv"

definition codecs :: "'p codec list" where
  "codecs =
    [(''PING_REQUEST'', 0, \<lambda>s d xs. send_PING_REQUEST s d, recv_PING_REQUEST),
     (''PING_REPLAY'', 0, \<lambda>s d xs. send_PING_REPLAY s d, recv_PING_REPLAY),
     (''DEVICE_STATE_REQUEST'', 0, \<lambda>s d xs. send_DEVICE_STATE_REQUEST s d, recv_DEVICE_STATE_REQUEST),
     (''DEVICE_STATE_REPLAY'', 1, \<lambda>s d xs. send_DEVICE_STATE_REPLAY s d (xs ! 0), recv_DEVICE_STATE_REPLAY),
     (''DEVICE_RESET'', 0, \<lambda>s d xs. send_DEVICE_RESET s d, recv_DEVICE_RESET),
     (''DEVICE_BOOT_STOP'', 0, \<lambda>s d xs. send_DEVICE_BOOT_STOP s d, recv_DEVICE_BOOT_STOP),
     (''DEVICE_BOOT_STOP_ACK'', 0, \<lambda>s d xs. send_DEVICE_BOOT_STOP_ACK s d, recv_DEVICE_BOOT_STOP_ACK),
     (''DEVICE_LOAD_APP'', 0, \<lambda>s d xs. send_DEVICE_LOAD_APP s d, recv_DEVICE_LOAD_APP),
     (''DEVICE_TYPE_REQUEST'', 0, \<lambda>s d xs. send_DEVICE_TYPE_REQUEST s d, recv_DEVICE_TYPE_REQUEST),
     (''DEVICE_TYPE_REPLAY'', 2, \<lambda>s d xs. send_DEVICE_TYPE_REPLAY s d (xs ! 0) (xs ! 1), recv_DEVICE_TYPE_REPLAY),
     (''FLASH_BUFFER_FILL'', 5, \<lambda>s d xs. send_FLASH_BUFFER_FILL s d (xs ! 0) (xs ! 1) (xs ! 2) (xs ! 3) (xs ! 4), recv_FLASH_BUFFER_FILL),
     (''FLASH_BUFFER_FILL_ACK'', 0, \<lambda>s d xs. send_FLASH_BUFFER_FILL_ACK s d, recv_FLASH_BUFFER_FILL_ACK),
     (''FLASH_BUFFER_WRITE'', 2, \<lambda>s d xs. send_FLASH_BUFFER_WRITE s d (xs ! 0) (xs ! 1), recv_FLASH_BUFFER_WRITE),
     (''FLASH_BUFFER_WRITE_ACK'', 0, \<lambda>s d xs. send_FLASH_BUFFER_WRITE_ACK s d, recv_FLASH_BUFFER_WRITE_ACK),
     (''INTERNAL_EEPROM_WRITE'', 3, \<lambda>s d xs. send_INTERNAL_EEPROM_WRITE s d (xs ! 0) (xs ! 1) (xs ! 2), recv_INTERNAL_EEPROM_WRITE),
     (''INTERNAL_EEPROM_WRITE_ACK'', 0, \<lambda>s d xs. send_INTERNAL_EEPROM_WRITE_ACK s d, recv_INTERNAL_EEPROM_WRITE_ACK),
     (''INTERNAL_EEPROM_READ_REQUEST'', 2, \<lambda>s d xs. send_INTERNAL_EEPROM_READ_REQUEST s d (xs ! 0) (xs ! 1), recv_INTERNAL_EEPROM_READ_REQUEST),
     (''INTERNAL_EEPROM_READ_REPLAY'', 1, \<lambda>s d xs. send_INTERNAL_EEPROM_READ_REPLAY s d (xs ! 0), recv_INTERNAL_EEPROM_READ_REPLAY),
     (''INTERNAL_EEPROM_READ_BULK_REQUEST'', 2, \<lambda>s d xs. send_INTERNAL_EEPROM_READ_BULK_REQUEST s d (xs ! 0) (xs ! 1), recv_INTERNAL_EEPROM_READ_BULK_REQUEST),
     (''INTERNAL_EEPROM_READ_BULK_REPLAY'', 6, \<lambda>s d xs. send_INTERNAL_EEPROM_READ_BULK_REPLAY s d (xs ! 0) (xs ! 1) (xs ! 2) (xs ! 3) (xs ! 4) (xs ! 5), recv_INTERNAL_EEPROM_READ_BULK_REPLAY),
     (''UPTIME_QUERY'', 0, \<lambda>s d xs. send_UPTIME_QUERY s d, recv_UPTIME_QUERY),
     (''UPTIME_REPLAY'', 4, \<lambda>s d xs. send_UPTIME_REPLAY s d (xs ! 0) (xs ! 1) (xs ! 2) (xs ! 3), recv_UPTIME_REPLAY),
     (''SYSLOG_LEVEL_SET'', 1, \<lambda>s d xs. send_SYSLOG_LEVEL_SET s d (xs ! 0), recv_SYSLOG_LEVEL_SET),
     (''BUILD_VERSION_QUERY'', 0, \<lambda>s d xs. send_BUILD_VERSION_QUERY s d, recv_BUILD_VERSION_QUERY),
     (''BUILD_VERSION_REPLAY'', 2, \<lambda>s d xs. send_BUILD_VERSION_REPLAY s d (xs ! 0) (xs ! 1), recv_BUILD_VERSION_REPLAY),
     (''CAN_EC_QUERY'', 0, \<lambda>s d xs. send_CAN_EC_QUERY s d, recv_CAN_EC_QUERY),
     (''CAN_EC_REPLAY'', 2, \<lambda>s d xs. send_CAN_EC_REPLAY s d (xs ! 0) (xs ! 1), recv_CAN_EC_REPLAY),
     (''FLASH_CRC16_QUERY'', 2, \<lambda>s d xs. send_FLASH_CRC16_QUERY s d (xs ! 0) (xs ! 1), recv_FLASH_CRC16_QUERY),
     (''FLASH_CRC16_REPLAY'', 2, \<lambda>s d xs. send_FLASH_CRC16_REPLAY s d (xs ! 0) (xs ! 1), recv_FLASH_CRC16_REPLAY),
     (''LOOP_THROUGHPUT_QUERY'', 0, \<lambda>s d xs. send_LOOP_THROUGHPUT_QUERY s d, recv_LOOP_THROUGHPUT_QUERY),
     (''LOOP_THROUGHPUT_REPLAY'', 2, \<lambda>s d xs. send_LOOP_THROUGHPUT_REPLAY s d (xs ! 0) (xs ! 1), recv_LOOP_THROUGHPUT_REPLAY),
     (''RX_RECEIVED_QUERY'', 0, \<lambda>s d xs. send_RX_RECEIVED_QUERY s d, recv_RX_RECEIVED_QUERY),
     (''RX_RECEIVED_REPLAY'', 4, \<lambda>s d xs. send_RX_RECEIVED_REPLAY s d (xs ! 0) (xs ! 1) (xs ! 2) (xs ! 3), recv_RX_RECEIVED_REPLAY),
     (''RX_LOST_QUERY'', 0, \<lambda>s d xs. send_RX_LOST_QUERY s d, recv_RX_LOST_QUERY),
     (''RX_LOST_REPLAY'', 4, \<lambda>s d xs. send_RX_LOST_REPLAY s d (xs ! 0) (xs ! 1) (xs ! 2) (xs ! 3), recv_RX_LOST_REPLAY),
     (''TX_SENT_QUERY'', 0, \<lambda>s d xs. send_TX_SENT_QUERY s d, recv_TX_SENT_QUERY),
     (''TX_SENT_REPLAY'', 4, \<lambda>s d xs. send_TX_SENT_REPLAY s d (xs ! 0) (xs ! 1) (xs ! 2) (xs ! 3), recv_TX_SENT_REPLAY),
     (''TX_DROPPED_QUERY'', 0, \<lambda>s d xs. send_TX_DROPPED_QUERY s d, recv_TX_DROPPED_QUERY),
     (''TX_DROPPED_REPLAY'', 4, \<lambda>s d xs. send_TX_DROPPED_REPLAY s d (xs ! 0) (xs ! 1) (xs ! 2) (xs ! 3), recv_TX_DROPPED_REPLAY),
     (''RX_TX_STATS_RESET'', 0, \<lambda>s d xs. send_RX_TX_STATS_RESET s d, recv_RX_TX_STATS_RESET),
     (''BOOT_RESETFLAG_LOG'', 1, \<lambda>s d xs. send_BOOT_RESETFLAG_LOG s d (xs ! 0), recv_BOOT_RESETFLAG_LOG),
     (''FIRMWARE_CRC16_ERROR'', 0, \<lambda>s d xs. send_FIRMWARE_CRC16_ERROR s d, recv_FIRMWARE_CRC16_ERROR),
     (''FIRMWARE_CONFIG_COMPAT_ERROR'', 5, \<lambda>s d xs. send_FIRMWARE_CONFIG_COMPAT_ERROR s d (xs ! 0) (xs ! 1) (xs ! 2) (xs ! 3) (xs ! 4), recv_FIRMWARE_CONFIG_COMPAT_ERROR),
     (''DUMP_DEBUG_INFO'', 1, \<lambda>s d xs. send_DUMP_DEBUG_INFO s d (xs ! 0), recv_DUMP_DEBUG_INFO),
     (''TASTER_DOWN'', 2, \<lambda>s d xs. send_TASTER_DOWN s d (xs ! 0) (xs ! 1), recv_TASTER_DOWN),
     (''TASTER_UP'', 2, \<lambda>s d xs. send_TASTER_UP s d (xs ! 0) (xs ! 1), recv_TASTER_UP),
     (''POWER_GROUP_ON'', 1, \<lambda>s d xs. send_POWER_GROUP_ON s d (xs ! 0), recv_POWER_GROUP_ON),
     (''POWER_GROUP_OFF'', 1, \<lambda>s d xs. send_POWER_GROUP_OFF s d (xs ! 0), recv_POWER_GROUP_OFF),
     (''POWER_GROUP_STATE_QUERY'', 1, \<lambda>s d xs. send_POWER_GROUP_STATE_QUERY s d (xs ! 0), recv_POWER_GROUP_STATE_QUERY),
     (''POWER_GROUP_STATE_REPLAY'', 2, \<lambda>s d xs. send_POWER_GROUP_STATE_REPLAY s d (xs ! 0) (xs ! 1), recv_POWER_GROUP_STATE_REPLAY),
     (''POWER_GROUP_TIMER_QUERY'', 1, \<lambda>s d xs. send_POWER_GROUP_TIMER_QUERY s d (xs ! 0), recv_POWER_GROUP_TIMER_QUERY),
     (''POWER_GROUP_TIMER_REPLAY'', 3, \<lambda>s d xs. send_POWER_GROUP_TIMER_REPLAY s d (xs ! 0) (xs ! 1) (xs ! 2), recv_POWER_GROUP_TIMER_REPLAY),
     (''POWER_GROUP_SET_TIMER'', 3, \<lambda>s d xs. send_POWER_GROUP_SET_TIMER s d (xs ! 0) (xs ! 1) (xs ! 2), recv_POWER_GROUP_SET_TIMER),
     (''POWER_GROUP_STATE_INFO'', 2, \<lambda>s d xs. send_POWER_GROUP_STATE_INFO s d (xs ! 0) (xs ! 1), recv_POWER_GROUP_STATE_INFO),
     (''ROLLADEN_POSITION_SET'', 2, \<lambda>s d xs. send_ROLLADEN_POSITION_SET s d (xs ! 0) (xs ! 1), recv_ROLLADEN_POSITION_SET),
     (''ROLLADEN_POSITION_REQUEST'', 1, \<lambda>s d xs. send_ROLLADEN_POSITION_REQUEST s d (xs ! 0), recv_ROLLADEN_POSITION_REQUEST),
     (''ROLLADEN_POSITION_REPLAY'', 2, \<lambda>s d xs. send_ROLLADEN_POSITION_REPLAY s d (xs ! 0) (xs ! 1), recv_ROLLADEN_POSITION_REPLAY),
     (''ROLLADEN_DEFINE_POSITION'', 2, \<lambda>s d xs. send_ROLLADEN_DEFINE_POSITION s d (xs ! 0) (xs ! 1), recv_ROLLADEN_DEFINE_POSITION),
     (''ROLLADEN_POSITION_CHANGED_INFO'', 4, \<lambda>s d xs. send_ROLLADEN_POSITION_CHANGED_INFO s d (xs ! 0) (xs ! 1) (xs ! 2) (xs ! 3), recv_ROLLADEN_POSITION_CHANGED_INFO),
     (''1WIRE_DISCOVER'', 1, \<lambda>s d xs. send_1WIRE_DISCOVER s d (xs ! 0), recv_1WIRE_DISCOVER),
     (''1WIRE_DISCOVERED_PART_1'', 4, \<lambda>s d xs. send_1WIRE_DISCOVERED_PART_1 s d (xs ! 0) (xs ! 1) (xs ! 2) (xs ! 3), recv_1WIRE_DISCOVERED_PART_1),
     (''1WIRE_DISCOVERED_PART_2'', 4, \<lambda>s d xs. send_1WIRE_DISCOVERED_PART_2 s d (xs ! 0) (xs ! 1) (xs ! 2) (xs ! 3), recv_1WIRE_DISCOVERED_PART_2),
     (''1WIRE_ERROR'', 1, \<lambda>s d xs. send_1WIRE_ERROR s d (xs ! 0), recv_1WIRE_ERROR),
     (''1WIRE_TEMPERATURE'', 3, \<lambda>s d xs. send_1WIRE_TEMPERATURE s d (xs ! 0) (xs ! 1) (xs ! 2), recv_1WIRE_TEMPERATURE),
     (''1WIRE_TEMPERATURE_QUERY'', 1, \<lambda>s d xs. send_1WIRE_TEMPERATURE_QUERY s d (xs ! 0), recv_1WIRE_TEMPERATURE_QUERY),
     (''1WIRE_TEMPERATURE_REPLAY'', 3, \<lambda>s d xs. send_1WIRE_TEMPERATURE_REPLAY s d (xs ! 0) (xs ! 1) (xs ! 2), recv_1WIRE_TEMPERATURE_REPLAY),
     (''REEDKONTAKT_OFFEN'', 1, \<lambda>s d xs. send_REEDKONTAKT_OFFEN s d (xs ! 0), recv_REEDKONTAKT_OFFEN),
     (''REEDKONTAKT_STATE_QUERY'', 1, \<lambda>s d xs. send_REEDKONTAKT_STATE_QUERY s d (xs ! 0), recv_REEDKONTAKT_STATE_QUERY),
     (''REEDKONTAKT_STATE_REPLAY'', 2, \<lambda>s d xs. send_REEDKONTAKT_STATE_REPLAY s d (xs ! 0) (xs ! 1), recv_REEDKONTAKT_STATE_REPLAY),
     (''REEDKONTAKT_STATE_CHANGE'', 2, \<lambda>s d xs. send_REEDKONTAKT_STATE_CHANGE s d (xs ! 0) (xs ! 1), recv_REEDKONTAKT_STATE_CHANGE),
     (''PVSENSOR_STATE_REQUEST'', 1, \<lambda>s d xs. send_PVSENSOR_STATE_REQUEST s d (xs ! 0), recv_PVSENSOR_STATE_REQUEST),
     (''PVSENSOR_STATE_REPLAY'', 2, \<lambda>s d xs. send_PVSENSOR_STATE_REPLAY s d (xs ! 0) (xs ! 1), recv_PVSENSOR_STATE_REPLAY),
     (''PVSENSOR_STATE_CHANGE_INFO'', 2, \<lambda>s d xs. send_PVSENSOR_STATE_CHANGE_INFO s d (xs ! 0) (xs ! 1), recv_PVSENSOR_STATE_CHANGE_INFO),
     (''HEIZUNG_DETAILS_REQUEST'', 1, \<lambda>s d xs. send_HEIZUNG_DETAILS_REQUEST s d (xs ! 0), recv_HEIZUNG_DETAILS_REQUEST),
     (''HEIZUNG_MODE_OFF_DETAILS'', 1, \<lambda>s d xs. send_HEIZUNG_MODE_OFF_DETAILS s d (xs ! 0), recv_HEIZUNG_MODE_OFF_DETAILS),
     (''HEIZUNG_SET_MODE_OFF'', 1, \<lambda>s d xs. send_HEIZUNG_SET_MODE_OFF s d (xs ! 0), recv_HEIZUNG_SET_MODE_OFF),
     (''HEIZUNG_MODE_MANUAL_DETAILS'', 4, \<lambda>s d xs. send_HEIZUNG_MODE_MANUAL_DETAILS s d (xs ! 0) (xs ! 1) (xs ! 2) (xs ! 3), recv_HEIZUNG_MODE_MANUAL_DETAILS),
     (''HEIZUNG_SET_MODE_MANUAL'', 4, \<lambda>s d xs. send_HEIZUNG_SET_MODE_MANUAL s d (xs ! 0) (xs ! 1) (xs ! 2) (xs ! 3), recv_HEIZUNG_SET_MODE_MANUAL),
     (''HEIZUNG_MODE_THERMOSTAT_DETAILS'', 5, \<lambda>s d xs. send_HEIZUNG_MODE_THERMOSTAT_DETAILS s d (xs ! 0) (xs ! 1) (xs ! 2) (xs ! 3) (xs ! 4), recv_HEIZUNG_MODE_THERMOSTAT_DETAILS),
     (''HEIZUNG_SET_MODE_THERMOSTAT_DETAILS'', 5, \<lambda>s d xs. send_HEIZUNG_SET_MODE_THERMOSTAT_DETAILS s d (xs ! 0) (xs ! 1) (xs ! 2) (xs ! 3) (xs ! 4), recv_HEIZUNG_SET_MODE_THERMOSTAT_DETAILS),
     (''HEIZUNG_MODE_AUTOMATIK_DETAILS'', 4, \<lambda>s d xs. send_HEIZUNG_MODE_AUTOMATIK_DETAILS s d (xs ! 0) (xs ! 1) (xs ! 2) (xs ! 3), recv_HEIZUNG_MODE_AUTOMATIK_DETAILS),
     (''HEIZUNG_SET_MODE_AUTOMATIK'', 1, \<lambda>s d xs. send_HEIZUNG_SET_MODE_AUTOMATIK s d (xs ! 0), recv_HEIZUNG_SET_MODE_AUTOMATIK),
     (''HEIZUNG_TIST_REQUEST'', 1, \<lambda>s d xs. send_HEIZUNG_TIST_REQUEST s d (xs ! 0), recv_HEIZUNG_TIST_REQUEST),
     (''HEIZUNG_TIST_REPLAY'', 3, \<lambda>s d xs. send_HEIZUNG_TIST_REPLAY s d (xs ! 0) (xs ! 1) (xs ! 2), recv_HEIZUNG_TIST_REPLAY),
     (''HEIZUNG_WAERMEBEDARF_INFO'', 2, \<lambda>s d xs. send_HEIZUNG_WAERMEBEDARF_INFO s d (xs ! 0) (xs ! 1), recv_HEIZUNG_WAERMEBEDARF_INFO),
     (''HEIZSTEUERUNG_STATE_REQUEST'', 0, \<lambda>s d xs. send_HEIZSTEUERUNG_STATE_REQUEST s d, recv_HEIZSTEUERUNG_STATE_REQUEST),
     (''HEIZSTEUERUNG_STATE_REPLAY'', 4, \<lambda>s d xs. send_HEIZSTEUERUNG_STATE_REPLAY s d (xs ! 0) (xs ! 1) (xs ! 2) (xs ! 3), recv_HEIZSTEUERUNG_STATE_REPLAY),
     (''HEIZSTEUERUNG_STATE_INFO'', 4, \<lambda>s d xs. send_HEIZSTEUERUNG_STATE_INFO s d (xs ! 0) (xs ! 1) (xs ! 2) (xs ! 3), recv_HEIZSTEUERUNG_STATE_INFO),
     (''HEIZSTEUERUNG_SET_VL'', 1, \<lambda>s d xs. send_HEIZSTEUERUNG_SET_VL s d (xs ! 0), recv_HEIZSTEUERUNG_SET_VL),
     (''HEIZUNG_SOLLTEMP_LINE_REQUEST'', 2, \<lambda>s d xs. send_HEIZUNG_SOLLTEMP_LINE_REQUEST s d (xs ! 0) (xs ! 1), recv_HEIZUNG_SOLLTEMP_LINE_REQUEST),
     (''HEIZUNG_SOLLTEMP_LINE_REPLAY'', 5, \<lambda>s d xs. send_HEIZUNG_SOLLTEMP_LINE_REPLAY s d (xs ! 0) (xs ! 1) (xs ! 2) (xs ! 3) (xs ! 4), recv_HEIZUNG_SOLLTEMP_LINE_REPLAY),
     (''HEIZUNG_SOLLTEMP_WRITE_LINE'', 5, \<lambda>s d xs. send_HEIZUNG_SOLLTEMP_WRITE_LINE s d (xs ! 0) (xs ! 1) (xs ! 2) (xs ! 3) (xs ! 4), recv_HEIZUNG_SOLLTEMP_WRITE_LINE),
     (''HEIZUNG_SOLLTEMP_WRITE_LINE_ACK'', 2, \<lambda>s d xs. send_HEIZUNG_SOLLTEMP_WRITE_LINE_ACK s d (xs ! 0) (xs ! 1), recv_HEIZUNG_SOLLTEMP_WRITE_LINE_ACK),
     (''POTI_POS_CHANGED'', 3, \<lambda>s d xs. send_POTI_POS_CHANGED s d (xs ! 0) (xs ! 1) (xs ! 2), recv_POTI_POS_CHANGED),
     (''HELLIGKEITS_INFO'', 3, \<lambda>s d xs. send_HELLIGKEITS_INFO s d (xs ! 0) (xs ! 1) (xs ! 2), recv_HELLIGKEITS_INFO),
     (''WECKER_SET'', 3, \<lambda>s d xs. send_WECKER_SET s d (xs ! 0) (xs ! 1) (xs ! 2), recv_WECKER_SET),
     (''WECKER_DETAILS_REQUEST'', 1, \<lambda>s d xs. send_WECKER_DETAILS_REQUEST s d (xs ! 0), recv_WECKER_DETAILS_REQUEST),
     (''WECKER_DETAILS'', 3, \<lambda>s d xs. send_WECKER_DETAILS s d (xs ! 0) (xs ! 1) (xs ! 2), recv_WECKER_DETAILS),
     (''CONFIG_RELOAD'', 0, \<lambda>s d xs. send_CONFIG_RELOAD s d, recv_CONFIG_RELOAD),
     (''CONFIG_RAM_USAGE_REQUEST'', 0, \<lambda>s d xs. send_CONFIG_RAM_USAGE_REQUEST s d, recv_CONFIG_RAM_USAGE_REQUEST),
     (''CONFIG_RAM_USAGE_REPLAY'', 2, \<lambda>s d xs. send_CONFIG_RAM_USAGE_REPLAY s d (xs ! 0) (xs ! 1), recv_CONFIG_RAM_USAGE_REPLAY),
     (''ZEITZONE_DETAILS_REQUEST'', 1, \<lambda>s d xs. send_ZEITZONE_DETAILS_REQUEST s d (xs ! 0), recv_ZEITZONE_DETAILS_REQUEST),
     (''ZEITZONE_DETAILS_REPLAY'', 6, \<lambda>s d xs. send_ZEITZONE_DETAILS_REPLAY s d (xs ! 0) (xs ! 1) (xs ! 2) (xs ! 3) (xs ! 4) (xs ! 5), recv_ZEITZONE_DETAILS_REPLAY),
     (''ZEITZONE_WRITE_DETAILS'', 6, \<lambda>s d xs. send_ZEITZONE_WRITE_DETAILS s d (xs ! 0) (xs ! 1) (xs ! 2) (xs ! 3) (xs ! 4) (xs ! 5), recv_ZEITZONE_WRITE_DETAILS),
     (''ZEITZONE_WRITE_DETAILS_ACK'', 1, \<lambda>s d xs. send_ZEITZONE_WRITE_DETAILS_ACK s d (xs ! 0), recv_ZEITZONE_WRITE_DETAILS_ACK),
     (''ZEITZONE_TEST_MATCH_REQUERST'', 1, \<lambda>s d xs. send_ZEITZONE_TEST_MATCH_REQUERST s d (xs ! 0), recv_ZEITZONE_TEST_MATCH_REQUERST),
     (''ZEITZONE_TEST_MATCH_REPLAY'', 2, \<lambda>s d xs. send_ZEITZONE_TEST_MATCH_REPLAY s d (xs ! 0) (xs ! 1), recv_ZEITZONE_TEST_MATCH_REPLAY),
     (''TIME_INFO'', 5, \<lambda>s d xs. send_TIME_INFO s d (xs ! 0) (xs ! 1) (xs ! 2) (xs ! 3) (xs ! 4), recv_TIME_INFO),
     (''DATE_INFO'', 4, \<lambda>s d xs. send_DATE_INFO s d (xs ! 0) (xs ! 1) (xs ! 2) (xs ! 3), recv_DATE_INFO),
     (''TIME_REQUEST'', 0, \<lambda>s d xs. send_TIME_REQUEST s d, recv_TIME_REQUEST),
     (''DATE_REQUEST'', 0, \<lambda>s d xs. send_DATE_REQUEST s d, recv_DATE_REQUEST),
     (''GET_NEXT_BLOCK'', 2, \<lambda>s d xs. send_GET_NEXT_BLOCK s d (xs ! 0) (xs ! 1), recv_GET_NEXT_BLOCK),
     (''GET_NEXT_BLOCK_REPLAY'', 4, \<lambda>s d xs. send_GET_NEXT_BLOCK_REPLAY s d (xs ! 0) (xs ! 1) (xs ! 2) (xs ! 3), recv_GET_NEXT_BLOCK_REPLAY),
     (''DEFRAGMENT'', 0, \<lambda>s d xs. send_DEFRAGMENT s d, recv_DEFRAGMENT),
     (''ALLOCATE_BLOCK'', 2, \<lambda>s d xs. send_ALLOCATE_BLOCK s d (xs ! 0) (xs ! 1), recv_ALLOCATE_BLOCK),
     (''ALLOCATE_BLOCK_REPLAY'', 2, \<lambda>s d xs. send_ALLOCATE_BLOCK_REPLAY s d (xs ! 0) (xs ! 1), recv_ALLOCATE_BLOCK_REPLAY),
     (''FREE_BLOCK'', 2, \<lambda>s d xs. send_FREE_BLOCK s d (xs ! 0) (xs ! 1), recv_FREE_BLOCK),
     (''FREE_BLOCK_REPLAY'', 1, \<lambda>s d xs. send_FREE_BLOCK_REPLAY s d (xs ! 0), recv_FREE_BLOCK_REPLAY),
     (''READ_FROM_BLOCK'', 3, \<lambda>s d xs. send_READ_FROM_BLOCK s d (xs ! 0) (xs ! 1) (xs ! 2), recv_READ_FROM_BLOCK),
     (''READ_FROM_BLOCK_REPLAY'', 4, \<lambda>s d xs. send_READ_FROM_BLOCK_REPLAY s d (xs ! 0) (xs ! 1) (xs ! 2) (xs ! 3), recv_READ_FROM_BLOCK_REPLAY),
     (''WRITE_TO_BLOCK'', 4, \<lambda>s d xs. send_WRITE_TO_BLOCK s d (xs ! 0) (xs ! 1) (xs ! 2) (xs ! 3), recv_WRITE_TO_BLOCK),
     (''WRITE_TO_BLOCK_REPLAY'', 0, \<lambda>s d xs. send_WRITE_TO_BLOCK_REPLAY s d, recv_WRITE_TO_BLOCK_REPLAY),
     (''FORMAT'', 0, \<lambda>s d xs. send_FORMAT s d, recv_FORMAT),
     (''STATE_REQUEST'', 0, \<lambda>s d xs. send_STATE_REQUEST s d, recv_STATE_REQUEST),
     (''STATE_INFO'', 1, \<lambda>s d xs. send_STATE_INFO s d (xs ! 0), recv_STATE_INFO),
     (''VOLTAGE_REQUEST'', 1, \<lambda>s d xs. send_VOLTAGE_REQUEST s d (xs ! 0), recv_VOLTAGE_REQUEST),
     (''VOLTAGE_REPLAY'', 2, \<lambda>s d xs. send_VOLTAGE_REPLAY s d (xs ! 0) (xs ! 1), recv_VOLTAGE_REPLAY),
     (''VOLTAGE_STATS_REQUEST'', 1, \<lambda>s d xs. send_VOLTAGE_STATS_REQUEST s d (xs ! 0), recv_VOLTAGE_STATS_REQUEST),
     (''VOLTAGE_STATS_REPLAY'', 5, \<lambda>s d xs. send_VOLTAGE_STATS_REPLAY s d (xs ! 0) (xs ! 1) (xs ! 2) (xs ! 3) (xs ! 4), recv_VOLTAGE_STATS_REPLAY),
     (''VOLTAGE_STATS_RESET'', 0, \<lambda>s d xs. send_VOLTAGE_STATS_RESET s d, recv_VOLTAGE_STATS_RESET),
     (''FA_BLOCK1_INFO'', 6, \<lambda>s d xs. send_FA_BLOCK1_INFO s d (xs ! 0) (xs ! 1) (xs ! 2) (xs ! 3) (xs ! 4) (xs ! 5), recv_FA_BLOCK1_INFO),
     (''REGLER_DATEN_INFO_FRG1'', 6, \<lambda>s d xs. send_REGLER_DATEN_INFO_FRG1 s d (xs ! 0) (xs ! 1) (xs ! 2) (xs ! 3) (xs ! 4) (xs ! 5), recv_REGLER_DATEN_INFO_FRG1),
     (''REGLER_DATEN_INFO_FRG2'', 3, \<lambda>s d xs. send_REGLER_DATEN_INFO_FRG2 s d (xs ! 0) (xs ! 1) (xs ! 2), recv_REGLER_DATEN_INFO_FRG2),
     (''WETTER_INFO'', 5, \<lambda>s d xs. send_WETTER_INFO s d (xs ! 0) (xs ! 1) (xs ! 2) (xs ! 3) (xs ! 4), recv_WETTER_INFO),
     (''LICHT_STATS_5MIN'', 3, \<lambda>s d xs. send_LICHT_STATS_5MIN s d (xs ! 0) (xs ! 1) (xs ! 2), recv_LICHT_STATS_5MIN),
     (''WIND_STATS_5MIN'', 1, \<lambda>s d xs. send_WIND_STATS_5MIN s d (xs ! 0), recv_WIND_STATS_5MIN),
     (''OBJECT_COUNT_REQUEST'', 0, \<lambda>s d xs. send_OBJECT_COUNT_REQUEST s d, recv_OBJECT_COUNT_REQUEST),
     (''OBJECT_COUNT_REPLAY'', 1, \<lambda>s d xs. send_OBJECT_COUNT_REPLAY s d (xs ! 0), recv_OBJECT_COUNT_REPLAY),
     (''OBJECT_ATTRIBUTE_REQUEST'', 1, \<lambda>s d xs. send_OBJECT_ATTRIBUTE_REQUEST s d (xs ! 0), recv_OBJECT_ATTRIBUTE_REQUEST),
     (''OBJECT_ATTRIBUTE_REPLAY'', 6, \<lambda>s d xs. send_OBJECT_ATTRIBUTE_REPLAY s d (xs ! 0) (xs ! 1) (xs ! 2) (xs ! 3) (xs ! 4) (xs ! 5), recv_OBJECT_ATTRIBUTE_REPLAY),
     (''FIELD_COUNT_REQUEST'', 1, \<lambda>s d xs. send_FIELD_COUNT_REQUEST s d (xs ! 0), recv_FIELD_COUNT_REQUEST),
     (''FIELD_COUNT_REPLAY'', 2, \<lambda>s d xs. send_FIELD_COUNT_REPLAY s d (xs ! 0) (xs ! 1), recv_FIELD_COUNT_REPLAY),
     (''FIELD_ATTRIBUTE_REQUEST'', 2, \<lambda>s d xs. send_FIELD_ATTRIBUTE_REQUEST s d (xs ! 0) (xs ! 1), recv_FIELD_ATTRIBUTE_REQUEST),
     (''FIELD_ATTRIBUTE_REPLAY'', 5, \<lambda>s d xs. send_FIELD_ATTRIBUTE_REPLAY s d (xs ! 0) (xs ! 1) (xs ! 2) (xs ! 3) (xs ! 4), recv_FIELD_ATTRIBUTE_REPLAY),
     (''FIELD_READ_REQUEST'', 3, \<lambda>s d xs. send_FIELD_READ_REQUEST s d (xs ! 0) (xs ! 1) (xs ! 2), recv_FIELD_READ_REQUEST),
     (''FIELD_READ_REPLAY'', 5, \<lambda>s d xs. send_FIELD_READ_REPLAY s d (xs ! 0) (xs ! 1) (xs ! 2) (xs ! 3) (xs ! 4), recv_FIELD_READ_REPLAY),
     (''FIELD_WRITE_REQUEST'', 5, \<lambda>s d xs. send_FIELD_WRITE_REQUEST s d (xs ! 0) (xs ! 1) (xs ! 2) (xs ! 3) (xs ! 4), recv_FIELD_WRITE_REQUEST),
     (''FIELD_WRITE_REPLAY'', 3, \<lambda>s d xs. send_FIELD_WRITE_REPLAY s d (xs ! 0) (xs ! 1) (xs ! 2), recv_FIELD_WRITE_REPLAY)]"

text \<open>The number of parameters, service and command of each, in the order of services and commands.\<close>

definition catalogue :: "(nat \<times> u8 \<times> u8) list" where
  "catalogue =
    [(0, 1, 1), (0, 1, 2), (0, 1, 3), (1, 1, 4), (0, 1, 5), (0, 1, 6), (0, 1, 7), (0, 1, 8), (0, 1, 9), (2, 1, 10),
     (5, 1, 16), (0, 1, 17), (2, 1, 18), (0, 1, 19), (3, 1, 20), (0, 1, 21), (2, 1, 22), (1, 1, 23), (2, 1, 24),
     (6, 1, 25), (0, 1, 30), (4, 1, 31), (1, 1, 32), (0, 1, 33), (2, 1, 34), (0, 1, 35), (2, 1, 36), (2, 1, 37),
     (2, 1, 38), (0, 1, 39), (2, 1, 40), (0, 1, 41), (4, 1, 42), (0, 1, 43), (4, 1, 44), (0, 1, 45), (4, 1, 46),
     (0, 1, 47), (4, 1, 48), (0, 1, 49), (1, 4, 1), (0, 4, 2), (5, 4, 3), (1, 4, 4), (2, 5, 1), (2, 5, 2), (1, 5,
     10), (1, 5, 11), (1, 5, 12), (2, 5, 13), (1, 5, 14), (3, 5, 15), (3, 5, 16), (2, 5, 17), (2, 5, 20), (1, 5,
     21), (2, 5, 22), (2, 5, 23), (4, 5, 24), (1, 5, 30), (4, 5, 31), (4, 5, 32), (1, 5, 33), (3, 5, 34), (1, 5,
     35), (3, 5, 36), (1, 5, 40), (1, 5, 41), (2, 5, 42), (2, 5, 43), (1, 5, 44), (2, 5, 45), (2, 5, 46), (1, 5,
     50), (1, 5, 51), (1, 5, 52), (4, 5, 53), (4, 5, 54), (5, 5, 55), (5, 5, 56), (4, 5, 57), (1, 5, 58), (1, 5,
     59), (3, 5, 60), (2, 5, 61), (0, 5, 62), (4, 5, 63), (4, 5, 64), (1, 5, 65), (2, 5, 66), (5, 5, 67), (5, 5,
     68), (2, 5, 69), (3, 5, 70), (3, 5, 71), (3, 5, 72), (1, 5, 73), (3, 5, 74), (0, 5, 100), (0, 5, 101), (2, 5,
     102), (1, 5, 110), (6, 5, 111), (6, 5, 112), (1, 5, 113), (1, 5, 114), (2, 5, 115), (5, 6, 1), (4, 6, 2), (0,
     6, 3), (0, 6, 4), (2, 7, 1), (4, 7, 2), (0, 7, 3), (2, 7, 4), (2, 7, 5), (2, 7, 6), (1, 7, 7), (3, 7, 8), (4,
     7, 9), (4, 7, 10), (0, 7, 11), (0, 7, 12), (0, 8, 1), (1, 8, 2), (1, 8, 3), (2, 8, 4), (1, 8, 5), (5, 8, 6),
     (0, 8, 7), (6, 9, 1), (6, 9, 2), (3, 9, 3), (5, 10, 1), (3, 10, 2), (1, 10, 3), (0, 11, 1), (1, 11, 2), (1,
     11, 3), (6, 11, 4), (1, 11, 5), (2, 11, 6), (2, 11, 7), (5, 11, 8), (3, 11, 9), (5, 11, 10), (5, 11, 11), (3,
     11, 12)]"

lemma packet_round:
  assumes "unat s < 1024" "unat d < 1024" "unat p < 8" "unat n \<le> 8" "unat n \<le> length dat"
  shows "frame_read_from (frame_write_to (frame_array s d p dat n)) = frame_array s d p dat n"
proof -
  let ?h = "frame_array s d p dat n"
  have n: "\<not> n > 8" "ucast (ucast n :: u8) = n" "unat (ucast n :: u8) = unat n"
    using assms(4) by (simp_all add: word_less_nat_alt word_unat_eq_iff unsigned_ucast_eq unsigned_take_bit_eq take_bit_nat_eq_self)
  have wf: "frame_wf (node_frame ?h)"
    using assms n by (simp add: frame_wf_def node_frame_def frame_array_def Let_def data_as_string_def word_le_nat_alt)
  have "host_frame (node_frame ?h) = ?h"
    using assms n by (simp add: host_frame_def node_frame_def frame_array_def Let_def data_as_string_def)
  moreover have "frame_read_from (frame_write_to ?h) = host_frame (node_frame ?h)"
    by (rule read_from_extid [OF wf, of _ "m_prio ?h"])
      (use assms n in \<open>simp_all add: write_id, simp_all add: frame_write_to_def node_frame_def frame_array_def Let_def data_as_string_def\<close>)
  ultimately show ?thesis by simp
qed

text \<open>Lists given by their elements.\<close>

lemma nth_lists:
  "length xs = Suc 0 \<Longrightarrow> [xs ! 0] = xs" "length xs = 2 \<Longrightarrow> [xs ! 0, xs ! Suc 0] = xs"
  "length xs = 3 \<Longrightarrow> [xs ! 0, xs ! Suc 0, xs ! 2] = xs" "length xs = 4 \<Longrightarrow> [xs ! 0, xs ! Suc 0, xs ! 2, xs ! 3] = xs"
  "length xs = 5 \<Longrightarrow> [xs ! 0, xs ! Suc 0, xs ! 2, xs ! 3, xs ! 4] = xs"
  "length xs = 6 \<Longrightarrow> [xs ! 0, xs ! Suc 0, xs ! 2, xs ! 3, xs ! 4, xs ! 5] = xs"
  using map_nth [of xs] by (simp_all add: upt_conv_Cons numeral_eq_Suc)

fun codec_ok :: "nat \<times> u8 \<times> u8 \<Rightarrow> 'p codec \<Rightarrow> bool" where
  "codec_ok (n, service, command) (name, k, sd, rcv) \<longleftrightarrow> k = n \<and> n \<le> 6 \<and>
     (\<forall>s d xs. length xs = n \<longrightarrow> sd s d xs = frame_array s d 1 (service # command # xs) (of_nat (n + 2))) \<and>
     (\<forall>s d c. rcv s d c = recv_message s d (n + 2) service command c)"
lemmas message_defs =
    send_PING_REQUEST_def recv_PING_REQUEST_def send_PING_REPLAY_def recv_PING_REPLAY_def
    send_DEVICE_STATE_REQUEST_def recv_DEVICE_STATE_REQUEST_def send_DEVICE_STATE_REPLAY_def
    recv_DEVICE_STATE_REPLAY_def send_DEVICE_RESET_def recv_DEVICE_RESET_def send_DEVICE_BOOT_STOP_def
    recv_DEVICE_BOOT_STOP_def send_DEVICE_BOOT_STOP_ACK_def recv_DEVICE_BOOT_STOP_ACK_def send_DEVICE_LOAD_APP_def
    recv_DEVICE_LOAD_APP_def send_DEVICE_TYPE_REQUEST_def recv_DEVICE_TYPE_REQUEST_def send_DEVICE_TYPE_REPLAY_def
    recv_DEVICE_TYPE_REPLAY_def send_FLASH_BUFFER_FILL_def recv_FLASH_BUFFER_FILL_def
    send_FLASH_BUFFER_FILL_ACK_def recv_FLASH_BUFFER_FILL_ACK_def send_FLASH_BUFFER_WRITE_def
    recv_FLASH_BUFFER_WRITE_def send_FLASH_BUFFER_WRITE_ACK_def recv_FLASH_BUFFER_WRITE_ACK_def
    send_INTERNAL_EEPROM_WRITE_def recv_INTERNAL_EEPROM_WRITE_def send_INTERNAL_EEPROM_WRITE_ACK_def
    recv_INTERNAL_EEPROM_WRITE_ACK_def send_INTERNAL_EEPROM_READ_REQUEST_def recv_INTERNAL_EEPROM_READ_REQUEST_def
    send_INTERNAL_EEPROM_READ_REPLAY_def recv_INTERNAL_EEPROM_READ_REPLAY_def
    send_INTERNAL_EEPROM_READ_BULK_REQUEST_def recv_INTERNAL_EEPROM_READ_BULK_REQUEST_def
    send_INTERNAL_EEPROM_READ_BULK_REPLAY_def recv_INTERNAL_EEPROM_READ_BULK_REPLAY_def send_UPTIME_QUERY_def
    recv_UPTIME_QUERY_def send_UPTIME_REPLAY_def recv_UPTIME_REPLAY_def send_SYSLOG_LEVEL_SET_def
    recv_SYSLOG_LEVEL_SET_def send_BUILD_VERSION_QUERY_def recv_BUILD_VERSION_QUERY_def
    send_BUILD_VERSION_REPLAY_def recv_BUILD_VERSION_REPLAY_def send_CAN_EC_QUERY_def recv_CAN_EC_QUERY_def
    send_CAN_EC_REPLAY_def recv_CAN_EC_REPLAY_def send_FLASH_CRC16_QUERY_def recv_FLASH_CRC16_QUERY_def
    send_FLASH_CRC16_REPLAY_def recv_FLASH_CRC16_REPLAY_def send_LOOP_THROUGHPUT_QUERY_def
    recv_LOOP_THROUGHPUT_QUERY_def send_LOOP_THROUGHPUT_REPLAY_def recv_LOOP_THROUGHPUT_REPLAY_def
    send_RX_RECEIVED_QUERY_def recv_RX_RECEIVED_QUERY_def send_RX_RECEIVED_REPLAY_def recv_RX_RECEIVED_REPLAY_def
    send_RX_LOST_QUERY_def recv_RX_LOST_QUERY_def send_RX_LOST_REPLAY_def recv_RX_LOST_REPLAY_def
    send_TX_SENT_QUERY_def recv_TX_SENT_QUERY_def send_TX_SENT_REPLAY_def recv_TX_SENT_REPLAY_def
    send_TX_DROPPED_QUERY_def recv_TX_DROPPED_QUERY_def send_TX_DROPPED_REPLAY_def recv_TX_DROPPED_REPLAY_def
    send_RX_TX_STATS_RESET_def recv_RX_TX_STATS_RESET_def send_BOOT_RESETFLAG_LOG_def recv_BOOT_RESETFLAG_LOG_def
    send_FIRMWARE_CRC16_ERROR_def recv_FIRMWARE_CRC16_ERROR_def send_FIRMWARE_CONFIG_COMPAT_ERROR_def
    recv_FIRMWARE_CONFIG_COMPAT_ERROR_def send_DUMP_DEBUG_INFO_def recv_DUMP_DEBUG_INFO_def send_TASTER_DOWN_def
    recv_TASTER_DOWN_def send_TASTER_UP_def recv_TASTER_UP_def send_POWER_GROUP_ON_def recv_POWER_GROUP_ON_def
    send_POWER_GROUP_OFF_def recv_POWER_GROUP_OFF_def send_POWER_GROUP_STATE_QUERY_def
    recv_POWER_GROUP_STATE_QUERY_def send_POWER_GROUP_STATE_REPLAY_def recv_POWER_GROUP_STATE_REPLAY_def
    send_POWER_GROUP_TIMER_QUERY_def recv_POWER_GROUP_TIMER_QUERY_def send_POWER_GROUP_TIMER_REPLAY_def
    recv_POWER_GROUP_TIMER_REPLAY_def send_POWER_GROUP_SET_TIMER_def recv_POWER_GROUP_SET_TIMER_def
    send_POWER_GROUP_STATE_INFO_def recv_POWER_GROUP_STATE_INFO_def send_ROLLADEN_POSITION_SET_def
    recv_ROLLADEN_POSITION_SET_def send_ROLLADEN_POSITION_REQUEST_def recv_ROLLADEN_POSITION_REQUEST_def
    send_ROLLADEN_POSITION_REPLAY_def recv_ROLLADEN_POSITION_REPLAY_def send_ROLLADEN_DEFINE_POSITION_def
    recv_ROLLADEN_DEFINE_POSITION_def send_ROLLADEN_POSITION_CHANGED_INFO_def
    recv_ROLLADEN_POSITION_CHANGED_INFO_def send_1WIRE_DISCOVER_def recv_1WIRE_DISCOVER_def
    send_1WIRE_DISCOVERED_PART_1_def recv_1WIRE_DISCOVERED_PART_1_def send_1WIRE_DISCOVERED_PART_2_def
    recv_1WIRE_DISCOVERED_PART_2_def send_1WIRE_ERROR_def recv_1WIRE_ERROR_def send_1WIRE_TEMPERATURE_def
    recv_1WIRE_TEMPERATURE_def send_1WIRE_TEMPERATURE_QUERY_def recv_1WIRE_TEMPERATURE_QUERY_def
    send_1WIRE_TEMPERATURE_REPLAY_def recv_1WIRE_TEMPERATURE_REPLAY_def send_REEDKONTAKT_OFFEN_def
    recv_REEDKONTAKT_OFFEN_def send_REEDKONTAKT_STATE_QUERY_def recv_REEDKONTAKT_STATE_QUERY_def
    send_REEDKONTAKT_STATE_REPLAY_def recv_REEDKONTAKT_STATE_REPLAY_def send_REEDKONTAKT_STATE_CHANGE_def
    recv_REEDKONTAKT_STATE_CHANGE_def send_PVSENSOR_STATE_REQUEST_def recv_PVSENSOR_STATE_REQUEST_def
    send_PVSENSOR_STATE_REPLAY_def recv_PVSENSOR_STATE_REPLAY_def send_PVSENSOR_STATE_CHANGE_INFO_def
    recv_PVSENSOR_STATE_CHANGE_INFO_def send_HEIZUNG_DETAILS_REQUEST_def recv_HEIZUNG_DETAILS_REQUEST_def
    send_HEIZUNG_MODE_OFF_DETAILS_def recv_HEIZUNG_MODE_OFF_DETAILS_def send_HEIZUNG_SET_MODE_OFF_def
    recv_HEIZUNG_SET_MODE_OFF_def send_HEIZUNG_MODE_MANUAL_DETAILS_def recv_HEIZUNG_MODE_MANUAL_DETAILS_def
    send_HEIZUNG_SET_MODE_MANUAL_def recv_HEIZUNG_SET_MODE_MANUAL_def send_HEIZUNG_MODE_THERMOSTAT_DETAILS_def
    recv_HEIZUNG_MODE_THERMOSTAT_DETAILS_def send_HEIZUNG_SET_MODE_THERMOSTAT_DETAILS_def
    recv_HEIZUNG_SET_MODE_THERMOSTAT_DETAILS_def send_HEIZUNG_MODE_AUTOMATIK_DETAILS_def
    recv_HEIZUNG_MODE_AUTOMATIK_DETAILS_def send_HEIZUNG_SET_MODE_AUTOMATIK_def
    recv_HEIZUNG_SET_MODE_AUTOMATIK_def send_HEIZUNG_TIST_REQUEST_def recv_HEIZUNG_TIST_REQUEST_def
    send_HEIZUNG_TIST_REPLAY_def recv_HEIZUNG_TIST_REPLAY_def send_HEIZUNG_WAERMEBEDARF_INFO_def
    recv_HEIZUNG_WAERMEBEDARF_INFO_def send_HEIZSTEUERUNG_STATE_REQUEST_def recv_HEIZSTEUERUNG_STATE_REQUEST_def
    send_HEIZSTEUERUNG_STATE_REPLAY_def recv_HEIZSTEUERUNG_STATE_REPLAY_def send_HEIZSTEUERUNG_STATE_INFO_def
    recv_HEIZSTEUERUNG_STATE_INFO_def send_HEIZSTEUERUNG_SET_VL_def recv_HEIZSTEUERUNG_SET_VL_def
    send_HEIZUNG_SOLLTEMP_LINE_REQUEST_def recv_HEIZUNG_SOLLTEMP_LINE_REQUEST_def
    send_HEIZUNG_SOLLTEMP_LINE_REPLAY_def recv_HEIZUNG_SOLLTEMP_LINE_REPLAY_def
    send_HEIZUNG_SOLLTEMP_WRITE_LINE_def recv_HEIZUNG_SOLLTEMP_WRITE_LINE_def
    send_HEIZUNG_SOLLTEMP_WRITE_LINE_ACK_def recv_HEIZUNG_SOLLTEMP_WRITE_LINE_ACK_def send_POTI_POS_CHANGED_def
    recv_POTI_POS_CHANGED_def send_HELLIGKEITS_INFO_def recv_HELLIGKEITS_INFO_def send_WECKER_SET_def
    recv_WECKER_SET_def send_WECKER_DETAILS_REQUEST_def recv_WECKER_DETAILS_REQUEST_def send_WECKER_DETAILS_def
    recv_WECKER_DETAILS_def send_CONFIG_RELOAD_def recv_CONFIG_RELOAD_def send_CONFIG_RAM_USAGE_REQUEST_def
    recv_CONFIG_RAM_USAGE_REQUEST_def send_CONFIG_RAM_USAGE_REPLAY_def recv_CONFIG_RAM_USAGE_REPLAY_def
    send_ZEITZONE_DETAILS_REQUEST_def recv_ZEITZONE_DETAILS_REQUEST_def send_ZEITZONE_DETAILS_REPLAY_def
    recv_ZEITZONE_DETAILS_REPLAY_def send_ZEITZONE_WRITE_DETAILS_def recv_ZEITZONE_WRITE_DETAILS_def
    send_ZEITZONE_WRITE_DETAILS_ACK_def recv_ZEITZONE_WRITE_DETAILS_ACK_def send_ZEITZONE_TEST_MATCH_REQUERST_def
    recv_ZEITZONE_TEST_MATCH_REQUERST_def send_ZEITZONE_TEST_MATCH_REPLAY_def recv_ZEITZONE_TEST_MATCH_REPLAY_def
    send_TIME_INFO_def recv_TIME_INFO_def send_DATE_INFO_def recv_DATE_INFO_def send_TIME_REQUEST_def
    recv_TIME_REQUEST_def send_DATE_REQUEST_def recv_DATE_REQUEST_def send_GET_NEXT_BLOCK_def
    recv_GET_NEXT_BLOCK_def send_GET_NEXT_BLOCK_REPLAY_def recv_GET_NEXT_BLOCK_REPLAY_def send_DEFRAGMENT_def
    recv_DEFRAGMENT_def send_ALLOCATE_BLOCK_def recv_ALLOCATE_BLOCK_def send_ALLOCATE_BLOCK_REPLAY_def
    recv_ALLOCATE_BLOCK_REPLAY_def send_FREE_BLOCK_def recv_FREE_BLOCK_def send_FREE_BLOCK_REPLAY_def
    recv_FREE_BLOCK_REPLAY_def send_READ_FROM_BLOCK_def recv_READ_FROM_BLOCK_def send_READ_FROM_BLOCK_REPLAY_def
    recv_READ_FROM_BLOCK_REPLAY_def send_WRITE_TO_BLOCK_def recv_WRITE_TO_BLOCK_def send_WRITE_TO_BLOCK_REPLAY_def
    recv_WRITE_TO_BLOCK_REPLAY_def send_FORMAT_def recv_FORMAT_def send_STATE_REQUEST_def recv_STATE_REQUEST_def
    send_STATE_INFO_def recv_STATE_INFO_def send_VOLTAGE_REQUEST_def recv_VOLTAGE_REQUEST_def
    send_VOLTAGE_REPLAY_def recv_VOLTAGE_REPLAY_def send_VOLTAGE_STATS_REQUEST_def recv_VOLTAGE_STATS_REQUEST_def
    send_VOLTAGE_STATS_REPLAY_def recv_VOLTAGE_STATS_REPLAY_def send_VOLTAGE_STATS_RESET_def
    recv_VOLTAGE_STATS_RESET_def send_FA_BLOCK1_INFO_def recv_FA_BLOCK1_INFO_def send_REGLER_DATEN_INFO_FRG1_def
    recv_REGLER_DATEN_INFO_FRG1_def send_REGLER_DATEN_INFO_FRG2_def recv_REGLER_DATEN_INFO_FRG2_def
    send_WETTER_INFO_def recv_WETTER_INFO_def send_LICHT_STATS_5MIN_def recv_LICHT_STATS_5MIN_def
    send_WIND_STATS_5MIN_def recv_WIND_STATS_5MIN_def send_OBJECT_COUNT_REQUEST_def recv_OBJECT_COUNT_REQUEST_def
    send_OBJECT_COUNT_REPLAY_def recv_OBJECT_COUNT_REPLAY_def send_OBJECT_ATTRIBUTE_REQUEST_def
    recv_OBJECT_ATTRIBUTE_REQUEST_def send_OBJECT_ATTRIBUTE_REPLAY_def recv_OBJECT_ATTRIBUTE_REPLAY_def
    send_FIELD_COUNT_REQUEST_def recv_FIELD_COUNT_REQUEST_def send_FIELD_COUNT_REPLAY_def
    recv_FIELD_COUNT_REPLAY_def send_FIELD_ATTRIBUTE_REQUEST_def recv_FIELD_ATTRIBUTE_REQUEST_def
    send_FIELD_ATTRIBUTE_REPLAY_def recv_FIELD_ATTRIBUTE_REPLAY_def send_FIELD_READ_REQUEST_def
    recv_FIELD_READ_REQUEST_def send_FIELD_READ_REPLAY_def recv_FIELD_READ_REPLAY_def send_FIELD_WRITE_REQUEST_def
    recv_FIELD_WRITE_REQUEST_def send_FIELD_WRITE_REPLAY_def recv_FIELD_WRITE_REPLAY_def

lemma codecs_ok: "list_all2 codec_ok catalogue codecs"
  unfolding catalogue_def codecs_def
  by (intro list.rel_intros) (simp_all add: message_defs nth_lists del: add_2_eq_Suc add_2_eq_Suc')

lemma catalogue_keys: "distinct (map (\<lambda>(n, service, command). unat service * 256 + unat command) catalogue)"
proof -
  have "sorted_wrt (<) (map (\<lambda>(n, service, command). unat service * 256 + unat command) catalogue)"
    unfolding catalogue_def by (simp add: sorted_wrt2 [OF transp_on_less] sorted_wrt1 del: sorted_wrt.simps(2))
  then show ?thesis by (simp add: strict_sorted_iff)
qed

lemma recv_loop_skips:
  assumes "list_all (\<lambda>g. m_dst g \<noteq> dst) others" "length others < counter" "m_dst f = dst"
  shows "recv_loop counter dst (others @ f # rest) = (Inr f, rest)"
  using assms by (induction others arbitrary: counter) auto

lemma recv_loop_none:
  assumes "list_all (\<lambda>g. m_dst g \<noteq> dst) others" "length others \<le> counter"
  shows "recv_loop counter dst others = (Inl Timeout, [])"
  using assms by (induction others arbitrary: counter) auto

definition message_frame :: "u16 \<Rightarrow> u16 \<Rightarrow> u8 \<Rightarrow> u8 \<Rightarrow> u8 list \<Rightarrow> hframe" where
  "message_frame s d service command xs = frame_array s d 1 (service # command # xs) (of_nat (length xs + 2))"

lemma message_size: "length xs \<le> 6 \<Longrightarrow> unat (of_nat (length xs + 2) :: u32) = length xs + 2"
  by (simp only: unat_of_nat) simp

lemma message_fields:
  assumes "length xs \<le> 6"
  shows "m_src (message_frame s d sv cm xs) = s" "m_dst (message_frame s d sv cm xs) = d"
    "m_size (message_frame s d sv cm xs) = of_nat (length xs + 2)"
    "m_data (message_frame s d sv cm xs) = (sv # cm # xs) @ replicate (6 - length xs) 0"
    "frame_data (message_frame s d sv cm xs) 0 = sv" "frame_data (message_frame s d sv cm xs) 1 = cm"
    "map (frame_data (message_frame s d sv cm xs)) [2..<length xs + 2] = xs"
proof -
  have n: "\<not> (of_nat (length xs + 2) :: u32) > 8" using message_size [OF assms] assms by (simp add: word_less_nat_alt)
  show m: "m_src (message_frame s d sv cm xs) = s" "m_dst (message_frame s d sv cm xs) = d"
    "m_size (message_frame s d sv cm xs) = of_nat (length xs + 2)"
    "m_data (message_frame s d sv cm xs) = (sv # cm # xs) @ replicate (6 - length xs) 0"
    unfolding message_frame_def frame_array_def Let_def if_not_P [OF n] message_size [OF assms] by simp_all
  show "frame_data (message_frame s d sv cm xs) 0 = sv" "frame_data (message_frame s d sv cm xs) 1 = cm"
    by (simp_all add: frame_data_def m(4))
  show "map (frame_data (message_frame s d sv cm xs)) [2..<length xs + 2] = xs"
    using assms by (intro nth_equalityI) (auto simp: frame_data_def m(4) nth_append nth_Cons' simp del: add_2_eq_Suc')
qed

lemma message_delivered:
  assumes "length xs \<le> 6" "unat s < 1024" "unat d < 1024"
  shows "frame_read_from (frame_write_to (message_frame s d sv cm xs)) = message_frame s d sv cm xs"
  unfolding message_frame_def
  by (rule packet_round) (use assms message_size [OF assms(1)] in simp_all)

lemma recv_message_frame:
  assumes "length xs \<le> 6" "src = 0 \<or> src = s"
  shows "recv_message src d (length xs + 2) sv cm (c\<lparr>inbox := message_frame s d sv cm xs # rest\<rparr>) = (Inr xs, c\<lparr>inbox := rest\<rparr>)"
  using assms message_fields [OF assms(1)] by (auto simp: recv_message_def recv_frame_def simp del: add_2_eq_Suc')

lemma recv_other:
  assumes "list_all (\<lambda>g. m_dst g \<noteq> dst) others" "length others < 100000" "m_dst f = dst"
  shows "recv_message src dst n sv cm (c\<lparr>inbox := others @ f # rest\<rparr>) = recv_message src dst n sv cm (c\<lparr>inbox := f # rest\<rparr>)"
  using recv_loop_skips [OF assms] assms(3) by (simp add: recv_message_def recv_frame_def)

lemma recv_wrong:
  assumes "length xs \<le> 6" "sv \<noteq> sv' \<or> cm \<noteq> cm'" "src = 0 \<or> src = s"
  shows "\<exists>e. recv_message src d n sv' cm' (c\<lparr>inbox := message_frame s d sv cm xs # rest\<rparr>) = (Inl e, c\<lparr>inbox := rest\<rparr>)"
  using assms message_fields [OF assms(1)] by (auto simp: recv_message_def recv_frame_def simp del: add_2_eq_Suc')

lemma codec_catalogue:
  fixes recv_X :: "'p recv"
  assumes "(name, n, send_X, recv_X) \<in> set codecs"
  obtains i sv cm where "i < length catalogue" "catalogue ! i = (n, sv, cm)" "n \<le> 6" "codecs ! i = (name, n, send_X, recv_X)"
    "\<And>s d xs. length xs = n \<Longrightarrow> send_X s d xs = message_frame s d sv cm xs"
    "\<And>s d c. recv_X s d c = recv_message s d (n + 2) sv cm c"
proof -
  obtain i where i: "i < length (codecs :: 'p codec list)" "codecs ! i = (name, n, send_X, recv_X)" using assms by (auto simp: in_set_conv_nth)
  obtain k sv cm where k: "catalogue ! i = (k, sv, cm)" by (cases "catalogue ! i")
  have len: "i < length catalogue" using i(1) list_all2_lengthD [OF codecs_ok] by metis
  have "codec_ok (catalogue ! i) ((codecs :: 'p codec list) ! i)" by (rule list_all2_nthD [OF codecs_ok len])
  then have "codec_ok (k, sv, cm) (name, n, send_X, recv_X)" unfolding k i(2) .
  then have ok: "k = n" "n \<le> 6" "\<And>s d xs. length xs = n \<Longrightarrow> send_X s d xs = frame_array s d 1 (sv # cm # xs) (of_nat (n + 2))"
    "\<And>s d c. recv_X s d c = recv_message s d (n + 2) sv cm c"
    by (simp_all del: add_2_eq_Suc')
  have "send_X s d xs = message_frame s d sv cm xs" if "length xs = n" for s d xs
    unfolding message_frame_def ok(3) [OF that] that ..
  then show ?thesis using that [OF len, of sv cm] k i(2) ok by simp
qed

text \<open>C25: Every message of the protocol is understood, and no other one in its place: the frame that
  \<open>send_X\<close> builds comes out of its packet unchanged, \<open>recv_X\<close> of the receiver, waiting for
  the sender or for anybody, finds it behind any frames (fewer than 100000) for others and returns the parameters it
  was sent with, and for a different message \<open>Y\<close>, \<open>recv_Y\<close> takes the frame but fails. The
  addresses of sender and receiver have ten bits.\<close>

theorem messages_understood:
  fixes c :: "'p tconn"
  assumes "(name, n, send_X, recv_X) \<in> set codecs" "(name', n', send_Y, recv_Y) \<in> set codecs"
    and "length xs = n" "unat s < 1024" "unat d < 1024" "src = 0 \<or> src = s"
    and "list_all (\<lambda>g. m_dst g \<noteq> d) others" "length others < 100000"
    and "inbox c = others @ frame_read_from (frame_write_to (send_X s d xs)) # rest"
  shows "recv_X src d c = (Inr xs, c\<lparr>inbox := rest\<rparr>) \<and>
    (name \<noteq> name' \<longrightarrow> (\<exists>e. recv_Y src d c = (Inl e, c\<lparr>inbox := rest\<rparr>)))"
proof -
  obtain i sv cm where i: "i < length catalogue" "catalogue ! i = (n, sv, cm)" "n \<le> 6" "(codecs :: 'p codec list) ! i = (name, n, send_X, recv_X)"
    "send_X s d xs = message_frame s d sv cm xs" "recv_X src d c = recv_message src d (n + 2) sv cm c"
    using codec_catalogue [OF assms(1)] assms(3) by metis
  obtain j sv' cm' where j: "j < length catalogue" "catalogue ! j = (n', sv', cm')" "(codecs :: 'p codec list) ! j = (name', n', send_Y, recv_Y)"
    "recv_Y src d c = recv_message src d (n' + 2) sv' cm' c"
    using codec_catalogue [OF assms(2)] by metis
  have xs: "length xs \<le> 6" using i(3) assms(3) by simp
  let ?f = "message_frame s d sv cm xs"
  have "c = c\<lparr>inbox := others @ ?f # rest\<rparr>" using assms(9) i(5) message_delivered [OF xs assms(4,5)] by simp
  then have skip: "recv_message src d k a b c = recv_message src d k a b (c\<lparr>inbox := ?f # rest\<rparr>)" for k a b
    using recv_other [OF assms(7,8), of ?f] message_fields(2) [OF xs] by metis
  have X: "recv_X src d c = (Inr xs, c\<lparr>inbox := rest\<rparr>)"
    unfolding i(6) skip using recv_message_frame [OF xs assms(6)] assms(3) by simp
  have "\<exists>e. recv_Y src d c = (Inl e, c\<lparr>inbox := rest\<rparr>)" if "name \<noteq> name'"
  proof -
    have "i \<noteq> j" using that i(4) j(3) by auto
    then have "sv \<noteq> sv' \<or> cm \<noteq> cm'"
      using catalogue_keys i(1,2) j(1,2) nth_eq_iff_index_eq [OF catalogue_keys, of i j] by auto
    then show ?thesis unfolding j(4) skip using recv_wrong [OF xs _ assms(6)] by metis
  qed
  then show ?thesis using X by blast
qed

text \<open>A position of a shutter, behind a frame for someone else.\<close>

theorem messages_understood_witness:
  "recv_ROLLADEN_POSITION_REPLAY 20 36 \<lparr>inbox = [frame_array 7 8 1 [1, 1] 2, frame_read_from (frame_write_to (send_ROLLADEN_POSITION_REPLAY 20 36 3 80))], peer = ()\<rparr> =
     (Inr [3, 80], \<lparr>inbox = [], peer = ()\<rparr>) \<and>
   (\<exists>e. recv_ROLLADEN_POSITION_SET 20 36 \<lparr>inbox = [frame_array 7 8 1 [1, 1] 2, frame_read_from (frame_write_to (send_ROLLADEN_POSITION_REPLAY 20 36 3 80))], peer = ()\<rparr> =
     (Inl e, \<lparr>inbox = [], peer = ()\<rparr>))"
proof -
  let ?c = "\<lparr>inbox = [frame_array 7 8 1 [1, 1] 2, frame_read_from (frame_write_to (send_ROLLADEN_POSITION_REPLAY 20 36 3 80))], peer = ()\<rparr>"
  have "(''ROLLADEN_POSITION_REPLAY'', 2, \<lambda>s d xs. send_ROLLADEN_POSITION_REPLAY s d (xs ! 0) (xs ! 1), recv_ROLLADEN_POSITION_REPLAY) \<in> set codecs"
    "(''ROLLADEN_POSITION_SET'', 2, \<lambda>s d xs. send_ROLLADEN_POSITION_SET s d (xs ! 0) (xs ! 1), recv_ROLLADEN_POSITION_SET) \<in> set codecs"
    by (simp_all add: codecs_def)
  from messages_understood [OF this, of "[3, 80]" 20 36 20 "[frame_array 7 8 1 [1, 1] 2]" ?c "[]"]
  show ?thesis by (simp add: frame_array_def)
qed

end
