(* ===== verification/Host_Client.thy ===== *)
theory Host_Client
  imports Transport Canix_Services
begin

text \<open>
  What a program on the host does with a board (\<open>libhcan++/board_driver.cc\<close>, \<open>board_connection.cc\<close>): it sends a request
  and waits for its answer. The rest of the world is a parameter: how it changes, and which frames come back, when the
  program sends a frame (\<open>Some f\<close>) or sleeps for a second (\<open>None\<close>). The texts that are printed are left out, what is
  shown is the result. A board that answers for its EEPROM is an interface; it is interpreted on the application
  of a node here, and on the bootloader in the theory of the firmware update.
\<close>

section \<open>Requests\<close>

type_synonym 'p world = "hframe option \<Rightarrow> 'p \<Rightarrow> hframe list \<times> 'p"

definition returnH :: "'a \<Rightarrow> ('p, 'a) host" where
  "returnH a c = (Inr a, c)"

definition bindH :: "('p, 'a) host \<Rightarrow> ('a \<Rightarrow> ('p, 'b) host) \<Rightarrow> ('p, 'b) host" where
  "bindH m k c = (case m c of (Inl e, c) \<Rightarrow> (Inl e, c) | (Inr a, c) \<Rightarrow> k a c)"

definition happens :: "'p world \<Rightarrow> hframe option \<Rightarrow> ('p, unit) host" where
  "happens w x c = (case w x (peer c) of (fs, p) \<Rightarrow> (Inr (), c\<lparr>inbox := inbox c @ fs, peer := p\<rparr>))"

definition transport_send :: "'p world \<Rightarrow> hframe \<Rightarrow> ('p, unit) host" where
  "transport_send w f = happens w (Some f)"

definition sleep_1 :: "'p world \<Rightarrow> ('p, unit) host" where
  "sleep_1 w = happens w None"

definition request :: "'p world \<Rightarrow> hframe \<Rightarrow> ('p, 'a) host \<Rightarrow> ('p, 'a) host" where
  "request w f rcv = bindH (transport_send w f) (\<lambda>_. rcv)"

section \<open>The commands of a board\<close>

definition read_eeprom_byte :: "'p world \<Rightarrow> u16 \<Rightarrow> u16 \<Rightarrow> u16 \<Rightarrow> ('p, u8) host" where
  "read_eeprom_byte w me brd address =
     bindH (request w (send_INTERNAL_EEPROM_READ_REQUEST me brd (lo8 address) (hi8 address)) (recv_INTERNAL_EEPROM_READ_REPLAY brd me))
       (\<lambda>r. returnH (r ! 0))"

definition read_eeprom_word_le :: "'p world \<Rightarrow> u16 \<Rightarrow> u16 \<Rightarrow> u16 \<Rightarrow> ('p, u16) host" where
  "read_eeprom_word_le w me brd address =
     bindH (read_eeprom_byte w me brd address) (\<lambda>l. bindH (read_eeprom_byte w me brd (address + 1)) (\<lambda>h. returnH (word16 h l)))"

definition read_eeprom_word_be :: "'p world \<Rightarrow> u16 \<Rightarrow> u16 \<Rightarrow> u16 \<Rightarrow> ('p, u16) host" where
  "read_eeprom_word_be w me brd address =
     bindH (read_eeprom_byte w me brd address) (\<lambda>h. bindH (read_eeprom_byte w me brd (address + 1)) (\<lambda>l. returnH (word16 h l)))"

definition write_eeprom_byte :: "'p world \<Rightarrow> u16 \<Rightarrow> u16 \<Rightarrow> u16 \<Rightarrow> u8 \<Rightarrow> ('p, unit) host" where
  "write_eeprom_byte w me brd address v =
     bindH (request w (send_INTERNAL_EEPROM_WRITE me brd (lo8 address) (hi8 address) v) (recv_INTERNAL_EEPROM_WRITE_ACK brd me))
       (\<lambda>_. returnH ())"

definition write_eeprom_word_le :: "'p world \<Rightarrow> u16 \<Rightarrow> u16 \<Rightarrow> u16 \<Rightarrow> u16 \<Rightarrow> ('p, unit) host" where
  "write_eeprom_word_le w me brd address v =
     bindH (write_eeprom_byte w me brd address (lo8 v)) (\<lambda>_. write_eeprom_byte w me brd (address + 1) (hi8 v))"

definition write_eeprom_word_be :: "'p world \<Rightarrow> u16 \<Rightarrow> u16 \<Rightarrow> u16 \<Rightarrow> u16 \<Rightarrow> ('p, unit) host" where
  "write_eeprom_word_be w me brd address v =
     bindH (write_eeprom_byte w me brd address (hi8 v)) (\<lambda>_. write_eeprom_byte w me brd (address + 1) (lo8 v))"

definition cmd_getaddress :: "'p world \<Rightarrow> u16 \<Rightarrow> u16 \<Rightarrow> ('p, u16) host" where
  "cmd_getaddress w me brd = read_eeprom_word_le w me brd 2"

text \<open>The result tells whether the address was read back; if not, a message is printed.\<close>

definition cmd_setaddress :: "'p world \<Rightarrow> u16 \<Rightarrow> u16 \<Rightarrow> u16 \<Rightarrow> ('p, bool) host" where
  "cmd_setaddress w me brd address =
     bindH (write_eeprom_word_le w me brd 2 address) (\<lambda>_.
     bindH (read_eeprom_word_le w me brd 2) (\<lambda>a. returnH (a = address)))"

definition cmd_setsysloglevel :: "'p world \<Rightarrow> u16 \<Rightarrow> u16 \<Rightarrow> u16 \<Rightarrow> ('p, unit) host" where
  "cmd_setsysloglevel w me brd level = transport_send w (send_SYSLOG_LEVEL_SET me brd (lo8 level))"

definition cmd_reset :: "'p world \<Rightarrow> u16 \<Rightarrow> u16 \<Rightarrow> ('p, unit) host" where
  "cmd_reset w me brd = transport_send w (send_DEVICE_RESET me brd)"

definition cmd_getuptime :: "'p world \<Rightarrow> u16 \<Rightarrow> u16 \<Rightarrow> ('p, u32) host" where
  "cmd_getuptime w me brd =
     bindH (request w (send_UPTIME_QUERY me brd) (recv_UPTIME_REPLAY brd me))
       (\<lambda>u. returnH (ucast (u ! 3) OR push_bit 8 (ucast (u ! 2)) OR push_bit 16 (ucast (u ! 1)) OR push_bit 24 (ucast (u ! 0))))"

definition cmd_getstate :: "'p world \<Rightarrow> u16 \<Rightarrow> u16 \<Rightarrow> ('p, u8) host" where
  "cmd_getstate w me brd =
     bindH (request w (send_DEVICE_STATE_REQUEST me brd) (recv_DEVICE_STATE_REPLAY brd me)) (\<lambda>s. returnH (s ! 0))"

fun dump_ee :: "'p world \<Rightarrow> u16 \<Rightarrow> u16 \<Rightarrow> nat \<Rightarrow> u16 \<Rightarrow> ('p, u8 list) host" where
  "dump_ee w me brd 0 address = returnH []"
| "dump_ee w me brd (Suc n) address =
     bindH (read_eeprom_byte w me brd address) (\<lambda>v. bindH (dump_ee w me brd n (address + 1)) (\<lambda>vs. returnH (v # vs)))"

definition cmd_dump_ee :: "'p world \<Rightarrow> u16 \<Rightarrow> u16 \<Rightarrow> u16 \<Rightarrow> ('p, u8 list) host" where
  "cmd_dump_ee w me brd address = dump_ee w me brd (20 * 16) address"

definition cmd_loadapp :: "'p world \<Rightarrow> u16 \<Rightarrow> u16 \<Rightarrow> ('p, unit) host" where
  "cmd_loadapp w me brd = transport_send w (send_DEVICE_LOAD_APP me brd)"

definition cmd_bootloader :: "'p world \<Rightarrow> u16 \<Rightarrow> u16 \<Rightarrow> ('p, unit) host" where
  "cmd_bootloader w me brd =
     bindH (cmd_reset w me brd) (\<lambda>_. bindH (sleep_1 w) (\<lambda>_.
     bindH (request w (send_DEVICE_BOOT_STOP me brd) (recv_DEVICE_BOOT_STOP_ACK brd me)) (\<lambda>_. returnH ())))"

text \<open>Processor, type and build number.\<close>

definition cmd_show_system :: "'p world \<Rightarrow> u16 \<Rightarrow> u16 \<Rightarrow> ('p, u8 \<times> u8 \<times> u16) host" where
  "cmd_show_system w me brd =
     bindH (request w (send_DEVICE_TYPE_REQUEST me brd) (recv_DEVICE_TYPE_REPLAY brd me)) (\<lambda>t.
     bindH (request w (send_BUILD_VERSION_QUERY me brd) (recv_BUILD_VERSION_REPLAY brd me)) (\<lambda>v.
       returnH (t ! 0, t ! 1, word16 (v ! 0) (v ! 1))))"

text \<open>Day, month and year, and the day of the week, hour, minute and second.\<close>

definition cmd_show_time :: "'p world \<Rightarrow> u16 \<Rightarrow> u16 \<Rightarrow> ('p, u8 list \<times> u8 list) host" where
  "cmd_show_time w me brd =
     bindH (request w (send_DATE_REQUEST me brd) (recv_DATE_INFO brd me)) (\<lambda>d.
     bindH (request w (send_TIME_REQUEST me brd) (recv_TIME_INFO brd me)) (\<lambda>t.
       returnH (drop 1 d, drop 1 t)))"

text \<open>Opening a connection: a ping, and the type unless it is given; the result is the processor and the type that
  choose the driver. \<open>HCAN_ARCH_AUTODETECT\<close> is 255.\<close>

definition board_connection :: "'p world \<Rightarrow> u16 \<Rightarrow> u16 \<Rightarrow> bool \<Rightarrow> u8 \<Rightarrow> ('p, u8 \<times> u8) host" where
  "board_connection w me brd ignore_type arch =
     bindH (request w (send_PING_REQUEST me brd) (recv_PING_REPLAY brd me)) (\<lambda>_.
       if \<not> ignore_type \<and> arch = 255
       then bindH (request w (send_DEVICE_TYPE_REQUEST me brd) (recv_DEVICE_TYPE_REPLAY brd me)) (\<lambda>t. returnH (t ! 0, t ! 1))
       else returnH (arch, 255))"

section \<open>An answered request\<close>

lemma request_answered:
  assumes "w (Some f) (peer c) = ([message_frame s d sv cm xs], p)" "inbox c = []" "length xs \<le> 6" "n = length xs + 2"
  shows "request w f (\<lambda>c. recv_message s d n sv cm c) c = (Inr xs, \<lparr>inbox = [], peer = p\<rparr>)"
proof -
  show ?thesis using recv_message_frame [OF assms(3), where src = s and s = s and c = "\<lparr>inbox = [], peer = p\<rparr>" and rest = "[]"] assms
    by (cases c) (simp add: request_def bindH_def transport_send_def happens_def)
qed

section \<open>The interface of a board with an EEPROM\<close>

locale eeprom_board =
  fixes world :: "'p world" and ok :: "'p \<Rightarrow> bool" and ee :: "'p \<Rightarrow> nat \<Rightarrow> u8" and me :: u16 and brd :: u16
  assumes write_answered: "ok p \<Longrightarrow> \<exists>p'. world (Some (send_INTERNAL_EEPROM_WRITE me brd lo hi v)) p = ([message_frame brd me 1 21 []], p') \<and>
      ok p' \<and> ee p' = (ee p)(unat (word16 hi lo) := v)"
    and read_answered: "ok p \<Longrightarrow> \<exists>p'. world (Some (send_INTERNAL_EEPROM_READ_REQUEST me brd lo hi)) p =
      ([message_frame brd me 1 23 [ee p (unat (word16 hi lo))]], p') \<and> ok p' \<and> ee p' = ee p"
begin

definition quiet :: "'p tconn \<Rightarrow> bool" where
  "quiet c \<longleftrightarrow> inbox c = [] \<and> ok (peer c)"

definition eeC :: "'p tconn \<Rightarrow> nat \<Rightarrow> u8" where
  "eeC c = ee (peer c)"

lemma read_byte: "quiet c \<Longrightarrow> \<exists>c'. read_eeprom_byte world me brd a c = (Inr (eeC c (unat a)), c') \<and> quiet c' \<and> eeC c' = eeC c"
proof -
  assume q: "quiet c"
  then obtain p' where p: "world (Some (send_INTERNAL_EEPROM_READ_REQUEST me brd (lo8 a) (hi8 a))) (peer c) =
      ([message_frame brd me 1 23 [ee (peer c) (unat a)]], p')" "ok p'" "ee p' = ee (peer c)"
    using read_answered [of "peer c" "lo8 a" "hi8 a"] by (auto simp: quiet_def)
  then show ?thesis using request_answered [where w = world and c = c, OF p(1), of 3] q
    by (simp add: read_eeprom_byte_def bindH_def returnH_def recv_INTERNAL_EEPROM_READ_REPLAY_def [abs_def] quiet_def eeC_def)
qed

lemma write_byte: "quiet c \<Longrightarrow> \<exists>c'. write_eeprom_byte world me brd a v c = (Inr (), c') \<and> quiet c' \<and> eeC c' = (eeC c)(unat a := v)"
proof -
  assume q: "quiet c"
  then obtain p' where p: "world (Some (send_INTERNAL_EEPROM_WRITE me brd (lo8 a) (hi8 a) v)) (peer c) =
      ([message_frame brd me 1 21 []], p')" "ok p'" "ee p' = (ee (peer c))(unat a := v)"
    using write_answered [of "peer c" "lo8 a" "hi8 a" v] by (auto simp: quiet_def)
  then show ?thesis using request_answered [where w = world and c = c, OF p(1), of 2] q
    by (simp add: write_eeprom_byte_def bindH_def returnH_def recv_INTERNAL_EEPROM_WRITE_ACK_def [abs_def] quiet_def eeC_def)
qed

lemma read_word:
  assumes "quiet c"
  shows "\<exists>c'. read_eeprom_word_le world me brd a c = (Inr (word16 (eeC c (unat (a + 1))) (eeC c (unat a))), c') \<and> quiet c' \<and> eeC c' = eeC c"
    "\<exists>c'. read_eeprom_word_be world me brd a c = (Inr (word16 (eeC c (unat a)) (eeC c (unat (a + 1)))), c') \<and> quiet c' \<and> eeC c' = eeC c"
proof -
  obtain c1 where c1: "read_eeprom_byte world me brd a c = (Inr (eeC c (unat a)), c1)" "quiet c1" "eeC c1 = eeC c"
    using read_byte [OF assms] by blast
  obtain c2 where "read_eeprom_byte world me brd (a + 1) c1 = (Inr (eeC c1 (unat (a + 1))), c2)" "quiet c2" "eeC c2 = eeC c1"
    using read_byte [OF c1(2)] by blast
  with c1 show "\<exists>c'. read_eeprom_word_le world me brd a c = (Inr (word16 (eeC c (unat (a + 1))) (eeC c (unat a))), c') \<and> quiet c' \<and> eeC c' = eeC c"
    "\<exists>c'. read_eeprom_word_be world me brd a c = (Inr (word16 (eeC c (unat a)) (eeC c (unat (a + 1)))), c') \<and> quiet c' \<and> eeC c' = eeC c"
    by (simp_all add: read_eeprom_word_le_def read_eeprom_word_be_def bindH_def returnH_def)
qed

lemma write_word:
  assumes "quiet c"
  shows "\<exists>c'. write_eeprom_word_le world me brd a v c = (Inr (), c') \<and> quiet c' \<and> eeC c' = (eeC c)(unat a := lo8 v, unat (a + 1) := hi8 v)"
    "\<exists>c'. write_eeprom_word_be world me brd a v c = (Inr (), c') \<and> quiet c' \<and> eeC c' = (eeC c)(unat a := hi8 v, unat (a + 1) := lo8 v)"
proof -
  have "\<exists>c'. bindH (write_eeprom_byte world me brd a x) (\<lambda>_. write_eeprom_byte world me brd (a + 1) y) c = (Inr (), c') \<and> quiet c' \<and>
      eeC c' = (eeC c)(unat a := x, unat (a + 1) := y)" for x y
  proof -
    obtain c1 where c1: "write_eeprom_byte world me brd a x c = (Inr (), c1)" "quiet c1" "eeC c1 = (eeC c)(unat a := x)"
      using write_byte [OF assms] by blast
    obtain c2 where "write_eeprom_byte world me brd (a + 1) y c1 = (Inr (), c2)" "quiet c2" "eeC c2 = (eeC c1)(unat (a + 1) := y)"
      using write_byte [OF c1(2)] by blast
    with c1 show ?thesis by (simp add: bindH_def)
  qed
  then show "\<exists>c'. write_eeprom_word_le world me brd a v c = (Inr (), c') \<and> quiet c' \<and> eeC c' = (eeC c)(unat a := lo8 v, unat (a + 1) := hi8 v)"
    "\<exists>c'. write_eeprom_word_be world me brd a v c = (Inr (), c') \<and> quiet c' \<and> eeC c' = (eeC c)(unat a := hi8 v, unat (a + 1) := lo8 v)"
    by (simp_all add: write_eeprom_word_le_def write_eeprom_word_be_def)
qed

lemma set_address:
  assumes "quiet c"
  shows "\<exists>c'. cmd_setaddress world me brd a c = (Inr True, c') \<and> quiet c' \<and> eeC c' = (eeC c)(2 := lo8 a, 3 := hi8 a) \<and>
    (\<exists>c''. cmd_getaddress world me brd c' = (Inr a, c'') \<and> quiet c'' \<and> eeC c'' = eeC c')"
proof -
  obtain c1 where c1: "write_eeprom_word_le world me brd 2 a c = (Inr (), c1)" "quiet c1" "eeC c1 = (eeC c)(2 := lo8 a, 3 := hi8 a)"
    using write_word(1) [OF assms, of 2 a] by auto
  obtain c2 where c2: "read_eeprom_word_le world me brd 2 c1 = (Inr a, c2)" "quiet c2" "eeC c2 = eeC c1"
    using read_word(1) [OF c1(2), of 2] c1(3) by auto
  obtain c3 where c3: "read_eeprom_word_le world me brd 2 c2 = (Inr a, c3)" "quiet c3" "eeC c3 = eeC c2"
    using read_word(1) [OF c2(2), of 2] c1(3) c2(3) by auto
  show ?thesis using c1 c2 c3 by (simp add: cmd_setaddress_def cmd_getaddress_def bindH_def returnH_def)
qed

lemma dump:
  assumes "quiet c"
  shows "\<exists>c'. dump_ee world me brd n a c = (Inr (map (\<lambda>i. eeC c (unat (a + of_nat i))) [0..<n]), c') \<and> quiet c' \<and> eeC c' = eeC c"
  using assms
proof (induction n arbitrary: a c)
  case (Suc n)
  obtain c1 where c1: "read_eeprom_byte world me brd a c = (Inr (eeC c (unat a)), c1)" "quiet c1" "eeC c1 = eeC c"
    using read_byte [OF Suc.prems] by blast
  obtain c2 where c2: "dump_ee world me brd n (a + 1) c1 = (Inr (map (\<lambda>i. eeC c1 (unat (a + 1 + of_nat i))) [0..<n]), c2)" "quiet c2" "eeC c2 = eeC c1"
    using Suc.IH [OF c1(2)] by blast
  have "map (\<lambda>i. eeC c (unat (a + of_nat i))) [0..<Suc n] = eeC c (unat a) # map (\<lambda>i. eeC c (unat (a + 1 + of_nat i))) [0..<n]"
    by (simp add: map_upt_Suc add.assoc del: upt_Suc)
  then show ?case using c1 c2 by (simp add: bindH_def returnH_def del: upt_Suc)
qed (simp add: returnH_def)

end

section \<open>The application of a node as a board\<close>

text \<open>The node answers the frames to its own address: requests to the management service go to
  \<open>canix_SFP_HMS_handler\<close>, those to the clock to \<open>canix_SFP_RTS_handler\<close>. What it sends comes back to the host; in a
  second without frames its clock ticks (\<open>tick\<close>).\<close>

definition node_handles :: "u16 \<Rightarrow> canix_frame \<Rightarrow> node \<Rightarrow> node" where
  "node_handles build f nd =
     (if nd_reset nd \<or> fr_dst f \<noteq> canix_selfaddr (nd_board nd) \<or> fr_proto f \<noteq> HCAN_PROTO_SFP then nd
      else if fr_data f ! 0 = HCAN_SRV_HMS then canix_SFP_HMS_handler build f nd
      else if fr_data f ! 0 = HCAN_SRV_RTS then nd\<lparr>nd_board := canix_SFP_RTS_handler f (nd_board nd)\<rparr>
      else nd)"

definition node_world :: "u16 \<Rightarrow> (node \<Rightarrow> node) \<Rightarrow> node world" where
  "node_world build tick x nd =
     (let nd' = (case x of None \<Rightarrow> tick nd | Some f \<Rightarrow> node_handles build (node_frame (frame_read_from (frame_write_to f))) nd)
      in (map (host_frame \<circ> fst) (drop (length (sent (nd_board nd))) (sent (nd_board nd'))), nd'))"

definition node_ready :: "u16 \<Rightarrow> u16 \<Rightarrow> node \<Rightarrow> bool" where
  "node_ready me brd nd \<longleftrightarrow> \<not> nd_reset nd \<and> my_address (nd_board nd) = brd \<and> brd \<noteq> 0 \<and> unat brd < 1024 \<and> unat me < 1024"

lemma node_frame_message:
  assumes "length xs \<le> 6" "unat me < 1024" "unat brd < 1024"
  shows "node_frame (frame_read_from (frame_write_to (message_frame me brd sv cm xs))) =
    \<lparr>fr_src = me, fr_dst = brd, fr_proto = 1, fr_size = of_nat (length xs + 2), fr_data = sv # cm # xs\<rparr>"
proof -
  have "(ucast (of_nat (length xs + 2) :: u32) :: u8) = of_nat (length xs + 2)" using assms(1) by (simp only: unsigned_of_nat) (simp add: take_bit_nat_eq_self)
  moreover have "m_proto (message_frame me brd sv cm xs) = 1" by (simp add: message_frame_def frame_array_def Let_def)
  ultimately show ?thesis unfolding message_delivered [OF assms]
    using message_fields [OF assms(1)] message_size [OF assms(1)] by (simp add: node_frame_def data_as_string_def)
qed

lemma host_frame_message:
  assumes "length xs \<le> 6"
  shows "host_frame \<lparr>fr_src = s, fr_dst = d, fr_proto = 1, fr_size = of_nat (length (sv # cm # xs)), fr_data = sv # cm # xs\<rparr> =
    message_frame s d sv cm xs"
proof -
  have "(ucast (of_nat (length xs + 2) :: u8) :: u32) = of_nat (length xs + 2)"
    using assms by (simp only: unsigned_of_nat) (simp add: take_bit_nat_eq_self)
  then show ?thesis by (simp add: host_frame_def message_frame_def)
qed

lemma node_world_handles:
  assumes "node_ready me brd nd" "length xs \<le> 6"
  shows "node_world build tick (Some (message_frame me brd sv cm xs)) nd =
    (let f = \<lparr>fr_src = me, fr_dst = brd, fr_proto = 1, fr_size = of_nat (length xs + 2), fr_data = sv # cm # xs\<rparr>;
         nd' = (if sv = HCAN_SRV_HMS then canix_SFP_HMS_handler build f nd
                else if sv = HCAN_SRV_RTS then nd\<lparr>nd_board := canix_SFP_RTS_handler f (nd_board nd)\<rparr> else nd)
     in (map (host_frame \<circ> fst) (drop (length (sent (nd_board nd))) (sent (nd_board nd'))), nd'))"
  using assms node_frame_message [of xs me brd sv cm]
  by (simp add: node_world_def node_handles_def node_ready_def canix_selfaddr_def Let_def)

lemma hms_answer_frames:
  assumes "node_ready me brd nd" "length xs \<le> 6"
  shows "map (host_frame \<circ> fst) (drop (length (sent (nd_board nd))) (sent (nd_board
      (hms_answer \<lparr>fr_src = me, fr_dst = brd, fr_proto = 1, fr_size = n, fr_data = d\<rparr> (cm # xs) nd)))) = [message_frame brd me 1 cm xs]"
    "node_ready me brd (hms_answer f (cm # xs) nd)" "eeprom (nd_board (hms_answer f (cm # xs) nd)) = eeprom (nd_board nd)"
  using assms host_frame_message [OF assms(2), of brd me 1 cm]
  by (simp_all add: hms_answer_def send_frame_def send_prio_def node_ready_def canix_selfaddr_def)

lemma node_writes:
  assumes "node_ready me brd nd"
  shows "\<exists>nd'. node_world build tick (Some (send_INTERNAL_EEPROM_WRITE me brd lo hi v)) nd = ([message_frame brd me 1 21 []], nd') \<and>
    node_ready me brd nd' \<and> eeprom (nd_board nd') = (eeprom (nd_board nd))(unat (word16 hi lo) := v)"
proof -
  have f: "send_INTERNAL_EEPROM_WRITE me brd lo hi v = message_frame me brd 1 20 [lo, hi, v]"
    by (simp add: send_INTERNAL_EEPROM_WRITE_def message_frame_def)
  let ?b = "if eeprom (nd_board nd) (unat (word16 hi lo)) \<noteq> v then eeprom_write_byte (unat (word16 hi lo)) v (nd_board nd) else nd_board nd"
  have ok: "node_ready me brd (nd\<lparr>nd_board := ?b\<rparr>)" "length (sent (nd_board nd)) = length (sent ?b)"
    using assms by (auto simp: node_ready_def eeprom_write_byte_def)
  let ?f = "\<lparr>fr_src = me, fr_dst = brd, fr_proto = 1, fr_size = 5, fr_data = [1, 20, lo, hi, v]\<rparr>"
  let ?nd = "nd\<lparr>nd_board := ?b\<rparr>"
  have h: "canix_SFP_HMS_handler build ?f nd = hms_answer ?f [21] ?nd"
    by (simp add: canix_SFP_HMS_handler_def Let_def eeprom_read_byte_def)
  have "node_world build tick (Some (send_INTERNAL_EEPROM_WRITE me brd lo hi v)) nd =
      (map (host_frame \<circ> fst) (drop (length (sent (nd_board nd))) (sent (nd_board (hms_answer ?f [21] ?nd)))), hms_answer ?f [21] ?nd)"
    using node_world_handles [OF assms, of "[lo, hi, v]"] h by (simp add: f Let_def)
  moreover have "map (host_frame \<circ> fst) (drop (length (sent (nd_board nd))) (sent (nd_board (hms_answer ?f [21] ?nd)))) = [message_frame brd me 1 21 []]"
    unfolding ok(2) using hms_answer_frames(1) [OF ok(1), of "[]"] by simp
  moreover have "node_ready me brd (hms_answer ?f [21] ?nd)" "eeprom (nd_board (hms_answer ?f [21] ?nd)) = eeprom ?b"
    using hms_answer_frames(2,3) [OF ok(1), of "[]"] by simp_all
  moreover have "eeprom ?b = (eeprom (nd_board nd))(unat (word16 hi lo) := v)" by (auto simp: eeprom_write_byte_def)
  ultimately show ?thesis by metis
qed

lemma node_answers:
  assumes "node_ready me brd nd" "length xs \<le> 6" "length ys \<le> 6"
    and "canix_SFP_HMS_handler build \<lparr>fr_src = me, fr_dst = brd, fr_proto = 1, fr_size = of_nat (length xs + 2), fr_data = 1 # cm # xs\<rparr> nd =
      hms_answer \<lparr>fr_src = me, fr_dst = brd, fr_proto = 1, fr_size = of_nat (length xs + 2), fr_data = 1 # cm # xs\<rparr> (cm' # ys) nd"
  shows "\<exists>nd'. node_world build tick (Some (message_frame me brd 1 cm xs)) nd = ([message_frame brd me 1 cm' ys], nd') \<and>
    node_ready me brd nd' \<and> (\<exists>s. nd' = nd\<lparr>nd_board := (nd_board nd)\<lparr>sent := s\<rparr>\<rparr>)"
  using node_world_handles [OF assms(1,2), of build tick 1 cm] hms_answer_frames(1,2) [OF assms(1,3)] assms(4)
  by (simp add: Let_def) (auto simp: hms_answer_def send_frame_def send_prio_def)

interpretation node_ee: eeprom_board "node_world build tick" "node_ready me brd" "\<lambda>nd. eeprom (nd_board nd)" me brd
  for build tick me brd
proof
  show "\<exists>p'. node_world build tick (Some (send_INTERNAL_EEPROM_WRITE me brd lo hi v)) p = ([message_frame brd me 1 21 []], p') \<and>
      node_ready me brd p' \<and> eeprom (nd_board p') = (eeprom (nd_board p))(unat (word16 hi lo) := v)" if "node_ready me brd p" for p lo hi v
    by (rule node_writes [OF that])
  show "\<exists>p'. node_world build tick (Some (send_INTERNAL_EEPROM_READ_REQUEST me brd lo hi)) p =
      ([message_frame brd me 1 23 [eeprom (nd_board p) (unat (word16 hi lo))]], p') \<and>
      node_ready me brd p' \<and> eeprom (nd_board p') = eeprom (nd_board p)" if ok: "node_ready me brd p" for p lo hi
  proof -
    have "send_INTERNAL_EEPROM_READ_REQUEST me brd lo hi = message_frame me brd 1 22 [lo, hi]"
      by (simp add: send_INTERNAL_EEPROM_READ_REQUEST_def message_frame_def)
    moreover obtain p' s where "node_world build tick (Some (message_frame me brd 1 22 [lo, hi])) p =
        ([message_frame brd me 1 23 [eeprom (nd_board p) (unat (word16 hi lo))]], p')"
      "node_ready me brd p'" "p' = p\<lparr>nd_board := (nd_board p)\<lparr>sent := s\<rparr>\<rparr>"
      using node_answers [OF ok, of "[lo, hi]" "[eeprom (nd_board p) (unat (word16 hi lo))]" build 22 23 tick]
      by (auto simp: canix_SFP_HMS_handler_def Let_def eeprom_read_byte_def)
    ultimately show ?thesis by auto
  qed
qed

section \<open>What the host learns from a node\<close>

definition node_but_sent :: "node \<Rightarrow> node \<Rightarrow> bool" where
  "node_but_sent nd nd' \<longleftrightarrow> (\<exists>s. nd' = nd\<lparr>nd_board := (nd_board nd)\<lparr>sent := s\<rparr>\<rparr>)"

lemma node_but_sent_simps [simp]:
  assumes "node_but_sent nd nd'"
  shows "node_ready me brd nd' = node_ready me brd nd" "rtc (nd_board nd') = rtc (nd_board nd)" "eeprom (nd_board nd') = eeprom (nd_board nd)"
    "canix_selfaddr (nd_board nd') = canix_selfaddr (nd_board nd)"
  using assms by (auto simp: node_but_sent_def node_ready_def canix_selfaddr_def)

lemma node_but_sent_trans: "node_but_sent a b \<Longrightarrow> node_but_sent b d \<Longrightarrow> node_but_sent a d"
proof -
  assume "node_but_sent a b" "node_but_sent b d"
  then obtain s s' where "b = a\<lparr>nd_board := (nd_board a)\<lparr>sent := s\<rparr>\<rparr>" "d = b\<lparr>nd_board := (nd_board b)\<lparr>sent := s'\<rparr>\<rparr>"
    unfolding node_but_sent_def by blast
  then have "d = a\<lparr>nd_board := (nd_board a)\<lparr>sent := s'\<rparr>\<rparr>" by simp
  then show ?thesis unfolding node_but_sent_def by blast
qed

lemma request_node:
  assumes "node_ready me brd (peer c)" "inbox c = []" "length xs \<le> 6" "length ys \<le> 6" "n = length ys + 2"
    and "f = \<lparr>fr_src = me, fr_dst = brd, fr_proto = 1, fr_size = of_nat (length xs + 2), fr_data = sv # cm # xs\<rparr>"
    and "(if sv = HCAN_SRV_HMS then canix_SFP_HMS_handler build f (peer c)
      else if sv = HCAN_SRV_RTS then (peer c)\<lparr>nd_board := canix_SFP_RTS_handler f (nd_board (peer c))\<rparr> else peer c) =
      (peer c)\<lparr>nd_board := send_frame me (sv # cm' # ys) (nd_board (peer c))\<rparr>"
  shows "\<exists>nd'. request (node_world build tick) (message_frame me brd sv cm xs) (\<lambda>c. recv_message brd me n sv cm' c) c =
    (Inr ys, \<lparr>inbox = [], peer = nd'\<rparr>) \<and> node_but_sent (peer c) nd'"
proof -
  let ?nd' = "(peer c)\<lparr>nd_board := send_frame me (sv # cm' # ys) (nd_board (peer c))\<rparr>"
  have "node_world build tick (Some (message_frame me brd sv cm xs)) (peer c) = ([message_frame brd me sv cm' ys], ?nd')"
    unfolding node_world_handles [OF assms(1,3)] Let_def assms(7) [unfolded assms(6)]
    using assms(1) host_frame_message [OF assms(4), of brd me sv cm']
    by (simp add: send_frame_def send_prio_def node_ready_def canix_selfaddr_def)
  note request_answered [where w = "node_world build tick" and c = c, OF this assms(2,4,5)]
  moreover have "node_but_sent (peer c) ?nd'" unfolding node_but_sent_def send_frame_def send_prio_def by (rule exI, rule refl)
  ultimately show ?thesis by blast
qed

lemma u32_of_bytes:
  "ucast (ucast w :: u8) OR push_bit 8 (ucast (ucast (drop_bit 8 w) :: u8)) OR push_bit 16 (ucast (ucast (drop_bit 16 w) :: u8)) OR
    push_bit 24 (ucast (ucast (drop_bit 24 w) :: u8)) = (w :: u32)"
  by (rule u32_eqI) (simp add: bit_simps)

lemma getuptime:
  assumes "node_ready me brd (peer c)" "inbox c = []"
  shows "\<exists>nd'. cmd_getuptime (node_world build tick) me brd c = (Inr (uptime_sec (rtc (nd_board (peer c)))), \<lparr>inbox = [], peer = nd'\<rparr>) \<and>
    node_but_sent (peer c) nd'"
proof -
  have f: "send_UPTIME_QUERY me brd = message_frame me brd 1 30 []" by (simp add: send_UPTIME_QUERY_def message_frame_def)
  let ?u = "uptime_sec (rtc (nd_board (peer c)))"
  have "\<exists>nd'. request (node_world build tick) (message_frame me brd 1 30 []) (\<lambda>c. recv_message brd me 6 1 31 c) c =
      (Inr (u32_bytes ?u), \<lparr>inbox = [], peer = nd'\<rparr>) \<and> node_but_sent (peer c) nd'"
    by (rule request_node [OF assms _ _ _ refl])
      (simp_all add: canix_SFP_HMS_handler_def Let_def hms_answer_def u32_bytes_def)
  then obtain nd' where "request (node_world build tick) (send_UPTIME_QUERY me brd) (recv_UPTIME_REPLAY brd me) c =
      (Inr (u32_bytes ?u), \<lparr>inbox = [], peer = nd'\<rparr>)" "node_but_sent (peer c) nd'"
    by (auto simp: f recv_UPTIME_REPLAY_def [abs_def])
  then show ?thesis by (simp add: cmd_getuptime_def bindH_def returnH_def u32_bytes_def u32_of_bytes)
qed

lemma getstate:
  assumes "node_ready me brd (peer c)" "inbox c = []"
  shows "\<exists>nd'. cmd_getstate (node_world build tick) me brd c = (Inr HCAN_HMS_DEV_STATE_APPLICATION, \<lparr>inbox = [], peer = nd'\<rparr>) \<and>
    node_but_sent (peer c) nd'"
proof -
  have "\<exists>nd'. request (node_world build tick) (message_frame me brd 1 3 []) (\<lambda>c. recv_message brd me 3 1 4 c) c =
      (Inr [HCAN_HMS_DEV_STATE_APPLICATION], \<lparr>inbox = [], peer = nd'\<rparr>) \<and> node_but_sent (peer c) nd'"
    by (rule request_node [OF assms _ _ _ refl]) (simp_all add: canix_SFP_HMS_handler_def Let_def hms_answer_def)
  moreover have "send_DEVICE_STATE_REQUEST me brd = message_frame me brd 1 3 []"
    by (simp add: send_DEVICE_STATE_REQUEST_def message_frame_def)
  ultimately show ?thesis by (auto simp: recv_DEVICE_STATE_REPLAY_def [abs_def] cmd_getstate_def bindH_def returnH_def)
qed

lemma device_type:
  assumes "node_ready me brd (peer c)" "inbox c = []"
  shows "\<exists>nd'. request (node_world build tick) (send_DEVICE_TYPE_REQUEST me brd) (recv_DEVICE_TYPE_REPLAY brd me) c =
      (Inr [2, eeprom (nd_board (peer c)) EEPR_BOARD_TYPE], \<lparr>inbox = [], peer = nd'\<rparr>) \<and> node_but_sent (peer c) nd'"
proof -
  have "\<exists>nd'. request (node_world build tick) (message_frame me brd 1 9 []) (\<lambda>c. recv_message brd me 4 1 10 c) c =
      (Inr [2, eeprom (nd_board (peer c)) EEPR_BOARD_TYPE], \<lparr>inbox = [], peer = nd'\<rparr>) \<and> node_but_sent (peer c) nd'"
    by (rule request_node [OF assms _ _ _ refl]) (simp_all add: canix_SFP_HMS_handler_def Let_def hms_answer_def eeprom_read_byte_def)
  moreover have "send_DEVICE_TYPE_REQUEST me brd = message_frame me brd 1 9 []"
    by (simp add: send_DEVICE_TYPE_REQUEST_def message_frame_def)
  ultimately show ?thesis by (simp add: recv_DEVICE_TYPE_REPLAY_def [abs_def])
qed

lemma build_version:
  assumes "node_ready me brd (peer c)" "inbox c = []"
  shows "\<exists>nd'. request (node_world build tick) (send_BUILD_VERSION_QUERY me brd) (recv_BUILD_VERSION_REPLAY brd me) c =
      (Inr [hi8 build, lo8 build], \<lparr>inbox = [], peer = nd'\<rparr>) \<and> node_but_sent (peer c) nd'"
proof -
  have "\<exists>nd'. request (node_world build tick) (message_frame me brd 1 33 []) (\<lambda>c. recv_message brd me 4 1 34 c) c =
      (Inr [hi8 build, lo8 build], \<lparr>inbox = [], peer = nd'\<rparr>) \<and> node_but_sent (peer c) nd'"
    by (rule request_node [OF assms _ _ _ refl]) (simp_all add: canix_SFP_HMS_handler_def Let_def hms_answer_def)
  moreover have "send_BUILD_VERSION_QUERY me brd = message_frame me brd 1 33 []"
    by (simp add: send_BUILD_VERSION_QUERY_def message_frame_def)
  ultimately show ?thesis by (simp add: recv_BUILD_VERSION_REPLAY_def [abs_def])
qed

lemma ping:
  assumes "node_ready me brd (peer c)" "inbox c = []"
  shows "\<exists>nd'. request (node_world build tick) (send_PING_REQUEST me brd) (recv_PING_REPLAY brd me) c =
      (Inr [], \<lparr>inbox = [], peer = nd'\<rparr>) \<and> node_but_sent (peer c) nd'"
proof -
  have "\<exists>nd'. request (node_world build tick) (message_frame me brd 1 1 []) (\<lambda>c. recv_message brd me 2 1 2 c) c =
      (Inr [], \<lparr>inbox = [], peer = nd'\<rparr>) \<and> node_but_sent (peer c) nd'"
    by (rule request_node [OF assms _ _ _ refl]) (simp_all add: canix_SFP_HMS_handler_def Let_def hms_answer_def)
  moreover have "send_PING_REQUEST me brd = message_frame me brd 1 1 []" by (simp add: send_PING_REQUEST_def message_frame_def)
  ultimately show ?thesis by (simp add: recv_PING_REPLAY_def [abs_def])
qed

lemma date_time:
  assumes "node_ready me brd (peer c)" "inbox c = []"
  shows "\<exists>nd'. request (node_world build tick) (send_DATE_REQUEST me brd) (recv_DATE_INFO brd me) c =
      (Inr [0xff, day_of_month (rtc (nd_board (peer c))), month_of_year (rtc (nd_board (peer c))), year (rtc (nd_board (peer c)))],
       \<lparr>inbox = [], peer = nd'\<rparr>) \<and> node_but_sent (peer c) nd'"
    "\<exists>nd'. request (node_world build tick) (send_TIME_REQUEST me brd) (recv_TIME_INFO brd me) c =
      (Inr [0xff, day_of_week (rtc (nd_board (peer c))), hour (rtc (nd_board (peer c))), minute (rtc (nd_board (peer c))),
          second (rtc (nd_board (peer c)))],
       \<lparr>inbox = [], peer = nd'\<rparr>) \<and> node_but_sent (peer c) nd'"
proof -
  have a: "canix_selfaddr (nd_board (peer c)) = brd" using assms(1) by (simp add: node_ready_def canix_selfaddr_def)
  show "\<exists>nd'. request (node_world build tick) (send_DATE_REQUEST me brd) (recv_DATE_INFO brd me) c =
      (Inr [0xff, day_of_month (rtc (nd_board (peer c))), month_of_year (rtc (nd_board (peer c))), year (rtc (nd_board (peer c)))],
       \<lparr>inbox = [], peer = nd'\<rparr>) \<and> node_but_sent (peer c) nd'"
    unfolding recv_DATE_INFO_def [abs_def] send_DATE_REQUEST_def message_frame_def [of me brd 6 4 "[]", simplified, symmetric]
    by (rule request_node [OF assms _ _ _ refl]) (simp_all add: canix_SFP_RTS_handler_def Let_def a)
  show "\<exists>nd'. request (node_world build tick) (send_TIME_REQUEST me brd) (recv_TIME_INFO brd me) c =
      (Inr [0xff, day_of_week (rtc (nd_board (peer c))), hour (rtc (nd_board (peer c))), minute (rtc (nd_board (peer c))),
          second (rtc (nd_board (peer c)))],
       \<lparr>inbox = [], peer = nd'\<rparr>) \<and> node_but_sent (peer c) nd'"
    unfolding recv_TIME_INFO_def [abs_def] send_TIME_REQUEST_def message_frame_def [of me brd 6 3 "[]", simplified, symmetric]
    by (rule request_node [OF assms _ _ _ refl]) (simp_all add: canix_SFP_RTS_handler_def Let_def a)
qed

lemma show_system:
  assumes "node_ready me brd (peer c)" "inbox c = []"
  shows "\<exists>nd'. cmd_show_system (node_world build tick) me brd c = (Inr (2, eeprom (nd_board (peer c)) EEPR_BOARD_TYPE, build), \<lparr>inbox = [], peer = nd'\<rparr>) \<and>
      node_but_sent (peer c) nd'"
proof -
  obtain n1 where n1: "request (node_world build tick) (send_DEVICE_TYPE_REQUEST me brd) (recv_DEVICE_TYPE_REPLAY brd me) c =
      (Inr [2, eeprom (nd_board (peer c)) EEPR_BOARD_TYPE], \<lparr>inbox = [], peer = n1\<rparr>)" "node_but_sent (peer c) n1"
    using device_type [OF assms] by blast
  have r: "node_ready me brd (peer \<lparr>inbox = [], peer = n1\<rparr>)" "inbox \<lparr>inbox = [], peer = n1\<rparr> = []" using n1(2) assms(1) by simp_all
  obtain n2 where "request (node_world build tick) (send_BUILD_VERSION_QUERY me brd) (recv_BUILD_VERSION_REPLAY brd me) \<lparr>inbox = [], peer = n1\<rparr> =
      (Inr [hi8 build, lo8 build], \<lparr>inbox = [], peer = n2\<rparr>)" "node_but_sent n1 n2"
    using build_version [OF r] by auto
  with n1 node_but_sent_trans [OF n1(2)] show ?thesis by (simp add: cmd_show_system_def bindH_def returnH_def)
qed

lemma show_time:
  assumes "node_ready me brd (peer c)" "inbox c = []"
  shows "\<exists>nd'. cmd_show_time (node_world build tick) me brd c =
    (let k = rtc (nd_board (peer c)) in
      (Inr ([day_of_month k, month_of_year k, year k], [day_of_week k, hour k, minute k, second k]), \<lparr>inbox = [], peer = nd'\<rparr>)) \<and>
    node_but_sent (peer c) nd'"
proof -
  let ?k = "rtc (nd_board (peer c))"
  obtain n1 where n1: "request (node_world build tick) (send_DATE_REQUEST me brd) (recv_DATE_INFO brd me) c =
      (Inr [0xff, day_of_month ?k, month_of_year ?k, year ?k], \<lparr>inbox = [], peer = n1\<rparr>)" "node_but_sent (peer c) n1"
    using date_time(1) [OF assms] by blast
  have r: "node_ready me brd (peer \<lparr>inbox = [], peer = n1\<rparr>)" "inbox \<lparr>inbox = [], peer = n1\<rparr> = []" using n1(2) assms(1) by simp_all
  have k: "rtc (nd_board n1) = ?k" using n1(2) by simp
  obtain n2 where "request (node_world build tick) (send_TIME_REQUEST me brd) (recv_TIME_INFO brd me) \<lparr>inbox = [], peer = n1\<rparr> =
      (Inr [0xff, day_of_week ?k, hour ?k, minute ?k, second ?k], \<lparr>inbox = [], peer = n2\<rparr>)" "node_but_sent n1 n2"
    using date_time(2) [OF r] k by auto
  with n1 node_but_sent_trans [OF n1(2)] show ?thesis by (simp add: cmd_show_time_def bindH_def returnH_def Let_def)
qed

lemma connects:
  assumes "node_ready me brd (peer c)" "inbox c = []"
  shows "\<exists>nd'. board_connection (node_world build tick) me brd False 255 c = (Inr (2, eeprom (nd_board (peer c)) EEPR_BOARD_TYPE), \<lparr>inbox = [], peer = nd'\<rparr>) \<and>
      node_but_sent (peer c) nd'"
proof -
  obtain n1 where n1: "request (node_world build tick) (send_PING_REQUEST me brd) (recv_PING_REPLAY brd me) c =
      (Inr [], \<lparr>inbox = [], peer = n1\<rparr>)" "node_but_sent (peer c) n1"
    using ping [OF assms] by blast
  have r: "node_ready me brd (peer \<lparr>inbox = [], peer = n1\<rparr>)" "inbox \<lparr>inbox = [], peer = n1\<rparr> = []" using n1(2) assms(1) by simp_all
  have e: "eeprom (nd_board n1) = eeprom (nd_board (peer c))" using n1(2) by simp
  obtain n2 where "request (node_world build tick) (send_DEVICE_TYPE_REQUEST me brd) (recv_DEVICE_TYPE_REPLAY brd me) \<lparr>inbox = [], peer = n1\<rparr> =
      (Inr [2, eeprom (nd_board (peer c)) EEPR_BOARD_TYPE], \<lparr>inbox = [], peer = n2\<rparr>)" "node_but_sent n1 n2"
    using device_type [OF r] e by auto
  with n1 node_but_sent_trans [OF n1(2)] show ?thesis by (simp add: board_connection_def bindH_def returnH_def)
qed

text \<open>C26: The shell of a board tells the truth about the node, which is running, not waiting for its reset, and
  can be addressed (ten bits, not 0), over a connection with nothing in its queue: connecting, its state, uptime, type
  and build number, its date and time and the dump of its EEPROM are what the node has, and setting its address
  changes the two bytes of the address in its EEPROM and nothing else, reads them back, and leaves the node, which
  keeps the old address until its next reset, reachable.\<close>

theorem host_manages_node:
  fixes build :: u16 and tick :: "node \<Rightarrow> node"
  defines "W \<equiv> node_world build tick"
  assumes "node_ready me brd (peer c)" "inbox c = []"
  shows "(\<exists>c'. board_connection W me brd False 255 c = (Inr (2, eeprom (nd_board (peer c)) EEPR_BOARD_TYPE), c')) \<and>
    (\<exists>c'. cmd_getstate W me brd c = (Inr HCAN_HMS_DEV_STATE_APPLICATION, c')) \<and>
    (\<exists>c'. cmd_getuptime W me brd c = (Inr (uptime_sec (rtc (nd_board (peer c)))), c')) \<and>
    (\<exists>c'. cmd_show_system W me brd c = (Inr (2, eeprom (nd_board (peer c)) EEPR_BOARD_TYPE, build), c')) \<and>
    (\<exists>c'. cmd_show_time W me brd c = (let k = rtc (nd_board (peer c)) in
       (Inr ([day_of_month k, month_of_year k, year k], [day_of_week k, hour k, minute k, second k]), c'))) \<and>
    (\<exists>c'. cmd_dump_ee W me brd a c = (Inr (map (\<lambda>i. eeprom (nd_board (peer c)) (unat (a + of_nat i))) [0..<320]), c')) \<and>
    (\<exists>c'. cmd_setaddress W me brd a c = (Inr True, c') \<and>
       eeprom (nd_board (peer c')) = (eeprom (nd_board (peer c)))(2 := lo8 a, 3 := hi8 a) \<and>
       (\<exists>c''. cmd_getaddress W me brd c' = (Inr a, c'')))"
proof (intro conjI)
  have q: "node_ee.quiet me brd c" using assms(2,3) by (simp add: node_ee.quiet_def)
  show "\<exists>c'. cmd_dump_ee W me brd a c = (Inr (map (\<lambda>i. eeprom (nd_board (peer c)) (unat (a + of_nat i))) [0..<320]), c')"
    using node_ee.dump [OF q, of build tick 320 a] by (auto simp: W_def cmd_dump_ee_def node_ee.eeC_def)
  show "\<exists>c'. cmd_setaddress W me brd a c = (Inr True, c') \<and>
       eeprom (nd_board (peer c')) = (eeprom (nd_board (peer c)))(2 := lo8 a, 3 := hi8 a) \<and>
       (\<exists>c''. cmd_getaddress W me brd c' = (Inr a, c''))"
    using node_ee.set_address [OF q, of build tick a] by (auto simp: W_def node_ee.eeC_def)
  show "\<exists>c'. cmd_show_time W me brd c = (let k = rtc (nd_board (peer c)) in
       (Inr ([day_of_month k, month_of_year k, year k], [day_of_week k, hour k, minute k, second k]), c'))"
    using show_time [OF assms(2,3), of build tick] by (auto simp: W_def Let_def)
qed (use connects [OF assms(2,3), of build tick] getstate [OF assms(2,3), of build tick] getuptime [OF assms(2,3), of build tick]
  show_system [OF assms(2,3), of build tick] in \<open>unfold W_def, blast+\<close>)

text \<open>Node 100 gets the address 555.\<close>

definition ex_host_node :: node where
  "ex_host_node = ex_node\<lparr>nd_board := ex_board\<lparr>my_address := 100\<rparr>\<rparr>"

theorem host_manages_node_witness:
  "\<exists>c'. cmd_setaddress (node_world 300 (\<lambda>nd. nd)) 9 100 555 \<lparr>inbox = [], peer = ex_host_node\<rparr> = (Inr True, c') \<and>
     eeprom (nd_board (peer c')) = (eeprom ex_board)(2 := 43, 3 := 2) \<and>
     (\<exists>c''. cmd_getaddress (node_world 300 (\<lambda>nd. nd)) 9 100 c' = (Inr 555, c''))"
proof -
  let ?c = "\<lparr>inbox = [], peer = ex_host_node\<rparr>"
  have "node_ready 9 100 (peer ?c)" by (simp add: node_ready_def ex_host_node_def ex_node_def)
  from host_manages_node [OF this, of 300 "\<lambda>nd. nd" 555]
  have "\<exists>c'. cmd_setaddress (node_world 300 (\<lambda>nd. nd)) 9 100 555 ?c = (Inr True, c') \<and>
       eeprom (nd_board (peer c')) = (eeprom (nd_board (peer ?c)))(2 := lo8 555, 3 := hi8 555) \<and>
       (\<exists>c''. cmd_getaddress (node_world 300 (\<lambda>nd. nd)) 9 100 c' = (Inr 555, c''))" by simp
  moreover have "lo8 555 = 43" "hi8 555 = 2" by code_simp+
  ultimately show ?thesis by (simp add: ex_host_node_def ex_node_def)
qed
end
