(* ===== verification/Firmware_Update.thy ===== *)
theory Firmware_Update
  imports Bootloader Host_Client
begin

text \<open>
  The update of a firmware: the Intel hex file (\<open>libhcan++/ihexfile.cc\<close>), the transfer of its pages to the bootloader
  of a board (\<open>board_driver::cmd_flash\<close>) and the two together with the bootloader (theory \<open>Bootloader\<close>), which is the
  peer of the connection. The texts printed on the way are left out; reading files is given as their contents.
\<close>

section \<open>The hex file\<close>

text \<open>\<open>substr\<close> throws when it starts behind the string. \<open>str2hex\<close> is modelled for hexadecimal digits; what else the stream
  makes of a string is \<open>Not_hex\<close>. \<open>Endless\<close>: the padding loop of \<open>load\<close> does not end.\<close>

datatype load_error = No_file | Out_of_range | Not_hex | Endless

definition substr :: "nat \<Rightarrow> nat \<Rightarrow> string \<Rightarrow> load_error + string" where
  "substr p n s = (if p > length s then Inl Out_of_range else Inr (take n (drop p s)))"

definition hex_digit :: "char \<Rightarrow> nat option" where
  "hex_digit c = (let n = of_char c in
     if 48 \<le> n \<and> n \<le> 57 then Some (n - 48) else if 65 \<le> n \<and> n \<le> 70 then Some (n - 55)
     else if 97 \<le> n \<and> n \<le> 102 then Some (n - 87) else None)"

fun hex_value :: "nat \<Rightarrow> string \<Rightarrow> load_error + nat" where
  "hex_value v [] = Inr v"
| "hex_value v (c # cs) = (case hex_digit c of None \<Rightarrow> Inl Not_hex | Some d \<Rightarrow> hex_value (16 * v + d) cs)"

definition str2hex :: "string \<Rightarrow> load_error + u8" where
  "str2hex s = (if s = [] then Inl Not_hex else case hex_value 0 s of Inl e \<Rightarrow> Inl e | Inr v \<Rightarrow> Inr (of_nat v))"

definition bind_load :: "load_error + 'a \<Rightarrow> ('a \<Rightarrow> load_error + 'b) \<Rightarrow> load_error + 'b" where
  "bind_load x f = (case x of Inl e \<Rightarrow> Inl e | Inr a \<Rightarrow> f a)"

lemma bind_load_simps [simp]: "bind_load (Inl e) f = Inl e" "bind_load (Inr a) f = f a"
  by (simp_all add: bind_load_def)

text \<open>The bytes \<open>i\<close> to \<open>i + n\<close> of a data line.\<close>

fun data_line :: "string \<Rightarrow> nat \<Rightarrow> nat \<Rightarrow> load_error + u8 list" where
  "data_line s i 0 = Inr []"
| "data_line s i (Suc n) =
     bind_load (substr (i * 2) 2 s) (\<lambda>d. bind_load (str2hex d) (\<lambda>b. bind_load (data_line s (i + 1) n) (\<lambda>bs. Inr (b # bs))))"

definition hex_line :: "string \<Rightarrow> load_error + u8 list" where
  "hex_line line =
     (if line = [] then Inr []
      else bind_load (substr 1 2 line) (\<lambda>l. bind_load (str2hex l) (\<lambda>len.
           bind_load (substr 7 2 line) (\<lambda>t. bind_load (str2hex t) (\<lambda>rectype.
             if rectype = 0 then bind_load (substr 9 (unat len * 2) line) (\<lambda>d. data_line d 0 (unat len)) else Inr [])))))"

text \<open>A line that does not fit into the 512 bytes of the buffer ends the loop.\<close>

fun hex_lines :: "string list \<Rightarrow> load_error + u8 list" where
  "hex_lines [] = Inr []"
| "hex_lines (l # ls) =
     (if length l \<ge> 512 then Inr [] else bind_load (hex_line l) (\<lambda>d. bind_load (hex_lines ls) (\<lambda>ds. Inr (d @ ds))))"

text \<open>The counter of the padding loop has eight bits.\<close>

definition ihex_pad :: "nat \<Rightarrow> u8 list \<Rightarrow> load_error + u8 list" where
  "ihex_pad ps d = (let n = ps - length d mod ps in if n > 255 then Inl Endless else Inr (d @ replicate n 0xff))"

definition ihex_load :: "string list option \<Rightarrow> nat \<Rightarrow> load_error + u8 list" where
  "ihex_load file ps = (case file of None \<Rightarrow> Inl No_file | Some ls \<Rightarrow> bind_load (hex_lines ls) (ihex_pad ps))"

definition ihex_size :: "u8 list \<Rightarrow> u16" where
  "ihex_size d = of_nat (length d)"

definition ihex_crc16 :: "u8 list \<Rightarrow> u16" where
  "ihex_crc16 d = fold (\<lambda>i crc. crc16_update (crc16_update crc (d ! (i * 2 + 1))) (d ! (i * 2))) [0..<length d div 2] 0xffff"

section \<open>Flashing\<close>

datatype flash_result = Flashed | Crc_wrong | Lost | Failed transport_error | Aborted | Undefined | Load_failed load_error

text \<open>Lines of 16 bytes, in four frames each; \<open>index\<close> is the position in the page.\<close>

definition flash_fill :: "'p world \<Rightarrow> u16 \<Rightarrow> u16 \<Rightarrow> u8 list \<Rightarrow> nat \<Rightarrow> u8 \<Rightarrow> ('p, unit) host" where
  "flash_fill w me brd d offset index =
     (let p = offset + unat index
      in transport_send w (send_FLASH_BUFFER_FILL me brd index (d ! p) (d ! (p + 1)) (d ! (p + 2)) (d ! (p + 3))))"

definition flash_line :: "'p world \<Rightarrow> u16 \<Rightarrow> u16 \<Rightarrow> u8 list \<Rightarrow> nat \<Rightarrow> u8 \<Rightarrow> ('p, unit) host" where
  "flash_line w me brd d offset index =
     bindH (flash_fill w me brd d offset index) (\<lambda>_. bindH (flash_fill w me brd d offset (index + 4)) (\<lambda>_.
     bindH (flash_fill w me brd d offset (index + 8)) (\<lambda>_. bindH (flash_fill w me brd d offset (index + 12)) (\<lambda>_.
     bindH (recv_FLASH_BUFFER_FILL_ACK brd me) (\<lambda>_. returnH ())))))"

fun flash_lines :: "'p world \<Rightarrow> u16 \<Rightarrow> u16 \<Rightarrow> u8 list \<Rightarrow> nat \<Rightarrow> nat \<Rightarrow> u8 \<Rightarrow> ('p, unit) host" where
  "flash_lines w me brd d offset 0 index = returnH ()"
| "flash_lines w me brd d offset (Suc n) index =
     bindH (flash_line w me brd d offset index) (\<lambda>_. flash_lines w me brd d offset n (index + 16))"

definition flash_block :: "'p world \<Rightarrow> u16 \<Rightarrow> u16 \<Rightarrow> nat \<Rightarrow> u8 list \<Rightarrow> nat \<Rightarrow> ('p, unit) host" where
  "flash_block w me brd ps d block =
     bindH (flash_lines w me brd d (block * ps) (ps div 16) 0) (\<lambda>_.
     bindH (request w (send_FLASH_BUFFER_WRITE me brd (of_nat (block * ps)) (of_nat (block * ps div 256))) (recv_FLASH_BUFFER_WRITE_ACK brd me))
       (\<lambda>_. returnH ()))"

text \<open>Comparing a block with the cached image, whose end is not looked at: \<open>None\<close> when it is read behind its end.\<close>

fun blocks_equal :: "u8 list \<Rightarrow> u8 list \<Rightarrow> nat \<Rightarrow> nat \<Rightarrow> bool option" where
  "blocks_equal d cached p 0 = Some True"
| "blocks_equal d cached p (Suc n) =
     (if p \<ge> length cached then None else if d ! p \<noteq> cached ! p then Some False else blocks_equal d cached (p + 1) n)"

fun flash_blocks :: "'p world \<Rightarrow> u16 \<Rightarrow> u16 \<Rightarrow> nat \<Rightarrow> u8 list \<Rightarrow> u8 list option \<Rightarrow> nat list \<Rightarrow> ('p, bool) host" where
  "flash_blocks w me brd ps d cached [] = returnH True"
| "flash_blocks w me brd ps d cached (b # bs) =
     (case (case cached of None \<Rightarrow> Some False | Some ca \<Rightarrow> blocks_equal d ca (b * ps) ps) of
        None \<Rightarrow> returnH False
      | Some True \<Rightarrow> flash_blocks w me brd ps d cached bs
      | Some False \<Rightarrow> bindH (flash_block w me brd ps d b) (\<lambda>_. flash_blocks w me brd ps d cached bs))"

definition load_crc16_from_board :: "'p world \<Rightarrow> u16 \<Rightarrow> u16 \<Rightarrow> u16 \<Rightarrow> ('p, u16) host" where
  "load_crc16_from_board w me brd sz =
     bindH (request w (send_FLASH_CRC16_QUERY me brd (hi8 sz) (lo8 sz)) (recv_FLASH_CRC16_REPLAY brd me))
       (\<lambda>r. returnH (word16 (r ! 0) (r ! 1)))"

definition save_crc16_to_board :: "'p world \<Rightarrow> u16 \<Rightarrow> u16 \<Rightarrow> u16 \<Rightarrow> u16 \<Rightarrow> ('p, unit) host" where
  "save_crc16_to_board w me brd crc sz =
     bindH (write_eeprom_word_le w me brd 16 crc) (\<lambda>_. write_eeprom_word_le w me brd 18 sz)"

text \<open>Asking for the checksum: a bootloader that does not answer is taken for one without checksums.\<close>

definition flash_check :: "'p world \<Rightarrow> u16 \<Rightarrow> u16 \<Rightarrow> u8 list \<Rightarrow> 'p tconn \<Rightarrow> bool \<times> 'p tconn" where
  "flash_check w me brd d c =
     (case bindH (load_crc16_from_board w me brd (ihex_size d)) (\<lambda>crc.
             bindH (save_crc16_to_board w me brd crc (ihex_size d)) (\<lambda>_. returnH crc)) c of
        (Inl e, c) \<Rightarrow> (True, c)
      | (Inr crc, c) \<Rightarrow> (crc = ihex_crc16 d, c))"

definition flash_attempt :: "'p world \<Rightarrow> u16 \<Rightarrow> u16 \<Rightarrow> nat \<Rightarrow> u8 list \<Rightarrow> u8 list option \<Rightarrow> ('p, flash_result) host" where
  "flash_attempt w me brd ps d cached =
     bindH (flash_blocks w me brd ps d cached [0..<unat (ihex_size d) div ps]) (\<lambda>ok.
       if \<not> ok then returnH Undefined
       else (\<lambda>c. case flash_check w me brd d c of
                   (False, c) \<Rightarrow> (Inr Crc_wrong, c)
                 | (True, c) \<Rightarrow> bindH (cmd_loadapp w me brd) (\<lambda>_. returnH Flashed) c))"

text \<open>Reset, a second, and the stop of the bootloader: the result is the state of the board, which has to be 1.\<close>

definition flash_restart :: "'p world \<Rightarrow> u16 \<Rightarrow> u16 \<Rightarrow> ('p, u8) host" where
  "flash_restart w me brd = bindH (cmd_bootloader w me brd) (\<lambda>_. cmd_getstate w me brd)"

fun flash_tries :: "'p world \<Rightarrow> u16 \<Rightarrow> u16 \<Rightarrow> nat \<Rightarrow> u8 list \<Rightarrow> u8 list option \<Rightarrow> nat \<Rightarrow> 'p tconn \<Rightarrow> flash_result \<times> 'p tconn" where
  "flash_tries w me brd ps d cached 0 c = (Lost, c)"
| "flash_tries w me brd ps d cached (Suc n) c =
     (case flash_attempt w me brd ps d cached c of
        (Inr r, c) \<Rightarrow> (r, c)
      | (Inl _, c) \<Rightarrow>
          (case flash_restart w me brd c of
             (Inl e, c) \<Rightarrow> (Failed e, c)
           | (Inr st, c) \<Rightarrow> if st \<noteq> 1 then (Aborted, c) else flash_tries w me brd ps d cached n c))"

text \<open>\<open>incremental\<close> is the option of the program, \<open>cache\<close> the contents of the cached hex file.\<close>

definition flash_cached :: "'p world \<Rightarrow> u16 \<Rightarrow> u16 \<Rightarrow> nat \<Rightarrow> u8 list \<Rightarrow> string list option \<Rightarrow> 'p tconn \<Rightarrow> (flash_result + u8 list option) \<times> 'p tconn" where
  "flash_cached w me brd ps d cache c =
     (case flash_restart w me brd c of
        (Inl e, c) \<Rightarrow> (Inl (Failed e), c)
      | (Inr st, c) \<Rightarrow>
          if st \<noteq> 1 then (Inl Aborted, c)
          else (case ihex_load cache ps of
                  Inl No_file \<Rightarrow> (Inr None, c)
                | Inl e \<Rightarrow> (Inl (Load_failed e), c)
                | Inr ca \<Rightarrow>
                    (case load_crc16_from_board w me brd (ihex_size d) c of
                       (Inl e, c) \<Rightarrow> (Inl (Failed e), c)
                     | (Inr crc, c) \<Rightarrow> (Inr (if crc = ihex_crc16 ca then Some ca else None), c))))"

definition cmd_flash :: "'p world \<Rightarrow> u16 \<Rightarrow> u16 \<Rightarrow> nat \<Rightarrow> string list option \<Rightarrow> bool \<Rightarrow> string list option \<Rightarrow> 'p tconn \<Rightarrow> flash_result \<times> 'p tconn" where
  "cmd_flash w me brd ps file incremental cache c =
     (if ps = 0 then (Aborted, c)
      else case ihex_load file ps of
        Inl e \<Rightarrow> (Load_failed e, c)
      | Inr d \<Rightarrow>
          if incremental
          then (case flash_cached w me brd ps d cache c of
                  (Inl r, c) \<Rightarrow> (r, c)
                | (Inr cached, c) \<Rightarrow> flash_tries w me brd ps d cached 3 c)
          else flash_tries w me brd ps d None 3 c)"

section \<open>What a hex file holds\<close>

definition hex_char :: "nat \<Rightarrow> char" where
  "hex_char n = char_of (if n < 10 then 48 + n else 55 + n)"

definition hex_byte :: "u8 \<Rightarrow> string" where
  "hex_byte b = [hex_char (unat b div 16), hex_char (unat b mod 16)]"

text \<open>A data record: its length, the address, the type 0, the bytes and the checksum.\<close>

definition data_record :: "u16 \<Rightarrow> u8 list \<Rightarrow> string" where
  "data_record addr bs = CHR '':'' # concat (map hex_byte (of_nat (length bs) # hi8 addr # lo8 addr # 0 # bs @
     [- (of_nat (length bs) + hi8 addr + lo8 addr + sum_list bs)]))"

definition end_record :: string where
  "end_record = '':00000001FF''"

lemma hex_digit_char: "n < 16 \<Longrightarrow> hex_digit (hex_char n) = Some n"
proof -
  assume "n < 16"
  then have "n \<in> {0, 1, 2, 3, 4, 5, 6, 7, 8, 9, 10, 11, 12, 13, 14, 15}" by (simp add: numeral_eq_Suc less_Suc_eq)
  then show ?thesis by (auto simp: hex_digit_def hex_char_def Let_def)
qed

lemma str2hex_byte [simp]: "str2hex (hex_byte b) = Inr b"
proof -
  have "unat b div 16 < 16" "unat b mod 16 < 16" using unat_u8_less [of b] by (simp_all add: less_mult_imp_div_less)
  then have "hex_value 0 (hex_byte b) = Inr (unat b)" by (simp add: hex_byte_def hex_digit_char)
  then show ?thesis by (simp add: str2hex_def) (simp add: hex_byte_def)
qed

lemma length_hex_byte [simp]: "length (hex_byte b) = 2"
  by (simp add: hex_byte_def)

lemma hex_bytes_length [simp]: "length (concat (map hex_byte bs)) = 2 * length bs"
  by (induction bs) (simp_all add: hex_byte_def)

lemma hex_bytes_drop: "drop (2 * i) (concat (map hex_byte bs)) = concat (map hex_byte (drop i bs))"
proof (induction i arbitrary: bs)
  case (Suc i)
  then show ?case by (cases bs) (simp_all add: hex_byte_def)
qed simp

lemma hex_bytes_take: "take (2 * n) (concat (map hex_byte bs)) = concat (map hex_byte (take n bs))"
proof (induction n arbitrary: bs)
  case (Suc n)
  then show ?case by (cases bs) (simp_all add: hex_byte_def)
qed simp

lemma substr_bytes: "i + n \<le> length bs \<Longrightarrow> substr (2 * i) (2 * n) (concat (map hex_byte bs)) = Inr (concat (map hex_byte (take n (drop i bs))))"
  by (simp add: substr_def hex_bytes_drop hex_bytes_take)

lemma data_line_bytes: "i + n \<le> length bs \<Longrightarrow> data_line (concat (map hex_byte bs)) i n = Inr (take n (drop i bs))"
proof (induction n arbitrary: i)
  case (Suc n)
  then have "drop i bs = bs ! i # drop (Suc i) bs" by (simp add: Cons_nth_drop_Suc)
  moreover from this have "substr (i * 2) 2 (concat (map hex_byte bs)) = Inr (hex_byte (bs ! i))"
    using substr_bytes [of i 1 bs] Suc.prems by (simp add: mult.commute)
  ultimately show ?case using Suc.IH [of "i + 1"] Suc.prems by simp
qed simp

lemma hex_line_record:
  assumes "length bs \<le> 255"
  shows "hex_line (data_record addr bs) = Inr bs"
proof -
  let ?l = "of_nat (length bs) :: u8"
  define c where "c = - (?l + hi8 addr + lo8 addr + sum_list bs)"
  define xs where "xs = ?l # hi8 addr # lo8 addr # 0 # bs @ [c]"
  have l: "unat ?l = length bs" using assms by (simp add: unat_of_nat)
  have dr: "data_record addr bs = CHR '':'' # concat (map hex_byte xs)" by (simp add: data_record_def xs_def c_def)
  have sub: "substr (Suc (2 * i)) (2 * n) (data_record addr bs) = Inr (concat (map hex_byte (take n (drop i xs))))" if "i + n \<le> length xs" for i n
    unfolding dr using that by (simp add: substr_def hex_bytes_drop hex_bytes_take)
  have "substr 1 2 (data_record addr bs) = Inr (hex_byte ?l)" using sub [of 0 1] by (simp add: xs_def)
  moreover have "substr 7 2 (data_record addr bs) = Inr (hex_byte 0)" using sub [of 3 1] by (simp add: xs_def numeral_eq_Suc)
  moreover have "substr 9 (unat ?l * 2) (data_record addr bs) = Inr (concat (map hex_byte bs))"
    using sub [of 4 "length bs"] l by (simp add: xs_def mult.commute)
  moreover have "data_record addr bs \<noteq> []" by (simp add: data_record_def)
  ultimately show ?thesis using data_line_bytes [of 0 "length bs" bs] l by (simp add: hex_line_def)
qed

lemma hex_lines_records:
  assumes "\<forall>(a, bs) \<in> set rs. length bs \<le> 250"
  shows "hex_lines (map (\<lambda>(a, bs). data_record a bs) rs @ [end_record]) = Inr (concat (map snd rs))"
  using assms
proof (induction rs)
  case Nil
  then show ?case by code_simp
next
  case (Cons r rs)
  obtain a bs where r: "r = (a, bs)" by fastforce
  have "length (data_record a bs) < 512" using Cons.prems by (simp add: r data_record_def)
  then show ?case using Cons hex_line_record [of bs a] by (simp add: r)
qed

lemma ihex_load_records:
  assumes "\<forall>(a, bs) \<in> set rs. length bs \<le> 250" "0 < ps" "ps \<le> 256" "d = concat (map snd rs)"
  shows "ihex_load (Some (map (\<lambda>(a, bs). data_record a bs) rs @ [end_record])) ps =
    (if ps = 256 \<and> 256 dvd length d then Inl Endless else Inr (d @ replicate (ps - length d mod ps) 0xff))"
proof -
  have m: "length d mod ps < ps" using assms(2) by simp
  have "ps - length d mod ps > 255 \<longleftrightarrow> ps = 256 \<and> 256 dvd length d"
  proof
    assume a: "ps - length d mod ps > 255"
    then have "ps = 256" "length d mod ps = 0" using assms(3) m by linarith+
    then show "ps = 256 \<and> 256 dvd length d" by (simp add: mod_eq_0_iff_dvd)
  next
    assume "ps = 256 \<and> 256 dvd length d"
    then show "ps - length d mod ps > 255" by (simp add: mod_eq_0_iff_dvd)
  qed
  then show ?thesis using assms(4) by (simp add: ihex_load_def ihex_pad_def Let_def hex_lines_records [OF assms(1)])
qed

lemma padded_length: "0 < ps \<Longrightarrow> (n + (ps - n mod ps)) mod ps = (0 :: nat)"
proof -
  assume "0 < ps"
  then have "n + (ps - n mod ps) = n div ps * ps + ps" using div_mult_mod_eq [of n ps] mod_less_divisor [of ps n] by linarith
  then show ?thesis by simp
qed

lemma ihex_load_pages:
  assumes "ihex_load lines ps = Inr d" "0 < ps"
  shows "length d mod ps = 0"
  using assms padded_length [OF assms(2)]
  by (auto simp: ihex_load_def ihex_pad_def Let_def bind_load_def split: option.splits sum.splits if_splits)

text \<open>C29: Loading a hex file of data records with at most 250 bytes each gives their bytes one after the other,
  whatever addresses they name, filled with \<open>0xff\<close> to whole pages (of at most 256 bytes), a whole page
  more when they fill their pages already. With pages of 256 bytes the program does not come back from a file that
  fills its pages exactly.\<close>

theorem hex_file_loads:
  assumes "\<forall>(a, bs) \<in> set rs. length bs \<le> 250" "0 < ps" "ps \<le> 256" "d = concat (map snd rs)"
  shows "ihex_load (Some (map (\<lambda>(a, bs). data_record a bs) rs @ [end_record])) ps =
    (if ps = 256 \<and> 256 dvd length d then Inl Endless else Inr (d @ replicate (ps - length d mod ps) 0xff)) \<and>
    (length d + (ps - length d mod ps)) mod ps = 0"
  using ihex_load_records [OF assms] padded_length [OF assms(2)] by blast

theorem hex_file_loads_witness:
  "ihex_load (Some ['':02001000ABCD76'', '':00000001FF'']) 4 = Inr [0xab, 0xcd, 0xff, 0xff]"
proof -
  have "['':02001000ABCD76'', '':00000001FF''] = map (\<lambda>(a, bs). data_record a bs) [(0x10, [0xab, 0xcd])] @ [end_record]" by code_simp
  moreover have "replicate 2 (0xff :: u8) = [0xff, 0xff]" by (simp add: numeral_2_eq_2)
  ultimately show ?thesis using hex_file_loads [of "[(0x10, [0xab, 0xcd])]" 4] by simp
qed

end
