(* ===== verification/Flash_Board.thy ===== *)
theory Flash_Board
  imports Firmware_Update
begin

text \<open>
  The update of a firmware from end to end: the bootloader of the board (theory \<open>Bootloader\<close>) as the peer of the program
  that flashes (theory \<open>Firmware_Update\<close>), over a bus that loses nothing.
\<close>

section \<open>The bootloader as a board\<close>

text \<open>The loop of the bootloader is left at the start of the application or at a reset.\<close>

datatype loader = Loader bl | Left bl_next bl

text \<open>A frame is put into the receive buffer, the loop makes a pass, and a frame it asks to be sent comes back to the
  host. In a second the loop makes \<open>rate\<close> passes.\<close>

definition loader_after :: "bl_next \<times> bl \<Rightarrow> hframe list \<times> loader" where
  "loader_after x =
     (case x of
        (Go_on, s) \<Rightarrow>
          ((case tx_frame (bl_mcp s) of
              None \<Rightarrow> []
            | Some (i, d) \<Rightarrow> [frame_read_from \<lparr>cf_id = i, cf_size = of_nat (length d), cf_data = d\<rparr>]),
           Loader (s\<lparr>bl_mcp := tx_done (bl_mcp s)\<rparr>))
      | (r, s) \<Rightarrow> ([], Left r s))"

definition loader_world :: "chip \<Rightarrow> nat \<Rightarrow> loader world" where
  "loader_world ch rate x l =
     (case l of
        Left r s \<Rightarrow> ([], l)
      | Loader s \<Rightarrow>
          (case x of
             Some f \<Rightarrow>
               (let cf = frame_write_to f
                in loader_after (bl_pass ch (s\<lparr>bl_mcp := put_frame (cf_id cf) (cf_data cf) (bl_mcp s)\<rparr>)))
           | None \<Rightarrow> (case bl_run ch (replicate rate None) s of (Go_on, s) \<Rightarrow> ([], Loader s) | (r, s) \<Rightarrow> ([], Left r s))))"

text \<open>The bootloader has been stopped, is idle and answers to \<open>brd\<close>.\<close>

definition loader_idle :: "u16 \<Rightarrow> bl \<Rightarrow> bool" where
  "loader_idle brd s \<longleftrightarrow> length (bl_data s) = 8 \<and> \<not> mcp2515_message_available (bl_mcp s) \<and> bootCounter s = 0 \<and> self_addr s = brd \<and>
     \<not> bit (regs (bl_mcp s) TXB0CTRL) 3"

definition addresses_ok :: "u16 \<Rightarrow> u16 \<Rightarrow> bool" where
  "addresses_ok me brd \<longleftrightarrow> unat me < 1024 \<and> unat brd < 1024"

definition message_id :: "u16 \<Rightarrow> u16 \<Rightarrow> u32" where
  "message_id me brd = cf_id (frame_write_to (message_frame me brd 1 0 [])) AND mask 29"

lemma message_packet:
  assumes "length xs \<le> 6"
  shows "cf_data (frame_write_to (message_frame me brd sv cm xs)) = sv # cm # xs"
    "cf_id (frame_write_to (message_frame me brd sv cm xs)) AND mask 29 = message_id me brd"
proof -
  show "cf_data (frame_write_to (message_frame me brd sv cm xs)) = sv # cm # xs"
    using message_fields [OF assms] message_size [OF assms] by (simp add: frame_write_to_def)
  have "m_proto (message_frame me brd a b ys) = 1" "m_prio (message_frame me brd a b ys) = prio_lo" for a b ys
    by (simp_all add: message_frame_def frame_array_def Let_def)
  then show "cf_id (frame_write_to (message_frame me brd sv cm xs)) AND mask 29 = message_id me brd"
    using message_fields [OF assms, of me brd sv cm] message_fields [of "[]" me brd 1 0] by (simp add: message_id_def frame_write_to_def)
qed

lemma message_id_fields:
  assumes "addresses_ok me brd"
  shows "message_id me brd AND ADDR_MASK = ucast me" "drop_bit 10 (message_id me brd) AND ADDR_MASK = ucast brd"
proof -
  have a: "unat me < 1024" "unat brd < 1024" using assms by (simp_all add: addresses_ok_def)
  have small: "ucast a AND (0x3ff :: u32) = ucast a" if "unat a < 1024" for a :: u16
  proof -
    have "take_bit 10 a = a" using that by (simp add: word_unat_eq_iff unsigned_take_bit_eq take_bit_nat_eq_self)
    moreover have "ucast a AND (0x3ff :: u32) = ucast (take_bit 10 a)"
      unfolding mask_literals by (rule bit_word_eqI) (auto simp: bit_simps)
    ultimately show ?thesis by simp
  qed
  have f: "node_frame (message_frame me brd 1 0 []) = \<lparr>fr_src = me, fr_dst = brd, fr_proto = 1, fr_size = 2, fr_data = [1, 0]\<rparr>"
    by code_simp
  show "message_id me brd AND ADDR_MASK = ucast me" "drop_bit 10 (message_id me brd) AND ADDR_MASK = ucast brd"
    unfolding message_id_def write_id extid_masked_fields f by (simp_all add: small a)
qed

text \<open>The identifier of an answer, and the frame the library makes of it.\<close>

definition answer_id :: "u16 \<Rightarrow> u16 \<Rightarrow> u32" where
  "answer_id me brd = push_bit 10 (message_id me brd AND ADDR_MASK) OR ucast brd OR push_bit 20 1"

lemma answer_frame:
  assumes "addresses_ok me brd" "length xs \<le> 6"
  shows "frame_read_from \<lparr>cf_id = answer_id me brd AND mask 29, cf_size = of_nat (length (sv # cm # xs)), cf_data = sv # cm # xs\<rparr> =
    message_frame brd me sv cm xs"
proof -
  have a: "take_bit 10 me = me" "take_bit 10 brd = brd" using assms(1)
    by (simp_all add: addresses_ok_def word_unat_eq_iff unsigned_take_bit_eq take_bit_nat_eq_self)
  then have b: "bit me n \<Longrightarrow> n < 10" "bit brd n \<Longrightarrow> n < 10" for n
    by (metis bit_take_bit_iff)+
  define tag where "tag = push_bit 20 (1 :: u32)"
  have t [simp]: "bit tag n \<longleftrightarrow> n = 20" for n
    unfolding tag_def bit_push_bit_iff bit_1_iff by auto
  have d: "answer_id me brd = push_bit 10 (ucast me) OR ucast brd OR tag"
    by (simp only: answer_id_def message_id_fields(1) [OF assms(1)] tag_def)
  have p: "(1 :: u8) = take_bit 3 1" by simp
  have "ucast ((answer_id me brd AND mask 29) AND mask 10) = brd" "ucast (drop_bit 10 (answer_id me brd AND mask 29) AND mask 10) = me"
    unfolding d by (rule bit_word_eqI; auto simp: bit_simps dest: b)+
  moreover have "ucast (drop_bit 20 (answer_id me brd AND mask 29) AND mask 3) = (1 :: u8)"
    unfolding d by (rule bit_word_eqI) (auto simp: bit_simps bit_1_iff dest: b)
  moreover have "(0x3ff :: u32) = mask 10" "(7 :: u32) = mask 3" by (simp_all add: mask_eq_exp_minus_1)
  ultimately show ?thesis by (simp only: frame_read_from_def message_frame_def frame_array_def) (simp add: Let_def)
qed


section \<open>A frame and its answer\<close>

definition packet_id :: "u16 \<Rightarrow> u16 \<Rightarrow> u8 \<Rightarrow> u8 list \<Rightarrow> u32" where
  "packet_id me brd cm xs = cf_id (frame_write_to (message_frame me brd 1 cm xs))"

lemma loader_frame:
  assumes "loader_idle brd s" "addresses_ok me brd" "length xs \<le> 6"
  shows "bl_receive ch (s\<lparr>bl_mcp := put_frame (packet_id me brd cm xs) (1 # cm # xs) (bl_mcp s)\<rparr>) =
      bl_command ch (message_id me brd) (with_data (packet_id me brd cm xs) (1 # cm # xs) s)"
    "loader_world ch rate (Some (message_frame me brd 1 cm xs)) (Loader s) =
      loader_after (bl_pass ch (s\<lparr>bl_mcp := put_frame (packet_id me brd cm xs) (1 # cm # xs) (bl_mcp s)\<rparr>))"
proof -
  note p = message_packet [OF assms(3), of me brd 1 cm]
  have i: "packet_id me brd cm xs AND mask 29 = message_id me brd" unfolding packet_id_def by (rule p(2))
  have "addressed ch (message_id me brd) s" using message_id_fields(2) [OF assms(2)] assms(1) by (simp add: addressed_def loader_idle_def)
  then show "bl_receive ch (s\<lparr>bl_mcp := put_frame (packet_id me brd cm xs) (1 # cm # xs) (bl_mcp s)\<rparr>) =
      bl_command ch (message_id me brd) (with_data (packet_id me brd cm xs) (1 # cm # xs) s)"
    using bl_receive_frame [of "1 # cm # xs" s ch "packet_id me brd cm xs"] assms by (simp add: i loader_idle_def)
  show "loader_world ch rate (Some (message_frame me brd 1 cm xs)) (Loader s) =
      loader_after (bl_pass ch (s\<lparr>bl_mcp := put_frame (packet_id me brd cm xs) (1 # cm # xs) (bl_mcp s)\<rparr>))"
    by (simp add: loader_world_def Let_def p(1) packet_id_def)
qed

text \<open>The state after a command that leaves the controller, the address and the counter of the boot alone.\<close>

definition same_board :: "bl \<Rightarrow> bl \<Rightarrow> bool" where
  "same_board s t \<longleftrightarrow> flash t = flash s \<and> bl_eeprom t = bl_eeprom s \<and> flash_buffer t = flash_buffer s \<and> lineCounter t = lineCounter s \<and>
     bl_fault t = bl_fault s"

definition command_done :: "u16 \<Rightarrow> bl \<Rightarrow> bl \<Rightarrow> bool" where
  "command_done brd w t \<longleftrightarrow> bl_mcp t = bl_mcp w \<and> length (bl_data t) = 8 \<and> bootCounter t = 0 \<and> self_addr t = brd"

lemma with_data_idle:
  assumes "loader_idle brd s" "length d \<le> 8"
  shows "command_done brd (with_data i d s) (with_data i d s)" "\<not> bit (regs (bl_mcp (with_data i d s)) TXB0CTRL) 3"
proof -
  show "command_done brd (with_data i d s) (with_data i d s)"
    using assms by (simp add: command_done_def loader_idle_def)
  have "regs (bl_mcp (with_data i d s)) TXB0CTRL = regs (bl_mcp s) TXB0CTRL"
    using put_frame_regs(5) [OF assms(2), of i "bl_mcp s"] by (simp add: with_data_def mcp2515_bit_modify_def)
  then show "\<not> bit (regs (bl_mcp (with_data i d s)) TXB0CTRL) 3" using assms(1) by (simp add: loader_idle_def)
qed

lemma tx_done_keeps [simp]:
  "mcp2515_message_available (tx_done m) = mcp2515_message_available m" "\<not> bit (regs (tx_done m) TXB0CTRL) 3"
  by (simp_all add: tx_done_def mcp2515_message_available_def mcp2515_read_register_def bit_simps)

lemma loader_answers:
  assumes "loader_idle brd s" "addresses_ok me brd" "length xs \<le> 6" "length ys \<le> 6"
    and "\<And>i. \<exists>t. bl_command ch (message_id me brd) (with_data i (1 # cm # xs) s) = bl_reply (message_id me brd) (of_nat (length ys + 2)) t \<and>
      command_done brd (with_data i (1 # cm # xs) s) t \<and> same_board t0 t \<and> take (length ys + 2) (bl_data t) = 1 # cm' # ys"
  shows "\<exists>t. loader_world ch rate (Some (message_frame me brd 1 cm xs)) (Loader s) = ([message_frame brd me 1 cm' ys], Loader t) \<and>
    loader_idle brd t \<and> same_board t0 t"
proof -
  let ?i = "packet_id me brd cm xs"
  note i = loader_frame [OF assms(1-3), where ch = ch and cm = cm]
  obtain t where t: "bl_command ch (message_id me brd) (with_data ?i (1 # cm # xs) s) = bl_reply (message_id me brd) (of_nat (length ys + 2)) t"
    "command_done brd (with_data ?i (1 # cm # xs) s) t" "same_board t0 t" "take (length ys + 2) (bl_data t) = 1 # cm' # ys"
    using assms(5) [of ?i] by blast
  let ?n = "of_nat (length ys + 2) :: u8"
  let ?m = "bl_can_send_message (answer_id me brd) (bl_data t) ?n (bl_mcp t)"
  have n: "unat ?n = length ys + 2" using assms(4) by (simp only: unat_of_nat) simp
  have l: "unat ?n \<le> 8" "unat ?n \<le> length (bl_data t)" using n assms(4) t(2) by (simp_all add: command_done_def)
  note sd = bl_send_regs [OF l, of "answer_id me brd" "bl_mcp t"]
  have r: "bl_reply (message_id me brd) ?n t = (Go_on, t\<lparr>bl_mcp := ?m\<rparr>)"
    using t(2) by (simp add: bl_reply_def Let_def answer_id_def command_done_def)
  have p: "bl_pass ch (s\<lparr>bl_mcp := put_frame ?i (1 # cm # xs) (bl_mcp s)\<rparr>) = (Go_on, t\<lparr>bl_mcp := ?m\<rparr>)"
    unfolding bl_pass_def i(1) t(1) r using t(2) by (simp add: bl_boot_def command_done_def)
  have f: "frame_read_from \<lparr>cf_id = answer_id me brd AND mask 29, cf_size = of_nat (length (take (unat ?n) (bl_data t))),
      cf_data = take (unat ?n) (bl_data t)\<rparr> = message_frame brd me 1 cm' ys"
    unfolding n t(4) by (rule answer_frame [OF assms(2,4)])
  have w: "loader_world ch rate (Some (message_frame me brd 1 cm xs)) (Loader s) =
      ([message_frame brd me 1 cm' ys], Loader (t\<lparr>bl_mcp := tx_done ?m\<rparr>))"
    unfolding i(2) p using sd(1) f by (simp add: loader_after_def)
  moreover have "loader_idle brd (t\<lparr>bl_mcp := tx_done ?m\<rparr>)"
    using t(2) available_of_regs [OF sd(2)] by (simp add: loader_idle_def command_done_def)
  moreover have "same_board t0 (t\<lparr>bl_mcp := tx_done ?m\<rparr>)" using t(3) by (simp add: same_board_def)
  ultimately show ?thesis by blast
qed

lemma loader_silent:
  assumes "loader_idle brd s" "addresses_ok me brd" "length xs \<le> 6"
    and "\<And>i. \<exists>t. bl_command ch (message_id me brd) (with_data i (1 # cm # xs) s) = (Go_on, t) \<and>
      command_done brd (with_data i (1 # cm # xs) s) t \<and> same_board t0 t"
  shows "\<exists>t. loader_world ch rate (Some (message_frame me brd 1 cm xs)) (Loader s) = ([], Loader t) \<and> loader_idle brd t \<and> same_board t0 t"
proof -
  let ?i = "packet_id me brd cm xs"
  note i = loader_frame [OF assms(1-3), where ch = ch and cm = cm]
  obtain t where t: "bl_command ch (message_id me brd) (with_data ?i (1 # cm # xs) s) = (Go_on, t)"
    "command_done brd (with_data ?i (1 # cm # xs) s) t" "same_board t0 t"
    using assms(4) [of ?i] by blast
  have "tx_frame (bl_mcp t) = None"
    using with_data_idle(2) [OF assms(1), of "1 # cm # xs" ?i] assms(3) t(2) by (simp add: tx_frame_def command_done_def)
  moreover have "bl_pass ch (s\<lparr>bl_mcp := put_frame ?i (1 # cm # xs) (bl_mcp s)\<rparr>) = (Go_on, t)"
    using t(2) by (simp add: bl_pass_def i(1) t(1) bl_boot_def command_done_def)
  moreover have "loader_idle brd (t\<lparr>bl_mcp := tx_done (bl_mcp t)\<rparr>)" using t(2) by (simp add: loader_idle_def command_done_def)
  moreover have "same_board t0 (t\<lparr>bl_mcp := tx_done (bl_mcp t)\<rparr>)" using t(3) by (simp add: same_board_def)
  ultimately show ?thesis unfolding i(2) by (simp add: loader_after_def)
qed


section \<open>Filling a page\<close>

text \<open>The positions \<open>a\<close> to \<open>b\<close> of the page buffer have got the bytes of \<open>d\<close> from \<open>offset\<close> on.\<close>

definition filled :: "u8 list \<Rightarrow> nat \<Rightarrow> nat \<Rightarrow> nat \<Rightarrow> bl \<Rightarrow> bl \<Rightarrow> bool" where
  "filled d offset a b s t \<longleftrightarrow> length (flash_buffer t) = length (flash_buffer s) \<and>
     (\<forall>j < length (flash_buffer s). flash_buffer t ! j = (if a \<le> j \<and> j < b then d ! (offset + j) else flash_buffer s ! j)) \<and>
     flash t = flash s \<and> bl_eeprom t = bl_eeprom s \<and> bl_fault t = bl_fault s"

lemma filled_trans: "filled d off a b s t \<Longrightarrow> filled d off b c t u \<Longrightarrow> a \<le> b \<Longrightarrow> b \<le> c \<Longrightarrow> filled d off a c s u"
  by (auto simp: filled_def)

lemma filled_nothing [simp]: "filled d off a a s s"
  by (auto simp: filled_def)

lemma fill_four: "fold (\<lambda>i buf. buf[n + i := f i]) [0..<4] xs = xs[n := f 0, n + 1 := f 1, n + 2 := f 2, n + 3 := f (3 :: nat)]"
proof -
  have "[0..<4] = [0, 1, 2, 3 :: nat]" by (simp add: upt_rec numeral_eq_Suc)
  then show ?thesis by simp
qed

lemma loader_fill:
  assumes "loader_idle brd s" "addresses_ok me brd" "unat index + 3 < page_size ch" "page_size ch = length (flash_buffer s)"
    "lc = (if index AND 15 = 0 then 0 else lineCounter s) + 4"
  shows "\<exists>t. transport_send (loader_world ch rate) (send_FLASH_BUFFER_FILL me brd index (d ! (off + unat index)) (d ! (off + unat index + 1))
        (d ! (off + unat index + 2)) (d ! (off + unat index + 3))) \<lparr>inbox = [], peer = Loader s\<rparr> =
      (Inr (), \<lparr>inbox = if lc \<ge> 16 then [message_frame brd me 1 17 []] else [], peer = Loader t\<rparr>) \<and>
    loader_idle brd t \<and> lineCounter t = lc \<and> filled d off (unat index) (unat index + 4) s t"
proof -
  let ?n = "unat index" and ?xs = "[index, d ! (off + unat index), d ! (off + unat index + 1), d ! (off + unat index + 2), d ! (off + unat index + 3)]"
  let ?t = "s\<lparr>flash_buffer := (flash_buffer s)[?n := ?xs ! 1, ?n + 1 := ?xs ! 2, ?n + 2 := ?xs ! 3, ?n + 3 := ?xs ! 4], lineCounter := lc\<rparr>"
  have f: "send_FLASH_BUFFER_FILL me brd index (d ! (off + ?n)) (d ! (off + ?n + 1)) (d ! (off + ?n + 2)) (d ! (off + ?n + 3)) =
      message_frame me brd 1 16 ?xs"
    by (simp add: send_FLASH_BUFFER_FILL_def message_frame_def)
  have b: "bl_fill ch (with_data i (1 # 16 # ?xs) s) =
      (with_data i (1 # 16 # ?xs) s)\<lparr>flash_buffer := flash_buffer ?t, bl_fault := bl_fault s, lineCounter := lc\<rparr>" for i
    using assms(3,5) by (simp add: bl_fill_def Let_def fill_four nth_append)
  have cmd: "bl_command ch (message_id me brd) (with_data i (1 # 16 # ?xs) s) =
      (let u = bl_fill ch (with_data i (1 # 16 # ?xs) s) in if lc \<ge> 16 then bl_reply (message_id me brd) 2 (bl_set 1 17 u) else (Go_on, u))" for i
    using b by (simp add: bl_command_def Let_def)
  have fl: "filled d off ?n (?n + 4) s t" if "same_board ?t t" for t
    using that assms(3,4) unfolding filled_def same_board_def by (auto simp: nth_list_update numeral_eq_Suc le_Suc_eq less_Suc_eq)
  have "\<exists>t. loader_world ch rate (Some (message_frame me brd 1 16 ?xs)) (Loader s) =
      (if lc \<ge> 16 then [message_frame brd me 1 17 []] else [], Loader t) \<and> loader_idle brd t \<and> same_board ?t t"
  proof (cases "lc \<ge> 16")
    case True
    have "\<exists>t. bl_command ch (message_id me brd) (with_data i (1 # 16 # ?xs) s) = bl_reply (message_id me brd) (of_nat (length ([] :: u8 list) + 2)) t \<and>
        command_done brd (with_data i (1 # 16 # ?xs) s) t \<and> same_board ?t t \<and> take (length ([] :: u8 list) + 2) (bl_data t) = [1, 17]" for i
      unfolding cmd Let_def b using True with_data_idle(1) [OF assms(1), of "1 # 16 # ?xs" i]
      by (intro exI [of _ "bl_set 1 17 ((with_data i (1 # 16 # ?xs) s)\<lparr>flash_buffer := flash_buffer ?t, bl_fault := bl_fault s, lineCounter := lc\<rparr>)"])
         (simp add: command_done_def same_board_def)
    from loader_answers [OF assms(1,2) _ _ this, of rate] show ?thesis using True by simp
  next
    case False
    have "\<exists>t. bl_command ch (message_id me brd) (with_data i (1 # 16 # ?xs) s) = (Go_on, t) \<and>
        command_done brd (with_data i (1 # 16 # ?xs) s) t \<and> same_board ?t t" for i
      unfolding cmd Let_def b using False with_data_idle(1) [OF assms(1), of "1 # 16 # ?xs" i]
      by (simp add: command_done_def same_board_def)
    from loader_silent [OF assms(1,2) _ this, of rate] show ?thesis using False by simp
  qed
  then obtain t where "loader_world ch rate (Some (message_frame me brd 1 16 ?xs)) (Loader s) =
      (if lc \<ge> 16 then [message_frame brd me 1 17 []] else [], Loader t)" "loader_idle brd t" "same_board ?t t"
    by blast
  then show ?thesis unfolding f transport_send_def happens_def using fl [of t] by (intro exI [of _ t]) (simp add: same_board_def)
qed


text \<open>A board in its bootloader at the other end, nothing in flight.\<close>

abbreviation (input) waiting :: "bl \<Rightarrow> loader tconn" where
  "waiting s \<equiv> \<lparr>inbox = [], peer = Loader s\<rparr>"

lemma flash_line_fills:
  assumes "loader_idle brd s" "addresses_ok me brd" "16 * k + 15 < page_size ch" "page_size ch = length (flash_buffer s)" "page_size ch \<le> 256"
  shows "\<exists>t. flash_line (loader_world ch rate) me brd d off (of_nat (16 * k)) (waiting s) = (Inr (), waiting t) \<and> loader_idle brd t \<and>
    filled d off (16 * k) (16 * k + 16) s t"
proof -
  let ?fill = "\<lambda>index. flash_fill (loader_world ch rate) me brd d off index"
  have ix: "unat (of_nat (16 * k + j) :: u8) = 16 * k + j" "(of_nat (16 * k + j) :: u8) AND 15 = of_nat j" if "j < 16" for j
  proof -
    show u: "unat (of_nat (16 * k + j) :: u8) = 16 * k + j" using that assms(3,5) by (simp only: unat_of_nat) simp
    have "unat (take_bit 4 (of_nat (16 * k + j) :: u8)) = j"
      using that by (simp only: unsigned_take_bit_eq u) (simp add: take_bit_eq_mod)
    then have "unat ((of_nat (16 * k + j) :: u8) AND mask 4) = j" by (simp only: take_bit_eq_mask)
    then show "(of_nat (16 * k + j) :: u8) AND 15 = of_nat j"
      using that by (simp add: mask_eq_exp_minus_1 word_unat_eq_iff unat_of_nat)
  qed
  have step: "\<exists>t. ?fill (of_nat (16 * k + j)) (waiting s) =
      (Inr (), \<lparr>inbox = if lc \<ge> 16 then [message_frame brd me 1 17 []] else [], peer = Loader t\<rparr>) \<and>
      loader_idle brd t \<and> lineCounter t = lc \<and> filled d off (16 * k + j) (16 * k + j + 4) s t"
    if "loader_idle brd s" "page_size ch = length (flash_buffer s)" "j \<in> {0, 4, 8, 12}" "lc = (if j = 0 then 0 else lineCounter s) + 4" for s j lc
  proof -
    have j: "j < 16" "j + 3 < 16" using that(3) by auto
    have z: "(of_nat j :: u8) = 0 \<longleftrightarrow> j = 0" using that(3) by auto
    show ?thesis unfolding flash_fill_def Let_def
      using loader_fill [OF that(1) assms(2), where index = "of_nat (16 * k + j)" and lc = lc and ch = ch and rate = rate and d = d and off = off]
        that(2,4) j assms(3) by (simp only: ix [OF j(1)] z)
  qed
  obtain t0 where t0: "?fill (of_nat (16 * k + 0)) (waiting s) = (Inr (), waiting t0)" "loader_idle brd t0" "lineCounter t0 = 4"
    "filled d off (16 * k + 0) (16 * k + 0 + 4) s t0"
    using step [OF assms(1,4), of 0 4] by auto
  have l0: "page_size ch = length (flash_buffer t0)" using t0(4) assms(4) by (simp add: filled_def)
  obtain t1 where t1: "?fill (of_nat (16 * k + 4)) (waiting t0) = (Inr (), waiting t1)" "loader_idle brd t1" "lineCounter t1 = 8"
    "filled d off (16 * k + 4) (16 * k + 4 + 4) t0 t1"
    using step [OF t0(2) l0, of 4 8] t0(3) by auto
  have l1: "page_size ch = length (flash_buffer t1)" using t1(4) l0 by (simp add: filled_def)
  obtain t2 where t2: "?fill (of_nat (16 * k + 8)) (waiting t1) = (Inr (), waiting t2)" "loader_idle brd t2" "lineCounter t2 = 12"
    "filled d off (16 * k + 8) (16 * k + 8 + 4) t1 t2"
    using step [OF t1(2) l1, of 8 12] t1(3) by auto
  have l2: "page_size ch = length (flash_buffer t2)" using t2(4) l1 by (simp add: filled_def)
  obtain t3 where t3: "?fill (of_nat (16 * k + 12)) (waiting t2) = (Inr (), \<lparr>inbox = [message_frame brd me 1 17 []], peer = Loader t3\<rparr>)"
    "loader_idle brd t3" "filled d off (16 * k + 12) (16 * k + 12 + 4) t2 t3"
    using step [OF t2(2) l2, of 12 16] t2(3) by auto
  have e: "of_nat (16 * k) + 4 = (of_nat (16 * k + 4) :: u8)" "of_nat (16 * k) + 8 = (of_nat (16 * k + 8) :: u8)"
    "of_nat (16 * k) + 12 = (of_nat (16 * k + 12) :: u8)" "of_nat (16 * k) = (of_nat (16 * k + 0) :: u8)" by simp_all
  have r: "recv_FLASH_BUFFER_FILL_ACK brd me \<lparr>inbox = [message_frame brd me 1 17 []], peer = Loader t3\<rparr> = (Inr [], waiting t3)"
    using recv_message_frame [where xs = "[]" and src = brd and s = brd and d = me and sv = 1 and cm = 17 and c = "waiting t3" and rest = "[]"] by (simp add: recv_FLASH_BUFFER_FILL_ACK_def numeral_2_eq_2)
  have "flash_line (loader_world ch rate) me brd d off (of_nat (16 * k)) (waiting s) = (Inr (), waiting t3)"
    unfolding flash_line_def e(1-3) unfolding e(4)
    by (simp only: bindH_def t0(1) t1(1) t2(1) t3(1) r returnH_def split sum.case)
  moreover have "filled d off (16 * k) (16 * k + 16) s t3"
  proof -
    have a: "16 * k + 0 + 4 = 16 * k + 4" "16 * k + 4 + 4 = 16 * k + 8" "16 * k + 8 + 4 = 16 * k + 12" "16 * k + 12 + 4 = 16 * k + 16" by simp_all
    note f = t0(4) [unfolded a(1)] t1(4) [unfolded a(2)] t2(4) [unfolded a(3)] t3(3) [unfolded a(4)]
    have "filled d off (16 * k + 0) (16 * k + 16) s t3"
      by (rule filled_trans [OF filled_trans [OF filled_trans [OF f(1,2)] f(3)] f(4)]) simp_all
    then show ?thesis by simp
  qed
  ultimately show ?thesis using t3(2) by blast
qed

lemma flash_lines_fill:
  assumes "loader_idle brd s" "addresses_ok me brd" "16 * (k + n) \<le> page_size ch" "page_size ch = length (flash_buffer s)" "page_size ch \<le> 256"
  shows "\<exists>t. flash_lines (loader_world ch rate) me brd d off n (of_nat (16 * k)) (waiting s) = (Inr (), waiting t) \<and> loader_idle brd t \<and>
    filled d off (16 * k) (16 * (k + n)) s t"
  using assms
proof (induction n arbitrary: k s)
  case 0
  then show ?case by (simp add: returnH_def)
next
  case (Suc n)
  have k: "16 * k + 15 < page_size ch" using Suc.prems(3) by simp
  obtain t where t: "flash_line (loader_world ch rate) me brd d off (of_nat (16 * k)) (waiting s) = (Inr (), waiting t)" "loader_idle brd t"
    "filled d off (16 * k) (16 * k + 16) s t"
    using flash_line_fills [OF Suc.prems(1,2) k Suc.prems(4,5)] by blast
  have l: "page_size ch = length (flash_buffer t)" using t(3) Suc.prems(4) by (simp add: filled_def)
  have e: "of_nat (16 * k) + 16 = (of_nat (16 * Suc k) :: u8)" by simp
  obtain u where u: "flash_lines (loader_world ch rate) me brd d off n (of_nat (16 * Suc k)) (waiting t) = (Inr (), waiting u)" "loader_idle brd u"
    "filled d off (16 * Suc k) (16 * (Suc k + n)) t u"
    using Suc.IH [OF t(2) Suc.prems(2) _ l Suc.prems(5), of "Suc k"] Suc.prems(3) by auto
  have "filled d off (16 * k) (16 * (k + Suc n)) s u"
    using filled_trans [OF t(3), of "16 * (Suc k + n)" u] u(3) by (simp add: algebra_simps)
  then show ?case using u(1,2) by (auto simp: bindH_def t(1) e simp del: of_nat_mult of_nat_Suc mult_Suc_right)
qed


section \<open>Writing a page\<close>

lemma page_words:
  assumes "unat addr mod ps = 0" "unat addr + ps \<le> 65536" "even ps" "n \<le> ps div 2"
  shows "fold (\<lambda>k. boot_page_fill ps (addr + of_nat (2 * k)) (f k)) [0..<n] (replicate (ps div 2) x) = map f [0..<n] @ replicate (ps div 2 - n) x"
  using assms(4)
proof (induction n)
  case (Suc n)
  have n: "2 * n < ps" using Suc.prems by linarith
  then have "unat (addr + of_nat (2 * n)) = unat addr + 2 * n"
    using assms(2) by (simp add: unat_word_ariths unat_of_nat del: of_nat_mult)
  moreover have "(unat addr + 2 * n) mod ps = 2 * n"
    using mod_add_left_eq [of "unat addr" ps "2 * n"] assms(1) n by simp
  ultimately have "(unat (addr + of_nat (2 * n)) mod ps) div 2 = n" by simp
  moreover have "replicate (ps div 2 - n) x = x # replicate (ps div 2 - Suc n) x"
    using Suc.prems by (simp add: Suc_diff_Suc flip: replicate_Suc)
  ultimately show ?case using Suc by (simp add: boot_page_fill_def list_update_append)
qed simp

lemma page_written:
  assumes "unat addr mod ps = 0" "unat addr + ps \<le> 65536" "even ps" "0 < ps" "length buf = ps"
  shows "flash_buffer_write ps addr buf fl = (\<lambda>a. if a div ps = unat addr div ps then buf ! (a mod ps) else fl a)"
proof
  fix a
  let ?tmp = "map (\<lambda>k. word16 (buf ! (2 * k + 1)) (buf ! (2 * k))) [0..<ps div 2]"
  have w: "flash_buffer_write ps addr buf fl = boot_page_write ps addr ?tmp (boot_page_erase ps addr fl)"
    using page_words [OF assms(1-3), where n = "ps div 2" and f = "\<lambda>k. word16 (buf ! (2 * k + 1)) (buf ! (2 * k))" and x = "0xffff"]
    by (simp add: flash_buffer_write_def Let_def)
  have m: "a mod ps < ps" using assms(4) by simp
  then have h: "(a mod ps) div 2 < ps div 2" using assms(3) by (auto elim!: evenE)
  have ev: "even (a mod ps) = even a" using assms(3) by (simp add: dvd_mod_iff)
  have "(0xff :: u8) = - 1" by simp
  then have "0xff AND (x :: u8) = x" for x by (simp only: and.left_neutral)
  moreover have "even a \<Longrightarrow> 2 * ((a mod ps) div 2) = a mod ps" using ev by simp
  moreover have "odd a \<Longrightarrow> Suc (2 * ((a mod ps) div 2)) = a mod ps" using ev by (metis odd_two_times_div_two_succ Suc_eq_plus1)
  ultimately show "flash_buffer_write ps addr buf fl a = (if a div ps = unat addr div ps then buf ! (a mod ps) else fl a)"
    using h by (simp add: w boot_page_write_def boot_page_erase_def Let_def)
qed

lemma loader_writes_page:
  assumes "loader_idle brd s" "addresses_ok me brd" "page_size ch = length (flash_buffer s)" "even (page_size ch)" "0 < page_size ch"
    "block * page_size ch + page_size ch \<le> boot_start ch" "boot_start ch \<le> 0xf000"
  shows "\<exists>t. request (loader_world ch rate) (send_FLASH_BUFFER_WRITE me brd (of_nat (block * page_size ch)) (of_nat (block * page_size ch div 256)))
      (recv_FLASH_BUFFER_WRITE_ACK brd me) (waiting s) = (Inr [], waiting t) \<and> loader_idle brd t \<and>
    same_board (s\<lparr>flash := (\<lambda>a. if a div page_size ch = block then flash_buffer s ! (a mod page_size ch) else flash s a)\<rparr>) t"
proof -
  let ?ps = "page_size ch"
  let ?lo = "of_nat (block * ?ps) :: u8" and ?hi = "of_nat (block * ?ps div 256) :: u8"
  let ?t = "s\<lparr>flash := (\<lambda>a. if a div ?ps = block then flash_buffer s ! (a mod ?ps) else flash s a)\<rparr>"
  have f: "send_FLASH_BUFFER_WRITE me brd ?lo ?hi = message_frame me brd 1 18 [?lo, ?hi]"
    by (simp add: send_FLASH_BUFFER_WRITE_def message_frame_def del: of_nat_mult)
  have b: "block * ?ps < 65536" using assms(5-7) by simp
  have a: "word16 ?hi ?lo = of_nat (block * ?ps)"
    using b by (simp only: word_unat_eq_iff unat_word16 unat_of_nat) simp
  have u: "unat (of_nat (block * ?ps) :: u16) = block * ?ps" using b by (simp only: unat_of_nat) simp
  have "unat (of_nat (block * ?ps) :: u16) mod ?ps = 0" "unat (of_nat (block * ?ps) :: u16) + ?ps \<le> 65536" "unat (of_nat (block * ?ps) :: u16) div ?ps = block"
    unfolding u using assms(5-7) by simp_all
  from page_written [OF this(1,2) assms(4,5) assms(3) [symmetric], of "flash s", unfolded this(3)]
  have p: "flash_buffer_write ?ps (word16 ?hi ?lo) (flash_buffer s) (flash s) =
      (\<lambda>a. if a div ?ps = block then flash_buffer s ! (a mod ?ps) else flash s a)"
    unfolding a by simp
  have nb: "\<not> boot_start ch \<le> unat (word16 ?hi ?lo)" unfolding a u using assms(5,6) by simp
  have "\<exists>t. bl_command ch (message_id me brd) (with_data i (1 # 18 # [?lo, ?hi]) s) = bl_reply (message_id me brd) (of_nat (length ([] :: u8 list) + 2)) t \<and>
      command_done brd (with_data i (1 # 18 # [?lo, ?hi]) s) t \<and> same_board ?t t \<and> take (length ([] :: u8 list) + 2) (bl_data t) = [1, 19]" for i
    using with_data_idle(1) [OF assms(1), of "1 # 18 # [?lo, ?hi]" i]
    by (intro exI [of _ "bl_set 1 19 ((with_data i (1 # 18 # [?lo, ?hi]) s)\<lparr>flash := flash ?t, bl_fault := bl_fault s\<rparr>)"])
       (simp add: command_done_def same_board_def bl_command_def Let_def p nb del: of_nat_mult)
  from loader_answers [OF assms(1,2) _ _ this, of rate]
  obtain t where t: "loader_world ch rate (Some (message_frame me brd 1 18 [?lo, ?hi])) (Loader s) = ([message_frame brd me 1 19 []], Loader t)"
    "loader_idle brd t" "same_board ?t t" by auto
  from request_answered [where w = "loader_world ch rate" and c = "waiting s" and n = 2, of _ brd me 1 19 "[]" "Loader t"] t(1)
  have "request (loader_world ch rate) (message_frame me brd 1 18 [?lo, ?hi]) (recv_FLASH_BUFFER_WRITE_ACK brd me) (waiting s) = (Inr [], waiting t)"
    by (simp add: recv_FLASH_BUFFER_WRITE_ACK_def [abs_def])
  then show ?thesis using t(2,3) f by auto
qed


section \<open>Writing the image\<close>

text \<open>The pages in \<open>bs\<close> of the flash hold the image, the others what they held.\<close>

definition flashed :: "nat \<Rightarrow> u8 list \<Rightarrow> nat set \<Rightarrow> bl \<Rightarrow> bl \<Rightarrow> bool" where
  "flashed ps d bs s t \<longleftrightarrow> flash t = (\<lambda>a. if a div ps \<in> bs then d ! a else flash s a) \<and> bl_eeprom t = bl_eeprom s \<and> bl_fault t = bl_fault s \<and>
     length (flash_buffer t) = length (flash_buffer s)"

text \<open>The three processors have such pages, and a bootloader at \<open>0xf000\<close> or below.\<close>

definition chip_ok :: "chip \<Rightarrow> bool" where
  "chip_ok ch \<longleftrightarrow> page_size ch \<in> {64, 128, 256} \<and> boot_start ch \<le> 0xf000"

lemma chips_ok: "chip_ok atmega8" "chip_ok atmega32" "chip_ok atmega644"
  by (simp_all add: chip_ok_def atmega8_def atmega32_def atmega644_def)

lemma flash_block_writes:
  assumes "loader_idle brd s" "addresses_ok me brd" "page_size ch = length (flash_buffer s)" "chip_ok ch"
    "block * page_size ch + page_size ch \<le> boot_start ch"
  shows "\<exists>t. flash_block (loader_world ch rate) me brd (page_size ch) d block (waiting s) = (Inr (), waiting t) \<and> loader_idle brd t \<and>
    flashed (page_size ch) d {block} s t"
proof -
  let ?ps = "page_size ch"
  have ps: "?ps \<le> 256" "even ?ps" "0 < ?ps" "16 * (0 + ?ps div 16) = ?ps" "boot_start ch \<le> 0xf000" using assms(4) by (auto simp: chip_ok_def)
  obtain u where u: "flash_lines (loader_world ch rate) me brd d (block * ?ps) (?ps div 16) (of_nat (16 * 0)) (waiting s) = (Inr (), waiting u)"
    "loader_idle brd u" "filled d (block * ?ps) (16 * 0) ?ps s u"
    using flash_lines_fill [OF assms(1,2) _ assms(3) ps(1), where k = 0 and n = "?ps div 16" and rate = rate and d = d and off = "block * ?ps"] ps(4)
    by auto
  have l: "?ps = length (flash_buffer u)" using u(3) assms(3) by (simp add: filled_def)
  obtain t where t: "request (loader_world ch rate) (send_FLASH_BUFFER_WRITE me brd (of_nat (block * ?ps)) (of_nat (block * ?ps div 256)))
      (recv_FLASH_BUFFER_WRITE_ACK brd me) (waiting u) = (Inr [], waiting t)" "loader_idle brd t"
    "same_board (u\<lparr>flash := (\<lambda>a. if a div ?ps = block then flash_buffer u ! (a mod ?ps) else flash u a)\<rparr>) t"
    using loader_writes_page [OF u(2) assms(2) l ps(2,3) assms(5) ps(5)] by blast
  have z: "(of_nat (16 * 0) :: u8) = 0" by simp
  have "flash_block (loader_world ch rate) me brd ?ps d block (waiting s) = (Inr (), waiting t)"
    using u(1) unfolding z by (simp only: flash_block_def bindH_def t(1) returnH_def split sum.case)
  moreover have "flash t = (\<lambda>a. if a div ?ps \<in> {block} then d ! a else flash s a)"
  proof
    fix a
    have "a mod ?ps < ?ps" using ps(3) by simp
    moreover have "a div ?ps = block \<Longrightarrow> block * ?ps + a mod ?ps = a" using div_mult_mod_eq [of a ?ps] by simp
    ultimately show "flash t a = (if a div ?ps \<in> {block} then d ! a else flash s a)"
      using t(3) u(3) l assms(3) by (auto simp: same_board_def filled_def)
  qed
  ultimately show ?thesis using t(2,3) u(3) l assms(3) by (auto simp: flashed_def same_board_def filled_def)
qed

lemma flash_blocks_write:
  assumes "loader_idle brd s" "addresses_ok me brd" "page_size ch = length (flash_buffer s)" "chip_ok ch"
    "\<forall>b \<in> set bs. b * page_size ch + page_size ch \<le> boot_start ch"
  shows "\<exists>t. flash_blocks (loader_world ch rate) me brd (page_size ch) d None bs (waiting s) = (Inr True, waiting t) \<and> loader_idle brd t \<and>
    flashed (page_size ch) d (set bs) s t"
  using assms
proof (induction bs arbitrary: s)
  case Nil
  then show ?case by (auto simp: returnH_def flashed_def)
next
  case (Cons b bs)
  obtain u where u: "flash_block (loader_world ch rate) me brd (page_size ch) d b (waiting s) = (Inr (), waiting u)" "loader_idle brd u"
    "flashed (page_size ch) d {b} s u"
    using flash_block_writes [OF Cons.prems(1-4), where block = b and rate = rate and d = d] Cons.prems(5) by auto
  have l: "page_size ch = length (flash_buffer u)" using u(3) Cons.prems(3) by (simp add: flashed_def)
  obtain t where t: "flash_blocks (loader_world ch rate) me brd (page_size ch) d None bs (waiting u) = (Inr True, waiting t)" "loader_idle brd t"
    "flashed (page_size ch) d (set bs) u t"
    using Cons.IH [OF u(2) Cons.prems(2) l Cons.prems(4)] Cons.prems(5) by force
  have "flashed (page_size ch) d (set (b # bs)) s t"
    using u(3) t(3) by (auto simp: flashed_def fun_eq_iff)
  then show ?case using t(1,2) by (auto simp: bindH_def u(1))
qed

section \<open>The checksum and the EEPROM\<close>

lemma loader_checksum:
  assumes "loader_idle brd s" "addresses_ok me brd"
  shows "\<exists>t. load_crc16_from_board (loader_world ch rate) me brd sz (waiting s) =
      (if crc_support ch then Inr (calculate_crc16_over_flash sz (flash s)) else Inl Timeout, waiting t) \<and> loader_idle brd t \<and> same_board s t"
proof -
  let ?sum = "calculate_crc16_over_flash sz (flash s)"
  have f: "send_FLASH_CRC16_QUERY me brd (hi8 sz) (lo8 sz) = message_frame me brd 1 37 [hi8 sz, lo8 sz]"
    by (simp add: send_FLASH_CRC16_QUERY_def message_frame_def)
  show ?thesis
  proof (cases "crc_support ch")
    case True
    have "\<exists>t. bl_command ch (message_id me brd) (with_data i (1 # 37 # [hi8 sz, lo8 sz]) s) =
          bl_reply (message_id me brd) (of_nat (length [hi8 ?sum, lo8 ?sum] + 2)) t \<and>
        command_done brd (with_data i (1 # 37 # [hi8 sz, lo8 sz]) s) t \<and> same_board s t \<and>
        take (length [hi8 ?sum, lo8 ?sum] + 2) (bl_data t) = 1 # 38 # [hi8 ?sum, lo8 ?sum]" for i
      using with_data_idle(1) [OF assms(1), of "1 # 37 # [hi8 sz, lo8 sz]" i] True
      by (intro exI [of _ "bl_set 3 (lo8 ?sum) (bl_set 2 (hi8 ?sum) (bl_set 1 38 (with_data i (1 # 37 # [hi8 sz, lo8 sz]) s)))"] conjI)
         (simp add: bl_command_def Let_def, simp add: command_done_def, simp add: same_board_def, simp add: numeral_eq_Suc)
    from loader_answers [OF assms(1,2) _ _ this, of rate]
    obtain t where t: "loader_world ch rate (Some (message_frame me brd 1 37 [hi8 sz, lo8 sz])) (Loader s) =
        ([message_frame brd me 1 38 [hi8 ?sum, lo8 ?sum]], Loader t)" "loader_idle brd t" "same_board s t" by auto
    from request_answered [where w = "loader_world ch rate" and c = "waiting s" and n = 4 and s = brd and d = me and sv = 1 and cm = 38
        and xs = "[hi8 ?sum, lo8 ?sum]" and p = "Loader t" and f = "message_frame me brd 1 37 [hi8 sz, lo8 sz]"] t(1)
    have "request (loader_world ch rate) (message_frame me brd 1 37 [hi8 sz, lo8 sz]) (recv_FLASH_CRC16_REPLAY brd me) (waiting s) =
        (Inr [hi8 ?sum, lo8 ?sum], waiting t)"
      by (simp add: recv_FLASH_CRC16_REPLAY_def [abs_def])
    then show ?thesis using t(2,3) True by (auto simp: load_crc16_from_board_def bindH_def returnH_def f)
  next
    case False
    have "\<exists>t. bl_command ch (message_id me brd) (with_data i (1 # 37 # [hi8 sz, lo8 sz]) s) = (Go_on, t) \<and>
        command_done brd (with_data i (1 # 37 # [hi8 sz, lo8 sz]) s) t \<and> same_board s t" for i
      using with_data_idle(1) [OF assms(1), of "1 # 37 # [hi8 sz, lo8 sz]" i] False
      by (simp add: same_board_def bl_command_def Let_def)
    from loader_silent [OF assms(1,2) _ this, of rate]
    obtain t where t: "loader_world ch rate (Some (message_frame me brd 1 37 [hi8 sz, lo8 sz])) (Loader s) = ([], Loader t)"
      "loader_idle brd t" "same_board s t" by auto
    then have "request (loader_world ch rate) (message_frame me brd 1 37 [hi8 sz, lo8 sz]) (recv_FLASH_CRC16_REPLAY brd me) (waiting s) =
        (Inl Timeout, waiting t)"
      by (simp add: request_def transport_send_def happens_def bindH_def recv_FLASH_CRC16_REPLAY_def recv_message_def recv_frame_def)
    then show ?thesis using t(2,3) False by (auto simp: load_crc16_from_board_def bindH_def returnH_def f)
  qed
qed


text \<open>A bootloader that differs from \<open>k\<close> in its EEPROM at most, and the EEPROM.\<close>

definition loader_ready :: "u16 \<Rightarrow> u16 \<Rightarrow> bl \<Rightarrow> loader \<Rightarrow> bool" where
  "loader_ready me brd k l \<longleftrightarrow> addresses_ok me brd \<and> (\<exists>s. l = Loader s \<and> loader_idle brd s \<and> flash s = flash k \<and> bl_fault s = bl_fault k)"

definition loader_eeprom :: "loader \<Rightarrow> nat \<Rightarrow> u8" where
  "loader_eeprom l = (case l of Loader s \<Rightarrow> bl_eeprom s | Left r s \<Rightarrow> bl_eeprom s)"

lemma loader_eeprom_write:
  assumes "loader_ready me brd k l"
  shows "\<exists>l'. loader_world ch rate (Some (send_INTERNAL_EEPROM_WRITE me brd lo hi v)) l = ([message_frame brd me 1 21 []], l') \<and>
    loader_ready me brd k l' \<and> loader_eeprom l' = (loader_eeprom l)(unat (word16 hi lo) := v)"
proof -
  obtain s where s: "l = Loader s" "loader_idle brd s" "addresses_ok me brd" "flash s = flash k" "bl_fault s = bl_fault k"
    using assms by (auto simp: loader_ready_def)
  let ?t = "s\<lparr>bl_eeprom := (bl_eeprom s)(unat (word16 hi lo) := v)\<rparr>"
  have "\<exists>t. bl_command ch (message_id me brd) (with_data i (1 # 20 # [lo, hi, v]) s) = bl_reply (message_id me brd) (of_nat (length ([] :: u8 list) + 2)) t \<and>
      command_done brd (with_data i (1 # 20 # [lo, hi, v]) s) t \<and> same_board ?t t \<and> take (length ([] :: u8 list) + 2) (bl_data t) = [1, 21]" for i
    using with_data_idle(1) [OF s(2), of "1 # 20 # [lo, hi, v]" i]
    by (intro exI [of _ "bl_set 1 21 ((with_data i (1 # 20 # [lo, hi, v]) s)\<lparr>bl_eeprom := bl_eeprom ?t\<rparr>)"] conjI)
       (simp add: bl_command_def Let_def, simp add: command_done_def, simp add: same_board_def, simp)
  from loader_answers [OF s(2,3) _ _ this, of rate]
  obtain t where t: "loader_world ch rate (Some (message_frame me brd 1 20 [lo, hi, v])) (Loader s) = ([message_frame brd me 1 21 []], Loader t)"
    "loader_idle brd t" "same_board ?t t" by auto
  have "send_INTERNAL_EEPROM_WRITE me brd lo hi v = message_frame me brd 1 20 [lo, hi, v]"
    by (simp add: send_INTERNAL_EEPROM_WRITE_def message_frame_def)
  then show ?thesis using t s by (auto simp: loader_ready_def loader_eeprom_def same_board_def)
qed

lemma loader_eeprom_read:
  assumes "loader_ready me brd k l"
  shows "\<exists>l'. loader_world ch rate (Some (send_INTERNAL_EEPROM_READ_REQUEST me brd lo hi)) l =
      ([message_frame brd me 1 23 [loader_eeprom l (unat (word16 hi lo))]], l') \<and>
    loader_ready me brd k l' \<and> loader_eeprom l' = loader_eeprom l"
proof -
  obtain s where s: "l = Loader s" "loader_idle brd s" "addresses_ok me brd" "flash s = flash k" "bl_fault s = bl_fault k"
    using assms by (auto simp: loader_ready_def)
  let ?v = "bl_eeprom s (unat (word16 hi lo))"
  have "\<exists>t. bl_command ch (message_id me brd) (with_data i (1 # 22 # [lo, hi]) s) = bl_reply (message_id me brd) (of_nat (length [?v] + 2)) t \<and>
      command_done brd (with_data i (1 # 22 # [lo, hi]) s) t \<and> same_board s t \<and> take (length [?v] + 2) (bl_data t) = 1 # 23 # [?v]" for i
    using with_data_idle(1) [OF s(2), of "1 # 22 # [lo, hi]" i]
    by (intro exI [of _ "bl_set 2 ?v (bl_set 1 23 (with_data i (1 # 22 # [lo, hi]) s))"] conjI)
       (simp add: bl_command_def Let_def, simp add: command_done_def, simp add: same_board_def, simp add: numeral_eq_Suc)
  from loader_answers [OF s(2,3) _ _ this, of rate]
  obtain t where t: "loader_world ch rate (Some (message_frame me brd 1 22 [lo, hi])) (Loader s) = ([message_frame brd me 1 23 [?v]], Loader t)"
    "loader_idle brd t" "same_board s t" by auto
  have "send_INTERNAL_EEPROM_READ_REQUEST me brd lo hi = message_frame me brd 1 22 [lo, hi]"
    by (simp add: send_INTERNAL_EEPROM_READ_REQUEST_def message_frame_def)
  then show ?thesis using t s by (auto simp: loader_ready_def loader_eeprom_def same_board_def)
qed

interpretation loader_ee: eeprom_board "loader_world ch rate" "loader_ready me brd k" loader_eeprom me brd
  for ch rate me brd k
  by unfold_locales (rule loader_eeprom_write, assumption, rule loader_eeprom_read, assumption)

lemma image_checksum:
  assumes "length d < 65536" "\<And>a. a < length d \<Longrightarrow> fl a = d ! a"
  shows "calculate_crc16_over_flash (ihex_size d) fl = ihex_crc16 d"
proof -
  have "unat (ihex_size d) = length d" using assms(1) by (simp add: ihex_size_def unat_of_nat)
  then show ?thesis unfolding calculate_crc16_over_flash_def ihex_crc16_def
    by (simp, intro fold_cong refl) (auto simp: crc16_word_def fun_eq_iff assms(2) mult.commute)
qed

text \<open>Asking for the checksum and storing it.\<close>

lemma flash_check_passes:
  assumes "loader_idle brd s" "addresses_ok me brd" "length d < 65536" "\<And>a. a < length d \<Longrightarrow> flash s a = d ! a"
  defines "stored \<equiv> (bl_eeprom s)(16 := lo8 (ihex_crc16 d), 17 := hi8 (ihex_crc16 d), 18 := lo8 (ihex_size d), 19 := hi8 (ihex_size d))"
  shows "\<exists>t. flash_check (loader_world ch rate) me brd d (waiting s) = (True, waiting t) \<and> loader_idle brd t \<and>
    flash t = flash s \<and> bl_fault t = bl_fault s \<and> bl_eeprom t = (if crc_support ch then stored else bl_eeprom s)"
proof -
  let ?crc = "ihex_crc16 d" and ?sz = "ihex_size d"
  have sum: "calculate_crc16_over_flash ?sz (flash s) = ?crc" by (rule image_checksum [OF assms(3,4)])
  obtain t where t: "load_crc16_from_board (loader_world ch rate) me brd ?sz (waiting s) =
      (if crc_support ch then Inr ?crc else Inl Timeout, waiting t)" "loader_idle brd t" "same_board s t"
    using loader_checksum [OF assms(1,2), where ch = ch and rate = rate and sz = ?sz] sum by auto
  show ?thesis
  proof (cases "crc_support ch")
    case True
    have q: "loader_ee.quiet me brd t (waiting t)" using t(2) assms(2) by (auto simp: loader_ee.quiet_def loader_ready_def)
    obtain c1 where c1: "write_eeprom_word_le (loader_world ch rate) me brd 16 ?crc (waiting t) = (Inr (), c1)" "loader_ee.quiet me brd t c1"
      "loader_ee.eeC c1 = (loader_ee.eeC (waiting t))(16 := lo8 ?crc, 17 := hi8 ?crc)"
      using loader_ee.write_word(1) [OF q, of ch rate 16 ?crc] by auto
    obtain c2 where c2: "write_eeprom_word_le (loader_world ch rate) me brd 18 ?sz c1 = (Inr (), c2)" "loader_ee.quiet me brd t c2"
      "loader_ee.eeC c2 = (loader_ee.eeC c1)(18 := lo8 ?sz, 19 := hi8 ?sz)"
      using loader_ee.write_word(1) [OF c1(2), of ch rate 18 ?sz] by auto
    obtain u where u: "c2 = waiting u" "loader_idle brd u" "flash u = flash t" "bl_fault u = bl_fault t"
      using c2(2) by (cases c2) (auto simp: loader_ee.quiet_def loader_ready_def)
    have "flash_check (loader_world ch rate) me brd d (waiting s) = (True, waiting u)"
      using c1(1) c2(1) True by (simp add: flash_check_def save_crc16_to_board_def bindH_def returnH_def t(1) u(1))
    then show ?thesis using u(2-4) c1(3) c2(3) t(3) True
      by (auto simp: loader_ee.eeC_def loader_eeprom_def stored_def same_board_def u(1))
  next
    case False
    then show ?thesis using t by (auto simp: flash_check_def bindH_def same_board_def)
  qed
qed

lemma loader_starts:
  assumes "loader_idle brd s" "addresses_ok me brd"
  shows "\<exists>t. cmd_loadapp (loader_world ch rate) me brd (waiting s) = (Inr (), \<lparr>inbox = [], peer = Left Jump_app t\<rparr>) \<and> same_board s t"
proof -
  let ?w = "with_data (packet_id me brd 8 []) (1 # 8 # []) s"
  have f: "send_DEVICE_LOAD_APP me brd = message_frame me brd 1 8 []" by (simp add: send_DEVICE_LOAD_APP_def message_frame_def)
  have "bl_command ch (message_id me brd) ?w = (Jump_app, ?w)" by (simp add: bl_command_def Let_def)
  then have "bl_pass ch (s\<lparr>bl_mcp := put_frame (packet_id me brd 8 []) (1 # 8 # []) (bl_mcp s)\<rparr>) = (Jump_app, ?w)"
    by (simp add: bl_pass_def loader_frame(1) [OF assms])
  then have "loader_world ch rate (Some (message_frame me brd 1 8 [])) (Loader s) = ([], Left Jump_app ?w)"
    by (simp add: loader_frame(2) [OF assms] loader_after_def)
  moreover have "same_board s ?w" by (simp add: same_board_def)
  ultimately show ?thesis by (auto simp: cmd_loadapp_def transport_send_def happens_def f)
qed


section \<open>The whole update\<close>

lemma flash_tries_installs:
  assumes "chip_ok ch" "addresses_ok me brd" "loader_idle brd s" "length (flash_buffer s) = page_size ch"
    "length d mod page_size ch = 0" "length d \<le> boot_start ch"
  defines "stored \<equiv> (bl_eeprom s)(16 := lo8 (ihex_crc16 d), 17 := hi8 (ihex_crc16 d), 18 := lo8 (ihex_size d), 19 := hi8 (ihex_size d))"
  shows "\<exists>t. flash_tries (loader_world ch rate) me brd (page_size ch) d None (Suc n) (waiting s) =
      (Flashed, \<lparr>inbox = [], peer = Left Jump_app t\<rparr>) \<and> flash t = (\<lambda>a. if a < length d then d ! a else flash s a) \<and>
    bl_eeprom t = (if crc_support ch then stored else bl_eeprom s) \<and> bl_fault t = bl_fault s"
proof -
  let ?ps = "page_size ch" and ?w = "loader_world ch rate"
  have ps: "0 < ?ps" and len: "length d < 65536" using assms(1,6) by (auto simp: chip_ok_def)
  have sz: "unat (ihex_size d) = length d" using len by (simp add: ihex_size_def unat_of_nat)
  have pages: "length d div ?ps * ?ps = length d" using assms(5) div_mult_mod_eq [of "length d" ?ps] by linarith
  have "b * ?ps + ?ps \<le> boot_start ch" if "b < length d div ?ps" for b
  proof -
    have "Suc b * ?ps \<le> length d div ?ps * ?ps" using that by (intro mult_le_mono1) simp
    then show ?thesis using pages assms(6) by (simp add: add.commute)
  qed
  then obtain t where t: "flash_blocks ?w me brd ?ps d None [0..<length d div ?ps] (waiting s) = (Inr True, waiting t)" "loader_idle brd t"
    "flashed ?ps d (set [0..<length d div ?ps]) s t"
    using flash_blocks_write [OF assms(3,2) assms(4) [symmetric] assms(1), where bs = "[0..<length d div ?ps]" and rate = rate and d = d] by auto
  have fl: "flash t = (\<lambda>a. if a < length d then d ! a else flash s a)"
  proof
    fix a
    have "a div ?ps < length d div ?ps \<longleftrightarrow> a < length d" using pages ps by (metis div_less_iff_less_mult)
    then show "flash t a = (if a < length d then d ! a else flash s a)" using t(3) by (simp add: flashed_def)
  qed
  obtain u where u: "flash_check ?w me brd d (waiting t) = (True, waiting u)" "loader_idle brd u" "flash u = flash t" "bl_fault u = bl_fault t"
    "bl_eeprom u = (if crc_support ch then (bl_eeprom t)(16 := lo8 (ihex_crc16 d), 17 := hi8 (ihex_crc16 d), 18 := lo8 (ihex_size d), 19 := hi8 (ihex_size d))
      else bl_eeprom t)"
    using flash_check_passes [OF t(2) assms(2) len, where ch = ch and rate = rate] fl by auto
  obtain v where v: "cmd_loadapp ?w me brd (waiting u) = (Inr (), \<lparr>inbox = [], peer = Left Jump_app v\<rparr>)" "same_board u v"
    using loader_starts [OF u(2) assms(2)] by blast
  have "flash_tries ?w me brd ?ps d None (Suc n) (waiting s) = (Flashed, \<lparr>inbox = [], peer = Left Jump_app v\<rparr>)"
    by (simp add: flash_attempt_def bindH_def sz t(1) u(1) v(1) returnH_def)
  then show ?thesis using v(2) u(3-5) t(3) fl by (auto simp: same_board_def flashed_def stored_def)
qed

text \<open>C28: Flashing a board that waits in its bootloader, stopped and idle, installs the firmware of the hex file: the image
  is in the flash, the rest of the flash, with the bootloader in it, is as it was, and the application is started. The hex
  file can be read, its image with the last page filled up ends below the bootloader, and the bus between the program and
  the board loses nothing. A bootloader with checksums (not that of the ATmega8) has the checksum and the size of the image
  in its EEPROM afterwards; the EEPROM of the other is as it was. After every later reset an undisturbed board starts the
  application again: the first kind because the checksum is right, the other in any case.\<close>

theorem flash_installs_firmware:
  assumes "chip_ok ch" "addresses_ok me brd" "loader_idle brd s" "length (flash_buffer s) = page_size ch"
    "ihex_load hexfile (page_size ch) = Inr d" "length d \<le> boot_start ch"
  shows "\<exists>t. cmd_flash (loader_world ch rate) me brd (page_size ch) hexfile False cache \<lparr>inbox = [], peer = Loader s\<rparr> =
      (Flashed, \<lparr>inbox = [], peer = Left Jump_app t\<rparr>) \<and>
    flash t = (\<lambda>a. if a < length d then d ! a else flash s a) \<and> bl_fault t = bl_fault s \<and>
    bl_eeprom t = (if crc_support ch
      then (bl_eeprom s)(16 := lo8 (ihex_crc16 d), 17 := hi8 (ihex_crc16 d), 18 := lo8 (ihex_size d), 19 := hi8 (ihex_size d)) else bl_eeprom s) \<and>
    (\<forall>mcusr dat buf m. length dat = 8 \<longrightarrow> \<not> mcp2515_message_available m \<longrightarrow>
      fst (bl_run ch (replicate 50 None) (bl_main ch mcusr dat buf (bl_eeprom t) (flash t) m)) = Jump_app)"
proof -
  have ps: "0 < page_size ch" and len: "length d < 65536" using assms(1,6) by (auto simp: chip_ok_def)
  obtain t where t: "flash_tries (loader_world ch rate) me brd (page_size ch) d None (Suc 2) (waiting s) = (Flashed, \<lparr>inbox = [], peer = Left Jump_app t\<rparr>)"
    "flash t = (\<lambda>a. if a < length d then d ! a else flash s a)" "bl_fault t = bl_fault s"
    "bl_eeprom t = (if crc_support ch
      then (bl_eeprom s)(16 := lo8 (ihex_crc16 d), 17 := hi8 (ihex_crc16 d), 18 := lo8 (ihex_size d), 19 := hi8 (ihex_size d)) else bl_eeprom s)"
    using flash_tries_installs [OF assms(1-4) ihex_load_pages [OF assms(5) ps] assms(6)] by blast
  have c: "cmd_flash (loader_world ch rate) me brd (page_size ch) hexfile False cache (waiting s) = (Flashed, \<lparr>inbox = [], peer = Left Jump_app t\<rparr>)"
    using t(1) ps assms(5) by (simp add: cmd_flash_def numeral_3_eq_3 numeral_2_eq_2)
  have "check_firmware (bl_main ch mcusr dat buf (bl_eeprom t) (flash t) m)" if "crc_support ch" for mcusr dat buf m
    using image_checksum [OF len, of "flash t"] t(2,4) that by (simp add: check_firmware_def eeprom_read_word_def)
  then have "fst (bl_run ch (replicate 50 None) (bl_main ch mcusr dat buf (bl_eeprom t) (flash t) m)) = Jump_app"
    if "length dat = 8" "\<not> mcp2515_message_available m" for mcusr dat buf m
    using bootloader_decides [OF that(2,1), where n = 50 and ch = ch and mcusr = mcusr and buf = buf and ee = "bl_eeprom t" and fl = "flash t"] by auto
  then show ?thesis using c t(2-4) by blast
qed

text \<open>A firmware of two bytes is flashed to board 100, an ATmega32 with an empty flash, from address 9.\<close>

definition ex_loader :: bl where
  "ex_loader = \<lparr>bl_mcp = blank, flash = (\<lambda>_. 0xff), bl_eeprom = (\<lambda>_. 0), flash_buffer = replicate 128 0, bl_data = replicate 8 0, bootCounter = 0,
     lineCounter = 0, self_addr = 100, bl_fault = False\<rparr>"

theorem flash_installs_firmware_witness:
  "\<exists>t. cmd_flash (loader_world atmega32 10) 9 100 128 (Some ['':02001000ABCD76'', '':00000001FF'']) False None \<lparr>inbox = [], peer = Loader ex_loader\<rparr> =
      (Flashed, \<lparr>inbox = [], peer = Left Jump_app t\<rparr>) \<and> map (flash t) [0, 1, 2] = [0xab, 0xcd, 0xff] \<and>
    bl_eeprom t 18 = 128 \<and>
    fst (bl_run atmega32 (replicate 50 None) (bl_main atmega32 1 (replicate 8 0) (replicate 128 0) (bl_eeprom t) (flash t) blank)) = Jump_app"
proof -
  let ?f = "['':02001000ABCD76'', '':00000001FF'']" and ?d = "[0xab, 0xcd] @ replicate 126 (0xff :: u8)"
  have ch: "page_size atmega32 = 128" "crc_support atmega32" "boot_start atmega32 = 0x7000" by (simp_all add: atmega32_def)
  have b: "\<not> mcp2515_message_available blank" by (rule ex_firmware_ok)
  have f: "?f = map (\<lambda>(a, bs). data_record a bs) [(0x10, [0xab, 0xcd])] @ [end_record]" by code_simp
  have l: "ihex_load (Some ?f) (page_size atmega32) = Inr ?d"
    unfolding f ch using ihex_load_records [of "[(0x10, [0xab, 0xcd])]" 128 "[0xab, 0xcd]"] by simp
  have o: "chip_ok atmega32" "addresses_ok 9 100" "length (flash_buffer ex_loader) = page_size atmega32" "length ?d \<le> boot_start atmega32"
    by (simp_all add: chips_ok ch addresses_ok_def ex_loader_def)
  have i: "loader_idle 100 ex_loader" using b by (simp add: loader_idle_def ex_loader_def) (simp add: blank_def)
  have sz: "lo8 (ihex_size ?d) = 128" by (simp add: ihex_size_def lo8_def)
  have r: "length (replicate 8 (0 :: u8)) = 8" by simp
  obtain t where t: "cmd_flash (loader_world atmega32 10) 9 100 (page_size atmega32) (Some ?f) False None \<lparr>inbox = [], peer = Loader ex_loader\<rparr> =
      (Flashed, \<lparr>inbox = [], peer = Left Jump_app t\<rparr>)" "flash t = (\<lambda>a. if a < length ?d then ?d ! a else flash ex_loader a)"
    "bl_eeprom t 18 = lo8 (ihex_size ?d)"
    "fst (bl_run atmega32 (replicate 50 None) (bl_main atmega32 1 (replicate 8 0) (replicate 128 0) (bl_eeprom t) (flash t) blank)) = Jump_app"
    using flash_installs_firmware [OF o(1,2) i o(3) l o(4), where rate = 10 and cache = None] b r ch(2) by auto
  have "map (flash t) [0, 1, 2] = [0xab, 0xcd, 0xff]" unfolding t(2) by simp
  then show ?thesis using t(1,3,4) sz ch(1) by auto
qed

end
