(* ===== verification/Syslog_Client.thy ===== *)
theory Syslog_Client
  imports Hostlink Canix_Services
begin

text \<open>
  The messages of the nodes on the host: \<open>transport_connection::syslog\<close> and \<open>templog\<close>
  (\<open>libhcan++/transport_connection.cc\<close>). The frames of a message come one after the other from a node
  (\<open>canix_syslog_P\<close>), mixed with those of other nodes; the program collects the text of each node until it ends with a
  newline. The time stamp of the printed line is left out.
\<close>

section \<open>The program\<close>

record message_entry =
  me_prio :: u8
  me_msg :: "u8 list"

definition prio_name :: "u8 \<Rightarrow> string" where
  "prio_name p = (if p = 1 then ''CRITICAL'' else if p = 2 then ''ERROR'' else if p = 3 then ''Warning'' else if p = 4 then ''debug'' else '''')"

text \<open>What is printed: the sender, the priority and the text. The first byte of an empty string is its terminator.\<close>

definition syslog_frame :: "hframe \<Rightarrow> (u16 \<rightharpoonup> message_entry) \<Rightarrow> (u16 \<times> string \<times> u8 list) list \<times> (u16 \<rightharpoonup> message_entry)" where
  "syslog_frame f ms =
     (if m_proto f = 3 \<and> m_dst f = HCAN_MULTICAST_SYSLOG then
        (case ms (m_src f) of
           Some e \<Rightarrow>
             (let s = me_msg e @ data_as_string f
              in if s \<noteq> [] \<and> last s = 10 then ([(m_src f, prio_name (me_prio e), s)], ms(m_src f := None))
                 else ([], ms(m_src f \<mapsto> e\<lparr>me_msg := s\<rparr>)))
         | None \<Rightarrow> ([], ms(m_src f \<mapsto> \<lparr>me_prio = (if data_as_string f = [] then 0 else hd (data_as_string f)), me_msg = data_as_string f\<rparr>)))
      else ([], ms))"

fun syslog_client :: "hframe list \<Rightarrow> (u16 \<rightharpoonup> message_entry) \<Rightarrow> (u16 \<times> string \<times> u8 list) list \<times> (u16 \<rightharpoonup> message_entry)" where
  "syslog_client [] ms = ([], ms)"
| "syslog_client (f # fs) ms =
     (case syslog_frame f ms of (out, ms) \<Rightarrow> (case syslog_client fs ms of (out', ms) \<Rightarrow> (out @ out', ms)))"

text \<open>The temperatures, as the group and sixteenths of a degree.\<close>

definition templog_frame :: "hframe \<Rightarrow> (u8 \<times> int) list" where
  "templog_frame f =
     (if m_proto f = HCAN_PROTO_SFP \<and> m_dst f = HCAN_MULTICAST_INFO \<and> frame_data f 0 = HCAN_SRV_HES \<and>
         frame_data f 1 = HCAN_HES_1WIRE_TEMPERATURE
      then [(frame_data f 2, sint (word16 (frame_data f 3) (frame_data f 4)))] else [])"

section \<open>The messages of a node\<close>

definition is_syslog :: "u16 \<Rightarrow> hframe \<Rightarrow> bool" where
  "is_syslog a f \<longleftrightarrow> m_src f = a \<and> m_proto f = 3 \<and> m_dst f = HCAN_MULTICAST_SYSLOG"

text \<open>A node does not see the others.\<close>

lemma syslog_frame_other:
  "\<not> is_syslog a f \<Longrightarrow> filter (\<lambda>x. fst x = a) (fst (syslog_frame f ms)) = [] \<and> snd (syslog_frame f ms) a = ms a"
  by (auto simp: syslog_frame_def is_syslog_def Let_def split: option.splits)

lemma syslog_frame_own:
  "is_syslog a f \<Longrightarrow> ms a = ms' a \<Longrightarrow> fst (syslog_frame f ms) = fst (syslog_frame f ms') \<and>
    snd (syslog_frame f ms) a = snd (syslog_frame f ms') a \<and> list_all (\<lambda>x. fst x = a) (fst (syslog_frame f ms))"
  by (auto simp: syslog_frame_def is_syslog_def Let_def split: option.splits)

lemma syslog_client_filter:
  "ms a = ms' a \<Longrightarrow> filter (\<lambda>x. fst x = a) (fst (syslog_client fs ms)) = fst (syslog_client (filter (is_syslog a) fs) ms') \<and>
    snd (syslog_client fs ms) a = snd (syslog_client (filter (is_syslog a) fs) ms') a"
proof (induction fs arbitrary: ms ms')
  case (Cons f fs)
  obtain o1 m1 where f: "syslog_frame f ms = (o1, m1)" by fastforce
  obtain o2 m2 where f': "syslog_frame f ms' = (o2, m2)" by fastforce
  show ?case
  proof (cases "is_syslog a f")
    case True
    then have "o1 = o2" "m1 a = m2 a" "list_all (\<lambda>x. fst x = a) o1"
      using syslog_frame_own [where ms = ms and ms' = ms', OF True Cons.prems] f f' by auto
    moreover have "filter (\<lambda>x. fst x = a) o1 = o1" using \<open>list_all _ o1\<close> by (simp add: list_all_iff filter_id_conv)
    ultimately show ?thesis using Cons.IH [of m1 m2] True by (auto simp: f f' split: prod.splits)
  next
    case False
    then have "filter (\<lambda>x. fst x = a) o1 = []" "m1 a = ms a" using syslog_frame_other [OF False, of ms] f by auto
    then show ?thesis using Cons.IH [of m1 ms'] Cons.prems False by (auto simp: f split: prod.splits)
  qed
qed simp

text \<open>What is shown of the messages of a node: a message of a single frame waits for the next one, which is appended.\<close>

fun shown :: "u16 \<Rightarrow> (u8 \<times> u8 list) option \<Rightarrow> (u8 \<times> u8 list) list \<Rightarrow> (u16 \<times> string \<times> u8 list) list" where
  "shown a w [] = []"
| "shown a None ((p, t) # ms) =
     (if length t \<le> 6 then shown a (Some (p, p # t @ [10])) ms else (a, prio_name p, p # take 125 t @ [10]) # shown a None ms)"
| "shown a (Some (q, s)) ((p, t) # ms) = (a, prio_name q, s @ p # take 125 t @ [10]) # shown a None ms"

definition node_messages :: "u16 \<Rightarrow> (u8 \<times> u8 list) list \<Rightarrow> hframe list" where
  "node_messages a ms = map host_frame (concat (map (\<lambda>(p, t). canix_syslog_frames p t a) ms))"

definition payload_frame :: "u16 \<Rightarrow> u8 list \<Rightarrow> hframe" where
  "payload_frame a d = host_frame \<lparr>fr_src = a, fr_dst = HCAN_MULTICAST_SYSLOG, fr_proto = HCAN_PROTO_SYSLOG, fr_size = of_nat (length d), fr_data = d\<rparr>"

lemma payload_fields:
  assumes "length d \<le> 8"
  shows "is_syslog a (payload_frame a d)" "data_as_string (payload_frame a d) = d"
proof -
  have "unat (ucast (of_nat (length d) :: u8) :: u32) = length d" using assms
    by (simp add: unsigned_ucast_eq unat_of_nat take_bit_nat_eq_self)
  moreover from this have "\<not> (ucast (of_nat (length d) :: u8) :: u32) > 8" using assms by (simp add: word_less_nat_alt)
  ultimately show "is_syslog a (payload_frame a d)" "data_as_string (payload_frame a d) = d"
    by (simp_all add: payload_frame_def host_frame_def frame_array_def Let_def is_syslog_def data_as_string_def)
qed

text \<open>Collecting: frames whose text does not end with a newline, then one whose text does.\<close>

definition collect :: "u16 \<Rightarrow> u8 list list \<Rightarrow> (u16 \<rightharpoonup> message_entry) \<Rightarrow> (u16 \<times> string \<times> u8 list) list \<times> (u16 \<rightharpoonup> message_entry)" where
  "collect a ds ms = syslog_client (map (payload_frame a) ds) ms"

lemma collect_step:
  assumes "length d \<le> 8" "d \<noteq> []"
  shows "collect a (d # ds) ms = (case ms a of
      None \<Rightarrow> collect a ds (ms(a \<mapsto> \<lparr>me_prio = hd d, me_msg = d\<rparr>))
    | Some e \<Rightarrow> if last d = 10
        then (case collect a ds (ms(a := None)) of (out, ms) \<Rightarrow> ((a, prio_name (me_prio e), me_msg e @ d) # out, ms))
        else collect a ds (ms(a \<mapsto> e\<lparr>me_msg := me_msg e @ d\<rparr>)))"
  using payload_fields [OF assms(1), of a] assms(2)
  by (auto simp: collect_def syslog_frame_def is_syslog_def Let_def split: option.splits prod.splits)

lemma collect_rest:
  assumes "10 \<notin> set t" "ms a = Some e" "chunks8 (t @ [10]) = ds"
  shows "collect a (ds @ rest) ms = (case collect a rest (ms(a := None)) of (out, ms) \<Rightarrow> ((a, prio_name (me_prio e), me_msg e @ t @ [10]) # out, ms))"
  using assms
proof (induction t arbitrary: ms e ds rule: measure_induct_rule [of length])
  case (less t)
  show ?case
  proof (cases "length t < 8")
    case True
    then have "chunks8 (t @ [10]) = [t @ [10]]" by (cases t) simp_all
    then show ?thesis using less.prems True by (simp add: collect_step fun_upd_def)
  next
    case False
    then have ch: "chunks8 (t @ [10]) = take 8 t # chunks8 (drop 8 t @ [10])" by (cases t) simp_all
    have l: "take 8 t \<noteq> []" "last (take 8 t) \<noteq> 10"
    proof -
      show "take 8 t \<noteq> []" using False by (cases t) auto
      then show "last (take 8 t) \<noteq> 10" using less.prems(1) by (metis in_set_takeD last_in_set)
    qed
    have sh: "length (drop 8 t) < length t" "10 \<notin> set (drop 8 t)" using False less.prems(1) by (auto dest: in_set_dropD)
    let ?ms = "ms(a \<mapsto> e\<lparr>me_msg := me_msg e @ take 8 t\<rparr>)"
    have "collect a (ds @ rest) ms = collect a (chunks8 (drop 8 t @ [10]) @ rest) ?ms"
      unfolding less.prems(3) [symmetric] ch using l less.prems(2) by (simp add: collect_step)
    also have "\<dots> = (case collect a rest (?ms(a := None)) of (out, ms) \<Rightarrow> ((a, prio_name (me_prio e), (me_msg e @ take 8 t) @ drop 8 t @ [10]) # out, ms))"
      using less.IH [where ms = ?ms and e = "e\<lparr>me_msg := me_msg e @ take 8 t\<rparr>", OF sh _ refl] by (simp add: fun_upd_def cong: if_cong)
    moreover have "?ms(a := None) = ms(a := None)" "take 8 t @ drop 8 t @ [10] = t @ [10]"
      using append_assoc [of "take 8 t" "drop 8 t" "[10]"] by simp_all
    ultimately show ?thesis by (simp add: fun_upd_def cong: if_cong)
  qed
qed

lemma collect_messages:
  assumes "\<forall>(p, t) \<in> set ms. 10 \<notin> set t"
    and "case w of None \<Rightarrow> m a = None | Some (q, s) \<Rightarrow> m a = Some \<lparr>me_prio = q, me_msg = s\<rparr>"
  shows "fst (collect a (concat (map (\<lambda>(p, t). syslog_payloads p (take 125 t @ [10])) ms)) m) = shown a w ms"
  using assms
proof (induction ms arbitrary: w m)
  case Nil
  then show ?case by (simp add: collect_def)
next
  case (Cons pt ms)
  obtain p t where pt: "pt = (p, t)" by fastforce
  have ms: "\<forall>(p, t) \<in> set ms. 10 \<notin> set t" and t: "10 \<notin> set (take 125 t)" using Cons.prems(1) by (auto simp: pt dest: in_set_takeD)
  let ?t = "take 125 t" and ?rest = "concat (map (\<lambda>(p, t). syslog_payloads p (take 125 t @ [10])) ms)"
  show ?case
  proof (cases "length t \<le> 6")
    case True
    then have pl: "syslog_payloads p (t @ [10]) = [p # t @ [10]]" by (simp add: syslog_payloads_def)
    show ?thesis
    proof (cases w)
      case None
      then have "m a = None" using Cons.prems(2) by simp
      then show ?thesis using Cons.IH [where w = "Some (p, p # t @ [10])" and m = "m(a \<mapsto> \<lparr>me_prio = p, me_msg = p # t @ [10]\<rparr>)", OF ms] True None
        by (simp add: pt pl collect_step fun_upd_def)
    next
      case (Some qs)
      then obtain q s where w: "w = Some (q, s)" "m a = Some \<lparr>me_prio = q, me_msg = s\<rparr>" using Cons.prems(2) by (cases qs) auto
      then show ?thesis using Cons.IH [where w = None and m = "m(a := None)", OF ms] True
        by (auto simp: pt pl collect_step fun_upd_def split: prod.splits)
    qed
  next
    case False
    then have pl: "syslog_payloads p (?t @ [10]) = (p # take 7 ?t) # chunks8 (drop 7 ?t @ [10])" by (simp add: syslog_payloads_def)
    have l: "take 7 ?t \<noteq> []" "last (take 7 ?t) \<noteq> 10"
    proof -
      show "take 7 ?t \<noteq> []" using False by (cases t) auto
      then show "last (take 7 ?t) \<noteq> 10" using t by (metis in_set_takeD last_in_set)
    qed
    have t7: "10 \<notin> set (drop 7 ?t)" using t by (auto dest: in_set_dropD)
    have join: "(p # take 7 ?t) @ drop 7 ?t @ [10] = p # ?t @ [10]"
      by (metis append.assoc append_Cons append_take_drop_id)
    show ?thesis
    proof (cases w)
      case None
      let ?m = "m(a \<mapsto> \<lparr>me_prio = p, me_msg = p # take 7 ?t\<rparr>)"
      have "m a = None" using None Cons.prems(2) by simp
      then have "collect a (((p # take 7 ?t) # chunks8 (drop 7 ?t @ [10])) @ ?rest) m = collect a (chunks8 (drop 7 ?t @ [10]) @ ?rest) ?m"
        by (simp add: collect_step del: take_take)
      also have "\<dots> = (case collect a ?rest (?m(a := None)) of (out, ms) \<Rightarrow> ((a, prio_name p, (p # take 7 ?t) @ drop 7 ?t @ [10]) # out, ms))"
        using collect_rest [OF t7, of ?m a "\<lparr>me_prio = p, me_msg = p # take 7 ?t\<rparr>"] by simp
      finally show ?thesis using Cons.IH [where w = None and m = "?m(a := None)", OF ms] False None join
        by (auto simp: pt pl fun_upd_def split: prod.splits simp del: take_take)
    next
      case (Some qs)
      then obtain q s where w: "w = Some (q, s)" "m a = Some \<lparr>me_prio = q, me_msg = s\<rparr>" using Cons.prems(2) by (cases qs) auto
      let ?m = "m(a \<mapsto> \<lparr>me_prio = q, me_msg = s @ p # take 7 ?t\<rparr>)"
      have "collect a (((p # take 7 ?t) # chunks8 (drop 7 ?t @ [10])) @ ?rest) m = collect a (chunks8 (drop 7 ?t @ [10]) @ ?rest) ?m"
        using w l by (simp add: collect_step del: take_take)
      also have "\<dots> = (case collect a ?rest (?m(a := None)) of (out, ms) \<Rightarrow> ((a, prio_name q, (s @ p # take 7 ?t) @ drop 7 ?t @ [10]) # out, ms))"
        using collect_rest [OF t7, of ?m a "\<lparr>me_prio = q, me_msg = s @ p # take 7 ?t\<rparr>"] by simp
      finally show ?thesis using Cons.IH [where w = None and m = "?m(a := None)", OF ms] False w join
        by (auto simp: pt pl fun_upd_def split: prod.splits simp del: take_take)
    qed
  qed
qed

lemma node_messages_payloads:
  "node_messages a ms = map (payload_frame a) (concat (map (\<lambda>(p, t). syslog_payloads p (take 125 t @ [10])) ms))"
  by (induction ms) (auto simp: node_messages_def canix_syslog_frames_def payload_frame_def)

lemma shown_long: "\<forall>(p, t) \<in> set ms. 7 \<le> length t \<Longrightarrow> shown a None ms = map (\<lambda>(p, t). (a, prio_name p, p # take 125 t @ [10])) ms"
  by (induction ms) auto

text \<open>C27: The messages of the nodes are put together again: whatever the order in which the frames of different
  nodes arrive, the lines that show a node are what \<open>shown\<close> says of its messages, cut at 125 characters,
  if none of its messages has a newline in it (a message with one is split there, and what follows the newline is lost
  or mixed with the next message). Messages of at least seven characters are each shown once, complete up to the cut
  and in order; a shorter one, which is a single frame, is shown only together with the next message of the node.
  Every line starts with the byte of the priority.\<close>

theorem syslog_shows_messages:
  assumes "filter (is_syslog a) fs = node_messages a ms" "\<forall>(p, t) \<in> set ms. 10 \<notin> set t"
  shows "filter (\<lambda>x. fst x = a) (fst (syslog_client fs Map.empty)) = shown a None ms \<and>
    ((\<forall>(p, t) \<in> set ms. 7 \<le> length t) \<longrightarrow>
      filter (\<lambda>x. fst x = a) (fst (syslog_client fs Map.empty)) = map (\<lambda>(p, t). (a, prio_name p, p # take 125 t @ [10])) ms)"
proof -
  have "filter (\<lambda>x. fst x = a) (fst (syslog_client fs Map.empty)) = fst (syslog_client (node_messages a ms) Map.empty)"
    using syslog_client_filter [of Map.empty a Map.empty fs] assms(1) by simp
  also have "\<dots> = shown a None ms"
    using collect_messages [where w = None and m = Map.empty and a = a, OF assms(2)] by (simp add: node_messages_payloads collect_def)
  finally show ?thesis using shown_long [of ms a] by auto
qed

text \<open>Two nodes at a time; the first message of node 9 is a short one.\<close>

theorem syslog_shows_messages_witness:
  "filter (\<lambda>x. fst x = 9) (fst (syslog_client
     (node_messages 9 [(2, [65, 66])] @ take 1 (node_messages 7 [(4, [67, 67, 67, 67, 67, 67, 67, 67])]) @
      node_messages 9 [(1, [68, 68, 68, 68, 68, 68, 68])]) Map.empty)) =
   [(9, ''ERROR'', [2, 65, 66, 10, 1, 68, 68, 68, 68, 68, 68, 68, 10])]"
proof -
  let ?fs = "node_messages 9 [(2, [65, 66])] @ take 1 (node_messages 7 [(4, [67, 67, 67, 67, 67, 67, 67, 67])]) @
      node_messages 9 [(1, [68, 68, 68, 68, 68, 68, 68])]"
  have "filter (is_syslog 9) ?fs = node_messages 9 [(2, [65, 66]), (1, [68, 68, 68, 68, 68, 68, 68])]" by code_simp
  moreover have "shown 9 None [(2, [65, 66]), (1, [68, 68, 68, 68, 68, 68, 68])] = [(9, ''ERROR'', [2, 65, 66, 10, 1, 68, 68, 68, 68, 68, 68, 68, 10])]"
    by code_simp
  ultimately show ?thesis using syslog_shows_messages [of 9 ?fs "[(2, [65, 66]), (1, [68, 68, 68, 68, 68, 68, 68])]"] by auto
qed

end
